(* ===== verification/Prelude.thy ===== *)
theory Prelude
  imports Complex_Main
begin

text \<open>
  What every component of the payroll model shares: the Rust integer types the code uses
  (values are \<open>int\<close>s, and each arithmetic operation writes its two's complement wrap-around
  out), \<open>Option\<close> and iterator helpers, and the lemma collections that carry the component
  proofs.

  A release build of the crates wraps on overflow and a debug build panics there; the model
  wraps, and the bounds theorems of the components say for which inputs no wrap happens.
\<close>

named_theorems i64_simps "normal form of wrapping 64-bit arithmetic"
named_theorems range_intros "membership in a machine integer's range"

section \<open>Machine integers\<close>

type_synonym i64 = int
type_synonym i32 = int
type_synonym u64 = int
type_synonym u8 = int

definition i64_min :: int where
  "i64_min = - 9223372036854775808"

definition i64_max :: int where
  "i64_max = 9223372036854775807"

definition is_i64 :: "int \<Rightarrow> bool" where
  "is_i64 n \<longleftrightarrow> - 9223372036854775808 \<le> n \<and> n \<le> 9223372036854775807"

text \<open>Two's complement reduction to 64 bits: the value of the low 64 bits, read as signed.\<close>

definition wrap64 :: "int \<Rightarrow> i64" where
  "wrap64 n = (n + 9223372036854775808) mod 18446744073709551616 - 9223372036854775808"

definition i64_add :: "i64 \<Rightarrow> i64 \<Rightarrow> i64" where
  "i64_add a b = wrap64 (a + b)"

definition i64_sub :: "i64 \<Rightarrow> i64 \<Rightarrow> i64" where
  "i64_sub a b = wrap64 (a - b)"

definition i64_mul :: "i64 \<Rightarrow> i64 \<Rightarrow> i64" where
  "i64_mul a b = wrap64 (a * b)"

definition i64_neg :: "i64 \<Rightarrow> i64" where
  "i64_neg a = wrap64 (- a)"

definition i64_abs :: "i64 \<Rightarrow> i64" where
  "i64_abs a = wrap64 \<bar>a\<bar>"

lemma wrap64_range [range_intros, simp, intro]: "is_i64 (wrap64 n)"
  unfolding is_i64_def wrap64_def
  using pos_mod_bound[of 18446744073709551616 "n + 9223372036854775808"]
    pos_mod_sign[of 18446744073709551616 "n + 9223372036854775808"] by linarith

lemma wrap64_id [i64_simps]: "is_i64 n \<Longrightarrow> wrap64 n = n"
  by (simp add: is_i64_def wrap64_def mod_pos_pos_trivial)

lemma wrap64_wrap64 [simp]: "wrap64 (wrap64 n) = wrap64 n"
  by (rule wrap64_id) simp

lemma wrap64_add_left [i64_simps]: "wrap64 (wrap64 a + b) = wrap64 (a + b)"
proof -
  have "wrap64 a + b + 9223372036854775808
      = (a + 9223372036854775808) mod 18446744073709551616 + b"
    by (simp add: wrap64_def)
  then have "(wrap64 a + b + 9223372036854775808) mod 18446744073709551616
      = (a + 9223372036854775808 + b) mod 18446744073709551616"
    by (simp only: mod_add_left_eq)
  moreover have "a + 9223372036854775808 + b = a + b + 9223372036854775808" by simp
  ultimately show ?thesis by (simp only: wrap64_def[of "wrap64 a + b"] wrap64_def[of "a + b"])
qed

lemma wrap64_add_right [i64_simps]: "wrap64 (a + wrap64 b) = wrap64 (a + b)"
  using wrap64_add_left[of b a] by (simp add: add.commute)

lemma wrap64_cong_shift: "wrap64 (a + 18446744073709551616 * k) = wrap64 a"
  using mod_mult_self1[of "a + 9223372036854775808" k 18446744073709551616]
  by (simp add: wrap64_def ac_simps)

lemma wrap64_congruent: "\<exists>k. wrap64 a = a + 18446744073709551616 * k"
proof
  show "wrap64 a = a + 18446744073709551616 * (- ((a + 9223372036854775808) div 18446744073709551616))"
    unfolding wrap64_def
    using div_mult_mod_eq[of "a + 9223372036854775808" 18446744073709551616] by linarith
qed

lemma wrap64_sub_right [i64_simps]: "wrap64 (a - wrap64 b) = wrap64 (a - b)"
proof -
  obtain k where "wrap64 b = b + 18446744073709551616 * k" using wrap64_congruent by blast
  then have "a - wrap64 b = (a - b) + 18446744073709551616 * (- k)" by simp
  then show ?thesis by (simp only: wrap64_cong_shift)
qed

lemma wrap64_sub_left [i64_simps]: "wrap64 (wrap64 a - b) = wrap64 (a - b)"
  using wrap64_add_left[of a "- b"] by simp

lemma wrap64_eq_iff: "is_i64 a \<Longrightarrow> is_i64 b \<Longrightarrow> wrap64 (a - b) = 0 \<longleftrightarrow> a = b"
proof
  assume r: "is_i64 a" "is_i64 b" and z: "wrap64 (a - b) = 0"
  obtain k where "wrap64 (a - b) = a - b + 18446744073709551616 * k" using wrap64_congruent by blast
  with z have "a - b = 18446744073709551616 * (- k)" by simp
  moreover from r have "- 18446744073709551616 < a - b" "a - b < 18446744073709551616"
    by (auto simp: is_i64_def)
  ultimately have "k = 0" by linarith
  with \<open>a - b = _\<close> show "a = b" by simp
qed (simp add: wrap64_id is_i64_def)

lemma i64_ops_range [simp, range_intros]:
  "is_i64 (i64_add a b)" "is_i64 (i64_sub a b)" "is_i64 (i64_mul a b)"
  "is_i64 (i64_neg a)" "is_i64 (i64_abs a)"
  by (simp_all add: i64_add_def i64_sub_def i64_mul_def i64_neg_def i64_abs_def)

lemmas i64_defs = i64_add_def i64_sub_def i64_mul_def i64_neg_def i64_abs_def

lemma is_i64I: "- 9223372036854775808 \<le> n \<Longrightarrow> n \<le> 9223372036854775807 \<Longrightarrow> is_i64 n"
  by (simp add: is_i64_def)

lemma is_i64_max0 [simp, range_intros]: "is_i64 n \<Longrightarrow> is_i64 (max n 0)"
  by (auto simp: is_i64_def)

section \<open>Options and lists\<close>

text \<open>\<open>Option::filter\<close>.\<close>

definition opt_filter :: "('a \<Rightarrow> bool) \<Rightarrow> 'a option \<Rightarrow> 'a option" where
  "opt_filter p x = (case x of None \<Rightarrow> None | Some v \<Rightarrow> if p v then Some v else None)"

lemma opt_filter_simps [simp]:
  "opt_filter p None = None"
  "opt_filter p (Some v) = (if p v then Some v else None)"
  by (simp_all add: opt_filter_def)

text \<open>\<open>Option::unwrap_or\<close>.\<close>

definition unwrap_or :: "'a \<Rightarrow> 'a option \<Rightarrow> 'a" where
  "unwrap_or d x = (case x of None \<Rightarrow> d | Some v \<Rightarrow> v)"

lemma unwrap_or_simps [simp]: "unwrap_or d None = d" "unwrap_or d (Some v) = v"
  by (simp_all add: unwrap_or_def)

text \<open>\<open>Option::is_some_and\<close>.\<close>

definition is_some_and :: "('a \<Rightarrow> bool) \<Rightarrow> 'a option \<Rightarrow> bool" where
  "is_some_and p x = (case x of None \<Rightarrow> False | Some v \<Rightarrow> p v)"

lemma is_some_and_simps [simp]: "\<not> is_some_and p None" "is_some_and p (Some v) = p v"
  by (simp_all add: is_some_and_def)

text \<open>\<open>Option::or\<close>.\<close>

definition opt_or :: "'a option \<Rightarrow> 'a option \<Rightarrow> 'a option" where
  "opt_or x y = (case x of None \<Rightarrow> y | Some v \<Rightarrow> Some v)"

lemma opt_or_simps [simp]: "opt_or None y = y" "opt_or (Some v) y = Some v"
  by (simp_all add: opt_or_def)

text \<open>\<open>Iterator::find\<close>: the first element that satisfies the predicate.\<close>

fun find_first :: "('a \<Rightarrow> bool) \<Rightarrow> 'a list \<Rightarrow> 'a option" where
  "find_first p [] = None"
| "find_first p (x # xs) = (if p x then Some x else find_first p xs)"

lemma find_first_Some: "find_first p xs = Some x \<Longrightarrow> x \<in> set xs \<and> p x"
  by (induction xs) (auto split: if_splits)

lemma find_first_split:
  "find_first p xs = Some x \<Longrightarrow> \<exists>before after. xs = before @ x # after \<and> p x \<and> (\<forall>y \<in> set before. \<not> p y)"
proof (induction xs)
  case (Cons y ys)
  show ?case
  proof (cases "p y")
    case True
    with Cons.prems have "y # ys = [] @ x # ys \<and> p x" by simp
    then show ?thesis by fastforce
  next
    case False
    with Cons obtain before after where "ys = before @ x # after" "p x" "\<forall>z \<in> set before. \<not> p z" by auto
    with False have "y # ys = (y # before) @ x # after \<and> (\<forall>z \<in> set (y # before). \<not> p z)" by simp
    with \<open>p x\<close> show ?thesis by blast
  qed
qed simp

lemma find_first_None: "find_first p xs = None \<longleftrightarrow> (\<forall>x\<in>set xs. \<not> p x)"
  by (induction xs) auto

section \<open>Results\<close>

text \<open>
  The \<open>?\<close> operator, \<open>Option::ok_or\<close>, and the loops that stop at the first error: one that changes a
  state and one that collects.
\<close>

definition result_bind :: "'e + 'a \<Rightarrow> ('a \<Rightarrow> 'e + 'b) \<Rightarrow> 'e + 'b" where
  "result_bind r f = (case r of Inl e \<Rightarrow> Inl e | Inr a \<Rightarrow> f a)"

definition ok_or :: "'e \<Rightarrow> 'a option \<Rightarrow> 'e + 'a" where
  "ok_or e x = (case x of None \<Rightarrow> Inl e | Some a \<Rightarrow> Inr a)"

fun try_fold :: "('s \<Rightarrow> 'a \<Rightarrow> 'e + 's) \<Rightarrow> 's \<Rightarrow> 'a list \<Rightarrow> 'e + 's" where
  "try_fold f s [] = Inr s"
| "try_fold f s (x # xs) = result_bind (f s x) (\<lambda>s'. try_fold f s' xs)"

fun try_map :: "('a \<Rightarrow> 'e + 'b) \<Rightarrow> 'a list \<Rightarrow> 'e + 'b list" where
  "try_map f [] = Inr []"
| "try_map f (x # xs) = result_bind (f x) (\<lambda>y. result_bind (try_map f xs) (\<lambda>ys. Inr (y # ys)))"

lemma result_bind_simps [simp]: "result_bind (Inl e) f = Inl e" "result_bind (Inr a) f = f a"
  by (simp_all add: result_bind_def)

lemma result_bind_Inr_iff: "result_bind r f = Inr b \<longleftrightarrow> (\<exists>a. r = Inr a \<and> f a = Inr b)"
  by (cases r) auto

lemma ok_or_simps [simp]: "ok_or e None = Inl e" "ok_or e (Some a) = Inr a"
  by (simp_all add: ok_or_def)

lemma ok_or_Inr_iff [simp]: "ok_or e x = Inr a \<longleftrightarrow> x = Some a"
  by (cases x) auto

lemma try_map_Inr_iff: "try_map f xs = Inr ys \<longleftrightarrow> list_all2 (\<lambda>x y. f x = Inr y) xs ys"
proof (induction xs arbitrary: ys)
  case (Cons x xs)
  then show ?case by (cases ys) (auto simp: result_bind_Inr_iff)
qed auto

lemma try_fold_invariant:
  assumes "try_fold f s xs = Inr s'" and "P s"
    and "\<And>x s s'. x \<in> set xs \<Longrightarrow> P s \<Longrightarrow> f s x = Inr s' \<Longrightarrow> P s'"
  shows "P s'"
  using assms
proof (induction xs arbitrary: s)
  case (Cons x xs)
  from Cons.prems(1) obtain t where t: "f s x = Inr t" "try_fold f t xs = Inr s'"
    by (auto simp: result_bind_Inr_iff)
  have "P t" by (rule Cons.prems(3)[OF _ Cons.prems(2) t(1)]) simp
  show ?case
    by (rule Cons.IH[OF t(2) \<open>P t\<close>]) (rule Cons.prems(3), simp_all)
qed simp

lemma try_fold_append: "try_fold f s (xs @ ys) = result_bind (try_fold f s xs) (\<lambda>t. try_fold f t ys)"
proof (induction xs arbitrary: s)
  case (Cons x xs)
  then show ?case by (cases "f s x") simp_all
qed simp

section \<open>Normalisation\<close>

text \<open>
  Most of the modules' structs have a \<open>normalized\<close> operation that every consumer runs first.
  What the consumers rely on is that it is idempotent.
\<close>

locale normaliser =
  fixes normalize :: "'a \<Rightarrow> 'a"
  assumes idem: "normalize (normalize x) = normalize x"
begin

definition canonical :: "'a \<Rightarrow> bool" where
  "canonical x \<longleftrightarrow> normalize x = x"

lemma canonical_normalize: "canonical (normalize x)"
  by (simp add: canonical_def idem)

lemma canonical_iff: "canonical x \<longleftrightarrow> (\<exists>y. x = normalize y)"
  by (auto simp: canonical_def idem) metis

text \<open>An operation that normalises its argument first does not see whether it is normalised.\<close>

lemma absorbs: "(\<And>x. f x = g (normalize x)) \<Longrightarrow> f (normalize x) = f x"
  by (simp add: idem)

lemma map_idem: "map normalize (map normalize xs) = map normalize xs"
  by (simp add: idem)

end

end
