(* ===== verification/F64.thy ===== *)
theory F64
  imports Prelude "HOL-Library.Log_Nat"
begin

text \<open>
  IEEE 754 binary64, the \<open>f64\<close> of the payroll calculations: a finite value is the rational
  it denotes, and each arithmetic operation is the exact rational operation followed by
  \<open>rnd\<close>, the round-to-nearest, ties-to-even of the standard, subnormals and overflow to
  infinity included.  Everything computes, so the witnesses evaluate the code's own
  arithmetic.

  Not distinguished: the two zeros and the NaN payloads.  The modelled code never divides by
  a zero or prints one, and its comparisons do not see the sign of a zero.  Theorems
  quantify over all of type \<open>f64\<close>, a superset of the representable values.
\<close>

named_theorems f64_simps "evaluation of floating point operations on finite values"

section \<open>Rounding a rational to binary64\<close>

text \<open>The exponent of the leading bit: for \<open>x > 0\<close>, the \<open>e\<close> with \<open>2 powi e \<le> x < 2 powi (e + 1)\<close>.\<close>

definition ilog2 :: "rat \<Rightarrow> int" where
  "ilog2 x = (case quotient_of x of (n, d) \<Rightarrow>
     let k = bitlen n - bitlen d in if x < 2 powi k then k - 1 else k)"

text \<open>The nearest integer, ties to the even one.\<close>

definition round_even :: "rat \<Rightarrow> int" where
  "round_even x = (let n = \<lfloor>x\<rfloor>; d = x - of_int n in
     if d < 1 / 2 then n else if d > 1 / 2 then n + 1 else if even n then n else n + 1)"

text \<open>The exponent of the last bit of the 53-bit significand, at least that of a subnormal.\<close>

definition ulp_exp :: "rat \<Rightarrow> int" where
  "ulp_exp x = max (ilog2 \<bar>x\<bar> - 52) (- 1074)"

definition rnd_val :: "rat \<Rightarrow> rat" where
  "rnd_val x = (if x = 0 then 0
     else of_int (round_even (x * 2 powi (- ulp_exp x))) * 2 powi (ulp_exp x))"

datatype f64 = Fin rat | PInf | NInf | NaN

definition rnd :: "rat \<Rightarrow> f64" where
  "rnd x = (let v = rnd_val x in
     if v \<ge> 2 ^ 1024 then PInf else if v \<le> - (2 ^ 1024) then NInf else Fin v)"

section \<open>Operations\<close>

fun sgn_inf :: "bool \<Rightarrow> f64" where
  "sgn_inf negative = (if negative then NInf else PInf)"

instantiation f64 :: "{zero, plus, minus, uminus, times, inverse, ord}"
begin

definition zero_f64 :: f64 where
  "zero_f64 = Fin 0"

fun uminus_f64 :: "f64 \<Rightarrow> f64" where
  "uminus_f64 (Fin a) = Fin (- a)"
| "uminus_f64 PInf = NInf"
| "uminus_f64 NInf = PInf"
| "uminus_f64 NaN = NaN"

fun plus_f64 :: "f64 \<Rightarrow> f64 \<Rightarrow> f64" where
  "plus_f64 (Fin a) (Fin b) = rnd (a + b)"
| "plus_f64 NaN y = NaN"
| "plus_f64 x NaN = NaN"
| "plus_f64 PInf NInf = NaN"
| "plus_f64 NInf PInf = NaN"
| "plus_f64 PInf y = PInf"
| "plus_f64 NInf y = NInf"
| "plus_f64 x PInf = PInf"
| "plus_f64 x NInf = NInf"

definition minus_f64 :: "f64 \<Rightarrow> f64 \<Rightarrow> f64" where
  "x - y = x + (- y :: f64)"

fun times_f64 :: "f64 \<Rightarrow> f64 \<Rightarrow> f64" where
  "times_f64 (Fin a) (Fin b) = rnd (a * b)"
| "times_f64 NaN y = NaN"
| "times_f64 x NaN = NaN"
| "times_f64 (Fin a) PInf = (if a = 0 then NaN else sgn_inf (a < 0))"
| "times_f64 (Fin a) NInf = (if a = 0 then NaN else sgn_inf (0 < a))"
| "times_f64 PInf (Fin b) = (if b = 0 then NaN else sgn_inf (b < 0))"
| "times_f64 NInf (Fin b) = (if b = 0 then NaN else sgn_inf (0 < b))"
| "times_f64 PInf PInf = PInf"
| "times_f64 NInf NInf = PInf"
| "times_f64 PInf NInf = NInf"
| "times_f64 NInf PInf = NInf"

fun divide_f64 :: "f64 \<Rightarrow> f64 \<Rightarrow> f64" where
  "divide_f64 (Fin a) (Fin b) =
     (if b = 0 then (if a = 0 then NaN else sgn_inf (a < 0)) else rnd (a / b))"
| "divide_f64 NaN y = NaN"
| "divide_f64 x NaN = NaN"
| "divide_f64 (Fin a) PInf = Fin 0"
| "divide_f64 (Fin a) NInf = Fin 0"
| "divide_f64 PInf (Fin b) = sgn_inf (b < 0)"
| "divide_f64 NInf (Fin b) = sgn_inf (\<not> b < 0)"
| "divide_f64 x y = NaN"

definition inverse_f64 :: "f64 \<Rightarrow> f64" where
  "inverse x = divide (Fin 1) (x :: f64)"

fun less_eq_f64 :: "f64 \<Rightarrow> f64 \<Rightarrow> bool" where
  "less_eq_f64 (Fin a) (Fin b) = (a \<le> b)"
| "less_eq_f64 NaN y = False"
| "less_eq_f64 x NaN = False"
| "less_eq_f64 NInf y = True"
| "less_eq_f64 x PInf = True"
| "less_eq_f64 x y = False"

fun less_f64 :: "f64 \<Rightarrow> f64 \<Rightarrow> bool" where
  "less_f64 (Fin a) (Fin b) = (a < b)"
| "less_f64 NInf (Fin b) = True"
| "less_f64 NInf PInf = True"
| "less_f64 (Fin a) PInf = True"
| "less_f64 x y = False"

instance ..

end

text \<open>A decimal literal of the source denotes the nearest binary64 value.\<close>

definition lit :: "rat \<Rightarrow> f64" where
  "lit x = rnd x"

text \<open>IEEE equality (\<open>==\<close>): NaN is not equal to itself.\<close>

fun f64_eq :: "f64 \<Rightarrow> f64 \<Rightarrow> bool" where
  "f64_eq NaN y = False"
| "f64_eq x y = (x = y)"

fun is_finite :: "f64 \<Rightarrow> bool" where
  "is_finite (Fin a) = True"
| "is_finite x = False"

fun f64_abs :: "f64 \<Rightarrow> f64" where
  "f64_abs (Fin a) = Fin \<bar>a\<bar>"
| "f64_abs NaN = NaN"
| "f64_abs x = PInf"

text \<open>\<open>f64::max\<close> and \<open>f64::min\<close> return the other argument when one is NaN.\<close>

fun f64_max :: "f64 \<Rightarrow> f64 \<Rightarrow> f64" where
  "f64_max NaN y = y"
| "f64_max x NaN = x"
| "f64_max x y = (if x \<le> y then y else x)"

fun f64_min :: "f64 \<Rightarrow> f64 \<Rightarrow> f64" where
  "f64_min NaN y = y"
| "f64_min x NaN = x"
| "f64_min x y = (if x \<le> y then x else y)"

fun f64_floor :: "f64 \<Rightarrow> f64" where
  "f64_floor (Fin a) = Fin (of_int \<lfloor>a\<rfloor>)"
| "f64_floor x = x"

text \<open>\<open>f64::round\<close>: the nearest integer, ties away from zero.\<close>

definition round_away :: "rat \<Rightarrow> int" where
  "round_away a = (if a < 0 then - \<lfloor>- a + 1 / 2\<rfloor> else \<lfloor>a + 1 / 2\<rfloor>)"

fun f64_round :: "f64 \<Rightarrow> f64" where
  "f64_round (Fin a) = Fin (of_int (round_away a))"
| "f64_round x = x"

text \<open>\<open>x as i64\<close>: truncation towards zero, saturating, NaN to 0.\<close>

definition trunc_rat :: "rat \<Rightarrow> int" where
  "trunc_rat a = (if a < 0 then - \<lfloor>- a\<rfloor> else \<lfloor>a\<rfloor>)"

fun to_i64 :: "f64 \<Rightarrow> i64" where
  "to_i64 (Fin a) = max i64_min (min i64_max (trunc_rat a))"
| "to_i64 PInf = i64_max"
| "to_i64 NInf = i64_min"
| "to_i64 NaN = 0"

text \<open>\<open>n as f64\<close>.\<close>

definition of_i64 :: "i64 \<Rightarrow> f64" where
  "of_i64 n = rnd (of_int n)"

text \<open>\<open>f64::EPSILON\<close>.\<close>

definition f64_epsilon :: f64 where
  "f64_epsilon = Fin (1 / 2 ^ 52)"

text \<open>\<open>safe_number\<close>, repeated in the payroll modules: a non-finite value counts as zero.\<close>

definition safe_number :: "f64 \<Rightarrow> f64" where
  "safe_number x = (if is_finite x then x else 0)"

section \<open>Properties of rounding\<close>

lemma ilog2_bounds:
  assumes "0 < x"
  shows "2 powi (ilog2 x) \<le> x" and "x < 2 powi (ilog2 x + 1)"
proof -
  obtain n d where q: "quotient_of x = (n, d)" by fastforce
  then have d: "0 < d" and x: "x = of_int n / of_int d"
    using quotient_of_denom_pos quotient_of_div by blast+
  with assms have n: "0 < n" by (simp add: zero_less_divide_iff)
  have bounds: "2 powi (bitlen m - 1) \<le> (of_int m :: rat) \<and> of_int m < (2 powi bitlen m :: rat)"
    if m: "0 < m" for m
  proof -
    have b: "0 < bitlen m" using m bitlen_eq_zero_iff[of m] bitlen_nonneg[of m] by linarith
    have h: "2 ^ nat (bitlen m - 1) \<le> m" "m < 2 ^ nat (bitlen m)" using bitlen_bounds[OF m] by auto
    then have "(of_int (2 ^ nat (bitlen m - 1)) :: rat) \<le> of_int m"
      and "(of_int m :: rat) < of_int (2 ^ nat (bitlen m))" by (simp_all only: of_int_le_iff of_int_less_iff)
    then show ?thesis using b by (simp add: power_int_def)
  qed
  define k where "k = bitlen n - bitlen d"
  have lo: "2 powi (k - 1) < x"
  proof -
    have "2 powi (k - 1) * of_int d < (2 powi (k - 1) * 2 powi (bitlen d) :: rat)"
      using bounds[OF d] by simp
    also have "\<dots> = 2 powi (bitlen n - 1)" by (simp add: power_int_add[symmetric] k_def)
    also have "\<dots> \<le> of_int n" using bounds[OF n] by simp
    finally show ?thesis using d by (simp add: x field_simps)
  qed
  have hi: "x < 2 powi (k + 1)"
  proof -
    have "(of_int n :: rat) < 2 powi (bitlen n)" using bounds[OF n] by simp
    also have "\<dots> = 2 powi (k + 1) * 2 powi (bitlen d - 1)" by (simp add: power_int_add[symmetric] k_def)
    also have "\<dots> \<le> 2 powi (k + 1) * of_int d" using bounds[OF d] by simp
    finally show ?thesis using d by (simp add: x field_simps)
  qed
  have il: "ilog2 x = (if x < 2 powi k then k - 1 else k)" by (simp add: ilog2_def q k_def)
  show "2 powi (ilog2 x) \<le> x" and "x < 2 powi (ilog2 x + 1)"
    using lo hi by (auto simp: il not_less)
qed

lemma pow2_less_exp: "(2::rat) powi a < 2 powi b \<Longrightarrow> a < b"
proof (rule ccontr)
  assume l: "(2::rat) powi a < 2 powi b" and "\<not> a < b"
  then have "(2::rat) powi b \<le> 2 powi a" by (intro power_int_increasing) auto
  with l show False by simp
qed

lemma ilog2_mono: "0 < x \<Longrightarrow> x \<le> y \<Longrightarrow> ilog2 x \<le> ilog2 y"
proof -
  assume a: "0 < x" "x \<le> y"
  have "(2::rat) powi (ilog2 x) < 2 powi (ilog2 y + 1)"
    using ilog2_bounds(1)[of x] ilog2_bounds(2)[of y] a by linarith
  then have "ilog2 x < ilog2 y + 1" by (rule pow2_less_exp)
  then show ?thesis by simp
qed

lemma ilog2_less: "0 < x \<Longrightarrow> x < 2 powi k \<Longrightarrow> ilog2 x < k"
  using ilog2_bounds(1)[of x] by (intro pow2_less_exp) simp

lemma ilog2_ge: "2 powi k \<le> x \<Longrightarrow> k \<le> ilog2 x"
proof -
  assume a: "2 powi k \<le> x"
  then have "0 < x" using zero_less_power_int[of "2::rat" k] by linarith
  then have "(2::rat) powi k < 2 powi (ilog2 x + 1)" using ilog2_bounds(2)[of x] a by linarith
  then have "k < ilog2 x + 1" by (rule pow2_less_exp)
  then show ?thesis by simp
qed

lemma round_even_cases: "round_even x = \<lfloor>x\<rfloor> \<or> round_even x = \<lfloor>x\<rfloor> + 1"
  by (simp add: round_even_def Let_def)

lemma round_even_of_int [simp]: "round_even (of_int n) = n"
  by (simp add: round_even_def)

lemma round_even_err: "\<bar>of_int (round_even x) - x\<bar> \<le> 1 / 2"
  using of_int_floor_le[of x] floor_correct[of x]
  by (auto simp: round_even_def Let_def abs_le_iff)

lemma round_even_mono: "x \<le> y \<Longrightarrow> round_even x \<le> round_even y"
proof (cases "\<lfloor>x\<rfloor> = \<lfloor>y\<rfloor>")
  case True
  assume "x \<le> y"
  then have "x - of_int \<lfloor>x\<rfloor> \<le> y - of_int \<lfloor>y\<rfloor>" using True by simp
  with True show ?thesis by (auto simp: round_even_def Let_def)
next
  case False
  assume "x \<le> y"
  with False have "\<lfloor>x\<rfloor> + 1 \<le> \<lfloor>y\<rfloor>" using floor_mono[of x y] by linarith
  with round_even_cases[of x] round_even_cases[of y] show ?thesis by linarith
qed

lemma round_even_neg: "round_even (- x) = - round_even x"
proof (cases "x = of_int \<lfloor>x\<rfloor>")
  case True
  then have "- x = of_int (- \<lfloor>x\<rfloor>)" by simp
  then have "round_even (- x) = - \<lfloor>x\<rfloor>" by (metis round_even_of_int)
  moreover have "round_even x = \<lfloor>x\<rfloor>" using True by (metis round_even_of_int)
  ultimately show ?thesis by simp
next
  case False
  then have f: "\<lfloor>- x\<rfloor> = - \<lfloor>x\<rfloor> - 1" by linarith
  show ?thesis using False by (auto simp: round_even_def Let_def f)
qed

lemma round_even_le_int: "x \<le> of_int n \<Longrightarrow> round_even x \<le> n"
  using round_even_mono[of x "of_int n"] by simp

lemma round_even_ge_int: "of_int n \<le> x \<Longrightarrow> n \<le> round_even x"
  using round_even_mono[of "of_int n" x] by simp

subsection \<open>Sign and grid\<close>

lemma ulp_exp_minus [simp]: "ulp_exp (- x) = ulp_exp x"
  by (simp add: ulp_exp_def)

lemma rnd_val_0 [simp]: "rnd_val 0 = 0"
  by (simp add: rnd_val_def)

lemma rnd_val_minus: "rnd_val (- x) = - rnd_val x"
  by (simp add: rnd_val_def round_even_neg)

text \<open>
  A multiple of the last place of \<open>x\<close> (a coarser grid included) bounds the rounding of
  \<open>x\<close> as it bounds \<open>x\<close>.
\<close>

lemma grid_int:
  assumes "q \<le> j"
  shows "\<exists>m. (of_int k * 2 powi j :: rat) * 2 powi (- q) = of_int m"
proof
  have "(of_int k * 2 powi j :: rat) * 2 powi (- q) = of_int k * 2 powi (j - q)"
    by (simp add: power_int_add[symmetric] mult.assoc)
  also have "\<dots> = of_int (k * 2 ^ nat (j - q))" using assms by (simp add: power_int_def)
  finally show "(of_int k * 2 powi j :: rat) * 2 powi (- q) = of_int (k * 2 ^ nat (j - q))" .
qed

lemma rnd_val_le_grid:
  assumes le: "x \<le> of_int k * 2 powi j" and q: "ulp_exp x \<le> j" and nz: "x \<noteq> 0"
  shows "rnd_val x \<le> of_int k * 2 powi j"
proof -
  obtain m where m: "(of_int k * 2 powi j :: rat) * 2 powi (- ulp_exp x) = of_int m"
    using grid_int[OF q] by blast
  have "x * 2 powi (- ulp_exp x) \<le> of_int m"
    using le by (simp add: m[symmetric] mult_right_mono)
  then have "round_even (x * 2 powi (- ulp_exp x)) \<le> m" by (rule round_even_le_int)
  then have "of_int (round_even (x * 2 powi (- ulp_exp x))) * 2 powi (ulp_exp x)
      \<le> of_int m * (2 powi (ulp_exp x) :: rat)"
    by (intro mult_right_mono) simp_all
  also have "\<dots> = of_int k * 2 powi j"
    by (simp add: m[symmetric] mult.assoc power_int_add[symmetric])
  finally show ?thesis using nz by (simp add: rnd_val_def)
qed

lemma rnd_val_ge_grid:
  assumes le: "of_int k * 2 powi j \<le> x" and q: "ulp_exp x \<le> j" and nz: "x \<noteq> 0"
  shows "of_int k * 2 powi j \<le> rnd_val x"
proof -
  have "rnd_val (- x) \<le> of_int (- k) * 2 powi j"
    by (rule rnd_val_le_grid) (use assms in auto)
  then show ?thesis by (simp add: rnd_val_minus)
qed

lemma rnd_val_nonneg: "0 \<le> x \<Longrightarrow> 0 \<le> rnd_val x"
  using rnd_val_ge_grid[of 0 "ulp_exp x" x] by (cases "x = 0") auto

lemma rnd_val_nonpos: "x \<le> 0 \<Longrightarrow> rnd_val x \<le> 0"
  using rnd_val_nonneg[of "- x"] by (simp add: rnd_val_minus)

subsection \<open>Monotonicity\<close>

lemma rnd_val_mono_pos:
  assumes "0 < x" "x \<le> y"
  shows "rnd_val x \<le> rnd_val y"
proof (cases "ulp_exp x = ulp_exp y")
  case True
  have "round_even (x * 2 powi (- ulp_exp x)) \<le> round_even (y * 2 powi (- ulp_exp x))"
    by (rule round_even_mono) (use assms in \<open>simp add: mult_right_mono\<close>)
  then show ?thesis using assms True by (simp add: rnd_val_def mult_right_mono)
next
  case False
  have e: "ilog2 x \<le> ilog2 y" using ilog2_mono[OF assms] .
  with False assms have lt: "ilog2 x < ilog2 y" and uy: "ulp_exp y = ilog2 y - 52"
    and ux: "ulp_exp x \<le> ilog2 y"
    by (auto simp: ulp_exp_def max_def split: if_splits)
  have "x < 2 powi (ilog2 x + 1)" using ilog2_bounds(2)[of x] assms by simp
  also have "\<dots> \<le> (2 powi (ilog2 y) :: rat)" using lt by (intro power_int_increasing) auto
  finally have "x \<le> of_int 1 * 2 powi (ilog2 y)" by simp
  then have "rnd_val x \<le> of_int 1 * 2 powi (ilog2 y)"
    by (rule rnd_val_le_grid[OF _ ux]) (use assms in simp)
  also have "\<dots> \<le> rnd_val y"
    by (rule rnd_val_ge_grid) (use assms uy ilog2_bounds(1)[of y] in auto)
  finally show ?thesis .
qed

lemma rnd_val_mono: "x \<le> y \<Longrightarrow> rnd_val x \<le> rnd_val y"
proof -
  assume le: "x \<le> y"
  consider "0 < x" | "x \<le> 0" "0 \<le> y" | "y < 0" by linarith
  then show ?thesis
  proof cases
    case 1
    then show ?thesis using le by (rule rnd_val_mono_pos)
  next
    case 2
    then show ?thesis using rnd_val_nonpos[of x] rnd_val_nonneg[of y] by linarith
  next
    case 3
    have "rnd_val (- y) \<le> rnd_val (- x)" by (rule rnd_val_mono_pos) (use 3 le in auto)
    then show ?thesis by (simp add: rnd_val_minus)
  qed
qed

subsection \<open>Representable values\<close>

lemma rnd_val_dyadic:
  assumes m: "\<bar>m\<bar> \<le> 2 ^ 53" and j: "- 1074 \<le> j"
  shows "rnd_val (of_int m * 2 powi j) = of_int m * 2 powi j"
proof (cases "m = 0")
  case False
  define x :: rat where "x = of_int m * 2 powi j"
  have nz: "x \<noteq> 0" using False by (simp add: x_def)
  have ax: "\<bar>x\<bar> = of_int \<bar>m\<bar> * 2 powi j" by (simp add: x_def abs_mult power_int_abs)
  have "\<exists>i k. x = of_int k * 2 powi i \<and> ulp_exp x \<le> i"
  proof (cases "\<bar>m\<bar> < 2 ^ 53")
    case True
    then have "(of_int \<bar>m\<bar> :: rat) < of_int (2 ^ 53)" by (simp only: of_int_less_iff)
    then have "\<bar>x\<bar> < 2 powi 53 * 2 powi j" unfolding ax by simp
    also have "\<dots> = 2 powi (53 + j)" by (simp add: power_int_add)
    finally have "ilog2 \<bar>x\<bar> < 53 + j" by (rule ilog2_less[rotated]) (use nz in simp)
    then have "ulp_exp x \<le> j" using j by (simp add: ulp_exp_def)
    then show ?thesis by (auto simp: x_def)
  next
    case False
    with m have m2: "\<bar>m\<bar> = 2 ^ 53" by simp
    have "\<bar>x\<bar> = 2 powi (53 + j)" unfolding ax m2 by (simp add: power_int_add)
    also have "\<dots> < 2 powi (54 + j)" by (rule power_int_strict_increasing) auto
    finally have "ilog2 \<bar>x\<bar> < 54 + j" by (rule ilog2_less[rotated]) (use nz in simp)
    then have u: "ulp_exp x \<le> j + 1" using j by (simp add: ulp_exp_def)
    have "2 dvd \<bar>m\<bar>" unfolding m2 by simp
    then obtain k where "m = 2 * k" by (auto elim: dvdE)
    then have "x = of_int k * 2 powi (j + 1)" by (simp add: x_def power_int_add)
    with u show ?thesis by blast
  qed
  then obtain i k where "x = of_int k * 2 powi i" "ulp_exp x \<le> i" by blast
  then have "rnd_val x = x"
    using rnd_val_le_grid[of x k i] rnd_val_ge_grid[of k i x] nz by auto
  then show ?thesis by (simp add: x_def)
qed simp

lemma rnd_val_int: "\<bar>n\<bar> \<le> 2 ^ 53 \<Longrightarrow> rnd_val (of_int n) = of_int n"
  using rnd_val_dyadic[of n 0] by simp

text \<open>Half of a unit in the last place is the largest error.\<close>

lemma rnd_val_err:
  assumes "\<bar>x\<bar> < 2 powi k" and "- 1021 \<le> k"
  shows "\<bar>rnd_val x - x\<bar> \<le> 2 powi (k - 54)"
proof (cases "x = 0")
  case False
  have "ilog2 \<bar>x\<bar> < k" by (rule ilog2_less) (use False assms in auto)
  then have u: "ulp_exp x \<le> k - 53" using assms(2) by (simp add: ulp_exp_def)
  define s where "s = x * 2 powi (- ulp_exp x)"
  have x: "x = s * 2 powi (ulp_exp x)"
    by (simp add: s_def mult.assoc power_int_add[symmetric])
  have "\<bar>rnd_val x - x\<bar> = \<bar>of_int (round_even s) - s\<bar> * 2 powi (ulp_exp x)"
    using False by (subst x) (simp add: rnd_val_def s_def[symmetric] abs_mult power_int_abs
        flip: left_diff_distrib)
  also have "\<dots> \<le> 1 / 2 * 2 powi (ulp_exp x)"
    using round_even_err[of s] by (intro mult_right_mono) simp_all
  also have "\<dots> \<le> 1 / 2 * 2 powi (k - 53)"
    using power_int_increasing[OF u, of "2::rat"] by simp
  also have "\<dots> = 2 powi (k - 54)"
    using power_int_add[of "2::rat" "k - 54" 1] by simp
  finally show ?thesis .
qed simp

section \<open>Rounding into \<open>f64\<close>\<close>

lemma rnd_val_bounded:
  assumes "\<bar>x\<bar> \<le> 2 powi k" "- 1074 \<le> k"
  shows "\<bar>rnd_val x\<bar> \<le> 2 powi k"
proof -
  have "rnd_val (of_int 1 * 2 powi k) = of_int 1 * 2 powi k"
    by (rule rnd_val_dyadic) (use assms in auto)
  moreover have "rnd_val x \<le> rnd_val (2 powi k)" "rnd_val (- (2 powi k)) \<le> rnd_val x"
    using assms(1) by (auto intro: rnd_val_mono)
  ultimately show ?thesis by (auto simp: rnd_val_minus abs_le_iff)
qed

lemma rnd_fin:
  assumes "\<bar>x\<bar> \<le> 2 ^ 1023"
  shows "rnd x = Fin (rnd_val x)"
proof -
  have "\<bar>rnd_val x\<bar> \<le> 2 powi 1023" by (rule rnd_val_bounded) (use assms in simp_all)
  then have "\<bar>rnd_val x\<bar> \<le> (2::rat) ^ 1023" by simp
  moreover have "(2::rat) ^ 1023 < 2 ^ 1024" by (rule power_strict_increasing) auto
  ultimately show ?thesis unfolding rnd_def Let_def abs_le_iff by auto
qed

lemma small_pow:
  assumes "k \<le> 1023" "x \<le> (2::rat) ^ k"
  shows "x \<le> 2 ^ 1023"
  using assms(2) power_increasing[OF assms(1), of "2::rat"] by (rule order_trans) simp

text \<open>Evaluation compares with the overflow threshold only for large arguments.\<close>

lemma rnd_code [code]:
  "rnd x = (if \<bar>x\<bar> \<le> 1152921504606846976 then Fin (rnd_val x)
     else (let v = rnd_val x in
       if v \<ge> 2 ^ 1024 then PInf else if v \<le> - (2 ^ 1024) then NInf else Fin v))"
  using rnd_fin[of x] small_pow[of 60 "\<bar>x\<bar>"] by (simp add: rnd_def)

lemma rnd_0 [simp]: "rnd 0 = Fin 0"
  by (simp add: rnd_def)

lemma rnd_not_NaN [simp]: "rnd x \<noteq> NaN"
  by (simp add: rnd_def Let_def)

lemma rnd_of_int [f64_simps]: "\<bar>n\<bar> \<le> 2 ^ 53 \<Longrightarrow> rnd (of_int n) = Fin (of_int n)"
proof -
  assume n: "\<bar>n\<bar> \<le> 2 ^ 53"
  then have "\<bar>of_int n :: rat\<bar> \<le> of_int (2 ^ 53)" by (simp only: of_int_abs[symmetric] of_int_le_iff)
  then have "\<bar>of_int n :: rat\<bar> \<le> 2 ^ 1023" by (intro small_pow[of 53]) simp_all
  then show ?thesis using n by (simp add: rnd_fin rnd_val_int)
qed

lemma of_i64_exact [f64_simps]: "\<bar>n\<bar> \<le> 2 ^ 53 \<Longrightarrow> of_i64 n = Fin (of_int n)"
  by (simp add: of_i64_def rnd_of_int)

text \<open>The workhorse: integer bounds (below \<open>2 ^ 53\<close>) survive a rounding.\<close>

lemma rnd_int_bounds:
  assumes "of_int a \<le> x" "x \<le> of_int b" and ab: "\<bar>a\<bar> \<le> 2 ^ 53" "\<bar>b\<bar> \<le> 2 ^ 53"
  shows "rnd x = Fin (rnd_val x)" and "of_int a \<le> rnd_val x" and "rnd_val x \<le> of_int b"
proof -
  from ab have "- (2 ^ 53) \<le> a" "b \<le> 2 ^ 53" by auto
  then have "of_int (- (2 ^ 53)) \<le> (of_int a :: rat)" "(of_int b :: rat) \<le> of_int (2 ^ 53)"
    by (simp_all only: of_int_le_iff)
  with assms have "\<bar>x\<bar> \<le> 2 ^ 53" by (simp add: abs_le_iff)
  then have "\<bar>x\<bar> \<le> 2 ^ 1023" by (rule small_pow[rotated]) simp
  then show "rnd x = Fin (rnd_val x)" by (rule rnd_fin)
  show "of_int a \<le> rnd_val x" "rnd_val x \<le> of_int b"
    using rnd_val_mono[OF assms(1)] rnd_val_mono[OF assms(2)] ab by (simp_all add: rnd_val_int)
qed

lemma le_Fin_Fin [simp]: "(Fin a \<le> Fin b) = (a \<le> b)" "(Fin a < Fin b) = (a < b)"
  by simp_all

lemma rnd_mono: "x \<le> y \<Longrightarrow> rnd x \<le> rnd y"
  using rnd_val_mono[of x y] by (auto simp: rnd_def Let_def)

lemma Fin_add [f64_simps]: "Fin a + Fin b = rnd (a + b)"
  and Fin_sub [f64_simps]: "Fin a - Fin b = rnd (a - b)"
  and Fin_mult [f64_simps]: "Fin a * Fin b = rnd (a * b)"
  and Fin_div [f64_simps]: "b \<noteq> 0 \<Longrightarrow> Fin a / Fin b = rnd (a / b)"
  by (simp_all add: minus_f64_def)

lemma zero_Fin [f64_simps]: "0 = Fin 0"
  by (simp add: zero_f64_def)

lemma safe_number_Fin [simp]: "safe_number (Fin a) = Fin a"
  by (simp add: safe_number_def)

lemma safe_number_cases: "\<exists>a. safe_number x = Fin a"
  by (cases x) (auto simp: safe_number_def zero_f64_def)

lemma trunc_rat_of_int [simp]: "trunc_rat (of_int n) = n"
  by (simp add: trunc_rat_def)

lemma to_i64_int: "is_i64 n \<Longrightarrow> to_i64 (Fin (of_int n)) = n"
  by (auto simp: is_i64_def i64_min_def i64_max_def)

lemma is_i64_small: "\<bar>n\<bar> \<le> 2 ^ 53 \<Longrightarrow> is_i64 n"
  by (simp add: is_i64_def abs_le_iff)

lemma to_i64_range [range_intros, simp]: "is_i64 (to_i64 x)"
  by (cases x) (auto simp: is_i64_def i64_min_def i64_max_def)

lemma to_i64_of_i64: "\<bar>n\<bar> \<le> 2 ^ 53 \<Longrightarrow> to_i64 (of_i64 n) = n"
  by (simp only: of_i64_exact to_i64_int is_i64_small)

end
