(* ===== verification/Rounding.thy ===== *)
theory Rounding
  imports F64
begin

text \<open>
  The half-even roundings to whole won and to decimal places.  The modules repeat two
  versions: the money modules (\<open>deductions.rs\<close>, \<open>social_insurance.rs\<close>, \<open>earnings.rs\<close>,
  \<open>salary.rs\<close>, \<open>edi_insurance.rs\<close>) treat a fraction within 1e-9 of one half as a tie; the
  hour modules (\<open>attendance.rs\<close>, \<open>workplace_hours.rs\<close>, \<open>fixed_hours.rs\<close>) use
  \<open>f64::EPSILON\<close>.  Both are shown to be monotone, exact on whole numbers and within
  one half (and the tolerance) of their argument.
\<close>

section \<open>The money modules\<close>

definition f64_half :: f64 where
  "f64_half = lit 0.5"

definition won_tie_eps :: f64 where
  "won_tie_eps = lit (1 / 10 ^ 9)"

definition round_ties_even :: "f64 \<Rightarrow> f64" where
  "round_ties_even value =
     (let floor = f64_floor value; diff = value - floor in
      if f64_abs (diff - f64_half) < won_tie_eps
      then (if even (to_i64 floor) then floor else floor + lit 1)
      else f64_round value)"

definition round_won :: "f64 \<Rightarrow> i64" where
  "round_won amount = to_i64 (round_ties_even amount)"

definition round_won_tens :: "f64 \<Rightarrow> i64" where
  "round_won_tens amount = i64_mul (to_i64 (round_ties_even (amount / lit 10))) 10"

text \<open>The version of \<open>earnings.rs\<close> and \<open>salary.rs\<close>: a non-finite amount counts as zero.\<close>

definition round_won_safe :: "f64 \<Rightarrow> i64" where
  "round_won_safe amount = to_i64 (round_ties_even (safe_number amount))"

subsection \<open>What it computes\<close>

definition tie_window :: rat where
  "tie_window = rnd_val (1 / 10 ^ 9)"

definition near_tie :: "rat \<Rightarrow> bool" where
  "near_tie d \<longleftrightarrow> \<bar>rnd_val (rnd_val d - 1 / 2)\<bar> < tie_window"

text \<open>The integer it rounds to, on the rational value of the argument.\<close>

definition won_of :: "rat \<Rightarrow> int" where
  "won_of r = (let fl = \<lfloor>r\<rfloor> in
     if near_tie (r - of_int fl) then (if even fl then fl else fl + 1) else round_away r)"

lemma rnd_val_half: "rnd_val (1 / 2) = 1 / 2"
  by code_simp

lemma tie_window_pos: "0 < tie_window"
  by code_simp

lemma tie_window_bound: "tie_window \<le> 1 / 999999999"
  by code_simp

lemma f64_half_Fin: "f64_half = Fin (1 / 2)"
  using rnd_int_bounds(1)[of 0 "1 / 2" 1] rnd_val_half by (simp add: f64_half_def lit_def)

lemma lit_one: "lit 1 = Fin 1"
  using rnd_of_int[of 1] by (simp add: lit_def)

lemma lit_ten: "lit 10 = Fin 10"
  using rnd_of_int[of 10] by (simp add: lit_def)

lemma won_tie_eps_Fin: "won_tie_eps = Fin tie_window"
  using rnd_int_bounds(1)[of 0 "1 / 10 ^ 9" 1]
  by (simp add: won_tie_eps_def lit_def tie_window_def)

lemma frac_bounds: "0 \<le> r - of_int \<lfloor>r\<rfloor>" "r - of_int \<lfloor>r\<rfloor> < (1::rat)"
  using of_int_floor_le[of r] floor_correct[of r] by auto

lemma floor_small: "\<bar>r\<bar> \<le> of_int n \<Longrightarrow> \<bar>\<lfloor>r\<rfloor>\<bar> \<le> n" for r :: rat
  using floor_mono[of r "of_int n"] floor_mono[of "of_int (- n)" r] by (auto simp: abs_le_iff)

lemma round_ties_even_Fin:
  assumes "\<bar>r\<bar> \<le> 2 ^ 52"
  shows "round_ties_even (Fin r) = Fin (of_int (won_of r))"
proof -
  define fl where "fl = \<lfloor>r\<rfloor>"
  have fl: "\<bar>fl\<bar> \<le> 2 ^ 52" unfolding fl_def by (rule floor_small) (use assms in simp)
  define d where "d = r - of_int fl"
  have d: "0 \<le> d" "d \<le> 1" using frac_bounds[of r] by (auto simp: d_def fl_def)
  note d1 = rnd_int_bounds[of 0 d 1, simplified, OF d]
  have d2: "rnd (rnd_val d - 1 / 2) = Fin (rnd_val (rnd_val d - 1 / 2))"
    by (rule rnd_int_bounds(1)[of "- 1" _ 1]) (use d1 in auto)
  have i: "to_i64 (Fin (of_int fl)) = fl"
    by (rule to_i64_int, rule is_i64_small) (use fl in simp)
  have p: "rnd (of_int fl + 1) = Fin (of_int fl + 1)"
    using rnd_of_int[of "fl + 1"] fl by (simp add: abs_le_iff)
  show ?thesis
    using i by (simp add: round_ties_even_def won_of_def Let_def near_tie_def f64_half_Fin won_tie_eps_Fin
        lit_one f64_simps d1 d2 p del: to_i64.simps flip: fl_def d_def)
qed

text \<open>\<open>f64::round\<close> away from an exact half.\<close>

lemma round_away_low: "r - of_int \<lfloor>r\<rfloor> < 1 / 2 \<Longrightarrow> round_away r = \<lfloor>r\<rfloor>"
proof -
  assume a: "r - of_int \<lfloor>r\<rfloor> < 1 / 2"
  have "\<lfloor>- r + 1 / 2\<rfloor> = - \<lfloor>r\<rfloor>" "\<lfloor>r + 1 / 2\<rfloor> = \<lfloor>r\<rfloor>"
    unfolding floor_eq_iff using a frac_bounds[of r] by linarith+
  then show ?thesis by (simp add: round_away_def)
qed

lemma round_away_high: "1 / 2 < r - of_int \<lfloor>r\<rfloor> \<Longrightarrow> round_away r = \<lfloor>r\<rfloor> + 1"
proof -
  assume a: "1 / 2 < r - of_int \<lfloor>r\<rfloor>"
  have "\<lfloor>- r + 1 / 2\<rfloor> = - \<lfloor>r\<rfloor> - 1" "\<lfloor>r + 1 / 2\<rfloor> = \<lfloor>r\<rfloor> + 1"
    unfolding floor_eq_iff using a frac_bounds[of r] by linarith+
  then show ?thesis by (simp add: round_away_def)
qed

lemma near_tie_half: "near_tie (1 / 2)"
  unfolding near_tie_def rnd_val_half using tie_window_pos by simp

text \<open>Outside the window the fraction lies on one side of one half.\<close>

lemma not_near_tie_cases:
  assumes "\<not> near_tie d"
  shows "(d < 1 / 2 \<and> rnd_val (rnd_val d - 1 / 2) \<le> - tie_window)
       \<or> (1 / 2 < d \<and> tie_window \<le> rnd_val (rnd_val d - 1 / 2))"
proof -
  have "d \<noteq> 1 / 2" using assms near_tie_half by metis
  moreover have "rnd_val (rnd_val d - 1 / 2) \<le> 0" if "d < 1 / 2"
    using rnd_val_mono[of d "1 / 2"] that unfolding rnd_val_half
    by (intro rnd_val_nonpos) linarith
  moreover have "0 \<le> rnd_val (rnd_val d - 1 / 2)" if "1 / 2 < d"
    using rnd_val_mono[of "1 / 2" d] that unfolding rnd_val_half
    by (intro rnd_val_nonneg) linarith
  ultimately show ?thesis using assms unfolding near_tie_def by linarith
qed

lemma won_of_alt:
  "won_of r = (let fl = \<lfloor>r\<rfloor>; d = r - of_int fl in
     if near_tie d then (if even fl then fl else fl + 1) else if d < 1 / 2 then fl else fl + 1)"
proof (cases "near_tie (r - of_int \<lfloor>r\<rfloor>)")
  case False
  then show ?thesis
    using not_near_tie_cases[OF False] round_away_low[of r] round_away_high[of r]
    unfolding won_of_def Let_def by auto
qed (simp add: won_of_def Let_def)

lemma won_of_floor: "won_of r = \<lfloor>r\<rfloor> \<or> won_of r = \<lfloor>r\<rfloor> + 1"
  by (simp add: won_of_alt Let_def)

lemma won_of_mono:
  assumes "r \<le> s"
  shows "won_of r \<le> won_of s"
proof (cases "\<lfloor>r\<rfloor> = \<lfloor>s\<rfloor>")
  case False
  with assms have "\<lfloor>r\<rfloor> + 1 \<le> \<lfloor>s\<rfloor>" using floor_mono[of r s] by linarith
  with won_of_floor[of r] won_of_floor[of s] show ?thesis by linarith
next
  case True
  define dr ds where "dr = r - of_int \<lfloor>r\<rfloor>" and "ds = s - of_int \<lfloor>s\<rfloor>"
  have le: "dr \<le> ds" using assms True by (simp add: dr_def ds_def)
  have m: "rnd_val (rnd_val dr - 1 / 2) \<le> rnd_val (rnd_val ds - 1 / 2)"
    by (intro rnd_val_mono diff_right_mono le)
  have "near_tie ds \<or> 1 / 2 < ds" if "near_tie dr"
    using not_near_tie_cases[of ds] that m tie_window_pos unfolding near_tie_def by linarith
  moreover have "near_tie dr \<or> dr < 1 / 2" if "near_tie ds"
    using not_near_tie_cases[of dr] that m tie_window_pos unfolding near_tie_def by linarith
  ultimately show ?thesis
    using le True unfolding won_of_alt Let_def dr_def[symmetric] ds_def[symmetric] by auto
qed

lemma won_of_int [simp]: "won_of (of_int n) = n"
proof -
  have "rnd_val (0 - 1 / 2) = - (1 / 2)"
    using rnd_val_minus[of "1 / 2"] unfolding rnd_val_half by simp
  then have "\<not> near_tie 0"
    using tie_window_bound unfolding near_tie_def rnd_val_0 by simp
  then show ?thesis by (simp add: won_of_alt)
qed

text \<open>An exact half goes to the even neighbour.\<close>

lemma won_of_half: "won_of (of_int n + 1 / 2) = (if even n then n else n + 1)"
proof -
  have "\<lfloor>of_int n + 1 / 2 :: rat\<rfloor> = n" by linarith
  then show ?thesis using near_tie_half by (simp only: won_of_alt Let_def) simp
qed

lemma near_tie_close: "0 \<le> d \<Longrightarrow> d \<le> 1 \<Longrightarrow> near_tie d \<Longrightarrow> \<bar>d - 1 / 2\<bar> \<le> 2 / 10 ^ 9"
proof -
  assume d: "0 \<le> d" "d \<le> 1" and n: "near_tie d"
  have e1: "\<bar>rnd_val d - d\<bar> \<le> 2 powi (1 - 54)"
    by (rule rnd_val_err) (use d in \<open>simp_all add: abs_le_iff\<close>)
  have "rnd_val d \<le> 1" "0 \<le> rnd_val d" using rnd_int_bounds(2,3)[of 0 d 1] d by simp_all
  then have "\<bar>rnd_val d - 1 / 2\<bar> < 2 powi 1" by (simp add: abs_less_iff)
  then have e2: "\<bar>rnd_val (rnd_val d - 1 / 2) - (rnd_val d - 1 / 2)\<bar> \<le> 2 powi (1 - 54)"
    by (rule rnd_val_err) simp
  have p: "(2::rat) powi (1 - 54) \<le> 1 / 10 ^ 10" by code_simp
  from n have "\<bar>rnd_val (rnd_val d - 1 / 2)\<bar> < 1 / 999999999"
    using tie_window_bound unfolding near_tie_def by linarith
  then have "\<bar>d - 1 / 2\<bar> \<le> 1 / 999999999 + 1 / 10 ^ 10 + 1 / 10 ^ 10"
    using e1 e2 p unfolding abs_le_iff abs_less_iff by linarith
  then show ?thesis by (rule order_trans) simp
qed

lemma won_of_err: "\<bar>of_int (won_of r) - r\<bar> \<le> 1 / 2 + 2 / 10 ^ 9"
proof -
  define d where "d = r - of_int \<lfloor>r\<rfloor>"
  have d: "0 \<le> d" "d < 1" using frac_bounds[of r] by (simp_all add: d_def)
  show ?thesis
  proof (cases "near_tie d")
    case True
    then have "\<bar>d - 1 / 2\<bar> \<le> 2 / 10 ^ 9" using near_tie_close[of d] d by simp
    then show ?thesis using won_of_floor[of r] d unfolding d_def abs_le_iff by auto
  next
    case False
    with not_near_tie_cases[OF False] d show ?thesis
      by (auto simp: won_of_alt Let_def d_def[symmetric] abs_le_iff) (auto simp: d_def)
  qed
qed

lemma won_of_le_int: "r \<le> of_int n \<Longrightarrow> won_of r \<le> n"
  using won_of_mono[of r "of_int n"] by simp

lemma won_of_ge_int: "of_int n \<le> r \<Longrightarrow> n \<le> won_of r"
  using won_of_mono[of "of_int n" r] by simp

subsection \<open>Whole won\<close>

lemma won_of_small: "\<bar>r\<bar> \<le> of_int n \<Longrightarrow> \<bar>won_of r\<bar> \<le> n"
  using won_of_le_int[of r n] won_of_ge_int[of "- n" r] by (auto simp: abs_le_iff)

lemma round_won_Fin: "\<bar>r\<bar> \<le> 2 ^ 52 \<Longrightarrow> round_won (Fin r) = won_of r"
proof -
  assume r: "\<bar>r\<bar> \<le> 2 ^ 52"
  then have "\<bar>won_of r\<bar> \<le> 2 ^ 52" by (intro won_of_small) simp
  then have "is_i64 (won_of r)" by (intro is_i64_small) simp
  then show ?thesis by (simp only: round_won_def round_ties_even_Fin[OF r] to_i64_int)
qed

lemma round_won_range [range_intros, simp]: "is_i64 (round_won x)"
  by (simp add: round_won_def)

lemma round_won_of_i64: "\<bar>n\<bar> \<le> 2 ^ 52 \<Longrightarrow> round_won (of_i64 n) = n"
  using round_won_Fin[of "of_int n"] by (simp add: of_i64_exact abs_le_iff)

lemma round_won_safe_Fin [simp]: "round_won_safe (Fin r) = round_won (Fin r)"
  by (simp add: round_won_safe_def round_won_def)

lemma round_won_safe_eq: "round_won_safe x = round_won (safe_number x)"
  by (simp add: round_won_safe_def round_won_def)

text \<open>Two whole numbers around an amount are around its rounding to won.\<close>

lemma round_won_between:
  assumes "of_int a \<le> r" "r \<le> of_int b" "\<bar>a\<bar> \<le> 2 ^ 52" "\<bar>b\<bar> \<le> 2 ^ 52"
  shows "a \<le> round_won (Fin r)" and "round_won (Fin r) \<le> b"
proof -
  from assms(3,4) have "- (2 ^ 52) \<le> a" "b \<le> 2 ^ 52" by (simp_all add: abs_le_iff)
  then have "of_int (- (2 ^ 52)) \<le> (of_int a :: rat)" "(of_int b :: rat) \<le> of_int (2 ^ 52)"
    by (simp_all only: of_int_le_iff)
  with assms(1,2) have "\<bar>r\<bar> \<le> 2 ^ 52" by (simp add: abs_le_iff)
  then show "a \<le> round_won (Fin r)" "round_won (Fin r) \<le> b"
    using won_of_ge_int[OF assms(1)] won_of_le_int[OF assms(2)] by (simp_all add: round_won_Fin)
qed

lemma round_won_mono:
  "r \<le> s \<Longrightarrow> \<bar>r\<bar> \<le> 2 ^ 52 \<Longrightarrow> \<bar>s\<bar> \<le> 2 ^ 52 \<Longrightarrow> round_won (Fin r) \<le> round_won (Fin s)"
  by (simp add: round_won_Fin won_of_mono)

lemma round_won_err:
  "\<bar>r\<bar> \<le> 2 ^ 52 \<Longrightarrow> \<bar>of_int (round_won (Fin r)) - r\<bar> \<le> 1 / 2 + 2 / 10 ^ 9"
  using won_of_err[of r] by (simp only: round_won_Fin)

lemma round_won_tens_Fin:
  assumes "\<bar>r\<bar> \<le> 2 ^ 52"
  shows "round_won_tens (Fin r) = 10 * won_of (rnd_val (r / 10))"
proof -
  have b: "of_int (- (2 ^ 52)) \<le> r / 10" "r / 10 \<le> of_int (2 ^ 52)"
    using assms by (simp_all add: abs_le_iff)
  note q = rnd_int_bounds[OF b, simplified]
  then have a: "\<bar>rnd_val (r / 10)\<bar> \<le> 2 ^ 52" by (simp add: abs_le_iff)
  have w: "to_i64 (round_ties_even (Fin (rnd_val (r / 10)))) = won_of (rnd_val (r / 10))"
    using round_won_Fin[OF a] by (simp add: round_won_def)
  have "\<bar>won_of (rnd_val (r / 10))\<bar> \<le> 2 ^ 52" by (rule won_of_small) (use a in simp)
  then have "is_i64 (won_of (rnd_val (r / 10)) * 10)" by (simp add: is_i64_def abs_le_iff)
  then show ?thesis
    using w by (simp add: round_won_tens_def lit_ten f64_simps q(1) i64_mul_def wrap64_id)
qed

subsection \<open>A share of a whole amount\<close>

text \<open>\<open>n as f64 * c\<close> for a literal rate \<open>c\<close> between 0 and 1.\<close>

lemma lit_rate:
  assumes "0 \<le> c" "c \<le> 1"
  shows "lit c = Fin (rnd_val c)" "0 \<le> rnd_val c" "rnd_val c \<le> 1"
  using rnd_int_bounds[of 0 c 1] assms by (simp_all add: lit_def)

lemma share_bounds:
  assumes x: "0 \<le> x" "x \<le> of_int n" "n \<le> 2 ^ 52" and c: "0 \<le> c" "c \<le> 1"
  shows "Fin x * lit c = Fin (rnd_val (x * rnd_val c))"
    and "0 \<le> rnd_val (x * rnd_val c)" and "rnd_val (x * rnd_val c) \<le> of_int n"
proof -
  have n: "0 \<le> n" using order_trans[OF x(1,2)] by simp
  have "0 \<le> x * rnd_val c" "x * rnd_val c \<le> of_int n"
    using lit_rate[OF c] x mult_mono[of x "of_int n" "rnd_val c" 1] n by simp_all
  then show "Fin x * lit c = Fin (rnd_val (x * rnd_val c))"
    "0 \<le> rnd_val (x * rnd_val c)" "rnd_val (x * rnd_val c) \<le> of_int n"
    using rnd_int_bounds[of 0 "x * rnd_val c" n] n x(3) lit_rate(1)[OF c] by (simp_all add: f64_simps)
qed

lemma round_won_share:
  assumes n: "0 \<le> n" "n \<le> 2 ^ 52" and c: "0 \<le> c" "c \<le> 1"
  shows "0 \<le> round_won (of_i64 n * lit c)" and "round_won (of_i64 n * lit c) \<le> n"
proof -
  have e: "of_i64 n = Fin (of_int n)" using n by (intro of_i64_exact) simp
  have x: "0 \<le> (of_int n :: rat)" "of_int n \<le> (of_int n :: rat)" using n by simp_all
  note s = share_bounds[OF x n(2) c]
  show "0 \<le> round_won (of_i64 n * lit c)" "round_won (of_i64 n * lit c) \<le> n"
    unfolding e s(1) using round_won_between[of 0 "rnd_val (of_int n * rnd_val c)" n] s(2,3) n
    by simp_all
qed

lemma share_close:
  assumes x: "0 \<le> x" "x < 2 ^ 30" and c: "0 \<le> c" "c < 1"
  shows "\<bar>rnd_val (x * rnd_val c) - x * c\<bar> \<le> 1 / 10 ^ 6"
proof -
  have e1: "\<bar>rnd_val c - c\<bar> \<le> 2 powi (0 - 54)" by (rule rnd_val_err) (use c in simp_all)
  have r: "0 \<le> rnd_val c" "rnd_val c \<le> 1" using lit_rate[of c] c by simp_all
  have "x * rnd_val c \<le> x * 1" by (intro mult_left_mono) (use r x in simp_all)
  then have "\<bar>x * rnd_val c\<bar> < 2 powi 30" using x r by simp
  then have e2: "\<bar>rnd_val (x * rnd_val c) - x * rnd_val c\<bar> \<le> 2 powi (30 - 54)"
    by (rule rnd_val_err) simp
  have "\<bar>x * rnd_val c - x * c\<bar> = x * \<bar>rnd_val c - c\<bar>"
    using x(1) by (simp add: abs_mult flip: right_diff_distrib)
  also have "\<dots> \<le> 2 ^ 30 * 2 powi (0 - 54)" by (intro mult_mono) (use e1 x in simp_all)
  finally have e3: "\<bar>x * rnd_val c - x * c\<bar> \<le> 2 ^ 30 * 2 powi (0 - 54)" .
  have "(2::rat) powi (30 - 54) + 2 ^ 30 * 2 powi (0 - 54) \<le> 1 / 10 ^ 6" by code_simp
  with e2 e3 show ?thesis by (simp only: abs_le_iff) linarith
qed

lemma round_won_share_close:
  assumes n: "0 \<le> n" "n < 2 ^ 30" and c: "0 \<le> c" "c < 1"
  shows "\<bar>of_int (round_won (of_i64 n * lit c)) - of_int n * c\<bar> \<le> 1 / 2 + 2 / 10 ^ 6"
proof -
  have e: "of_i64 n = Fin (of_int n)" using n by (intro of_i64_exact) simp
  have x: "0 \<le> (of_int n :: rat)" "of_int n \<le> (of_int n :: rat)" "(of_int n :: rat) < 2 ^ 30"
    using n by simp_all
  have n2: "n \<le> 2 ^ 52" using n by simp
  note s = share_bounds[OF x(1,2) n2 c(1) less_imp_le[OF c(2)]]
  have "\<bar>rnd_val (of_int n * rnd_val c)\<bar> \<le> 2 ^ 52" using s(2,3) x(3) by simp
  then have "\<bar>of_int (round_won (of_i64 n * lit c)) - rnd_val (of_int n * rnd_val c)\<bar>
      \<le> 1 / 2 + 2 / 10 ^ 9"
    unfolding e s(1) by (rule round_won_err)
  moreover have "\<bar>rnd_val (of_int n * rnd_val c) - of_int n * c\<bar> \<le> 1 / 10 ^ 6"
    by (rule share_close[OF x(1,3) c])
  ultimately have "\<bar>of_int (round_won (of_i64 n * lit c)) - of_int n * c\<bar>
      \<le> 1 / 2 + 2 / 10 ^ 9 + 1 / 10 ^ 6"
    by linarith
  then show ?thesis by (rule order_trans) simp
qed

lemma round_won_share_sides:
  assumes "0 \<le> n" "n < 2 ^ 30" "0 \<le> c" "c < 1"
  shows "of_int n * c - 51 / 100 \<le> of_int (round_won (of_i64 n * lit c))"
    and "of_int (round_won (of_i64 n * lit c)) \<le> of_int n * c + 51 / 100"
proof -
  have "(1 :: rat) / 2 + 2 / 10 ^ 6 \<le> 51 / 100" by simp
  with round_won_share_close[OF assms]
  have "\<bar>of_int (round_won (of_i64 n * lit c)) - of_int n * c\<bar> \<le> 51 / 100" by (rule order_trans)
  then show "of_int n * c - 51 / 100 \<le> of_int (round_won (of_i64 n * lit c))"
    "of_int (round_won (of_i64 n * lit c)) \<le> of_int n * c + 51 / 100"
    unfolding abs_le_iff by linarith+
qed

text \<open>The share grows with the amount, in won and in tens of won.\<close>

lemma share_mono:
  assumes "0 \<le> x" "x \<le> y" "y \<le> of_int n" "n \<le> 2 ^ 52" "0 \<le> c" "c \<le> 1"
  shows "round_won (Fin x * lit c) \<le> round_won (Fin y * lit c)"
    and "round_won_tens (Fin x * lit c) \<le> round_won_tens (Fin y * lit c)"
    and "0 \<le> round_won (Fin x * lit c)" and "round_won (Fin y * lit c) \<le> n"
    and "0 \<le> round_won_tens (Fin x * lit c)" and "round_won_tens (Fin x * lit c) mod 10 = 0"
    and "round_won_tens (Fin y * lit c) \<le> 10 * n"
proof -
  have x: "x \<le> of_int n" "0 \<le> y" using assms by linarith+
  have n: "0 \<le> n" using order_trans[OF x(2) assms(3)] by simp
  note sx = share_bounds[OF assms(1) x(1) assms(4-6)]
  note sy = share_bounds[OF x(2) assms(3-6)]
  define p q where "p = rnd_val (x * rnd_val c)" and "q = rnd_val (y * rnd_val c)"
  have "(of_int n :: rat) \<le> of_int (2 ^ 52)" using assms(4) by (simp only: of_int_le_iff)
  then have b: "\<bar>p\<bar> \<le> 2 ^ 52" "\<bar>q\<bar> \<le> 2 ^ 52" using sx sy by (simp_all add: p_def q_def)
  have pq: "p \<le> q" unfolding p_def q_def
    by (intro rnd_val_mono mult_right_mono assms(2) lit_rate(2)[OF assms(5,6)])
  have p0: "0 \<le> p" "q \<le> of_int n" "0 \<le> q" using sx sy by (simp_all add: p_def q_def)
  have t: "round_won_tens (Fin p) = 10 * won_of (rnd_val (p / 10))"
    "round_won_tens (Fin q) = 10 * won_of (rnd_val (q / 10))"
    by (rule round_won_tens_Fin[OF b(1)], rule round_won_tens_Fin[OF b(2)])
  have m: "rnd_val (p / 10) \<le> rnd_val (q / 10)" by (rule rnd_val_mono) (use pq in simp)
  have q10: "rnd_val (q / 10) \<le> of_int n"
    by (rule rnd_int_bounds(3)[of 0]) (use p0 n assms(4) in simp_all)
  have p10: "0 \<le> rnd_val (p / 10)" by (rule rnd_val_nonneg) (use p0 in simp)
  show "round_won (Fin x * lit c) \<le> round_won (Fin y * lit c)"
    unfolding sx(1) sy(1) p_def[symmetric] q_def[symmetric] by (rule round_won_mono[OF pq b])
  show "0 \<le> round_won (Fin x * lit c)" "round_won (Fin y * lit c) \<le> n"
    unfolding sx(1) sy(1) p_def[symmetric] q_def[symmetric] round_won_Fin[OF b(1)] round_won_Fin[OF b(2)]
    using won_of_ge_int[of 0 p] won_of_le_int[of q n] p0 by simp_all
  show "round_won_tens (Fin x * lit c) \<le> round_won_tens (Fin y * lit c)"
    "0 \<le> round_won_tens (Fin x * lit c)" "round_won_tens (Fin x * lit c) mod 10 = 0"
    "round_won_tens (Fin y * lit c) \<le> 10 * n"
    unfolding sx(1) sy(1) p_def[symmetric] q_def[symmetric] t
    using won_of_mono[OF m] won_of_ge_int[of 0 "rnd_val (p / 10)"] p10
      won_of_le_int[OF q10] by simp_all
qed

lemma won_of_near: "\<bar>r - of_int n\<bar> \<le> 1 / 4 \<Longrightarrow> won_of r = n"
proof -
  assume a: "\<bar>r - of_int n\<bar> \<le> 1 / 4"
  have "\<bar>of_int (won_of r) - r\<bar> \<le> 1 / 2 + 2 / 10 ^ 9" by (rule won_of_err)
  also have "\<dots> \<le> 51 / 100" by simp
  finally have d: "of_int (won_of r) - r \<le> 51 / 100" "r - of_int (won_of r) \<le> 51 / 100"
    unfolding abs_le_iff by simp_all
  have "of_int (won_of r) < (of_int (n + 1) :: rat)" "of_int (n - 1) < (of_int (won_of r) :: rat)"
    using a d unfolding abs_le_iff of_int_add of_int_diff of_int_1 by linarith+
  then show ?thesis unfolding of_int_less_iff by simp
qed

text \<open>A share that is exact in decimal is exact in won.\<close>

lemma round_won_share_exact:
  assumes "0 \<le> x" "x < 2 ^ 30" "0 \<le> c" "c < 1" "x * c = of_int n"
  shows "round_won (Fin x * lit c) = n"
proof -
  have x: "x \<le> of_int (2 ^ 30)" using assms(2) by simp
  note s = share_bounds[OF assms(1) x _ assms(3) less_imp_le[OF assms(4)], simplified]
  have "\<bar>rnd_val (x * rnd_val c) - of_int n\<bar> \<le> 1 / 10 ^ 6"
    using share_close[OF assms(1-4)] assms(5) by simp
  then have "\<bar>rnd_val (x * rnd_val c) - of_int n\<bar> \<le> 1 / 4" by (rule order_trans) simp
  then have "won_of (rnd_val (x * rnd_val c)) = n" by (rule won_of_near)
  moreover have "\<bar>rnd_val (x * rnd_val c)\<bar> \<le> 2 ^ 52" using s(2,3) by simp
  ultimately show ?thesis by (simp add: s(1) round_won_Fin)
qed

section \<open>Amounts in a range\<close>

text \<open>
  A finite amount between two whole numbers.  The calculations of the money modules are
  followed through these ranges: each operation has a rule, and the rounding to whole won
  keeps the range.
\<close>

definition f64_in :: "int \<Rightarrow> int \<Rightarrow> f64 \<Rightarrow> bool" where
  "f64_in a b x = (case x of Fin r \<Rightarrow> of_int a \<le> r \<and> r \<le> of_int b | _ \<Rightarrow> False)"

named_theorems f64_in_intros "rules that follow an amount's range through an operation"

lemma f64_in_Fin [simp]: "f64_in a b (Fin r) \<longleftrightarrow> of_int a \<le> r \<and> r \<le> of_int b"
  by (simp add: f64_in_def)

lemma f64_inE: "f64_in a b x \<Longrightarrow> (\<And>r. x = Fin r \<Longrightarrow> of_int a \<le> r \<Longrightarrow> r \<le> of_int b \<Longrightarrow> P) \<Longrightarrow> P"
  by (cases x) (auto simp: f64_in_def)

lemma f64_in_weaken: "f64_in a b x \<Longrightarrow> c \<le> a \<Longrightarrow> b \<le> d \<Longrightarrow> f64_in c d x"
proof (elim f64_inE)
  fix r assume "x = Fin r" "of_int a \<le> r" "r \<le> of_int b" "c \<le> a" "b \<le> d"
  then have "of_int c \<le> (of_int a :: rat)" "(of_int b :: rat) \<le> of_int d" by (simp_all only: of_int_le_iff)
  with \<open>x = Fin r\<close> \<open>of_int a \<le> r\<close> \<open>r \<le> of_int b\<close> show "f64_in c d x" by simp
qed

lemma f64_in_rnd [f64_in_intros]:
  "of_int a \<le> r \<Longrightarrow> r \<le> of_int b \<Longrightarrow> \<bar>a\<bar> \<le> 2 ^ 53 \<Longrightarrow> \<bar>b\<bar> \<le> 2 ^ 53 \<Longrightarrow> f64_in a b (rnd r)"
  using rnd_int_bounds[of a r b] by simp

lemma f64_in_safe [f64_in_intros, simp]: "f64_in a b x \<Longrightarrow> f64_in a b (safe_number x)"
  by (elim f64_inE) simp

lemma f64_in_safe_eq: "f64_in a b x \<Longrightarrow> safe_number x = x"
  by (elim f64_inE) simp

lemma f64_in_zero [f64_in_intros]: "0 \<le> b \<Longrightarrow> f64_in 0 b 0"
  by (simp add: f64_simps)

lemma f64_in_lit [f64_in_intros]:
  "of_int a \<le> c \<Longrightarrow> c \<le> of_int b \<Longrightarrow> \<bar>a\<bar> \<le> 2 ^ 53 \<Longrightarrow> \<bar>b\<bar> \<le> 2 ^ 53 \<Longrightarrow> f64_in a b (lit c)"
  unfolding lit_def by (rule f64_in_rnd)

lemma f64_in_of_i64 [f64_in_intros]:
  "a \<le> n \<Longrightarrow> n \<le> b \<Longrightarrow> \<bar>a\<bar> \<le> 2 ^ 53 \<Longrightarrow> \<bar>b\<bar> \<le> 2 ^ 53 \<Longrightarrow> f64_in a b (of_i64 n)"
  unfolding of_i64_def by (rule f64_in_rnd) simp_all

lemma f64_in_add:
  assumes "f64_in a b x" "f64_in c d y" "\<bar>a + c\<bar> \<le> 2 ^ 53" "\<bar>b + d\<bar> \<le> 2 ^ 53"
  shows "f64_in (a + c) (b + d) (x + y)"
  using assms(1,2) by (elim f64_inE) (auto simp: f64_simps intro!: f64_in_rnd assms(3,4))

lemma f64_in_mult:
  assumes "f64_in 0 b x" "f64_in 0 d y" "b * d \<le> 2 ^ 53"
  shows "f64_in 0 (b * d) (x * y)"
  using assms(1,2)
proof (elim f64_inE)
  fix r s assume x: "x = Fin r" "of_int 0 \<le> r" "r \<le> of_int b" and y: "y = Fin s" "of_int 0 \<le> s" "s \<le> of_int d"
  have b: "0 \<le> b" "0 \<le> d" using order_trans[OF x(2,3)] order_trans[OF y(2,3)] by simp_all
  have "0 \<le> r * s" "r * s \<le> of_int (b * d)" using x y b by (auto intro: mult_mono)
  then show "f64_in 0 (b * d) (x * y)"
    unfolding x(1) y(1) Fin_mult by (intro f64_in_rnd) (use b assms(3) in simp_all)
qed

lemma f64_in_div:
  assumes "f64_in 0 b x" "f64_in 1 d y" "b \<le> 2 ^ 53"
  shows "f64_in 0 b (x / y)"
  using assms(1,2)
proof (elim f64_inE)
  fix r s assume x: "x = Fin r" "of_int 0 \<le> r" "r \<le> of_int b" and y: "y = Fin s" "of_int 1 \<le> s" "s \<le> of_int d"
  have b: "0 \<le> b" using order_trans[OF x(2,3)] by simp
  have "r / s \<le> r / 1" by (rule divide_left_mono) (use x y in simp_all)
  then have "0 \<le> r / s" "r / s \<le> of_int b" "s \<noteq> 0" using x y by simp_all
  moreover from this have "f64_in 0 b (rnd (r / s))"
    by (intro f64_in_rnd) (use b assms(3) in simp_all)
  ultimately show "f64_in 0 b (x / y)" unfolding x(1) y(1) by (subst Fin_div)
qed

lemma f64_in_min:
  assumes "f64_in a b x" "f64_in a d y"
  shows "f64_in a (min b d) (f64_min x y)"
  using assms by (elim f64_inE) (auto simp: min_def)

lemma f64_in_max_zero:
  assumes "f64_in a b x" "0 \<le> b"
  shows "f64_in 0 b (f64_max x 0)"
  using assms by (elim f64_inE) (auto simp: f64_simps)

text \<open>
  What the modules need of a rounding to whole won: it is monotone and does not change a
  whole number.
\<close>

locale whole_rounding =
  fixes rounded :: "f64 \<Rightarrow> int"
  assumes mono: "r \<le> s \<Longrightarrow> \<bar>r\<bar> \<le> 2 ^ 52 \<Longrightarrow> \<bar>s\<bar> \<le> 2 ^ 52 \<Longrightarrow> rounded (Fin r) \<le> rounded (Fin s)"
    and exact: "\<bar>n\<bar> \<le> 2 ^ 52 \<Longrightarrow> rounded (Fin (of_int n)) = n"
begin

lemma between:
  assumes "f64_in a b x" "\<bar>a\<bar> \<le> 2 ^ 52" "\<bar>b\<bar> \<le> 2 ^ 52"
  shows "a \<le> rounded x" and "rounded x \<le> b"
proof -
  from assms(1) obtain r where r: "x = Fin r" "of_int a \<le> r" "r \<le> of_int b" by (elim f64_inE)
  have "- (2 ^ 52) \<le> a" "b \<le> 2 ^ 52" "a \<le> 2 ^ 52" "- (2 ^ 52) \<le> b"
    using assms(2,3) by (simp_all add: abs_le_iff)
  then have "of_int (- (2 ^ 52)) \<le> (of_int a :: rat)" "(of_int b :: rat) \<le> of_int (2 ^ 52)"
    "of_int (- (2 ^ 52)) \<le> (of_int b :: rat)" "(of_int a :: rat) \<le> of_int (2 ^ 52)"
    by (simp_all only: of_int_le_iff)
  then have "\<bar>r\<bar> \<le> 2 ^ 52" "\<bar>of_int a :: rat\<bar> \<le> 2 ^ 52" "\<bar>of_int b :: rat\<bar> \<le> 2 ^ 52"
    using r by (simp_all add: abs_le_iff)
  with mono[OF r(2)] mono[OF r(3)] show "a \<le> rounded x" "rounded x \<le> b"
    using assms(2,3) by (simp_all add: r exact)
qed

lemma of_whole: "\<bar>n\<bar> \<le> 2 ^ 52 \<Longrightarrow> rounded (of_i64 n) = n"
  by (simp add: of_i64_exact exact abs_le_iff)

lemma nonneg: "f64_in 0 b x \<Longrightarrow> b \<le> 2 ^ 52 \<Longrightarrow> 0 \<le> rounded x"
  by (rule between(1)) (auto elim!: f64_inE dest: order_trans)

end

text \<open>The rounding of the money modules, with and without the guard for non-finite amounts.\<close>

lemma round_won_exact: "\<bar>n\<bar> \<le> 2 ^ 52 \<Longrightarrow> round_won (Fin (of_int n)) = n"
  using round_won_of_i64[of n] by (simp add: of_i64_exact abs_le_iff)

interpretation won: whole_rounding round_won
  by unfold_locales (fact round_won_mono, fact round_won_exact)

interpretation won_safe: whole_rounding round_won_safe
  by unfold_locales (unfold round_won_safe_Fin, fact round_won_mono, fact round_won_exact)

section \<open>The hour modules\<close>

text \<open>A tie is a fraction within \<open>f64::EPSILON\<close> of one half.\<close>

definition round_ties_even_eps :: "f64 \<Rightarrow> f64" where
  "round_ties_even_eps value =
     (let floor = f64_floor value; fraction = value - floor in
      if fraction < f64_half - f64_epsilon then floor
      else if fraction > f64_half + f64_epsilon then floor + lit 1
      else if to_i64 floor mod 2 = 0 then floor
      else floor + lit 1)"

definition round_decimal_places :: "f64 \<Rightarrow> nat \<Rightarrow> f64" where
  "round_decimal_places value places =
     (let scale = lit (10 ^ places) in round_ties_even_eps (value * scale) / scale)"

text \<open>The rounding to whole won of \<open>invoice_audit.rs\<close>.\<close>

definition round_won_eps :: "f64 \<Rightarrow> i64" where
  "round_won_eps amount = to_i64 (round_ties_even_eps amount)"

text \<open>The integer it rounds to, on the rational value of the argument.\<close>

definition whole_of :: "rat \<Rightarrow> int" where
  "whole_of r = (let fl = \<lfloor>r\<rfloor>; d = rnd_val (r - of_int fl) in
     if d < 1 / 2 - 1 / 2 ^ 52 then fl
     else if 1 / 2 + 1 / 2 ^ 52 < d then fl + 1
     else if even fl then fl else fl + 1)"

lemma half_eps: "f64_half - f64_epsilon = Fin (1 / 2 - 1 / 2 ^ 52)"
  "f64_half + f64_epsilon = Fin (1 / 2 + 1 / 2 ^ 52)"
proof -
  have e: "rnd_val (1 / 2 - 1 / 2 ^ 52) = 1 / 2 - 1 / 2 ^ 52"
    "rnd_val (1 / 2 + 1 / 2 ^ 52) = 1 / 2 + 1 / 2 ^ 52" by code_simp+
  have b: "of_int 0 \<le> (1 / 2 - 1 / 2 ^ 52 :: rat)" "(1 / 2 - 1 / 2 ^ 52 :: rat) \<le> of_int 1"
    "of_int 0 \<le> (1 / 2 + 1 / 2 ^ 52 :: rat)" "(1 / 2 + 1 / 2 ^ 52 :: rat) \<le> of_int 1" by simp_all
  have z: "\<bar>0 :: int\<bar> \<le> 2 ^ 53" "\<bar>1 :: int\<bar> \<le> 2 ^ 53" by simp_all
  show "f64_half - f64_epsilon = Fin (1 / 2 - 1 / 2 ^ 52)"
    unfolding f64_half_Fin f64_epsilon_def Fin_sub rnd_int_bounds(1)[OF b(1,2) z] e ..
  show "f64_half + f64_epsilon = Fin (1 / 2 + 1 / 2 ^ 52)"
    unfolding f64_half_Fin f64_epsilon_def Fin_add rnd_int_bounds(1)[OF b(3,4) z] e ..
qed

lemma round_ties_even_eps_Fin:
  assumes "\<bar>r\<bar> \<le> 2 ^ 52"
  shows "round_ties_even_eps (Fin r) = Fin (of_int (whole_of r))"
proof -
  define fl where "fl = \<lfloor>r\<rfloor>"
  have fl: "\<bar>fl\<bar> \<le> 2 ^ 52" unfolding fl_def by (rule floor_small) (use assms in simp)
  have d: "0 \<le> r - of_int fl" "r - of_int fl \<le> 1" using frac_bounds[of r] by (auto simp: fl_def)
  have d1: "rnd (r - of_int fl) = Fin (rnd_val (r - of_int fl))"
    by (rule rnd_int_bounds(1)[of 0 _ 1]) (use d in simp_all)
  have i: "to_i64 (Fin (of_int fl)) = fl"
    by (rule to_i64_int, rule is_i64_small) (use fl in simp)
  have p: "rnd (of_int fl + 1) = Fin (of_int fl + 1)"
    using rnd_of_int[of "fl + 1"] fl by (simp add: abs_le_iff)
  have f: "f64_floor (Fin r) = Fin (of_int fl)" by (simp add: fl_def)
  have ev: "(fl mod 2 = 0) = even fl" by (simp add: even_iff_mod_2_eq_zero)
  show ?thesis
    unfolding round_ties_even_eps_def Let_def f Fin_sub d1 half_eps less_f64.simps i lit_one Fin_add p
      whole_of_def fl_def[symmetric] ev
    by simp
qed

lemma whole_of_floor: "whole_of r = \<lfloor>r\<rfloor> \<or> whole_of r = \<lfloor>r\<rfloor> + 1"
  by (simp add: whole_of_def Let_def)

lemma whole_of_int [simp]: "whole_of (of_int n) = n"
  by (simp add: whole_of_def)

lemma whole_of_mono:
  assumes "r \<le> s"
  shows "whole_of r \<le> whole_of s"
proof (cases "\<lfloor>r\<rfloor> = \<lfloor>s\<rfloor>")
  case False
  with assms have "\<lfloor>r\<rfloor> + 1 \<le> \<lfloor>s\<rfloor>" using floor_mono[of r s] by linarith
  with whole_of_floor[of r] whole_of_floor[of s] show ?thesis by linarith
next
  case True
  have "rnd_val (r - of_int \<lfloor>r\<rfloor>) \<le> rnd_val (s - of_int \<lfloor>s\<rfloor>)"
    by (rule rnd_val_mono) (use assms True in simp)
  with True show ?thesis unfolding whole_of_def Let_def by auto
qed

lemma round_won_eps_Fin: "\<bar>r\<bar> \<le> 2 ^ 52 \<Longrightarrow> round_won_eps (Fin r) = whole_of r"
proof -
  assume r: "\<bar>r\<bar> \<le> 2 ^ 52"
  have "\<bar>whole_of r\<bar> \<le> 2 ^ 52"
    using whole_of_mono[of r "of_int (2 ^ 52)"] whole_of_mono[of "of_int (- (2 ^ 52))" r] r
    unfolding abs_le_iff whole_of_int by simp
  then have "is_i64 (whole_of r)" by (intro is_i64_small) simp
  then show ?thesis by (simp only: round_won_eps_def round_ties_even_eps_Fin[OF r] to_i64_int)
qed

interpretation won_eps: whole_rounding round_won_eps
proof unfold_locales
  show "round_won_eps (Fin r) \<le> round_won_eps (Fin s)"
    if "r \<le> s" "\<bar>r\<bar> \<le> 2 ^ 52" "\<bar>s\<bar> \<le> 2 ^ 52" for r s
    unfolding round_won_eps_Fin[OF that(2)] round_won_eps_Fin[OF that(3)]
    by (rule whole_of_mono[OF that(1)])
  show "round_won_eps (Fin (of_int n)) = n" if "\<bar>n\<bar> \<le> 2 ^ 52" for n
  proof -
    have "\<bar>of_int n :: rat\<bar> \<le> of_int (2 ^ 52)"
      using that by (simp only: of_int_abs[symmetric] of_int_le_iff)
    then show ?thesis by (simp add: round_won_eps_Fin)
  qed
qed

text \<open>Rounding to decimal places is monotone.\<close>

lemma round_decimal_places_Fin:
  assumes "\<bar>r * 10 ^ p\<bar> \<le> 2 ^ 52" and "p \<le> 15"
  shows "round_decimal_places (Fin r) p
    = Fin (rnd_val (of_int (whole_of (rnd_val (r * 10 ^ p))) / 10 ^ p))"
proof -
  have p: "(10::int) ^ p \<le> 10 ^ 15" using assms(2) by (intro power_increasing) simp_all
  then have s: "lit (10 ^ p) = Fin (10 ^ p)"
    using rnd_of_int[of "10 ^ p"] by (simp add: lit_def)
  have b: "of_int (- (2 ^ 52)) \<le> r * 10 ^ p" "r * 10 ^ p \<le> of_int (2 ^ 52)"
    using assms(1) unfolding abs_le_iff by simp_all
  have z: "\<bar>- (2 ^ 52) :: int\<bar> \<le> 2 ^ 53" "\<bar>2 ^ 52 :: int\<bar> \<le> 2 ^ 53" by simp_all
  note m = rnd_int_bounds[OF b z]
  have mb: "\<bar>rnd_val (r * 10 ^ p)\<bar> \<le> 2 ^ 52" using m(2,3) unfolding abs_le_iff by simp
  define w where "w = whole_of (rnd_val (r * 10 ^ p))"
  have w: "of_int (- (2 ^ 52)) \<le> (of_int w :: rat)" "(of_int w :: rat) \<le> of_int (2 ^ 52)"
    using whole_of_mono[OF m(2)] whole_of_mono[OF m(3)]
    unfolding whole_of_int w_def by (simp_all only: of_int_le_iff)
  have q: "of_int (- (2 ^ 52)) \<le> of_int w / (10 ^ p :: rat)" "of_int w / (10 ^ p :: rat) \<le> of_int (2 ^ 52)"
  proof -
    have one: "(1::rat) \<le> 10 ^ p" by simp
    have "\<bar>of_int w / (10 ^ p :: rat)\<bar> \<le> \<bar>of_int w\<bar> / 1"
      unfolding abs_divide by (rule divide_left_mono) (use one in simp_all)
    then show "of_int (- (2 ^ 52)) \<le> of_int w / (10 ^ p :: rat)" "of_int w / (10 ^ p :: rat) \<le> of_int (2 ^ 52)"
      using w unfolding abs_le_iff by linarith+
  qed
  show ?thesis
    unfolding round_decimal_places_def Let_def s Fin_mult m(1) round_ties_even_eps_Fin[OF mb]
      w_def[symmetric]
    by (simp add: Fin_div rnd_int_bounds(1)[OF q z])
qed

lemma round_decimal_places_mono:
  assumes "r \<le> s" "\<bar>r * 10 ^ p\<bar> \<le> 2 ^ 52" "\<bar>s * 10 ^ p\<bar> \<le> 2 ^ 52" "p \<le> 15"
  shows "round_decimal_places (Fin r) p \<le> round_decimal_places (Fin s) p"
proof -
  have "of_int (whole_of (rnd_val (r * 10 ^ p))) \<le> (of_int (whole_of (rnd_val (s * 10 ^ p))) :: rat)"
    unfolding of_int_le_iff
    by (intro whole_of_mono rnd_val_mono mult_right_mono assms(1)) simp
  then show ?thesis
    unfolding round_decimal_places_Fin[OF assms(2,4)] round_decimal_places_Fin[OF assms(3,4)]
    by (simp add: rnd_val_mono divide_right_mono)
qed

end
