(* ===== verification/Deductions.thy ===== *)
theory Deductions
  imports Rounding
begin

text \<open>
  Income tax and net pay: \<open>crates/payroll-api/src/deductions.rs\<close>.  The simplified tax table,
  the choice between a preset and the table, the local income tax and the final deduction
  total, on 64-bit won amounts with the code's floating point steps.
\<close>

section \<open>Data\<close>

definition simplified_tax_table :: "(i64 \<times> i64) list" where
  "simplified_tax_table =
     [(1060000, 0),
      (1500000, 8000),
      (2000000, 42000),
      (2500000, 120000),
      (3000000, 210000),
      (3500000, 310000),
      (4000000, 420000),
      (5000000, 650000),
      (6000000, 920000),
      (8000000, 1450000),
      (10000000, 2100000)]"

datatype payroll_tax_method = TaxPreset | TaxSimplifiedTable

fun payroll_tax_method_as_str :: "payroll_tax_method \<Rightarrow> string" where
  "payroll_tax_method_as_str TaxPreset = ''preset''"
| "payroll_tax_method_as_str TaxSimplifiedTable = ''simplified_table''"

record payroll_deduction_input =
  pdi_gross_pay :: i64
  pdi_insurance_total :: i64
  pdi_preset_income_tax :: "i64 option"
  pdi_preset_local_income_tax :: "i64 option"
  pdi_identity_guarantee_insurance_deduction :: i64

definition payroll_deduction_input_new :: "i64 \<Rightarrow> i64 \<Rightarrow> payroll_deduction_input" where
  "payroll_deduction_input_new gross_pay insurance_total =
     \<lparr>pdi_gross_pay = gross_pay, pdi_insurance_total = insurance_total,
      pdi_preset_income_tax = None, pdi_preset_local_income_tax = None,
      pdi_identity_guarantee_insurance_deduction = 0\<rparr>"

definition pdi_with_preset_income_tax :: "i64 \<Rightarrow> payroll_deduction_input \<Rightarrow> payroll_deduction_input" where
  "pdi_with_preset_income_tax amount i = i\<lparr>pdi_preset_income_tax := Some amount\<rparr>"

definition pdi_with_preset_local_income_tax ::
    "i64 \<Rightarrow> payroll_deduction_input \<Rightarrow> payroll_deduction_input" where
  "pdi_with_preset_local_income_tax amount i = i\<lparr>pdi_preset_local_income_tax := Some amount\<rparr>"

definition pdi_with_identity_guarantee_insurance_deduction ::
    "i64 \<Rightarrow> payroll_deduction_input \<Rightarrow> payroll_deduction_input" where
  "pdi_with_identity_guarantee_insurance_deduction amount i =
     i\<lparr>pdi_identity_guarantee_insurance_deduction := amount\<rparr>"

record payroll_income_tax_result =
  pit_income_tax :: i64
  pit_local_income_tax :: i64
  pit_total :: i64
  pit_method :: payroll_tax_method

record payroll_deduction_result =
  pdr_gross_pay :: i64
  pdr_insurance_total :: i64
  pdr_taxable_pay :: i64
  pdr_income_tax :: i64
  pdr_local_income_tax :: i64
  pdr_tax_total :: i64
  pdr_identity_guarantee_insurance_deduction :: i64
  pdr_total_deduction :: i64
  pdr_net_pay :: i64
  pdr_method :: payroll_tax_method

section \<open>Operations\<close>

text \<open>The loop over the table: the tax of the first bracket that holds the amount.\<close>

fun table_lookup :: "(i64 \<times> i64) list \<Rightarrow> i64 \<Rightarrow> i64 option" where
  "table_lookup [] monthly_taxable = None"
| "table_lookup ((upper_bound, tax) # rest) monthly_taxable =
     (if monthly_taxable \<le> upper_bound then Some tax else table_lookup rest monthly_taxable)"

definition excess_rate :: f64 where
  "excess_rate = lit 0.03"

definition lookup_simplified_income_tax :: "i64 \<Rightarrow> i64" where
  "lookup_simplified_income_tax monthly_taxable =
     (case table_lookup simplified_tax_table monthly_taxable of
        Some tax \<Rightarrow> tax
      | None \<Rightarrow> round_won (of_i64 (max (i64_sub monthly_taxable 1500000) 0) * excess_rate))"

definition local_tax_rate :: f64 where
  "local_tax_rate = lit 0.10"

definition calculate_payroll_income_tax ::
    "i64 \<Rightarrow> i64 option \<Rightarrow> i64 option \<Rightarrow> payroll_income_tax_result" where
  "calculate_payroll_income_tax taxable_pay preset_income_tax preset_local_income_tax =
     (let (income_tax, method) =
            (case opt_filter (\<lambda>amount. amount > 0) preset_income_tax of
               Some amount \<Rightarrow> (amount, TaxPreset)
             | None \<Rightarrow> (lookup_simplified_income_tax taxable_pay, TaxSimplifiedTable));
          local_income_tax =
            (if method = TaxPreset
             then (case opt_filter (\<lambda>amount. amount > 0) preset_local_income_tax of
                     Some amount \<Rightarrow> amount
                   | None \<Rightarrow> round_won_tens (of_i64 income_tax * local_tax_rate))
             else round_won (of_i64 income_tax * local_tax_rate))
      in \<lparr>pit_income_tax = income_tax, pit_local_income_tax = local_income_tax,
          pit_total = i64_add income_tax local_income_tax, pit_method = method\<rparr>)"

definition finalize_payroll_deductions :: "payroll_deduction_input \<Rightarrow> payroll_deduction_result" where
  "finalize_payroll_deductions input =
     (let taxable_pay = i64_sub (pdi_gross_pay input) (pdi_insurance_total input);
          tax = calculate_payroll_income_tax taxable_pay (pdi_preset_income_tax input)
                  (pdi_preset_local_income_tax input);
          identity_deduction = pdi_identity_guarantee_insurance_deduction input;
          total_deduction =
            i64_add (i64_add (pdi_insurance_total input) (pit_total tax))
              (i64_abs identity_deduction);
          net_pay = round_won (of_i64 (i64_sub (pdi_gross_pay input) total_deduction))
      in \<lparr>pdr_gross_pay = pdi_gross_pay input,
          pdr_insurance_total = pdi_insurance_total input,
          pdr_taxable_pay = taxable_pay,
          pdr_income_tax = pit_income_tax tax,
          pdr_local_income_tax = pit_local_income_tax tax,
          pdr_tax_total = pit_total tax,
          pdr_identity_guarantee_insurance_deduction = identity_deduction,
          pdr_total_deduction = total_deduction,
          pdr_net_pay = net_pay,
          pdr_method = pit_method tax\<rparr>)"

section \<open>The table\<close>

lemma table_lookup_mono:
  assumes "sorted_wrt (\<lambda>x y. fst x \<le> fst y \<and> snd x \<le> snd y) tbl"
    and "a \<le> b" and "table_lookup tbl b = Some y"
  shows "\<exists>x. table_lookup tbl a = Some x \<and> x \<le> y"
  using assms
proof (induction tbl)
  case (Cons r rest)
  obtain u t where r: "r = (u, t)" by fastforce
  have tail: "t \<le> v" if "table_lookup rest c = Some v" for c v
  proof -
    have "v \<in> snd ` set rest" using that by (induction rest) (auto split: if_splits)
    then show ?thesis using Cons.prems(1) r by auto
  qed
  show ?case using Cons tail by (auto simp: r split: if_splits)
qed simp

lemma table_lookup_top: "table_lookup simplified_tax_table t = None \<longleftrightarrow> 10000000 < t"
  by (auto simp: simplified_tax_table_def)

lemma simplified_tax_table_sorted:
  "sorted_wrt (\<lambda>x y. fst x \<le> fst y \<and> snd x \<le> snd y) simplified_tax_table"
  by (simp add: simplified_tax_table_def)

lemma table_lookup_range: "table_lookup simplified_tax_table t = Some y \<Longrightarrow> 0 \<le> y \<and> y \<le> 2100000"
  by (auto simp: simplified_tax_table_def split: if_splits)

lemma lookup_table: "t \<le> 10000000 \<Longrightarrow>
    \<exists>y. table_lookup simplified_tax_table t = Some y \<and> lookup_simplified_income_tax t = y"
  using table_lookup_top[of t] by (auto simp: lookup_simplified_income_tax_def split: option.splits)

lemma lookup_excess: "10000000 < t \<Longrightarrow> t \<le> 2 ^ 50 \<Longrightarrow>
    lookup_simplified_income_tax t = round_won (of_i64 (t - 1500000) * excess_rate)"
  using table_lookup_top[of t]
  by (simp add: lookup_simplified_income_tax_def i64_sub_def wrap64_id is_i64_def)

lemma lookup_range:
  assumes "t \<le> 2 ^ 50"
  shows "0 \<le> lookup_simplified_income_tax t" and "lookup_simplified_income_tax t \<le> max 2100000 t"
proof -
  have "0 \<le> lookup_simplified_income_tax t \<and> lookup_simplified_income_tax t \<le> max 2100000 t"
  proof (cases "t \<le> 10000000")
    case True
    then show ?thesis using lookup_table[of t] table_lookup_range[of t] by auto
  next
    case False
    then show ?thesis
      using lookup_excess[of t] round_won_share[of "t - 1500000" "0.03"] assms
      unfolding excess_rate_def by auto
  qed
  then show "0 \<le> lookup_simplified_income_tax t" "lookup_simplified_income_tax t \<le> max 2100000 t"
    by simp_all
qed

section \<open>Local income tax and net pay\<close>

lemma calculate_table_tax:
  assumes "opt_filter (\<lambda>amount. amount > 0) preset = None"
  shows "calculate_payroll_income_tax t preset loc =
    \<lparr>pit_income_tax = lookup_simplified_income_tax t,
     pit_local_income_tax = round_won (of_i64 (lookup_simplified_income_tax t) * local_tax_rate),
     pit_total = i64_add (lookup_simplified_income_tax t)
       (round_won (of_i64 (lookup_simplified_income_tax t) * local_tax_rate)),
     pit_method = TaxSimplifiedTable\<rparr>"
  using assms by (simp add: calculate_payroll_income_tax_def Let_def)

lemma calculate_preset_tax:
  assumes "0 < a"
  shows "calculate_payroll_income_tax t (Some a) loc =
    (let l = (case opt_filter (\<lambda>amount. amount > 0) loc of
                Some amount \<Rightarrow> amount
              | None \<Rightarrow> round_won_tens (of_i64 a * local_tax_rate))
     in \<lparr>pit_income_tax = a, pit_local_income_tax = l, pit_total = i64_add a l,
         pit_method = TaxPreset\<rparr>)"
  using assms by (simp add: calculate_payroll_income_tax_def Let_def)

lemma local_tax_share:
  assumes "0 \<le> n" "n \<le> 2 ^ 52"
  shows "0 \<le> round_won (of_i64 n * local_tax_rate)" "round_won (of_i64 n * local_tax_rate) \<le> n"
  using round_won_share[of n "0.10"] assms unfolding local_tax_rate_def by simp_all

lemma local_tax_tens:
  assumes "0 \<le> n" "n \<le> 2 ^ 50"
  shows "round_won_tens (of_i64 n * local_tax_rate) mod 10 = 0"
    and "0 \<le> round_won_tens (of_i64 n * local_tax_rate)"
    and "round_won_tens (of_i64 n * local_tax_rate) \<le> n + 10"
proof -
  have e: "of_i64 n = Fin (of_int n)" using assms by (intro of_i64_exact) simp
  have x: "0 \<le> (of_int n :: rat)" "of_int n \<le> (of_int n :: rat)" "n \<le> 2 ^ 52" using assms by simp_all
  have c: "0 \<le> (0.10 :: rat)" "(0.10 :: rat) \<le> 1" by simp_all
  note s = share_bounds[OF x c]
  define p where "p = rnd_val (of_int n * rnd_val 0.10)"
  have p: "0 \<le> p" "p \<le> of_int n" "\<bar>p\<bar> \<le> 2 ^ 52"
    using s(2,3) assms(2) order_trans[OF s(3), of "2 ^ 52"] unfolding p_def by simp_all
  have q: "0 \<le> p / 10" "p / 10 \<le> of_int (n div 10 + 1)"
  proof -
    have "of_int n \<le> (of_int (10 * (n div 10 + 1)) :: rat)" by (simp only: of_int_le_iff) simp
    then show "p / 10 \<le> of_int (n div 10 + 1)" using p(2) by simp
  qed (use p in simp)
  have w: "0 \<le> won_of (rnd_val (p / 10))" "won_of (rnd_val (p / 10)) \<le> n div 10 + 1"
    using won_of_ge_int[of 0 "rnd_val (p / 10)"] won_of_le_int[of "rnd_val (p / 10)" "n div 10 + 1"]
      rnd_int_bounds(2,3)[of 0 "p / 10" "n div 10 + 1"] q assms by simp_all
  have eq: "round_won_tens (of_i64 n * local_tax_rate) = 10 * won_of (rnd_val (p / 10))"
    unfolding local_tax_rate_def e s(1) p_def[symmetric] by (rule round_won_tens_Fin[OF p(3)])
  show "round_won_tens (of_i64 n * local_tax_rate) mod 10 = 0"
    "0 \<le> round_won_tens (of_i64 n * local_tax_rate)"
    "round_won_tens (of_i64 n * local_tax_rate) \<le> n + 10"
    using w unfolding eq by simp_all
qed

text \<open>Everything \<open>finalize_payroll_deductions\<close> adds stays in range for amounts below 10 ^ 12 won.\<close>

lemma tax_ranges:
  assumes t: "\<bar>t\<bar> \<le> 2 * 10 ^ 12"
    and pre: "\<forall>a. preset = Some a \<longrightarrow> a \<le> 10 ^ 12"
    and loc: "\<forall>a. loc = Some a \<longrightarrow> a \<le> 10 ^ 12"
  shows "0 \<le> pit_income_tax (calculate_payroll_income_tax t preset loc)"
    and "pit_income_tax (calculate_payroll_income_tax t preset loc) \<le> 2 * 10 ^ 12"
    and "0 \<le> pit_local_income_tax (calculate_payroll_income_tax t preset loc)"
    and "pit_local_income_tax (calculate_payroll_income_tax t preset loc) \<le> 2 * 10 ^ 12"
    and "pit_total (calculate_payroll_income_tax t preset loc)
      = pit_income_tax (calculate_payroll_income_tax t preset loc)
        + pit_local_income_tax (calculate_payroll_income_tax t preset loc)"
proof -
  let ?tax = "calculate_payroll_income_tax t preset loc"
  have "0 \<le> pit_income_tax ?tax \<and> pit_income_tax ?tax \<le> 2 * 10 ^ 12
      \<and> 0 \<le> pit_local_income_tax ?tax \<and> pit_local_income_tax ?tax \<le> 2 * 10 ^ 12"
  proof (cases "opt_filter (\<lambda>amount. amount > 0) preset")
    case None
    have l: "0 \<le> lookup_simplified_income_tax t" "lookup_simplified_income_tax t \<le> 2 * 10 ^ 12"
      using lookup_range[of t] t unfolding abs_le_iff by auto
    with local_tax_share[of "lookup_simplified_income_tax t"] None show ?thesis
      by (simp add: calculate_table_tax)
  next
    case (Some a)
    then have a: "preset = Some a" "0 < a" "a \<le> 10 ^ 12"
      using pre by (cases preset; auto split: if_splits)+
    with local_tax_tens[of a] loc show ?thesis
      by (cases loc) (auto simp: calculate_preset_tax Let_def)
  qed
  then show "0 \<le> pit_income_tax ?tax" "pit_income_tax ?tax \<le> 2 * 10 ^ 12"
    "0 \<le> pit_local_income_tax ?tax" "pit_local_income_tax ?tax \<le> 2 * 10 ^ 12"
    by simp_all
  then have "is_i64 (pit_income_tax ?tax + pit_local_income_tax ?tax)" by (simp add: is_i64_def)
  moreover have "pit_total ?tax = i64_add (pit_income_tax ?tax) (pit_local_income_tax ?tax)"
    by (simp add: calculate_payroll_income_tax_def Let_def split: prod.splits)
  ultimately show "pit_total ?tax = pit_income_tax ?tax + pit_local_income_tax ?tax"
    by (simp add: i64_add_def wrap64_id)
qed

definition deduction_input_bounded :: "payroll_deduction_input \<Rightarrow> bool" where
  "deduction_input_bounded i \<longleftrightarrow>
     \<bar>pdi_gross_pay i\<bar> \<le> 10 ^ 12 \<and> \<bar>pdi_insurance_total i\<bar> \<le> 10 ^ 12 \<and>
     \<bar>pdi_identity_guarantee_insurance_deduction i\<bar> \<le> 10 ^ 12 \<and>
     pred_option (\<lambda>a. a \<le> 10 ^ 12) (pdi_preset_income_tax i) \<and>
     pred_option (\<lambda>a. a \<le> 10 ^ 12) (pdi_preset_local_income_tax i)"

section \<open>Properties\<close>

text \<open>
  For every input with amounts up to 10 ^ 12 won, the deduction result balances without
  overflow or floating point error: the taxable pay is gross minus insurance, the total
  deduction is insurance, both taxes and the absolute identity insurance amount, and the net
  pay (which the code computes through \<open>f64\<close>) is exactly gross minus the total deduction.
\<close>

theorem finalize_deductions_balance:
  assumes "deduction_input_bounded i"
  shows "let r = finalize_payroll_deductions i in
    pdr_taxable_pay r = pdi_gross_pay i - pdi_insurance_total i \<and>
    pdr_tax_total r = pdr_income_tax r + pdr_local_income_tax r \<and>
    pdr_total_deduction r = pdi_insurance_total i + pdr_income_tax r + pdr_local_income_tax r
      + \<bar>pdi_identity_guarantee_insurance_deduction i\<bar> \<and>
    pdr_net_pay r = pdi_gross_pay i - pdr_total_deduction r"
proof -
  define t where "t = pdi_gross_pay i - pdi_insurance_total i"
  have b: "\<bar>pdi_gross_pay i\<bar> \<le> 10 ^ 12" "\<bar>pdi_insurance_total i\<bar> \<le> 10 ^ 12"
    "\<bar>pdi_identity_guarantee_insurance_deduction i\<bar> \<le> 10 ^ 12"
    "\<forall>a. pdi_preset_income_tax i = Some a \<longrightarrow> a \<le> 10 ^ 12"
    "\<forall>a. pdi_preset_local_income_tax i = Some a \<longrightarrow> a \<le> 10 ^ 12"
    using assms by (auto simp: deduction_input_bounded_def option.pred_set)
  have t: "\<bar>t\<bar> \<le> 2 * 10 ^ 12" using b by (simp add: t_def)
  have t64: "i64_sub (pdi_gross_pay i) (pdi_insurance_total i) = t"
    using t by (simp add: i64_sub_def t_def wrap64_id is_i64_def abs_le_iff)
  define tax where
    "tax = calculate_payroll_income_tax t (pdi_preset_income_tax i) (pdi_preset_local_income_tax i)"
  note r = tax_ranges[OF t b(4,5), folded tax_def]
  define tot where "tot = pdi_insurance_total i + pit_total tax
    + \<bar>pdi_identity_guarantee_insurance_deduction i\<bar>"
  have tot: "\<bar>tot\<bar> \<le> 7 * 10 ^ 12" using b(2,3) r unfolding tot_def by linarith
  have tot64: "i64_add (i64_add (pdi_insurance_total i) (pit_total tax))
      (i64_abs (pdi_identity_guarantee_insurance_deduction i)) = tot"
    using tot by (simp add: i64_defs i64_simps tot_def is_i64_def abs_le_iff)
  have net: "\<bar>pdi_gross_pay i - tot\<bar> \<le> 2 ^ 52" using tot b(1) by (simp add: abs_le_iff)
  then have net64: "i64_sub (pdi_gross_pay i) tot = pdi_gross_pay i - tot"
    by (simp add: i64_sub_def wrap64_id is_i64_def abs_le_iff)
  show ?thesis
    unfolding finalize_payroll_deductions_def Let_def t64 tax_def[symmetric] tot64 net64
      round_won_of_i64[OF net] by (simp add: t_def tot_def r(5))
qed

theorem finalize_deductions_balance_witness:
  "let i = pdi_with_identity_guarantee_insurance_deduction (- 20000)
             (payroll_deduction_input_new 3000000 300000);
       r = finalize_payroll_deductions i in
    pdr_taxable_pay r = 2700000 \<and>
    pdr_total_deduction r = 300000 + pdr_income_tax r + pdr_local_income_tax r + 20000 \<and>
    pdr_net_pay r = 3000000 - pdr_total_deduction r"
  using finalize_deductions_balance[of "pdi_with_identity_guarantee_insurance_deduction (- 20000)
             (payroll_deduction_input_new 3000000 300000)"]
  by (simp add: deduction_input_bounded_def payroll_deduction_input_new_def
      pdi_with_identity_guarantee_insurance_deduction_def Let_def)

text \<open>
  Within the table (taxable pay up to 10,000,000 won) the simplified income tax never
  falls when the taxable pay rises.
\<close>

theorem simplified_tax_monotone:
  assumes "a \<le> b" and "b \<le> 10000000"
  shows "lookup_simplified_income_tax a \<le> lookup_simplified_income_tax b"
proof -
  obtain y where y: "table_lookup simplified_tax_table b = Some y" "lookup_simplified_income_tax b = y"
    using lookup_table[OF assms(2)] by blast
  obtain x where x: "table_lookup simplified_tax_table a = Some x" "x \<le> y"
    using table_lookup_mono[OF simplified_tax_table_sorted assms(1) y(1)] by blast
  with y show ?thesis by (simp add: lookup_simplified_income_tax_def)
qed

theorem simplified_tax_monotone_witness:
  "lookup_simplified_income_tax 1060000 \<le> lookup_simplified_income_tax 1060001
   \<and> lookup_simplified_income_tax 1060001 = 8000"
  using simplified_tax_monotone[of 1060000 1060001]
  by (simp add: lookup_simplified_income_tax_def simplified_tax_table_def)

text \<open>
  Past the last bracket the formula takes over from the table, and the tax drops: every
  taxable pay above 10,000,000 and up to 71,000,000 won is taxed less than 10,000,000 won is.
\<close>

theorem simplified_tax_cliff:
  assumes "10000000 < t" and "t \<le> 71000000"
  shows "lookup_simplified_income_tax t < lookup_simplified_income_tax 10000000"
proof -
  have "of_int (round_won (of_i64 (t - 1500000) * excess_rate))
      \<le> of_int (t - 1500000) * 0.03 + (51 / 100 :: rat)"
    unfolding excess_rate_def by (rule round_won_share_sides(2)) (use assms in simp_all)
  also have "\<dots> \<le> of_int 69500000 * 0.03 + 51 / 100"
    by (intro add_right_mono mult_right_mono) (use assms(2) in \<open>simp_all only: of_int_le_iff, simp_all\<close>)
  also have "\<dots> < (of_int 2100000 :: rat)" by simp
  finally have "of_int (round_won (of_i64 (t - 1500000) * excess_rate)) < (of_int 2100000 :: rat)" .
  then have "round_won (of_i64 (t - 1500000) * excess_rate) < 2100000"
    by (simp only: of_int_less_iff)
  moreover have "lookup_simplified_income_tax 10000000 = 2100000"
    by (simp add: lookup_simplified_income_tax_def simplified_tax_table_def)
  ultimately show ?thesis using lookup_excess[of t] assms by simp
qed

theorem simplified_tax_cliff_witness:
  "lookup_simplified_income_tax 10500000 < lookup_simplified_income_tax 10000000"
  using simplified_tax_cliff[of 10500000] by simp

text \<open>
  The local income tax is a tenth of the income tax: with no preset it is within half a
  won of it (after the rounding, ten times it differs from the income tax by at most 5), and
  with a preset income tax and no preset local tax it is a non-negative multiple of 10.
\<close>

theorem local_income_tax_tenth:
  assumes "t \<le> 10 ^ 9" and "0 < a" and "a \<le> 10 ^ 12"
  shows "(let r = calculate_payroll_income_tax t None loc in
            \<bar>10 * pit_local_income_tax r - pit_income_tax r\<bar> \<le> 5)
    \<and> (let r = calculate_payroll_income_tax t (Some a) None in
            pit_income_tax r = a \<and> pit_local_income_tax r mod 10 = 0 \<and> 0 \<le> pit_local_income_tax r)"
proof
  define n where "n = lookup_simplified_income_tax t"
  have n: "0 \<le> n" "n < 2 ^ 30" using lookup_range[of t] assms(1) by (auto simp: n_def)
  have "of_int n * 0.10 - 51 / 100 \<le> (of_int (round_won (of_i64 n * local_tax_rate)) :: rat)"
    "of_int (round_won (of_i64 n * local_tax_rate)) \<le> of_int n * 0.10 + (51 / 100 :: rat)"
    using round_won_share_sides[of n "0.10"] n unfolding local_tax_rate_def by simp_all
  then have "of_int (10 * round_won (of_i64 n * local_tax_rate) - n) < (of_int 6 :: rat)"
    "of_int (- 6) < (of_int (10 * round_won (of_i64 n * local_tax_rate) - n) :: rat)"
    by simp_all
  then have "\<bar>10 * round_won (of_i64 n * local_tax_rate) - n\<bar> \<le> 5"
    unfolding of_int_less_iff by linarith
  then show "let r = calculate_payroll_income_tax t None loc in
      \<bar>10 * pit_local_income_tax r - pit_income_tax r\<bar> \<le> 5"
    by (simp add: calculate_table_tax n_def)
  show "let r = calculate_payroll_income_tax t (Some a) None in
      pit_income_tax r = a \<and> pit_local_income_tax r mod 10 = 0 \<and> 0 \<le> pit_local_income_tax r"
    using local_tax_tens[of a] assms by (simp add: calculate_preset_tax Let_def)
qed

theorem local_income_tax_tenth_witness:
  "\<bar>10 * pit_local_income_tax (calculate_payroll_income_tax 2700000 None None) - 210000\<bar> \<le> 5
   \<and> pit_local_income_tax (calculate_payroll_income_tax 3550000 (Some 123456) None) mod 10 = 0"
  using local_income_tax_tenth[of 2700000 1 None] local_income_tax_tenth[of 3550000 123456]
  by (simp add: calculate_table_tax lookup_simplified_income_tax_def simplified_tax_table_def Let_def)

end
