(* ===== verification/Reconciliation.thy ===== *)
theory Reconciliation
  imports Deductions
begin

text \<open>
  Period reconciliation: \<open>crates/payroll-api/src/reconciliation.rs\<close>.  A worker's ledger
  figures are checked against their own component sum and against the deduction engine, and
  a period aggregates the workers.  The counters of workers are \<open>u64\<close> in the code and stay
  below the length of a list, so they are plain integers here.
\<close>

section \<open>Data\<close>

record ledger_worker =
  lw_employee_key :: string
  lw_name :: string
  lw_gross :: i64
  lw_income_tax :: i64
  lw_local_income_tax :: i64
  lw_health_insurance :: i64
  lw_national_pension :: i64
  lw_employment_insurance :: i64
  lw_total_deductions :: i64
  lw_net :: i64

definition insurance_total :: "ledger_worker \<Rightarrow> i64" where
  "insurance_total w =
     i64_add (i64_add (lw_national_pension w) (lw_health_insurance w)) (lw_employment_insurance w)"

definition component_sum :: "ledger_worker \<Rightarrow> i64" where
  "component_sum w =
     i64_add (i64_add (i64_add (i64_add (lw_income_tax w) (lw_local_income_tax w))
       (lw_health_insurance w)) (lw_national_pension w)) (lw_employment_insurance w)"

record worker_reconciliation =
  wr_employee_key :: string
  wr_name :: string
  wr_gross :: i64
  wr_source_deductions :: i64
  wr_source_net :: i64
  wr_computed_net :: i64
  wr_net_match :: bool
  wr_source_tax :: i64
  wr_recomputed_tax :: i64
  wr_tax_variance :: i64
  wr_recomputed_income_tax :: i64
  wr_recomputed_local_income_tax :: i64
  wr_recompute_method :: payroll_tax_method

record reconciliation_totals =
  rt_gross :: i64
  rt_total_deductions :: i64
  rt_net :: i64
  rt_workers :: u64
  rt_net_match_count :: u64
  rt_all_net_match :: bool
  rt_source_tax :: i64
  rt_recomputed_tax :: i64
  rt_tax_variance :: i64

record reconciliation_report =
  rr_period :: string
  rr_workers :: "worker_reconciliation list"
  rr_totals :: reconciliation_totals

section \<open>Operations\<close>

definition reconcile_worker :: "ledger_worker \<Rightarrow> worker_reconciliation" where
  "reconcile_worker worker =
     (let ins = insurance_total worker;
          recompute =
            finalize_payroll_deductions (payroll_deduction_input_new (lw_gross worker) ins);
          source_tax = i64_add (lw_income_tax worker) (lw_local_income_tax worker);
          recomputed_tax = pdr_tax_total recompute;
          ledger_total_deductions = i64_add source_tax ins;
          computed_net = i64_sub (lw_gross worker) ledger_total_deductions
      in \<lparr>wr_employee_key = lw_employee_key worker,
          wr_name = lw_name worker,
          wr_gross = lw_gross worker,
          wr_source_deductions = lw_total_deductions worker,
          wr_source_net = lw_net worker,
          wr_computed_net = computed_net,
          wr_net_match = (computed_net = lw_net worker),
          wr_source_tax = source_tax,
          wr_recomputed_tax = recomputed_tax,
          wr_tax_variance = i64_sub recomputed_tax source_tax,
          wr_recomputed_income_tax = pdr_income_tax recompute,
          wr_recomputed_local_income_tax = pdr_local_income_tax recompute,
          wr_recompute_method = pdr_method recompute\<rparr>)"

text \<open>One turn of the aggregation loop.\<close>

definition add_worker :: "worker_reconciliation \<Rightarrow> reconciliation_totals \<Rightarrow> reconciliation_totals" where
  "add_worker worker totals =
     (let totals = totals\<lparr>rt_gross := i64_add (rt_gross totals) (wr_gross worker),
            rt_total_deductions := i64_add (rt_total_deductions totals) (wr_source_deductions worker),
            rt_net := i64_add (rt_net totals) (wr_source_net worker),
            rt_source_tax := i64_add (rt_source_tax totals) (wr_source_tax worker),
            rt_recomputed_tax := i64_add (rt_recomputed_tax totals) (wr_recomputed_tax worker)\<rparr>
      in if wr_net_match worker
         then totals\<lparr>rt_net_match_count := rt_net_match_count totals + 1\<rparr>
         else totals\<lparr>rt_all_net_match := False\<rparr>)"

definition totals_start :: "nat \<Rightarrow> reconciliation_totals" where
  "totals_start n = \<lparr>rt_gross = 0, rt_total_deductions = 0, rt_net = 0, rt_workers = int n,
     rt_net_match_count = 0, rt_all_net_match = True, rt_source_tax = 0, rt_recomputed_tax = 0,
     rt_tax_variance = 0\<rparr>"

definition reconcile_period :: "string \<Rightarrow> ledger_worker list \<Rightarrow> reconciliation_report" where
  "reconcile_period period ledger =
     (let workers = map reconcile_worker ledger;
          totals = fold add_worker workers (totals_start (length workers));
          totals = totals\<lparr>rt_tax_variance := i64_sub (rt_recomputed_tax totals) (rt_source_tax totals)\<rparr>
      in \<lparr>rr_period = period, rr_workers = workers, rr_totals = totals\<rparr>)"

section \<open>The aggregation loop\<close>

lemma add_worker_frame [simp]:
  "rt_workers (add_worker w t) = rt_workers t"
  "rt_gross (add_worker w t) = i64_add (rt_gross t) (wr_gross w)"
  "rt_total_deductions (add_worker w t) = i64_add (rt_total_deductions t) (wr_source_deductions w)"
  "rt_net (add_worker w t) = i64_add (rt_net t) (wr_source_net w)"
  "rt_source_tax (add_worker w t) = i64_add (rt_source_tax t) (wr_source_tax w)"
  "rt_recomputed_tax (add_worker w t) = i64_add (rt_recomputed_tax t) (wr_recomputed_tax w)"
  "rt_net_match_count (add_worker w t) = rt_net_match_count t + (if wr_net_match w then 1 else 0)"
  "rt_all_net_match (add_worker w t) \<longleftrightarrow> rt_all_net_match t \<and> wr_net_match w"
  by (simp_all add: add_worker_def Let_def)

text \<open>A running 64-bit total is the wrapped mathematical sum.\<close>

lemma fold_wrapped_sum:
  assumes "\<And>w t. f (g w t) = i64_add (f t) (v w)"
  shows "f (fold g ws t) = (if ws = [] then f t else wrap64 (f t + sum_list (map v ws)))"
proof (induction ws arbitrary: t)
  case (Cons w ws)
  then have "f (fold g (w # ws) t) = wrap64 (f t + v w + sum_list (map v ws))"
    by (simp add: assms i64_add_def i64_simps)
  then show ?case by (simp add: ac_simps)
qed simp

lemma fold_totals:
  "rt_workers (fold add_worker ws t) = rt_workers t"
  "rt_net_match_count (fold add_worker ws t)
     = rt_net_match_count t + int (length (filter wr_net_match ws))"
  "rt_all_net_match (fold add_worker ws t) \<longleftrightarrow> rt_all_net_match t \<and> list_all wr_net_match ws"
  by (induction ws arbitrary: t) auto

lemma wrapped_sums:
  "rt_gross (fold add_worker ws (totals_start n)) = wrap64 (sum_list (map wr_gross ws))"
  "rt_total_deductions (fold add_worker ws (totals_start n)) = wrap64 (sum_list (map wr_source_deductions ws))"
  "rt_net (fold add_worker ws (totals_start n)) = wrap64 (sum_list (map wr_source_net ws))"
  "rt_source_tax (fold add_worker ws (totals_start n)) = wrap64 (sum_list (map wr_source_tax ws))"
  "rt_recomputed_tax (fold add_worker ws (totals_start n)) = wrap64 (sum_list (map wr_recomputed_tax ws))"
  using wrap64_id[of 0]
  by (simp_all add: fold_wrapped_sum[of rt_gross add_worker wr_gross]
      fold_wrapped_sum[of rt_total_deductions add_worker wr_source_deductions]
      fold_wrapped_sum[of rt_net add_worker wr_source_net]
      fold_wrapped_sum[of rt_source_tax add_worker wr_source_tax]
      fold_wrapped_sum[of rt_recomputed_tax add_worker wr_recomputed_tax]
      totals_start_def is_i64_def)

lemma list_all_count: "list_all P xs \<longleftrightarrow> int (length (filter P xs)) = int (length xs)"
proof (induction xs)
  case (Cons x xs)
  have "length (filter P xs) \<noteq> Suc (length xs)" using length_filter_le[of P xs] by linarith
  with Cons show ?case by auto
qed simp

lemma list_all_map_iff: "list_all P (map f xs) \<longleftrightarrow> list_all (\<lambda>x. P (f x)) xs"
  by (simp add: list_all_iff)

lemma reconcile_period_sums:
  "rt_workers (rr_totals (reconcile_period p ledger)) = int (length ledger)"
  "rt_gross (rr_totals (reconcile_period p ledger)) = wrap64 (sum_list (map lw_gross ledger))"
  "rt_net (rr_totals (reconcile_period p ledger)) = wrap64 (sum_list (map lw_net ledger))"
  "rt_total_deductions (rr_totals (reconcile_period p ledger)) = wrap64 (sum_list (map lw_total_deductions ledger))"
proof -
  have fields: "wr_gross \<circ> reconcile_worker = lw_gross" "wr_source_net \<circ> reconcile_worker = lw_net"
    "wr_source_deductions \<circ> reconcile_worker = lw_total_deductions"
    by (simp_all add: fun_eq_iff reconcile_worker_def Let_def)
  show "rt_workers (rr_totals (reconcile_period p ledger)) = int (length ledger)"
    by (simp add: reconcile_period_def Let_def fold_totals) (simp add: totals_start_def)
  show "rt_gross (rr_totals (reconcile_period p ledger)) = wrap64 (sum_list (map lw_gross ledger))"
    "rt_net (rr_totals (reconcile_period p ledger)) = wrap64 (sum_list (map lw_net ledger))"
    "rt_total_deductions (rr_totals (reconcile_period p ledger)) = wrap64 (sum_list (map lw_total_deductions ledger))"
    by (simp_all add: reconcile_period_def Let_def wrapped_sums fields)
qed

section \<open>Properties\<close>

text \<open>
  The integrity check of a worker is the direct ledger identity: the computed net is
  gross minus the worker's own component sum (in 64-bit arithmetic), whatever the deduction
  engine recomputes, and the match flag says exactly that the recorded net equals it; the
  tax variance is the engine's tax minus the recorded tax.
\<close>

theorem reconcile_worker_identity:
  "let r = reconcile_worker w in
     wr_computed_net r = i64_sub (lw_gross w) (component_sum w) \<and>
     (wr_net_match r \<longleftrightarrow> lw_net w = i64_sub (lw_gross w) (component_sum w)) \<and>
     wr_source_tax r = i64_add (lw_income_tax w) (lw_local_income_tax w) \<and>
     wr_tax_variance r = i64_sub (wr_recomputed_tax r) (wr_source_tax r)"
proof -
  have "i64_add (i64_add (lw_income_tax w) (lw_local_income_tax w)) (insurance_total w) = component_sum w"
    by (simp add: i64_add_def insurance_total_def component_sum_def i64_simps) (simp add: ac_simps)
  then show ?thesis by (auto simp: reconcile_worker_def Let_def)
qed

text \<open>
  A period report keeps the workers in ledger order, its totals are the 64-bit sums of
  the ledger's figures, the match counter counts the matching workers, and the period
  matches exactly when every worker does, that is when the counter reaches the number of
  workers.
\<close>

theorem reconcile_period_totals:
  "let r = reconcile_period p ledger; t = rr_totals r in
     rr_workers r = map reconcile_worker ledger \<and>
     rt_workers t = int (length ledger) \<and>
     rt_gross t = wrap64 (sum_list (map lw_gross ledger)) \<and>
     rt_net t = wrap64 (sum_list (map lw_net ledger)) \<and>
     rt_total_deductions t = wrap64 (sum_list (map lw_total_deductions ledger)) \<and>
     rt_net_match_count t = int (length (filter (\<lambda>w. wr_net_match (reconcile_worker w)) ledger)) \<and>
     (rt_all_net_match t \<longleftrightarrow> list_all (\<lambda>w. wr_net_match (reconcile_worker w)) ledger) \<and>
     (rt_all_net_match t \<longleftrightarrow> rt_net_match_count t = rt_workers t) \<and>
     rt_tax_variance t
       = wrap64 (sum_list (map (\<lambda>w. wr_recomputed_tax (reconcile_worker w)
                                   - wr_source_tax (reconcile_worker w)) ledger))"
proof -
  define ws where "ws = map reconcile_worker ledger"
  define t where "t = fold add_worker ws (totals_start (length ws))"
  have rep: "rr_workers (reconcile_period p ledger) = ws"
    "rr_totals (reconcile_period p ledger)
      = t\<lparr>rt_tax_variance := i64_sub (rt_recomputed_tax t) (rt_source_tax t)\<rparr>"
    by (simp_all add: reconcile_period_def Let_def ws_def t_def)
  have var: "i64_sub (rt_recomputed_tax t) (rt_source_tax t)
      = wrap64 (sum_list (map (\<lambda>w. wr_recomputed_tax (reconcile_worker w)
                                   - wr_source_tax (reconcile_worker w)) ledger))"
    unfolding t_def wrapped_sums by (simp add: ws_def i64_sub_def i64_simps sum_list_subtractf comp_def)
  have counts: "rt_workers t = int (length ledger)"
    "rt_net_match_count t = int (length (filter (\<lambda>w. wr_net_match (reconcile_worker w)) ledger))"
    "rt_all_net_match t \<longleftrightarrow> list_all (\<lambda>w. wr_net_match (reconcile_worker w)) ledger"
    unfolding t_def fold_totals
    by (simp_all add: totals_start_def ws_def filter_map comp_def list_all_map_iff)
  have sums: "rt_gross t = wrap64 (sum_list (map lw_gross ledger))"
    "rt_net t = wrap64 (sum_list (map lw_net ledger))"
    "rt_total_deductions t = wrap64 (sum_list (map lw_total_deductions ledger))"
    using reconcile_period_sums[of p ledger] by (simp_all add: rep)
  show ?thesis
    unfolding Let_def rep using sums var counts list_all_count by (simp add: ws_def)
qed

end
