(* ===== verification/Earnings.thy ===== *)
theory Earnings
  imports Rounding
begin

text \<open>
  Gross pay: \<open>crates/payroll-api/src/earnings.rs\<close>.  The ordinary hourly wage, the premiums,
  the allowances and the split of the gross pay into its taxable and its non-taxable part.
  The module's \<open>round_won\<close> is \<open>round_won_safe\<close>.
\<close>

section \<open>Data\<close>

definition standard_monthly_hours :: f64 where
  "standard_monthly_hours = lit 209"

definition meal_allowance_per_day :: f64 where
  "meal_allowance_per_day = lit 5500"

definition meal_non_taxable_cap :: i64 where
  "meal_non_taxable_cap = 200000"

definition overtime_premium :: f64 where
  "overtime_premium = lit 1.5"

definition night_premium :: f64 where
  "night_premium = lit 0.5"

definition holiday_premium :: f64 where
  "holiday_premium = lit 1.5"

definition overlap_premium :: f64 where
  "overlap_premium = lit 0.5"

record payroll_earnings_input =
  pei_base_salary :: f64
  pei_fixed_allowance :: f64
  pei_ordinary_hourly :: f64
  pei_overtime_hours :: f64
  pei_night_hours :: f64
  pei_holiday_hours :: f64
  pei_overtime_amount_raw :: f64
  pei_night_amount_raw :: f64
  pei_holiday_amount_raw :: f64
  pei_meal_days :: f64
  pei_transport_allowance :: f64
  pei_other_pay :: f64
  pei_additional_pay :: f64
  pei_weekly_work_hours :: f64

definition payroll_earnings_input_new :: payroll_earnings_input where
  "payroll_earnings_input_new =
     \<lparr>pei_base_salary = 0, pei_fixed_allowance = 0, pei_ordinary_hourly = 0,
      pei_overtime_hours = 0, pei_night_hours = 0, pei_holiday_hours = 0,
      pei_overtime_amount_raw = 0, pei_night_amount_raw = 0, pei_holiday_amount_raw = 0,
      pei_meal_days = 0, pei_transport_allowance = 0, pei_other_pay = 0,
      pei_additional_pay = 0, pei_weekly_work_hours = lit 40\<rparr>"

definition pei_with_base_salary :: "f64 \<Rightarrow> payroll_earnings_input \<Rightarrow> payroll_earnings_input" where
  "pei_with_base_salary amount i = i\<lparr>pei_base_salary := amount\<rparr>"

definition pei_with_fixed_allowance :: "f64 \<Rightarrow> payroll_earnings_input \<Rightarrow> payroll_earnings_input" where
  "pei_with_fixed_allowance amount i = i\<lparr>pei_fixed_allowance := amount\<rparr>"

definition pei_with_ordinary_hourly :: "f64 \<Rightarrow> payroll_earnings_input \<Rightarrow> payroll_earnings_input" where
  "pei_with_ordinary_hourly amount i = i\<lparr>pei_ordinary_hourly := amount\<rparr>"

definition pei_with_overtime_hours :: "f64 \<Rightarrow> payroll_earnings_input \<Rightarrow> payroll_earnings_input" where
  "pei_with_overtime_hours hours i = i\<lparr>pei_overtime_hours := hours\<rparr>"

definition pei_with_night_hours :: "f64 \<Rightarrow> payroll_earnings_input \<Rightarrow> payroll_earnings_input" where
  "pei_with_night_hours hours i = i\<lparr>pei_night_hours := hours\<rparr>"

definition pei_with_holiday_hours :: "f64 \<Rightarrow> payroll_earnings_input \<Rightarrow> payroll_earnings_input" where
  "pei_with_holiday_hours hours i = i\<lparr>pei_holiday_hours := hours\<rparr>"

definition pei_with_overtime_amount_raw :: "f64 \<Rightarrow> payroll_earnings_input \<Rightarrow> payroll_earnings_input" where
  "pei_with_overtime_amount_raw amount i = i\<lparr>pei_overtime_amount_raw := amount\<rparr>"

definition pei_with_night_amount_raw :: "f64 \<Rightarrow> payroll_earnings_input \<Rightarrow> payroll_earnings_input" where
  "pei_with_night_amount_raw amount i = i\<lparr>pei_night_amount_raw := amount\<rparr>"

definition pei_with_holiday_amount_raw :: "f64 \<Rightarrow> payroll_earnings_input \<Rightarrow> payroll_earnings_input" where
  "pei_with_holiday_amount_raw amount i = i\<lparr>pei_holiday_amount_raw := amount\<rparr>"

definition pei_with_meal_days :: "f64 \<Rightarrow> payroll_earnings_input \<Rightarrow> payroll_earnings_input" where
  "pei_with_meal_days days i = i\<lparr>pei_meal_days := days\<rparr>"

definition pei_with_transport_allowance :: "f64 \<Rightarrow> payroll_earnings_input \<Rightarrow> payroll_earnings_input" where
  "pei_with_transport_allowance amount i = i\<lparr>pei_transport_allowance := amount\<rparr>"

definition pei_with_other_pay :: "f64 \<Rightarrow> payroll_earnings_input \<Rightarrow> payroll_earnings_input" where
  "pei_with_other_pay amount i = i\<lparr>pei_other_pay := amount\<rparr>"

definition pei_with_additional_pay :: "f64 \<Rightarrow> payroll_earnings_input \<Rightarrow> payroll_earnings_input" where
  "pei_with_additional_pay amount i = i\<lparr>pei_additional_pay := amount\<rparr>"

definition pei_with_weekly_work_hours :: "f64 \<Rightarrow> payroll_earnings_input \<Rightarrow> payroll_earnings_input" where
  "pei_with_weekly_work_hours hours i = i\<lparr>pei_weekly_work_hours := hours\<rparr>"

record payroll_earnings_breakdown =
  peb_base_salary :: i64
  peb_fixed_allowance :: i64
  peb_overtime :: i64
  peb_night :: i64
  peb_holiday :: i64
  peb_overlap_premium :: i64
  peb_weekly_holiday :: i64
  peb_meal :: i64
  peb_transport :: i64
  peb_other :: i64
  peb_additional :: i64

record payroll_earnings_hours =
  peh_overtime :: f64
  peh_night :: f64
  peh_holiday :: f64

record payroll_earnings_result =
  per_ordinary_hourly :: f64
  per_hours :: payroll_earnings_hours
  per_earnings :: payroll_earnings_breakdown
  per_gross_pay :: i64
  per_taxable_pay :: i64
  per_non_taxable_pay :: i64

section \<open>Operations\<close>

definition calculate_ordinary_hourly :: "f64 \<Rightarrow> f64 \<Rightarrow> f64 \<Rightarrow> f64" where
  "calculate_ordinary_hourly base_salary fixed_allowance preset =
     (let preset = safe_number preset in
      if preset > 0 then preset
      else
        let total = safe_number base_salary + safe_number fixed_allowance in
        if total \<le> 0 then 0 else total / standard_monthly_hours)"

definition calculate_weekly_holiday_pay :: "f64 \<Rightarrow> f64 \<Rightarrow> i64" where
  "calculate_weekly_holiday_pay ordinary_hourly weekly_work_hours =
     (let ordinary_hourly = safe_number ordinary_hourly in
      if ordinary_hourly \<le> 0 then 0
      else
        let ratio = f64_min (safe_number weekly_work_hours) (lit 40) / lit 40;
            hours = lit 8 * ratio
        in round_won_safe (ordinary_hourly * hours))"

definition calculate_overlap_premium :: "f64 \<Rightarrow> f64 \<Rightarrow> f64 \<Rightarrow> i64" where
  "calculate_overlap_premium overtime_hours night_hours ordinary_hourly =
     (let overlap = f64_min (f64_max (safe_number overtime_hours) 0)
                            (f64_max (safe_number night_hours) 0)
      in round_won_safe (overlap * safe_number ordinary_hourly * overlap_premium))"

definition is_likely_hours :: "f64 \<Rightarrow> f64 \<Rightarrow> bool" where
  "is_likely_hours value ordinary_hourly =
     (if value \<le> 0 then False
      else if value \<le> lit 300 then
        let expected_pay = safe_number ordinary_hourly * overtime_premium * value in
        if lit 1000 \<le> value then False
        else if expected_pay > 0 \<and> f64_abs (value - expected_pay) / expected_pay < lit 0.05 then False
        else True
      else False)"

definition round_to_cents :: "f64 \<Rightarrow> f64" where
  "round_to_cents amount = round_ties_even (amount * lit 100) / lit 100"

text \<open>
  The guard that the overtime, night and holiday amounts share: the raw amount stands in for
  a computed amount that is not positive, unless it looks like a number of hours.
\<close>

definition uses_raw :: "i64 \<Rightarrow> f64 \<Rightarrow> f64 \<Rightarrow> bool" where
  "uses_raw computed raw ordinary_hourly \<longleftrightarrow>
     computed \<le> 0 \<and> raw > 0 \<and> \<not> is_likely_hours raw ordinary_hourly"

definition earnings_sum :: "payroll_earnings_breakdown \<Rightarrow> i64" where
  "earnings_sum e =
     foldl i64_add (peb_base_salary e)
       [peb_fixed_allowance e, peb_overtime e, peb_night e, peb_holiday e, peb_overlap_premium e,
        peb_weekly_holiday e, peb_meal e, peb_transport e, peb_other e, peb_additional e]"

definition calculate_payroll_earnings :: "payroll_earnings_input \<Rightarrow> payroll_earnings_result" where
  "calculate_payroll_earnings input =
     (let base_salary = safe_number (pei_base_salary input);
          fixed_allowance = safe_number (pei_fixed_allowance input);
          ordinary_hourly =
            calculate_ordinary_hourly base_salary fixed_allowance (pei_ordinary_hourly input);
          overtime_hours = safe_number (pei_overtime_hours input);
          night_hours = safe_number (pei_night_hours input);
          holiday_hours = safe_number (pei_holiday_hours input);
          overtime_amount = round_won_safe (overtime_hours * ordinary_hourly * overtime_premium);
          overtime_raw = safe_number (pei_overtime_amount_raw input);
          (overtime_amount, overtime_hours) =
            (if uses_raw overtime_amount overtime_raw ordinary_hourly
             then (round_won_safe overtime_raw,
                   if ordinary_hourly > 0
                   then overtime_raw / (ordinary_hourly * overtime_premium)
                   else overtime_hours)
             else (overtime_amount, overtime_hours));
          night_amount = round_won_safe (night_hours * ordinary_hourly * night_premium);
          night_raw = safe_number (pei_night_amount_raw input);
          night_amount =
            (if uses_raw night_amount night_raw ordinary_hourly
             then round_won_safe night_raw else night_amount);
          holiday_amount = round_won_safe (holiday_hours * ordinary_hourly * holiday_premium);
          holiday_raw = safe_number (pei_holiday_amount_raw input);
          holiday_amount =
            (if uses_raw holiday_amount holiday_raw ordinary_hourly
             then round_won_safe holiday_raw else holiday_amount);
          overlap_amount = calculate_overlap_premium overtime_hours night_hours ordinary_hourly;
          meal_allowance =
            round_won_safe (safe_number (pei_meal_days input) * meal_allowance_per_day);
          transport = round_won_safe (pei_transport_allowance input);
          other_pay = round_won_safe (pei_other_pay input);
          additional_pay = round_won_safe (pei_additional_pay input);
          weekly_holiday_pay =
            calculate_weekly_holiday_pay ordinary_hourly (pei_weekly_work_hours input);
          base_salary =
            (if base_salary \<le> 0 \<and> ordinary_hourly > 0
             then of_i64 (round_won_safe (ordinary_hourly * standard_monthly_hours))
             else base_salary);
          earnings =
            \<lparr>peb_base_salary = round_won_safe base_salary,
             peb_fixed_allowance = round_won_safe fixed_allowance,
             peb_overtime = overtime_amount,
             peb_night = night_amount,
             peb_holiday = holiday_amount,
             peb_overlap_premium = overlap_amount,
             peb_weekly_holiday = weekly_holiday_pay,
             peb_meal = meal_allowance,
             peb_transport = transport,
             peb_other = other_pay,
             peb_additional = additional_pay\<rparr>;
          gross_pay = earnings_sum earnings;
          non_taxable_pay = min meal_allowance meal_non_taxable_cap;
          taxable_pay = i64_sub gross_pay non_taxable_pay
      in \<lparr>per_ordinary_hourly = round_to_cents ordinary_hourly,
          per_hours = \<lparr>peh_overtime = overtime_hours, peh_night = night_hours,
                       peh_holiday = holiday_hours\<rparr>,
          per_earnings = earnings,
          per_gross_pay = gross_pay,
          per_taxable_pay = round_won_safe (of_i64 taxable_pay),
          per_non_taxable_pay = round_won_safe (of_i64 non_taxable_pay)\<rparr>)"

section \<open>Ranges\<close>

text \<open>Amounts up to 10 ^ 9 won, hours, days and weekly hours up to 1,000.\<close>

definition earnings_input_bounded :: "payroll_earnings_input \<Rightarrow> bool" where
  "earnings_input_bounded i \<longleftrightarrow>
     f64_in 0 (10 ^ 9) (pei_base_salary i) \<and> f64_in 0 (10 ^ 9) (pei_fixed_allowance i) \<and>
     f64_in 0 (10 ^ 9) (pei_ordinary_hourly i) \<and>
     f64_in 0 1000 (pei_overtime_hours i) \<and> f64_in 0 1000 (pei_night_hours i) \<and>
     f64_in 0 1000 (pei_holiday_hours i) \<and>
     f64_in 0 (10 ^ 9) (pei_overtime_amount_raw i) \<and> f64_in 0 (10 ^ 9) (pei_night_amount_raw i) \<and>
     f64_in 0 (10 ^ 9) (pei_holiday_amount_raw i) \<and> f64_in 0 1000 (pei_meal_days i) \<and>
     f64_in 0 (10 ^ 9) (pei_transport_allowance i) \<and> f64_in 0 (10 ^ 9) (pei_other_pay i) \<and>
     f64_in 0 (10 ^ 9) (pei_additional_pay i) \<and> f64_in 0 1000 (pei_weekly_work_hours i)"

lemma premium_ranges:
  "f64_in 0 2 overtime_premium" "f64_in 0 1 night_premium" "f64_in 0 2 holiday_premium"
  "f64_in 0 1 overlap_premium" "f64_in 0 5500 meal_allowance_per_day"
  "f64_in 1 209 standard_monthly_hours" "f64_in 0 209 standard_monthly_hours"
  by (simp_all add: overtime_premium_def night_premium_def holiday_premium_def overlap_premium_def
      meal_allowance_per_day_def standard_monthly_hours_def f64_in_lit)

lemma ordinary_hourly_range:
  assumes "f64_in 0 (10 ^ 9) base" "f64_in 0 (10 ^ 9) allowance" "f64_in 0 (10 ^ 9) preset"
  shows "f64_in 0 (2 * 10 ^ 9) (calculate_ordinary_hourly base allowance preset)"
proof -
  have "f64_in 0 (2 * 10 ^ 9) (base + allowance)"
    using f64_in_add[OF assms(1,2)] by simp
  then have "f64_in 0 (2 * 10 ^ 9) ((base + allowance) / standard_monthly_hours)"
    by (rule f64_in_div[OF _ premium_ranges(6)]) simp
  then show ?thesis
    using f64_in_weaken[OF assms(3), of 0 "2 * 10 ^ 9"]
    by (simp add: calculate_ordinary_hourly_def Let_def f64_in_safe_eq[OF assms(1)]
        f64_in_safe_eq[OF assms(2)] f64_in_safe_eq[OF assms(3)] f64_in_zero)
qed

text \<open>Hours times an hourly wage times a premium.\<close>

lemma premium_pay_range:
  assumes "f64_in 0 1000 h" "f64_in 0 (2 * 10 ^ 9) w" "f64_in 0 2 p"
  shows "0 \<le> round_won_safe (h * w * p)" and "round_won_safe (h * w * p) \<le> 4 * 10 ^ 12"
proof -
  have "f64_in 0 (1000 * (2 * 10 ^ 9) * 2) (h * w * p)"
    by (intro f64_in_mult assms) simp_all
  from won_safe.between[OF this]
  show "0 \<le> round_won_safe (h * w * p)" and "round_won_safe (h * w * p) \<le> 4 * 10 ^ 12" by simp_all
qed

lemma weekly_holiday_range:
  assumes "f64_in 0 (2 * 10 ^ 9) w" "f64_in 0 1000 h"
  shows "0 \<le> calculate_weekly_holiday_pay w h" and "calculate_weekly_holiday_pay w h \<le> 8 * 10 ^ 11"
proof -
  have l: "f64_in 0 40 (lit 40)" "f64_in 1 40 (lit 40)" "f64_in 0 8 (lit 8)"
    by (intro f64_in_lit; simp)+
  have "f64_in 0 40 (f64_min h (lit 40))" using f64_in_min[OF assms(2) l(1)] by simp
  then have "f64_in 0 40 (f64_min h (lit 40) / lit 40)"
    by (rule f64_in_div[OF _ l(2)]) simp
  then have "f64_in 0 (2 * 10 ^ 9 * (8 * 40)) (w * (lit 8 * (f64_min h (lit 40) / lit 40)))"
    by (intro f64_in_mult assms l) simp_all
  from won_safe.between[OF this]
  show "0 \<le> calculate_weekly_holiday_pay w h" and "calculate_weekly_holiday_pay w h \<le> 8 * 10 ^ 11"
    by (simp_all add: calculate_weekly_holiday_pay_def Let_def f64_in_safe_eq[OF assms(1)]
        f64_in_safe_eq[OF assms(2)])
qed

text \<open>The overlap is at most the night hours, whatever the overtime hours are.\<close>

lemma overlap_range:
  assumes "f64_in 0 1000 n" "f64_in 0 (2 * 10 ^ 9) w"
  shows "0 \<le> calculate_overlap_premium ov n w" and "calculate_overlap_premium ov n w \<le> 4 * 10 ^ 12"
proof -
  obtain a where a: "safe_number ov = Fin a" using safe_number_cases by blast
  from assms(1) obtain b where b: "n = Fin b" "0 \<le> b" "b \<le> 1000" by (elim f64_inE) simp
  have "f64_in 0 1000 (f64_min (f64_max (safe_number ov) 0) (f64_max (safe_number n) 0))"
    unfolding a b(1) using b(2,3) by (simp add: f64_simps)
  moreover have "f64_in 0 2 overlap_premium"
    by (rule f64_in_weaken[OF premium_ranges(4)]) simp_all
  ultimately show "0 \<le> calculate_overlap_premium ov n w"
    "calculate_overlap_premium ov n w \<le> 4 * 10 ^ 12"
    using premium_pay_range[OF _ assms(2)]
    by (simp_all add: calculate_overlap_premium_def Let_def f64_in_safe_eq[OF assms(2)])
qed

text \<open>Eleven bounded earnings add up without a wrap.\<close>

lemma earnings_sum_exact:
  assumes "\<forall>x \<in> set [peb_base_salary e, peb_fixed_allowance e, peb_overtime e, peb_night e,
      peb_holiday e, peb_overlap_premium e, peb_weekly_holiday e, peb_meal e, peb_transport e,
      peb_other e, peb_additional e]. 0 \<le> x \<and> x \<le> 4 * 10 ^ 12"
  shows "earnings_sum e = peb_base_salary e + peb_fixed_allowance e + peb_overtime e + peb_night e
      + peb_holiday e + peb_overlap_premium e + peb_weekly_holiday e + peb_meal e + peb_transport e
      + peb_other e + peb_additional e"
  using assms by (simp add: earnings_sum_def i64_add_def wrap64_id is_i64_def)

definition breakdown_amounts :: "payroll_earnings_breakdown \<Rightarrow> i64 list" where
  "breakdown_amounts e =
     [peb_base_salary e, peb_fixed_allowance e, peb_overtime e, peb_night e, peb_holiday e,
      peb_overlap_premium e, peb_weekly_holiday e, peb_meal e, peb_transport e, peb_other e,
      peb_additional e]"

lemma breakdown_range:
  assumes "earnings_input_bounded i"
  shows "\<forall>x \<in> set (breakdown_amounts (per_earnings (calculate_payroll_earnings i))).
    0 \<le> x \<and> x \<le> 4 * 10 ^ 12"
proof -
  note b = assms[unfolded earnings_input_bounded_def]
  define w where "w = calculate_ordinary_hourly (pei_base_salary i) (pei_fixed_allowance i)
    (pei_ordinary_hourly i)"
  have w: "f64_in 0 (2 * 10 ^ 9) w" unfolding w_def by (rule ordinary_hourly_range) (use b in blast)+
  have small: "0 \<le> round_won_safe x \<and> round_won_safe x \<le> 4 * 10 ^ 12" if "f64_in 0 (10 ^ 9) x" for x
    using won_safe.between[OF that] by simp
  have night: "f64_in 0 2 night_premium"
    by (rule f64_in_weaken[OF premium_ranges(2)]) simp_all
  have full: "f64_in 0 (2 * 10 ^ 9 * 209) (w * standard_monthly_hours)"
    by (intro f64_in_mult w premium_ranges) simp
  have base: "0 \<le> round_won_safe (of_i64 (round_won_safe (w * standard_monthly_hours)))"
    "round_won_safe (of_i64 (round_won_safe (w * standard_monthly_hours))) \<le> 4 * 10 ^ 12"
    using won_safe.between[OF full] won_safe.of_whole by simp_all
  have meal: "f64_in 0 (1000 * 5500) (pei_meal_days i * meal_allowance_per_day)"
    by (intro f64_in_mult premium_ranges) (use b in simp_all)
  have safe: "safe_number (pei_base_salary i) = pei_base_salary i"
    "safe_number (pei_fixed_allowance i) = pei_fixed_allowance i"
    "safe_number (pei_overtime_hours i) = pei_overtime_hours i"
    "safe_number (pei_night_hours i) = pei_night_hours i"
    "safe_number (pei_holiday_hours i) = pei_holiday_hours i"
    "safe_number (pei_overtime_amount_raw i) = pei_overtime_amount_raw i"
    "safe_number (pei_night_amount_raw i) = pei_night_amount_raw i"
    "safe_number (pei_holiday_amount_raw i) = pei_holiday_amount_raw i"
    "safe_number (pei_meal_days i) = pei_meal_days i"
    using b by (blast intro: f64_in_safe_eq)+
  note pay = premium_pay_range[OF _ w]
  define P where "P x \<longleftrightarrow> 0 \<le> x \<and> x \<le> 4 * 10 ^ 12" for x :: i64
  have pay_ok: "P (round_won_safe (pei_overtime_hours i * w * overtime_premium))"
    "P (round_won_safe (pei_night_hours i * w * night_premium))"
    "P (round_won_safe (pei_holiday_hours i * w * holiday_premium))"
    using b pay[OF _ premium_ranges(1)] pay[OF _ premium_ranges(3)] pay[OF _ night]
    unfolding P_def by blast+
  have raw_ok: "P (round_won_safe (pei_base_salary i))" "P (round_won_safe (pei_fixed_allowance i))"
    "P (round_won_safe (pei_overtime_amount_raw i))" "P (round_won_safe (pei_night_amount_raw i))"
    "P (round_won_safe (pei_holiday_amount_raw i))" "P (round_won_safe (pei_transport_allowance i))"
    "P (round_won_safe (pei_other_pay i))" "P (round_won_safe (pei_additional_pay i))"
    using b small unfolding P_def by blast+
  have rest_ok: "P (calculate_overlap_premium ov (pei_night_hours i) w)"
    "P (calculate_weekly_holiday_pay w (pei_weekly_work_hours i))"
    "P (round_won_safe (pei_meal_days i * meal_allowance_per_day))"
    "P (round_won_safe (of_i64 (round_won_safe (w * standard_monthly_hours))))" for ov
    using b overlap_range[OF _ w, of "pei_night_hours i" ov] base
      weekly_holiday_range[OF w, of "pei_weekly_work_hours i"] won_safe.between[OF meal]
    unfolding P_def by simp_all
  show ?thesis
    unfolding breakdown_amounts_def calculate_payroll_earnings_def Let_def safe w_def[symmetric]
      P_def[symmetric]
    by (simp add: pay_ok raw_ok rest_ok split: prod.split)
qed

text \<open>The result for bounded inputs, in unbounded integers.\<close>

lemma earnings_result_exact:
  assumes "earnings_input_bounded i"
  defines "r \<equiv> calculate_payroll_earnings i"
  shows "per_gross_pay r = sum_list (breakdown_amounts (per_earnings r))"
    and "per_non_taxable_pay r = min (peb_meal (per_earnings r)) 200000"
    and "per_taxable_pay r = per_gross_pay r - per_non_taxable_pay r"
    and "0 \<le> per_non_taxable_pay r" and "0 \<le> per_taxable_pay r"
    and "per_gross_pay r \<le> 44 * 10 ^ 12"
proof -
  define e where "e = per_earnings r"
  have rng: "\<forall>x \<in> set (breakdown_amounts e). 0 \<le> x \<and> x \<le> 4 * 10 ^ 12"
    unfolding e_def r_def by (rule breakdown_range[OF assms(1)])
  then have g: "earnings_sum e = sum_list (breakdown_amounts e)"
    using earnings_sum_exact[of e] by (simp add: breakdown_amounts_def)
  have bounds: "0 \<le> sum_list (breakdown_amounts e)" "sum_list (breakdown_amounts e) \<le> 44 * 10 ^ 12"
    "peb_meal e \<le> sum_list (breakdown_amounts e)" "0 \<le> peb_meal e"
    using rng by (simp_all add: breakdown_amounts_def)
  define n where "n = min (peb_meal e) 200000"
  have n: "0 \<le> n" "n \<le> 200000" "n \<le> sum_list (breakdown_amounts e)"
    using bounds by (auto simp: n_def)
  have shape: "per_gross_pay r = earnings_sum e"
    "per_taxable_pay r = round_won_safe (of_i64 (i64_sub (earnings_sum e) n))"
    "per_non_taxable_pay r = round_won_safe (of_i64 n)"
    unfolding r_def e_def n_def calculate_payroll_earnings_def Let_def meal_non_taxable_cap_def
    by (simp_all split: prod.split)
  have sub: "i64_sub (earnings_sum e) n = sum_list (breakdown_amounts e) - n"
    using bounds n g by (simp add: i64_sub_def wrap64_id is_i64_def)
  have nt: "per_non_taxable_pay r = n" unfolding shape by (rule won_safe.of_whole) (use n in simp)
  have tx: "per_taxable_pay r = sum_list (breakdown_amounts e) - n"
    unfolding shape sub by (rule won_safe.of_whole) (use bounds n in simp)
  show "per_gross_pay r = sum_list (breakdown_amounts (per_earnings r))"
    "per_non_taxable_pay r = min (peb_meal (per_earnings r)) 200000"
    "per_taxable_pay r = per_gross_pay r - per_non_taxable_pay r"
    "0 \<le> per_non_taxable_pay r" "0 \<le> per_taxable_pay r" "per_gross_pay r \<le> 44 * 10 ^ 12"
    using nt tx shape(1) g bounds n by (simp_all add: e_def[symmetric] n_def)
qed

section \<open>Properties\<close>

text \<open>
  C23: for amounts up to 10 ^ 9 won and hours and days up to 1,000, no step of the earnings
  calculation overflows or loses a won: every item of the breakdown is non-negative, the
  gross pay is exactly the sum of the eleven items, the non-taxable pay is the meal
  allowance capped at 200,000 won, and the taxable pay (which the code computes through
  \<open>f64\<close>) is exactly the rest and not negative.
\<close>

theorem earnings_balance:
  assumes "earnings_input_bounded i"
  shows "let r = calculate_payroll_earnings i; e = per_earnings r in
    (\<forall>x \<in> set (breakdown_amounts e). 0 \<le> x) \<and>
    per_gross_pay r = peb_base_salary e + peb_fixed_allowance e + peb_overtime e + peb_night e
      + peb_holiday e + peb_overlap_premium e + peb_weekly_holiday e + peb_meal e
      + peb_transport e + peb_other e + peb_additional e \<and>
    per_non_taxable_pay r = min (peb_meal e) 200000 \<and>
    per_taxable_pay r + per_non_taxable_pay r = per_gross_pay r \<and>
    0 \<le> per_taxable_pay r"
  using breakdown_range[OF assms] earnings_result_exact[OF assms]
  by (simp add: Let_def) (simp add: breakdown_amounts_def)

theorem earnings_balance_witness:
  "let i = pei_with_base_salary (Fin 2090000) (pei_with_overtime_hours (Fin 10)
        (payroll_earnings_input_new \<lparr>pei_weekly_work_hours := Fin 40\<rparr>));
       r = calculate_payroll_earnings i in
   per_taxable_pay r + per_non_taxable_pay r = per_gross_pay r"
  using earnings_balance[of "pei_with_base_salary (Fin 2090000) (pei_with_overtime_hours (Fin 10)
        (payroll_earnings_input_new \<lparr>pei_weekly_work_hours := Fin 40\<rparr>))"]
  by (simp add: Let_def earnings_input_bounded_def pei_with_base_salary_def
      pei_with_overtime_hours_def payroll_earnings_input_new_def f64_simps)

text \<open>
  An amount computed from hours takes precedence over a raw amount: when the hours give
  a positive overtime, night and holiday amount, the raw amounts of the input do not change
  the result.
\<close>

theorem hours_override_raw_amounts:
  assumes "hourly = calculate_ordinary_hourly (safe_number (pei_base_salary i))
      (safe_number (pei_fixed_allowance i)) (pei_ordinary_hourly i)"
    and "0 < round_won_safe (safe_number (pei_overtime_hours i) * hourly * overtime_premium)"
    and "0 < round_won_safe (safe_number (pei_night_hours i) * hourly * night_premium)"
    and "0 < round_won_safe (safe_number (pei_holiday_hours i) * hourly * holiday_premium)"
  shows "calculate_payroll_earnings
      (pei_with_overtime_amount_raw x (pei_with_night_amount_raw y (pei_with_holiday_amount_raw z i)))
    = calculate_payroll_earnings i"
proof -
  have "\<not> uses_raw (round_won_safe (safe_number (pei_overtime_hours i) * hourly * overtime_premium)) r hourly"
    "\<not> uses_raw (round_won_safe (safe_number (pei_night_hours i) * hourly * night_premium)) r hourly"
    "\<not> uses_raw (round_won_safe (safe_number (pei_holiday_hours i) * hourly * holiday_premium)) r hourly" for r
    using assms(2-4) by (simp_all add: uses_raw_def)
  then show ?thesis
    unfolding calculate_payroll_earnings_def Let_def pei_with_overtime_amount_raw_def
      pei_with_night_amount_raw_def pei_with_holiday_amount_raw_def
    by (simp add: assms(1))
qed

lemma worked_hours_example:
  "0 < round_won_safe (safe_number (Fin 10) * Fin 10000 * overtime_premium)"
  "0 < round_won_safe (safe_number (Fin 10) * Fin 10000 * night_premium)"
  "0 < round_won_safe (safe_number (Fin 10) * Fin 10000 * holiday_premium)"
  by code_simp+

theorem hours_override_raw_amounts_witness:
  "let i = payroll_earnings_input_new\<lparr>pei_ordinary_hourly := Fin 10000, pei_overtime_hours := Fin 10,
        pei_night_hours := Fin 10, pei_holiday_hours := Fin 10\<rparr> in
   calculate_payroll_earnings
     (pei_with_overtime_amount_raw (Fin 1) (pei_with_night_amount_raw (Fin 2)
       (pei_with_holiday_amount_raw (Fin 3) i))) = calculate_payroll_earnings i"
  unfolding Let_def
  by (rule hours_override_raw_amounts[where hourly = "Fin 10000"])
    (use worked_hours_example in \<open>simp_all add: payroll_earnings_input_new_def
      calculate_ordinary_hourly_def Let_def f64_simps\<close>)

text \<open>
  The overlap premium does not depend on which of the two hours is the overtime and
  which the night work.
\<close>

theorem overlap_premium_symmetric:
  "calculate_overlap_premium overtime night w = calculate_overlap_premium night overtime w"
proof -
  obtain a b where "safe_number overtime = Fin a" "safe_number night = Fin b"
    using safe_number_cases by metis
  then show ?thesis by (simp add: calculate_overlap_premium_def Let_def f64_simps)
qed

end
