(* ===== verification/Social_Insurance.thy ===== *)
theory Social_Insurance
  imports Rounding
begin

text \<open>
  The four social insurance contributions of a worker:
  \<open>crates/payroll-api/src/social_insurance.rs\<close>.
\<close>

section \<open>Data\<close>

definition national_pension_rate :: f64 where
  "national_pension_rate = lit 0.045"

definition health_insurance_rate :: f64 where
  "health_insurance_rate = lit 0.03545"

definition long_term_care_ratio :: f64 where
  "long_term_care_ratio = lit 0.1295"

definition employment_insurance_worker_rate :: f64 where
  "employment_insurance_worker_rate = lit 0.009"

definition pension_floor :: f64 where
  "pension_floor = lit 390000"

definition pension_ceiling :: f64 where
  "pension_ceiling = lit 6170000"

record social_insurance_input =
  sii_taxable_pay :: f64
  sii_preset_national_pension :: "f64 option"
  sii_preset_health_insurance :: "f64 option"
  sii_insurance_exempt :: bool

definition social_insurance_input_new :: "f64 \<Rightarrow> social_insurance_input" where
  "social_insurance_input_new taxable_pay =
     \<lparr>sii_taxable_pay = taxable_pay, sii_preset_national_pension = None,
      sii_preset_health_insurance = None, sii_insurance_exempt = False\<rparr>"

definition sii_with_preset_national_pension ::
    "f64 \<Rightarrow> social_insurance_input \<Rightarrow> social_insurance_input" where
  "sii_with_preset_national_pension amount i = i\<lparr>sii_preset_national_pension := Some amount\<rparr>"

definition sii_with_preset_health_insurance ::
    "f64 \<Rightarrow> social_insurance_input \<Rightarrow> social_insurance_input" where
  "sii_with_preset_health_insurance amount i = i\<lparr>sii_preset_health_insurance := Some amount\<rparr>"

definition sii_with_insurance_exempt :: "bool \<Rightarrow> social_insurance_input \<Rightarrow> social_insurance_input" where
  "sii_with_insurance_exempt e i = i\<lparr>sii_insurance_exempt := e\<rparr>"

record social_insurance_result =
  sir_national_pension :: i64
  sir_health_insurance :: i64
  sir_long_term_care :: i64
  sir_employment_insurance :: i64
  sir_total :: i64
  sir_insurance_exempt :: bool

section \<open>Operations\<close>

definition clamp_f64 :: "f64 \<Rightarrow> f64 \<Rightarrow> f64 \<Rightarrow> f64" where
  "clamp_f64 value low high = f64_min (f64_max value low) high"

definition calculate_employment_insurance :: "f64 \<Rightarrow> i64" where
  "calculate_employment_insurance taxable_total =
     round_won_tens (safe_number taxable_total * employment_insurance_worker_rate)"

definition calculate_social_insurance :: "social_insurance_input \<Rightarrow> social_insurance_result" where
  "calculate_social_insurance input =
     (let taxable = safe_number (sii_taxable_pay input) in
      if sii_insurance_exempt input
      then \<lparr>sir_national_pension = 0, sir_health_insurance = 0, sir_long_term_care = 0,
            sir_employment_insurance = 0, sir_total = 0, sir_insurance_exempt = True\<rparr>
      else
        let national_pension =
              (case opt_filter (\<lambda>amount. amount > 0) (sii_preset_national_pension input) of
                 Some amount \<Rightarrow> round_won amount
               | None \<Rightarrow> round_won (clamp_f64 taxable pension_floor pension_ceiling
                                     * national_pension_rate));
            health_insurance =
              (case opt_filter (\<lambda>amount. amount > 0) (sii_preset_health_insurance input) of
                 Some amount \<Rightarrow> round_won amount
               | None \<Rightarrow> round_won (taxable * health_insurance_rate));
            long_term_care = round_won (of_i64 health_insurance * long_term_care_ratio);
            employment_insurance = calculate_employment_insurance taxable
        in \<lparr>sir_national_pension = national_pension,
            sir_health_insurance = health_insurance,
            sir_long_term_care = long_term_care,
            sir_employment_insurance = employment_insurance,
            sir_total = i64_add (i64_add (i64_add national_pension health_insurance)
              long_term_care) employment_insurance,
            sir_insurance_exempt = False\<rparr>)"

section \<open>Bounds\<close>

lemma pension_limits: "pension_floor = Fin 390000" "pension_ceiling = Fin 6170000"
  using rnd_of_int[of 390000] rnd_of_int[of 6170000]
  by (simp_all add: pension_floor_def pension_ceiling_def lit_def)

lemma clamp_pension:
  "clamp_f64 (Fin x) pension_floor pension_ceiling = Fin (min (max x 390000) 6170000)"
  by (simp add: clamp_f64_def pension_limits min_def max_def)

lemma pension_rate_literal: "(0::rat) \<le> 0.045" "(0.045::rat) < 1" "(0.045::rat) \<le> 1"
  by simp_all

lemma clamped_pension_bounds:
  "17550 \<le> round_won (clamp_f64 (Fin x) pension_floor pension_ceiling * national_pension_rate)"
  "round_won (clamp_f64 (Fin x) pension_floor pension_ceiling * national_pension_rate) \<le> 277650"
proof -
  define y where "y = min (max x 390000) 6170000"
  have y: "390000 \<le> y" "y \<le> of_int 6170000" by (simp_all add: y_def)
  have lo: "round_won (Fin 390000 * lit 0.045) = 17550"
    by (rule round_won_share_exact) simp_all
  have hi: "round_won (Fin 6170000 * lit 0.045) = 277650"
    by (rule round_won_share_exact) simp_all
  have "round_won (Fin 390000 * lit 0.045) \<le> round_won (Fin y * lit 0.045)"
    by (rule share_mono(1)[OF _ y]) simp_all
  moreover have "round_won (Fin y * lit 0.045) \<le> round_won (Fin 6170000 * lit 0.045)"
    by (rule share_mono(1)[of _ _ 6170000]) (use y in simp_all)
  ultimately show
    "17550 \<le> round_won (clamp_f64 (Fin x) pension_floor pension_ceiling * national_pension_rate)"
    "round_won (clamp_f64 (Fin x) pension_floor pension_ceiling * national_pension_rate) \<le> 277650"
    unfolding lo hi clamp_pension national_pension_rate_def y_def[symmetric] by simp_all
qed

text \<open>What the contributions are for a finite taxable pay and no positive preset.\<close>

lemma calculate_standard:
  assumes "sii_taxable_pay i = Fin x" "\<not> sii_insurance_exempt i"
    "opt_filter (\<lambda>a. a > 0) (sii_preset_national_pension i) = None"
    "opt_filter (\<lambda>a. a > 0) (sii_preset_health_insurance i) = None"
  shows "calculate_social_insurance i =
    (let p = round_won (clamp_f64 (Fin x) pension_floor pension_ceiling * national_pension_rate);
         h = round_won (Fin x * health_insurance_rate);
         l = round_won (of_i64 h * long_term_care_ratio);
         e = round_won_tens (Fin x * employment_insurance_worker_rate)
     in \<lparr>sir_national_pension = p, sir_health_insurance = h, sir_long_term_care = l,
         sir_employment_insurance = e, sir_total = i64_add (i64_add (i64_add p h) l) e,
         sir_insurance_exempt = False\<rparr>)"
  using assms by (simp add: calculate_social_insurance_def calculate_employment_insurance_def Let_def)

text \<open>The contributions on a bounded taxable pay, presets included.\<close>

lemma contribution_ranges:
  assumes "f64_in 0 (10 ^ 14) (sii_taxable_pay i)"
    and "pred_option (f64_in (- (10 ^ 14)) (10 ^ 14)) (sii_preset_national_pension i)"
    and "pred_option (f64_in (- (10 ^ 14)) (10 ^ 14)) (sii_preset_health_insurance i)"
  defines "r \<equiv> calculate_social_insurance i"
  shows "0 \<le> sir_national_pension r" "sir_national_pension r \<le> 10 ^ 14"
    and "0 \<le> sir_health_insurance r" "sir_health_insurance r \<le> 10 ^ 14"
    and "0 \<le> sir_long_term_care r" "sir_long_term_care r \<le> 10 ^ 14"
    and "0 \<le> sir_employment_insurance r" "sir_employment_insurance r \<le> 10 ^ 15"
    and "sir_total r = sir_national_pension r + sir_health_insurance r + sir_long_term_care r
      + sir_employment_insurance r"
proof -
  obtain x where x: "sii_taxable_pay i = Fin x" "0 \<le> x" "x \<le> of_int (10 ^ 14)"
    using assms(1) by (elim f64_inE) simp
  have preset: "0 \<le> round_won a \<and> round_won a \<le> 10 ^ 14"
    if "pred_option (f64_in (- (10 ^ 14)) (10 ^ 14)) p" "opt_filter (\<lambda>a. a > 0) p = Some a" for p a
  proof -
    from that have a: "f64_in (- (10 ^ 14)) (10 ^ 14) a" "a > 0"
      by (cases p; auto split: if_splits)+
    then have "f64_in 0 (10 ^ 14) a" by (elim f64_inE) (simp add: f64_simps)
    from won.between[OF this] show ?thesis by simp
  qed
  define np hi where "np = sir_national_pension (calculate_social_insurance (i\<lparr>sii_insurance_exempt := False\<rparr>))"
    and "hi = sir_health_insurance (calculate_social_insurance (i\<lparr>sii_insurance_exempt := False\<rparr>))"
  have np: "0 \<le> np" "np \<le> 10 ^ 14"
    using preset[OF assms(2)] clamped_pension_bounds[of x]
    by (auto simp: np_def calculate_social_insurance_def Let_def x(1) split: option.splits)
  have share: "0 \<le> round_won (Fin x * health_insurance_rate)"
    "round_won (Fin x * health_insurance_rate) \<le> 10 ^ 14"
    using share_mono(3,4)[OF x(2) order_refl x(3), of "0.03545"] by (simp_all add: health_insurance_rate_def)
  have hi: "0 \<le> hi" "hi \<le> 10 ^ 14"
    using preset[OF assms(3)] share
    by (auto simp: hi_def calculate_social_insurance_def Let_def x(1) split: option.splits)
  have ltc: "0 \<le> round_won (of_i64 hi * long_term_care_ratio)"
    "round_won (of_i64 hi * long_term_care_ratio) \<le> 10 ^ 14"
    using round_won_share[of hi "0.1295"] hi by (simp_all add: long_term_care_ratio_def)
  have ei: "0 \<le> calculate_employment_insurance (Fin x)" "calculate_employment_insurance (Fin x) \<le> 10 ^ 15"
    using share_mono(5,7)[OF x(2) order_refl x(3), of "0.009"]
    by (simp_all add: calculate_employment_insurance_def employment_insurance_worker_rate_def)
  have sum: "i64_add (i64_add (i64_add np hi) l) e = np + hi + l + e"
    if "0 \<le> l" "l \<le> 10 ^ 14" "0 \<le> e" "e \<le> 10 ^ 15" for l e
    using that np hi by (simp add: i64_add_def wrap64_id is_i64_def)
  have shape: "r = (if sii_insurance_exempt i
      then \<lparr>sir_national_pension = 0, sir_health_insurance = 0, sir_long_term_care = 0,
            sir_employment_insurance = 0, sir_total = 0, sir_insurance_exempt = True\<rparr>
      else \<lparr>sir_national_pension = np, sir_health_insurance = hi,
            sir_long_term_care = round_won (of_i64 hi * long_term_care_ratio),
            sir_employment_insurance = calculate_employment_insurance (Fin x),
            sir_total = i64_add (i64_add (i64_add np hi) (round_won (of_i64 hi * long_term_care_ratio)))
              (calculate_employment_insurance (Fin x)),
            sir_insurance_exempt = False\<rparr>)"
    by (simp add: r_def np_def hi_def calculate_social_insurance_def Let_def x(1))
  show "0 \<le> sir_national_pension r" "sir_national_pension r \<le> 10 ^ 14"
    "0 \<le> sir_health_insurance r" "sir_health_insurance r \<le> 10 ^ 14"
    "0 \<le> sir_long_term_care r" "sir_long_term_care r \<le> 10 ^ 14"
    "0 \<le> sir_employment_insurance r" "sir_employment_insurance r \<le> 10 ^ 15"
    "sir_total r = sir_national_pension r + sir_health_insurance r + sir_long_term_care r
      + sir_employment_insurance r"
    using np hi ltc ei sum[OF ltc ei] by (simp_all add: shape)
qed

section \<open>Properties\<close>

text \<open>
  An exempt worker contributes nothing to any of the four insurances.
\<close>

theorem exempt_pays_nothing:
  assumes "sii_insurance_exempt i"
  shows "calculate_social_insurance i =
    \<lparr>sir_national_pension = 0, sir_health_insurance = 0, sir_long_term_care = 0,
     sir_employment_insurance = 0, sir_total = 0, sir_insurance_exempt = True\<rparr>"
  using assms by (simp add: calculate_social_insurance_def)

theorem exempt_pays_nothing_witness:
  "sir_total (calculate_social_insurance
     (sii_with_insurance_exempt True (social_insurance_input_new (Fin 3000000)))) = 0"
  using exempt_pays_nothing[of "sii_with_insurance_exempt True (social_insurance_input_new (Fin 3000000))"]
  by (simp add: sii_with_insurance_exempt_def social_insurance_input_new_def)

text \<open>
  Without a positive preset the national pension of a worker who is not exempt lies
  between 17,550 and 277,650 won, the rate on the floor and on the ceiling, whatever the
  taxable pay is: negative, huge, infinite or NaN.
\<close>

theorem national_pension_clamped:
  assumes "\<not> sii_insurance_exempt i"
    and "opt_filter (\<lambda>a. a > 0) (sii_preset_national_pension i) = None"
  shows "17550 \<le> sir_national_pension (calculate_social_insurance i) \<and>
    sir_national_pension (calculate_social_insurance i) \<le> 277650"
proof -
  obtain x where "safe_number (sii_taxable_pay i) = Fin x" using safe_number_cases by blast
  with assms clamped_pension_bounds[of x] show ?thesis
    by (simp add: calculate_social_insurance_def Let_def)
qed

theorem national_pension_clamped_witness:
  "17550 \<le> sir_national_pension (calculate_social_insurance (social_insurance_input_new NaN))
   \<and> sir_national_pension (calculate_social_insurance (social_insurance_input_new PInf)) \<le> 277650"
  using national_pension_clamped[of "social_insurance_input_new NaN"]
    national_pension_clamped[of "social_insurance_input_new PInf"]
  by (simp add: social_insurance_input_new_def)

text \<open>
  For taxable pay up to 2 ^ 40 won and no presets every contribution is non-negative, the
  employment insurance is a multiple of 10, the total is the sum of the four, and every one
  of them and the total is monotone in the taxable pay.
\<close>

theorem contributions_monotone:
  assumes "0 \<le> x" and "x \<le> y" and "y \<le> 2 ^ 40"
  shows "let a = calculate_social_insurance (social_insurance_input_new (Fin x));
             b = calculate_social_insurance (social_insurance_input_new (Fin y)) in
    sir_national_pension a \<le> sir_national_pension b \<and>
    sir_health_insurance a \<le> sir_health_insurance b \<and>
    sir_long_term_care a \<le> sir_long_term_care b \<and>
    sir_employment_insurance a \<le> sir_employment_insurance b \<and>
    sir_total a \<le> sir_total b \<and>
    0 \<le> sir_health_insurance a \<and> 0 \<le> sir_long_term_care a \<and>
    0 \<le> sir_employment_insurance a \<and> sir_employment_insurance a mod 10 = 0 \<and>
    sir_total a = sir_national_pension a + sir_health_insurance a + sir_long_term_care a
      + sir_employment_insurance a"
proof -
  have y: "y \<le> of_int (2 ^ 40)" using assms(3) by simp
  define P where "P z = round_won (clamp_f64 (Fin z) pension_floor pension_ceiling * national_pension_rate)" for z
  define H where "H z = round_won (Fin z * health_insurance_rate)" for z
  define L where "L z = round_won (of_i64 (H z) * long_term_care_ratio)" for z
  define E where "E z = round_won_tens (Fin z * employment_insurance_worker_rate)" for z
  have std: "calculate_social_insurance (social_insurance_input_new (Fin z)) =
    \<lparr>sir_national_pension = P z, sir_health_insurance = H z, sir_long_term_care = L z,
     sir_employment_insurance = E z, sir_total = i64_add (i64_add (i64_add (P z) (H z)) (L z)) (E z),
     sir_insurance_exempt = False\<rparr>" for z
    by (subst calculate_standard[where x = z])
      (simp_all add: social_insurance_input_new_def P_def H_def L_def E_def Let_def)
  have P: "P x \<le> P y"
    unfolding P_def clamp_pension national_pension_rate_def
    by (rule share_mono(1)[of _ _ 6170000]) (use assms in \<open>auto simp: min_def max_def\<close>)
  have Pb: "0 \<le> P z" "P z \<le> 2 ^ 40" for z using clamped_pension_bounds[of z] by (simp_all add: P_def)
  have H: "H x \<le> H y" "0 \<le> H x" "H y \<le> 2 ^ 40"
    using share_mono[OF assms(1,2) y, of "0.03545"] by (simp_all add: H_def health_insurance_rate_def)
  have oi: "of_i64 (H x) = Fin (of_int (H x))" "of_i64 (H y) = Fin (of_int (H y))"
    using H by (simp_all add: of_i64_exact)
  have "0 \<le> (of_int (H x) :: rat)" "of_int (H x) \<le> (of_int (H y) :: rat)"
    "of_int (H y) \<le> (of_int (2 ^ 40) :: rat)" using H by (simp_all only: of_int_le_iff of_int_0_le_iff)
  from share_mono[OF this, of "0.1295"]
  have L: "L x \<le> L y" "0 \<le> L x" "L y \<le> 2 ^ 40"
    by (simp_all add: L_def oi long_term_care_ratio_def)
  have E: "E x \<le> E y" "0 \<le> E x" "E x mod 10 = 0" "E y \<le> 10 * 2 ^ 40"
    using share_mono[OF assms(1,2) y, of "0.009"] by (simp_all add: E_def employment_insurance_worker_rate_def)
  have tot: "i64_add (i64_add (i64_add (P z) (H z)) (L z)) (E z) = P z + H z + L z + E z"
    if "0 \<le> H z" "H z \<le> 2 ^ 40" "0 \<le> L z" "L z \<le> 2 ^ 40" "0 \<le> E z" "E z \<le> 10 * 2 ^ 40" for z
    using that Pb[of z] by (simp add: i64_add_def i64_simps is_i64_def)
  show ?thesis
    using P H L E Pb tot[of x] tot[of y] by (simp add: std Let_def)
qed

theorem contributions_monotone_witness:
  "sir_total (calculate_social_insurance (social_insurance_input_new (Fin 3000000)))
   \<le> sir_total (calculate_social_insurance (social_insurance_input_new (Fin 3000001)))"
  using contributions_monotone[of 3000000 3000001] by (simp add: Let_def)

end
