(* ===== verification/Salary.thy ===== *)
theory Salary
  imports Earnings Social_Insurance Deductions
begin

text \<open>
  The monthly salary of one worker: \<open>crates/payroll-api/src/salary.rs\<close>, which runs the
  earnings, the social insurance and the income tax and subtracts.
\<close>

section \<open>Data\<close>

record payroll_salary_input =
  psi_name :: string
  psi_emp_no :: string
  psi_department :: string
  psi_account_no :: string
  psi_base_salary :: f64
  psi_fixed_allowance :: f64
  psi_ordinary_hourly :: f64
  psi_overtime_hours :: f64
  psi_night_hours :: f64
  psi_holiday_hours :: f64
  psi_overtime_amount_raw :: f64
  psi_night_amount_raw :: f64
  psi_holiday_amount_raw :: f64
  psi_meal_days :: f64
  psi_transport_allowance :: f64
  psi_other_pay :: f64
  psi_additional_pay :: f64
  psi_weekly_work_hours :: f64
  psi_preset_national_pension :: "f64 option"
  psi_preset_health_insurance :: "f64 option"
  psi_preset_income_tax :: "f64 option"
  psi_insurance_exempt :: bool

definition payroll_salary_input_new :: payroll_salary_input where
  "payroll_salary_input_new =
     \<lparr>psi_name = '''', psi_emp_no = '''', psi_department = '''',
      psi_account_no = '''', psi_base_salary = 0, psi_fixed_allowance = 0,
      psi_ordinary_hourly = 0, psi_overtime_hours = 0, psi_night_hours = 0,
      psi_holiday_hours = 0, psi_overtime_amount_raw = 0, psi_night_amount_raw = 0,
      psi_holiday_amount_raw = 0, psi_meal_days = 0, psi_transport_allowance = 0,
      psi_other_pay = 0, psi_additional_pay = 0, psi_weekly_work_hours = lit 40,
      psi_preset_national_pension = None, psi_preset_health_insurance = None, psi_preset_income_tax = None,
      psi_insurance_exempt = False\<rparr>"

definition psi_with_name :: "string \<Rightarrow> payroll_salary_input \<Rightarrow> payroll_salary_input" where
  "psi_with_name value i = i\<lparr>psi_name := value\<rparr>"

definition psi_with_emp_no :: "string \<Rightarrow> payroll_salary_input \<Rightarrow> payroll_salary_input" where
  "psi_with_emp_no value i = i\<lparr>psi_emp_no := value\<rparr>"

definition psi_with_department :: "string \<Rightarrow> payroll_salary_input \<Rightarrow> payroll_salary_input" where
  "psi_with_department value i = i\<lparr>psi_department := value\<rparr>"

definition psi_with_account_no :: "string \<Rightarrow> payroll_salary_input \<Rightarrow> payroll_salary_input" where
  "psi_with_account_no value i = i\<lparr>psi_account_no := value\<rparr>"

definition psi_with_base_salary :: "f64 \<Rightarrow> payroll_salary_input \<Rightarrow> payroll_salary_input" where
  "psi_with_base_salary amount i = i\<lparr>psi_base_salary := amount\<rparr>"

definition psi_with_fixed_allowance :: "f64 \<Rightarrow> payroll_salary_input \<Rightarrow> payroll_salary_input" where
  "psi_with_fixed_allowance amount i = i\<lparr>psi_fixed_allowance := amount\<rparr>"

definition psi_with_ordinary_hourly :: "f64 \<Rightarrow> payroll_salary_input \<Rightarrow> payroll_salary_input" where
  "psi_with_ordinary_hourly amount i = i\<lparr>psi_ordinary_hourly := amount\<rparr>"

definition psi_with_overtime_hours :: "f64 \<Rightarrow> payroll_salary_input \<Rightarrow> payroll_salary_input" where
  "psi_with_overtime_hours hours i = i\<lparr>psi_overtime_hours := hours\<rparr>"

definition psi_with_night_hours :: "f64 \<Rightarrow> payroll_salary_input \<Rightarrow> payroll_salary_input" where
  "psi_with_night_hours hours i = i\<lparr>psi_night_hours := hours\<rparr>"

definition psi_with_holiday_hours :: "f64 \<Rightarrow> payroll_salary_input \<Rightarrow> payroll_salary_input" where
  "psi_with_holiday_hours hours i = i\<lparr>psi_holiday_hours := hours\<rparr>"

definition psi_with_overtime_amount_raw :: "f64 \<Rightarrow> payroll_salary_input \<Rightarrow> payroll_salary_input" where
  "psi_with_overtime_amount_raw amount i = i\<lparr>psi_overtime_amount_raw := amount\<rparr>"

definition psi_with_night_amount_raw :: "f64 \<Rightarrow> payroll_salary_input \<Rightarrow> payroll_salary_input" where
  "psi_with_night_amount_raw amount i = i\<lparr>psi_night_amount_raw := amount\<rparr>"

definition psi_with_holiday_amount_raw :: "f64 \<Rightarrow> payroll_salary_input \<Rightarrow> payroll_salary_input" where
  "psi_with_holiday_amount_raw amount i = i\<lparr>psi_holiday_amount_raw := amount\<rparr>"

definition psi_with_meal_days :: "f64 \<Rightarrow> payroll_salary_input \<Rightarrow> payroll_salary_input" where
  "psi_with_meal_days days i = i\<lparr>psi_meal_days := days\<rparr>"

definition psi_with_transport_allowance :: "f64 \<Rightarrow> payroll_salary_input \<Rightarrow> payroll_salary_input" where
  "psi_with_transport_allowance amount i = i\<lparr>psi_transport_allowance := amount\<rparr>"

definition psi_with_other_pay :: "f64 \<Rightarrow> payroll_salary_input \<Rightarrow> payroll_salary_input" where
  "psi_with_other_pay amount i = i\<lparr>psi_other_pay := amount\<rparr>"

definition psi_with_additional_pay :: "f64 \<Rightarrow> payroll_salary_input \<Rightarrow> payroll_salary_input" where
  "psi_with_additional_pay amount i = i\<lparr>psi_additional_pay := amount\<rparr>"

definition psi_with_weekly_work_hours :: "f64 \<Rightarrow> payroll_salary_input \<Rightarrow> payroll_salary_input" where
  "psi_with_weekly_work_hours hours i = i\<lparr>psi_weekly_work_hours := hours\<rparr>"

definition psi_with_preset_national_pension :: "f64 \<Rightarrow> payroll_salary_input \<Rightarrow> payroll_salary_input" where
  "psi_with_preset_national_pension amount i = i\<lparr>psi_preset_national_pension := Some amount\<rparr>"

definition psi_with_preset_health_insurance :: "f64 \<Rightarrow> payroll_salary_input \<Rightarrow> payroll_salary_input" where
  "psi_with_preset_health_insurance amount i = i\<lparr>psi_preset_health_insurance := Some amount\<rparr>"

definition psi_with_preset_income_tax :: "f64 \<Rightarrow> payroll_salary_input \<Rightarrow> payroll_salary_input" where
  "psi_with_preset_income_tax amount i = i\<lparr>psi_preset_income_tax := Some amount\<rparr>"

definition psi_with_insurance_exempt :: "bool \<Rightarrow> payroll_salary_input \<Rightarrow> payroll_salary_input" where
  "psi_with_insurance_exempt e i = i\<lparr>psi_insurance_exempt := e\<rparr>"

datatype payroll_salary_tax_method = SalaryPreset | SalarySimplifiedTable

fun payroll_salary_tax_method_as_str :: "payroll_salary_tax_method \<Rightarrow> string" where
  "payroll_salary_tax_method_as_str SalaryPreset = ''PRESET''"
| "payroll_salary_tax_method_as_str SalarySimplifiedTable = ''SIMPLIFIED_TABLE''"

record payroll_salary_deductions =
  psd_national_pension :: i64
  psd_health_insurance :: i64
  psd_long_term_care :: i64
  psd_employment_insurance :: i64
  psd_income_tax :: i64
  psd_local_income_tax :: i64
  psd_total :: i64

record payroll_salary_result =
  psr_name :: string
  psr_emp_no :: string
  psr_department :: string
  psr_account_no :: string
  psr_ordinary_hourly :: f64
  psr_hours :: payroll_earnings_hours
  psr_earnings :: payroll_earnings_breakdown
  psr_deductions :: payroll_salary_deductions
  psr_gross_pay :: i64
  psr_taxable_pay :: i64
  psr_non_taxable_pay :: i64
  psr_total_deductions :: i64
  psr_net_pay :: i64
  psr_tax_method :: payroll_salary_tax_method

record salary_income_tax =
  sit_income_tax :: i64
  sit_local_income_tax :: i64
  sit_total :: i64
  sit_method :: payroll_salary_tax_method

section \<open>Operations\<close>

definition calculate_salary_income_tax :: "i64 \<Rightarrow> f64 option \<Rightarrow> salary_income_tax" where
  "calculate_salary_income_tax taxable_pay preset_income_tax =
     (let (income_tax, method) =
            (case opt_filter (\<lambda>amount. amount > 0) preset_income_tax of
               Some amount \<Rightarrow> (round_won_safe amount, SalaryPreset)
             | None \<Rightarrow> (lookup_simplified_income_tax taxable_pay, SalarySimplifiedTable));
          local_income_tax = round_won_safe (of_i64 income_tax * local_tax_rate)
      in \<lparr>sit_income_tax = income_tax, sit_local_income_tax = local_income_tax,
          sit_total = i64_add income_tax local_income_tax, sit_method = method\<rparr>)"

text \<open>The struct literal that hands the input on to the earnings calculation.\<close>

definition salary_earnings_input :: "payroll_salary_input \<Rightarrow> payroll_earnings_input" where
  "salary_earnings_input input =
     \<lparr>pei_base_salary = psi_base_salary input,
      pei_fixed_allowance = psi_fixed_allowance input,
      pei_ordinary_hourly = psi_ordinary_hourly input,
      pei_overtime_hours = psi_overtime_hours input,
      pei_night_hours = psi_night_hours input,
      pei_holiday_hours = psi_holiday_hours input,
      pei_overtime_amount_raw = psi_overtime_amount_raw input,
      pei_night_amount_raw = psi_night_amount_raw input,
      pei_holiday_amount_raw = psi_holiday_amount_raw input,
      pei_meal_days = psi_meal_days input,
      pei_transport_allowance = psi_transport_allowance input,
      pei_other_pay = psi_other_pay input,
      pei_additional_pay = psi_additional_pay input,
      pei_weekly_work_hours = psi_weekly_work_hours input\<rparr>"

definition salary_social_input :: "i64 \<Rightarrow> payroll_salary_input \<Rightarrow> social_insurance_input" where
  "salary_social_input taxable_pay input =
     (let social_input = sii_with_insurance_exempt (psi_insurance_exempt input)
            (social_insurance_input_new (of_i64 taxable_pay));
          social_input = (case psi_preset_national_pension input of
              Some amount \<Rightarrow> sii_with_preset_national_pension amount social_input
            | None \<Rightarrow> social_input);
          social_input = (case psi_preset_health_insurance input of
              Some amount \<Rightarrow> sii_with_preset_health_insurance amount social_input
            | None \<Rightarrow> social_input)
      in social_input)"

definition calculate_payroll_salary :: "payroll_salary_input \<Rightarrow> payroll_salary_result" where
  "calculate_payroll_salary input =
     (let earnings_result = calculate_payroll_earnings (salary_earnings_input input);
          insurance = calculate_social_insurance
            (salary_social_input (per_taxable_pay earnings_result) input);
          tax = calculate_salary_income_tax (per_taxable_pay earnings_result)
            (psi_preset_income_tax input);
          deductions =
            \<lparr>psd_national_pension = sir_national_pension insurance,
             psd_health_insurance = sir_health_insurance insurance,
             psd_long_term_care = sir_long_term_care insurance,
             psd_employment_insurance = sir_employment_insurance insurance,
             psd_income_tax = sit_income_tax tax,
             psd_local_income_tax = sit_local_income_tax tax,
             psd_total = i64_add (sir_total insurance) (sit_total tax)\<rparr>;
          total_deductions = psd_total deductions;
          net_pay = i64_sub (per_gross_pay earnings_result) total_deductions
      in \<lparr>psr_name = psi_name input,
          psr_emp_no = psi_emp_no input,
          psr_department = psi_department input,
          psr_account_no = psi_account_no input,
          psr_ordinary_hourly = per_ordinary_hourly earnings_result,
          psr_hours = per_hours earnings_result,
          psr_earnings = per_earnings earnings_result,
          psr_deductions = deductions,
          psr_gross_pay = per_gross_pay earnings_result,
          psr_taxable_pay = per_taxable_pay earnings_result,
          psr_non_taxable_pay = per_non_taxable_pay earnings_result,
          psr_total_deductions = total_deductions,
          psr_net_pay = net_pay,
          psr_tax_method = sit_method tax\<rparr>)"

section \<open>Ranges\<close>

definition salary_input_bounded :: "payroll_salary_input \<Rightarrow> bool" where
  "salary_input_bounded i \<longleftrightarrow>
     earnings_input_bounded (salary_earnings_input i) \<and>
     pred_option (f64_in (- (10 ^ 9)) (10 ^ 9)) (psi_preset_national_pension i) \<and>
     pred_option (f64_in (- (10 ^ 9)) (10 ^ 9)) (psi_preset_health_insurance i) \<and>
     pred_option (f64_in (- (10 ^ 9)) (10 ^ 9)) (psi_preset_income_tax i)"

lemma pred_option_f64_weaken:
  "pred_option (f64_in a b) p \<Longrightarrow> c \<le> a \<Longrightarrow> b \<le> d \<Longrightarrow> pred_option (f64_in c d) p"
  by (cases p) (auto intro: f64_in_weaken)

lemma salary_tax_ranges:
  assumes "0 \<le> t" "t \<le> 10 ^ 14" "pred_option (f64_in (- (10 ^ 9)) (10 ^ 9)) p"
  defines "r \<equiv> calculate_salary_income_tax t p"
  shows "0 \<le> sit_income_tax r" "sit_income_tax r \<le> 10 ^ 14"
    and "0 \<le> sit_local_income_tax r" "sit_local_income_tax r \<le> 10 ^ 14"
    and "sit_total r = sit_income_tax r + sit_local_income_tax r"
proof -
  have it: "0 \<le> sit_income_tax r \<and> sit_income_tax r \<le> 10 ^ 14"
  proof (cases "opt_filter (\<lambda>amount. amount > 0) p")
    case None
    then show ?thesis using lookup_range[of t] assms(1,2)
      by (auto simp: r_def calculate_salary_income_tax_def Let_def)
  next
    case (Some a)
    then have a: "f64_in (- (10 ^ 9)) (10 ^ 9) a" "a > 0"
      using assms(3) by (cases p; auto split: if_splits)+
    then have "f64_in 0 (10 ^ 9) a" by (elim f64_inE) (simp add: f64_simps)
    with won_safe.between[OF this] Some show ?thesis
      by (simp add: r_def calculate_salary_income_tax_def Let_def)
  qed
  have l: "sit_local_income_tax r = round_won_safe (of_i64 (sit_income_tax r) * local_tax_rate)"
    "sit_total r = i64_add (sit_income_tax r) (sit_local_income_tax r)"
    by (simp_all add: r_def calculate_salary_income_tax_def Let_def split: prod.split)
  have "f64_in 0 (10 ^ 14) (of_i64 (sit_income_tax r))" "f64_in 0 1 local_tax_rate"
    using it unfolding local_tax_rate_def by (intro f64_in_of_i64 f64_in_lit; simp)+
  from f64_in_mult[OF this]
  have f: "f64_in 0 (10 ^ 14) (of_i64 (sit_income_tax r) * local_tax_rate)" by simp
  from won_safe.between[OF f] it l show
    "0 \<le> sit_income_tax r" "sit_income_tax r \<le> 10 ^ 14"
    "0 \<le> sit_local_income_tax r" "sit_local_income_tax r \<le> 10 ^ 14"
    "sit_total r = sit_income_tax r + sit_local_income_tax r"
    by (simp_all add: i64_add_def wrap64_id is_i64_def)
qed

lemma salary_social_input_fields:
  "sii_taxable_pay (salary_social_input t i) = of_i64 t"
  "sii_preset_national_pension (salary_social_input t i) = psi_preset_national_pension i"
  "sii_preset_health_insurance (salary_social_input t i) = psi_preset_health_insurance i"
  "sii_insurance_exempt (salary_social_input t i) = psi_insurance_exempt i"
  by (simp_all add: salary_social_input_def Let_def social_insurance_input_new_def
      sii_with_insurance_exempt_def sii_with_preset_national_pension_def
      sii_with_preset_health_insurance_def split: option.split)

section \<open>Properties\<close>

text \<open>
  C22: for amounts up to 10 ^ 9 won, hours up to 1,000 and presets up to 10 ^ 9 won in
  absolute value, the salary balances to the won, with no overflow: the four contributions
  and the two taxes are non-negative, the total deduction is their sum, the net pay is the
  gross pay minus it, and the gross pay is the taxable plus the non-taxable pay.
\<close>

theorem salary_balance:
  assumes "salary_input_bounded i"
  shows "let r = calculate_payroll_salary i; d = psr_deductions r in
    psr_net_pay r + psd_national_pension d + psd_health_insurance d + psd_long_term_care d
      + psd_employment_insurance d + psd_income_tax d + psd_local_income_tax d = psr_gross_pay r \<and>
    psr_total_deductions r = psr_gross_pay r - psr_net_pay r \<and>
    psr_gross_pay r = psr_taxable_pay r + psr_non_taxable_pay r \<and>
    0 \<le> psd_national_pension d \<and> 0 \<le> psd_health_insurance d \<and> 0 \<le> psd_long_term_care d \<and>
    0 \<le> psd_employment_insurance d \<and> 0 \<le> psd_income_tax d \<and> 0 \<le> psd_local_income_tax d"
proof -
  note b = assms[unfolded salary_input_bounded_def]
  define e where "e = calculate_payroll_earnings (salary_earnings_input i)"
  note e = earnings_result_exact[of "salary_earnings_input i", folded e_def]
  have t: "0 \<le> per_taxable_pay e" "per_taxable_pay e \<le> 10 ^ 14" "0 \<le> per_gross_pay e"
    "per_gross_pay e \<le> 10 ^ 14"
    using e b by simp_all
  define s where "s = salary_social_input (per_taxable_pay e) i"
  have "f64_in 0 (10 ^ 14) (sii_taxable_pay s)"
    unfolding s_def salary_social_input_fields by (rule f64_in_of_i64) (use t in simp_all)
  moreover have "pred_option (f64_in (- (10 ^ 14)) (10 ^ 14)) (sii_preset_national_pension s)"
    "pred_option (f64_in (- (10 ^ 14)) (10 ^ 14)) (sii_preset_health_insurance s)"
    unfolding s_def salary_social_input_fields
    by (rule pred_option_f64_weaken[of "- (10 ^ 9)" "10 ^ 9"]; use b in simp)+
  ultimately have si: "let r = calculate_social_insurance s in
      0 \<le> sir_national_pension r \<and> sir_national_pension r \<le> 10 ^ 14 \<and>
      0 \<le> sir_health_insurance r \<and> sir_health_insurance r \<le> 10 ^ 14 \<and>
      0 \<le> sir_long_term_care r \<and> sir_long_term_care r \<le> 10 ^ 14 \<and>
      0 \<le> sir_employment_insurance r \<and> sir_employment_insurance r \<le> 10 ^ 15 \<and>
      sir_total r = sir_national_pension r + sir_health_insurance r + sir_long_term_care r
        + sir_employment_insurance r"
    unfolding Let_def by (intro conjI contribution_ranges)
  define x where "x = calculate_salary_income_tax (per_taxable_pay e) (psi_preset_income_tax i)"
  note x = salary_tax_ranges[OF t(1,2), of "psi_preset_income_tax i", folded x_def]
  have x': "0 \<le> sit_income_tax x" "sit_income_tax x \<le> 10 ^ 14" "0 \<le> sit_local_income_tax x"
    "sit_local_income_tax x \<le> 10 ^ 14" "sit_total x = sit_income_tax x + sit_local_income_tax x"
    using x b by simp_all
  have g: "per_gross_pay e = per_taxable_pay e + per_non_taxable_pay e" using e(3) b by simp
  show ?thesis
    using si x' t g
    by (simp add: calculate_payroll_salary_def Let_def e_def[symmetric] s_def[symmetric]
        x_def[symmetric] i64_add_def i64_sub_def wrap64_id is_i64_def)
qed

theorem salary_balance_witness:
  "let r = calculate_payroll_salary (psi_with_base_salary (Fin 3000000)
       (payroll_salary_input_new\<lparr>psi_weekly_work_hours := Fin 40\<rparr>)) in
   psr_total_deductions r = psr_gross_pay r - psr_net_pay r"
  using salary_balance[of "psi_with_base_salary (Fin 3000000)
       (payroll_salary_input_new\<lparr>psi_weekly_work_hours := Fin 40\<rparr>)"]
  by (simp add: Let_def salary_input_bounded_def earnings_input_bounded_def salary_earnings_input_def
      psi_with_base_salary_def payroll_salary_input_new_def f64_simps)

text \<open>
  Exempting a worker from the social insurance changes nothing but the four
  contributions and the totals: the earnings, the taxable pay, both taxes and the tax method
  of the salary are those of the same worker without the exemption, and all four
  contributions are zero.
\<close>

theorem exemption_only_removes_contributions:
  "let r = calculate_payroll_salary (psi_with_insurance_exempt True i);
       q = calculate_payroll_salary (psi_with_insurance_exempt False i);
       d = psr_deductions r in
   psd_national_pension d = 0 \<and> psd_health_insurance d = 0 \<and> psd_long_term_care d = 0 \<and>
   psd_employment_insurance d = 0 \<and>
   psr_earnings r = psr_earnings q \<and> psr_gross_pay r = psr_gross_pay q \<and>
   psr_taxable_pay r = psr_taxable_pay q \<and> psr_tax_method r = psr_tax_method q \<and>
   psd_income_tax d = psd_income_tax (psr_deductions q) \<and>
   psd_local_income_tax d = psd_local_income_tax (psr_deductions q) \<and>
   psr_total_deductions r = i64_add (psd_income_tax d) (psd_local_income_tax d)"
proof -
  have e: "salary_earnings_input (psi_with_insurance_exempt b i) = salary_earnings_input i" for b
    by (simp add: salary_earnings_input_def psi_with_insurance_exempt_def)
  have t: "sit_total (calculate_salary_income_tax t p)
      = i64_add (sit_income_tax (calculate_salary_income_tax t p))
          (sit_local_income_tax (calculate_salary_income_tax t p))" for t p
    by (simp add: calculate_salary_income_tax_def Let_def split: prod.split)
  have s: "calculate_social_insurance (salary_social_input t (psi_with_insurance_exempt True i))
    = \<lparr>sir_national_pension = 0, sir_health_insurance = 0, sir_long_term_care = 0,
       sir_employment_insurance = 0, sir_total = 0, sir_insurance_exempt = True\<rparr>" for t
    by (simp add: calculate_social_insurance_def Let_def salary_social_input_fields
        psi_with_insurance_exempt_def)
  show ?thesis
    unfolding calculate_payroll_salary_def Let_def e s
    by (simp add: psi_with_insurance_exempt_def t i64_add_def)
qed

end
