(* ===== verification/Rust_Str.thy ===== *)
theory Rust_Str
  imports Prelude "HOL-Library.List_Lexorder" "HOL-Library.Char_ord"
begin

text \<open>
  Rust's \<open>str\<close> and \<open>String\<close>: a \<open>string\<close> is the list of its UTF-8 bytes, so \<open>length\<close> is
  Rust's \<open>len()\<close>, ASCII literals are Isabelle string literals, and comparison is byte-wise
  as in Rust (the lexicographic order of \<open>List_Lexorder\<close> over \<open>Char_ord\<close>).  The operations
  below are the standard-library ones the crates call; those that look at characters
  (\<open>trim\<close>, \<open>is_whitespace\<close>) recognise the bytes of the Unicode \<open>White_Space\<close> characters,
  which is exact on well-formed UTF-8.
\<close>

named_theorems str_simps "normal form of string operations"

section \<open>White space\<close>

text \<open>The one-byte white space characters: U+0009 to U+000D and U+0020.\<close>

definition ascii_ws :: "char \<Rightarrow> bool" where
  "ascii_ws c \<longleftrightarrow> c = CHR 0x20 \<or> c = CHR 0x09 \<or> c = CHR 0x0A \<or> c = CHR 0x0B \<or>
     c = CHR 0x0C \<or> c = CHR 0x0D"

text \<open>Two bytes: U+0085 and U+00A0.\<close>

definition ws2 :: "char \<Rightarrow> char \<Rightarrow> bool" where
  "ws2 c d \<longleftrightarrow> c = CHR 0xC2 \<and> (d = CHR 0x85 \<or> d = CHR 0xA0)"

text \<open>
  Three bytes: U+1680, U+2000 to U+200A, U+2028, U+2029, U+202F, U+205F and U+3000.
\<close>

definition ws3 :: "char \<Rightarrow> char \<Rightarrow> char \<Rightarrow> bool" where
  "ws3 c d e \<longleftrightarrow>
     (c = CHR 0xE1 \<and> d = CHR 0x9A \<and> e = CHR 0x80) \<or>
     (c = CHR 0xE2 \<and> d = CHR 0x80 \<and>
        e \<in> set [CHR 0x80, CHR 0x81, CHR 0x82, CHR 0x83, CHR 0x84, CHR 0x85, CHR 0x86,
          CHR 0x87, CHR 0x88, CHR 0x89, CHR 0x8A, CHR 0xA8, CHR 0xA9, CHR 0xAF]) \<or>
     (c = CHR 0xE2 \<and> d = CHR 0x81 \<and> e = CHR 0x9F) \<or>
     (c = CHR 0xE3 \<and> d = CHR 0x80 \<and> e = CHR 0x80)"

text \<open>How many bytes the white space character at the head of the string has, 0 if none.\<close>

definition ws_len :: "string \<Rightarrow> nat" where
  "ws_len s = (case s of [] \<Rightarrow> 0 | c # t \<Rightarrow>
     if ascii_ws c then 1 else (case t of [] \<Rightarrow> 0 | d # u \<Rightarrow>
       if ws2 c d then 2 else (case u of [] \<Rightarrow> 0 | e # _ \<Rightarrow>
         if ws3 c d e then 3 else 0)))"

text \<open>The same at the end of the string; the argument is the reversed string.\<close>

definition ws_len_rev :: "string \<Rightarrow> nat" where
  "ws_len_rev s = (case s of [] \<Rightarrow> 0 | c # t \<Rightarrow>
     if ascii_ws c then 1 else (case t of [] \<Rightarrow> 0 | d # u \<Rightarrow>
       if ws2 d c then 2 else (case u of [] \<Rightarrow> 0 | e # _ \<Rightarrow>
         if ws3 e d c then 3 else 0)))"

function trim_start :: "string \<Rightarrow> string" where
  "trim_start s = (if ws_len s = 0 then s else trim_start (drop (ws_len s) s))"
  by pat_completeness auto
termination
  by (relation "measure length") (auto simp: ws_len_def split: list.splits if_splits)

function trim_start_rev :: "string \<Rightarrow> string" where
  "trim_start_rev s =
     (if ws_len_rev s = 0 then s else trim_start_rev (drop (ws_len_rev s) s))"
  by pat_completeness auto
termination
  by (relation "measure length") (auto simp: ws_len_rev_def split: list.splits if_splits)

declare trim_start.simps [simp del] trim_start_rev.simps [simp del]

definition trim_end :: "string \<Rightarrow> string" where
  "trim_end s = rev (trim_start_rev (rev s))"

text \<open>\<open>str::trim\<close>, the \<open>clean\<close> of almost every module.\<close>

definition trim :: "string \<Rightarrow> string" where
  "trim s = trim_end (trim_start s)"

lemma ws_len_trim_start: "ws_len (trim_start s) = 0"
proof (induction s rule: trim_start.induct)
  case (1 s)
  then show ?case by (subst trim_start.simps) simp
qed

lemma trim_start_fixed: "ws_len s = 0 \<Longrightarrow> trim_start s = s"
  by (subst trim_start.simps) simp

lemma ws_len_rev_trim: "ws_len_rev (trim_start_rev s) = 0"
proof (induction s rule: trim_start_rev.induct)
  case (1 s)
  then show ?case by (subst trim_start_rev.simps) simp
qed

lemma trim_start_rev_fixed: "ws_len_rev s = 0 \<Longrightarrow> trim_start_rev s = s"
  by (subst trim_start_rev.simps) simp

lemma trim_start_rev_suffix: "\<exists>n. trim_start_rev s = drop n s"
proof (induction s rule: trim_start_rev.induct)
  case (1 s)
  show ?case
  proof (cases "ws_len_rev s = 0")
    case True
    then have "trim_start_rev s = drop 0 s" by (subst trim_start_rev.simps) simp
    then show ?thesis by blast
  next
    case False
    with 1 obtain n where "trim_start_rev (drop (ws_len_rev s) s) = drop n (drop (ws_len_rev s) s)"
      by blast
    with False have "trim_start_rev s = drop (n + ws_len_rev s) s"
      by (subst trim_start_rev.simps) simp
    then show ?thesis by blast
  qed
qed

lemma trim_end_prefix: "\<exists>n. trim_end s = take n s"
proof -
  obtain n where "trim_start_rev (rev s) = drop n (rev s)" using trim_start_rev_suffix by blast
  then have "trim_end s = take (length s - n) s" by (simp add: trim_end_def rev_drop)
  then show ?thesis by blast
qed

lemma ws_len_take: "ws_len s = 0 \<Longrightarrow> ws_len (take n s) = 0"
  by (cases n; cases "n - 1"; cases "n - 2")
    (auto simp: ws_len_def take_Cons' split: list.splits if_splits)

lemma trim_end_trim_end [simp]: "trim_end (trim_end s) = trim_end s"
  by (simp add: trim_end_def trim_start_rev_fixed[OF ws_len_rev_trim])

lemma ws_len_trim_end: "ws_len s = 0 \<Longrightarrow> ws_len (trim_end s) = 0"
  using trim_end_prefix[of s] ws_len_take by metis

lemma trim_trim [simp, str_simps]: "trim (trim s) = trim s"
  by (simp add: trim_def trim_start_fixed[OF ws_len_trim_end[OF ws_len_trim_start]])

lemma trim_Nil [simp]: "trim [] = []"
  by (simp add: trim_def trim_end_def trim_start.simps trim_start_rev.simps ws_len_def
      ws_len_rev_def)

text \<open>A string with no white space at either end is its own trim: literals, by evaluation.\<close>

lemma trim_literal: "ws_len s = 0 \<Longrightarrow> ws_len_rev (rev s) = 0 \<Longrightarrow> trim s = s"
  by (simp add: trim_def trim_end_def trim_start_fixed trim_start_rev_fixed)

text \<open>\<open>chars().filter(|ch| !ch.is_whitespace())\<close>.\<close>

function strip_ws :: "string \<Rightarrow> string" where
  "strip_ws s = (case s of [] \<Rightarrow> [] | c # t \<Rightarrow>
     if ws_len s = 0 then c # strip_ws t else strip_ws (drop (ws_len s) s))"
  by pat_completeness auto
termination
  by (relation "measure length") (auto simp: ws_len_def split: list.splits if_splits)

declare strip_ws.simps [simp del]

section \<open>ASCII case\<close>

definition char_code :: "char \<Rightarrow> nat" where
  "char_code c = of_char c"

definition ascii_lower :: "char \<Rightarrow> char" where
  "ascii_lower c = (if 65 \<le> char_code c \<and> char_code c \<le> 90 then char_of (char_code c + 32) else c)"

definition to_ascii_lowercase :: "string \<Rightarrow> string" where
  "to_ascii_lowercase s = map ascii_lower s"

definition eq_ignore_ascii_case :: "string \<Rightarrow> string \<Rightarrow> bool" where
  "eq_ignore_ascii_case s t \<longleftrightarrow> to_ascii_lowercase s = to_ascii_lowercase t"

lemma char_code_of [simp]: "n < 256 \<Longrightarrow> char_code (char_of n) = n"
  by (simp add: char_code_def)

lemma ascii_lower_code:
  "char_code (ascii_lower c) =
     (if 65 \<le> char_code c \<and> char_code c \<le> 90 then char_code c + 32 else char_code c)"
  by (simp add: ascii_lower_def)

lemma ascii_lower_idem [simp]: "ascii_lower (ascii_lower c) = ascii_lower c"
  unfolding ascii_lower_def[of "ascii_lower c"] ascii_lower_code by auto

lemma to_ascii_lowercase_idem [simp, str_simps]:
  "to_ascii_lowercase (to_ascii_lowercase s) = to_ascii_lowercase s"
  by (simp add: to_ascii_lowercase_def comp_def)

lemma length_to_ascii_lowercase [simp]: "length (to_ascii_lowercase s) = length s"
  by (simp add: to_ascii_lowercase_def)

lemma to_ascii_lowercase_Nil_iff [simp]: "to_ascii_lowercase s = [] \<longleftrightarrow> s = []"
  by (simp add: to_ascii_lowercase_def)

section \<open>Characters, slices, splitting, searching\<close>

definition is_digit :: "char \<Rightarrow> bool" where
  "is_digit c \<longleftrightarrow> 48 \<le> char_code c \<and> char_code c \<le> 57"

definition is_continuation :: "char \<Rightarrow> bool" where
  "is_continuation c \<longleftrightarrow> 128 \<le> char_code c \<and> char_code c < 192"

text \<open>\<open>chars().take(n)\<close>: a character is a byte with the continuation bytes that follow it.\<close>

fun take_chars :: "nat \<Rightarrow> string \<Rightarrow> string" where
  "take_chars n [] = []"
| "take_chars n (c # t) =
     (if is_continuation c then c # take_chars n t
      else if n = 0 then [] else c # take_chars (n - 1) t)"

text \<open>\<open>chars().count()\<close>.\<close>

definition char_count :: "string \<Rightarrow> nat" where
  "char_count s = length (filter (\<lambda>c. \<not> is_continuation c) s)"

definition starts_with :: "string \<Rightarrow> string \<Rightarrow> bool" where
  "starts_with p s \<longleftrightarrow> take (length p) s = p"

fun contains_str :: "string \<Rightarrow> string \<Rightarrow> bool" where
  "contains_str p [] = (p = [])"
| "contains_str p (c # t) = (starts_with p (c # t) \<or> contains_str p t)"

text \<open>\<open>split(ch)\<close> on an ASCII separator: always at least one part.\<close>

fun split_on :: "char \<Rightarrow> string \<Rightarrow> string list" where
  "split_on sep [] = [[]]"
| "split_on sep (c # t) =
     (if c = sep then [] # split_on sep t
      else (case split_on sep t of [] \<Rightarrow> [[c]] | p # ps \<Rightarrow> (c # p) # ps))"

text \<open>\<open>splitn(n, ch)\<close>: the \<open>n\<close>-th part is the whole rest.\<close>

fun splitn :: "nat \<Rightarrow> char \<Rightarrow> string \<Rightarrow> string list" where
  "splitn 0 sep s = []"
| "splitn (Suc 0) sep s = [s]"
| "splitn (Suc (Suc n)) sep s =
     (case dropWhile (\<lambda>c. c \<noteq> sep) s of
        [] \<Rightarrow> [s]
      | _ # rest \<Rightarrow> takeWhile (\<lambda>c. c \<noteq> sep) s # splitn (Suc n) sep rest)"

text \<open>\<open>replace(ch, "")\<close> and \<open>replace([a, b], "c")\<close>.\<close>

definition remove_char :: "char \<Rightarrow> string \<Rightarrow> string" where
  "remove_char x s = filter (\<lambda>c. c \<noteq> x) s"

definition replace_chars :: "char list \<Rightarrow> char \<Rightarrow> string \<Rightarrow> string" where
  "replace_chars xs y s = map (\<lambda>c. if c \<in> set xs then y else c) s"

text \<open>\<open>[..].join(sep)\<close>.\<close>

fun join_with :: "string \<Rightarrow> string list \<Rightarrow> string" where
  "join_with sep [] = []"
| "join_with sep [s] = s"
| "join_with sep (s # t # rest) = s @ sep @ join_with sep (t # rest)"

lemma split_on_nonempty [simp]: "split_on sep s \<noteq> []"
  by (cases s) (auto split: list.splits)

text \<open>\<open>s[a..b]\<close> and \<open>get(a..b)\<close>: None where the index panics and \<open>get\<close> gives None.\<close>

definition is_char_boundary :: "string \<Rightarrow> nat \<Rightarrow> bool" where
  "is_char_boundary s n \<longleftrightarrow>
     n = 0 \<or> n = length s \<or> (n < length s \<and> \<not> is_continuation (s ! n))"

definition str_slice :: "nat \<Rightarrow> nat \<Rightarrow> string \<Rightarrow> string option" where
  "str_slice a b s =
     (if a \<le> b \<and> b \<le> length s \<and> is_char_boundary s a \<and> is_char_boundary s b
      then Some (take (b - a) (drop a s)) else None)"

lemma str_slice_ascii:
  assumes "list_all (\<lambda>c. \<not> is_continuation c) s" "a \<le> b" "b \<le> length s"
  shows "str_slice a b s = Some (take (b - a) (drop a s))"
  using assms by (auto simp: str_slice_def is_char_boundary_def list_all_length)

section \<open>Numbers as text\<close>

definition digit_value :: "char \<Rightarrow> nat" where
  "digit_value c = char_code c - 48"

definition digits_value :: "string \<Rightarrow> nat" where
  "digits_value s = foldl (\<lambda>acc c. acc * 10 + digit_value c) 0 s"

definition parse_digits :: "string \<Rightarrow> nat option" where
  "parse_digits s = (if s \<noteq> [] \<and> list_all is_digit s then Some (digits_value s) else None)"

text \<open>
  \<open>str::parse\<close> of an unsigned type: an optional plus sign, then digits, at most the largest
  value of the type; of a signed type: an optional sign.
\<close>

definition parse_unsigned :: "int \<Rightarrow> string \<Rightarrow> int option" where
  "parse_unsigned hi s =
     (let body = (case s of c # t \<Rightarrow> if c = CHR ''+'' then t else s | [] \<Rightarrow> s)
      in case parse_digits body of
           None \<Rightarrow> None
         | Some n \<Rightarrow> if int n \<le> hi then Some (int n) else None)"

definition parse_signed :: "int \<Rightarrow> string \<Rightarrow> int option" where
  "parse_signed hi s =
     (case s of
        c # t \<Rightarrow>
          if c = CHR ''-'' then
            (case parse_digits t of
               None \<Rightarrow> None
             | Some n \<Rightarrow> if int n \<le> hi + 1 then Some (- int n) else None)
          else parse_unsigned hi s
      | [] \<Rightarrow> None)"

definition parse_u8 :: "string \<Rightarrow> u8 option" where
  "parse_u8 = parse_unsigned 255"

definition parse_i32 :: "string \<Rightarrow> i32 option" where
  "parse_i32 = parse_signed 2147483647"

definition parse_i64 :: "string \<Rightarrow> i64 option" where
  "parse_i64 = parse_signed 9223372036854775807"

lemma parse_u8_range: "parse_u8 s = Some n \<Longrightarrow> 0 \<le> n \<and> n \<le> 255"
  by (auto simp: parse_u8_def parse_unsigned_def Let_def split: option.splits if_splits list.splits)

lemma parse_unsigned_range: "parse_unsigned hi s = Some n \<Longrightarrow> 0 \<le> n \<and> n \<le> hi"
  by (auto simp: parse_unsigned_def Let_def split: option.splits if_splits list.splits)

lemma parse_signed_range: "parse_signed hi s = Some n \<Longrightarrow> 0 \<le> hi \<Longrightarrow> - hi - 1 \<le> n \<and> n \<le> hi"
  by (auto simp: parse_signed_def dest: parse_unsigned_range
      split: option.splits if_splits list.splits)

lemma parse_i64_range: "parse_i64 s = Some n \<Longrightarrow> is_i64 n"
  using parse_signed_range[of 9223372036854775807 s n] by (simp add: parse_i64_def is_i64_def)

text \<open>Display of integers: decimal digits with no leading zero.\<close>

definition digit_char :: "nat \<Rightarrow> char" where
  "digit_char d = char_of (d + 48)"

fun show_nat :: "nat \<Rightarrow> string" where
  "show_nat n = (if n < 10 then [digit_char n] else show_nat (n div 10) @ [digit_char (n mod 10)])"

declare show_nat.simps [simp del]

definition show_int :: "int \<Rightarrow> string" where
  "show_int n = (if n < 0 then CHR ''-'' # show_nat (nat (- n)) else show_nat (nat n))"

text \<open>The same on binary integers, for evaluation.\<close>

function show_digits :: "int \<Rightarrow> string" where
  "show_digits n = (if n < 10 then [digit_char (nat n)]
     else show_digits (n div 10) @ [digit_char (nat (n mod 10))])"
  by pat_completeness auto
termination
  by (relation "measure nat") auto

declare show_digits.simps [simp del]

lemma show_digits_eq: "0 \<le> n \<Longrightarrow> show_digits n = show_nat (nat n)"
proof (induction n rule: show_digits.induct)
  case (1 n)
  then show ?case
    by (subst show_digits.simps, subst show_nat.simps) (auto simp: nat_div_distrib nat_mod_distrib)
qed

lemma show_int_code [code]:
  "show_int n = (if n < 0 then CHR ''-'' # show_digits (- n) else show_digits n)"
  by (simp add: show_int_def show_digits_eq)

lemma show_nat_code [code]: "show_nat n = show_digits (int n)"
  by (simp add: show_digits_eq)

text \<open>\<open>format!("{n:0w$}")\<close> for a non-negative \<open>n\<close>.\<close>

definition pad_zero :: "nat \<Rightarrow> string \<Rightarrow> string" where
  "pad_zero w s = replicate (w - length s) (CHR ''0'') @ s"

lemma digit_char_digit: "d < 10 \<Longrightarrow> is_digit (digit_char d) \<and> digit_value (digit_char d) = d"
  by (simp add: is_digit_def digit_char_def digit_value_def)

lemma show_nat_nonempty [simp]: "show_nat n \<noteq> []"
  by (subst show_nat.simps) simp

lemma show_nat_digits: "list_all is_digit (show_nat n)"
proof (induction n rule: show_nat.induct)
  case (1 n)
  then show ?case by (subst show_nat.simps) (simp add: digit_char_digit)
qed

lemma digits_value_snoc: "digits_value (s @ [c]) = digits_value s * 10 + digit_value c"
  by (simp add: digits_value_def)

lemma digits_value_show_nat [simp]: "digits_value (show_nat n) = n"
proof (induction n rule: show_nat.induct)
  case (1 n)
  show ?case
  proof (cases "n < 10")
    case True
    then show ?thesis by (subst show_nat.simps) (simp add: digits_value_def digit_char_digit)
  next
    case False
    with 1 show ?thesis by (subst show_nat.simps) (simp add: digits_value_snoc digit_char_digit)
  qed
qed

text \<open>Printing and reading back a number gives the number.\<close>

lemma parse_digits_show_nat [simp]: "parse_digits (show_nat n) = Some n"
  by (simp add: parse_digits_def show_nat_digits)

lemma is_digit_not_sign: "is_digit c \<Longrightarrow> c \<noteq> CHR ''+'' \<and> c \<noteq> CHR ''-''"
  by (auto simp: is_digit_def char_code_def)

lemma parse_unsigned_show_nat: "int n \<le> hi \<Longrightarrow> parse_unsigned hi (show_nat n) = Some (int n)"
proof -
  assume le: "int n \<le> hi"
  obtain c t where s: "show_nat n = c # t" by (meson neq_Nil_conv show_nat_nonempty)
  then have "c \<noteq> CHR ''+''" using show_nat_digits[of n] is_digit_not_sign by simp
  with s have "parse_unsigned hi (show_nat n)
      = (case parse_digits (show_nat n) of None \<Rightarrow> None | Some m \<Rightarrow> if int m \<le> hi then Some (int m) else None)"
    by (simp add: parse_unsigned_def)
  with le show ?thesis by simp
qed

lemma digits_value_pad: "digits_value (pad_zero w s) = digits_value s"
proof -
  have "digits_value (replicate k (CHR ''0'') @ s) = digits_value s" for k
    by (induction k) (simp_all add: digits_value_def digit_value_def char_code_def)
  then show ?thesis by (simp add: pad_zero_def)
qed

lemma parse_digits_pad:
  "list_all is_digit s \<Longrightarrow> s \<noteq> [] \<Longrightarrow> parse_digits (pad_zero w s) = Some (digits_value s)"
proof -
  assume s: "list_all is_digit s" "s \<noteq> []"
  have "is_digit (CHR ''0'')" by (simp add: is_digit_def char_code_def)
  with s have "list_all is_digit (pad_zero w s)" "pad_zero w s \<noteq> []"
    by (auto simp: pad_zero_def list_all_iff)
  then show ?thesis by (simp add: parse_digits_def digits_value_pad)
qed

lemma length_show_nat: "n < 10 ^ k \<Longrightarrow> 0 < k \<Longrightarrow> length (show_nat n) \<le> k"
proof (induction n arbitrary: k rule: show_nat.induct)
  case (1 n)
  show ?case
  proof (cases "n < 10")
    case True
    then show ?thesis using 1(3) by (subst show_nat.simps) simp
  next
    case False
    with 1(2,3) obtain j where j: "k = Suc j" "0 < j" by (cases k; cases "k - 1") auto
    then have "n div 10 < 10 ^ j" using 1(2) by (simp add: div_less_iff_less_mult mult.commute)
    with 1(1)[OF False, of j] j False show ?thesis by (subst show_nat.simps) simp
  qed
qed

lemma pad_zero_digits: "list_all is_digit s \<Longrightarrow> list_all is_digit (pad_zero w s)"
proof -
  assume "list_all is_digit s"
  moreover have "is_digit (CHR ''0'')" by (simp add: is_digit_def char_code_def)
  ultimately show ?thesis by (auto simp: pad_zero_def list_all_iff)
qed

lemma length_pad_zero: "length s \<le> w \<Longrightarrow> length (pad_zero w s) = w"
  by (simp add: pad_zero_def)

text \<open>A fixed-width decimal field and what parsing it gives.\<close>

lemma field_facts:
  assumes "n < 10 ^ w" "0 < w"
  shows "length (pad_zero w (show_nat n)) = w" and "list_all is_digit (pad_zero w (show_nat n))"
    and "parse_digits (pad_zero w (show_nat n)) = Some n"
    and "int n \<le> hi \<Longrightarrow> parse_unsigned hi (pad_zero w (show_nat n)) = Some (int n)"
    and "int n \<le> hi \<Longrightarrow> parse_signed hi (pad_zero w (show_nat n)) = Some (int n)"
proof -
  define s where "s = pad_zero w (show_nat n)"
  show l: "length (pad_zero w (show_nat n)) = w"
    by (rule length_pad_zero[OF length_show_nat[OF assms]])
  show d: "list_all is_digit (pad_zero w (show_nat n))"
    by (rule pad_zero_digits[OF show_nat_digits])
  show p: "parse_digits (pad_zero w (show_nat n)) = Some n"
    using parse_digits_pad[OF show_nat_digits show_nat_nonempty] by simp
  obtain c t where s: "s = c # t" "is_digit c" using l d assms(2) by (cases s) (auto simp: s_def)
  show u: "int n \<le> hi \<Longrightarrow> parse_unsigned hi (pad_zero w (show_nat n)) = Some (int n)"
    using p s is_digit_not_sign[of c] by (simp add: parse_unsigned_def s_def[symmetric])
  show "int n \<le> hi \<Longrightarrow> parse_signed hi (pad_zero w (show_nat n)) = Some (int n)"
    using u s is_digit_not_sign[of c] by (simp add: parse_signed_def s_def[symmetric])
qed

lemma split_on_none: "sep \<notin> set s \<Longrightarrow> split_on sep s = [s]"
  by (induction s) auto

lemma split_on_append: "sep \<notin> set s \<Longrightarrow> split_on sep (s @ sep # t) = s # split_on sep t"
  by (induction s) auto

lemma digits_not_in: "list_all is_digit s \<Longrightarrow> \<not> is_digit c \<Longrightarrow> c \<notin> set s"
  by (auto simp: list_all_iff)

lemma is_digit_not_ws: "is_digit c \<Longrightarrow> ws_len (c # t) = 0 \<and> ws_len_rev (c # t) = 0"
proof -
  assume "is_digit c"
  then have "c \<notin> {CHR 0x20, CHR 0x09, CHR 0x0A, CHR 0x0B, CHR 0x0C, CHR 0x0D, CHR 0xC2, CHR 0xE1,
      CHR 0xE2, CHR 0xE3, CHR 0x85, CHR 0xA0, CHR 0x80, CHR 0x9F}"
    and "c \<notin> set [CHR 0x80, CHR 0x81, CHR 0x82, CHR 0x83, CHR 0x84, CHR 0x85, CHR 0x86,
      CHR 0x87, CHR 0x88, CHR 0x89, CHR 0x8A, CHR 0xA8, CHR 0xA9, CHR 0xAF]"
    unfolding is_digit_def char_code_def by auto
  then show ?thesis
    by (simp add: ws_len_def ws_len_rev_def ascii_ws_def ws2_def ws3_def split: list.split)
qed

text \<open>Text that starts and ends with a digit has nothing to trim.\<close>

lemma trim_digits: "is_digit c \<Longrightarrow> is_digit d \<Longrightarrow> trim (c # s @ [d]) = c # s @ [d]"
  by (rule trim_literal) (simp_all add: is_digit_not_ws)

lemma trim_fields:
  assumes "list_all is_digit a" "a \<noteq> []" "list_all is_digit b" "b \<noteq> []"
  shows "trim (a @ s @ b) = a @ s @ b"
proof -
  obtain c a' where a: "a = c # a'" "is_digit c" using assms(1,2) by (cases a) auto
  obtain d b' where b: "b = b' @ [d]" "is_digit d" using assms(3,4) by (cases b rule: rev_cases) auto
  from trim_digits[OF a(2) b(2), of "a' @ s @ b'"] show ?thesis by (simp add: a(1) b(1))
qed

lemma is_digit_cases: "is_digit d \<Longrightarrow> d \<in> set ''0123456789''"
proof -
  assume "is_digit d"
  then have "char_code d \<in> {48, 49, 50, 51, 52, 53, 54, 55, 56, 57}"
    unfolding is_digit_def by (simp, presburger)
  moreover have "d = char_of (char_code d)" by (simp add: char_code_def)
  ultimately have "d \<in> char_of ` {48, 49, 50, 51, 52, 53, 54, 55, 56, 57 :: nat}" by blast
  also have "\<dots> = set ''0123456789''" by code_simp
  finally show ?thesis .
qed

section \<open>Printable ASCII\<close>

definition graphic :: "char \<Rightarrow> bool" where
  "graphic c \<longleftrightarrow> 33 \<le> char_code c \<and> char_code c < 127"

lemma graphic_not_ws: "graphic c \<Longrightarrow> ws_len (c # t) = 0 \<and> ws_len_rev (c # t) = 0"
proof -
  assume "graphic c"
  then have "c \<notin> {CHR 0x20, CHR 0x09, CHR 0x0A, CHR 0x0B, CHR 0x0C, CHR 0x0D, CHR 0xC2, CHR 0xE1,
      CHR 0xE2, CHR 0xE3, CHR 0x85, CHR 0xA0, CHR 0x80, CHR 0x9F}"
    and "c \<notin> set [CHR 0x80, CHR 0x81, CHR 0x82, CHR 0x83, CHR 0x84, CHR 0x85, CHR 0x86,
      CHR 0x87, CHR 0x88, CHR 0x89, CHR 0x8A, CHR 0xA8, CHR 0xA9, CHR 0xAF]"
    unfolding graphic_def char_code_def by auto
  then show ?thesis
    by (simp add: ws_len_def ws_len_rev_def ascii_ws_def ws2_def ws3_def split: list.split)
qed

lemma trim_graphic: "list_all graphic s \<Longrightarrow> trim s = s"
proof -
  assume a: "list_all graphic s"
  have "ws_len s = 0" using a graphic_not_ws by (cases s) (auto simp: ws_len_def)
  moreover have "ws_len_rev (rev s) = 0"
    using a graphic_not_ws by (cases "rev s") (auto simp: ws_len_rev_def list_all_iff)
  ultimately show ?thesis by (rule trim_literal)
qed

lemma is_digit_graphic: "is_digit c \<Longrightarrow> graphic c"
  by (simp add: is_digit_def graphic_def)

lemma show_nat_graphic: "list_all graphic (show_nat n)"
  using show_nat_digits[of n] is_digit_graphic by (auto simp: list_all_iff)

lemma show_int_graphic: "list_all graphic (show_int n)"
  using show_nat_graphic by (auto simp: show_int_def graphic_def char_code_def)

lemma pad_zero_graphic: "list_all graphic s \<Longrightarrow> list_all graphic (pad_zero w s)"
proof -
  assume "list_all graphic s"
  moreover have "graphic (CHR ''0'')" by (simp add: graphic_def char_code_def)
  ultimately show ?thesis by (auto simp: pad_zero_def list_all_iff)
qed

section \<open>Trimming and character maps\<close>

text \<open>A map that moves only printable ASCII characters, among themselves, commutes with \<open>trim\<close>.\<close>

definition keeps_ws :: "(char \<Rightarrow> char) \<Rightarrow> bool" where
  "keeps_ws f \<longleftrightarrow> (\<forall>c. if graphic c then graphic (f c) else f c = c)"

lemma graphic_ws_chars:
  "graphic c \<Longrightarrow> \<not> ascii_ws c" "graphic c \<or> graphic d \<Longrightarrow> \<not> ws2 c d"
  "graphic c \<or> graphic d \<or> graphic e \<Longrightarrow> \<not> ws3 c d e"
  by (auto simp: ascii_ws_def ws2_def ws3_def graphic_def char_code_def)

lemma keeps_ws_chars:
  assumes "keeps_ws f"
  shows "ascii_ws (f c) = ascii_ws c" "ws2 (f c) (f d) = ws2 c d" "ws3 (f c) (f d) (f e) = ws3 c d e"
proof -
  have k: "graphic (f c) \<and> graphic c \<or> f c = c" for c using assms unfolding keeps_ws_def by metis
  show "ascii_ws (f c) = ascii_ws c" using k[of c] graphic_ws_chars(1) by metis
  show "ws2 (f c) (f d) = ws2 c d" using k[of c] k[of d] graphic_ws_chars(2) by metis
  show "ws3 (f c) (f d) (f e) = ws3 c d e" using k[of c] k[of d] k[of e] graphic_ws_chars(3) by metis
qed

lemma keeps_ws_len:
  assumes "keeps_ws f"
  shows "ws_len (map f s) = ws_len s" "ws_len_rev (map f s) = ws_len_rev s"
  using keeps_ws_chars[OF assms] by (auto simp: ws_len_def ws_len_rev_def split: list.split)

lemma trim_map: 
  assumes "keeps_ws f"
  shows "trim (map f s) = map f (trim s)"
proof -
  have "trim_start (map f s) = map f (trim_start s)" for s
  proof (induction s rule: trim_start.induct)
    case (1 s)
    then show ?case using keeps_ws_len(1)[OF assms, of s]
      by (subst (1 2) trim_start.simps) (simp add: drop_map)
  qed
  moreover have "trim_start_rev (map f s) = map f (trim_start_rev s)" for s
  proof (induction s rule: trim_start_rev.induct)
    case (1 s)
    then show ?case using keeps_ws_len(2)[OF assms, of s]
      by (subst (1 2) trim_start_rev.simps) (simp add: drop_map)
  qed
  ultimately show ?thesis by (simp add: trim_def trim_end_def rev_map)
qed

lemma ascii_lower_keeps_ws: "keeps_ws ascii_lower"
  unfolding keeps_ws_def
  by (auto simp: graphic_def ascii_lower_def)

lemma trim_lowercase [str_simps]: "trim (to_ascii_lowercase s) = to_ascii_lowercase (trim s)"
  unfolding to_ascii_lowercase_def by (rule trim_map[OF ascii_lower_keeps_ws])

lemma replace_keeps_ws: "list_all graphic (y # xs) \<Longrightarrow> keeps_ws (\<lambda>c. if c \<in> set xs then y else c)"
  by (auto simp: keeps_ws_def list_all_iff)

lemma trim_replace_chars: "list_all graphic (y # xs) \<Longrightarrow> trim (replace_chars xs y s) = replace_chars xs y (trim s)"
  unfolding replace_chars_def by (rule trim_map[OF replace_keeps_ws])
end
