(* ===== verification/Site_Benefits.thy ===== *)
theory Site_Benefits
  imports Rust_Str
begin

text \<open>
  Workers' day allowance and identity guarantee insurance of a site:
  \<open>crates/payroll-api/src/site_benefits.rs\<close>.
\<close>

section \<open>Data\<close>

record workers_day_config =
  wdc_enabled :: bool
  wdc_default_amount :: i64
  wdc_auto_from_invoice :: bool

definition workers_day_config_new :: workers_day_config where
  "workers_day_config_new = \<lparr>wdc_enabled = False, wdc_default_amount = 0, wdc_auto_from_invoice = True\<rparr>"

definition wdc_normalized :: "workers_day_config \<Rightarrow> workers_day_config" where
  "wdc_normalized c = c\<lparr>wdc_default_amount := max (wdc_default_amount c) 0\<rparr>"

definition wdc_with_enabled :: "bool \<Rightarrow> workers_day_config \<Rightarrow> workers_day_config" where
  "wdc_with_enabled enabled i = i\<lparr>wdc_enabled := enabled\<rparr>"

definition wdc_with_default_amount :: "i64 \<Rightarrow> workers_day_config \<Rightarrow> workers_day_config" where
  "wdc_with_default_amount amount i = i\<lparr>wdc_default_amount := amount\<rparr>"

definition wdc_with_auto_from_invoice :: "bool \<Rightarrow> workers_day_config \<Rightarrow> workers_day_config" where
  "wdc_with_auto_from_invoice auto_from_invoice i = i\<lparr>wdc_auto_from_invoice := auto_from_invoice\<rparr>"

record identity_insurance_config =
  iic_enabled :: bool
  iic_annual_amount :: i64
  iic_billing_month :: u8

definition identity_insurance_config_new :: identity_insurance_config where
  "identity_insurance_config_new = \<lparr>iic_enabled = False, iic_annual_amount = 0, iic_billing_month = 1\<rparr>"

definition iic_normalized :: "identity_insurance_config \<Rightarrow> identity_insurance_config" where
  "iic_normalized c =
     c\<lparr>iic_annual_amount := max (iic_annual_amount c) 0,
       iic_billing_month := min (max (iic_billing_month c) 1) 12\<rparr>"

definition clean_source :: "string \<Rightarrow> string" where
  "clean_source value = (let source = trim value in if source = [] then ''global'' else source)"

definition iic_with_enabled :: "bool \<Rightarrow> identity_insurance_config \<Rightarrow> identity_insurance_config" where
  "iic_with_enabled enabled i = i\<lparr>iic_enabled := enabled\<rparr>"

definition iic_with_annual_amount :: "i64 \<Rightarrow> identity_insurance_config \<Rightarrow> identity_insurance_config" where
  "iic_with_annual_amount amount i = i\<lparr>iic_annual_amount := amount\<rparr>"

definition iic_with_billing_month :: "u8 \<Rightarrow> identity_insurance_config \<Rightarrow> identity_insurance_config" where
  "iic_with_billing_month month i = i\<lparr>iic_billing_month := month\<rparr>"

record site_benefits_config =
  sbc_workers_day_allowance :: workers_day_config
  sbc_workers_day_source :: string
  sbc_identity_guarantee_insurance :: identity_insurance_config
  sbc_identity_insurance_source :: string
  sbc_identity_insurance_already_applied :: bool

definition site_benefits_config_new :: site_benefits_config where
  "site_benefits_config_new =
     \<lparr>sbc_workers_day_allowance = workers_day_config_new,
      sbc_workers_day_source = ''global'',
      sbc_identity_guarantee_insurance = identity_insurance_config_new,
      sbc_identity_insurance_source = ''global'',
      sbc_identity_insurance_already_applied = False\<rparr>"

definition sbc_normalized :: "site_benefits_config \<Rightarrow> site_benefits_config" where
  "sbc_normalized c =
     \<lparr>sbc_workers_day_allowance = wdc_normalized (sbc_workers_day_allowance c),
      sbc_workers_day_source = clean_source (sbc_workers_day_source c),
      sbc_identity_guarantee_insurance = iic_normalized (sbc_identity_guarantee_insurance c),
      sbc_identity_insurance_source = clean_source (sbc_identity_insurance_source c),
      sbc_identity_insurance_already_applied = sbc_identity_insurance_already_applied c\<rparr>"

definition sbc_with_workers_day :: "workers_day_config \<Rightarrow> string \<Rightarrow> site_benefits_config \<Rightarrow> site_benefits_config" where
  "sbc_with_workers_day config source i = i\<lparr>sbc_workers_day_allowance := config, sbc_workers_day_source := clean_source source\<rparr>"

definition sbc_with_identity_insurance :: "identity_insurance_config \<Rightarrow> string \<Rightarrow> site_benefits_config \<Rightarrow> site_benefits_config" where
  "sbc_with_identity_insurance config source i = i\<lparr>sbc_identity_guarantee_insurance := config, sbc_identity_insurance_source := clean_source source\<rparr>"

definition sbc_with_identity_already_applied :: "bool \<Rightarrow> site_benefits_config \<Rightarrow> site_benefits_config" where
  "sbc_with_identity_already_applied already_applied i = i\<lparr>sbc_identity_insurance_already_applied := already_applied\<rparr>"

record site_benefits_invoice =
  sbi_name :: string
  sbi_workplace :: string
  sbi_base_salary :: i64
  sbi_workers_day_pay :: i64
  sbi_workers_day_allowance :: i64
  sbi_identity_guarantee_insurance_deduction :: i64
  sbi_workers_day_source :: string
  sbi_identity_insurance_source :: string

definition site_benefits_invoice_new :: "string \<Rightarrow> site_benefits_invoice" where
  "site_benefits_invoice_new name =
     \<lparr>sbi_name = trim name, sbi_workplace = '''',
      sbi_base_salary = 0, sbi_workers_day_pay = 0,
      sbi_workers_day_allowance = 0, sbi_identity_guarantee_insurance_deduction = 0,
      sbi_workers_day_source = '''', sbi_identity_insurance_source = ''''\<rparr>"

definition sbi_with_workplace :: "string \<Rightarrow> site_benefits_invoice \<Rightarrow> site_benefits_invoice" where
  "sbi_with_workplace workplace i = i\<lparr>sbi_workplace := trim workplace\<rparr>"

definition sbi_with_base_salary :: "i64 \<Rightarrow> site_benefits_invoice \<Rightarrow> site_benefits_invoice" where
  "sbi_with_base_salary amount i = i\<lparr>sbi_base_salary := amount\<rparr>"

definition sbi_with_workers_day_pay :: "i64 \<Rightarrow> site_benefits_invoice \<Rightarrow> site_benefits_invoice" where
  "sbi_with_workers_day_pay amount i = i\<lparr>sbi_workers_day_pay := amount\<rparr>"

record site_benefits_application =
  sba_workers_day_allowance :: i64
  sba_identity_guarantee_insurance_deduction :: i64
  sba_workers_day_source :: string
  sba_identity_insurance_source :: string
  sba_invoice :: site_benefits_invoice

section \<open>Operations\<close>

text \<open>
  \<open>raw[5..7]\<close> panics when byte 5 or 7 is inside a character; the outer option is None then.
\<close>

definition parse_period_month :: "string \<Rightarrow> u8 option option" where
  "parse_period_month period =
     (let raw = trim period in
      if 7 \<le> length raw \<and> raw ! 4 = CHR ''-''
      then map_option parse_u8 (str_slice 5 7 raw)
      else Some None)"

definition calc_workers_day_allowance ::
    "site_benefits_invoice \<Rightarrow> site_benefits_config \<Rightarrow> u8 option \<Rightarrow> i64" where
  "calc_workers_day_allowance invoice config month =
     (let workers = wdc_normalized (sbc_workers_day_allowance config) in
      if \<not> wdc_enabled workers then 0
      else if wdc_auto_from_invoice workers then max (sbi_workers_day_pay invoice) 0
      else if wdc_default_amount workers \<le> 0 then 0
      else if month = Some 5 then wdc_default_amount workers
      else 0)"

definition calc_identity_guarantee_insurance_deduction ::
    "site_benefits_config \<Rightarrow> u8 option \<Rightarrow> i64" where
  "calc_identity_guarantee_insurance_deduction config month =
     (let identity = iic_normalized (sbc_identity_guarantee_insurance config) in
      if \<not> iic_enabled identity \<or> iic_annual_amount identity \<le> 0 then 0
      else if month \<noteq> Some (iic_billing_month identity) then 0
      else if sbc_identity_insurance_already_applied config then 0
      else i64_neg (iic_annual_amount identity))"

text \<open>None is the panic of \<open>parse_period_month\<close>.\<close>

definition apply_site_benefits_to_invoice ::
    "site_benefits_invoice \<Rightarrow> site_benefits_config \<Rightarrow> string \<Rightarrow> site_benefits_application option" where
  "apply_site_benefits_to_invoice invoice config payroll_period =
     (let config = sbc_normalized config in
      case parse_period_month payroll_period of
        None \<Rightarrow> None
      | Some month \<Rightarrow>
          (let workers_day_allowance = calc_workers_day_allowance invoice config month;
               identity_deduction = calc_identity_guarantee_insurance_deduction config month;
               invoice = invoice\<lparr>sbi_workers_day_allowance := workers_day_allowance,
                 sbi_identity_guarantee_insurance_deduction := identity_deduction,
                 sbi_workers_day_source := sbc_workers_day_source config,
                 sbi_identity_insurance_source := sbc_identity_insurance_source config\<rparr>
           in Some \<lparr>sba_workers_day_allowance = workers_day_allowance,
                    sba_identity_guarantee_insurance_deduction = identity_deduction,
                    sba_workers_day_source = sbc_workers_day_source config,
                    sba_identity_insurance_source = sbc_identity_insurance_source config,
                    sba_invoice = invoice\<rparr>))"

section \<open>Normalisation\<close>

lemma clean_source_nonempty: "clean_source s \<noteq> []"
  by (simp add: clean_source_def Let_def)

lemma trim_global: "trim ''global'' = ''global''"
  by (rule trim_literal) code_simp+

interpretation source: normaliser clean_source
  by unfold_locales (simp add: clean_source_def Let_def trim_global)

interpretation workers_day: normaliser wdc_normalized
  by unfold_locales (simp add: wdc_normalized_def)

interpretation identity_insurance: normaliser iic_normalized
  by unfold_locales (simp add: iic_normalized_def)

interpretation site_benefits: normaliser sbc_normalized
  by unfold_locales (simp add: sbc_normalized_def source.idem workers_day.idem identity_insurance.idem)

section \<open>Properties\<close>

lemma parse_period_month_ascii:
  "list_all (\<lambda>c. \<not> is_continuation c) (trim p) \<Longrightarrow> parse_period_month p \<noteq> None"
  using str_slice_ascii[of "trim p" 5 7] by (auto simp: parse_period_month_def Let_def)

text \<open>
  The allowance is never negative and the identity insurance is a deduction (never
  positive, and no smaller than minus the annual amount); it is taken only when it is
  enabled, not already applied, and the period's month is the billing month, which is always
  a month of the year.
\<close>

theorem site_benefits_signs:
  assumes "apply_site_benefits_to_invoice invoice config period = Some app"
    and "is_i64 (iic_annual_amount (sbc_identity_guarantee_insurance config))"
  shows "0 \<le> sba_workers_day_allowance app \<and>
    sba_identity_guarantee_insurance_deduction app \<le> 0 \<and>
    (sba_identity_guarantee_insurance_deduction app \<noteq> 0 \<longrightarrow>
       sba_identity_guarantee_insurance_deduction app
         = - iic_annual_amount (sbc_identity_guarantee_insurance config) \<and>
       iic_enabled (sbc_identity_guarantee_insurance config) \<and>
       \<not> sbc_identity_insurance_already_applied config \<and>
       (\<exists>m. parse_period_month period = Some (Some m) \<and> 1 \<le> m \<and> m \<le> 12))"
proof -
  have neg: "i64_neg a = - a" if "is_i64 a" "0 \<le> a" for a
    using that by (simp add: i64_neg_def wrap64_id is_i64_def)
  show ?thesis
    using assms neg
    by (auto simp: apply_site_benefits_to_invoice_def calc_workers_day_allowance_def
        calc_identity_guarantee_insurance_deduction_def sbc_normalized_def wdc_normalized_def
        iic_normalized_def Let_def max_def split: option.splits if_splits)
qed

theorem site_benefits_signs_witness:
  "\<exists>app. apply_site_benefits_to_invoice (site_benefits_invoice_new ''kim'')
      (sbc_with_identity_insurance
        \<lparr>iic_enabled = True, iic_annual_amount = 12000, iic_billing_month = 3\<rparr> ''site''
        site_benefits_config_new) ''2026-03'' = Some app
     \<and> sba_identity_guarantee_insurance_deduction app = - 12000
     \<and> 0 \<le> sba_workers_day_allowance app"
proof -
  let ?c = "sbc_with_identity_insurance
        \<lparr>iic_enabled = True, iic_annual_amount = 12000, iic_billing_month = 3\<rparr> ''site''
        site_benefits_config_new"
  have "map_option sba_identity_guarantee_insurance_deduction
      (apply_site_benefits_to_invoice (site_benefits_invoice_new ''kim'') ?c ''2026-03'') = Some (- 12000)"
    by code_simp
  then obtain app where app: "apply_site_benefits_to_invoice (site_benefits_invoice_new ''kim'') ?c ''2026-03'' = Some app"
    "sba_identity_guarantee_insurance_deduction app \<noteq> 0" by auto
  moreover have "is_i64 (iic_annual_amount (sbc_identity_guarantee_insurance ?c))" by code_simp
  ultimately show ?thesis
    using site_benefits_signs[OF app(1)] by (auto simp: sbc_with_identity_insurance_def)
qed

text \<open>
  Applying the benefits a second time, to the invoice the first application produced,
  gives the same result, and so does a configuration that is already normalised.
\<close>

theorem site_benefits_stable:
  assumes "apply_site_benefits_to_invoice invoice config period = Some app"
  shows "apply_site_benefits_to_invoice (sba_invoice app) config period = Some app \<and>
    apply_site_benefits_to_invoice invoice (sbc_normalized config) period = Some app"
proof -
  have again: "calc_workers_day_allowance (sba_invoice app) c m = calc_workers_day_allowance invoice c m" for c m
    using assms by (auto simp: apply_site_benefits_to_invoice_def calc_workers_day_allowance_def Let_def
        split: option.splits)
  from assms obtain m where m: "parse_period_month period = Some m"
    by (auto simp: apply_site_benefits_to_invoice_def Let_def split: option.splits)
  from assms show ?thesis
    by (auto simp: apply_site_benefits_to_invoice_def Let_def again m site_benefits.idem)
qed

theorem site_benefits_stable_witness:
  "\<exists>app. apply_site_benefits_to_invoice (sbi_with_workers_day_pay 90000 (site_benefits_invoice_new ''kim''))
       site_benefits_config_new ''2026-05'' = Some app
     \<and> apply_site_benefits_to_invoice (sba_invoice app) site_benefits_config_new ''2026-05'' = Some app"
proof -
  have "apply_site_benefits_to_invoice (sbi_with_workers_day_pay 90000 (site_benefits_invoice_new ''kim''))
       site_benefits_config_new ''2026-05'' \<noteq> None" by code_simp
  with site_benefits_stable show ?thesis by fast
qed

definition broken_period :: string where
  "broken_period = ''2024-0'' @ [CHR 0xEC, CHR 0x9B, CHR 0x94]"

text \<open>
  The month is cut out of the period by byte positions, so a period such as
  \<open>2024-0\<close> followed by a three-byte character panics, while a period whose trimmed text is
  ASCII never does.
\<close>

theorem site_benefits_panic:
  "apply_site_benefits_to_invoice invoice config broken_period = None \<and>
   (list_all (\<lambda>c. \<not> is_continuation c) (trim period) \<longrightarrow>
      apply_site_benefits_to_invoice invoice config period \<noteq> None)"
proof -
  have "parse_period_month broken_period = None" by code_simp
  then show ?thesis
    using parse_period_month_ascii[of period]
    by (auto simp: apply_site_benefits_to_invoice_def Let_def split: option.splits)
qed

theorem site_benefits_panic_witness:
  "apply_site_benefits_to_invoice (site_benefits_invoice_new ''kim'') site_benefits_config_new ''2026-05'' \<noteq> None"
proof -
  have "list_all (\<lambda>c. \<not> is_continuation c) (trim ''2026-05'')" by code_simp
  with site_benefits_panic show ?thesis by blast
qed

end
