(* ===== verification/Edi_Insurance.thy ===== *)
theory Edi_Insurance
  imports Rust_Str Rounding
begin

text \<open>
  Premiums looked up from the insurer's EDI service replace the computed contributions of an
  invoice: \<open>crates/payroll-api/src/edi_insurance.rs\<close>.
\<close>

section \<open>Periods\<close>

definition parse_year_month :: "string \<Rightarrow> (i32 \<times> u8) option" where
  "parse_year_month text =
     (case split_on (CHR ''-'') text of
        y # m # rest \<Rightarrow>
          (case parse_i32 y of
             None \<Rightarrow> None
           | Some year \<Rightarrow>
               (case parse_u8 m of
                  None \<Rightarrow> None
                | Some month \<Rightarrow>
                    if rest \<noteq> [] \<or> \<not> (1 \<le> month \<and> month \<le> 12) then None
                    else Some (year, month)))
      | _ \<Rightarrow> None)"

text \<open>
  \<open>format!("{year:04}-{month:02}")\<close>: the year of a parsed period is never negative, since
  the text was split at the minus signs.
\<close>

definition format_year_month :: "i32 \<Rightarrow> u8 \<Rightarrow> string" where
  "format_year_month year month =
     pad_zero 4 (show_int year) @ ''-'' @ pad_zero 2 (show_int month)"

definition normalize_period :: "string \<Rightarrow> string" where
  "normalize_period period =
     (let text = replace_chars [CHR ''.'', CHR ''/''] (CHR ''-'') (trim period) in
      if text = [] then []
      else case parse_year_month text of
        Some (year, month) \<Rightarrow> format_year_month year month
      | None \<Rightarrow>
          (let compact = remove_char (CHR ''-'') text;
               year = unwrap_or 0 (parse_i32 (take 4 compact));
               month = unwrap_or 0 (parse_u8 (take 2 (drop 4 compact)))
           in if length compact = 6 \<and> list_all is_digit compact \<and> 1 \<le> month \<and> month \<le> 12
              then format_year_month year month
              else take_chars 7 text))"

section \<open>Data\<close>

definition edi_applied_badge :: string where
  "edi_applied_badge = ''EDI '' @ [CHR 0xEC, CHR 0xA1, CHR 0xB0, CHR 0xED, CHR 0x9A, CHR 0x8C]"  \<comment> \<open>EDI lookup\<close>

definition edi_off_message :: string where
  "edi_off_message =
     ''EDI '' @ [CHR 0xEB, CHR 0xB3, CHR 0xB4, CHR 0xED, CHR 0x97, CHR 0x98, CHR 0xEB, CHR 0xA3, CHR 0x8C] @ '' '' @ [CHR 0xEC, CHR 0x82, CHR 0xAC, CHR 0xEC, CHR 0x9A, CHR 0xA9] @ '' '' @ [CHR 0xEA, CHR 0xBA, CHR 0xBC, CHR 0xEC, CHR 0xA7, CHR 0x90]"
  \<comment> \<open>EDI premiums switched off\<close>

definition edi_missing_message :: string where
  "edi_missing_message =
     ''EDI '' @ [CHR 0xEB, CHR 0xB3, CHR 0xB4, CHR 0xED, CHR 0x97, CHR 0x98, CHR 0xEB, CHR 0xA3, CHR 0x8C] @ '' '' @ [CHR 0xEC, CHR 0x97, CHR 0x86, CHR 0xEC, CHR 0x9D, CHR 0x8C]"
  \<comment> \<open>no EDI premium\<close>

definition edi_applied_message :: string where
  "edi_applied_message =
     ''EDI '' @ [CHR 0xEB, CHR 0xB3, CHR 0xB4, CHR 0xED, CHR 0x97, CHR 0x98, CHR 0xEB, CHR 0xA3, CHR 0x8C] @ '' '' @ [CHR 0xEC, CHR 0xA0, CHR 0x81, CHR 0xEC, CHR 0x9A, CHR 0xA9]"
  \<comment> \<open>EDI premium applied\<close>

definition edi_long_term_care_ratio :: f64 where
  "edi_long_term_care_ratio = lit 0.1295"

datatype edi_premium_source = EdiManual | EdiImport | EdiApi | EdiCalculated

definition edi_premium_source_normalize :: "string \<Rightarrow> edi_premium_source" where
  "edi_premium_source_normalize value =
     (let s = to_ascii_lowercase (trim value) in
      if s = ''manual'' then EdiManual
      else if s = ''api'' then EdiApi
      else if s = ''calculated'' then EdiCalculated
      else EdiImport)"

fun edi_premium_source_as_str :: "edi_premium_source \<Rightarrow> string" where
  "edi_premium_source_as_str EdiManual = ''manual''"
| "edi_premium_source_as_str EdiImport = ''import''"
| "edi_premium_source_as_str EdiApi = ''api''"
| "edi_premium_source_as_str EdiCalculated = ''calculated''"

fun edi_premium_source_label :: "edi_premium_source \<Rightarrow> string" where
  "edi_premium_source_label EdiManual =
     [CHR 0xEC, CHR 0x88, CHR 0x98, CHR 0xEB, CHR 0x8F, CHR 0x99] @ '' '' @ [CHR 0xEB, CHR 0x93, CHR 0xB1, CHR 0xEB, CHR 0xA1, CHR 0x9D]"  \<comment> \<open>manual entry\<close>
| "edi_premium_source_label EdiImport =
     ''CSV '' @ [CHR 0xEA, CHR 0xB0, CHR 0x80, CHR 0xEC, CHR 0xA0, CHR 0xB8, CHR 0xEC, CHR 0x98, CHR 0xA4, CHR 0xEA, CHR 0xB8, CHR 0xB0]"  \<comment> \<open>CSV import\<close>
| "edi_premium_source_label EdiApi = ''EDI API''"
| "edi_premium_source_label EdiCalculated =
     [CHR 0xEC, CHR 0x9E, CHR 0x90, CHR 0xEB, CHR 0x8F, CHR 0x99] @ '' '' @ [CHR 0xEC, CHR 0x82, CHR 0xB0, CHR 0xEC, CHR 0xB6, CHR 0x9C]"  \<comment> \<open>computed\<close>

record edi_insurance_config =
  eic_use_edi_premiums :: bool
  eic_respect_age_exempt :: bool

definition edi_insurance_config_new :: edi_insurance_config where
  "edi_insurance_config_new = \<lparr>eic_use_edi_premiums = False, eic_respect_age_exempt = True\<rparr>"

definition eic_with_use_edi_premiums :: "bool \<Rightarrow> edi_insurance_config \<Rightarrow> edi_insurance_config" where
  "eic_with_use_edi_premiums enabled i = i\<lparr>eic_use_edi_premiums := enabled\<rparr>"

definition eic_with_respect_age_exempt :: "bool \<Rightarrow> edi_insurance_config \<Rightarrow> edi_insurance_config" where
  "eic_with_respect_age_exempt respect i = i\<lparr>eic_respect_age_exempt := respect\<rparr>"

record edi_insurance_premium_record =
  epr_employee_id :: string
  epr_employee_name :: string
  epr_period :: string
  epr_national_pension :: i64
  epr_health_insurance :: i64
  epr_long_term_care :: i64
  epr_employment_insurance :: i64
  epr_industrial_accident :: i64
  epr_industrial_accident_employer :: "i64 option"
  epr_industrial_accident_employee :: "i64 option"
  epr_management_no :: string
  epr_source :: edi_premium_source
  epr_fetched_at :: string
  epr_workplace :: string
  epr_note :: string

definition edi_insurance_premium_record_new :: "string \<Rightarrow> edi_insurance_premium_record" where
  "edi_insurance_premium_record_new period =
     \<lparr>epr_employee_id = '''', epr_employee_name = '''',
      epr_period = normalize_period period, epr_national_pension = 0,
      epr_health_insurance = 0, epr_long_term_care = 0,
      epr_employment_insurance = 0, epr_industrial_accident = 0,
      epr_industrial_accident_employer = None, epr_industrial_accident_employee = None,
      epr_management_no = '''', epr_source = EdiImport,
      epr_fetched_at = '''', epr_workplace = '''',
      epr_note = ''''\<rparr>"

definition epr_normalized :: "edi_insurance_premium_record \<Rightarrow> edi_insurance_premium_record" where
  "epr_normalized r =
     \<lparr>epr_employee_id = trim (epr_employee_id r),
      epr_employee_name = trim (epr_employee_name r),
      epr_period = normalize_period (epr_period r),
      epr_national_pension = max (epr_national_pension r) 0,
      epr_health_insurance = max (epr_health_insurance r) 0,
      epr_long_term_care = max (epr_long_term_care r) 0,
      epr_employment_insurance = max (epr_employment_insurance r) 0,
      epr_industrial_accident = max (epr_industrial_accident r) 0,
      epr_industrial_accident_employer =
        map_option (\<lambda>amount. max amount 0) (epr_industrial_accident_employer r),
      epr_industrial_accident_employee =
        map_option (\<lambda>amount. max amount 0) (epr_industrial_accident_employee r),
      epr_management_no = trim (epr_management_no r),
      epr_source = epr_source r,
      epr_fetched_at = trim (epr_fetched_at r),
      epr_workplace = trim (epr_workplace r),
      epr_note = trim (epr_note r)\<rparr>"

definition epr_with_employee_id :: "string \<Rightarrow> edi_insurance_premium_record \<Rightarrow> edi_insurance_premium_record" where
  "epr_with_employee_id employee_id i = i\<lparr>epr_employee_id := trim employee_id\<rparr>"

definition epr_with_employee_name :: "string \<Rightarrow> edi_insurance_premium_record \<Rightarrow> edi_insurance_premium_record" where
  "epr_with_employee_name employee_name i = i\<lparr>epr_employee_name := trim employee_name\<rparr>"

definition epr_with_period :: "string \<Rightarrow> edi_insurance_premium_record \<Rightarrow> edi_insurance_premium_record" where
  "epr_with_period period i = i\<lparr>epr_period := normalize_period period\<rparr>"

definition epr_with_national_pension :: "i64 \<Rightarrow> edi_insurance_premium_record \<Rightarrow> edi_insurance_premium_record" where
  "epr_with_national_pension amount i = i\<lparr>epr_national_pension := amount\<rparr>"

definition epr_with_health_insurance :: "i64 \<Rightarrow> edi_insurance_premium_record \<Rightarrow> edi_insurance_premium_record" where
  "epr_with_health_insurance amount i = i\<lparr>epr_health_insurance := amount\<rparr>"

definition epr_with_long_term_care :: "i64 \<Rightarrow> edi_insurance_premium_record \<Rightarrow> edi_insurance_premium_record" where
  "epr_with_long_term_care amount i = i\<lparr>epr_long_term_care := amount\<rparr>"

definition epr_with_employment_insurance :: "i64 \<Rightarrow> edi_insurance_premium_record \<Rightarrow> edi_insurance_premium_record" where
  "epr_with_employment_insurance amount i = i\<lparr>epr_employment_insurance := amount\<rparr>"

definition epr_with_industrial_accident :: "i64 \<Rightarrow> edi_insurance_premium_record \<Rightarrow> edi_insurance_premium_record" where
  "epr_with_industrial_accident amount i = i\<lparr>epr_industrial_accident := amount\<rparr>"

definition epr_with_industrial_accident_employer :: "i64 \<Rightarrow> edi_insurance_premium_record \<Rightarrow> edi_insurance_premium_record" where
  "epr_with_industrial_accident_employer amount i = i\<lparr>epr_industrial_accident_employer := Some amount\<rparr>"

definition epr_with_industrial_accident_employee :: "i64 \<Rightarrow> edi_insurance_premium_record \<Rightarrow> edi_insurance_premium_record" where
  "epr_with_industrial_accident_employee amount i = i\<lparr>epr_industrial_accident_employee := Some amount\<rparr>"

definition epr_with_management_no :: "string \<Rightarrow> edi_insurance_premium_record \<Rightarrow> edi_insurance_premium_record" where
  "epr_with_management_no management_no i = i\<lparr>epr_management_no := trim management_no\<rparr>"

definition epr_with_source :: "edi_premium_source \<Rightarrow> edi_insurance_premium_record \<Rightarrow> edi_insurance_premium_record" where
  "epr_with_source source i = i\<lparr>epr_source := source\<rparr>"

definition epr_with_source_text :: "string \<Rightarrow> edi_insurance_premium_record \<Rightarrow> edi_insurance_premium_record" where
  "epr_with_source_text source i = i\<lparr>epr_source := edi_premium_source_normalize source\<rparr>"

definition epr_with_fetched_at :: "string \<Rightarrow> edi_insurance_premium_record \<Rightarrow> edi_insurance_premium_record" where
  "epr_with_fetched_at fetched_at i = i\<lparr>epr_fetched_at := trim fetched_at\<rparr>"

definition epr_with_workplace :: "string \<Rightarrow> edi_insurance_premium_record \<Rightarrow> edi_insurance_premium_record" where
  "epr_with_workplace workplace i = i\<lparr>epr_workplace := trim workplace\<rparr>"

definition epr_with_note :: "string \<Rightarrow> edi_insurance_premium_record \<Rightarrow> edi_insurance_premium_record" where
  "epr_with_note note i = i\<lparr>epr_note := trim note\<rparr>"

record edi_insurance_invoice =
  eiv_name :: string
  eiv_employee_id :: string
  eiv_workplace :: string
  eiv_national_pension :: i64
  eiv_health_insurance :: i64
  eiv_long_term_care :: i64
  eiv_employment_insurance :: i64
  eiv_industrial_accident :: i64
  eiv_industrial_accident_employer :: "i64 option"
  eiv_industrial_accident_employee :: "i64 option"
  eiv_insurance_total :: i64
  eiv_insurance_exempt :: bool
  eiv_edi_premium_source :: bool
  eiv_edi_premium_badge :: string
  eiv_edi_premium_period :: string
  eiv_edi_premium_fetched_at :: string
  eiv_edi_premium_source_type :: string

definition edi_insurance_invoice_new :: "string \<Rightarrow> edi_insurance_invoice" where
  "edi_insurance_invoice_new name =
     \<lparr>eiv_name = trim name, eiv_employee_id = '''',
      eiv_workplace = '''', eiv_national_pension = 0,
      eiv_health_insurance = 0, eiv_long_term_care = 0,
      eiv_employment_insurance = 0, eiv_industrial_accident = 0,
      eiv_industrial_accident_employer = None, eiv_industrial_accident_employee = None,
      eiv_insurance_total = 0, eiv_insurance_exempt = False,
      eiv_edi_premium_source = False, eiv_edi_premium_badge = '''',
      eiv_edi_premium_period = '''', eiv_edi_premium_fetched_at = '''',
      eiv_edi_premium_source_type = ''''\<rparr>"

definition eiv_with_employee_id :: "string \<Rightarrow> edi_insurance_invoice \<Rightarrow> edi_insurance_invoice" where
  "eiv_with_employee_id employee_id i = i\<lparr>eiv_employee_id := trim employee_id\<rparr>"

definition eiv_with_workplace :: "string \<Rightarrow> edi_insurance_invoice \<Rightarrow> edi_insurance_invoice" where
  "eiv_with_workplace workplace i = i\<lparr>eiv_workplace := trim workplace\<rparr>"

definition eiv_with_national_pension :: "i64 \<Rightarrow> edi_insurance_invoice \<Rightarrow> edi_insurance_invoice" where
  "eiv_with_national_pension amount i = i\<lparr>eiv_national_pension := amount\<rparr>"

definition eiv_with_health_insurance :: "i64 \<Rightarrow> edi_insurance_invoice \<Rightarrow> edi_insurance_invoice" where
  "eiv_with_health_insurance amount i = i\<lparr>eiv_health_insurance := amount\<rparr>"

definition eiv_with_long_term_care :: "i64 \<Rightarrow> edi_insurance_invoice \<Rightarrow> edi_insurance_invoice" where
  "eiv_with_long_term_care amount i = i\<lparr>eiv_long_term_care := amount\<rparr>"

definition eiv_with_employment_insurance :: "i64 \<Rightarrow> edi_insurance_invoice \<Rightarrow> edi_insurance_invoice" where
  "eiv_with_employment_insurance amount i = i\<lparr>eiv_employment_insurance := amount\<rparr>"

definition eiv_with_industrial_accident :: "i64 \<Rightarrow> edi_insurance_invoice \<Rightarrow> edi_insurance_invoice" where
  "eiv_with_industrial_accident amount i = i\<lparr>eiv_industrial_accident := amount\<rparr>"

definition eiv_with_industrial_accident_employer :: "i64 \<Rightarrow> edi_insurance_invoice \<Rightarrow> edi_insurance_invoice" where
  "eiv_with_industrial_accident_employer amount i = i\<lparr>eiv_industrial_accident_employer := Some amount\<rparr>"

definition eiv_with_industrial_accident_employee :: "i64 \<Rightarrow> edi_insurance_invoice \<Rightarrow> edi_insurance_invoice" where
  "eiv_with_industrial_accident_employee amount i = i\<lparr>eiv_industrial_accident_employee := Some amount\<rparr>"

definition eiv_with_insurance_total :: "i64 \<Rightarrow> edi_insurance_invoice \<Rightarrow> edi_insurance_invoice" where
  "eiv_with_insurance_total amount i = i\<lparr>eiv_insurance_total := amount\<rparr>"

definition eiv_with_insurance_exempt :: "bool \<Rightarrow> edi_insurance_invoice \<Rightarrow> edi_insurance_invoice" where
  "eiv_with_insurance_exempt exempt i = i\<lparr>eiv_insurance_exempt := exempt\<rparr>"

record edi_insurance_application =
  eia_applied :: bool
  eia_record :: "edi_insurance_premium_record option"
  eia_message :: string
  eia_invoice :: edi_insurance_invoice

section \<open>Operations\<close>

text \<open>The amounts of the record go into the invoice; the first block is skipped for an age-exempt worker.\<close>

definition edi_contributions ::
    "edi_insurance_premium_record \<Rightarrow> edi_insurance_invoice \<Rightarrow> edi_insurance_invoice" where
  "edi_contributions record invoice =
     (let invoice = (if epr_national_pension record > 0
            then invoice\<lparr>eiv_national_pension := epr_national_pension record\<rparr> else invoice);
          invoice = (if epr_health_insurance record > 0
            then invoice\<lparr>eiv_health_insurance := epr_health_insurance record\<rparr> else invoice);
          invoice = (if epr_long_term_care record > 0
            then invoice\<lparr>eiv_long_term_care := epr_long_term_care record\<rparr>
            else if epr_health_insurance record > 0
            then invoice\<lparr>eiv_long_term_care :=
              round_won (of_i64 (epr_health_insurance record) * edi_long_term_care_ratio)\<rparr>
            else invoice)
      in invoice)"

definition edi_employment_and_accident ::
    "bool \<Rightarrow> edi_insurance_premium_record \<Rightarrow> edi_insurance_invoice \<Rightarrow> edi_insurance_invoice" where
  "edi_employment_and_accident age_exempt record invoice =
     (let invoice = (if epr_employment_insurance record > 0
            then invoice\<lparr>eiv_employment_insurance := epr_employment_insurance record\<rparr>
            else if epr_employment_insurance record = 0 \<and> \<not> age_exempt
            then invoice\<lparr>eiv_employment_insurance := 0\<rparr>
            else invoice);
          invoice = (if epr_industrial_accident record > 0
            then invoice\<lparr>eiv_industrial_accident := epr_industrial_accident record\<rparr> else invoice);
          invoice = (case epr_industrial_accident_employer record of
              Some amount \<Rightarrow> invoice\<lparr>eiv_industrial_accident_employer := Some amount\<rparr>
            | None \<Rightarrow> invoice);
          invoice = (case epr_industrial_accident_employee record of
              Some amount \<Rightarrow> invoice\<lparr>eiv_industrial_accident_employee := Some amount\<rparr>
            | None \<Rightarrow> invoice)
      in invoice)"

definition edi_insurance_sum :: "edi_insurance_invoice \<Rightarrow> i64" where
  "edi_insurance_sum invoice =
     i64_add (i64_add (i64_add (max (eiv_national_pension invoice) 0)
       (max (eiv_health_insurance invoice) 0)) (max (eiv_long_term_care invoice) 0))
       (max (eiv_employment_insurance invoice) 0)"

definition apply_edi_premiums_to_invoice ::
    "edi_insurance_invoice \<Rightarrow> edi_insurance_premium_record option \<Rightarrow> edi_insurance_config \<Rightarrow> string
     \<Rightarrow> edi_insurance_application" where
  "apply_edi_premiums_to_invoice invoice record config payroll_period =
     (if \<not> eic_use_edi_premiums config
      then \<lparr>eia_applied = False, eia_record = None, eia_message = edi_off_message,
            eia_invoice = invoice\<rparr>
      else case map_option epr_normalized record of
        None \<Rightarrow> \<lparr>eia_applied = False, eia_record = None, eia_message = edi_missing_message,
                 eia_invoice = invoice\<rparr>
      | Some record \<Rightarrow>
          (let age_exempt = eic_respect_age_exempt config \<and> eiv_insurance_exempt invoice;
               invoice = (if \<not> age_exempt then edi_contributions record invoice else invoice);
               invoice = edi_employment_and_accident age_exempt record invoice;
               invoice = invoice\<lparr>eiv_edi_premium_source := True,
                 eiv_edi_premium_badge := edi_applied_badge,
                 eiv_edi_premium_period := normalize_period payroll_period,
                 eiv_edi_premium_fetched_at := epr_fetched_at record,
                 eiv_edi_premium_source_type := edi_premium_source_as_str (epr_source record)\<rparr>;
               invoice = invoice\<lparr>eiv_insurance_total := edi_insurance_sum invoice\<rparr>
           in \<lparr>eia_applied = True, eia_record = Some record, eia_message = edi_applied_message,
               eia_invoice = invoice\<rparr>))"

section \<open>Periods\<close>

lemma show_int_of_nat [simp]: "show_int (int n) = show_nat n"
  by (simp add: show_int_def)

lemma minus_not_digit: "\<not> is_digit (CHR ''-'')" "\<not> is_digit (CHR ''.'')" "\<not> is_digit (CHR ''/'')"
  by (simp_all add: is_digit_def char_code_def)

lemma replace_chars_digits:
  "list_all is_digit s \<Longrightarrow> replace_chars [CHR ''.'', CHR ''/''] c s = s"
  using minus_not_digit by (induction s) (auto simp: replace_chars_def)

lemma remove_char_digits: "list_all is_digit s \<Longrightarrow> remove_char (CHR ''-'') s = s"
  using minus_not_digit by (induction s) (auto simp: remove_char_def)

lemma parse_formatted:
  assumes "y < 10000" "1 \<le> m" "m \<le> 12"
  shows "parse_year_month (pad_zero 4 (show_nat y) @ CHR ''-'' # pad_zero 2 (show_nat m))
    = Some (int y, int m)"
proof -
  have b: "y < 10 ^ 4" "m < 10 ^ 2" using assms by simp_all
  note fy = field_facts[OF b(1)] and fm = field_facts[OF b(2)]
  have "CHR ''-'' \<notin> set (pad_zero 4 (show_nat y))" "CHR ''-'' \<notin> set (pad_zero 2 (show_nat m))"
    using digits_not_in[OF fy(2) minus_not_digit(1)] digits_not_in[OF fm(2) minus_not_digit(1)] by simp_all
  then show ?thesis
    using assms fy(5)[of 2147483647] fm(4)[of 255]
    by (simp add: parse_year_month_def split_on_append split_on_none parse_i32_def parse_u8_def)
qed

section \<open>The updates as one step\<close>

lemma edi_contributions_eq:
  "edi_contributions r v =
     v\<lparr>eiv_national_pension := if epr_national_pension r > 0 then epr_national_pension r
         else eiv_national_pension v,
       eiv_health_insurance := if epr_health_insurance r > 0 then epr_health_insurance r
         else eiv_health_insurance v,
       eiv_long_term_care := if epr_long_term_care r > 0 then epr_long_term_care r
         else if epr_health_insurance r > 0
         then round_won (of_i64 (epr_health_insurance r) * edi_long_term_care_ratio)
         else eiv_long_term_care v\<rparr>"
  by (simp add: edi_contributions_def Let_def)

lemma edi_employment_and_accident_eq:
  "edi_employment_and_accident e r v =
     v\<lparr>eiv_employment_insurance := if epr_employment_insurance r > 0 then epr_employment_insurance r
         else if epr_employment_insurance r = 0 \<and> \<not> e then 0 else eiv_employment_insurance v,
       eiv_industrial_accident := if epr_industrial_accident r > 0 then epr_industrial_accident r
         else eiv_industrial_accident v,
       eiv_industrial_accident_employer :=
         opt_or (epr_industrial_accident_employer r) (eiv_industrial_accident_employer v),
       eiv_industrial_accident_employee :=
         opt_or (epr_industrial_accident_employee r) (eiv_industrial_accident_employee v)\<rparr>"
  by (simp add: edi_employment_and_accident_def Let_def opt_or_def split: option.split)

lemma opt_or_again [simp]: "opt_or x (opt_or x y) = opt_or x y"
  by (cases x) simp_all

text \<open>The invoice after an application, before the total is written.\<close>

definition edi_filled ::
    "edi_insurance_premium_record \<Rightarrow> edi_insurance_config \<Rightarrow> string \<Rightarrow> edi_insurance_invoice
     \<Rightarrow> edi_insurance_invoice" where
  "edi_filled r config period v =
     (let e = eic_respect_age_exempt config \<and> eiv_insurance_exempt v in
      (edi_employment_and_accident e r (if \<not> e then edi_contributions r v else v))
        \<lparr>eiv_edi_premium_source := True, eiv_edi_premium_badge := edi_applied_badge,
         eiv_edi_premium_period := normalize_period period,
         eiv_edi_premium_fetched_at := epr_fetched_at r,
         eiv_edi_premium_source_type := edi_premium_source_as_str (epr_source r)\<rparr>)"

lemma apply_edi_filled:
  "eic_use_edi_premiums config \<Longrightarrow> apply_edi_premiums_to_invoice v (Some r) config period =
     (let w = edi_filled (epr_normalized r) config period v
      in \<lparr>eia_applied = True, eia_record = Some (epr_normalized r), eia_message = edi_applied_message,
          eia_invoice = w\<lparr>eiv_insurance_total := edi_insurance_sum w\<rparr>\<rparr>)"
  by (simp add: apply_edi_premiums_to_invoice_def edi_filled_def Let_def)

lemma edi_filled_exempt: "eiv_insurance_exempt (edi_filled r config period v) = eiv_insurance_exempt v"
  by (simp add: edi_filled_def Let_def edi_contributions_eq edi_employment_and_accident_eq)

lemma edi_filled_again:
  "edi_filled r config period ((edi_filled r config period v)\<lparr>eiv_insurance_total := t\<rparr>)
   = (edi_filled r config period v)\<lparr>eiv_insurance_total := t\<rparr>"
  by (cases "eic_respect_age_exempt config \<and> eiv_insurance_exempt v")
    (simp_all add: edi_filled_def Let_def edi_contributions_eq edi_employment_and_accident_eq)

section \<open>Properties\<close>

text \<open>
  The four spellings of a month that the importers see (\<open>YYYY-MM\<close>, \<open>YYYY.MM\<close>, \<open>YYYY/MM\<close>
  and the compact \<open>YYYYMM\<close>) all normalise to \<open>YYYY-MM\<close>, which is a fixed point.
\<close>

theorem normalize_period_forms:
  assumes "y < 10000" and "1 \<le> m" and "m \<le> 12"
  shows "let year = pad_zero 4 (show_nat y); month = pad_zero 2 (show_nat m);
             canonical = year @ ''-'' @ month in
    normalize_period canonical = canonical \<and>
    normalize_period (year @ ''.'' @ month) = canonical \<and>
    normalize_period (year @ ''/'' @ month) = canonical \<and>
    normalize_period (year @ month) = canonical"
proof -
  define Y M where "Y = pad_zero 4 (show_nat y)" and "M = pad_zero 2 (show_nat m)"
  have b: "y < 10 ^ 4" "m < 10 ^ 2" using assms by simp_all
  have fy: "length Y = 4" "list_all is_digit Y" "parse_i32 Y = Some (int y)"
    using field_facts(1,2)[OF b(1)] field_facts(5)[OF b(1), of 2147483647] assms by (simp_all add: Y_def parse_i32_def)
  have fm: "length M = 2" "list_all is_digit M" "parse_u8 M = Some (int m)"
    using field_facts(1,2)[OF b(2)] field_facts(4)[OF b(2), of 255] assms by (simp_all add: M_def parse_u8_def)
  have ne: "Y \<noteq> []" "M \<noteq> []" using fy(1) fm(1) by auto
  have tr: "trim (Y @ s @ M) = Y @ s @ M" for s by (rule trim_fields[OF fy(2) ne(1) fm(2) ne(2)])
  have fmt: "format_year_month (int y) (int m) = Y @ CHR ''-'' # M"
    by (simp add: format_year_month_def Y_def M_def)
  have sep: "normalize_period (Y @ c # M) = Y @ CHR ''-'' # M"
    if "c \<in> {CHR ''-'', CHR ''.'', CHR ''/''}" for c
  proof -
    have "replace_chars [CHR ''.'', CHR ''/''] (CHR ''-'') (Y @ c # M) = Y @ CHR ''-'' # M"
      using that replace_chars_digits[OF fy(2)] replace_chars_digits[OF fm(2)]
      by (auto simp: replace_chars_def)
    then show ?thesis
      using tr[of "[c]"] parse_formatted[OF assms, folded Y_def M_def]
      by (simp add: normalize_period_def Let_def fmt)
  qed
  have d: "list_all is_digit (Y @ M)" using fy(2) fm(2) by simp
  have "parse_year_month (Y @ M) = None"
    using digits_not_in[OF d minus_not_digit(1)] by (simp add: parse_year_month_def split_on_none)
  then have "normalize_period (Y @ M) = Y @ CHR ''-'' # M"
    using tr[of "[]"] replace_chars_digits[OF d] remove_char_digits[OF d] fy fm ne assms
    by (simp add: normalize_period_def Let_def fmt)
  with sep show ?thesis by (simp add: Let_def Y_def[symmetric] M_def[symmetric])
qed

lemma field_2026: "pad_zero 4 (show_nat 2026) = ''2026''" "pad_zero 2 (show_nat 3) = ''03''"
  by code_simp+

theorem normalize_period_forms_witness:
  "normalize_period ''2026/03'' = ''2026-03'' \<and> normalize_period ''202603'' = ''2026-03''"
  using normalize_period_forms[of 2026 3] by (simp add: Let_def field_2026)

text \<open>
  Replacing the premiums is idempotent: a second application of the same record, with
  the same configuration and period, to the invoice of the first returns the same result.
\<close>

theorem edi_application_idempotent:
  "apply_edi_premiums_to_invoice (eia_invoice (apply_edi_premiums_to_invoice invoice record config period))
     record config period
   = apply_edi_premiums_to_invoice invoice record config period"
proof (cases "eic_use_edi_premiums config \<and> record \<noteq> None")
  case False
  then show ?thesis by (auto simp: apply_edi_premiums_to_invoice_def)
next
  case True
  then obtain r where r: "record = Some r" by blast
  have "edi_insurance_sum (v\<lparr>eiv_insurance_total := t\<rparr>) = edi_insurance_sum v" for v t
    by (simp add: edi_insurance_sum_def)
  with True show ?thesis by (simp add: r apply_edi_filled Let_def edi_filled_again)
qed



end
