(* ===== verification/Employment_Insurance_65.thy ===== *)
theory Employment_Insurance_65
  imports Rust_Str "HOL-Library.Product_Lexorder"
begin

text \<open>
  Employment insurance from the age of 65:
  \<open>crates/payroll-api/src/employment_insurance_65.rs\<close>.  The age comes from the resident
  registration number (its first six digits are the birth date, the seventh names the
  century) on the last day of the payroll period.
\<close>

section \<open>Data\<close>

definition ei65_exempt_age_years :: i32 where
  "ei65_exempt_age_years = 65"

datatype ei65_eligibility_status = Ei65Exempt | Ei65Liable | Ei65Unknown

fun ei65_eligibility_status_as_str :: "ei65_eligibility_status \<Rightarrow> string" where
  "ei65_eligibility_status_as_str Ei65Exempt = ''exempt''"
| "ei65_eligibility_status_as_str Ei65Liable = ''liable''"
| "ei65_eligibility_status_as_str Ei65Unknown = ''unknown''"

fun ei65_eligibility_status_label :: "ei65_eligibility_status \<Rightarrow> string" where
  "ei65_eligibility_status_label Ei65Exempt =
     [CHR 0xEB, CHR 0x82, CHR 0xA9, CHR 0xEB, CHR 0xB6, CHR 0x80] @ '' '' @ [CHR 0xEC, CHR 0x97, CHR 0x86, CHR 0xEC, CHR 0x9D, CHR 0x8C] @ '' (0'' @ [CHR 0xEC, CHR 0x9B, CHR 0x90] @ '')''"  \<comment> \<open>no payment\<close>
| "ei65_eligibility_status_label Ei65Liable =
     [CHR 0xEB, CHR 0x82, CHR 0xA9, CHR 0xEB, CHR 0xB6, CHR 0x80] @ '' '' @ [CHR 0xEB, CHR 0x8C, CHR 0x80, CHR 0xEC, CHR 0x83, CHR 0x81]"  \<comment> \<open>has to pay\<close>
| "ei65_eligibility_status_label Ei65Unknown =
     [CHR 0xEB, CHR 0xAF, CHR 0xB8, CHR 0xED, CHR 0x99, CHR 0x95, CHR 0xEC, CHR 0x9D, CHR 0xB8]"  \<comment> \<open>not confirmed\<close>

datatype ei65_unknown_default = Ei65Skip | Ei65Deduct

definition ei65_unknown_default_normalize :: "string \<Rightarrow> ei65_unknown_default" where
  "ei65_unknown_default_normalize value =
     (if eq_ignore_ascii_case (trim value) ''deduct'' then Ei65Deduct else Ei65Skip)"

fun ei65_unknown_default_as_str :: "ei65_unknown_default \<Rightarrow> string" where
  "ei65_unknown_default_as_str Ei65Skip = ''skip''"
| "ei65_unknown_default_as_str Ei65Deduct = ''deduct''"

fun ei65_action_label :: "ei65_unknown_default \<Rightarrow> string" where
  "ei65_action_label Ei65Skip =
     [CHR 0xEA, CHR 0xB3, CHR 0xB5, CHR 0xEC, CHR 0xA0, CHR 0x9C] @ '' '' @ [CHR 0xEC, CHR 0x83, CHR 0x9D, CHR 0xEB, CHR 0x9E, CHR 0xB5]"  \<comment> \<open>skip the deduction\<close>
| "ei65_action_label Ei65Deduct =
     [CHR 0xEA, CHR 0xB3, CHR 0xB5, CHR 0xEC, CHR 0xA0, CHR 0x9C] @ '' '' @ [CHR 0xEC, CHR 0xA0, CHR 0x81, CHR 0xEC, CHR 0x9A, CHR 0xA9]"  \<comment> \<open>take the deduction\<close>

definition normalize_source :: "string \<Rightarrow> string" where
  "normalize_source value =
     (let text = to_ascii_lowercase (trim value) in
      if text = ''manual'' \<or> text = ''import'' \<or> text = ''api'' then text else ''manual'')"

record ei65_verification_record =
  evr_employee_id :: string
  evr_employee_name :: string
  evr_check_date :: string
  evr_premium_amount :: i64
  evr_management_no :: string
  evr_source :: string

definition ei65_verification_record_new :: "i64 \<Rightarrow> ei65_verification_record" where
  "ei65_verification_record_new premium_amount =
     \<lparr>evr_employee_id = '''', evr_employee_name = '''',
      evr_check_date = '''', evr_premium_amount = max premium_amount 0,
      evr_management_no = '''', evr_source = ''manual''\<rparr>"

definition evr_normalized :: "ei65_verification_record \<Rightarrow> ei65_verification_record" where
  "evr_normalized r =
     \<lparr>evr_employee_id = trim (evr_employee_id r),
      evr_employee_name = trim (evr_employee_name r),
      evr_check_date = take_chars 10 (trim (evr_check_date r)),
      evr_premium_amount = max (evr_premium_amount r) 0,
      evr_management_no = trim (evr_management_no r),
      evr_source = normalize_source (evr_source r)\<rparr>"

definition evr_status :: "ei65_verification_record \<Rightarrow> ei65_eligibility_status" where
  "evr_status r = (if evr_premium_amount r \<le> 0 then Ei65Exempt else Ei65Liable)"

definition evr_with_employee_id :: "string \<Rightarrow> ei65_verification_record \<Rightarrow> ei65_verification_record" where
  "evr_with_employee_id employee_id i = i\<lparr>evr_employee_id := trim employee_id\<rparr>"

definition evr_with_employee_name :: "string \<Rightarrow> ei65_verification_record \<Rightarrow> ei65_verification_record" where
  "evr_with_employee_name employee_name i = i\<lparr>evr_employee_name := trim employee_name\<rparr>"

definition evr_with_check_date :: "string \<Rightarrow> ei65_verification_record \<Rightarrow> ei65_verification_record" where
  "evr_with_check_date check_date i = i\<lparr>evr_check_date := take_chars 10 (trim check_date)\<rparr>"

definition evr_with_management_no :: "string \<Rightarrow> ei65_verification_record \<Rightarrow> ei65_verification_record" where
  "evr_with_management_no management_no i = i\<lparr>evr_management_no := trim management_no\<rparr>"

definition evr_with_source :: "string \<Rightarrow> ei65_verification_record \<Rightarrow> ei65_verification_record" where
  "evr_with_source source i = i\<lparr>evr_source := normalize_source source\<rparr>"

record ei65_payroll_input =
  epi_identity :: string
  epi_payroll_period :: string
  epi_employee_id :: string
  epi_employee_name :: string
  epi_workplace :: string
  epi_site_management_no :: string
  epi_unknown_default :: ei65_unknown_default
  epi_latest_verification :: "ei65_verification_record option"

definition ei65_payroll_input_new :: "string \<Rightarrow> string \<Rightarrow> ei65_payroll_input" where
  "ei65_payroll_input_new identity payroll_period =
     \<lparr>epi_identity = trim identity, epi_payroll_period = trim payroll_period,
      epi_employee_id = '''', epi_employee_name = '''',
      epi_workplace = '''', epi_site_management_no = '''',
      epi_unknown_default = Ei65Skip, epi_latest_verification = None\<rparr>"

definition epi_normalized :: "ei65_payroll_input \<Rightarrow> ei65_payroll_input" where
  "epi_normalized i =
     \<lparr>epi_identity = trim (epi_identity i),
      epi_payroll_period = trim (epi_payroll_period i),
      epi_employee_id = trim (epi_employee_id i),
      epi_employee_name = trim (epi_employee_name i),
      epi_workplace = trim (epi_workplace i),
      epi_site_management_no = trim (epi_site_management_no i),
      epi_unknown_default = epi_unknown_default i,
      epi_latest_verification = map_option evr_normalized (epi_latest_verification i)\<rparr>"

definition epi_with_employee_id :: "string \<Rightarrow> ei65_payroll_input \<Rightarrow> ei65_payroll_input" where
  "epi_with_employee_id employee_id i = i\<lparr>epi_employee_id := trim employee_id\<rparr>"

definition epi_with_employee_name :: "string \<Rightarrow> ei65_payroll_input \<Rightarrow> ei65_payroll_input" where
  "epi_with_employee_name employee_name i = i\<lparr>epi_employee_name := trim employee_name\<rparr>"

definition epi_with_workplace :: "string \<Rightarrow> ei65_payroll_input \<Rightarrow> ei65_payroll_input" where
  "epi_with_workplace workplace i = i\<lparr>epi_workplace := trim workplace\<rparr>"

definition epi_with_site_management_no :: "string \<Rightarrow> ei65_payroll_input \<Rightarrow> ei65_payroll_input" where
  "epi_with_site_management_no management_no i = i\<lparr>epi_site_management_no := trim management_no\<rparr>"

definition epi_with_unknown_default :: "ei65_unknown_default \<Rightarrow> ei65_payroll_input \<Rightarrow> ei65_payroll_input" where
  "epi_with_unknown_default action i = i\<lparr>epi_unknown_default := action\<rparr>"

definition epi_with_unknown_default_text :: "string \<Rightarrow> ei65_payroll_input \<Rightarrow> ei65_payroll_input" where
  "epi_with_unknown_default_text action i = i\<lparr>epi_unknown_default := ei65_unknown_default_normalize action\<rparr>"

definition epi_with_verification :: "ei65_verification_record \<Rightarrow> ei65_payroll_input \<Rightarrow> ei65_payroll_input" where
  "epi_with_verification record i = i\<lparr>epi_latest_verification := Some (evr_normalized record)\<rparr>"

record ei65_payroll_result =
  epo_status :: ei65_eligibility_status
  epo_premium_amount :: "i64 option"
  epo_management_no :: string
  epo_deduct_employment_insurance :: bool
  epo_warning :: string
  epo_default_action :: ei65_unknown_default

section \<open>Dates\<close>

record simple_date =
  sd_year :: i32
  sd_month :: u8
  sd_day :: u8

definition is_leap_year :: "i32 \<Rightarrow> bool" where
  "is_leap_year year \<longleftrightarrow> (year mod 4 = 0 \<and> year mod 100 \<noteq> 0) \<or> year mod 400 = 0"

definition days_in_month :: "i32 \<Rightarrow> u8 \<Rightarrow> u8" where
  "days_in_month year month =
     (if month \<in> set [1, 3, 5, 7, 8, 10, 12] then 31
      else if month \<in> set [4, 6, 9, 11] then 30
      else if month = 2 \<and> is_leap_year year then 29
      else if month = 2 then 28
      else 0)"

definition period_end_date :: "string \<Rightarrow> simple_date option" where
  "period_end_date period =
     (case split_on (CHR ''-'') (trim period) of
        y # m # rest \<Rightarrow>
          (case parse_i32 y of
             None \<Rightarrow> None
           | Some year \<Rightarrow>
               (case parse_u8 m of
                  None \<Rightarrow> None
                | Some month \<Rightarrow>
                    if rest \<noteq> [] \<or> \<not> (1 \<le> month \<and> month \<le> 12) then None
                    else Some \<lparr>sd_year = year, sd_month = month,
                               sd_day = days_in_month year month\<rparr>))
      | _ \<Rightarrow> None)"

definition pivot_year :: "i32 \<Rightarrow> simple_date \<Rightarrow> i32" where
  "pivot_year yy as_of =
     (let pivot = sd_year as_of mod 100 in if yy > pivot then 1900 + yy else 2000 + yy)"

text \<open>The year of birth from the two-digit year and the century digit.\<close>

definition century_year :: "char option \<Rightarrow> i32 \<Rightarrow> simple_date \<Rightarrow> i32" where
  "century_year digit yy as_of =
     (case digit of
        None \<Rightarrow> pivot_year yy as_of
      | Some d \<Rightarrow>
          if d \<in> set ''1256'' then 1900 + yy
          else if d \<in> set ''3478'' then 2000 + yy
          else if d \<in> set ''90'' then 1800 + yy
          else pivot_year yy as_of)"

definition birth_date_from_korean_identity :: "string \<Rightarrow> simple_date \<Rightarrow> simple_date option" where
  "birth_date_from_korean_identity value as_of =
     (let digits = filter is_digit value in
      if length digits < 6 then None
      else case parse_i32 (take 2 digits) of
        None \<Rightarrow> None
      | Some yy \<Rightarrow>
          (case parse_u8 (take 2 (drop 2 digits)) of
             None \<Rightarrow> None
           | Some month \<Rightarrow>
               (case parse_u8 (take 2 (drop 4 digits)) of
                  None \<Rightarrow> None
                | Some day \<Rightarrow>
                    if \<not> (1 \<le> month \<and> month \<le> 12) \<or> day = 0 \<or> day > 31 then None
                    else
                      (let year = century_year
                             (if 7 \<le> length digits then Some (digits ! 6) else None) yy as_of
                       in if day > days_in_month year month then None
                          else Some \<lparr>sd_year = year, sd_month = month, sd_day = day\<rparr>))))"

definition age_years_at :: "simple_date \<Rightarrow> simple_date \<Rightarrow> i32" where
  "age_years_at birth as_of =
     (let years = sd_year as_of - sd_year birth in
      if (sd_month as_of, sd_day as_of) < (sd_month birth, sd_day birth)
      then years - 1 else years)"

definition age_years_from_korean_identity :: "string \<Rightarrow> string \<Rightarrow> i32 option" where
  "age_years_from_korean_identity identity payroll_period =
     (case period_end_date payroll_period of
        None \<Rightarrow> None
      | Some as_of \<Rightarrow>
          (case birth_date_from_korean_identity identity as_of of
             None \<Rightarrow> None
           | Some birth \<Rightarrow> Some (age_years_at birth as_of)))"

definition is_age_65_plus_for_period :: "string \<Rightarrow> string \<Rightarrow> bool" where
  "is_age_65_plus_for_period identity payroll_period =
     unwrap_or False (map_option (\<lambda>age. age \<ge> ei65_exempt_age_years)
       (age_years_from_korean_identity identity payroll_period))"

section \<open>The decision\<close>

definition first_non_empty :: "string list \<Rightarrow> string option" where
  "first_non_empty values = find_first (\<lambda>value. trim value \<noteq> []) values"

definition unnamed_employee :: string where
  "unnamed_employee = [CHR 0xED, CHR 0x95, CHR 0xB4, CHR 0xEB, CHR 0x8B, CHR 0xB9] @ '' '' @ [CHR 0xEC, CHR 0xA7, CHR 0x81, CHR 0xEC, CHR 0x9B, CHR 0x90]"

text \<open>The pieces of the warning's format string.\<close>

definition warning_age_prefix :: string where
  "warning_age_prefix = [CHR 0xEB, CHR 0xA7, CHR 0x8C] @ '' ''"

definition warning_unverified :: string where
  "warning_unverified =
     [CHR 0xEC, CHR 0x84, CHR 0xB8] @ '' '' @ [CHR 0xEC, CHR 0x9D, CHR 0xB4, CHR 0xEC, CHR 0x83, CHR 0x81] @ '' '' @ [CHR 0xEA, CHR 0xB3, CHR 0xA0, CHR 0xEC, CHR 0x9A, CHR 0xA9, CHR 0xEB, CHR 0xB3, CHR 0xB4, CHR 0xED, CHR 0x97, CHR 0x98] @ '' KCOMWEL '' @ [CHR 0xED, CHR 0x99, CHR 0x95, CHR 0xEC, CHR 0x9D, CHR 0xB8] @ '' '' @ [CHR 0xEB, CHR 0xAF, CHR 0xB8, CHR 0xEC, CHR 0x99, CHR 0x84, CHR 0xEB, CHR 0xA3, CHR 0x8C] @ '' '' @ [CHR 0xE2, CHR 0x86, CHR 0x92] @ '' '' @ [CHR 0xEC, CHR 0x84, CHR 0xA4, CHR 0xEC, CHR 0xA0, CHR 0x95] @ '' '' @ [CHR 0xEA, CHR 0xB8, CHR 0xB0, CHR 0xEB, CHR 0xB3, CHR 0xB8, CHR 0xEA, CHR 0xB0, CHR 0x92] @ ''(''"

definition warning_applied :: string where
  "warning_applied = '') '' @ [CHR 0xEC, CHR 0xA0, CHR 0x81, CHR 0xEC, CHR 0x9A, CHR 0xA9]"

definition resolve_ei_65_for_payroll :: "ei65_payroll_input \<Rightarrow> ei65_payroll_result" where
  "resolve_ei_65_for_payroll input =
     (let input = epi_normalized input in
      if \<not> is_age_65_plus_for_period (epi_identity input) (epi_payroll_period input)
      then \<lparr>epo_status = Ei65Liable, epo_premium_amount = None, epo_management_no = [],
            epo_deduct_employment_insurance = True, epo_warning = [],
            epo_default_action = Ei65Skip\<rparr>
      else case epi_latest_verification input of
        Some record \<Rightarrow>
          (let status = evr_status record;
               management_no = (if evr_management_no record = [] then epi_site_management_no input
                                else evr_management_no record)
           in \<lparr>epo_status = status, epo_premium_amount = Some (evr_premium_amount record),
               epo_management_no = management_no,
               epo_deduct_employment_insurance = (status = Ei65Liable),
               epo_warning = [], epo_default_action = Ei65Skip\<rparr>)
      | None \<Rightarrow>
          (let label = unwrap_or unnamed_employee
                 (first_non_empty [epi_employee_name input, epi_employee_id input]);
               warning = label @ '': '' @ warning_age_prefix @ show_int ei65_exempt_age_years
                 @ warning_unverified @ ei65_action_label (epi_unknown_default input)
                 @ warning_applied
           in \<lparr>epo_status = Ei65Unknown, epo_premium_amount = None,
               epo_management_no = epi_site_management_no input,
               epo_deduct_employment_insurance = (epi_unknown_default input = Ei65Deduct),
               epo_warning = warning, epo_default_action = epi_unknown_default input\<rparr>))"

section \<open>Ages\<close>

text \<open>Dates in the order of the calendar, and the same day a number of years later.\<close>

definition date_key :: "simple_date \<Rightarrow> i32 \<times> u8 \<times> u8" where
  "date_key d = (sd_year d, sd_month d, sd_day d)"

definition years_after :: "i32 \<Rightarrow> simple_date \<Rightarrow> simple_date" where
  "years_after n d = d\<lparr>sd_year := sd_year d + n\<rparr>"

lemma age_years_at_iff: "n \<le> age_years_at birth as_of \<longleftrightarrow> date_key (years_after n birth) \<le> date_key as_of"
  by (auto simp: age_years_at_def date_key_def years_after_def Let_def less_eq_prod_def less_prod_def)

lemma age_years_at_mono:
  "date_key a \<le> date_key b \<Longrightarrow> age_years_at birth a \<le> age_years_at birth b"
  using age_years_at_iff[of "age_years_at birth a" birth b] age_years_at_iff[of "age_years_at birth a" birth a]
  by (meson order.refl order.trans)

lemma period_end_day:
  "period_end_date p = Some d \<Longrightarrow> 1 \<le> sd_month d \<and> sd_month d \<le> 12 \<and> 28 \<le> sd_day d \<and> sd_day d \<le> 31"
proof -
  have "28 \<le> days_in_month y m \<and> days_in_month y m \<le> 31" if "1 \<le> m" "m \<le> 12" for y m :: int
  proof -
    have "m \<in> {1, 2, 3, 4, 5, 6, 7, 8, 9, 10, 11, 12}" using that by (simp, presburger)
    then show ?thesis by (auto simp: days_in_month_def)
  qed
  then show "period_end_date p = Some d \<Longrightarrow> ?thesis"
    by (auto simp: period_end_date_def split: list.splits option.splits if_splits)
qed

text \<open>A seventh digit fixes the birth date, whatever the period is.\<close>

lemma century_year_digit: "is_digit d \<Longrightarrow> century_year (Some d) yy a = century_year (Some d) yy b"
proof -
  assume "is_digit d"
  from is_digit_cases[OF this] show ?thesis by (auto simp: century_year_def)
qed

lemma birth_date_fixed:
  "7 \<le> length (filter is_digit v) \<Longrightarrow>
     birth_date_from_korean_identity v a = birth_date_from_korean_identity v b"
proof -
  assume l: "7 \<le> length (filter is_digit v)"
  then have "filter is_digit v ! 6 \<in> set (filter is_digit v)" by (intro nth_mem) simp
  then have "is_digit (filter is_digit v ! 6)" by simp
  from century_year_digit[OF this, of _ a b] l show ?thesis
    by (simp add: birth_date_from_korean_identity_def Let_def split: option.split)
qed

section \<open>Properties\<close>


text \<open>
  With a century digit in the identity the age grows with the period: once a worker
  counts as 65 or older, every later period agrees.
\<close>

theorem age_monotone_in_period:
  assumes "7 \<le> length (filter is_digit identity)"
    and "period_end_date p = Some a" and "period_end_date q = Some b" and "date_key a \<le> date_key b"
    and "is_age_65_plus_for_period identity p"
  shows "is_age_65_plus_for_period identity q"
proof -
  from assms(2,5) obtain birth where birth: "birth_date_from_korean_identity identity a = Some birth"
    "65 \<le> age_years_at birth a"
    by (auto simp: is_age_65_plus_for_period_def age_years_from_korean_identity_def
        ei65_exempt_age_years_def split: option.splits)
  moreover have "birth_date_from_korean_identity identity b = Some birth"
    using birth_date_fixed[OF assms(1), of a b] birth by simp
  ultimately show ?thesis
    using age_years_at_mono[OF assms(4), of birth] assms(3)
    by (simp add: is_age_65_plus_for_period_def age_years_from_korean_identity_def
        ei65_exempt_age_years_def)
qed

theorem age_monotone_in_period_witness:
  "is_age_65_plus_for_period ''600315-1234567'' ''2025-03'' \<and>
   is_age_65_plus_for_period ''600315-1234567'' ''2026-01''"
proof -
  have p: "is_age_65_plus_for_period ''600315-1234567'' ''2025-03''" by code_simp
  have "7 \<le> length (filter is_digit ''600315-1234567'')" by code_simp
  moreover have "period_end_date ''2025-03'' = Some \<lparr>sd_year = 2025, sd_month = 3, sd_day = 31\<rparr>"
    "period_end_date ''2026-01'' = Some \<lparr>sd_year = 2026, sd_month = 1, sd_day = 31\<rparr>" by code_simp+
  ultimately show ?thesis
    using age_monotone_in_period[OF _ _ _ _ p] p by (simp add: date_key_def)
qed

text \<open>
  The decision on the employment insurance is consistent: the deduction is taken exactly
  for a liable worker or for an unknown one whose default action says so; a warning goes
  with the unknown status only; and a worker of 65 or older is exempt exactly when the
  latest verification shows no premium.
\<close>

theorem ei65_decision_consistent:
  "let r = resolve_ei_65_for_payroll input;
       old = is_age_65_plus_for_period (trim (epi_identity input)) (trim (epi_payroll_period input)) in
   (epo_deduct_employment_insurance r \<longleftrightarrow>
      epo_status r = Ei65Liable \<or> (epo_status r = Ei65Unknown \<and> epo_default_action r = Ei65Deduct)) \<and>
   (epo_warning r \<noteq> [] \<longleftrightarrow> epo_status r = Ei65Unknown) \<and>
   (epo_status r = Ei65Unknown \<longleftrightarrow> old \<and> epi_latest_verification input = None) \<and>
   (epo_status r = Ei65Exempt \<longleftrightarrow>
      old \<and> pred_option (\<lambda>v. evr_premium_amount v \<le> 0) (epi_latest_verification input)
        \<and> epi_latest_verification input \<noteq> None) \<and>
   (\<not> old \<longrightarrow> epo_deduct_employment_insurance r)"
  by (cases "epi_latest_verification input")
    (simp_all add: resolve_ei_65_for_payroll_def epi_normalized_def evr_normalized_def
      evr_status_def Let_def max_def)

theorem ei65_decision_consistent_witness:
  "epo_deduct_employment_insurance
     (resolve_ei_65_for_payroll (ei65_payroll_input_new ''900101-1234567'' ''2026-01''))"
proof -
  let ?i = "ei65_payroll_input_new ''900101-1234567'' ''2026-01''"
  have "\<not> is_age_65_plus_for_period (trim (epi_identity ?i)) (trim (epi_payroll_period ?i))"
    by code_simp
  then show ?thesis using ei65_decision_consistent[of ?i, unfolded Let_def] by blast
qed

end
