(* ===== verification/F64_Text.thy ===== *)
theory F64_Text
  imports F64 Rust_Str
begin

text \<open>
  Floating point numbers as text: the shortest decimal that reads back as the number (the
  \<open>Display\<close> of \<open>f64\<close> and, with an exponent for very large and very small numbers, the form
  \<open>serde_json\<close> prints), a fixed number of decimals (\<open>{:.4}\<close>), and \<open>str::parse::<f64>\<close>.
\<close>

section \<open>Shortest decimals\<close>

text \<open>The decimal exponent of the leading digit of a positive number.\<close>

fun leading_zeros :: "nat \<Rightarrow> rat \<Rightarrow> nat" where
  "leading_zeros 0 x = 0"
| "leading_zeros (Suc n) x = (if 1 \<le> x then 0 else Suc (leading_zeros n (x * 10)))"

definition dec_exp :: "rat \<Rightarrow> int" where
  "dec_exp r = (if 1 \<le> r then int (length (show_int \<lfloor>r\<rfloor>)) - 1
     else - int (leading_zeros 400 r))"

text \<open>
  The decimals of \<open>n\<close> digits next to \<open>r\<close> that read back as \<open>r\<close>; the nearer one when both do.
  A decimal is a pair of its digits and the exponent of the last one.
\<close>

definition decimal_candidate :: "rat \<Rightarrow> nat \<Rightarrow> (int \<times> int) option" where
  "decimal_candidate r n =
     (let q = dec_exp r - int n + 1; scaled = r * 10 powi (- q); lo = \<lfloor>scaled\<rfloor>;
          reads = (\<lambda>m. rnd_val (of_int m * 10 powi q) = r) in
      if reads lo \<and> (scaled - of_int lo \<le> 1 / 2 \<or> \<not> reads (lo + 1)) then Some (lo, q)
      else if reads (lo + 1) then Some (lo + 1, q)
      else None)"

fun decimal_search :: "nat \<Rightarrow> nat \<Rightarrow> rat \<Rightarrow> (int \<times> int) option" where
  "decimal_search 0 n r = decimal_candidate r n"
| "decimal_search (Suc fuel) n r =
     (case decimal_candidate r n of Some d \<Rightarrow> Some d | None \<Rightarrow> decimal_search fuel (Suc n) r)"

text \<open>Seventeen digits always suffice for binary64.\<close>

definition shortest_decimal :: "rat \<Rightarrow> int \<times> int" where
  "shortest_decimal r = unwrap_or (0, 0) (decimal_search 16 1 r)"

text \<open>Digits with the trailing zeros moved into the exponent.\<close>

fun strip_zeros :: "nat \<Rightarrow> int \<times> int \<Rightarrow> int \<times> int" where
  "strip_zeros 0 d = d"
| "strip_zeros (Suc n) (m, q) = (if m \<noteq> 0 \<and> m mod 10 = 0 then strip_zeros n (m div 10, q + 1) else (m, q))"

definition decimal_of :: "rat \<Rightarrow> string \<times> int" where
  "decimal_of r = (case strip_zeros 20 (shortest_decimal r) of (m, q) \<Rightarrow> (show_int m, q))"

text \<open>Positional notation of digits and the exponent of the last one.\<close>

definition positional :: "string \<times> int \<Rightarrow> string" where
  "positional d = (case d of (digits, q) \<Rightarrow>
     if 0 \<le> q then digits @ replicate (nat q) (CHR ''0'')
     else let k = nat (- q); padded = pad_zero (Suc k) digits; n = length padded - k in
       take n padded @ ''.'' @ drop n padded)"

definition signed :: "rat \<Rightarrow> string \<Rightarrow> string" where
  "signed r s = (if r < 0 then CHR ''-'' # s else s)"

text \<open>\<open>format!("{}", x)\<close>.\<close>

fun display_f64 :: "f64 \<Rightarrow> string" where
  "display_f64 (Fin r) = (if r = 0 then ''0'' else signed r (positional (decimal_of \<bar>r\<bar>)))"
| "display_f64 PInf = ''inf''"
| "display_f64 NInf = ''-inf''"
| "display_f64 NaN = ''NaN''"

text \<open>What \<open>serde_json\<close> prints for a float; it stores finite numbers only.\<close>

definition exponent_form :: "string \<times> int \<Rightarrow> string" where
  "exponent_form d = (case d of (digits, q) \<Rightarrow>
     let e = int (length digits) + q - 1 in
     (case digits of [] \<Rightarrow> [] | c # t \<Rightarrow> c # (if t = [] then [] else CHR ''.'' # t)) @ ''e'' @ show_int e)"

fun json_f64 :: "f64 \<Rightarrow> string" where
  "json_f64 (Fin r) =
     (if r = 0 then ''0.0''
      else let d = decimal_of \<bar>r\<bar>; point = int (length (fst d)) + snd d in
        signed r
          (if 0 \<le> snd d \<and> point \<le> 16 then positional d @ ''.0''
           else if - 5 < point \<and> point \<le> 16 then positional d
           else exponent_form d))"
| "json_f64 x = ''null''"

section \<open>A fixed number of decimals\<close>

definition fixed_decimals :: "nat \<Rightarrow> rat \<Rightarrow> string" where
  "fixed_decimals p r =
     signed r (positional (show_int (round_even (\<bar>r\<bar> * 10 ^ p)), - int p))"

fun display_fixed :: "nat \<Rightarrow> f64 \<Rightarrow> string" where
  "display_fixed p (Fin r) = fixed_decimals p r"
| "display_fixed p x = display_f64 x"

section \<open>Reading\<close>

text \<open>An unsigned decimal: digits, a point, digits, an exponent; at least one digit.\<close>

definition split_exponent :: "string \<Rightarrow> (string \<times> string) option" where
  "split_exponent s =
     (case dropWhile (\<lambda>c. c \<noteq> CHR ''e'') s of
        [] \<Rightarrow> None
      | _ # e \<Rightarrow> Some (takeWhile (\<lambda>c. c \<noteq> CHR ''e'') s, e))"

definition parse_exponent :: "string \<Rightarrow> int option" where
  "parse_exponent s =
     (case s of
        c # t \<Rightarrow>
          if c = CHR ''-'' then map_option (\<lambda>n. - int n) (parse_digits t)
          else if c = CHR ''+'' then map_option int (parse_digits t)
          else map_option int (parse_digits s)
      | [] \<Rightarrow> None)"

definition parse_mantissa :: "string \<Rightarrow> (nat \<times> int) option" where
  "parse_mantissa s =
     (let whole = takeWhile is_digit s; rest = dropWhile is_digit s in
      case rest of
        [] \<Rightarrow> if whole = [] then None else Some (digits_value whole, 0)
      | c # decimals \<Rightarrow>
          if c = CHR ''.'' \<and> list_all is_digit decimals \<and> (whole \<noteq> [] \<or> decimals \<noteq> [])
          then Some (digits_value (whole @ decimals), - int (length decimals))
          else None)"

definition parse_unsigned_f64 :: "string \<Rightarrow> f64 option" where
  "parse_unsigned_f64 s =
     (let s = to_ascii_lowercase s in
      if s = ''inf'' \<or> s = ''infinity'' then Some PInf
      else if s = ''nan'' then Some NaN
      else
        case split_exponent s of
          None \<Rightarrow> map_option (\<lambda>(m, q). rnd (of_nat m * 10 powi q)) (parse_mantissa s)
        | Some (m, e) \<Rightarrow>
            (case (parse_mantissa m, parse_exponent e) of
               (Some (n, q), Some x) \<Rightarrow> Some (rnd (of_nat n * 10 powi (q + x)))
             | _ \<Rightarrow> None))"

definition parse_f64 :: "string \<Rightarrow> f64 option" where
  "parse_f64 s =
     (case s of
        c # t \<Rightarrow>
          if c = CHR ''-'' then map_option uminus (parse_unsigned_f64 t)
          else if c = CHR ''+'' then parse_unsigned_f64 t
          else parse_unsigned_f64 s
      | [] \<Rightarrow> None)"

section \<open>Whole numbers\<close>

lemma to_ascii_lowercase_digits: "list_all is_digit s \<Longrightarrow> to_ascii_lowercase s = s"
  by (induction s) (auto simp: to_ascii_lowercase_def ascii_lower_def is_digit_def)

lemma letters_not_digits: "\<not> is_digit (CHR ''i'')" "\<not> is_digit (CHR ''n'')" "\<not> is_digit (CHR ''e'')"
  by (simp_all add: is_digit_def char_code_def)

lemma parse_f64_digits:
  assumes "list_all is_digit s" "s \<noteq> []"
  shows "parse_f64 s = Some (rnd (of_nat (digits_value s)))"
proof -
  obtain c t where c: "s = c # t" "is_digit c" using assms by (cases s) auto
  have e: "dropWhile (\<lambda>c. c \<noteq> CHR ''e'') s = []"
    using assms(1) letters_not_digits(3) by (auto simp: list_all_iff dropWhile_eq_Nil_conv)
  have w: "takeWhile is_digit s = s" "dropWhile is_digit s = []"
    using assms(1) by (auto simp: list_all_iff takeWhile_eq_all_conv dropWhile_eq_Nil_conv)
  have "split_exponent s = None" by (simp only: split_exponent_def e list.case)
  moreover have "parse_mantissa s = Some (digits_value s, 0)"
    using assms(2) by (simp only: parse_mantissa_def Let_def w list.case if_False)
  moreover have "s \<noteq> ''inf''" "s \<noteq> ''infinity''" "s \<noteq> ''nan''" using c letters_not_digits by auto
  ultimately have "parse_unsigned_f64 s = Some (rnd (of_nat (digits_value s)))"
    by (simp add: parse_unsigned_f64_def to_ascii_lowercase_digits[OF assms(1)])
  then show ?thesis using c is_digit_not_sign[of c] by (simp add: parse_f64_def)
qed

text \<open>A printed whole number reads back as its nearest float.\<close>

lemma parse_f64_show_nat: "parse_f64 (show_nat n) = Some (rnd (of_nat n))"
  using parse_f64_digits[OF show_nat_digits] by simp

section \<open>Printed numbers have no white space\<close>

lemma positional_graphic: "list_all graphic digits \<Longrightarrow> list_all graphic (positional (digits, q))"
proof -
  assume d: "list_all graphic digits"
  have c: "graphic (CHR ''0'')" "graphic (CHR ''.'')" by (simp_all add: graphic_def char_code_def)
  have "list_all graphic (take n (pad_zero w digits)) \<and> list_all graphic (drop n (pad_zero w digits))" for n w
    using pad_zero_graphic[OF d, of w] by (auto simp: list_all_iff dest: in_set_takeD in_set_dropD)
  with d c show ?thesis by (auto simp: positional_def Let_def list_all_iff)
qed

lemma signed_graphic: "list_all graphic s \<Longrightarrow> list_all graphic (signed r s)"
  by (simp add: signed_def graphic_def char_code_def)

lemma exponent_form_graphic: "list_all graphic digits \<Longrightarrow> list_all graphic (exponent_form (digits, q))"
proof -
  assume d: "list_all graphic digits"
  have c: "graphic (CHR ''e'')" "graphic (CHR ''.'')" by (simp_all add: graphic_def char_code_def)
  show ?thesis
    using d c show_int_graphic by (auto simp: exponent_form_def Let_def split: list.splits)
qed

lemma json_f64_graphic: "list_all graphic (json_f64 x)"
proof (cases x)
  case (Fin r)
  obtain digits q where d: "decimal_of \<bar>r\<bar> = (digits, q)" by fastforce
  then have g: "list_all graphic digits" using show_int_graphic by (auto simp: decimal_of_def split: prod.splits)
  have z: "list_all graphic ''.0''" "list_all graphic ''0.0''" by (simp_all add: graphic_def char_code_def)
  have "list_all graphic (positional (digits, q) @ ''.0'')"
    using positional_graphic[OF g, of q] z(1) by simp
  with positional_graphic[OF g, of q] exponent_form_graphic[OF g, of q] z(2) show ?thesis
    by (auto simp: Fin d Let_def intro!: signed_graphic simp del: list_all_append)
qed (simp_all add: graphic_def char_code_def)

end
