(* ===== verification/Btree.thy ===== *)
theory Btree
  imports Rust_Str
begin

text \<open>
  \<open>BTreeMap\<close>: an association list with strictly increasing keys, so that iteration is in key
  order as in Rust.  The laws a client relies on are the locale \<open>ordered_map\<close>; its
  interpretation on the association lists is what the components use.
\<close>

section \<open>The map\<close>

fun bt_insert :: "'k::linorder \<Rightarrow> 'v \<Rightarrow> ('k \<times> 'v) list \<Rightarrow> ('k \<times> 'v) list" where
  "bt_insert k v [] = [(k, v)]"
| "bt_insert k v ((k', v') # m) =
     (if k < k' then (k, v) # (k', v') # m
      else if k = k' then (k, v) # m
      else (k', v') # bt_insert k v m)"

definition bt_get :: "'k \<Rightarrow> ('k \<times> 'v) list \<Rightarrow> 'v option" where
  "bt_get k m = map_of m k"

definition bt_remove :: "'k \<Rightarrow> ('k \<times> 'v) list \<Rightarrow> ('k \<times> 'v) list" where
  "bt_remove k m = filter (\<lambda>(k', _). k' \<noteq> k) m"

definition bt_ok :: "('k::linorder \<times> 'v) list \<Rightarrow> bool" where
  "bt_ok m \<longleftrightarrow> sorted_wrt (<) (map fst m)"

text \<open>Collecting pairs into a map: the last value of a key wins.\<close>

definition bt_collect :: "('k::linorder \<times> 'v) list \<Rightarrow> ('k \<times> 'v) list" where
  "bt_collect xs = foldl (\<lambda>m (k, v). bt_insert k v m) [] xs"

section \<open>The contract\<close>

locale ordered_map =
  fixes empty :: "'m"
    and get :: "'k::linorder \<Rightarrow> 'm \<Rightarrow> 'v option"
    and insert :: "'k \<Rightarrow> 'v \<Rightarrow> 'm \<Rightarrow> 'm"
    and entries :: "'m \<Rightarrow> ('k \<times> 'v) list"
    and ok :: "'m \<Rightarrow> bool"
  assumes empty_ok: "ok empty"
    and insert_ok: "ok m \<Longrightarrow> ok (insert k v m)"
    and get_empty: "get k empty = None"
    and get_insert: "ok m \<Longrightarrow> get k' (insert k v m) = (if k' = k then Some v else get k' m)"
    and entries_get: "ok m \<Longrightarrow> (k, v) \<in> set (entries m) \<longleftrightarrow> get k m = Some v"
    and entries_sorted: "ok m \<Longrightarrow> sorted_wrt (<) (map fst (entries m))"
begin

text \<open>Updating entries in a loop, as \<open>entry(key).or_insert_with(..)\<close> does.\<close>

definition upd :: "('a \<Rightarrow> 'k) \<Rightarrow> ('a \<Rightarrow> 'v) \<Rightarrow> ('a \<Rightarrow> 'v \<Rightarrow> 'v) \<Rightarrow> 'm \<Rightarrow> 'a \<Rightarrow> 'm" where
  "upd key start step m x =
     insert (key x) (step x (case get (key x) m of None \<Rightarrow> start x | Some v \<Rightarrow> v)) m"

lemma upd_ok: "ok m \<Longrightarrow> ok (upd key start step m x)"
  by (simp add: upd_def insert_ok)

lemma fold_ok: "ok m \<Longrightarrow> ok (foldl (upd key start step) m xs)"
  by (induction xs arbitrary: m) (simp_all add: upd_ok)

text \<open>What a loop leaves under a key depends on the elements with that key only.\<close>

definition group_value :: "('a \<Rightarrow> 'v) \<Rightarrow> ('a \<Rightarrow> 'v \<Rightarrow> 'v) \<Rightarrow> 'v option \<Rightarrow> 'a list \<Rightarrow> 'v option" where
  "group_value start step v xs =
     foldl (\<lambda>acc x. Some (step x (case acc of None \<Rightarrow> start x | Some w \<Rightarrow> w))) v xs"

lemma fold_get:
  "ok m \<Longrightarrow> get k (foldl (upd key start step) m xs)
     = group_value start step (get k m) (filter (\<lambda>x. key x = k) xs)"
proof (induction xs arbitrary: m)
  case Nil
  then show ?case by (simp add: group_value_def)
next
  case (Cons x xs)
  from Cons.IH[OF upd_ok[OF Cons.prems, of key start step x]] Cons.prems show ?case
    by (auto simp: upd_def get_insert group_value_def)
qed

lemma group_value_None: "group_value start step None xs = None \<longleftrightarrow> xs = []"
proof -
  have "foldl (\<lambda>acc x. Some (step x (case acc of None \<Rightarrow> start x | Some w \<Rightarrow> w))) (Some v) xs \<noteq> None" for v xs
    by (induction xs arbitrary: v) auto
  then show ?thesis by (cases xs) (auto simp: group_value_def)
qed

lemma fold_keys: "fst ` set (entries (foldl (upd key start step) empty xs)) = key ` set xs"
proof -
  let ?m = "foldl (upd key start step) empty xs"
  have ok: "ok ?m" by (rule fold_ok[OF empty_ok])
  have "k \<in> fst ` set (entries ?m) \<longleftrightarrow> get k ?m \<noteq> None" for k
    using entries_get[OF ok, of k] by force
  also have "\<dots> k \<longleftrightarrow> k \<in> key ` set xs" for k
    using fold_get[OF empty_ok, of k key start step xs]
    by (auto simp: get_empty group_value_None filter_empty_conv)
  finally show ?thesis by blast
qed

end

section \<open>Association lists satisfy it\<close>

lemma bt_insert_keys: "fst ` set (bt_insert k v m) = insert k (fst ` set m)"
  by (induction k v m rule: bt_insert.induct) auto

lemma bt_ok_Nil [simp]: "bt_ok []"
  by (simp add: bt_ok_def)

lemma bt_ok_insert [simp]: "bt_ok m \<Longrightarrow> bt_ok (bt_insert k v m)"
proof (induction k v m rule: bt_insert.induct)
  case (2 k v k' v' m)
  then show ?case using bt_insert_keys[of k v m] by (auto simp: bt_ok_def)
qed (simp add: bt_ok_def)

lemma bt_get_insert: "bt_ok m \<Longrightarrow> bt_get k' (bt_insert k v m) = (if k' = k then Some v else bt_get k' m)"
proof (induction k v m rule: bt_insert.induct)
  case (2 k v k'' v'' m)
  then show ?case
    by (auto simp: bt_get_def bt_ok_def map_of_eq_None_iff[symmetric] dest: weak_map_of_SomeI)
qed (simp add: bt_get_def)

lemma bt_ok_distinct: "bt_ok m \<Longrightarrow> distinct (map fst m)"
  by (simp add: bt_ok_def strict_sorted_iff)

interpretation bt: ordered_map "[]" bt_get bt_insert "\<lambda>m. m" bt_ok
proof unfold_locales
  show "((k, v) \<in> set m) = (bt_get k m = Some v)" if "bt_ok m" for m and k :: "'a" and v :: "'b"
    using bt_ok_distinct[OF that] by (simp add: bt_get_def)
qed (simp_all add: bt_get_insert, simp_all add: bt_get_def bt_ok_def)

lemma bt_collect_ok [simp]: "bt_ok (bt_collect xs)"
proof -
  have "bt_ok m \<Longrightarrow> bt_ok (foldl (\<lambda>m (k, v). bt_insert k v m) m xs)" for m
    by (induction xs arbitrary: m) auto
  then show ?thesis by (simp add: bt_collect_def)
qed

text \<open>Two maps with the same lookups are the same list.\<close>

lemma bt_eqI:
  assumes "bt_ok m" "bt_ok n" "\<And>k. bt_get k m = bt_get k n"
  shows "m = n"
proof -
  have "set m = set n"
    using bt.entries_get[OF assms(1)] bt.entries_get[OF assms(2)] assms(3) by auto
  moreover have "sorted_wrt (\<lambda>x y. fst x < fst y) m" "sorted_wrt (\<lambda>x y. fst x < fst y) n"
    using assms(1,2) by (simp_all add: bt_ok_def sorted_wrt_map)
  moreover have "xs = ys" if "sorted_wrt (\<lambda>x y. fst x < fst y) xs" "sorted_wrt (\<lambda>x y. fst x < fst y) ys"
    "set xs = set ys" for xs ys :: "('a \<times> 'b) list"
    using that
  proof (induction xs arbitrary: ys)
    case (Cons x xs)
    then obtain y zs where ys: "ys = y # zs" by (cases ys) auto
    have xy: "x = y"
    proof (rule ccontr)
      assume "x \<noteq> y"
      then have "x \<in> set zs" "y \<in> set xs" using Cons.prems(3) ys by auto
      then have "fst y < fst x" "fst x < fst y" using Cons.prems(1,2) ys by auto
      then show False by simp
    qed
    have "x \<notin> set xs" "y \<notin> set zs" using Cons.prems(1,2) ys by auto
    then have "set xs = set zs" using Cons.prems(3) ys xy by auto
    then show ?case using Cons ys xy by auto
  qed simp
  ultimately show ?thesis by blast
qed

lemma bt_get_filter: "bt_ok m \<Longrightarrow> bt_get k (filter (\<lambda>(k, _). P k) m) = (if P k then bt_get k m else None)"
  by (induction m) (auto simp: bt_get_def bt_ok_def)

lemma bt_ok_filter [simp]: "bt_ok m \<Longrightarrow> bt_ok (filter Q m)"
  by (induction m) (auto simp: bt_ok_def)

lemma bt_collect_rev: "bt_get k (bt_collect xs) = map_of (rev xs) k"
proof -
  have "bt_ok m \<Longrightarrow> bt_get k (foldl (\<lambda>m (k, v). bt_insert k v m) m xs)
    = (case map_of (rev xs) k of None \<Rightarrow> bt_get k m | Some v \<Rightarrow> Some v)" for m
  proof (induction xs arbitrary: m)
    case (Cons x xs)
    then show ?case
      by (cases x) (auto simp: bt_get_insert map_add_def split: option.splits)
  qed simp
  then show ?thesis by (simp add: bt_collect_def bt_get_def split: option.splits)
qed

lemma bt_collect_distinct: "distinct (map fst xs) \<Longrightarrow> bt_get k (bt_collect xs) = map_of xs k"
proof -
  assume "distinct (map fst xs)"
  then have "map_of (rev xs) = map_of xs"
    by (auto intro!: map_of_inject_set[THEN iffD2] simp: rev_map[symmetric])
  then show ?thesis by (simp add: bt_collect_rev)
qed

section \<open>Grouping\<close>

text \<open>
  A loop over \<open>entry(key).or_insert_with(..)\<close>, as a definition that computes; it is the loop of
  the contract, so what it leaves is known: the keys in order, each with the fold of its own
  elements.
\<close>

definition bt_upd ::
    "('a \<Rightarrow> 'k::linorder) \<Rightarrow> ('a \<Rightarrow> 'v) \<Rightarrow> ('a \<Rightarrow> 'v \<Rightarrow> 'v) \<Rightarrow> ('k \<times> 'v) list \<Rightarrow> 'a \<Rightarrow> ('k \<times> 'v) list" where
  "bt_upd key start step m x =
     bt_insert (key x) (step x (case bt_get (key x) m of None \<Rightarrow> start x | Some v \<Rightarrow> v)) m"

lemma bt_upd_contract: "bt_upd = bt.upd"
  by (intro ext) (simp add: bt_upd_def bt.upd_def)

definition group_fold :: "('a \<Rightarrow> 'v) \<Rightarrow> ('a \<Rightarrow> 'v \<Rightarrow> 'v) \<Rightarrow> 'a list \<Rightarrow> 'v" where
  "group_fold start step xs = fold step xs (start (hd xs))"

lemma group_value_fold: "bt.group_value start step (Some v) xs = Some (fold step xs v)"
proof (induction xs arbitrary: v)
  case (Cons x xs)
  then show ?case by (simp add: bt.group_value_def)
qed (simp add: bt.group_value_def)

lemma group_value_group_fold:
  assumes "xs \<noteq> []"
  shows "bt.group_value start step None xs = Some (group_fold start step xs)"
proof (cases xs)
  case (Cons x ys)
  have "bt.group_value start step None (x # ys) = bt.group_value start step (Some (step x (start x))) ys"
    by (simp add: bt.group_value_def)
  with Cons show ?thesis by (simp add: group_value_fold group_fold_def)
qed (use assms in simp)

lemma map_of_keys: "map_of (map (\<lambda>k. (k, f k)) ks) k = (if k \<in> set ks then Some (f k) else None)"
  by (induction ks) auto

theorem bt_group:
  "foldl (bt_upd key start step) [] xs =
     map (\<lambda>k. (k, group_fold start step (filter (\<lambda>x. key x = k) xs))) (sorted_list_of_set (key ` set xs))"
proof (rule bt_eqI)
  let ?m = "foldl (bt_upd key start step) [] xs"
  show "bt_ok ?m" unfolding bt_upd_contract by (rule bt.fold_ok) simp
  show "bt_ok (map (\<lambda>k. (k, group_fold start step (filter (\<lambda>x. key x = k) xs))) (sorted_list_of_set (key ` set xs)))"
    by (simp add: bt_ok_def o_def)
  fix k
  have get: "bt_get k ?m = bt.group_value start step None (filter (\<lambda>x. key x = k) xs)"
    unfolding bt_upd_contract by (subst bt.fold_get) (simp_all add: bt_get_def)
  show "bt_get k ?m
      = bt_get k (map (\<lambda>k. (k, group_fold start step (filter (\<lambda>x. key x = k) xs))) (sorted_list_of_set (key ` set xs)))"
  proof (cases "filter (\<lambda>x. key x = k) xs = []")
    case True
    then have "k \<notin> key ` set xs" by (auto simp: filter_empty_conv)
    then have "bt_get k (map (\<lambda>k. (k, group_fold start step (filter (\<lambda>x. key x = k) xs)))
        (sorted_list_of_set (key ` set xs))) = None"
      by (simp add: bt_get_def map_of_keys)
    with get True show ?thesis by (simp add: bt.group_value_None)
  next
    case False
    then have "k \<in> key ` set xs" by (auto simp: filter_empty_conv)
    with get group_value_group_fold[OF False] show ?thesis by (simp add: bt_get_def map_of_keys)
  qed
qed

end
