(* ===== verification/Json.thy ===== *)
theory Json
  imports F64_Text Btree
begin

text \<open>
  \<open>serde_json::Value\<close>: an object is a \<open>BTreeMap\<close> (the crates do not enable
  \<open>preserve_order\<close>), a number is an integer in the range of \<open>u64\<close> or \<open>i64\<close>, or a finite float.
\<close>

datatype json_number = JInt int | JFloat f64

datatype json =
    JNull
  | JBool bool
  | JNum json_number
  | JStr string
  | JArr "json list"
  | JObj "(string \<times> json) list"

fun number_to_string :: "json_number \<Rightarrow> string" where
  "number_to_string (JInt n) = show_int n"
| "number_to_string (JFloat x) = json_f64 x"

text \<open>\<open>as_f64\<close> of a number is never None.\<close>

fun number_as_f64 :: "json_number \<Rightarrow> f64" where
  "number_as_f64 (JInt n) = rnd (of_int n)"
| "number_as_f64 (JFloat x) = x"

fun as_i64 :: "json \<Rightarrow> i64 option" where
  "as_i64 (JNum (JInt n)) = (if is_i64 n then Some n else None)"
| "as_i64 _ = None"

fun as_f64 :: "json \<Rightarrow> f64 option" where
  "as_f64 (JNum n) = Some (number_as_f64 n)"
| "as_f64 _ = None"

fun as_str :: "json \<Rightarrow> string option" where
  "as_str (JStr s) = Some s"
| "as_str _ = None"

fun as_bool :: "json \<Rightarrow> bool option" where
  "as_bool (JBool b) = Some b"
| "as_bool _ = None"

fun as_array :: "json \<Rightarrow> json list option" where
  "as_array (JArr xs) = Some xs"
| "as_array _ = None"

fun as_object :: "json \<Rightarrow> (string \<times> json) list option" where
  "as_object (JObj m) = Some m"
| "as_object _ = None"

text \<open>\<open>value.get(key)\<close> on any value.\<close>

definition json_get :: "string \<Rightarrow> json \<Rightarrow> json option" where
  "json_get key v = (case as_object v of None \<Rightarrow> None | Some m \<Rightarrow> bt_get key m)"

definition bool_to_string :: "bool \<Rightarrow> string" where
  "bool_to_string b = (if b then ''true'' else ''false'')"

text \<open>
  \<open>text\<close>, repeated in \<open>policy.rs\<close> and \<open>request.rs\<close>: a scalar as trimmed text, None when it
  is missing, null, empty or not a scalar.
\<close>

definition json_text :: "json option \<Rightarrow> string option" where
  "json_text value =
     (let non_empty = (\<lambda>trimmed. if trimmed = [] then None else Some trimmed) in
      case value of
        None \<Rightarrow> None
      | Some JNull \<Rightarrow> None
      | Some (JStr s) \<Rightarrow> non_empty (trim s)
      | Some (JBool b) \<Rightarrow> non_empty (bool_to_string b)
      | Some (JNum n) \<Rightarrow> non_empty (number_to_string n)
      | Some (JArr _) \<Rightarrow> None
      | Some (JObj _) \<Rightarrow> None)"

lemma json_text_simps [simp]:
  "json_text None = None"
  "json_text (Some JNull) = None"
  "json_text (Some (JStr s)) = (if trim s = [] then None else Some (trim s))"
  "json_text (Some (JArr xs)) = None"
  "json_text (Some (JObj m)) = None"
  by (simp_all add: json_text_def)

lemma json_text_nonempty: "json_text v = Some s \<Longrightarrow> s \<noteq> []"
  by (auto simp: json_text_def Let_def split: option.splits json.splits if_splits)

lemma json_get_JObj [simp]: "json_get k (JObj m) = bt_get k m"
  by (simp add: json_get_def)

text \<open>The text of a value is trimmed already.\<close>

lemma number_to_string_graphic: "list_all graphic (number_to_string n)"
  by (cases n) (simp_all add: show_int_graphic json_f64_graphic)

lemma bool_to_string_graphic: "list_all graphic (bool_to_string b)"
  by (simp add: bool_to_string_def graphic_def char_code_def)

lemma json_text_trimmed: "json_text v = Some s \<Longrightarrow> trim s = s"
  using trim_graphic[OF number_to_string_graphic] trim_graphic[OF bool_to_string_graphic]
  by (auto simp: json_text_def Let_def split: option.splits json.splits if_splits)

section \<open>Compact text\<close>

text \<open>\<open>Value::to_string\<close>: control characters and the two special ones are escaped.\<close>

definition hex_digit :: "nat \<Rightarrow> char" where
  "hex_digit n = (if n < 10 then char_of (48 + n) else char_of (87 + n))"

definition escape_char :: "char \<Rightarrow> string" where
  "escape_char c =
     (if c = CHR 0x22 then [CHR 0x5C, CHR 0x22]
      else if c = CHR 0x5C then [CHR 0x5C, CHR 0x5C]
      else if c = CHR 0x08 then [CHR 0x5C, CHR ''b'']
      else if c = CHR 0x0C then [CHR 0x5C, CHR ''f'']
      else if c = CHR 0x0A then [CHR 0x5C, CHR ''n'']
      else if c = CHR 0x0D then [CHR 0x5C, CHR ''r'']
      else if c = CHR 0x09 then [CHR 0x5C, CHR ''t'']
      else if char_code c < 32 then
        [CHR 0x5C] @ ''u00'' @ [hex_digit (char_code c div 16), hex_digit (char_code c mod 16)]
      else [c])"

definition json_quote :: "string \<Rightarrow> string" where
  "json_quote s = [CHR 0x22] @ concat (map escape_char s) @ [CHR 0x22]"

fun json_to_string :: "json \<Rightarrow> string" where
  "json_to_string JNull = ''null''"
| "json_to_string (JBool b) = bool_to_string b"
| "json_to_string (JNum n) = number_to_string n"
| "json_to_string (JStr s) = json_quote s"
| "json_to_string (JArr xs) = ''['' @ join_with '','' (map json_to_string xs) @ '']''"
| "json_to_string (JObj m) =
     ''{'' @ join_with '','' (map (\<lambda>(k, v). json_quote k @ '':'' @ json_to_string v) m) @ ''}''"

text \<open>Well-formed values: every object is a map.\<close>

fun json_ok :: "json \<Rightarrow> bool" where
  "json_ok (JArr xs) = (\<forall>x \<in> set xs. json_ok x)"
| "json_ok (JObj m) = (bt_ok m \<and> (\<forall>x \<in> set m. json_ok (snd x)))"
| "json_ok v = True"

lemma json_ok_get: "json_ok (JObj m) \<Longrightarrow> bt_get k m = Some v \<Longrightarrow> json_ok v"
  by (auto simp: bt_get_def dest!: map_of_SomeD)

lemma json_ok_collect:
  "(\<And>x. x \<in> set xs \<Longrightarrow> json_ok (snd x)) \<Longrightarrow> json_ok (JObj (bt_collect xs))"
proof -
  assume a: "\<And>x. x \<in> set xs \<Longrightarrow> json_ok (snd x)"
  have ins: "\<forall>x \<in> set (bt_insert k v m). json_ok (snd x)"
    if "json_ok v" "\<forall>x \<in> set m. json_ok (snd x)" for k v and m :: "(string \<times> json) list"
    using that by (induction k v m rule: bt_insert.induct) auto
  have "\<forall>x \<in> set (foldl (\<lambda>m (k, v). bt_insert k v m) m xs). json_ok (snd x)"
    if "\<forall>x \<in> set m. json_ok (snd x)" for m
    using that a
  proof (induction xs arbitrary: m)
    case (Cons x xs)
    have "json_ok (snd x)" by (rule Cons.prems(2)) simp
    then have "\<forall>y \<in> set (bt_insert (fst x) (snd x) m). json_ok (snd y)"
      by (rule ins[OF _ Cons.prems(1)])
    from Cons.IH[OF this] Cons.prems(2) show ?case by (simp add: case_prod_beta)
  qed simp
  from this[of "[]"] show ?thesis using bt_collect_ok[of xs] by (simp add: bt_collect_def)
qed

end
