(* ===== verification/Policy.thy ===== *)
theory Policy
  imports Json
begin

text \<open>
  Attendance and operation policies: \<open>crates/payroll-api/src/policy.rs\<close>.  A policy is read
  leniently out of a JSON value (\<open>normalize\<close>), and \<open>normalized\<close> sends a policy through its
  own serialised form.  The derived \<open>Deserialize\<close> instances are not modelled.
\<close>

section \<open>Enumerations\<close>

datatype payroll_input_basis = BasisInvoice | BasisAttendance | BasisHybrid

fun payroll_input_basis_as_str :: "payroll_input_basis \<Rightarrow> string" where
  "payroll_input_basis_as_str BasisInvoice = ''invoice''"
| "payroll_input_basis_as_str BasisAttendance = ''attendance''"
| "payroll_input_basis_as_str BasisHybrid = ''hybrid''"

definition basis_from_python_policy_value :: "json option \<Rightarrow> payroll_input_basis" where
  "basis_from_python_policy_value value =
     (let t = json_text value in
      if t = Some ''invoice'' then BasisInvoice
      else if t = Some ''attendance'' then BasisAttendance
      else if t = Some ''hybrid'' then BasisHybrid
      else BasisHybrid)"

definition basis_from_str :: "string \<Rightarrow> payroll_input_basis option" where
  "basis_from_str value =
     (let s = to_ascii_lowercase (trim value) in
      if s = ''invoice'' then Some BasisInvoice
      else if s = ''attendance'' then Some BasisAttendance
      else if s = ''hybrid'' \<or> s = ''mixed'' then Some BasisHybrid
      else None)"

datatype missing_clock_policy = MissingWarn | MissingIgnore | MissingDeduct

fun missing_clock_policy_as_str :: "missing_clock_policy \<Rightarrow> string" where
  "missing_clock_policy_as_str MissingWarn = ''warn''"
| "missing_clock_policy_as_str MissingIgnore = ''ignore''"
| "missing_clock_policy_as_str MissingDeduct = ''deduct''"

definition missing_from_python_policy_value :: "json option \<Rightarrow> missing_clock_policy" where
  "missing_from_python_policy_value value =
     (let t = json_text value in
      if t = Some ''ignore'' then MissingIgnore
      else if t = Some ''deduct'' then MissingDeduct
      else if t = Some ''warn'' then MissingWarn
      else MissingWarn)"

definition missing_from_str :: "string \<Rightarrow> missing_clock_policy option" where
  "missing_from_str value =
     (let s = trim value in
      if s = ''warn'' then Some MissingWarn
      else if s = ''ignore'' then Some MissingIgnore
      else if s = ''deduct'' then Some MissingDeduct
      else None)"

section \<open>Reading JSON leniently\<close>

definition python_bool :: "json option \<Rightarrow> bool \<Rightarrow> bool" where
  "python_bool value fallback =
     (case value of
        None \<Rightarrow> fallback
      | Some JNull \<Rightarrow> fallback
      | Some (JBool b) \<Rightarrow> b
      | Some (JNum n) \<Rightarrow> \<not> f64_eq (number_as_f64 n) 0
      | Some (JStr s) \<Rightarrow> s \<noteq> []
      | Some (JArr xs) \<Rightarrow> xs \<noteq> []
      | Some (JObj m) \<Rightarrow> m \<noteq> [])"

definition int_between :: "json option \<Rightarrow> i64 \<Rightarrow> i64 \<Rightarrow> i64 \<Rightarrow> i64" where
  "int_between value fallback minimum maximum =
     (let number =
            (case value of
               Some (JNum n) \<Rightarrow> Some (number_as_f64 n)
             | Some (JStr s) \<Rightarrow> parse_f64 s
             | Some (JBool b) \<Rightarrow> Some (if b then lit 1 else 0)
             | _ \<Rightarrow> None);
          parsed = unwrap_or fallback (map_option to_i64 number)
      in min (max parsed minimum) maximum)"

definition extra_fields :: "(string \<times> json) list \<Rightarrow> string list \<Rightarrow> (string \<times> json) list" where
  "extra_fields object known_fields = filter (\<lambda>(key, _). key \<notin> set known_fields) object"

section \<open>Attendance policy\<close>

record attendance_policy =
  ap_enabled :: bool
  ap_source :: string
  ap_rounding_minutes :: i64
  ap_late_grace_minutes :: i64
  ap_early_leave_grace_minutes :: i64
  ap_overtime_rounding_minutes :: i64
  ap_missing_clock_policy :: missing_clock_policy
  ap_holiday_source :: string
  ap_extra :: "(string \<times> json) list"

definition default_attendance_source :: string where
  "default_attendance_source = ''biometric''"

definition default_holiday_source :: string where
  "default_holiday_source = ''invoice''"

definition attendance_policy_default :: attendance_policy where
  "attendance_policy_default =
     \<lparr>ap_enabled = True, ap_source = default_attendance_source, ap_rounding_minutes = 1,
      ap_late_grace_minutes = 0, ap_early_leave_grace_minutes = 0,
      ap_overtime_rounding_minutes = 1, ap_missing_clock_policy = MissingWarn,
      ap_holiday_source = default_holiday_source, ap_extra = []\<rparr>"

definition attendance_fields :: "string list" where
  "attendance_fields =
     [''enabled'', ''source'', ''rounding_minutes'', ''late_grace_minutes'',
      ''early_leave_grace_minutes'', ''overtime_rounding_minutes'', ''missing_clock_policy'',
      ''holiday_source'']"

definition attendance_policy_normalize :: "json option \<Rightarrow> attendance_policy" where
  "attendance_policy_normalize raw =
     (let base = attendance_policy_default in
      case Option.bind raw as_object of
        None \<Rightarrow> base
      | Some object \<Rightarrow>
          \<lparr>ap_enabled = python_bool (bt_get ''enabled'' object) (ap_enabled base),
           ap_source = unwrap_or (ap_source base) (json_text (bt_get ''source'' object)),
           ap_rounding_minutes =
             int_between (bt_get ''rounding_minutes'' object) (ap_rounding_minutes base) 1 60,
           ap_late_grace_minutes =
             int_between (bt_get ''late_grace_minutes'' object) (ap_late_grace_minutes base) 0 240,
           ap_early_leave_grace_minutes =
             int_between (bt_get ''early_leave_grace_minutes'' object)
               (ap_early_leave_grace_minutes base) 0 240,
           ap_overtime_rounding_minutes =
             int_between (bt_get ''overtime_rounding_minutes'' object)
               (ap_overtime_rounding_minutes base) 1 60,
           ap_missing_clock_policy =
             missing_from_python_policy_value (bt_get ''missing_clock_policy'' object),
           ap_holiday_source =
             unwrap_or (ap_holiday_source base) (json_text (bt_get ''holiday_source'' object)),
           ap_extra = extra_fields object attendance_fields\<rparr>)"

text \<open>
  The derived \<open>Serialize\<close>: the fields in order, then the flattened extra fields, which
  replace an equal key.
\<close>

definition attendance_policy_to_value :: "attendance_policy \<Rightarrow> json" where
  "attendance_policy_to_value p =
     JObj (bt_collect
       ([(''enabled'', JBool (ap_enabled p)),
         (''source'', JStr (ap_source p)),
         (''rounding_minutes'', JNum (JInt (ap_rounding_minutes p))),
         (''late_grace_minutes'', JNum (JInt (ap_late_grace_minutes p))),
         (''early_leave_grace_minutes'', JNum (JInt (ap_early_leave_grace_minutes p))),
         (''overtime_rounding_minutes'', JNum (JInt (ap_overtime_rounding_minutes p))),
         (''missing_clock_policy'', JStr (missing_clock_policy_as_str (ap_missing_clock_policy p))),
         (''holiday_source'', JStr (ap_holiday_source p))] @ ap_extra p))"

definition attendance_policy_normalized :: "attendance_policy \<Rightarrow> attendance_policy" where
  "attendance_policy_normalized p = attendance_policy_normalize (Some (attendance_policy_to_value p))"

section \<open>Operation policy\<close>

record operation_policy =
  op_input_basis :: payroll_input_basis
  op_payday :: "string option"
  op_show_setup_guide :: bool
  op_policy_note :: string
  op_attendance :: attendance_policy
  op_extra :: "(string \<times> json) list"

definition default_payday :: string where
  "default_payday = ''25'' @ [CHR 0xEC, CHR 0x9D, CHR 0xBC]"  \<comment> \<open>the 25th\<close>

definition operation_policy_default :: operation_policy where
  "operation_policy_default =
     \<lparr>op_input_basis = BasisHybrid, op_payday = Some default_payday, op_show_setup_guide = True,
      op_policy_note = [], op_attendance = attendance_policy_default, op_extra = []\<rparr>"

definition operation_policy_new :: "payroll_input_basis \<Rightarrow> operation_policy" where
  "operation_policy_new input_basis = operation_policy_default\<lparr>op_input_basis := input_basis\<rparr>"

definition op_with_payday :: "string \<Rightarrow> operation_policy \<Rightarrow> operation_policy" where
  "op_with_payday payday p = p\<lparr>op_payday := Some payday\<rparr>"

definition operation_fields :: "string list" where
  "operation_fields =
     [''input_basis'', ''payday'', ''show_setup_guide'', ''policy_note'', ''attendance'']"

definition operation_policy_normalize :: "json \<Rightarrow> operation_policy" where
  "operation_policy_normalize raw =
     (let base = operation_policy_default in
      case as_object raw of
        None \<Rightarrow> base
      | Some object \<Rightarrow>
          \<lparr>op_input_basis = basis_from_python_policy_value (bt_get ''input_basis'' object),
           op_payday = Some (unwrap_or default_payday (json_text (bt_get ''payday'' object))),
           op_show_setup_guide = python_bool (bt_get ''show_setup_guide'' object) True,
           op_policy_note = unwrap_or [] (json_text (bt_get ''policy_note'' object)),
           op_attendance = attendance_policy_normalize (bt_get ''attendance'' object),
           op_extra = extra_fields object operation_fields\<rparr>)"

text \<open>A missing payday is skipped by the serialiser.\<close>

definition operation_policy_to_value :: "operation_policy \<Rightarrow> json" where
  "operation_policy_to_value p =
     JObj (bt_collect
       ([(''input_basis'', JStr (payroll_input_basis_as_str (op_input_basis p)))]
        @ (case op_payday p of None \<Rightarrow> [] | Some payday \<Rightarrow> [(''payday'', JStr payday)])
        @ [(''show_setup_guide'', JBool (op_show_setup_guide p)),
           (''policy_note'', JStr (op_policy_note p)),
           (''attendance'', attendance_policy_to_value (op_attendance p))]
        @ op_extra p))"

definition operation_policy_normalized :: "operation_policy \<Rightarrow> operation_policy" where
  "operation_policy_normalized p = operation_policy_normalize (operation_policy_to_value p)"

record operation_policy_snapshot =
  ops_policy :: operation_policy
  ops_source :: string

definition operation_policy_snapshot_new :: "operation_policy \<Rightarrow> string \<Rightarrow> operation_policy_snapshot" where
  "operation_policy_snapshot_new policy source = \<lparr>ops_policy = policy, ops_source = source\<rparr>"

definition ops_normalized :: "json \<Rightarrow> string \<Rightarrow> operation_policy_snapshot" where
  "ops_normalized raw_policy source =
     operation_policy_snapshot_new (operation_policy_normalize raw_policy) source"

definition ops_normalize :: "operation_policy_snapshot \<Rightarrow> operation_policy_snapshot" where
  "ops_normalize s = s\<lparr>ops_policy := operation_policy_normalized (ops_policy s)\<rparr>"

section \<open>Normal forms\<close>

lemma int_between_range: "lo \<le> hi \<Longrightarrow> lo \<le> int_between v d lo hi \<and> int_between v d lo hi \<le> hi"
  by (simp add: int_between_def Let_def)

lemma int_between_int:
  assumes "lo \<le> n" "n \<le> hi" "\<bar>n\<bar> \<le> 2 ^ 53"
  shows "int_between (Some (JNum (JInt n))) d lo hi = n"
proof -
  have "to_i64 (rnd (of_int n)) = n"
    using to_i64_of_i64[OF assms(3)] by (simp add: of_i64_def)
  then show ?thesis using assms(1,2) by (simp add: int_between_def Let_def)
qed

definition clean_text :: "string \<Rightarrow> bool" where
  "clean_text s \<longleftrightarrow> s \<noteq> [] \<and> trim s = s"

lemma clean_text_json: "json_text v = Some s \<Longrightarrow> clean_text s"
  by (simp add: clean_text_def json_text_nonempty json_text_trimmed)

lemma clean_text_defaults:
  "clean_text default_attendance_source" "clean_text default_holiday_source" "clean_text default_payday"
  unfolding clean_text_def default_attendance_source_def default_holiday_source_def default_payday_def
  by (intro conjI trim_literal; code_simp)+

lemma clean_text_unwrap: "clean_text d \<Longrightarrow> clean_text (unwrap_or d (json_text v))"
  by (cases "json_text v") (simp_all add: clean_text_json)

text \<open>The extra fields never hold a known key.\<close>

definition extra_ok :: "string list \<Rightarrow> (string \<times> json) list \<Rightarrow> bool" where
  "extra_ok known m \<longleftrightarrow> bt_ok m \<and> (\<forall>k \<in> set known. bt_get k m = None)"

lemma extra_fields_ok: "bt_ok m \<Longrightarrow> extra_ok known (extra_fields m known)"
  by (simp add: extra_ok_def extra_fields_def bt_get_filter)

text \<open>Serialising fields and extra fields, and reading them back.\<close>

lemma serialized_fields:
  assumes "extra_ok known extra" "distinct (map fst flds)" "fst ` set flds \<subseteq> set known"
  shows "k \<in> set known \<Longrightarrow> bt_get k (bt_collect (flds @ extra)) = map_of flds k"
    and "extra_fields (bt_collect (flds @ extra)) known = extra"
proof -
  have ok: "bt_ok extra" "\<And>k. k \<in> set known \<Longrightarrow> map_of extra k = None"
    using assms(1) by (auto simp: extra_ok_def bt_get_def)
  have rev: "map_of (rev extra) = map_of extra" "map_of (rev flds) = map_of flds"
    using bt_ok_distinct[OF ok(1)] assms(2)
    by (auto intro!: map_of_inject_set[THEN iffD2] simp: rev_map[symmetric])
  have get: "bt_get k (bt_collect (flds @ extra)) = (case map_of extra k of None \<Rightarrow> map_of flds k | Some v \<Rightarrow> Some v)" for k
    unfolding bt_collect_rev by (simp add: rev map_add_def)
  show "k \<in> set known \<Longrightarrow> bt_get k (bt_collect (flds @ extra)) = map_of flds k"
    using get ok(2) by simp
  show "extra_fields (bt_collect (flds @ extra)) known = extra"
  proof (rule bt_eqI)
    fix k
    have "map_of flds k = None" if "k \<notin> set known"
      using assms(3) that by (auto simp: map_of_eq_None_iff)
    then show "bt_get k (extra_fields (bt_collect (flds @ extra)) known) = bt_get k extra"
      using ok(2)[of k] get[of k]
      unfolding extra_fields_def bt_get_filter[OF bt_collect_ok]
      by (cases "map_of extra k") (auto simp: bt_get_def[of k extra])
  qed (simp_all add: ok extra_fields_def)
qed

lemma missing_roundtrip:
  "missing_from_python_policy_value (Some (JStr (missing_clock_policy_as_str p))) = p"
proof -
  have "trim (missing_clock_policy_as_str p) = missing_clock_policy_as_str p"
    by (rule trim_graphic) (cases p; simp add: graphic_def char_code_def)
  then show ?thesis by (cases p) (simp_all add: missing_from_python_policy_value_def Let_def)
qed

lemma basis_roundtrip:
  "basis_from_python_policy_value (Some (JStr (payroll_input_basis_as_str b))) = b"
proof -
  have "trim (payroll_input_basis_as_str b) = payroll_input_basis_as_str b"
    by (rule trim_graphic) (cases b; simp add: graphic_def char_code_def)
  then show ?thesis by (cases b) (simp_all add: basis_from_python_policy_value_def Let_def)
qed

text \<open>What normalisation establishes, and what it leaves alone.\<close>

definition attendance_canonical :: "attendance_policy \<Rightarrow> bool" where
  "attendance_canonical p \<longleftrightarrow>
     clean_text (ap_source p) \<and> clean_text (ap_holiday_source p) \<and>
     1 \<le> ap_rounding_minutes p \<and> ap_rounding_minutes p \<le> 60 \<and>
     0 \<le> ap_late_grace_minutes p \<and> ap_late_grace_minutes p \<le> 240 \<and>
     0 \<le> ap_early_leave_grace_minutes p \<and> ap_early_leave_grace_minutes p \<le> 240 \<and>
     1 \<le> ap_overtime_rounding_minutes p \<and> ap_overtime_rounding_minutes p \<le> 60 \<and>
     extra_ok attendance_fields (ap_extra p)"

lemma attendance_default_canonical: "attendance_canonical attendance_policy_default"
  by (simp add: attendance_canonical_def attendance_policy_default_def clean_text_defaults
      extra_ok_def bt_get_def)

text \<open>The objects of a well-formed value are maps.\<close>

fun object_ok :: "json option \<Rightarrow> bool" where
  "object_ok (Some (JObj m)) = bt_ok m"
| "object_ok v = True"

lemma attendance_normalize_canonical:
  "object_ok raw \<Longrightarrow> attendance_canonical (attendance_policy_normalize raw)"
  by (cases raw rule: object_ok.cases)
    (simp_all add: attendance_policy_normalize_def attendance_default_canonical,
     simp add: attendance_canonical_def int_between_range extra_fields_ok clean_text_unwrap
      attendance_policy_default_def clean_text_defaults Let_def)

lemma attendance_canonical_fixed:
  assumes "attendance_canonical p"
  shows "attendance_policy_normalized p = p"
proof -
  let ?f = "[(''enabled'', JBool (ap_enabled p)),
         (''source'', JStr (ap_source p)),
         (''rounding_minutes'', JNum (JInt (ap_rounding_minutes p))),
         (''late_grace_minutes'', JNum (JInt (ap_late_grace_minutes p))),
         (''early_leave_grace_minutes'', JNum (JInt (ap_early_leave_grace_minutes p))),
         (''overtime_rounding_minutes'', JNum (JInt (ap_overtime_rounding_minutes p))),
         (''missing_clock_policy'', JStr (missing_clock_policy_as_str (ap_missing_clock_policy p))),
         (''holiday_source'', JStr (ap_holiday_source p))]"
  have e: "extra_ok attendance_fields (ap_extra p)" using assms by (simp add: attendance_canonical_def)
  have d: "distinct (map fst ?f)" "fst ` set ?f \<subseteq> set attendance_fields"
    by (simp_all add: attendance_fields_def)
  note get = serialized_fields(1)[OF e d] and extra = serialized_fields(2)[OF e d]
  have in_known: "k \<in> set attendance_fields \<Longrightarrow> bt_get k (bt_collect (?f @ ap_extra p)) = map_of ?f k" for k
    by (rule get)
  show ?thesis
    using assms
    by (simp add: attendance_policy_normalized_def attendance_policy_to_value_def
        attendance_policy_normalize_def Let_def in_known[unfolded attendance_fields_def, simplified]
        extra[simplified] python_bool_def
        int_between_int missing_roundtrip attendance_canonical_def clean_text_def)
qed

lemma attendance_normalized_canonical: "attendance_canonical (attendance_policy_normalized p)"
  unfolding attendance_policy_normalized_def
  by (rule attendance_normalize_canonical) (simp add: attendance_policy_to_value_def)

interpretation attendance: normaliser attendance_policy_normalized
  by unfold_locales (rule attendance_canonical_fixed[OF attendance_normalized_canonical])

definition operation_canonical :: "operation_policy \<Rightarrow> bool" where
  "operation_canonical p \<longleftrightarrow>
     pred_option clean_text (op_payday p) \<and> op_payday p \<noteq> None \<and>
     trim (op_policy_note p) = op_policy_note p \<and>
     attendance_canonical (op_attendance p) \<and> extra_ok operation_fields (op_extra p)"

lemma object_ok_json: "json_ok v \<Longrightarrow> object_ok (Some v)"
  by (cases v) auto

lemma operation_default_canonical: "operation_canonical operation_policy_default"
  by (simp add: operation_canonical_def operation_policy_default_def clean_text_defaults
      attendance_default_canonical extra_ok_def bt_get_def)

lemma operation_normalize_canonical:
  assumes "json_ok raw"
  shows "operation_canonical (operation_policy_normalize raw)"
proof (cases raw)
  case (JObj m)
  then have m: "bt_ok m" using assms by simp
  have "object_ok (bt_get ''attendance'' m)"
  proof (cases "bt_get ''attendance'' m")
    case (Some v)
    then show ?thesis using json_ok_get assms JObj object_ok_json by auto
  qed simp
  moreover have "trim (unwrap_or [] (json_text v)) = unwrap_or [] (json_text v)" for v
    using json_text_trimmed[of v] by (cases "json_text v") simp_all
  ultimately show ?thesis
    using JObj m
    by (simp add: operation_policy_normalize_def operation_canonical_def Let_def extra_fields_ok
        attendance_normalize_canonical clean_text_unwrap clean_text_defaults)
qed (simp_all add: operation_policy_normalize_def operation_default_canonical)

lemma operation_canonical_fixed:
  assumes "operation_canonical p"
  shows "operation_policy_normalized p = p"
proof -
  obtain payday where payday: "op_payday p = Some payday" "clean_text payday"
    using assms by (auto simp: operation_canonical_def)
  let ?f = "[(''input_basis'', JStr (payroll_input_basis_as_str (op_input_basis p))),
         (''payday'', JStr payday),
         (''show_setup_guide'', JBool (op_show_setup_guide p)),
         (''policy_note'', JStr (op_policy_note p)),
         (''attendance'', attendance_policy_to_value (op_attendance p))]"
  have e: "extra_ok operation_fields (op_extra p)" using assms by (simp add: operation_canonical_def)
  have d: "distinct (map fst ?f)" "fst ` set ?f \<subseteq> set operation_fields"
    by (simp_all add: operation_fields_def)
  note get = serialized_fields(1)[OF e d] and extra = serialized_fields(2)[OF e d]
  have in_known: "k \<in> set operation_fields \<Longrightarrow> bt_get k (bt_collect (?f @ op_extra p)) = map_of ?f k" for k
    by (rule get)
  have att: "attendance_policy_normalize (Some (attendance_policy_to_value (op_attendance p))) = op_attendance p"
    using attendance_canonical_fixed[of "op_attendance p"] assms
    by (simp add: attendance_policy_normalized_def operation_canonical_def)
  show ?thesis
    using assms payday
    by (simp add: operation_policy_normalized_def operation_policy_to_value_def
        operation_policy_normalize_def Let_def in_known[unfolded operation_fields_def, simplified]
        extra[simplified] python_bool_def basis_roundtrip att operation_canonical_def clean_text_def)
qed

lemma attendance_to_value_ok:
  "\<forall>x \<in> set (ap_extra p). json_ok (snd x) \<Longrightarrow> json_ok (attendance_policy_to_value p)"
  unfolding attendance_policy_to_value_def by (rule json_ok_collect) auto

definition policy_values_ok :: "operation_policy \<Rightarrow> bool" where
  "policy_values_ok p \<longleftrightarrow>
     (\<forall>x \<in> set (op_extra p). json_ok (snd x)) \<and> (\<forall>x \<in> set (ap_extra (op_attendance p)). json_ok (snd x))"

lemma operation_to_value_ok: "policy_values_ok p \<Longrightarrow> json_ok (operation_policy_to_value p)"
  unfolding operation_policy_to_value_def policy_values_ok_def
  by (rule json_ok_collect) (auto simp: attendance_to_value_ok split: option.splits)

section \<open>Properties\<close>

text \<open>
  C26: normalising an operation policy is idempotent, and its result is a fixed point of the
  round trip through JSON: any policy, and any JSON value read as one, ends in a form with
  rounding minutes in 1 to 60, grace minutes in 0 to 240, trimmed non-empty sources and
  payday, and no known key among the extra fields.
\<close>

theorem operation_policy_normal_form:
  assumes "json_ok raw" and "policy_values_ok p"
  shows "operation_canonical (operation_policy_normalize raw) \<and>
    operation_policy_normalized (operation_policy_normalize raw) = operation_policy_normalize raw \<and>
    operation_canonical (operation_policy_normalized p) \<and>
    operation_policy_normalized (operation_policy_normalized p) = operation_policy_normalized p"
  using operation_normalize_canonical[OF assms(1)]
    operation_normalize_canonical[OF operation_to_value_ok[OF assms(2)]]
  by (simp add: operation_canonical_fixed flip: operation_policy_normalized_def)

theorem operation_policy_normal_form_witness:
  "operation_policy_normalized (operation_policy_normalize (JObj [(''payday'', JNum (JInt 10))]))
     = operation_policy_normalize (JObj [(''payday'', JNum (JInt 10))])"
  using operation_policy_normal_form[of "JObj [(''payday'', JNum (JInt 10))]" operation_policy_default]
  by (simp add: policy_values_ok_def operation_policy_default_def attendance_policy_default_def bt_ok_def)

end
