(* ===== verification/Request.thy ===== *)
theory Request
  imports Policy
begin

text \<open>
  Payroll run requests: \<open>crates/payroll-api/src/request.rs\<close> and the errors of
  \<open>crates/payroll-api/src/error.rs\<close>.  A \<open>PathBuf\<close> is the string it was made of.
\<close>

section \<open>Errors\<close>

datatype payroll_api_error =
    InvalidPayload
  | InvalidScope
  | MissingScopeFields "string list"
  | InvalidPeriod string
  | InvalidInputType string
  | MissingInputPath string "string list"

fun error_code :: "payroll_api_error \<Rightarrow> string" where
  "error_code InvalidPayload = ''invalid_payload''"
| "error_code InvalidScope = ''invalid_scope''"
| "error_code (MissingScopeFields _) = ''missing_scope_fields''"
| "error_code (InvalidPeriod _) = ''invalid_period''"
| "error_code (InvalidInputType _) = ''invalid_input_type''"
| "error_code (MissingInputPath _ _) = ''missing_input_path''"

fun error_details :: "payroll_api_error \<Rightarrow> json" where
  "error_details InvalidPayload = JObj (bt_collect [(''expected'', JStr ''object'')])"
| "error_details InvalidScope = JObj (bt_collect
     [(''accepted_forms'', JArr [JStr ''affiliate/workplace/YYYY-MM'', JStr ''scope object''])])"
| "error_details (MissingScopeFields missing_fields) =
     JObj (bt_collect [(''missing_fields'', JArr (map JStr missing_fields))])"
| "error_details (InvalidPeriod period) =
     JObj (bt_collect [(''period'', JStr period), (''period_format'', JStr ''YYYY-MM'')])"
| "error_details (InvalidInputType input_type) = JObj (bt_collect
     [(''input_type'', JStr input_type),
      (''allowed_input_types'', JArr (map JStr [''auto'', ''invoice'', ''attendance'', ''mixed'']))])"
| "error_details (MissingInputPath input_type missing_fields) = JObj (bt_collect
     [(''input_type'', JStr input_type),
      (''missing_fields'', JArr (map JStr missing_fields)),
      (''accepted_aliases'', JObj (bt_collect
        [(''invoice_path'', JArr (map JStr [''invoice_path'', ''invoicePath''])),
         (''attendance_path'', JArr (map JStr [''attendance_path'', ''attendancePath'']))]))])"

definition msg_invalid_payload :: string where  \<comment> \<open>the request has to be a JSON object\<close>
  "msg_invalid_payload =
     [CHR 0xEA, CHR 0xB8, CHR 0x89, CHR 0xEC, CHR 0x97, CHR 0xAC] @ '' '' @ [CHR 0xEC, CHR 0x9E, CHR 0x90, CHR 0xEB, CHR 0x8F, CHR 0x99, CHR 0xED, CHR 0x99, CHR 0x94] @ '' '' @ [CHR 0xEC, CHR 0x9A, CHR 0x94, CHR 0xEC, CHR 0xB2, CHR 0xAD, CHR 0xEC, CHR 0x9D, CHR 0x80] @ '' JSON object '' @ [CHR 0xED, CHR 0x98, CHR 0x95, CHR 0xED, CHR 0x83, CHR 0x9C, CHR 0xEC, CHR 0x97, CHR 0xAC, CHR 0xEC, CHR 0x95, CHR 0xBC] @ '' '' @ [CHR 0xED, CHR 0x95, CHR 0xA9, CHR 0xEB, CHR 0x8B, CHR 0x88, CHR 0xEB, CHR 0x8B, CHR 0xA4] @ ''.''"

definition msg_invalid_scope :: string where  \<comment> \<open>the scope has to be a string or an object\<close>
  "msg_invalid_scope =
     ''scope'' @ [CHR 0xEB, CHR 0x8A, CHR 0x94] @ '' '' @ [CHR 0xEB, CHR 0xAC, CHR 0xB8, CHR 0xEC, CHR 0x9E, CHR 0x90, CHR 0xEC, CHR 0x97, CHR 0xB4] @ '' '' @ [CHR 0xEB, CHR 0x98, CHR 0x90, CHR 0xEB, CHR 0x8A, CHR 0x94] @ '' '' @ [CHR 0xEA, CHR 0xB0, CHR 0x9D, CHR 0xEC, CHR 0xB2, CHR 0xB4] @ '' '' @ [CHR 0xED, CHR 0x98, CHR 0x95, CHR 0xED, CHR 0x83, CHR 0x9C, CHR 0xEC, CHR 0x97, CHR 0xAC, CHR 0xEC, CHR 0x95, CHR 0xBC] @ '' '' @ [CHR 0xED, CHR 0x95, CHR 0xA9, CHR 0xEB, CHR 0x8B, CHR 0x88, CHR 0xEB, CHR 0x8B, CHR 0xA4] @ ''.''"

definition msg_missing_scope :: string where  \<comment> \<open>scope fields are missing\<close>
  "msg_missing_scope =
     ''scope '' @ [CHR 0xED, CHR 0x95, CHR 0x84, CHR 0xEB, CHR 0x93, CHR 0x9C, CHR 0xEA, CHR 0xB0, CHR 0x80] @ '' '' @ [CHR 0xEB, CHR 0xB6, CHR 0x80, CHR 0xEC, CHR 0xA1, CHR 0xB1, CHR 0xED, CHR 0x95, CHR 0xA9, CHR 0xEB, CHR 0x8B, CHR 0x88, CHR 0xEB, CHR 0x8B, CHR 0xA4] @ '': ''"

definition msg_invalid_period :: string where  \<comment> \<open>the period has the form YYYY-MM\<close>
  "msg_invalid_period =
     ''period'' @ [CHR 0xEB, CHR 0x8A, CHR 0x94] @ '' YYYY-MM '' @ [CHR 0xED, CHR 0x98, CHR 0x95, CHR 0xEC, CHR 0x8B, CHR 0x9D, CHR 0xEC, CHR 0x9D, CHR 0xB4, CHR 0xEC, CHR 0x96, CHR 0xB4, CHR 0xEC, CHR 0x95, CHR 0xBC] @ '' '' @ [CHR 0xED, CHR 0x95, CHR 0xA9, CHR 0xEB, CHR 0x8B, CHR 0x88, CHR 0xEB, CHR 0x8B, CHR 0xA4] @ ''.''"

definition msg_invalid_input_type :: string where  \<comment> \<open>unsupported input type\<close>
  "msg_invalid_input_type =
     [CHR 0xEC, CHR 0xA7, CHR 0x80, CHR 0xEC, CHR 0x9B, CHR 0x90, CHR 0xED, CHR 0x95, CHR 0x98, CHR 0xEC, CHR 0xA7, CHR 0x80] @ '' '' @ [CHR 0xEC, CHR 0x95, CHR 0x8A, CHR 0xEB, CHR 0x8A, CHR 0x94] @ '' '' @ [CHR 0xEA, CHR 0xB8, CHR 0x89, CHR 0xEC, CHR 0x97, CHR 0xAC] @ '' '' @ [CHR 0xEC, CHR 0x9E, CHR 0x85, CHR 0xEB, CHR 0xA0, CHR 0xA5] @ '' '' @ [CHR 0xEB, CHR 0xB0, CHR 0xA9, CHR 0xEC, CHR 0x8B, CHR 0x9D, CHR 0xEC, CHR 0x9E, CHR 0x85, CHR 0xEB, CHR 0x8B, CHR 0x88, CHR 0xEB, CHR 0x8B, CHR 0xA4] @ '': ''"

definition msg_missing_path :: string where  \<comment> \<open>input file paths are missing\<close>
  "msg_missing_path =
     [CHR 0xEA, CHR 0xB8, CHR 0x89, CHR 0xEC, CHR 0x97, CHR 0xAC] @ '' '' @ [CHR 0xEC, CHR 0x9E, CHR 0x85, CHR 0xEB, CHR 0xA0, CHR 0xA5] @ '' '' @ [CHR 0xED, CHR 0x8C, CHR 0x8C, CHR 0xEC, CHR 0x9D, CHR 0xBC] @ '' '' @ [CHR 0xEA, CHR 0xB2, CHR 0xBD, CHR 0xEB, CHR 0xA1, CHR 0x9C, CHR 0xEA, CHR 0xB0, CHR 0x80] @ '' '' @ [CHR 0xEB, CHR 0xB6, CHR 0x80, CHR 0xEC, CHR 0xA1, CHR 0xB1, CHR 0xED, CHR 0x95, CHR 0xA9, CHR 0xEB, CHR 0x8B, CHR 0x88, CHR 0xEB, CHR 0x8B, CHR 0xA4] @ '': ''"

fun error_to_string :: "payroll_api_error \<Rightarrow> string" where
  "error_to_string InvalidPayload = msg_invalid_payload"
| "error_to_string InvalidScope = msg_invalid_scope"
| "error_to_string (MissingScopeFields missing_fields) =
     msg_missing_scope @ join_with '', '' missing_fields"
| "error_to_string (InvalidPeriod _) = msg_invalid_period"
| "error_to_string (InvalidInputType input_type) = msg_invalid_input_type @ input_type"
| "error_to_string (MissingInputPath _ missing_fields) =
     msg_missing_path @ join_with '', '' missing_fields"

section \<open>Scopes\<close>

definition scope_separator :: char where
  "scope_separator = CHR 0x1F"

record payroll_scope =
  scp_affiliate :: string
  scp_workplace :: string
  scp_period :: string

definition is_period :: "string \<Rightarrow> bool" where
  "is_period value \<longleftrightarrow>
     length value = 7 \<and> value ! 4 = CHR ''-'' \<and>
     list_all is_digit (take 4 value) \<and> list_all is_digit (drop 5 value)"

definition payroll_scope_new :: "string \<Rightarrow> string \<Rightarrow> string \<Rightarrow> payroll_api_error + payroll_scope" where
  "payroll_scope_new affiliate workplace period =
     (let scope = \<lparr>scp_affiliate = trim affiliate, scp_workplace = trim workplace,
                   scp_period = trim period\<rparr> in
      if \<not> is_period (scp_period scope) then Inl (InvalidPeriod (scp_period scope)) else Inr scope)"

definition parse_api :: "string \<Rightarrow> payroll_api_error + payroll_scope" where
  "parse_api value =
     (let value = trim value;
          separator = (if scope_separator \<in> set value then scope_separator else CHR ''/'');
          parts = map trim (splitn 3 separator value) in
      case parts of
        [a, w, p] \<Rightarrow>
          if list_ex (\<lambda>part. part = []) parts then Inl InvalidScope else payroll_scope_new a w p
      | _ \<Rightarrow> Inl InvalidScope)"

definition scope_key :: "payroll_scope \<Rightarrow> string" where
  "scope_key s =
     scp_affiliate s @ [scope_separator] @ scp_workplace s @ [scope_separator] @ scp_period s"

definition scope_display :: "payroll_scope \<Rightarrow> string" where
  "scope_display s = scp_affiliate s @ ''/'' @ scp_workplace s @ ''/'' @ scp_period s"

section \<open>Input types\<close>

datatype payroll_input_type = InputAuto | InputInvoice | InputAttendance | InputMixed

fun payroll_input_type_as_str :: "payroll_input_type \<Rightarrow> string" where
  "payroll_input_type_as_str InputAuto = ''auto''"
| "payroll_input_type_as_str InputInvoice = ''invoice''"
| "payroll_input_type_as_str InputAttendance = ''attendance''"
| "payroll_input_type_as_str InputMixed = ''mixed''"

definition input_type_from_str :: "string \<Rightarrow> payroll_input_type option" where
  "input_type_from_str value =
     (let s = to_ascii_lowercase (trim value) in
      if s = ''auto'' then Some InputAuto
      else if s = ''invoice'' then Some InputInvoice
      else if s = ''attendance'' then Some InputAttendance
      else if s = ''mixed'' then Some InputMixed
      else None)"

record payroll_run_request =
  prq_request_id :: string
  prq_scope :: payroll_scope
  prq_input_type :: payroll_input_type
  prq_invoice_path :: "string option"
  prq_attendance_path :: "string option"
  prq_tenant_id :: "string option"
  prq_metadata :: "(string \<times> json) list"
  prq_validate_only :: bool

definition inferred_input_type :: "payroll_run_request \<Rightarrow> payroll_input_type" where
  "inferred_input_type r =
     (case (prq_invoice_path r, prq_attendance_path r) of
        (Some _, Some _) \<Rightarrow> InputMixed
      | (None, Some _) \<Rightarrow> InputAttendance
      | _ \<Rightarrow> InputInvoice)"

definition resolved_input_type :: "payroll_run_request \<Rightarrow> operation_policy \<Rightarrow> payroll_input_type" where
  "resolved_input_type r policy =
     (case prq_input_type r of
        InputAuto \<Rightarrow>
          (case op_input_basis policy of
             BasisAttendance \<Rightarrow> InputAttendance
           | BasisInvoice \<Rightarrow> InputInvoice
           | BasisHybrid \<Rightarrow> inferred_input_type r)
      | explicit \<Rightarrow> explicit)"

section \<open>Parsing a request\<close>

record raw_payload =
  raw_request_id :: "json option"
  raw_scope :: "json option"
  raw_affiliate :: "json option"
  raw_workplace :: "json option"
  raw_period :: "json option"
  raw_input_type :: "json option"
  raw_invoice_path :: "json option"
  raw_attendance_path :: "json option"
  raw_tenant_id :: "json option"
  raw_metadata :: "json option"
  raw_validate_only :: "json option"

text \<open>
  The derived \<open>Deserialize\<close> of a field with its aliases: it is an error (None) when two of
  its names are present; a null is a missing value.
\<close>

definition raw_field :: "string list \<Rightarrow> (string \<times> json) list \<Rightarrow> json option option" where
  "raw_field names object =
     (case filter (\<lambda>(key, _). key \<in> set names) object of
        [] \<Rightarrow> Some None
      | [(_, v)] \<Rightarrow> Some (if v = JNull then None else Some v)
      | _ \<Rightarrow> None)"

definition raw_payload_from_value :: "(string \<times> json) list \<Rightarrow> raw_payload option" where
  "raw_payload_from_value object =
     (case (raw_field [''request_id'', ''requestId''] object,
            raw_field [''scope''] object,
            raw_field [''affiliate''] object,
            raw_field [''workplace''] object,
            raw_field [''period''] object,
            raw_field [''input_type'', ''inputType''] object,
            raw_field [''invoice_path'', ''invoicePath''] object,
            raw_field [''attendance_path'', ''attendancePath''] object,
            raw_field [''tenant_id'', ''tenantId''] object,
            raw_field [''metadata''] object,
            raw_field [''validate_only'', ''validateOnly'', ''dry_run'', ''dryRun''] object) of
        (Some request_id, Some scope, Some affiliate, Some workplace, Some period,
         Some input_type, Some invoice_path, Some attendance_path, Some tenant_id,
         Some metadata, Some validate_only) \<Rightarrow>
          Some \<lparr>raw_request_id = request_id, raw_scope = scope, raw_affiliate = affiliate,
                raw_workplace = workplace, raw_period = period, raw_input_type = input_type,
                raw_invoice_path = invoice_path, raw_attendance_path = attendance_path,
                raw_tenant_id = tenant_id, raw_metadata = metadata,
                raw_validate_only = validate_only\<rparr>
      | _ \<Rightarrow> None)"

definition truthy :: "json \<Rightarrow> bool" where
  "truthy value =
     (case value of
        JBool b \<Rightarrow> b
      | JNum n \<Rightarrow> \<not> f64_eq (number_as_f64 n) 0
      | JStr s \<Rightarrow>
          to_ascii_lowercase (trim s) \<in> set [''1'', ''true'', ''yes'', ''y'', ''on'']
      | _ \<Rightarrow> False)"

definition metadata_map :: "json option \<Rightarrow> (string \<times> json) list" where
  "metadata_map value = (case value of Some (JObj m) \<Rightarrow> m | _ \<Rightarrow> [])"

definition metadata_text :: "(string \<times> json) list \<Rightarrow> string \<Rightarrow> string option" where
  "metadata_text metadata key = json_text (bt_get key metadata)"

definition path_from_value :: "json option \<Rightarrow> string option" where
  "path_from_value value = json_text value"

definition scope_from_parts ::
    "string option \<Rightarrow> string option \<Rightarrow> string option \<Rightarrow> payroll_api_error + payroll_scope" where
  "scope_from_parts affiliate workplace period =
     (let missing =
            (if unwrap_or [] affiliate = [] then [''affiliate''] else [])
            @ (if unwrap_or [] workplace = [] then [''workplace''] else [])
            @ (if unwrap_or [] period = [] then [''period''] else []) in
      if missing \<noteq> [] then Inl (MissingScopeFields missing)
      else payroll_scope_new (unwrap_or [] affiliate) (unwrap_or [] workplace) (unwrap_or [] period))"

definition scope_from_raw :: "raw_payload \<Rightarrow> payroll_api_error + payroll_scope" where
  "scope_from_raw raw =
     (case raw_scope raw of
        Some scope \<Rightarrow>
          (case json_text (Some scope) of
             Some s \<Rightarrow> parse_api s
           | None \<Rightarrow>
               (case as_object scope of
                  None \<Rightarrow> Inl InvalidScope
                | Some m \<Rightarrow> scope_from_parts (json_text (bt_get ''affiliate'' m))
                    (json_text (bt_get ''workplace'' m)) (json_text (bt_get ''period'' m))))
      | None \<Rightarrow> scope_from_parts (json_text (raw_affiliate raw)) (json_text (raw_workplace raw))
          (json_text (raw_period raw)))"

definition parse_input_type :: "json option \<Rightarrow> payroll_api_error + payroll_input_type" where
  "parse_input_type value =
     (let input_type = unwrap_or ''auto'' (json_text value) in
      case input_type_from_str input_type of
        Some t \<Rightarrow> Inr t
      | None \<Rightarrow> Inl (InvalidInputType input_type))"

definition missing_paths ::
    "payroll_input_type \<Rightarrow> string option \<Rightarrow> string option \<Rightarrow> string list" where
  "missing_paths input_type invoice_path attendance_path =
     (case input_type of
        InputAuto \<Rightarrow> if invoice_path = None \<and> attendance_path = None
          then [''invoice_path'', ''attendance_path''] else []
      | InputInvoice \<Rightarrow> if invoice_path = None then [''invoice_path''] else []
      | InputAttendance \<Rightarrow> if attendance_path = None then [''attendance_path''] else []
      | InputMixed \<Rightarrow>
          (if invoice_path = None then [''invoice_path''] else [])
          @ (if attendance_path = None then [''attendance_path''] else []))"

definition validate_required_paths ::
    "payroll_input_type \<Rightarrow> string option \<Rightarrow> string option \<Rightarrow> payroll_api_error option" where
  "validate_required_paths input_type invoice_path attendance_path =
     (let missing = missing_paths input_type invoice_path attendance_path in
      if missing = [] then None
      else Some (MissingInputPath (payroll_input_type_as_str input_type) missing))"

definition parse_payroll_api_request :: "json \<Rightarrow> payroll_api_error + payroll_run_request" where
  "parse_payroll_api_request payload =
     (case as_object payload of
        None \<Rightarrow> Inl InvalidPayload
      | Some object \<Rightarrow>
          (case raw_payload_from_value object of
             None \<Rightarrow> Inl InvalidPayload
           | Some raw \<Rightarrow>
               (let metadata = metadata_map (raw_metadata raw);
                    request_id = unwrap_or []
                      (opt_or (opt_or (json_text (raw_request_id raw))
                         (metadata_text metadata ''request_id''))
                       (metadata_text metadata ''requestId''));
                    validate_only =
                      (is_some_and truthy (raw_validate_only raw)
                       \<or> is_some_and truthy (bt_get ''validate_only'' metadata)
                       \<or> is_some_and truthy (bt_get ''validateOnly'' metadata))
                in case scope_from_raw raw of
                     Inl e \<Rightarrow> Inl e
                   | Inr scope \<Rightarrow>
                       (case parse_input_type (raw_input_type raw) of
                          Inl e \<Rightarrow> Inl e
                        | Inr input_type \<Rightarrow>
                            (let invoice_path = path_from_value (raw_invoice_path raw);
                                 attendance_path = path_from_value (raw_attendance_path raw)
                             in case validate_required_paths input_type invoice_path attendance_path of
                                  Some e \<Rightarrow> Inl e
                                | None \<Rightarrow>
                                    Inr \<lparr>prq_request_id = request_id, prq_scope = scope,
                                         prq_input_type = input_type,
                                         prq_invoice_path = invoice_path,
                                         prq_attendance_path = attendance_path,
                                         prq_tenant_id = json_text (raw_tenant_id raw),
                                         prq_metadata = metadata,
                                         prq_validate_only = validate_only\<rparr>)))))"

definition request_id_from_payload :: "json \<Rightarrow> string" where
  "request_id_from_payload payload =
     (case as_object payload of
        None \<Rightarrow> []
      | Some object \<Rightarrow>
          (let metadata = unwrap_or [] (Option.bind (bt_get ''metadata'' object) as_object)
           in unwrap_or []
                (opt_or (opt_or (opt_or (json_text (bt_get ''request_id'' object))
                   (json_text (bt_get ''requestId'' object)))
                   (metadata_text metadata ''request_id''))
                 (metadata_text metadata ''requestId''))))"

section \<open>Scopes as text\<close>

lemma splitn_three:
  "sep \<notin> set a \<Longrightarrow> sep \<notin> set b \<Longrightarrow> splitn 3 sep (a @ sep # b @ sep # c) = [a, b, c]"
proof -
  assume s: "sep \<notin> set a" "sep \<notin> set b"
  have d: "dropWhile (\<lambda>c. c \<noteq> sep) (x @ sep # y) = sep # y"
    "takeWhile (\<lambda>c. c \<noteq> sep) (x @ sep # y) = x" if "sep \<notin> set x" for x y
    using that by (induction x) auto
  show ?thesis
    by (simp add: numeral_3_eq_3 numeral_2_eq_2 d[OF s(1)] d[OF s(2)])
qed

lemma ws_len_append: "a \<noteq> [] \<Longrightarrow> ws_len a = 0 \<Longrightarrow> graphic c \<or> c = scope_separator \<Longrightarrow> ws_len (a @ c # t) = 0"
proof -
  assume a: "a \<noteq> []" "ws_len a = 0" and c: "graphic c \<or> c = scope_separator"
  have nc: "\<not> ws2 x c" "\<not> ws3 x c y" "\<not> ws3 x y c" for x y
    using c by (auto simp: ws2_def ws3_def graphic_def char_code_def scope_separator_def)
  show ?thesis
    using a nc by (auto simp: ws_len_def split: list.splits if_splits)
qed

lemma trim_ws_len: "trim s = s \<Longrightarrow> ws_len s = 0"
  using ws_len_trim_end[OF ws_len_trim_start, of s] by (simp add: trim_def)

text \<open>A scope as the constructor makes it, with both names present and free of separators.\<close>

definition scope_ok :: "payroll_scope \<Rightarrow> bool" where
  "scope_ok s \<longleftrightarrow>
     scp_affiliate s \<noteq> [] \<and> trim (scp_affiliate s) = scp_affiliate s \<and>
     scp_workplace s \<noteq> [] \<and> trim (scp_workplace s) = scp_workplace s \<and>
     trim (scp_period s) = scp_period s \<and> is_period (scp_period s)"

lemma period_parts:
  assumes "is_period p"
  obtains y m where "p = y @ CHR ''-'' # m" "list_all is_digit y" "list_all is_digit m" "length y = 4" "length m = 2"
proof -
  have "p = take 4 p @ p ! 4 # drop 5 p"
    using assms id_take_nth_drop[of 4 p] by (simp add: is_period_def)
  with assms show ?thesis by (intro that[of "take 4 p" "drop 5 p"]) (simp_all add: is_period_def)
qed

lemma joined_scope:
  assumes "scope_ok s" "graphic sep \<or> sep = scope_separator"
  shows "trim (scp_affiliate s @ sep # scp_workplace s @ sep # scp_period s)
    = scp_affiliate s @ sep # scp_workplace s @ sep # scp_period s" (is "trim ?s = ?s")
proof (rule trim_literal)
  show "ws_len ?s = 0"
    using assms trim_ws_len by (auto simp: scope_ok_def intro!: ws_len_append)
  have "is_period (scp_period s)" using assms(1) by (simp add: scope_ok_def)
  then obtain y m where p: "scp_period s = y @ CHR ''-'' # m" "list_all is_digit m" "length m = 2"
    by (rule period_parts)
  from p(2,3) obtain m' d where "m = m' @ [d]" "is_digit d" by (cases m rule: rev_cases) auto
  then show "ws_len_rev (rev ?s) = 0" using is_digit_not_ws by (simp add: p(1))
qed

lemma parse_joined_scope:
  assumes "scope_ok s" "sep = scope_separator \<or> (sep = CHR ''/'' \<and> scope_separator \<notin>
      set (scp_affiliate s) \<union> set (scp_workplace s) \<union> set (scp_period s))"
    and "sep \<notin> set (scp_affiliate s)" "sep \<notin> set (scp_workplace s)"
  shows "parse_api (scp_affiliate s @ sep # scp_workplace s @ sep # scp_period s) = Inr s"
proof -
  have g: "graphic (CHR ''/'')" "CHR ''/'' \<noteq> scope_separator"
    by (simp_all add: graphic_def char_code_def scope_separator_def)
  then have "trim (scp_affiliate s @ sep # scp_workplace s @ sep # scp_period s)
    = scp_affiliate s @ sep # scp_workplace s @ sep # scp_period s"
    using assms(2) by (intro joined_scope[OF assms(1)]) auto
  moreover have "(if scope_separator \<in> set (scp_affiliate s @ sep # scp_workplace s @ sep # scp_period s)
      then scope_separator else CHR ''/'') = sep"
    using assms(2) g(2) by auto
  moreover have "scp_period s \<noteq> []" using assms(1) by (auto simp: scope_ok_def is_period_def)
  ultimately show ?thesis
    using assms(1) by (simp add: parse_api_def Let_def splitn_three[OF assms(3,4)] payroll_scope_new_def scope_ok_def)
qed

section \<open>Properties\<close>

text \<open>
  The key of a scope reads back as the scope when no part holds the unit separator, and
  so does its display form when neither name holds a slash.
\<close>

theorem scope_roundtrip:
  assumes "scope_ok s"
    and "scope_separator \<notin> set (scp_affiliate s) \<union> set (scp_workplace s)"
  shows "parse_api (scope_key s) = Inr s \<and>
    (CHR ''/'' \<notin> set (scp_affiliate s) \<union> set (scp_workplace s) \<longrightarrow>
       parse_api (scope_display s) = Inr s)"
proof -
  have "is_period (scp_period s)" using assms(1) by (simp add: scope_ok_def)
  then obtain y m where p: "scp_period s = y @ CHR ''-'' # m" "list_all is_digit y" "list_all is_digit m"
    by (rule period_parts)
  have "\<not> is_digit scope_separator" "scope_separator \<noteq> CHR ''-''"
    by (simp_all add: is_digit_def char_code_def scope_separator_def)
  then have "scope_separator \<notin> set (scp_period s)"
    using p digits_not_in by auto
  then show ?thesis
    using parse_joined_scope[OF assms(1), of scope_separator]
      parse_joined_scope[OF assms(1), of "CHR ''/''"] assms(2)
    by (simp add: scope_key_def scope_display_def)
qed

theorem scope_roundtrip_witness:
  "let s = \<lparr>scp_affiliate = ''acme'', scp_workplace = ''plant'', scp_period = ''2026-03''\<rparr> in
   parse_api (scope_key s) = Inr s \<and> parse_api ''acme/plant/2026-03'' = Inr s"
proof -
  let ?s = "\<lparr>scp_affiliate = ''acme'', scp_workplace = ''plant'', scp_period = ''2026-03''\<rparr>"
  have "scope_ok ?s" by code_simp
  moreover have "scope_separator \<notin> set (scp_affiliate ?s) \<union> set (scp_workplace ?s)"
    by (simp add: scope_separator_def)
  ultimately show ?thesis using scope_roundtrip[of ?s] by (simp add: scope_display_def Let_def)
qed

lemma payroll_scope_new_ok:
  "payroll_scope_new a w p = Inr s \<Longrightarrow> trim a \<noteq> [] \<Longrightarrow> trim w \<noteq> [] \<Longrightarrow> scope_ok s"
  by (auto simp: payroll_scope_new_def scope_ok_def Let_def split: if_splits)

lemma parse_api_ok: "parse_api v = Inr s \<Longrightarrow> scope_ok s"
proof -
  assume p: "parse_api v = Inr s"
  define ps where "ps = map trim (splitn 3 (if scope_separator \<in> set (trim v) then scope_separator else CHR ''/'') (trim v))"
  from p obtain a w q where l: "ps = [a, w, q]" "a \<noteq> []" "w \<noteq> []" "payroll_scope_new a w q = Inr s"
    unfolding parse_api_def Let_def ps_def[symmetric] by (auto split: list.splits if_splits)
  then have "trim a = a" "trim w = w" unfolding ps_def by (auto simp: map_eq_Cons_conv)
  with l show ?thesis by (auto intro: payroll_scope_new_ok)
qed

lemma scope_from_parts_ok:
  assumes "scope_from_parts (json_text a) (json_text w) (json_text p) = Inr s"
  shows "scope_ok s"
proof -
  from assms have n: "unwrap_or [] (json_text a) \<noteq> []" "unwrap_or [] (json_text w) \<noteq> []"
    "payroll_scope_new (unwrap_or [] (json_text a)) (unwrap_or [] (json_text w))
       (unwrap_or [] (json_text p)) = Inr s"
    by (auto simp: scope_from_parts_def Let_def split: if_splits)
  then have "trim (unwrap_or [] (json_text a)) \<noteq> []" "trim (unwrap_or [] (json_text w)) \<noteq> []"
    using json_text_trimmed by (cases "json_text a"; cases "json_text w"; simp)+
  with n(3) show ?thesis by (rule payroll_scope_new_ok)
qed

lemma scope_from_raw_ok: "scope_from_raw raw = Inr s \<Longrightarrow> scope_ok s"
  by (auto simp: scope_from_raw_def split: option.splits intro: parse_api_ok scope_from_parts_ok)


definition sample_payload :: json where
  "sample_payload = JObj [(''invoicePath'', JStr ''a.xlsx''), (''scope'', JStr ''acme/plant/2026-03'')]"


text \<open>
  A field given under two of its names makes the whole payload invalid, although the
  request id of such a payload can be read and the payload is an object.
\<close>

theorem alias_conflict_rejected:
  assumes "bt_get ''request_id'' object = Some (JStr s)" and "bt_get ''requestId'' object = Some v"
    and "trim s \<noteq> []"
  shows "parse_payroll_api_request (JObj object) = Inl InvalidPayload \<and>
    request_id_from_payload (JObj object) = trim s"
proof -
  have "(''request_id'', JStr s) \<in> set object" "(''requestId'', v) \<in> set object"
    using assms(1,2) by (simp_all add: bt_get_def map_of_SomeD)
  moreover define names where "names = filter (\<lambda>(key, _). key \<in> set [''request_id'', ''requestId'']) object"
  ultimately have "(''request_id'', JStr s) \<in> set names" "(''requestId'', v) \<in> set names" by simp_all
  then have "case names of [] \<Rightarrow> False | [_] \<Rightarrow> False | _ \<Rightarrow> True" by (auto split: list.split)
  then have "raw_field [''request_id'', ''requestId''] object = None"
    unfolding raw_field_def names_def[symmetric] by (auto split: list.splits)
  then show ?thesis
    using assms by (simp add: parse_payroll_api_request_def raw_payload_from_value_def
        request_id_from_payload_def Let_def)
qed

theorem alias_conflict_rejected_witness:
  "parse_payroll_api_request (JObj [(''requestId'', JStr ''b''), (''request_id'', JStr ''a'')])
     = Inl InvalidPayload"
  using alias_conflict_rejected[of "[(''requestId'', JStr ''b''), (''request_id'', JStr ''a'')]" "''a''" "JStr ''b''"]
    trim_graphic[of "''a''"]
  by (simp add: bt_get_def graphic_def char_code_def)

end
