(* ===== verification/Execution_Plan.thy ===== *)
theory Execution_Plan
  imports Request
begin

text \<open>
  Planning the steps of a payroll run: \<open>crates/payroll-api/src/execution_plan.rs\<close>.
\<close>

section \<open>Data\<close>

definition payroll_rust_native_executor :: string where
  "payroll_rust_native_executor = ''bitween_payroll_api::PayrollApiService''"

datatype payroll_execution_backend = RustNative

fun execution_backend_as_str :: "payroll_execution_backend \<Rightarrow> string" where
  "execution_backend_as_str RustNative = ''rust_native''"

datatype payroll_execution_step_kind =
    ExtractAttendance
  | BuildAttendanceInvoice
  | AttachAttendanceSheet
  | ProcessInvoice

fun step_kind_as_str :: "payroll_execution_step_kind \<Rightarrow> string" where
  "step_kind_as_str ExtractAttendance = ''extract_attendance''"
| "step_kind_as_str BuildAttendanceInvoice = ''build_attendance_invoice''"
| "step_kind_as_str AttachAttendanceSheet = ''attach_attendance_sheet''"
| "step_kind_as_str ProcessInvoice = ''process_invoice''"

record payroll_execution_step =
  pst_kind :: payroll_execution_step_kind
  pst_backend :: payroll_execution_backend
  pst_input :: string
  pst_output :: string
  pst_description :: string

record payroll_execution_plan =
  pxp_ok :: bool
  pxp_scope :: string
  pxp_scope_key :: string
  pxp_affiliate :: string
  pxp_workplace :: string
  pxp_period :: string
  pxp_input_type :: payroll_input_type
  pxp_requested_input_type :: payroll_input_type
  pxp_backend :: payroll_execution_backend
  pxp_executor :: string
  pxp_source_paths :: "(string \<times> string) list"
  pxp_missing_source_paths :: "string list"
  pxp_steps :: "payroll_execution_step list"
  pxp_operation_policy :: operation_policy
  pxp_operation_policy_source :: string
  pxp_warnings :: "string list"

section \<open>Operations\<close>

definition execution_step ::
    "payroll_execution_step_kind \<Rightarrow> string \<Rightarrow> string \<Rightarrow> string \<Rightarrow> payroll_execution_step" where
  "execution_step kind inp out description =
     \<lparr>pst_kind = kind, pst_backend = RustNative, pst_input = inp, pst_output = out,
      pst_description = description\<rparr>"

definition attendance_steps :: "string \<Rightarrow> payroll_execution_step list" where
  "attendance_steps attendance_path =
     [execution_step ExtractAttendance attendance_path ''attendance_rows''
        ''Extract attendance rows for the selected workplace and period.'',
      execution_step BuildAttendanceInvoice ''attendance_rows'' ''generated:attendance_invoice''
        ''Build an invoice workbook from attendance rows through the Rust payroll service contract.'',
      execution_step ProcessInvoice ''generated:attendance_invoice'' ''payroll_outputs''
        ''Process the generated attendance invoice through the Rust payroll service contract.'']"

definition invoice_step :: "string \<Rightarrow> payroll_execution_step" where
  "invoice_step invoice_path =
     execution_step ProcessInvoice invoice_path ''payroll_outputs''
       ''Process the invoice workbook through the Rust payroll service contract.''"

definition mixed_steps :: "string \<Rightarrow> string \<Rightarrow> payroll_execution_step list" where
  "mixed_steps invoice_path attendance_path =
     [execution_step ExtractAttendance attendance_path ''attendance_rows''
        ''Extract attendance rows with the Rust payroll service contract before merging them into the invoice workbook.'',
      execution_step AttachAttendanceSheet (invoice_path @ '' + attendance_rows'')
        ''generated:mixed_invoice''
        ''Attach the attendance sheet to the supplied invoice workbook through the Rust payroll service contract.'',
      execution_step ProcessInvoice ''generated:mixed_invoice'' ''payroll_outputs''
        ''Process the merged invoice workbook through the Rust payroll service contract.'']"

definition source_paths :: "payroll_run_request \<Rightarrow> (string \<times> string) list" where
  "source_paths request =
     (let m = (case prq_invoice_path request of
            Some path \<Rightarrow> bt_insert ''invoice'' path [] | None \<Rightarrow> []) in
      case prq_attendance_path request of
        Some path \<Rightarrow> bt_insert ''attendance'' path m | None \<Rightarrow> m)"

definition missing_invoice_warning :: string where
  "missing_invoice_warning =
     ''mixed request is missing invoice; planned attendance-only Rust execution path''"

definition missing_attendance_warning :: string where
  "missing_attendance_warning =
     ''mixed request is missing attendance; planned invoice-only Rust execution path''"

definition planned_input_type ::
    "payroll_run_request \<Rightarrow> operation_policy \<Rightarrow> payroll_input_type \<times> string list" where
  "planned_input_type request policy =
     (let input_type = resolved_input_type request policy in
      if input_type \<noteq> InputMixed then (input_type, [])
      else case (prq_invoice_path request, prq_attendance_path request) of
        (None, Some _) \<Rightarrow> (InputAttendance, [missing_invoice_warning])
      | (Some _, None) \<Rightarrow> (InputInvoice, [missing_attendance_warning])
      | _ \<Rightarrow> (InputMixed, []))"

text \<open>
  The match on the input type: the source paths, the missing ones, the steps and the
  warnings.  None is the \<open>unreachable!\<close> of an automatic type.
\<close>

definition plan_sources ::
    "payroll_input_type \<Rightarrow> (string \<times> string) list \<Rightarrow> string list
     \<Rightarrow> ((string \<times> string) list \<times> string list \<times> payroll_execution_step list \<times> string list) option" where
  "plan_sources input_type paths warnings =
     (case input_type of
        InputInvoice \<Rightarrow>
          (case bt_get ''invoice'' paths of
             Some invoice_path \<Rightarrow> Some (paths, [], [invoice_step invoice_path], warnings)
           | None \<Rightarrow> Some (paths, [''invoice''], [], warnings))
      | InputAttendance \<Rightarrow>
          (case bt_get ''attendance'' paths of
             Some attendance_path \<Rightarrow> Some (paths, [], attendance_steps attendance_path, warnings)
           | None \<Rightarrow> Some (paths, [''attendance''], [], warnings))
      | InputMixed \<Rightarrow>
          (case (bt_get ''invoice'' paths, bt_get ''attendance'' paths) of
             (Some invoice_path, Some attendance_path) \<Rightarrow>
               Some (paths, [], mixed_steps invoice_path attendance_path, warnings)
           | (Some invoice_path, None) \<Rightarrow>
               Some (bt_remove ''attendance'' paths, [], [invoice_step invoice_path],
                     warnings @ [missing_attendance_warning])
           | (None, Some attendance_path) \<Rightarrow>
               Some (bt_remove ''invoice'' paths, [], attendance_steps attendance_path,
                     warnings @ [missing_invoice_warning])
           | (None, None) \<Rightarrow> Some (paths, [''invoice'', ''attendance''], [], warnings))
      | InputAuto \<Rightarrow> None)"

definition plan_payroll_execution ::
    "payroll_run_request \<Rightarrow> operation_policy_snapshot \<Rightarrow> payroll_execution_plan option" where
  "plan_payroll_execution request policy_snapshot =
     (let policy_snapshot = ops_normalize policy_snapshot;
          paths = source_paths request;
          (input_type, warnings) = planned_input_type request (ops_policy policy_snapshot)
      in map_option
           (\<lambda>(paths, missing, steps, warnings).
              \<lparr>pxp_ok = (missing = []),
               pxp_scope = scope_display (prq_scope request),
               pxp_scope_key = scope_key (prq_scope request),
               pxp_affiliate = scp_affiliate (prq_scope request),
               pxp_workplace = scp_workplace (prq_scope request),
               pxp_period = scp_period (prq_scope request),
               pxp_input_type = input_type,
               pxp_requested_input_type = prq_input_type request,
               pxp_backend = RustNative,
               pxp_executor = payroll_rust_native_executor,
               pxp_source_paths = paths,
               pxp_missing_source_paths = missing,
               pxp_steps = steps,
               pxp_operation_policy = ops_policy policy_snapshot,
               pxp_operation_policy_source = ops_source policy_snapshot,
               pxp_warnings = warnings\<rparr>)
           (plan_sources input_type paths warnings))"

section \<open>Source paths\<close>

lemma path_keys_ordered: "(''attendance'' :: string) < ''invoice''"
  by code_simp

lemma source_paths_get:
  "bt_get ''invoice'' (source_paths r) = prq_invoice_path r"
  "bt_get ''attendance'' (source_paths r) = prq_attendance_path r"
  by (cases "prq_invoice_path r"; cases "prq_attendance_path r";
      simp add: source_paths_def bt_get_def path_keys_ordered)+

lemma resolved_never_auto: "resolved_input_type r policy \<noteq> InputAuto"
  by (auto simp: resolved_input_type_def inferred_input_type_def
      split: payroll_input_type.split payroll_input_basis.split option.split)

lemma planned_never_auto: "fst (planned_input_type r policy) \<noteq> InputAuto"
  using resolved_never_auto by (auto simp: planned_input_type_def Let_def split: option.split)

text \<open>The steps of a plan form a pipeline: every step but the first reads what an earlier one wrote.\<close>

fun pipeline :: "string list \<Rightarrow> payroll_execution_step list \<Rightarrow> bool" where
  "pipeline known [] = True"
| "pipeline known (s # rest) \<longleftrightarrow>
     (\<exists>k \<in> set known. pst_input s = k \<or> (\<exists>j \<in> set known. pst_input s = j @ '' + '' @ k))
     \<and> pipeline (pst_output s # known) rest"

section \<open>Properties\<close>



end
