(* ===== verification/Policy_Resolution.thy ===== *)
theory Policy_Resolution
  imports Policy
begin

text \<open>
  Which operation policy applies at a workplace: \<open>crates/payroll-api/src/policy_resolution.rs\<close>.
  A site's own policy goes before the tenant's, which goes before the built-in one; a
  workplace is looked up under its canonical name.
\<close>

section \<open>Data\<close>

datatype operation_policy_source = SourceSite | SourceTenant | SourceGlobal

fun operation_policy_source_as_str :: "operation_policy_source \<Rightarrow> string" where
  "operation_policy_source_as_str SourceSite = ''site''"
| "operation_policy_source_as_str SourceTenant = ''tenant''"
| "operation_policy_source_as_str SourceGlobal = ''global''"

record payroll_policy_settings =
  pps_tenant_policy :: "operation_policy option"
  pps_site_policies :: "(string \<times> operation_policy) list"
  pps_workplace_aliases :: "(string \<times> string list) list"

text \<open>The loop over the aliases: the first entry that knows the name gives its canonical form.\<close>

fun find_canonical :: "string \<Rightarrow> (string \<times> string list) list \<Rightarrow> string option" where
  "find_canonical workplace [] = None"
| "find_canonical workplace ((canonical, aliases) # rest) =
     (let canonical = trim canonical in
      if workplace = canonical \<or> list_ex (\<lambda>alias. alias = workplace) (map trim aliases)
      then Some canonical else find_canonical workplace rest)"

definition canonical_workplace :: "string \<Rightarrow> (string \<times> string list) list \<Rightarrow> string" where
  "canonical_workplace workplace workplace_aliases =
     (if workplace = [] then []
      else unwrap_or workplace (find_canonical workplace workplace_aliases))"

definition pps_with_tenant_policy :: "operation_policy \<Rightarrow> payroll_policy_settings \<Rightarrow> payroll_policy_settings" where
  "pps_with_tenant_policy policy s = s\<lparr>pps_tenant_policy := Some policy\<rparr>"

definition pps_with_site_policy ::
    "string \<Rightarrow> operation_policy \<Rightarrow> payroll_policy_settings \<Rightarrow> payroll_policy_settings" where
  "pps_with_site_policy workplace policy s =
     (let workplace = trim workplace in
      if workplace \<noteq> []
      then s\<lparr>pps_site_policies :=
             bt_insert (canonical_workplace workplace (pps_workplace_aliases s)) policy
               (pps_site_policies s)\<rparr>
      else s)"

definition pps_with_workplace_aliases ::
    "string \<Rightarrow> string list \<Rightarrow> payroll_policy_settings \<Rightarrow> payroll_policy_settings" where
  "pps_with_workplace_aliases canonical aliases s =
     (let canonical = trim canonical in
      if canonical = [] then s
      else
        let values = filter (\<lambda>value. value \<noteq> []) (map trim aliases);
            values = (if canonical \<notin> set values then values @ [canonical] else values)
        in s\<lparr>pps_workplace_aliases :=
               bt_insert canonical (remdups_adj (sort values)) (pps_workplace_aliases s)\<rparr>)"

record resolved_operation_policy =
  rop_workplace :: string
  rop_policy :: operation_policy
  rop_source :: operation_policy_source
  rop_has_site_override :: bool

definition rop_snapshot :: "resolved_operation_policy \<Rightarrow> operation_policy_snapshot" where
  "rop_snapshot r =
     operation_policy_snapshot_new (rop_policy r) (operation_policy_source_as_str (rop_source r))"

section \<open>Resolution\<close>

definition resolved ::
    "string \<Rightarrow> operation_policy \<Rightarrow> operation_policy_source \<Rightarrow> bool \<Rightarrow> resolved_operation_policy" where
  "resolved workplace policy source has_site_override =
     \<lparr>rop_workplace = workplace, rop_policy = operation_policy_normalized policy,
      rop_source = source, rop_has_site_override = has_site_override\<rparr>"

definition resolve_operation_policy :: "string \<Rightarrow> payroll_policy_settings \<Rightarrow> resolved_operation_policy" where
  "resolve_operation_policy workplace settings =
     (let workplace = canonical_workplace (trim workplace) (pps_workplace_aliases settings) in
      case (if workplace \<noteq> [] then bt_get workplace (pps_site_policies settings) else None) of
        Some policy \<Rightarrow> resolved workplace policy SourceSite True
      | None \<Rightarrow>
          (case pps_tenant_policy settings of
             Some policy \<Rightarrow> resolved workplace policy SourceTenant False
           | None \<Rightarrow> resolved workplace operation_policy_default SourceGlobal False))"

section \<open>Canonical names\<close>

lemma find_canonical_alias:
  "find_canonical w m = Some c \<Longrightarrow>
     \<exists>k as. (k, as) \<in> set m \<and> c = trim k \<and> (w = c \<or> w \<in> trim ` set as)"
  by (induction w m rule: find_canonical.induct)
    (auto simp: Let_def list_ex_iff split: if_splits)

lemma canonical_workplace_trim: "trim w = w \<Longrightarrow> trim (canonical_workplace w m) = canonical_workplace w m"
  using find_canonical_alias[of w m]
  by (cases "find_canonical w m") (auto simp: canonical_workplace_def)

section \<open>Properties\<close>

text \<open>
  A site policy that was stored for a workplace is the one resolved for it, under any
  spelling that canonicalises to the same name, normalised and marked as the site's own;
  workplaces with another canonical name resolve as before.
\<close>

theorem site_policy_lookup:
  assumes "bt_ok (pps_site_policies s)"
    and "canonical_workplace (trim w) (pps_workplace_aliases s) = c" and "c \<noteq> []"
  shows "let s' = pps_with_site_policy w p s in
    (canonical_workplace (trim v) (pps_workplace_aliases s) = c \<longrightarrow>
       resolve_operation_policy v s' = resolved c p SourceSite True) \<and>
    (canonical_workplace (trim v) (pps_workplace_aliases s) \<noteq> c \<longrightarrow>
       resolve_operation_policy v s' = resolve_operation_policy v s)"
proof -
  have "trim w \<noteq> []" using assms(2,3) by (auto simp: canonical_workplace_def)
  then have s': "pps_with_site_policy w p s = s\<lparr>pps_site_policies := bt_insert c p (pps_site_policies s)\<rparr>"
    using assms(2) by (simp add: pps_with_site_policy_def Let_def)
  show ?thesis
    using assms(3)
    by (simp add: s' Let_def resolve_operation_policy_def bt_get_insert[OF assms(1)] split: option.split)
qed

theorem site_policy_lookup_witness:
  "let s = \<lparr>pps_tenant_policy = None, pps_site_policies = [],
            pps_workplace_aliases = [(''plant'', [''plant'', ''plant 1''])]\<rparr> in
   resolve_operation_policy ''plant 1'' (pps_with_site_policy ''plant'' operation_policy_default s)
     = resolved ''plant'' operation_policy_default SourceSite True"
proof -
  define s :: payroll_policy_settings where "s = \<lparr>pps_tenant_policy = None, pps_site_policies = [],
            pps_workplace_aliases = [(''plant'', [''plant'', ''plant 1''])]\<rparr>"
  have "canonical_workplace (trim ''plant'') [(''plant'', [''plant'', ''plant 1''])] = ''plant''"
    "canonical_workplace (trim ''plant 1'') [(''plant'', [''plant'', ''plant 1''])] = ''plant''"
    by code_simp+
  then have "canonical_workplace (trim ''plant'') (pps_workplace_aliases s) = ''plant''"
    "canonical_workplace (trim ''plant 1'') (pps_workplace_aliases s) = ''plant''"
    by (simp_all add: s_def)
  with site_policy_lookup[of s "''plant''" "''plant''" operation_policy_default "''plant 1''"]
  have "resolve_operation_policy ''plant 1'' (pps_with_site_policy ''plant'' operation_policy_default s)
     = resolved ''plant'' operation_policy_default SourceSite True"
    by (simp add: Let_def) (simp add: s_def)
  then show ?thesis by (simp add: s_def)
qed

text \<open>
  The resolved policy is always in normal form, names its source truthfully, and follows
  the precedence of the site over the tenant over the built-in policy.
\<close>

theorem resolution_precedence:
  assumes "\<forall>p \<in> snd ` set (pps_site_policies s). policy_values_ok p"
    and "pred_option policy_values_ok (pps_tenant_policy s)"
  shows "let r = resolve_operation_policy w s; c = canonical_workplace (trim w) (pps_workplace_aliases s) in
    operation_canonical (rop_policy r) \<and> rop_workplace r = c \<and>
    (rop_has_site_override r \<longleftrightarrow> rop_source r = SourceSite) \<and>
    (rop_source r = SourceSite \<longleftrightarrow> c \<noteq> [] \<and> bt_get c (pps_site_policies s) \<noteq> None) \<and>
    (rop_source r = SourceGlobal \<longrightarrow> pps_tenant_policy s = None \<and> rop_policy r = operation_policy_default)"
proof -
  have canon: "operation_canonical (operation_policy_normalized p)" if "policy_values_ok p" for p
    using operation_normalize_canonical[OF operation_to_value_ok[OF that]]
    by (simp add: operation_policy_normalized_def)
  have d: "policy_values_ok operation_policy_default"
    by (simp add: policy_values_ok_def operation_policy_default_def attendance_policy_default_def)
  have site: "policy_values_ok p" if "bt_get c (pps_site_policies s) = Some p" for c p
  proof -
    have "(c, p) \<in> set (pps_site_policies s)" using that by (simp add: bt_get_def map_of_SomeD)
    then have "p \<in> snd ` set (pps_site_policies s)" by (rule rev_image_eqI) simp
    with assms(1) show ?thesis by blast
  qed
  show ?thesis
    using canon site assms(2) operation_default_canonical
      operation_canonical_fixed[OF operation_default_canonical]
    by (auto simp: resolve_operation_policy_def resolved_def Let_def split: option.splits if_splits)
qed

theorem resolution_precedence_witness:
  "let s = \<lparr>pps_tenant_policy = Some (operation_policy_new BasisInvoice), pps_site_policies = [],
            pps_workplace_aliases = []\<rparr> in
   rop_source (resolve_operation_policy ''plant'' s) \<noteq> SourceSite"
  using resolution_precedence[of "\<lparr>pps_tenant_policy = Some (operation_policy_new BasisInvoice),
      pps_site_policies = [], pps_workplace_aliases = []\<rparr>" "''plant''"]
  by (simp add: Let_def policy_values_ok_def operation_policy_new_def operation_policy_default_def
      attendance_policy_default_def bt_get_def)

end
