(* ===== verification/Response.thy ===== *)
theory Response
  imports Request Policy_Resolution
begin

text \<open>
  Answers of the payroll API: the validation of a request
  (\<open>crates/payroll-api/src/response.rs\<close>) and the report of a run
  (\<open>crates/payroll-api/src/run.rs\<close>).
\<close>

section \<open>Validation\<close>

record payroll_validation_response =
  pvr_ok :: bool
  pvr_status :: string
  pvr_will_run :: bool
  pvr_can_run :: bool
  pvr_request_id :: string
  pvr_scope :: string
  pvr_scope_key :: string
  pvr_affiliate :: string
  pvr_workplace :: string
  pvr_period :: string
  pvr_input_type :: payroll_input_type
  pvr_requested_input_type :: payroll_input_type
  pvr_tenant_id :: string
  pvr_paths :: "(string \<times> string) list"
  pvr_metadata_keys :: "string list"
  pvr_operation_policy :: operation_policy
  pvr_operation_policy_source :: string
  pvr_warnings :: "string list"
  pvr_error_code :: string
  pvr_details :: json
  pvr_error :: string

record payroll_api_error_response =
  per_err_ok :: bool
  per_err_status :: string
  per_err_will_run :: bool
  per_err_can_run :: bool
  per_err_request_id :: string
  per_err_error_code :: string
  per_err_error :: string
  per_err_warnings :: "string list"
  per_err_details :: json

datatype payroll_api_response =
    Validated payroll_validation_response
  | ErrorResponse payroll_api_error_response

fun api_response_ok :: "payroll_api_response \<Rightarrow> bool" where
  "api_response_ok (Validated _) = True"
| "api_response_ok (ErrorResponse _) = False"

definition request_paths :: "payroll_run_request \<Rightarrow> (string \<times> string) list" where
  "request_paths request =
     (let paths = [];
          paths = (case prq_invoice_path request of
              Some path \<Rightarrow> bt_insert ''invoice'' path paths | None \<Rightarrow> paths);
          paths = (case prq_attendance_path request of
              Some path \<Rightarrow> bt_insert ''attendance'' path paths | None \<Rightarrow> paths)
      in paths)"

definition validation_from_request ::
    "payroll_run_request \<Rightarrow> operation_policy_snapshot \<Rightarrow> payroll_validation_response" where
  "validation_from_request request policy_snapshot =
     (let policy_snapshot = ops_normalize policy_snapshot in
      \<lparr>pvr_ok = True, pvr_status = ''validated'', pvr_will_run = False, pvr_can_run = True,
       pvr_request_id = prq_request_id request,
       pvr_scope = scope_display (prq_scope request),
       pvr_scope_key = scope_key (prq_scope request),
       pvr_affiliate = scp_affiliate (prq_scope request),
       pvr_workplace = scp_workplace (prq_scope request),
       pvr_period = scp_period (prq_scope request),
       pvr_input_type = resolved_input_type request (ops_policy policy_snapshot),
       pvr_requested_input_type = prq_input_type request,
       pvr_tenant_id = unwrap_or [] (prq_tenant_id request),
       pvr_paths = request_paths request,
       pvr_metadata_keys = map fst (prq_metadata request),
       pvr_operation_policy = ops_policy policy_snapshot,
       pvr_operation_policy_source = ops_source policy_snapshot,
       pvr_warnings = [], pvr_error_code = [], pvr_details = JObj [], pvr_error = []\<rparr>)"

definition error_response_from_error ::
    "payroll_api_error \<Rightarrow> string \<Rightarrow> payroll_api_error_response" where
  "error_response_from_error error request_id =
     (let message = error_to_string error in
      \<lparr>per_err_ok = False, per_err_status = ''error'', per_err_will_run = False,
       per_err_can_run = False, per_err_request_id = request_id,
       per_err_error_code = error_code error, per_err_error = message,
       per_err_warnings = [message], per_err_details = error_details error\<rparr>)"

definition operation_policy_snapshot_default :: operation_policy_snapshot where
  "operation_policy_snapshot_default = \<lparr>ops_policy = operation_policy_default, ops_source = []\<rparr>"

definition validate_payroll_api_payload ::
    "json \<Rightarrow> operation_policy_snapshot option \<Rightarrow> payroll_api_response" where
  "validate_payroll_api_payload payload policy_snapshot =
     (let request_id = request_id_from_payload payload in
      case parse_payroll_api_request payload of
        Inr request \<Rightarrow> Validated (validation_from_request request
          (unwrap_or operation_policy_snapshot_default policy_snapshot))
      | Inl error \<Rightarrow> ErrorResponse (error_response_from_error error request_id))"

definition validate_payroll_api_payload_with_policy_settings ::
    "json \<Rightarrow> payroll_policy_settings \<Rightarrow> payroll_api_response" where
  "validate_payroll_api_payload_with_policy_settings payload settings =
     (let request_id = request_id_from_payload payload in
      case parse_payroll_api_request payload of
        Inr request \<Rightarrow>
          (let res = resolve_operation_policy (scp_workplace (prq_scope request)) settings
           in Validated (validation_from_request request (rop_snapshot res)))
      | Inl error \<Rightarrow> ErrorResponse (error_response_from_error error request_id))"

section \<open>The report of a run\<close>

record payroll_run_result =
  prr_ok :: bool
  prr_scope :: payroll_scope
  prr_input_type :: payroll_input_type
  prr_count :: u64
  prr_warnings :: "string list"
  prr_paths :: "(string \<times> string) list"
  prr_payroll_audit :: json
  prr_roster :: json
  prr_operation_policy :: operation_policy
  prr_operation_policy_source :: string
  prr_error :: string

definition run_success :: "payroll_scope \<Rightarrow> payroll_input_type \<Rightarrow> payroll_run_result" where
  "run_success scope input_type =
     \<lparr>prr_ok = True, prr_scope = scope, prr_input_type = input_type, prr_count = 0,
      prr_warnings = [], prr_paths = [], prr_payroll_audit = JObj [], prr_roster = JObj [],
      prr_operation_policy = operation_policy_default, prr_operation_policy_source = [],
      prr_error = []\<rparr>"

definition run_failure :: "payroll_scope \<Rightarrow> payroll_input_type \<Rightarrow> string \<Rightarrow> payroll_run_result" where
  "run_failure scope input_type error =
     (run_success scope input_type)\<lparr>prr_ok := False, prr_error := error\<rparr>"

definition prr_with_count :: "u64 \<Rightarrow> payroll_run_result \<Rightarrow> payroll_run_result" where
  "prr_with_count count r = r\<lparr>prr_count := count\<rparr>"

definition prr_with_warning :: "string \<Rightarrow> payroll_run_result \<Rightarrow> payroll_run_result" where
  "prr_with_warning warning r = r\<lparr>prr_warnings := prr_warnings r @ [warning]\<rparr>"

definition prr_with_path :: "string \<Rightarrow> string \<Rightarrow> payroll_run_result \<Rightarrow> payroll_run_result" where
  "prr_with_path name path r = r\<lparr>prr_paths := bt_insert name path (prr_paths r)\<rparr>"

definition prr_with_payroll_audit :: "json \<Rightarrow> payroll_run_result \<Rightarrow> payroll_run_result" where
  "prr_with_payroll_audit payroll_audit r = r\<lparr>prr_payroll_audit := payroll_audit\<rparr>"

definition prr_with_roster :: "json \<Rightarrow> payroll_run_result \<Rightarrow> payroll_run_result" where
  "prr_with_roster roster r = r\<lparr>prr_roster := roster\<rparr>"

definition prr_with_operation_policy ::
    "operation_policy \<Rightarrow> string \<Rightarrow> payroll_run_result \<Rightarrow> payroll_run_result" where
  "prr_with_operation_policy operation_policy source r =
     r\<lparr>prr_operation_policy := operation_policy, prr_operation_policy_source := source\<rparr>"

record payroll_run_response =
  prs_ok :: bool
  prs_status :: string
  prs_will_run :: bool
  prs_can_run :: bool
  prs_request_id :: string
  prs_scope :: string
  prs_scope_key :: string
  prs_affiliate :: string
  prs_workplace :: string
  prs_period :: string
  prs_input_type :: payroll_input_type
  prs_count :: u64
  prs_warnings :: "string list"
  prs_paths :: "(string \<times> string) list"
  prs_payroll_audit :: json
  prs_roster :: json
  prs_operation_policy :: operation_policy
  prs_operation_policy_source :: string
  prs_error_code :: string
  prs_details :: json
  prs_error :: string

definition run_response_from_result :: "payroll_run_result \<Rightarrow> string \<Rightarrow> payroll_run_response" where
  "run_response_from_result result request_id =
     (let status = (if prr_ok result then ''success'' else ''error'');
          code = (if prr_ok result then [] else ''payroll_run_failed'')
      in \<lparr>prs_ok = prr_ok result, prs_status = status, prs_will_run = True,
          prs_can_run = prr_ok result, prs_request_id = request_id,
          prs_scope = scope_display (prr_scope result),
          prs_scope_key = scope_key (prr_scope result),
          prs_affiliate = scp_affiliate (prr_scope result),
          prs_workplace = scp_workplace (prr_scope result),
          prs_period = scp_period (prr_scope result),
          prs_input_type = prr_input_type result, prs_count = prr_count result,
          prs_warnings = prr_warnings result, prs_paths = prr_paths result,
          prs_payroll_audit = prr_payroll_audit result, prs_roster = prr_roster result,
          prs_operation_policy = operation_policy_normalized (prr_operation_policy result),
          prs_operation_policy_source = prr_operation_policy_source result,
          prs_error_code = code, prs_details = JObj [], prs_error = prr_error result\<rparr>)"

section \<open>Properties\<close>

lemma request_paths_get:
  "bt_get ''invoice'' (request_paths r) = prq_invoice_path r"
  "bt_get ''attendance'' (request_paths r) = prq_attendance_path r"
proof -
  have "(''attendance'' :: string) < ''invoice''" by code_simp
  then show "bt_get ''invoice'' (request_paths r) = prq_invoice_path r"
    "bt_get ''attendance'' (request_paths r) = prq_attendance_path r"
    by (cases "prq_invoice_path r"; cases "prq_attendance_path r"; simp add: request_paths_def bt_get_def)+
qed

lemma snapshot_canonical:
  assumes "policy_values_ok (ops_policy s)"
  shows "operation_canonical (ops_policy (ops_normalize s))"
  using operation_normalize_canonical[OF operation_to_value_ok[OF assms]]
  by (simp add: ops_normalize_def operation_policy_normalized_def)

text \<open>
  A validated answer is never for a run that cannot start: its input type is decided
  (never automatic), its policy is in normal form, and its paths hold a file for every input
  the requested type needs; an error answer carries the request id of the payload and the
  code of the error.
\<close>

theorem validation_sound:
  assumes "policy_values_ok (ops_policy snapshot)"
  shows "case validate_payroll_api_payload payload (Some snapshot) of
      Validated v \<Rightarrow>
        pvr_input_type v \<noteq> InputAuto \<and> operation_canonical (pvr_operation_policy v) \<and>
        missing_paths (pvr_requested_input_type v) (bt_get ''invoice'' (pvr_paths v))
          (bt_get ''attendance'' (pvr_paths v)) = []
    | ErrorResponse e \<Rightarrow>
        per_err_request_id e = request_id_from_payload payload \<and>
        (\<exists>err. parse_payroll_api_request payload = Inl err \<and> per_err_error_code e = error_code err)"
proof (cases "parse_payroll_api_request payload")
  case (Inl err)
  then show ?thesis by (simp add: validate_payroll_api_payload_def error_response_from_error_def Let_def)
next
  case (Inr r)
  have t: "resolved_input_type r p \<noteq> InputAuto" for p
    by (auto simp: resolved_input_type_def inferred_input_type_def
        split: payroll_input_type.split payroll_input_basis.split option.split)
  have "missing_paths (prq_input_type r) (prq_invoice_path r) (prq_attendance_path r) = []"
    using Inr by (auto simp: parse_payroll_api_request_def validate_required_paths_def Let_def
        split: option.splits sum.splits if_splits)
  then show ?thesis
    using Inr t snapshot_canonical[OF assms]
    by (simp add: validate_payroll_api_payload_def validation_from_request_def Let_def request_paths_get)
qed

theorem validation_sound_witness:
  "\<exists>v. validate_payroll_api_payload
       (JObj [(''invoicePath'', JStr ''a.xlsx''), (''scope'', JStr ''acme/plant/2026-03'')])
       (Some operation_policy_snapshot_default) = Validated v
     \<and> pvr_input_type v \<noteq> InputAuto"
proof -
  let ?p = "JObj [(''invoicePath'', JStr ''a.xlsx''), (''scope'', JStr ''acme/plant/2026-03'')]"
  have "map_sum (\<lambda>_. ()) (\<lambda>_. ()) (parse_payroll_api_request ?p) = Inr ()" by code_simp
  then obtain r where "parse_payroll_api_request ?p = Inr r" by (cases "parse_payroll_api_request ?p") auto
  then obtain v where v: "validate_payroll_api_payload ?p (Some operation_policy_snapshot_default) = Validated v"
    by (simp add: validate_payroll_api_payload_def Let_def)
  have "policy_values_ok (ops_policy operation_policy_snapshot_default)"
    by (simp add: policy_values_ok_def operation_policy_snapshot_default_def
        operation_policy_default_def attendance_policy_default_def)
  from validation_sound[OF this, of ?p] v show ?thesis by simp
qed

end
