(* ===== verification/Service.thy ===== *)
theory Service
  imports Prelude
begin

text \<open>
  Health and readiness of the payroll service: \<open>crates/payroll-api/src/service.rs\<close>.  The
  other methods of \<open>PayrollApiService\<close> only forward to the operations the other theories
  model; the clock is a parameter.
\<close>

section \<open>Data\<close>

datatype health_status = HealthOk

fun health_status_as_str :: "health_status \<Rightarrow> string" where
  "health_status_as_str HealthOk = ''ok''"

datatype readiness_state = Ready | Degraded | NotReady

fun readiness_state_as_str :: "readiness_state \<Rightarrow> string" where
  "readiness_state_as_str Ready = ''ready''"
| "readiness_state_as_str Degraded = ''degraded''"
| "readiness_state_as_str NotReady = ''not_ready''"

record service_config =
  svc_service_name :: string
  svc_environment :: string
  svc_build_sha :: string

definition service_config_default :: service_config where
  "service_config_default =
     \<lparr>svc_service_name = ''bitween-payroll-api'', svc_environment = ''local'', svc_build_sha = []\<rparr>"

record health_response =
  hlr_ok :: bool
  hlr_status :: health_status
  hlr_service :: string
  hlr_version :: string
  hlr_environment :: string
  hlr_build_sha :: string
  hlr_uptime_seconds :: u64

record readiness_check =
  rdc_name :: string
  rdc_state :: readiness_state
  rdc_required :: bool
  rdc_message :: string

record readiness_response =
  rdr_ready :: bool
  rdr_state :: readiness_state
  rdr_service :: string
  rdr_version :: string
  rdr_checks :: "readiness_check list"

section \<open>Operations\<close>

definition check_ready :: "string \<Rightarrow> string \<Rightarrow> readiness_check" where
  "check_ready name message =
     \<lparr>rdc_name = name, rdc_state = Ready, rdc_required = True, rdc_message = message\<rparr>"

definition check_degraded :: "string \<Rightarrow> string \<Rightarrow> readiness_check" where
  "check_degraded name message =
     \<lparr>rdc_name = name, rdc_state = Degraded, rdc_required = False, rdc_message = message\<rparr>"

definition check_not_ready :: "string \<Rightarrow> string \<Rightarrow> readiness_check" where
  "check_not_ready name message =
     \<lparr>rdc_name = name, rdc_state = NotReady, rdc_required = True, rdc_message = message\<rparr>"

definition compute_readiness_state :: "readiness_check list \<Rightarrow> readiness_state" where
  "compute_readiness_state checks =
     (if list_ex (\<lambda>check. rdc_required check \<and> rdc_state check = NotReady) checks then NotReady
      else if list_ex (\<lambda>check. rdc_state check = Degraded) checks then Degraded
      else Ready)"

definition service_readiness :: "service_config \<Rightarrow> string \<Rightarrow> readiness_check list \<Rightarrow> readiness_response" where
  "service_readiness config version checks =
     (let state = compute_readiness_state checks in
      \<lparr>rdr_ready = (state = Ready), rdr_state = state, rdr_service = svc_service_name config,
       rdr_version = version, rdr_checks = checks\<rparr>)"

definition service_health :: "service_config \<Rightarrow> string \<Rightarrow> u64 \<Rightarrow> health_response" where
  "service_health config version uptime_seconds =
     \<lparr>hlr_ok = True, hlr_status = HealthOk, hlr_service = svc_service_name config,
      hlr_version = version, hlr_environment = svc_environment config,
      hlr_build_sha = svc_build_sha config, hlr_uptime_seconds = uptime_seconds\<rparr>"

section \<open>Readiness as a join\<close>

text \<open>States in the order of severity; a check counts with its state unless it is optional and down.\<close>

instantiation readiness_state :: linorder
begin

fun severity :: "readiness_state \<Rightarrow> nat" where
  "severity Ready = 0"
| "severity Degraded = 1"
| "severity NotReady = 2"

definition less_eq_readiness_state :: "readiness_state \<Rightarrow> readiness_state \<Rightarrow> bool" where
  "a \<le> b \<longleftrightarrow> severity a \<le> severity b"

definition less_readiness_state :: "readiness_state \<Rightarrow> readiness_state \<Rightarrow> bool" where
  "a < b \<longleftrightarrow> severity a < severity b"

instance
proof
  show "a = b" if "a \<le> b" "b \<le> a" for a b :: readiness_state
    using that by (cases a; cases b) (simp_all add: less_eq_readiness_state_def)
qed (auto simp: less_eq_readiness_state_def less_readiness_state_def)

end

definition effective_state :: "readiness_check \<Rightarrow> readiness_state" where
  "effective_state c = (if rdc_state c = NotReady \<and> \<not> rdc_required c then Ready else rdc_state c)"

lemma readiness_le [simp]: "Ready \<le> s" "s \<le> NotReady" "(s \<le> Ready) = (s = Ready)" "(NotReady \<le> s) = (s = NotReady)"
  by (cases s; simp add: less_eq_readiness_state_def)+

lemma readiness_max [simp]: "max Ready s = s" "max s NotReady = NotReady" "max NotReady s = NotReady"
  by (auto simp: max_def)

section \<open>Properties\<close>

text \<open>
  The readiness of the service is the worst effective state of its checks, where an
  optional check that is down does not count.
\<close>

theorem readiness_is_worst_check:
  "compute_readiness_state checks = foldr max (map effective_state checks) Ready"
proof (induction checks)
  case (Cons c cs)
  have "compute_readiness_state (c # cs) = max (effective_state c) (compute_readiness_state cs)"
    by (cases "rdc_state c"; cases "rdc_required c")
      (auto simp: compute_readiness_state_def effective_state_def max_def less_eq_readiness_state_def)
  then show ?case by (simp add: Cons.IH)
qed (simp add: compute_readiness_state_def)

end
