(* ===== verification/Access.thy ===== *)
theory Access
  imports Request
begin

text \<open>
  Who may do what with a payroll run: \<open>crates/payroll-api/src/access.rs\<close>.  A principal has a
  role and a position, each giving permissions; an action needs one.  The sets of the source
  (\<open>BTreeSet\<close>) are sets; \<open>sorted_permissions\<close> lists one in the derived order.
\<close>

section \<open>Roles, positions, permissions and actions\<close>

datatype payroll_role = RoleStaff | RoleFinance | RoleAdmin

fun payroll_role_as_str :: "payroll_role \<Rightarrow> string" where
  "payroll_role_as_str RoleStaff = ''staff''"
| "payroll_role_as_str RoleFinance = ''finance''"
| "payroll_role_as_str RoleAdmin = ''admin''"

datatype payroll_position =
  PosCeo | PosExecutive | PosDirector | PosManager | PosTeamLead | PosSenior | PosMember | PosIntern

fun payroll_position_as_str :: "payroll_position \<Rightarrow> string" where
  "payroll_position_as_str PosCeo = ''ceo''"
| "payroll_position_as_str PosExecutive = ''executive''"
| "payroll_position_as_str PosDirector = ''director''"
| "payroll_position_as_str PosManager = ''manager''"
| "payroll_position_as_str PosTeamLead = ''team_lead''"
| "payroll_position_as_str PosSenior = ''senior''"
| "payroll_position_as_str PosMember = ''member''"
| "payroll_position_as_str PosIntern = ''intern''"

datatype payroll_permission = PermPlatform | PermExecutive | PermSettings

fun payroll_permission_as_str :: "payroll_permission \<Rightarrow> string" where
  "payroll_permission_as_str PermPlatform = ''platform.payroll''"
| "payroll_permission_as_str PermExecutive = ''platform.payroll.executive''"
| "payroll_permission_as_str PermSettings = ''platform.payroll.settings''"

datatype payroll_action = ActValidate | ActRun | ActSettings

fun payroll_action_as_str :: "payroll_action \<Rightarrow> string" where
  "payroll_action_as_str ActValidate = ''validate''"
| "payroll_action_as_str ActRun = ''run''"
| "payroll_action_as_str ActSettings = ''settings''"

text \<open>The derived order of the permissions is the order of their declaration.\<close>

instantiation payroll_permission :: linorder
begin

fun permission_rank :: "payroll_permission \<Rightarrow> nat" where
  "permission_rank PermPlatform = 1"
| "permission_rank PermExecutive = 2"
| "permission_rank PermSettings = 3"

definition less_eq_payroll_permission :: "payroll_permission \<Rightarrow> payroll_permission \<Rightarrow> bool" where
  "a \<le> b \<longleftrightarrow> permission_rank a \<le> permission_rank b"

definition less_payroll_permission :: "payroll_permission \<Rightarrow> payroll_permission \<Rightarrow> bool" where
  "a < b \<longleftrightarrow> permission_rank a < permission_rank b"

instance
proof
  show "a = b" if "a \<le> b" "b \<le> a" for a b :: payroll_permission
    using that by (cases a; cases b) (simp_all add: less_eq_payroll_permission_def)
qed (auto simp: less_eq_payroll_permission_def less_payroll_permission_def)

end

section \<open>Principals\<close>

record payroll_principal =
  ppr_user_id :: string
  ppr_tenant_id :: string
  ppr_role :: payroll_role
  ppr_position :: payroll_position
  ppr_org_unit_id :: string
  ppr_effective_platform_ids :: "string set"
  ppr_allowed_affiliates :: "string set"
  ppr_allowed_workplaces :: "string set"

definition clean_lower :: "string \<Rightarrow> string" where
  "clean_lower v = to_ascii_lowercase (trim v)"

definition payroll_principal_new :: "string \<Rightarrow> string \<Rightarrow> payroll_principal" where
  "payroll_principal_new user_id tenant_id =
     \<lparr>ppr_user_id = trim user_id, ppr_tenant_id = trim tenant_id,
      ppr_role = RoleStaff, ppr_position = PosMember, ppr_org_unit_id = [],
      ppr_effective_platform_ids = {}, ppr_allowed_affiliates = {}, ppr_allowed_workplaces = {}\<rparr>"

definition ppr_with_role :: "payroll_role \<Rightarrow> payroll_principal \<Rightarrow> payroll_principal" where
  "ppr_with_role role p = p\<lparr>ppr_role := role\<rparr>"

definition ppr_with_position :: "payroll_position \<Rightarrow> payroll_principal \<Rightarrow> payroll_principal" where
  "ppr_with_position position p = p\<lparr>ppr_position := position\<rparr>"

definition ppr_with_org_unit :: "string \<Rightarrow> payroll_principal \<Rightarrow> payroll_principal" where
  "ppr_with_org_unit org_unit_id p = p\<lparr>ppr_org_unit_id := trim org_unit_id\<rparr>"

definition ppr_with_effective_platforms :: "string list \<Rightarrow> payroll_principal \<Rightarrow> payroll_principal" where
  "ppr_with_effective_platforms platforms p =
     p\<lparr>ppr_effective_platform_ids := set (filter (\<lambda>v. v \<noteq> []) (map clean_lower platforms))\<rparr>"

definition ppr_with_allowed_affiliates :: "string list \<Rightarrow> payroll_principal \<Rightarrow> payroll_principal" where
  "ppr_with_allowed_affiliates affiliates p =
     p\<lparr>ppr_allowed_affiliates := set (filter (\<lambda>v. v \<noteq> []) (map trim affiliates))\<rparr>"

definition ppr_with_allowed_workplaces :: "string list \<Rightarrow> payroll_principal \<Rightarrow> payroll_principal" where
  "ppr_with_allowed_workplaces workplaces p =
     p\<lparr>ppr_allowed_workplaces := set (filter (\<lambda>v. v \<noteq> []) (map trim workplaces))\<rparr>"

section \<open>Permissions of a principal\<close>

definition payroll_platform_id :: string where
  "payroll_platform_id = ''payroll''"

definition all_payroll_permissions :: "payroll_permission set" where
  "all_payroll_permissions = {PermPlatform, PermExecutive, PermSettings}"

fun position_permissions :: "payroll_position \<Rightarrow> payroll_permission set" where
  "position_permissions PosCeo = all_payroll_permissions"
| "position_permissions PosExecutive = all_payroll_permissions"
| "position_permissions PosDirector = {PermPlatform, PermExecutive}"
| "position_permissions PosManager = {PermPlatform}"
| "position_permissions PosTeamLead = {PermPlatform}"
| "position_permissions PosSenior = {PermPlatform}"
| "position_permissions PosMember = {}"
| "position_permissions PosIntern = {}"

definition principal_permissions :: "payroll_principal \<Rightarrow> payroll_permission set" where
  "principal_permissions p =
     (let permissions = position_permissions (ppr_position p);
          permissions =
            (case ppr_role p of
               RoleAdmin \<Rightarrow> permissions \<union> all_payroll_permissions
             | RoleFinance \<Rightarrow> permissions \<union> {PermPlatform, PermExecutive}
             | RoleStaff \<Rightarrow> permissions)
      in if ppr_position p \<noteq> PosCeo \<and> ppr_org_unit_id p \<noteq> []
            \<and> payroll_platform_id \<notin> ppr_effective_platform_ids p
         then permissions - {PermPlatform} - {PermExecutive} - {PermSettings}
         else permissions)"

fun required_permissions :: "payroll_action \<Rightarrow> payroll_permission list" where
  "required_permissions ActValidate = [PermPlatform]"
| "required_permissions ActRun = [PermExecutive]"
| "required_permissions ActSettings = [PermSettings]"

definition sorted_permissions :: "payroll_permission set \<Rightarrow> payroll_permission list" where
  "sorted_permissions = sorted_list_of_set"

section \<open>Authorisation\<close>

record payroll_access_decision =
  pad_ok :: bool
  pad_allowed :: bool
  pad_action :: payroll_action
  pad_user_id :: string
  pad_tenant_id :: string
  pad_scope :: string
  pad_reason_code :: string
  pad_reason :: string
  pad_required_permissions :: "payroll_permission list"
  pad_granted_permissions :: "payroll_permission list"

definition access_denied ::
    "payroll_run_request \<Rightarrow> payroll_principal \<Rightarrow> payroll_action \<Rightarrow> string \<Rightarrow> string \<Rightarrow> string
     \<Rightarrow> payroll_permission list \<Rightarrow> payroll_permission list \<Rightarrow> payroll_access_decision" where
  "access_denied request user action tenant_id reason_code reason required granted =
     \<lparr>pad_ok = False, pad_allowed = False, pad_action = action,
      pad_user_id = ppr_user_id user, pad_tenant_id = tenant_id,
      pad_scope = scope_display (prq_scope request), pad_reason_code = reason_code,
      pad_reason = reason, pad_required_permissions = required, pad_granted_permissions = granted\<rparr>"

definition authorize_payroll_request ::
    "payroll_run_request \<Rightarrow> payroll_principal \<Rightarrow> payroll_action \<Rightarrow> payroll_access_decision" where
  "authorize_payroll_request request user action =
     (let granted = sorted_permissions (principal_permissions user);
          scope = scope_display (prq_scope request);
          request_tenant = unwrap_or [] (map_option trim (prq_tenant_id request));
          tenant_id = (if request_tenant = [] then ppr_tenant_id user else request_tenant);
          denied = access_denied request user action tenant_id;
          required = required_permissions action in
      if ppr_tenant_id user = [] then
        denied ''missing_principal_tenant'' ''Payroll access requires a tenant-scoped principal.''
          [] granted
      else if request_tenant \<noteq> [] \<and> request_tenant \<noteq> ppr_tenant_id user then
        denied ''tenant_mismatch'' ''Payroll request tenant does not match the principal tenant.''
          [] granted
      else if \<not> list_all (\<lambda>permission. permission \<in> set granted) required then
        denied ''missing_permission''
          ''Payroll action requires a permission that is not granted to the principal.''
          required granted
      else if ppr_allowed_affiliates user \<noteq> {}
              \<and> scp_affiliate (prq_scope request) \<notin> ppr_allowed_affiliates user then
        denied ''affiliate_not_allowed''
          ''Payroll request affiliate is outside the principal access scope.'' required granted
      else if ppr_allowed_workplaces user \<noteq> {}
              \<and> scp_workplace (prq_scope request) \<notin> ppr_allowed_workplaces user then
        denied ''workplace_not_allowed''
          ''Payroll request workplace is outside the principal access scope.'' required granted
      else
        \<lparr>pad_ok = True, pad_allowed = True, pad_action = action,
         pad_user_id = ppr_user_id user, pad_tenant_id = tenant_id, pad_scope = scope,
         pad_reason_code = [], pad_reason = [], pad_required_permissions = required,
         pad_granted_permissions = granted\<rparr>)"

section \<open>The hierarchy behind the permissions\<close>

text \<open>
  The permissions form a chain: a principal's clearance is the rank of the highest one, and
  the principal holds exactly those up to it.
\<close>

fun position_clearance :: "payroll_position \<Rightarrow> nat" where
  "position_clearance PosCeo = 3"
| "position_clearance PosExecutive = 3"
| "position_clearance PosDirector = 2"
| "position_clearance PosManager = 1"
| "position_clearance PosTeamLead = 1"
| "position_clearance PosSenior = 1"
| "position_clearance PosMember = 0"
| "position_clearance PosIntern = 0"

fun role_clearance :: "payroll_role \<Rightarrow> nat" where
  "role_clearance RoleStaff = 0"
| "role_clearance RoleFinance = 2"
| "role_clearance RoleAdmin = 3"

definition platform_enabled :: "payroll_principal \<Rightarrow> bool" where
  "platform_enabled p \<longleftrightarrow> ppr_position p = PosCeo \<or> ppr_org_unit_id p = []
     \<or> payroll_platform_id \<in> ppr_effective_platform_ids p"

definition clearance :: "payroll_principal \<Rightarrow> nat" where
  "clearance p =
     (if platform_enabled p then max (position_clearance (ppr_position p)) (role_clearance (ppr_role p))
      else 0)"

fun action_clearance :: "payroll_action \<Rightarrow> nat" where
  "action_clearance ActValidate = 1"
| "action_clearance ActRun = 2"
| "action_clearance ActSettings = 3"

lemma permission_rank_pos [simp]: "0 < permission_rank q" "permission_rank q \<noteq> 0"
  by (cases q; simp)+

lemma all_payroll_permissions_all [simp]: "q \<in> all_payroll_permissions" "permission_rank q \<le> 3"
  by (cases q; simp add: all_payroll_permissions_def)+

lemma position_permissions_rank: "q \<in> position_permissions r \<longleftrightarrow> permission_rank q \<le> position_clearance r"
  by (cases r; cases q; simp)

lemma principal_permissions_rank: "q \<in> principal_permissions p \<longleftrightarrow> permission_rank q \<le> clearance p"
proof -
  have "q = PermPlatform \<or> q = PermExecutive \<or> q = PermSettings" by (cases q) simp_all
  then show ?thesis
    by (cases "ppr_role p")
      (auto simp: principal_permissions_def clearance_def platform_enabled_def Let_def
        position_permissions_rank max_def)
qed

lemma set_sorted_permissions [simp]: "set (sorted_permissions P) = P"
  unfolding sorted_permissions_def
  by (rule set_sorted_list_of_set, rule finite_subset[of _ all_payroll_permissions])
    (auto, simp add: all_payroll_permissions_def)

lemma required_clearance:
  "list_all (\<lambda>q. q \<in> principal_permissions p) (required_permissions a)
     \<longleftrightarrow> action_clearance a \<le> clearance p"
  by (cases a) (simp_all add: principal_permissions_rank)

definition tenant_matches :: "payroll_run_request \<Rightarrow> payroll_principal \<Rightarrow> bool" where
  "tenant_matches r p \<longleftrightarrow> ppr_tenant_id p \<noteq> []
     \<and> unwrap_or [] (map_option trim (prq_tenant_id r)) \<in> {[], ppr_tenant_id p}"

definition scope_allowed :: "payroll_run_request \<Rightarrow> payroll_principal \<Rightarrow> bool" where
  "scope_allowed r p \<longleftrightarrow>
     (ppr_allowed_affiliates p = {} \<or> scp_affiliate (prq_scope r) \<in> ppr_allowed_affiliates p) \<and>
     (ppr_allowed_workplaces p = {} \<or> scp_workplace (prq_scope r) \<in> ppr_allowed_workplaces p)"

section \<open>Properties\<close>

text \<open>
  C33: a request is allowed exactly when the tenants match, the clearance of the principal
  reaches the one of the action, and affiliate and workplace lie in the principal's scope.
  The clearance is the higher one of position and role, and nothing at all in an organisation
  unit without the payroll platform, for everyone but the CEO.  A denial always has a reason.
\<close>

theorem access_by_clearance:
  "pad_allowed (authorize_payroll_request r p a) =
     (tenant_matches r p \<and> action_clearance a \<le> clearance p \<and> scope_allowed r p)
   \<and> pad_ok (authorize_payroll_request r p a) = pad_allowed (authorize_payroll_request r p a)
   \<and> (pad_reason_code (authorize_payroll_request r p a) = [])
        = pad_allowed (authorize_payroll_request r p a)"
  by (simp add: authorize_payroll_request_def access_denied_def Let_def tenant_matches_def
      scope_allowed_def required_clearance)

text \<open>
  Tenants are isolated and privileges are monotone: an allowed decision is made for the
  principal's own tenant; a denied request stays denied for a principal who differs only by a
  lower or equal clearance; and a refusal for another tenant does not reveal what permission
  the action would have needed.
\<close>

theorem access_isolation:
  assumes "clearance q \<le> clearance p"
    and "ppr_tenant_id q = ppr_tenant_id p"
    and "ppr_allowed_affiliates q = ppr_allowed_affiliates p"
    and "ppr_allowed_workplaces q = ppr_allowed_workplaces p"
    and "pad_allowed (authorize_payroll_request r q a)"
  shows "pad_allowed (authorize_payroll_request r p a) \<and>
    pad_tenant_id (authorize_payroll_request r p a) = ppr_tenant_id p \<and>
    (\<forall>r'. \<not> tenant_matches r' p \<longrightarrow>
       \<not> pad_allowed (authorize_payroll_request r' p a) \<and>
       pad_required_permissions (authorize_payroll_request r' p a) = [])"
  using assms
  by (auto simp: authorize_payroll_request_def access_denied_def Let_def tenant_matches_def
      required_clearance split: if_splits)

theorem access_isolation_witness:
  "let r = \<lparr>prq_request_id = [], prq_scope = \<lparr>scp_affiliate = ''acme'', scp_workplace = ''plant'', scp_period = ''2026-03''\<rparr>,
       prq_input_type = InputAuto, prq_invoice_path = None, prq_attendance_path = None,
       prq_tenant_id = Some '' t1 '', prq_metadata = [], prq_validate_only = False\<rparr>;
     p = ppr_with_role RoleFinance (payroll_principal_new ''kim'' ''t1'')
   in pad_allowed (authorize_payroll_request r p ActRun) \<and>
      pad_tenant_id (authorize_payroll_request r p ActRun) = ''t1''"
proof -
  let ?r = "\<lparr>prq_request_id = [], prq_scope = \<lparr>scp_affiliate = ''acme'', scp_workplace = ''plant'', scp_period = ''2026-03''\<rparr>,
       prq_input_type = InputAuto, prq_invoice_path = None, prq_attendance_path = None,
       prq_tenant_id = Some '' t1 '', prq_metadata = [], prq_validate_only = False\<rparr>"
  let ?p = "ppr_with_role RoleFinance (payroll_principal_new ''kim'' ''t1'')"
  have "pad_allowed (authorize_payroll_request ?r ?p ActRun)" by code_simp
  moreover have "ppr_tenant_id ?p = ''t1''" by code_simp
  ultimately show ?thesis using access_isolation[of ?p ?p ?r ActRun] by (simp only: Let_def)
qed

end
