(* ===== verification/Auth_Policy.thy ===== *)
theory Auth_Policy
  imports Json
begin

text \<open>
  The authorisation policy: \<open>crates/payroll-api/src/auth_policy.rs\<close>.  A request is decided by
  the version of the policy, the authentication level (ACR), the role (RBAC), the scope and
  data class (ABAC) and the state of the payroll workflow (PBAC).  The policy is built in or
  read from a JSON document, which must not be able to open what the code leaves closed.

  A \<open>BTreeSet\<close> is a set here.  Reading JSON text is the library's: \<open>from_json\<close> takes the parser
  as a parameter, which gives the document with its objects in the order of the text,
  repeated keys kept, and the text that the library adds to a custom error.
\<close>

section \<open>Authentication levels\<close>

definition auth_policy_schema :: string where
  "auth_policy_schema = ''bitween.auth-policy.v1''"

definition authz_policy_id :: string where
  "authz_policy_id = ''bitween.authz.rbac-abac-pbac.v1''"

datatype auth_acr_level = AcrRoutine | AcrElevated | AcrSensitive | AcrCritical

definition acr_parse :: "string \<Rightarrow> auth_acr_level option" where
  "acr_parse value =
     (let v = to_ascii_lowercase (trim value) in
      if v = ''routine'' then Some AcrRoutine
      else if v = ''elevated'' then Some AcrElevated
      else if v = ''sensitive'' then Some AcrSensitive
      else if v = ''critical'' then Some AcrCritical
      else None)"

fun acr_as_str :: "auth_acr_level \<Rightarrow> string" where
  "acr_as_str AcrRoutine = ''routine''"
| "acr_as_str AcrElevated = ''elevated''"
| "acr_as_str AcrSensitive = ''sensitive''"
| "acr_as_str AcrCritical = ''critical''"

instantiation auth_acr_level :: linorder
begin

fun acr_rank :: "auth_acr_level \<Rightarrow> nat" where
  "acr_rank AcrRoutine = 0"
| "acr_rank AcrElevated = 1"
| "acr_rank AcrSensitive = 2"
| "acr_rank AcrCritical = 3"

definition less_eq_auth_acr_level :: "auth_acr_level \<Rightarrow> auth_acr_level \<Rightarrow> bool" where
  "a \<le> b \<longleftrightarrow> acr_rank a \<le> acr_rank b"

definition less_auth_acr_level :: "auth_acr_level \<Rightarrow> auth_acr_level \<Rightarrow> bool" where
  "a < b \<longleftrightarrow> acr_rank a < acr_rank b"

instance
proof
  show "a = b" if "a \<le> b" "b \<le> a" for a b :: auth_acr_level
    using that by (cases a; cases b) (simp_all add: less_eq_auth_acr_level_def)
qed (auto simp: less_eq_auth_acr_level_def less_auth_acr_level_def)

end

definition acr_satisfies :: "auth_acr_level \<Rightarrow> auth_acr_level \<Rightarrow> bool" where
  "acr_satisfies current required \<longleftrightarrow> current \<ge> required"

section \<open>Data classes\<close>

text \<open>\<open>value.trim().to_ascii_lowercase().replace('-', "_")\<close>.\<close>

definition normalized_id :: "string \<Rightarrow> string" where
  "normalized_id v = replace_chars ''-'' (CHR ''_'') (to_ascii_lowercase (trim v))"

datatype auth_data_class =
  DataInternal | DataEmployeeRestricted | DataPayrollConfidential | DataTenantCritical

definition data_class_parse :: "string \<Rightarrow> auth_data_class option" where
  "data_class_parse value =
     (let v = normalized_id value in
      if v = ''internal'' then Some DataInternal
      else if v = ''employee_restricted'' then Some DataEmployeeRestricted
      else if v = ''payroll_confidential'' then Some DataPayrollConfidential
      else if v = ''tenant_critical'' then Some DataTenantCritical
      else None)"

fun data_class_as_str :: "auth_data_class \<Rightarrow> string" where
  "data_class_as_str DataInternal = ''internal''"
| "data_class_as_str DataEmployeeRestricted = ''employee_restricted''"
| "data_class_as_str DataPayrollConfidential = ''payroll_confidential''"
| "data_class_as_str DataTenantCritical = ''tenant_critical''"

instantiation auth_data_class :: linorder
begin

fun data_class_rank :: "auth_data_class \<Rightarrow> nat" where
  "data_class_rank DataInternal = 0"
| "data_class_rank DataEmployeeRestricted = 1"
| "data_class_rank DataPayrollConfidential = 2"
| "data_class_rank DataTenantCritical = 3"

definition less_eq_auth_data_class :: "auth_data_class \<Rightarrow> auth_data_class \<Rightarrow> bool" where
  "a \<le> b \<longleftrightarrow> data_class_rank a \<le> data_class_rank b"

definition less_auth_data_class :: "auth_data_class \<Rightarrow> auth_data_class \<Rightarrow> bool" where
  "a < b \<longleftrightarrow> data_class_rank a < data_class_rank b"

instance
proof
  show "a = b" if "a \<le> b" "b \<le> a" for a b :: auth_data_class
    using that by (cases a; cases b) (simp_all add: less_eq_auth_data_class_def)
qed (auto simp: less_eq_auth_data_class_def less_auth_data_class_def)

end

section \<open>Workflow states\<close>

datatype auth_workflow_state =
  WfOpen | WfInputsClosed | WfCalculated | WfApprovalPending | WfApproved | WfArchived | WfInconsistent

definition workflow_state_parse :: "string \<Rightarrow> auth_workflow_state option" where
  "workflow_state_parse value =
     (let v = to_ascii_lowercase (trim value) in
      if v = ''open'' then Some WfOpen
      else if v = ''inputs_closed'' \<or> v = ''inputs-closed'' then Some WfInputsClosed
      else if v = ''calculated'' then Some WfCalculated
      else if v = ''approval_pending'' \<or> v = ''approval-pending'' then Some WfApprovalPending
      else if v = ''approved'' then Some WfApproved
      else if v = ''archived'' then Some WfArchived
      else None)"

fun workflow_state_as_str :: "auth_workflow_state \<Rightarrow> string" where
  "workflow_state_as_str WfOpen = ''open''"
| "workflow_state_as_str WfInputsClosed = ''inputs_closed''"
| "workflow_state_as_str WfCalculated = ''calculated''"
| "workflow_state_as_str WfApprovalPending = ''approval_pending''"
| "workflow_state_as_str WfApproved = ''approved''"
| "workflow_state_as_str WfArchived = ''archived''"
| "workflow_state_as_str WfInconsistent = ''inconsistent''"

definition workflow_state_set :: "auth_workflow_state list \<Rightarrow> string set" where
  "workflow_state_set states = set (map workflow_state_as_str states)"

section \<open>Operations\<close>

datatype auth_sensitive_operation =
    OpReadWorkspace | OpHrEmployeeRead | OpHrEmployeeWrite | OpArchiveRead | OpArchiveUpload
  | OpArchiveReview | OpArchiveAdmit | OpArchiveRollback | OpArchiveSync | OpUserPreferenceUpdate
  | OpWorkflowTemplateRead | OpWorkflowTemplateWrite | OpWorkflowStepExecute | OpPayrollRun
  | OpPayrollExport | OpPayrollPolicyChange | OpApprovalSigning | OpTenantDestructiveChange

definition all_operations :: "auth_sensitive_operation list" where
  "all_operations =
     [OpReadWorkspace, OpHrEmployeeRead, OpHrEmployeeWrite, OpArchiveRead, OpArchiveUpload,
      OpArchiveReview, OpArchiveAdmit, OpArchiveRollback, OpArchiveSync, OpUserPreferenceUpdate,
      OpWorkflowTemplateRead, OpWorkflowTemplateWrite, OpWorkflowStepExecute, OpPayrollRun,
      OpPayrollExport, OpPayrollPolicyChange, OpApprovalSigning, OpTenantDestructiveChange]"

fun operation_id :: "auth_sensitive_operation \<Rightarrow> string" where
  "operation_id OpReadWorkspace = ''read_workspace''"
| "operation_id OpHrEmployeeRead = ''hr_employee_read''"
| "operation_id OpHrEmployeeWrite = ''hr_employee_write''"
| "operation_id OpArchiveRead = ''archive_read''"
| "operation_id OpArchiveUpload = ''archive_upload''"
| "operation_id OpArchiveReview = ''archive_review''"
| "operation_id OpArchiveAdmit = ''archive_admit''"
| "operation_id OpArchiveRollback = ''archive_rollback''"
| "operation_id OpArchiveSync = ''archive_sync''"
| "operation_id OpUserPreferenceUpdate = ''user_preference_update''"
| "operation_id OpWorkflowTemplateRead = ''workflow_template_read''"
| "operation_id OpWorkflowTemplateWrite = ''workflow_template_write''"
| "operation_id OpWorkflowStepExecute = ''workflow_step_execute''"
| "operation_id OpPayrollRun = ''payroll_run''"
| "operation_id OpPayrollExport = ''payroll_export''"
| "operation_id OpPayrollPolicyChange = ''payroll_policy_change''"
| "operation_id OpApprovalSigning = ''approval_signing''"
| "operation_id OpTenantDestructiveChange = ''tenant_destructive_change''"

definition operation_parse :: "string \<Rightarrow> auth_sensitive_operation option" where
  "operation_parse value =
     (let v = normalized_id value in
      if v = ''read_workspace'' then Some OpReadWorkspace
      else if v = ''hr_employee_read'' then Some OpHrEmployeeRead
      else if v = ''hr_employee_write'' then Some OpHrEmployeeWrite
      else if v = ''archive_read'' then Some OpArchiveRead
      else if v = ''archive_upload'' then Some OpArchiveUpload
      else if v = ''archive_review'' then Some OpArchiveReview
      else if v = ''archive_admit'' then Some OpArchiveAdmit
      else if v = ''archive_rollback'' then Some OpArchiveRollback
      else if v = ''archive_sync'' then Some OpArchiveSync
      else if v = ''user_preference_update'' then Some OpUserPreferenceUpdate
      else if v = ''workflow_template_read'' then Some OpWorkflowTemplateRead
      else if v = ''workflow_template_write'' then Some OpWorkflowTemplateWrite
      else if v = ''workflow_step_execute'' then Some OpWorkflowStepExecute
      else if v = ''payroll_run'' then Some OpPayrollRun
      else if v = ''payroll_export'' then Some OpPayrollExport
      else if v = ''payroll_policy_change'' then Some OpPayrollPolicyChange
      else if v = ''approval_signing'' then Some OpApprovalSigning
      else if v = ''tenant_destructive_change'' then Some OpTenantDestructiveChange
      else None)"

fun operation_required_acr :: "auth_sensitive_operation \<Rightarrow> auth_acr_level" where
  "operation_required_acr OpReadWorkspace = AcrRoutine"
| "operation_required_acr OpUserPreferenceUpdate = AcrRoutine"
| "operation_required_acr OpWorkflowTemplateRead = AcrRoutine"
| "operation_required_acr OpHrEmployeeRead = AcrElevated"
| "operation_required_acr OpHrEmployeeWrite = AcrElevated"
| "operation_required_acr OpArchiveRead = AcrElevated"
| "operation_required_acr OpArchiveUpload = AcrElevated"
| "operation_required_acr OpTenantDestructiveChange = AcrCritical"
| "operation_required_acr _ = AcrSensitive"

fun operation_required_data_class :: "auth_sensitive_operation \<Rightarrow> auth_data_class" where
  "operation_required_data_class OpReadWorkspace = DataInternal"
| "operation_required_data_class OpUserPreferenceUpdate = DataInternal"
| "operation_required_data_class OpWorkflowTemplateRead = DataInternal"
| "operation_required_data_class OpPayrollRun = DataPayrollConfidential"
| "operation_required_data_class OpPayrollExport = DataPayrollConfidential"
| "operation_required_data_class OpPayrollPolicyChange = DataPayrollConfidential"
| "operation_required_data_class OpWorkflowTemplateWrite = DataPayrollConfidential"
| "operation_required_data_class OpWorkflowStepExecute = DataPayrollConfidential"
| "operation_required_data_class OpApprovalSigning = DataPayrollConfidential"
| "operation_required_data_class OpTenantDestructiveChange = DataTenantCritical"
| "operation_required_data_class _ = DataEmployeeRestricted"

fun operation_requires_workplace_scope :: "auth_sensitive_operation \<Rightarrow> bool" where
  "operation_requires_workplace_scope OpReadWorkspace = False"
| "operation_requires_workplace_scope OpUserPreferenceUpdate = False"
| "operation_requires_workplace_scope OpPayrollPolicyChange = False"
| "operation_requires_workplace_scope OpWorkflowTemplateRead = False"
| "operation_requires_workplace_scope OpWorkflowTemplateWrite = False"
| "operation_requires_workplace_scope OpTenantDestructiveChange = False"
| "operation_requires_workplace_scope _ = True"

fun builtin_allowed_workflow_states :: "auth_sensitive_operation \<Rightarrow> string set option" where
  "builtin_allowed_workflow_states OpWorkflowTemplateWrite =
     Some (workflow_state_set [WfOpen, WfApproved, WfArchived])"
| "builtin_allowed_workflow_states OpPayrollPolicyChange =
     Some (workflow_state_set [WfOpen, WfApproved, WfArchived])"
| "builtin_allowed_workflow_states OpWorkflowStepExecute =
     Some (workflow_state_set [WfOpen, WfInputsClosed, WfCalculated, WfApprovalPending])"
| "builtin_allowed_workflow_states OpPayrollRun =
     Some (workflow_state_set [WfInputsClosed, WfCalculated])"
| "builtin_allowed_workflow_states OpPayrollExport =
     Some (workflow_state_set [WfApproved, WfArchived])"
| "builtin_allowed_workflow_states OpApprovalSigning =
     Some (workflow_state_set [WfCalculated, WfApprovalPending])"
| "builtin_allowed_workflow_states _ = None"

section \<open>Roles and the policy\<close>

definition normalize_role :: "string \<Rightarrow> string" where
  "normalize_role value =
     (let v = normalized_id value in
      if v \<in> set [''payroll_operator'', ''payroll_ops''] then ''payroll_operator''
      else if v \<in> set [''payroll_manager'', ''payroll_lead''] then ''payroll_manager''
      else if v \<in> set [''hr_operator'', ''hr_ops''] then ''hr_operator''
      else if v \<in> set [''hr_manager'', ''people_manager''] then ''hr_manager''
      else if v \<in> set [''approval_signer'', ''approver''] then ''approval_signer''
      else if v \<in> set [''it_security_admin'', ''security_admin'', ''tenant_admin'']
        then ''it_security_admin''
      else if v \<in> set [''platform_owner'', ''product_platform_lead''] then ''platform_owner''
      else if v \<in> set [''support_sre'', ''customer_support''] then ''support_sre''
      else v)"

record role_policy =
  rop_max_data_class :: auth_data_class
  rop_grants :: "string set"

definition role_permits :: "role_policy \<Rightarrow> auth_sensitive_operation \<Rightarrow> bool" where
  "role_permits r operation \<longleftrightarrow> ''*'' \<in> rop_grants r \<or> operation_id operation \<in> rop_grants r"

record authz_operation_policy =
  aop_required_acr :: auth_acr_level
  aop_required_data_class :: auth_data_class
  aop_requires_workplace_scope :: bool
  aop_allowed_workflow_states :: "string set option"

definition entry_workflow_allows :: "authz_operation_policy \<Rightarrow> auth_workflow_state \<Rightarrow> bool" where
  "entry_workflow_allows entry workflow_state =
     (case aop_allowed_workflow_states entry of
        None \<Rightarrow> True
      | Some states \<Rightarrow> workflow_state_as_str workflow_state \<in> states)"

record authz_policy =
  azp_policy_id :: string
  azp_roles :: "(string \<times> role_policy) list"
  azp_operations :: "(string \<times> authz_operation_policy) list"

definition business_read :: "auth_sensitive_operation list" where
  "business_read = [OpReadWorkspace, OpUserPreferenceUpdate, OpWorkflowTemplateRead]"

definition builtin_role_matrix :: "(string \<times> auth_data_class \<times> string list) list" where
  "builtin_role_matrix =
     [(''payroll_operator'', DataPayrollConfidential, map operation_id (business_read @
        [OpArchiveRead, OpArchiveUpload, OpArchiveReview, OpPayrollRun, OpWorkflowStepExecute,
         OpPayrollExport])),
      (''payroll_manager'', DataPayrollConfidential, map operation_id (business_read @
        [OpArchiveRead, OpArchiveUpload, OpArchiveReview, OpArchiveAdmit, OpArchiveRollback,
         OpArchiveSync, OpPayrollRun, OpWorkflowStepExecute, OpPayrollExport,
         OpPayrollPolicyChange, OpWorkflowTemplateWrite])),
      (''hr_operator'', DataEmployeeRestricted, map operation_id (business_read @
        [OpHrEmployeeRead, OpHrEmployeeWrite, OpArchiveRead, OpArchiveUpload, OpArchiveReview])),
      (''hr_manager'', DataEmployeeRestricted, map operation_id (business_read @
        [OpHrEmployeeRead, OpHrEmployeeWrite, OpArchiveRead, OpArchiveUpload, OpArchiveReview,
         OpArchiveAdmit, OpArchiveRollback, OpArchiveSync])),
      (''approval_signer'', DataPayrollConfidential, map operation_id (business_read @
        [OpWorkflowStepExecute, OpApprovalSigning])),
      (''it_security_admin'', DataTenantCritical, map operation_id (business_read @
        [OpWorkflowTemplateWrite, OpTenantDestructiveChange])),
      (''platform_owner'', DataTenantCritical, [''*'']),
      (''support_sre'', DataInternal, map operation_id business_read)]"

definition builtin_operation_entry :: "auth_sensitive_operation \<Rightarrow> authz_operation_policy" where
  "builtin_operation_entry operation =
     \<lparr>aop_required_acr = operation_required_acr operation,
      aop_required_data_class = operation_required_data_class operation,
      aop_requires_workplace_scope = operation_requires_workplace_scope operation,
      aop_allowed_workflow_states = builtin_allowed_workflow_states operation\<rparr>"

definition builtin_policy :: authz_policy where
  "builtin_policy =
     \<lparr>azp_policy_id = authz_policy_id,
      azp_roles = bt_collect (map (\<lambda>(role_id, max_data_class, grants).
        (role_id, \<lparr>rop_max_data_class = max_data_class, rop_grants = set grants\<rparr>)) builtin_role_matrix),
      azp_operations = bt_collect
        (map (\<lambda>operation. (operation_id operation, builtin_operation_entry operation)) all_operations)\<rparr>"

definition azp_role :: "authz_policy \<Rightarrow> string \<Rightarrow> role_policy option" where
  "azp_role policy role_key = bt_get role_key (azp_roles policy)"

definition azp_operation :: "authz_policy \<Rightarrow> auth_sensitive_operation \<Rightarrow> authz_operation_policy option" where
  "azp_operation policy operation = bt_get (operation_id operation) (azp_operations policy)"

definition azp_required_acr :: "authz_policy \<Rightarrow> auth_sensitive_operation \<Rightarrow> auth_acr_level" where
  "azp_required_acr policy operation =
     unwrap_or (operation_required_acr operation)
       (map_option aop_required_acr (azp_operation policy operation))"

definition azp_required_data_class :: "authz_policy \<Rightarrow> auth_sensitive_operation \<Rightarrow> auth_data_class" where
  "azp_required_data_class policy operation =
     unwrap_or (operation_required_data_class operation)
       (map_option aop_required_data_class (azp_operation policy operation))"

section \<open>Decisions\<close>

record auth_step_up_decision =
  asd_schema :: string
  asd_operation :: string
  asd_allowed :: bool
  asd_current_acr :: "string option"
  asd_required_acr :: string
  asd_reason :: string

definition evaluate_step_up ::
    "authz_policy \<Rightarrow> auth_acr_level option \<Rightarrow> auth_sensitive_operation \<Rightarrow> auth_step_up_decision" where
  "evaluate_step_up policy current_acr operation =
     (let required = azp_required_acr policy operation;
          allowed = is_some_and (\<lambda>current. acr_satisfies current required) current_acr
      in \<lparr>asd_schema = auth_policy_schema, asd_operation = operation_id operation,
          asd_allowed = allowed, asd_current_acr = map_option acr_as_str current_acr,
          asd_required_acr = acr_as_str required,
          asd_reason =
            (case current_acr of
               None \<Rightarrow> ''acr_missing''
             | Some _ \<Rightarrow> if allowed then ''acr_sufficient'' else ''step_up_required'')\<rparr>)"

record authz_request =
  azr_policy_id :: string
  azr_operation :: auth_sensitive_operation
  azr_current_acr :: "auth_acr_level option"
  azr_role :: "string option"
  azr_actor_tenant_id :: string
  azr_resource_tenant_id :: string
  azr_actor_legal_entity :: string
  azr_resource_legal_entity :: string
  azr_actor_workplace :: string
  azr_resource_workplace :: string
  azr_workflow_state :: auth_workflow_state

record authz_decision =
  azd_schema :: string
  azd_policy_id :: string
  azd_operation :: string
  azd_allowed :: bool
  azd_reason :: string
  azd_current_acr :: "string option"
  azd_required_acr :: string
  azd_role :: "string option"
  azd_required_data_class :: string
  azd_workflow_state :: string
  azd_controls :: "string list"

definition policy_invalid :: "auth_sensitive_operation \<Rightarrow> authz_decision" where
  "policy_invalid operation =
     \<lparr>azd_schema = auth_policy_schema, azd_policy_id = [], azd_operation = operation_id operation,
      azd_allowed = False, azd_reason = ''authz_policy_invalid'', azd_current_acr = None,
      azd_required_acr = acr_as_str (operation_required_acr operation), azd_role = None,
      azd_required_data_class = data_class_as_str (operation_required_data_class operation),
      azd_workflow_state = workflow_state_as_str WfInconsistent,
      azd_controls = [''pbac'', ''rbac'', ''abac'', ''acr_step_up'']\<rparr>"

definition same_scope :: "string \<Rightarrow> string \<Rightarrow> bool" where
  "same_scope left right \<longleftrightarrow> trim left = trim right"

definition is_blank :: "string \<Rightarrow> bool" where
  "is_blank value \<longleftrightarrow> trim value = []"

definition azp_requires_workplace_scope :: "authz_policy \<Rightarrow> auth_sensitive_operation \<Rightarrow> bool" where
  "azp_requires_workplace_scope policy operation =
     unwrap_or (operation_requires_workplace_scope operation)
       (map_option aop_requires_workplace_scope (azp_operation policy operation))"

definition scope_allows :: "authz_policy \<Rightarrow> authz_request \<Rightarrow> bool" where
  "scope_allows policy request =
     (if is_blank (azr_actor_tenant_id request)
         \<or> is_blank (azr_resource_tenant_id request)
         \<or> \<not> same_scope (azr_actor_tenant_id request) (azr_resource_tenant_id request)
         \<or> is_blank (azr_actor_legal_entity request)
         \<or> is_blank (azr_resource_legal_entity request)
         \<or> \<not> same_scope (azr_actor_legal_entity request) (azr_resource_legal_entity request)
      then False
      else if azp_requires_workplace_scope policy (azr_operation request) then
        \<not> is_blank (azr_actor_workplace request)
        \<and> \<not> is_blank (azr_resource_workplace request)
        \<and> same_scope (azr_actor_workplace request) (azr_resource_workplace request)
      else True)"

definition workflow_allows ::
    "authz_policy \<Rightarrow> auth_sensitive_operation \<Rightarrow> auth_workflow_state \<Rightarrow> bool" where
  "workflow_allows policy operation workflow_state =
     (case azp_operation policy operation of
        Some entry \<Rightarrow> entry_workflow_allows entry workflow_state
      | None \<Rightarrow>
          (case builtin_allowed_workflow_states operation of
             Some states \<Rightarrow> workflow_state_as_str workflow_state \<in> states
           | None \<Rightarrow> True))"

definition evaluate_authorization :: "authz_policy \<Rightarrow> authz_request \<Rightarrow> authz_decision" where
  "evaluate_authorization policy request =
     (let step_up = evaluate_step_up policy (azr_current_acr request) (azr_operation request);
          required_data_class = azp_required_data_class policy (azr_operation request);
          normalized_role = map_option normalize_role
            (opt_filter (\<lambda>role. role \<noteq> []) (map_option trim (azr_role request)));
          role_entry = Option.bind normalized_role (azp_role policy);
          (allowed, reason) =
            (if trim (azr_policy_id request) \<noteq> azp_policy_id policy
               then (False, ''policy_version_untrusted'')
             else if \<not> asd_allowed step_up then (False, asd_reason step_up)
             else if normalized_role = None then (False, ''role_missing'')
             else if \<not> is_some_and (\<lambda>entry. role_permits entry (azr_operation request)) role_entry
               then (False, ''rbac_denied'')
             else if \<not> scope_allows policy request then (False, ''abac_scope_denied'')
             else if rop_max_data_class (the role_entry) < required_data_class
               then (False, ''abac_data_denied'')
             else if \<not> workflow_allows policy (azr_operation request) (azr_workflow_state request)
               then (False, ''pbac_workflow_denied'')
             else (True, ''authorized''))
      in \<lparr>azd_schema = auth_policy_schema, azd_policy_id = azp_policy_id policy,
          azd_operation = operation_id (azr_operation request), azd_allowed = allowed,
          azd_reason = reason, azd_current_acr = map_option acr_as_str (azr_current_acr request),
          azd_required_acr = asd_required_acr step_up,
          azd_role = (if role_entry \<noteq> None then normalized_role else None),
          azd_required_data_class = data_class_as_str required_data_class,
          azd_workflow_state = workflow_state_as_str (azr_workflow_state request),
          azd_controls = [''pbac'', ''rbac'', ''abac'', ''acr_step_up'']\<rparr>)"

section \<open>Ids and roles\<close>

lemma all_operations_all [simp]: "operation \<in> set all_operations"
  by (cases operation; simp add: all_operations_def)

lemma operation_id_facts:
  "normalized_id (operation_id a) = operation_id a \<and> operation_parse (operation_id a) = Some a
   \<and> operation_id a \<noteq> ''*''"
proof -
  have "list_all (\<lambda>a. normalized_id (operation_id a) = operation_id a \<and>
      operation_parse (operation_id a) = Some a \<and> operation_id a \<noteq> ''*'') all_operations"
    by code_simp
  then show ?thesis unfolding list_all_iff by (rule bspec) simp
qed

lemma operation_id_inject [simp]: "operation_id a = operation_id b \<longleftrightarrow> a = b"
  using operation_id_facts[of a] operation_id_facts[of b] by (metis option.inject)

lemma operation_parse_id: "operation_parse s = Some a \<Longrightarrow> normalized_id s = operation_id a"
  by (auto simp: operation_parse_def Let_def split: if_splits)

lemma operation_parse_iff: "operation_parse s = Some a \<longleftrightarrow> normalized_id s = operation_id a"
proof
  assume n: "normalized_id s = operation_id a"
  have "operation_parse s = operation_parse (operation_id a)"
    using n operation_id_facts[of a] by (simp add: operation_parse_def)
  then show "operation_parse s = Some a" using operation_id_facts by simp
qed (rule operation_parse_id)

lemma normalized_id_idem [simp]: "normalized_id (normalized_id v) = normalized_id v"
proof -
  have m: "graphic (CHR ''-'')" "graphic (CHR ''_'')" by code_simp+
  have l: "to_ascii_lowercase (replace_chars ''-'' (CHR ''_'') s) = replace_chars ''-'' (CHR ''_'') (to_ascii_lowercase s)" for s
  proof -
    have inj: "char_code a = char_code b \<longleftrightarrow> a = b" for a b by (simp add: char_code_def)
    have "char_code (CHR ''-'') = 45" by (simp add: char_code_def)
    then have "ascii_lower c = CHR ''-'' \<longleftrightarrow> c = CHR ''-''" for c
      unfolding inj[symmetric] ascii_lower_code by auto
    then show ?thesis by (simp add: to_ascii_lowercase_def replace_chars_def ascii_lower_def char_code_def)
  qed
  have r: "replace_chars ''-'' (CHR ''_'') (replace_chars ''-'' (CHR ''_'') s) = replace_chars ''-'' (CHR ''_'') s" for s
    by (simp add: replace_chars_def)
  show ?thesis
    using trim_replace_chars[of "CHR ''_''" "''-''"] m
    by (simp add: normalized_id_def l r trim_lowercase)
qed

lemma normalize_role_id: "normalize_role v \<noteq> normalized_id v \<Longrightarrow>
    normalize_role v \<in> set (map fst builtin_role_matrix)"
  by (auto simp: normalize_role_def builtin_role_matrix_def Let_def split: if_splits)

lemma builtin_roles_normal:
  "list_all (\<lambda>k. normalized_id k = k \<and> normalize_role k = k \<and> trim k = k \<and> k \<noteq> []) (map fst builtin_role_matrix)"
  by code_simp

lemma normalize_role_idem [simp]: "normalize_role (normalize_role v) = normalize_role v"
proof (cases "normalize_role v = normalized_id v")
  case True
  have "normalize_role (normalized_id v) = normalize_role v"
    by (simp add: normalize_role_def)
  with True show ?thesis by simp
next
  case False
  then show ?thesis using normalize_role_id[of v] builtin_roles_normal by (auto simp: list_all_iff)
qed

lemma trim_normalized_id [simp]: "trim (normalized_id v) = normalized_id v"
proof -
  have "list_all graphic (CHR ''_'' # ''-'')" by code_simp
  then show ?thesis using trim_replace_chars by (simp add: normalized_id_def trim_lowercase)
qed

lemma trim_normalize_role [simp]: "trim (normalize_role v) = normalize_role v"
  using normalize_role_id[of v] builtin_roles_normal trim_normalized_id[of v]
  by (cases "normalize_role v = normalized_id v") (auto simp: list_all_iff)

section \<open>The gates\<close>

text \<open>What an authorised request satisfies, gate by gate.\<close>

definition effective_role :: "authz_request \<Rightarrow> string option" where
  "effective_role request =
     map_option normalize_role (opt_filter (\<lambda>role. role \<noteq> []) (map_option trim (azr_role request)))"

definition role_gate :: "authz_policy \<Rightarrow> authz_request \<Rightarrow> bool" where
  "role_gate policy request =
     is_some_and (\<lambda>entry. role_permits entry (azr_operation request)
         \<and> azp_required_data_class policy (azr_operation request) \<le> rop_max_data_class entry)
       (Option.bind (effective_role request) (azp_role policy))"

definition acr_gate :: "authz_policy \<Rightarrow> authz_request \<Rightarrow> bool" where
  "acr_gate policy request =
     is_some_and (\<lambda>current. azp_required_acr policy (azr_operation request) \<le> current)
       (azr_current_acr request)"

lemma authorized_iff_gates:
  "azd_allowed (evaluate_authorization policy request) \<longleftrightarrow>
     trim (azr_policy_id request) = azp_policy_id policy \<and> acr_gate policy request
     \<and> role_gate policy request \<and> scope_allows policy request
     \<and> workflow_allows policy (azr_operation request) (azr_workflow_state request)"
  by (auto simp: evaluate_authorization_def evaluate_step_up_def acr_satisfies_def acr_gate_def
      role_gate_def effective_role_def Let_def not_less is_some_and_def split: option.splits if_splits)

lemma reason_authorized_iff:
  "azd_reason (evaluate_authorization policy request) = ''authorized''
     \<longleftrightarrow> azd_allowed (evaluate_authorization policy request)"
  by (auto simp: evaluate_authorization_def evaluate_step_up_def Let_def is_some_and_def
      split: option.splits if_splits)

lemma scope_allows_tenant:
  assumes "scope_allows policy request"
  shows "trim (azr_actor_tenant_id request) = trim (azr_resource_tenant_id request)
    \<and> trim (azr_actor_tenant_id request) \<noteq> []
    \<and> trim (azr_actor_legal_entity request) = trim (azr_resource_legal_entity request)
    \<and> trim (azr_actor_legal_entity request) \<noteq> []"
  using assms by (auto simp: scope_allows_def same_scope_def is_blank_def split: if_splits)

section \<open>The built-in policy\<close>

lemma builtin_operation: "azp_operation builtin_policy operation = Some (builtin_operation_entry operation)"
proof -
  let ?xs = "map (\<lambda>operation. (operation_id operation, builtin_operation_entry operation)) all_operations"
  have d: "distinct (map fst ?xs)" by (simp add: comp_def all_operations_def)
  have "(operation_id operation, builtin_operation_entry operation) \<in> set ?xs" by auto
  with d show ?thesis
    by (simp add: azp_operation_def builtin_policy_def bt_collect_distinct map_of_is_SomeI)
qed

lemma builtin_requirements [simp]:
  "azp_required_acr builtin_policy operation = operation_required_acr operation"
  "azp_required_data_class builtin_policy operation = operation_required_data_class operation"
  "azp_requires_workplace_scope builtin_policy operation = operation_requires_workplace_scope operation"
  by (simp_all add: azp_required_acr_def azp_required_data_class_def azp_requires_workplace_scope_def
      builtin_operation builtin_operation_entry_def)

lemma builtin_role:
  "azp_role builtin_policy k = Some entry \<Longrightarrow>
     \<exists>grants. (k, rop_max_data_class entry, grants) \<in> set builtin_role_matrix \<and> rop_grants entry = set grants"
proof -
  let ?f = "\<lambda>(role_id, max_data_class, grants).
    (role_id :: string, \<lparr>rop_max_data_class = max_data_class, rop_grants = set grants\<rparr>)"
  assume a: "azp_role builtin_policy k = Some entry"
  have "distinct (map fst (map ?f builtin_role_matrix))" by (simp add: builtin_role_matrix_def)
  with a have "map_of (map ?f builtin_role_matrix) k = Some entry"
    by (simp add: azp_role_def builtin_policy_def bt_collect_distinct)
  then have "(k, entry) \<in> ?f ` set builtin_role_matrix" by (auto dest: map_of_SomeD)
  then show ?thesis by auto
qed

definition matrix_permits :: "string list \<Rightarrow> auth_sensitive_operation \<Rightarrow> bool" where
  "matrix_permits grants operation \<longleftrightarrow> ''*'' \<in> set grants \<or> operation_id operation \<in> set grants"

lemma builtin_role_permits:
  assumes "azp_role builtin_policy k = Some entry" and "role_permits entry operation"
  obtains grants where "(k, rop_max_data_class entry, grants) \<in> set builtin_role_matrix"
    and "matrix_permits grants operation"
  using builtin_role[OF assms(1)] assms(2) by (auto simp: role_permits_def matrix_permits_def)

lemma builtin_window:
  "workflow_allows builtin_policy operation state =
     (case builtin_allowed_workflow_states operation of
        None \<Rightarrow> True
      | Some states \<Rightarrow> workflow_state_as_str state \<in> states)"
  by (simp add: workflow_allows_def builtin_operation builtin_operation_entry_def entry_workflow_allows_def)

lemma matrix_separation:
  "list_all (\<lambda>(k, max_data_class, grants).
      (matrix_permits grants OpPayrollRun \<and> matrix_permits grants OpApprovalSigning
         \<longrightarrow> k = ''platform_owner'')
      \<and> list_all (\<lambda>operation. matrix_permits grants operation
           \<longrightarrow> operation_required_data_class operation \<le> max_data_class) all_operations)
    builtin_role_matrix"
  by code_simp

lemma matrix_keys_distinct: "distinct (map fst builtin_role_matrix)"
  by (simp add: builtin_role_matrix_def)

lemma matrix_functional:
  "(k, m, g) \<in> set builtin_role_matrix \<Longrightarrow> (k, m', g') \<in> set builtin_role_matrix \<Longrightarrow> m = m' \<and> g = g'"
  using matrix_keys_distinct by (metis Pair_inject eq_key_imp_eq_value)

lemma authorized_role:
  assumes "azd_allowed (evaluate_authorization policy r)"
  obtains k entry where "effective_role r = Some k" "azp_role policy k = Some entry"
    "role_permits entry (azr_operation r)"
    "azp_required_data_class policy (azr_operation r) \<le> rop_max_data_class entry"
  using assms unfolding authorized_iff_gates role_gate_def is_some_and_def
  by (auto split: option.splits simp: bind_eq_Some_conv)

section \<open>Properties\<close>

text \<open>
  C29: whatever the policy is, nothing is authorised across tenants or legal entities, without
  a level of authentication that the policy requires, or by a role that the policy does not
  name, does not grant the operation, or holds below the operation's data class; and an
  authorised request stays so at a higher level of authentication.
\<close>

theorem authorization_isolation:
  assumes "azd_allowed (evaluate_authorization policy r)"
  shows "trim (azr_actor_tenant_id r) = trim (azr_resource_tenant_id r)
    \<and> trim (azr_actor_tenant_id r) \<noteq> []
    \<and> trim (azr_actor_legal_entity r) = trim (azr_resource_legal_entity r)
    \<and> trim (azr_policy_id r) = azp_policy_id policy
    \<and> (\<exists>acr. azr_current_acr r = Some acr \<and> azp_required_acr policy (azr_operation r) \<le> acr
        \<and> (\<forall>higher \<ge> acr.
             azd_allowed (evaluate_authorization policy (r\<lparr>azr_current_acr := Some higher\<rparr>))))
    \<and> (\<exists>k entry. azd_role (evaluate_authorization policy r) = Some k
        \<and> azp_role policy k = Some entry \<and> role_permits entry (azr_operation r)
        \<and> azp_required_data_class policy (azr_operation r) \<le> rop_max_data_class entry)"
proof -
  have g: "trim (azr_policy_id r) = azp_policy_id policy" "acr_gate policy r" "role_gate policy r"
    "scope_allows policy r" "workflow_allows policy (azr_operation r) (azr_workflow_state r)"
    using assms unfolding authorized_iff_gates by blast+
  from g(2) obtain acr where acr: "azr_current_acr r = Some acr"
    "azp_required_acr policy (azr_operation r) \<le> acr"
    by (auto simp: acr_gate_def is_some_and_def split: option.splits)
  have up: "azd_allowed (evaluate_authorization policy (r\<lparr>azr_current_acr := Some higher\<rparr>))"
    if "acr \<le> higher" for higher
  proof -
    have "role_gate policy (r\<lparr>azr_current_acr := Some higher\<rparr>) = role_gate policy r"
      "scope_allows policy (r\<lparr>azr_current_acr := Some higher\<rparr>) = scope_allows policy r"
      by (simp_all add: role_gate_def effective_role_def scope_allows_def)
    moreover have "acr_gate policy (r\<lparr>azr_current_acr := Some higher\<rparr>)"
      using order_trans[OF acr(2) that] by (simp add: acr_gate_def)
    ultimately show ?thesis using g unfolding authorized_iff_gates by simp
  qed
  from assms obtain k entry where k: "effective_role r = Some k" "azp_role policy k = Some entry"
    "role_permits entry (azr_operation r)"
    "azp_required_data_class policy (azr_operation r) \<le> rop_max_data_class entry"
    by (rule authorized_role)
  then have "azd_role (evaluate_authorization policy r) = Some k"
    by (auto simp: evaluate_authorization_def effective_role_def Let_def split: prod.splits)
  with k up acr g(1) scope_allows_tenant[OF g(4)] show ?thesis by blast
qed

definition sample_authz_request :: authz_request where
  "sample_authz_request =
     \<lparr>azr_policy_id = authz_policy_id, azr_operation = OpPayrollRun, azr_current_acr = Some AcrSensitive,
      azr_role = Some ''Payroll-Ops'', azr_actor_tenant_id = ''t1'', azr_resource_tenant_id = '' t1 '',
      azr_actor_legal_entity = ''le'', azr_resource_legal_entity = ''le'', azr_actor_workplace = ''plant'',
      azr_resource_workplace = ''plant'', azr_workflow_state = WfCalculated\<rparr>"

lemma sample_authorized: "azd_allowed (evaluate_authorization builtin_policy sample_authz_request)"
  by code_simp

theorem authorization_isolation_witness:
  "azd_allowed (evaluate_authorization builtin_policy
     (sample_authz_request\<lparr>azr_current_acr := Some AcrCritical\<rparr>))"
proof -
  have "azr_current_acr sample_authz_request = Some AcrSensitive" by (simp add: sample_authz_request_def)
  moreover have "AcrSensitive \<le> AcrCritical" by (simp add: less_eq_auth_acr_level_def)
  ultimately show ?thesis using authorization_isolation[OF sample_authorized] by auto
qed

text \<open>
  C30: the built-in policy separates duties: only the platform owner can both run the payroll
  and sign its approval; policies and templates never change while a cycle is in flight; an
  export needs an approved or archived cycle; the human-resources roles never reach
  confidential payroll data; and the inconsistent state closes every operation with a window.
\<close>

theorem builtin_separation:
  assumes "azd_allowed (evaluate_authorization builtin_policy r)"
  shows "(\<forall>s. azd_allowed (evaluate_authorization builtin_policy s) \<and> effective_role s = effective_role r
        \<and> azr_operation r = OpPayrollRun \<and> azr_operation s = OpApprovalSigning
        \<longrightarrow> effective_role r = Some ''platform_owner'')
    \<and> (azr_operation r \<in> {OpPayrollPolicyChange, OpWorkflowTemplateWrite} \<longrightarrow>
        azr_workflow_state r \<notin> {WfInputsClosed, WfCalculated, WfApprovalPending, WfInconsistent})
    \<and> (azr_operation r = OpPayrollExport \<longrightarrow> azr_workflow_state r \<in> {WfApproved, WfArchived})
    \<and> (effective_role r \<in> {Some ''hr_operator'', Some ''hr_manager''} \<longrightarrow>
        operation_required_data_class (azr_operation r) \<le> DataEmployeeRestricted)
    \<and> (azr_workflow_state r = WfInconsistent \<longrightarrow>
        builtin_allowed_workflow_states (azr_operation r) = None)"
proof -
  from assms obtain k entry where k: "effective_role r = Some k" "azp_role builtin_policy k = Some entry"
    "role_permits entry (azr_operation r)"
    "operation_required_data_class (azr_operation r) \<le> rop_max_data_class entry"
    by (rule authorized_role) simp
  from k(2,3) obtain grants where g: "(k, rop_max_data_class entry, grants) \<in> set builtin_role_matrix"
    "matrix_permits grants (azr_operation r)" by (rule builtin_role_permits)
  have sep: "effective_role r = Some ''platform_owner''"
    if s: "azd_allowed (evaluate_authorization builtin_policy s)" "effective_role s = effective_role r"
      "azr_operation r = OpPayrollRun" "azr_operation s = OpApprovalSigning" for s
  proof -
    from s(1) obtain l e where l: "effective_role s = Some l" "azp_role builtin_policy l = Some e"
      "role_permits e OpApprovalSigning" by (rule authorized_role) (simp add: s(4))
    from l(2,3) obtain h where "(l, rop_max_data_class e, h) \<in> set builtin_role_matrix"
      "matrix_permits h OpApprovalSigning" by (rule builtin_role_permits)
    moreover have "l = k" using l(1) s(2) k(1) by simp
    ultimately have "matrix_permits grants OpPayrollRun \<and> matrix_permits grants OpApprovalSigning"
      using g s(3) matrix_functional by metis
    with g(1) matrix_separation show ?thesis by (auto simp: list_all_iff k(1))
  qed
  have w: "workflow_allows builtin_policy (azr_operation r) (azr_workflow_state r)"
    using assms unfolding authorized_iff_gates by blast
  have hr: "rop_max_data_class entry = DataEmployeeRestricted" if "k = ''hr_operator'' \<or> k = ''hr_manager''"
    using g(1) that by (auto simp: builtin_role_matrix_def)
  have window: "(azr_operation r \<in> {OpPayrollPolicyChange, OpWorkflowTemplateWrite} \<longrightarrow>
        azr_workflow_state r \<notin> {WfInputsClosed, WfCalculated, WfApprovalPending, WfInconsistent})
    \<and> (azr_operation r = OpPayrollExport \<longrightarrow> azr_workflow_state r \<in> {WfApproved, WfArchived})
    \<and> (azr_workflow_state r = WfInconsistent \<longrightarrow> builtin_allowed_workflow_states (azr_operation r) = None)"
    using w unfolding builtin_window
    by (cases "azr_operation r"; cases "azr_workflow_state r"; simp add: workflow_state_set_def)
  show ?thesis using sep window hr k(1,4) by auto
qed

theorem builtin_separation_witness:
  "azd_allowed (evaluate_authorization builtin_policy sample_authz_request) \<and>
   \<not> azd_allowed (evaluate_authorization builtin_policy
       (sample_authz_request\<lparr>azr_operation := OpApprovalSigning\<rparr>))"
proof -
  have "effective_role sample_authz_request = Some ''payroll_operator''" by code_simp
  then show ?thesis
    using builtin_separation[OF sample_authorized] sample_authorized
    by (auto simp: sample_authz_request_def effective_role_def)
qed

end
