(* ===== verification/Authz_Document.thy ===== *)
theory Authz_Document
  imports Auth_Policy
begin

text \<open>
  Reading an authorisation policy from a document: \<open>AuthzPolicy::from_env\<close> and what it calls
  in \<open>crates/payroll-api/src/auth_policy.rs\<close>.  Every error is an \<open>authz_policy_error\<close>, which
  the callers turn into the denial \<open>policy_invalid\<close>.

  The text is read by a parameter \<open>read_document\<close> (\<open>serde_json\<close>): its error, or the document
  with the members of every object in the order of the text, repeated keys included.  The
  guard of the source walks that sequence; \<open>document_value\<close> is what \<open>serde_json::Value\<close> keeps
  of it, the last value of every key.  A text with a repeated key and a syntax error after it
  gives the syntax error here.
\<close>

datatype authz_policy_error = AuthzPolicyError (error_message: string)

definition authz_error_to_string :: "authz_policy_error \<Rightarrow> string" where
  "authz_error_to_string e = ''authz_policy_invalid: '' @ error_message e"

section \<open>Operations\<close>

definition parse_workflow_states ::
    "string \<Rightarrow> json option \<Rightarrow> authz_policy_error + string set option" where
  "parse_workflow_states operation_id_text value =
     (case value of
        None \<Rightarrow> Inr None
      | Some JNull \<Rightarrow> Inr None
      | Some (JArr states) \<Rightarrow>
          result_bind
            (try_fold (\<lambda>states state.
               result_bind
                 (ok_or (AuthzPolicyError (''operation '' @ operation_id_text @ '' has unknown workflow state''))
                   (Option.bind (as_str state) workflow_state_parse))
                 (\<lambda>state. Inr (insert (workflow_state_as_str state) states)))
               {} states)
            (\<lambda>states. Inr (Some states))
      | Some _ \<Rightarrow>
          Inl (AuthzPolicyError (''operation '' @ operation_id_text
                 @ '' allowed_workflow_states must be an array or null'')))"

definition parse_operation_entry ::
    "string \<Rightarrow> (string \<times> json) list \<Rightarrow> authz_policy_error + authz_operation_policy" where
  "parse_operation_entry operation_id_text entry =
     result_bind
       (ok_or (AuthzPolicyError (''operation '' @ operation_id_text @ '' has unknown required_acr''))
         (Option.bind (Option.bind (bt_get ''required_acr'' entry) as_str) acr_parse)) (\<lambda>required_acr.
     result_bind
       (ok_or (AuthzPolicyError (''operation '' @ operation_id_text @ '' has unknown required_data_class''))
         (Option.bind (Option.bind (bt_get ''required_data_class'' entry) as_str) data_class_parse))
       (\<lambda>required_data_class.
     result_bind
       (ok_or (AuthzPolicyError (''operation '' @ operation_id_text @ '' must set requires_workplace_scope''))
         (Option.bind (bt_get ''requires_workplace_scope'' entry) as_bool)) (\<lambda>requires_workplace_scope.
     result_bind (parse_workflow_states operation_id_text (bt_get ''allowed_workflow_states'' entry))
       (\<lambda>allowed_workflow_states.
     Inr \<lparr>aop_required_acr = required_acr, aop_required_data_class = required_data_class,
          aop_requires_workplace_scope = requires_workplace_scope,
          aop_allowed_workflow_states = allowed_workflow_states\<rparr>))))"

definition parse_operation_step ::
    "(string \<times> authz_operation_policy) list \<Rightarrow> string \<times> json
     \<Rightarrow> authz_policy_error + (string \<times> authz_operation_policy) list" where
  "parse_operation_step operations member =
     (case member of (operation_id_text, entry) \<Rightarrow>
       result_bind
         (ok_or (AuthzPolicyError (''unknown operation id: '' @ operation_id_text))
           (operation_parse operation_id_text)) (\<lambda>operation.
       if bt_get (operation_id operation) operations \<noteq> None then
         Inl (AuthzPolicyError (''operation '' @ operation_id_text @ '' normalizes to ''
           @ operation_id operation
           @ '', which is already defined by another operation key (duplicate operation)''))
       else
         result_bind
           (ok_or (AuthzPolicyError (''operation '' @ operation_id_text @ '' must be an object''))
             (as_object entry)) (\<lambda>entry.
         result_bind (parse_operation_entry operation_id_text entry) (\<lambda>entry.
         Inr (bt_insert (operation_id operation) entry operations)))))"

definition parse_operations ::
    "json option \<Rightarrow> authz_policy_error + (string \<times> authz_operation_policy) list" where
  "parse_operations value =
     result_bind (ok_or (AuthzPolicyError ''operations must be a JSON object'') (Option.bind value as_object))
       (\<lambda>object. try_fold parse_operation_step [] object)"

section \<open>Roles\<close>

definition required_data_class_in ::
    "(string \<times> authz_operation_policy) list \<Rightarrow> auth_sensitive_operation \<Rightarrow> auth_data_class" where
  "required_data_class_in operations operation =
     unwrap_or (operation_required_data_class operation)
       (map_option aop_required_data_class (bt_get (operation_id operation) operations))"

definition max_required_data_class ::
    "(string \<times> authz_operation_policy) list \<Rightarrow> auth_data_class" where
  "max_required_data_class operations =
     foldl max DataInternal (map (required_data_class_in operations) all_operations)"

definition parse_grant_step ::
    "string \<Rightarrow> auth_data_class \<Rightarrow> (string \<times> authz_operation_policy) list \<Rightarrow> string set \<Rightarrow> json
     \<Rightarrow> authz_policy_error + string set" where
  "parse_grant_step role_id max_data_class operations grants grant =
     result_bind
       (ok_or (AuthzPolicyError (''role '' @ role_id @ '' grant must be a string'')) (as_str grant))
       (\<lambda>grant.
     let grant = trim grant in
     if grant = ''*'' then
       if max_data_class < max_required_data_class operations then
         Inl (AuthzPolicyError (''role '' @ role_id @ '' grants '' @ [CHR 0x22] @ ''*'' @ [CHR 0x22]
           @ '' but its data-class ceiling is below the maximum operation requirement (dead grant)''))
       else Inr (insert grant grants)
     else
       result_bind
         (ok_or (AuthzPolicyError (''role '' @ role_id @ '' grants unknown operation: '' @ grant))
           (operation_parse grant)) (\<lambda>operation.
       if max_data_class < required_data_class_in operations operation then
         Inl (AuthzPolicyError (''role '' @ role_id @ '' is granted '' @ operation_id operation
           @ '' but its data-class ceiling is below the operation requirement (dead grant)''))
       else Inr (insert (operation_id operation) grants)))"

definition parse_role_step ::
    "(string \<times> authz_operation_policy) list \<Rightarrow> (string \<times> role_policy) list \<Rightarrow> string \<times> json
     \<Rightarrow> authz_policy_error + (string \<times> role_policy) list" where
  "parse_role_step operations roles member =
     (case member of (role_id, entry) \<Rightarrow>
       result_bind
         (ok_or (AuthzPolicyError (''role '' @ role_id @ '' must be an object'')) (as_object entry)) (\<lambda>entry.
       result_bind
         (ok_or (AuthzPolicyError (''role '' @ role_id @ '' has unknown max_data_class''))
           (Option.bind (Option.bind (bt_get ''max_data_class'' entry) as_str) data_class_parse))
         (\<lambda>max_data_class.
       result_bind
         (ok_or (AuthzPolicyError (''role '' @ role_id @ '' must list grants''))
           (Option.bind (bt_get ''grants'' entry) as_array)) (\<lambda>grant_values.
       result_bind (try_fold (parse_grant_step role_id max_data_class operations) {} grant_values)
         (\<lambda>grants.
       let canonical = normalize_role role_id in
       if bt_get canonical roles \<noteq> None then
         Inl (AuthzPolicyError (''role '' @ role_id @ '' normalizes to '' @ canonical
           @ '', which is already defined by another role key (duplicate role)''))
       else
         Inr (bt_insert canonical \<lparr>rop_max_data_class = max_data_class, rop_grants = grants\<rparr> roles))))))"

definition parse_roles ::
    "json option \<Rightarrow> (string \<times> authz_operation_policy) list
     \<Rightarrow> authz_policy_error + (string \<times> role_policy) list" where
  "parse_roles value operations =
     result_bind (ok_or (AuthzPolicyError ''roles must be a JSON object'') (Option.bind value as_object))
       (\<lambda>object.
     if object = [] then Inl (AuthzPolicyError ''roles must not be empty'')
     else try_fold (parse_role_step operations) [] object)"

section \<open>The document\<close>

definition policy_from_value :: "json \<Rightarrow> authz_policy_error + authz_policy" where
  "policy_from_value value =
     result_bind (ok_or (AuthzPolicyError ''policy document must be a JSON object'') (as_object value))
       (\<lambda>object.
     let policy_id = trim (unwrap_or [] (Option.bind (bt_get ''policy_id'' object) as_str)) in
     if policy_id = [] then Inl (AuthzPolicyError ''policy_id must be a non-empty string'')
     else
       result_bind (parse_operations (bt_get ''operations'' object)) (\<lambda>operations.
       result_bind (parse_roles (bt_get ''roles'' object) operations) (\<lambda>roles.
       Inr \<lparr>azp_policy_id = policy_id, azp_roles = roles, azp_operations = operations\<rparr>)))"

text \<open>
  The guard against repeated keys: the first repeated key of an object, in the order of the
  text; a value is walked before the next key is read.
\<close>

fun duplicate_key :: "json \<Rightarrow> string option"
  and duplicate_key_members :: "string list \<Rightarrow> (string \<times> json) list \<Rightarrow> string option"
  and duplicate_key_elements :: "json list \<Rightarrow> string option" where
  "duplicate_key (JObj members) = duplicate_key_members [] members"
| "duplicate_key (JArr elements) = duplicate_key_elements elements"
| "duplicate_key _ = None"
| "duplicate_key_members seen [] = None"
| "duplicate_key_members seen ((key, value) # members) =
     (if key \<in> set seen then Some key
      else case duplicate_key value of
             Some k \<Rightarrow> Some k
           | None \<Rightarrow> duplicate_key_members (key # seen) members)"
| "duplicate_key_elements [] = None"
| "duplicate_key_elements (e # elements) =
     (case duplicate_key e of Some k \<Rightarrow> Some k | None \<Rightarrow> duplicate_key_elements elements)"

fun document_value :: "json \<Rightarrow> json" where
  "document_value (JObj members) =
     JObj (bt_collect (map (\<lambda>(key, value). (key, document_value value)) members))"
| "document_value (JArr elements) = JArr (map document_value elements)"
| "document_value v = v"

definition reject_duplicate_json_keys ::
    "(string \<Rightarrow> string) \<Rightarrow> json \<Rightarrow> authz_policy_error + unit" where
  "reject_duplicate_json_keys at_position document =
     (case duplicate_key document of
        Some key \<Rightarrow> Inl (AuthzPolicyError (at_position (''duplicate object key: '' @ key)))
      | None \<Rightarrow> Inr ())"

definition policy_from_json ::
    "(string \<Rightarrow> string + json) \<Rightarrow> (string \<Rightarrow> string) \<Rightarrow> string \<Rightarrow> authz_policy_error + authz_policy" where
  "policy_from_json read_document at_position raw =
     (case read_document raw of
        Inl error \<Rightarrow> Inl (AuthzPolicyError error)
      | Inr document \<Rightarrow>
          result_bind (reject_duplicate_json_keys at_position document)
            (\<lambda>_. policy_from_value (document_value document)))"

datatype env_var = EnvValue string | EnvNotPresent | EnvNotUnicode

definition from_env_var ::
    "(string \<Rightarrow> string + json) \<Rightarrow> (string \<Rightarrow> string) \<Rightarrow> env_var \<Rightarrow> authz_policy_error + authz_policy" where
  "from_env_var read_document at_position var =
     (case var of
        EnvValue raw \<Rightarrow>
          if trim raw \<noteq> [] then policy_from_json read_document at_position raw else Inr builtin_policy
      | EnvNotPresent \<Rightarrow> Inr builtin_policy
      | EnvNotUnicode \<Rightarrow>
          Inl (AuthzPolicyError
            ''BITWEEN_AUTHZ_POLICY_JSON is set to a non-unicode value and cannot be read''))"

section \<open>What a policy that was read satisfies\<close>

definition windows_ok :: "(string \<times> authz_operation_policy) list \<Rightarrow> bool" where
  "windows_ok operations \<longleftrightarrow> bt_ok operations \<and>
     (\<forall>k entry states. bt_get k operations = Some entry \<and> aop_allowed_workflow_states entry = Some states
        \<longrightarrow> states \<subseteq> workflow_state_as_str ` (- {WfInconsistent}))"

definition grants_live ::
    "(string \<times> authz_operation_policy) list \<Rightarrow> auth_data_class \<Rightarrow> string set \<Rightarrow> bool" where
  "grants_live operations cap grants \<longleftrightarrow>
     (''*'' \<in> grants \<longrightarrow> max_required_data_class operations \<le> cap) \<and>
     (\<forall>operation. operation_id operation \<in> grants \<longrightarrow> required_data_class_in operations operation \<le> cap)"

definition roles_ok ::
    "(string \<times> authz_operation_policy) list \<Rightarrow> (string \<times> role_policy) list \<Rightarrow> bool" where
  "roles_ok operations roles \<longleftrightarrow> bt_ok roles \<and>
     (\<forall>k entry. bt_get k roles = Some entry \<longrightarrow> normalize_role k = k
        \<and> grants_live operations (rop_max_data_class entry) (rop_grants entry))"

lemma workflow_state_parse_consistent: "workflow_state_parse s = Some state \<Longrightarrow> state \<noteq> WfInconsistent"
  by (auto simp: workflow_state_parse_def Let_def split: if_splits)

lemma parse_workflow_states_ok:
  assumes "parse_workflow_states k v = Inr (Some states)"
  shows "states \<subseteq> workflow_state_as_str ` (- {WfInconsistent})"
proof -
  from assms obtain xs where f: "try_fold (\<lambda>states state. result_bind
      (ok_or (AuthzPolicyError (''operation '' @ k @ '' has unknown workflow state''))
        (Option.bind (as_str state) workflow_state_parse))
      (\<lambda>state. Inr (insert (workflow_state_as_str state) states))) {} xs = Inr states"
    by (auto simp: parse_workflow_states_def result_bind_Inr_iff split: option.splits json.splits)
  show ?thesis
    by (rule try_fold_invariant[OF f])
      (auto simp: result_bind_Inr_iff bind_eq_Some_conv dest: workflow_state_parse_consistent)
qed

lemma parse_operations_ok:
  assumes "parse_operations v = Inr operations"
  shows "windows_ok operations"
proof -
  from assms obtain object where f: "try_fold parse_operation_step [] object = Inr operations"
    by (auto simp: parse_operations_def result_bind_Inr_iff)
  show ?thesis
  proof (rule try_fold_invariant[OF f])
    show "windows_ok []" by (simp add: windows_ok_def bt_get_def)
    show "windows_ok s'" if "windows_ok s" "parse_operation_step s x = Inr s'" for x s s'
    proof -
      from that(2) obtain key o' entry operation where
        e: "parse_operation_entry key o' = Inr entry" "s' = bt_insert (operation_id operation) entry s"
        by (cases x) (auto simp: parse_operation_step_def result_bind_Inr_iff split: if_splits)
      from e(1) have "\<exists>w. parse_workflow_states key w = Inr (aop_allowed_workflow_states entry)"
        by (auto simp: parse_operation_entry_def result_bind_Inr_iff)
      then have "aop_allowed_workflow_states entry = Some states \<Longrightarrow>
          states \<subseteq> workflow_state_as_str ` (- {WfInconsistent})" for states
        using parse_workflow_states_ok by metis
      with that(1) show ?thesis unfolding e(2) windows_ok_def by (simp add: bt_get_insert bt_ok_insert)
    qed
  qed
qed

lemma foldl_max_ge: "(x :: 'a :: linorder) \<in> set xs \<or> x \<le> m \<Longrightarrow> x \<le> foldl max m xs"
  by (induction xs arbitrary: m) (auto simp: le_max_iff_disj)

lemma max_required_ge: "required_data_class_in operations operation \<le> max_required_data_class operations"
  unfolding max_required_data_class_def by (rule foldl_max_ge) simp

lemma star_not_id [simp]: "''*'' \<noteq> operation_id operation" "operation_id operation \<noteq> ''*''"
  using operation_id_facts by metis+

lemma grants_live_empty: "grants_live operations cap {}"
  by (simp add: grants_live_def)

lemma parse_grant_step_live:
  assumes "grants_live operations cap grants"
    and "parse_grant_step role cap operations grants grant = Inr grants'"
  shows "grants_live operations cap grants'"
  using assms
  by (auto simp: parse_grant_step_def result_bind_Inr_iff Let_def grants_live_def not_less split: if_splits)

lemma grants_live_permits:
  assumes "grants_live operations (rop_max_data_class entry) (rop_grants entry)"
    and "role_permits entry operation"
  shows "required_data_class_in operations operation \<le> rop_max_data_class entry"
  using assms max_required_ge[of operations operation] order_trans
  unfolding role_permits_def grants_live_def by blast

lemma parse_roles_ok:
  assumes "parse_roles v operations = Inr roles"
  shows "roles_ok operations roles"
proof -
  from assms obtain object where f: "try_fold (parse_role_step operations) [] object = Inr roles"
    by (auto simp: parse_roles_def result_bind_Inr_iff split: if_splits)
  show ?thesis
  proof (rule try_fold_invariant[OF f])
    show "roles_ok operations []" by (simp add: roles_ok_def bt_get_def)
    show "roles_ok operations s'" if "roles_ok operations s" "parse_role_step operations s x = Inr s'" for x s s'
    proof -
      from that(2) obtain key cap grants vs where
        g: "try_fold (parse_grant_step key cap operations) {} vs = Inr grants"
          "s' = bt_insert (normalize_role key) \<lparr>rop_max_data_class = cap, rop_grants = grants\<rparr> s"
        by (cases x) (auto simp: parse_role_step_def result_bind_Inr_iff Let_def split: if_splits)
      have "grants_live operations cap grants"
        by (rule try_fold_invariant[where P = "grants_live operations cap", OF g(1) grants_live_empty])
          (rule parse_grant_step_live)
      with that(1) show ?thesis unfolding g(2) roles_ok_def
        by (simp add: bt_get_insert bt_ok_insert)
    qed
  qed
qed

section \<open>Loaded policies\<close>

text \<open>The window of an operation under a policy, None when every state is allowed.\<close>

definition policy_window :: "authz_policy \<Rightarrow> auth_sensitive_operation \<Rightarrow> string set option" where
  "policy_window policy operation =
     (case azp_operation policy operation of
        Some entry \<Rightarrow> aop_allowed_workflow_states entry
      | None \<Rightarrow> builtin_allowed_workflow_states operation)"

lemma workflow_allows_window:
  "workflow_allows policy operation state =
     (case policy_window policy operation of
        None \<Rightarrow> True | Some states \<Rightarrow> workflow_state_as_str state \<in> states)"
  by (auto simp: workflow_allows_def policy_window_def entry_workflow_allows_def split: option.split)

definition policy_ok :: "authz_policy \<Rightarrow> bool" where
  "policy_ok policy \<longleftrightarrow> trim (azp_policy_id policy) = azp_policy_id policy
     \<and> windows_ok (azp_operations policy) \<and> roles_ok (azp_operations policy) (azp_roles policy)"

lemma policy_from_value_ok: "policy_from_value v = Inr policy \<Longrightarrow> policy_ok policy"
  by (auto simp: policy_from_value_def policy_ok_def result_bind_Inr_iff Let_def
      intro: parse_operations_ok parse_roles_ok split: if_splits)

lemma workflow_state_set_consistent:
  "WfInconsistent \<notin> set states \<Longrightarrow> workflow_state_set states \<subseteq> workflow_state_as_str ` (- {WfInconsistent})"
  by (auto simp: workflow_state_set_def)

lemma builtin_window_states:
  "builtin_allowed_workflow_states operation = Some states \<Longrightarrow>
     states \<subseteq> workflow_state_as_str ` (- {WfInconsistent})"
  by (cases operation; simp; (drule sym, simp, rule workflow_state_set_consistent, simp)?)

lemma builtin_required_in:
  "required_data_class_in (azp_operations builtin_policy) operation = operation_required_data_class operation"
  using builtin_requirements(2)[of operation]
  by (simp add: required_data_class_in_def azp_required_data_class_def azp_operation_def)

lemma data_class_top: "d \<le> DataTenantCritical"
  by (cases d; simp add: less_eq_auth_data_class_def)

lemma builtin_max_required:
  "max_required_data_class (azp_operations builtin_policy) = DataTenantCritical"
proof (rule antisym)
  show "max_required_data_class (azp_operations builtin_policy) \<le> DataTenantCritical"
    by (rule data_class_top)
  show "DataTenantCritical \<le> max_required_data_class (azp_operations builtin_policy)"
    using max_required_ge[of "azp_operations builtin_policy" OpTenantDestructiveChange]
    unfolding builtin_required_in by simp
qed

lemma builtin_policy_ok: "policy_ok builtin_policy"
proof -
  have "windows_ok (azp_operations builtin_policy)"
    unfolding windows_ok_def
  proof (intro conjI allI impI)
    show "bt_ok (azp_operations builtin_policy)" by (simp add: builtin_policy_def bt_collect_ok)
    fix k entry states
    assume a: "bt_get k (azp_operations builtin_policy) = Some entry
      \<and> aop_allowed_workflow_states entry = Some states"
    let ?f = "\<lambda>operation. (operation_id operation, builtin_operation_entry operation)"
    have "distinct (map fst (map ?f all_operations))" by (simp add: comp_def all_operations_def)
    with a have "map_of (map ?f all_operations) k = Some entry"
      by (simp add: builtin_policy_def bt_collect_distinct)
    then have "(k, entry) \<in> set (map ?f all_operations)" by (rule map_of_SomeD)
    then obtain operation where "entry = builtin_operation_entry operation" by auto
    with a builtin_window_states[of operation states]
    show "states \<subseteq> workflow_state_as_str ` (- {WfInconsistent})"
      by (simp add: builtin_operation_entry_def)
  qed
  moreover have "roles_ok (azp_operations builtin_policy) (azp_roles builtin_policy)"
    unfolding roles_ok_def
  proof (intro conjI allI impI)
    show "bt_ok (azp_roles builtin_policy)" by (simp add: builtin_policy_def bt_collect_ok)
    fix k entry assume "bt_get k (azp_roles builtin_policy) = Some entry"
    then obtain grants where g: "(k, rop_max_data_class entry, grants) \<in> set builtin_role_matrix"
      "rop_grants entry = set grants" using builtin_role[of k entry] by (auto simp: azp_role_def)
    from g(1) show "normalize_role k = k" using builtin_roles_normal by (auto simp: list_all_iff)
    have live: "operation_id operation \<in> set grants \<Longrightarrow>
        operation_required_data_class operation \<le> rop_max_data_class entry" for operation
      using g(1) matrix_separation by (fastforce simp: list_all_iff matrix_permits_def)
    have "''*'' \<in> set grants \<Longrightarrow> rop_max_data_class entry = DataTenantCritical"
      using g(1) by (auto simp: builtin_role_matrix_def business_read_def)
    with live g(2) show "grants_live (azp_operations builtin_policy) (rop_max_data_class entry) (rop_grants entry)"
      by (auto simp: grants_live_def builtin_required_in builtin_max_required)
  qed
  moreover have "trim (azp_policy_id builtin_policy) = azp_policy_id builtin_policy" by code_simp
  ultimately show ?thesis by (simp add: policy_ok_def)
qed

lemma from_env_var_ok: "from_env_var read_document at_position var = Inr policy \<Longrightarrow> policy_ok policy"
  by (auto simp: from_env_var_def policy_from_json_def result_bind_Inr_iff
      intro: builtin_policy_ok policy_from_value_ok split: env_var.splits sum.splits if_splits)

lemma policy_ok_window:
  assumes "policy_ok policy" and "policy_window policy operation = Some states"
  shows "states \<subseteq> workflow_state_as_str ` (- {WfInconsistent})"
  using assms builtin_window_states
  by (auto simp: policy_ok_def windows_ok_def policy_window_def azp_operation_def split: option.splits)

lemma workflow_state_as_str_inject: "workflow_state_as_str a = workflow_state_as_str b \<longleftrightarrow> a = b"
  by (cases a; cases b; simp)

lemma inconsistent_closed: "''inconsistent'' \<notin> workflow_state_as_str ` (- {WfInconsistent})"
proof
  assume "''inconsistent'' \<in> workflow_state_as_str ` (- {WfInconsistent})"
  then obtain state where "workflow_state_as_str state = workflow_state_as_str WfInconsistent"
    "state \<noteq> WfInconsistent" by (elim imageE) simp
  then show False unfolding workflow_state_as_str_inject by simp
qed

text \<open>A request that passes every gate for a role and an operation, in a given state.\<close>

definition ideal_request ::
    "authz_policy \<Rightarrow> string \<Rightarrow> auth_sensitive_operation \<Rightarrow> auth_workflow_state \<Rightarrow> authz_request" where
  "ideal_request policy role operation state =
     \<lparr>azr_policy_id = azp_policy_id policy, azr_operation = operation,
      azr_current_acr = Some AcrCritical, azr_role = Some role, azr_actor_tenant_id = ''t'',
      azr_resource_tenant_id = ''t'', azr_actor_legal_entity = ''l'', azr_resource_legal_entity = ''l'',
      azr_actor_workplace = ''w'', azr_resource_workplace = ''w'', azr_workflow_state = state\<rparr>"

lemma acr_critical_top [simp]: "a \<le> AcrCritical"
  by (cases a; simp add: less_eq_auth_acr_level_def)

lemma ideal_request_authorized:
  assumes "policy_ok policy" and "azp_role policy role = Some entry" and "role \<noteq> []"
    and "role_permits entry operation" and "workflow_allows policy operation state"
  shows "azd_allowed (evaluate_authorization policy (ideal_request policy role operation state))"
proof -
  have r: "normalize_role role = role" "grants_live (azp_operations policy) (rop_max_data_class entry) (rop_grants entry)"
    using assms(1,2) by (auto simp: policy_ok_def roles_ok_def azp_role_def)
  then have "trim role = role" using trim_normalize_role[of role] by simp
  with r(1) assms(3) have role: "effective_role (ideal_request policy role operation state) = Some role"
    by (simp add: effective_role_def ideal_request_def)
  have "azp_required_data_class policy operation \<le> rop_max_data_class entry"
    using grants_live_permits[OF r(2) assms(4)]
    by (simp add: required_data_class_in_def azp_required_data_class_def azp_operation_def)
  with role assms(2,4) have "role_gate policy (ideal_request policy role operation state)"
    by (simp add: role_gate_def) (simp add: ideal_request_def)
  moreover have "trim ''t'' = ''t''" "trim ''l'' = ''l''" "trim ''w'' = ''w''" by code_simp+
  then have "scope_allows policy (ideal_request policy role operation state)"
    by (simp add: scope_allows_def ideal_request_def is_blank_def same_scope_def)
  moreover have "acr_gate policy (ideal_request policy role operation state)"
    by (simp add: acr_gate_def ideal_request_def)
  ultimately show ?thesis
    using assms(1,5) unfolding authorized_iff_gates by (simp add: policy_ok_def) (simp add: ideal_request_def)
qed

text \<open>A member of the document's operations is read once, and kept under its canonical id.\<close>

definition operation_kept ::
    "(string \<times> authz_operation_policy) list \<Rightarrow> string \<times> json \<Rightarrow> bool" where
  "operation_kept operations member =
     (case member of (key, value) \<Rightarrow>
       (case operation_parse key of
          None \<Rightarrow> False
        | Some operation \<Rightarrow>
            (case as_object value of
               None \<Rightarrow> False
             | Some entry \<Rightarrow> map_option Inr (bt_get (operation_id operation) operations)
                 = Some (parse_operation_entry key entry))))"

lemma operation_kept_insert:
  assumes "bt_ok operations" and "bt_get (operation_id operation) operations = None"
    and "operation_kept operations member"
  shows "operation_kept (bt_insert (operation_id operation) entry operations) member"
  using assms by (auto simp: operation_kept_def bt_get_insert split: prod.splits option.splits)

lemma parse_operations_keep:
  assumes "try_fold parse_operation_step operations members = Inr operations'" and "bt_ok operations"
  shows "(\<forall>member \<in> set members. operation_kept operations' member)
    \<and> (\<forall>member. operation_kept operations member \<longrightarrow> operation_kept operations' member)"
  using assms
proof (induction members arbitrary: operations)
  case (Cons member members)
  from Cons.prems(1) obtain mid where mid: "parse_operation_step operations member = Inr mid"
    "try_fold parse_operation_step mid members = Inr operations'"
    by (auto simp: result_bind_Inr_iff)
  from mid(1) obtain key v operation object entry where s: "member = (key, v)"
    "operation_parse key = Some operation" "as_object v = Some object"
    "bt_get (operation_id operation) operations = None"
    "parse_operation_entry key object = Inr entry"
    "mid = bt_insert (operation_id operation) entry operations"
    by (cases member) (auto simp: parse_operation_step_def result_bind_Inr_iff split: if_splits)
  have ok: "bt_ok mid" using Cons.prems(2) by (simp add: s(6) bt_ok_insert)
  have kept: "operation_kept mid member"
    using s(2,3,5) Cons.prems(2) by (simp add: operation_kept_def s(1,6) bt_get_insert)
  have "operation_kept operations m \<Longrightarrow> operation_kept mid m" for m
    unfolding s(6) by (rule operation_kept_insert[OF Cons.prems(2) s(4)])
  with Cons.IH[OF mid(2) ok] kept show ?case by (metis set_ConsD)
qed simp

section \<open>Properties\<close>




definition sample_document :: json where
  "sample_document = JObj
     [(''policy_id'', JStr ''custom.v1''),
      (''roles'', JObj [(''Payroll-Ops'', JObj [(''max_data_class'', JStr ''payroll-confidential''),
        (''grants'', JArr [JStr ''payroll_run''])])]),
      (''operations'', JObj [(''Payroll-Run'', JObj [(''required_acr'', JStr ''critical''),
        (''required_data_class'', JStr ''payroll_confidential''),
        (''requires_workplace_scope'', JBool True),
        (''allowed_workflow_states'', JArr [JStr ''calculated''])])])]"


end
