(* ===== verification/Workflow_Common.thy ===== *)
theory Workflow_Common
  imports Json
begin

text \<open>
  The text helpers that the modules of \<open>crates/workflow-core/src\<close> repeat: reading fields of a
  JSON record as trimmed text, and choosing the first text that is not blank.
\<close>

definition first_nonempty :: "string list \<Rightarrow> string" where
  "first_nonempty texts = unwrap_or [] (find_first (\<lambda>v. v \<noteq> []) (map trim texts))"

definition value_to_trimmed_string :: "json \<Rightarrow> string" where
  "value_to_trimmed_string v =
     (case v of
        JNull \<Rightarrow> []
      | JStr text \<Rightarrow> trim text
      | JNum number \<Rightarrow> trim (number_to_string number)
      | JBool boolean \<Rightarrow> bool_to_string boolean
      | other \<Rightarrow> trim (json_to_string other))"

definition map_text_field :: "(string \<times> json) list \<Rightarrow> string \<Rightarrow> string" where
  "map_text_field m field = unwrap_or [] (map_option value_to_trimmed_string (bt_get field m))"

definition text_field :: "json \<Rightarrow> string \<Rightarrow> string" where
  "text_field v field =
     unwrap_or [] (map_option value_to_trimmed_string (Option.bind (as_object v) (bt_get field)))"

lemma text_field_JObj [simp]: "text_field (JObj m) field = map_text_field m field"
  by (simp add: text_field_def map_text_field_def)

lemma value_to_trimmed_string_simps [simp]:
  "value_to_trimmed_string JNull = []"
  "value_to_trimmed_string (JStr s) = trim s"
  by (simp_all add: value_to_trimmed_string_def)

lemma trim_value_text [simp]: "trim (value_to_trimmed_string v) = value_to_trimmed_string v"
  using trim_graphic[OF bool_to_string_graphic]
  by (simp add: value_to_trimmed_string_def split: json.split)

lemma trim_map_text_field [simp]: "trim (map_text_field m field) = map_text_field m field"
  by (cases "bt_get field m") (simp_all add: map_text_field_def)

lemma trim_text_field [simp]: "trim (text_field v field) = text_field v field"
  by (cases "Option.bind (as_object v) (bt_get field)") (simp_all add: text_field_def)

lemma trim_first_nonempty [simp]: "trim (first_nonempty texts) = first_nonempty texts"
  by (induction texts) (simp_all add: first_nonempty_def)

lemma first_nonempty_Nil [simp]: "first_nonempty [] = []"
  by (simp add: first_nonempty_def)

lemma first_nonempty_Cons [simp]:
  "first_nonempty (t # texts) = (if trim t \<noteq> [] then trim t else first_nonempty texts)"
  by (simp add: first_nonempty_def)

end
