(* ===== verification/Trip_Permissions.thy ===== *)
theory Trip_Permissions
  imports Workflow_Common
begin

text \<open>
  Who may see, edit, approve, manage or evaluate a workflow document or a business trip:
  \<open>crates/workflow-core/src/business_trip_permissions.rs\<close>.  The role names are Unicode
  lower-cased there; the only non-ASCII letter whose lower case is ASCII is the Kelvin sign,
  and no role name holds a \<open>k\<close>, so ASCII lower case decides the same comparisons.
\<close>

section \<open>Data\<close>

record business_trip_principal =
  btp_user_id :: string
  btp_tenant_id :: string
  btp_role :: string

record business_trip_profile =
  bpf_workflow_roles :: "string list"
  bpf_site_ids :: "string list"
  bpf_department_ids :: "string list"
  bpf_org_unit_ids :: "string list"
  bpf_viewer_site_ids :: "string list"
  bpf_viewer_department_ids :: "string list"
  bpf_manager_user_id :: string

record business_trip_permission_trip =
  bpt_tenant_id :: string
  bpt_origin_tenant_id :: string
  bpt_legal_tenant_id :: string
  bpt_legal_entity_id :: string
  bpt_requester_id :: string
  bpt_traveler_user_id :: string
  bpt_executor_id :: string
  bpt_site_id :: string
  bpt_department_id :: string
  bpt_org_unit_id :: string
  bpt_approver_ids :: "string list"
  bpt_approval_user_ids :: "string list"

record business_trip_permission_document =
  bpd_document_type :: string
  bpd_origin_tenant_id :: string
  bpd_legal_tenant_id :: string
  bpd_legal_entity_id :: string
  bpd_content_trip_id :: string
  bpd_content_origin_tenant_id :: string
  bpd_content_legal_tenant_id :: string
  bpd_content_legal_entity_id :: string

record workflow_approval_step =
  was_approver_id :: string
  was_status :: string

record workflow_permission_document =
  wpd_document_type :: string
  wpd_origin_tenant_id :: string
  wpd_legal_tenant_id :: string
  wpd_legal_entity_id :: string
  wpd_content_trip_id :: string
  wpd_content_origin_tenant_id :: string
  wpd_content_legal_tenant_id :: string
  wpd_content_legal_entity_id :: string
  wpd_status :: string
  wpd_requester_id :: string
  wpd_site_id :: string
  wpd_approval_steps :: "workflow_approval_step list"

record business_trip_permission_input =
  bpi_principal :: business_trip_principal
  bpi_profile :: "business_trip_profile option"
  bpi_requester_profile :: "business_trip_profile option"
  bpi_trip :: business_trip_permission_trip
  bpi_tenant_id :: string

record workflow_document_permission_input =
  wdi_principal :: business_trip_principal
  wdi_profile :: "business_trip_profile option"
  wdi_document :: workflow_permission_document
  wdi_tenant_id :: string
  wdi_can_approve_workflow :: bool

section \<open>Roles\<close>

definition trip_normalize_role :: "string \<Rightarrow> string" where
  "trip_normalize_role v =
     (let role = to_ascii_lowercase (trim v) in
      if role = ''staff'' \<or> role = ''finance'' \<or> role = ''admin'' then role
      else if role = ''user'' \<or> role = ''general'' \<or> role = [CHR 0xEC, CHR 0x9D, CHR 0xBC, CHR 0xEB, CHR 0xB0, CHR 0x98] then ''staff''
      else if role = [CHR 0xEC, CHR 0x9E, CHR 0xAC, CHR 0xEB, CHR 0xAC, CHR 0xB4] \<or> role = ''finance_team'' then ''finance''
      else ''staff'')"

definition workflow_roles :: "business_trip_principal \<Rightarrow> business_trip_profile option \<Rightarrow> string set" where
  "workflow_roles user profile =
     (let roles =
            (case profile of
               None \<Rightarrow> {}
             | Some profile \<Rightarrow> set (filter (\<lambda>role. role \<noteq> []) (map trim (bpf_workflow_roles profile))));
          role = trip_normalize_role (btp_role user);
          roles =
            (if role = ''admin'' then
               roles \<union> {''admin'', ''executive'', ''approver'', ''finance'', ''hr''}
             else if role = ''finance'' then roles \<union> {''finance'', ''approver'', ''executive''}
             else roles)
      in if roles = {} then {''requester''} else roles)"

definition has_admin_view_role :: "string set \<Rightarrow> bool" where
  "has_admin_view_role roles \<longleftrightarrow> ''admin'' \<in> roles \<or> ''executive'' \<in> roles \<or> ''finance'' \<in> roles"

section \<open>Legal scope\<close>

definition is_business_trip_legal_scope_allowed ::
    "business_trip_principal \<Rightarrow> business_trip_permission_trip \<Rightarrow> string \<Rightarrow> bool" where
  "is_business_trip_legal_scope_allowed user trip tenant_id =
     (let storage_tenant = trim tenant_id;
          row_storage_tenant = trim (bpt_tenant_id trip) in
      if row_storage_tenant \<noteq> [] \<and> row_storage_tenant \<noteq> storage_tenant then False
      else
        let origin_tenant = first_nonempty
              [bpt_origin_tenant_id trip, bpt_legal_tenant_id trip, row_storage_tenant, storage_tenant];
            user_tenant = trim (btp_tenant_id user) in
        if user_tenant = [] then True
        else if user_tenant = origin_tenant then True
        else storage_tenant \<noteq> [] \<and> user_tenant = storage_tenant \<and> storage_tenant \<noteq> origin_tenant)"

definition is_business_trip_related_document :: "business_trip_permission_document \<Rightarrow> bool" where
  "is_business_trip_related_document document \<longleftrightarrow>
     trim (bpd_document_type document) = ''BUSINESS_TRIP_REQUEST''
     \<or> trim (bpd_content_trip_id document) \<noteq> []"

definition business_trip_permission_trip_default :: business_trip_permission_trip where
  "business_trip_permission_trip_default =
     \<lparr>bpt_tenant_id = [], bpt_origin_tenant_id = [], bpt_legal_tenant_id = [],
      bpt_legal_entity_id = [], bpt_requester_id = [], bpt_traveler_user_id = [],
      bpt_executor_id = [], bpt_site_id = [], bpt_department_id = [], bpt_org_unit_id = [],
      bpt_approver_ids = [], bpt_approval_user_ids = []\<rparr>"

definition is_business_trip_document_legal_scope_allowed ::
    "business_trip_principal \<Rightarrow> business_trip_permission_document \<Rightarrow> string \<Rightarrow> bool" where
  "is_business_trip_document_legal_scope_allowed user document tenant_id =
     (if \<not> is_business_trip_related_document document then True
      else
        let storage_tenant = trim tenant_id;
            origin_tenant = first_nonempty
              [bpd_origin_tenant_id document, bpd_content_origin_tenant_id document,
               bpd_content_legal_tenant_id document, storage_tenant];
            trip = business_trip_permission_trip_default
              \<lparr>bpt_tenant_id := storage_tenant,
               bpt_origin_tenant_id := origin_tenant,
               bpt_legal_entity_id := first_nonempty
                 [bpd_legal_entity_id document, bpd_content_legal_entity_id document]\<rparr>
        in is_business_trip_legal_scope_allowed user trip storage_tenant)"

definition workflow_permission_document_legal_scope_allowed ::
    "business_trip_principal \<Rightarrow> workflow_permission_document \<Rightarrow> string \<Rightarrow> bool" where
  "workflow_permission_document_legal_scope_allowed user document tenant_id =
     is_business_trip_document_legal_scope_allowed user
       \<lparr>bpd_document_type = wpd_document_type document,
        bpd_origin_tenant_id = wpd_origin_tenant_id document,
        bpd_legal_tenant_id = wpd_legal_tenant_id document,
        bpd_legal_entity_id = wpd_legal_entity_id document,
        bpd_content_trip_id = wpd_content_trip_id document,
        bpd_content_origin_tenant_id = wpd_content_origin_tenant_id document,
        bpd_content_legal_tenant_id = wpd_content_legal_tenant_id document,
        bpd_content_legal_entity_id = wpd_content_legal_entity_id document\<rparr>
       tenant_id"

section \<open>Documents\<close>

definition contains_id :: "string list \<Rightarrow> string \<Rightarrow> bool" where
  "contains_id ids expected \<longleftrightarrow> list_ex (\<lambda>v. trim v = expected) ids"

definition can_view_document :: "workflow_document_permission_input \<Rightarrow> bool" where
  "can_view_document input =
     (if \<not> workflow_permission_document_legal_scope_allowed (wdi_principal input)
            (wdi_document input) (wdi_tenant_id input) then False
      else
        let uid = trim (btp_user_id (wdi_principal input));
            roles = workflow_roles (wdi_principal input) (wdi_profile input) in
        if has_admin_view_role roles then True
        else if uid \<noteq> [] \<and> trim (wpd_requester_id (wdi_document input)) = uid then True
        else if uid \<noteq> [] \<and> list_ex (\<lambda>step. trim (was_approver_id step) = uid)
                (wpd_approval_steps (wdi_document input)) then True
        else
          case wdi_profile input of
            None \<Rightarrow> False
          | Some profile \<Rightarrow>
              let site_id = trim (wpd_site_id (wdi_document input)) in
              site_id \<noteq> [] \<and> contains_id (bpf_site_ids profile) site_id
              \<and> (''site_manager'' \<in> roles \<or> ''hr'' \<in> roles))"

definition can_edit_document :: "workflow_document_permission_input \<Rightarrow> bool" where
  "can_edit_document input =
     (if \<not> workflow_permission_document_legal_scope_allowed (wdi_principal input)
            (wdi_document input) (wdi_tenant_id input) then False
      else
        let status = trim (wpd_status (wdi_document input)) in
        if status = ''closed'' \<or> status = ''approved'' then False
        else
          let uid = trim (btp_user_id (wdi_principal input)) in
          if uid = [] \<or> trim (wpd_requester_id (wdi_document input)) \<noteq> uid then False
          else status = ''draft'' \<or> status = ''requested_changes'')"

definition can_submit_document :: "workflow_document_permission_input \<Rightarrow> bool" where
  "can_submit_document input = can_edit_document input"

definition can_approve_document :: "workflow_document_permission_input \<Rightarrow> bool" where
  "can_approve_document input =
     (if \<not> workflow_permission_document_legal_scope_allowed (wdi_principal input)
            (wdi_document input) (wdi_tenant_id input) then False
      else
        let status = trim (wpd_status (wdi_document input)) in
        if status \<noteq> ''submitted'' \<and> status \<noteq> ''in_review'' then False
        else
          case find_first (\<lambda>step. trim (was_status step) = ''pending'')
                 (wpd_approval_steps (wdi_document input)) of
            None \<Rightarrow> False
          | Some current \<Rightarrow>
              let uid = trim (btp_user_id (wdi_principal input)) in
              if uid \<noteq> [] \<and> trim (was_approver_id current) = uid then True
              else
                let roles = workflow_roles (wdi_principal input) (wdi_profile input) in
                wdi_can_approve_workflow input \<and> has_admin_view_role roles)"

section \<open>Trips\<close>

definition trip_requester_id :: "business_trip_permission_trip \<Rightarrow> string" where
  "trip_requester_id trip = first_nonempty [bpt_requester_id trip, bpt_traveler_user_id trip]"

definition trip_department_id :: "business_trip_permission_trip \<Rightarrow> string" where
  "trip_department_id trip = first_nonempty [bpt_department_id trip, bpt_org_unit_id trip]"

definition explicit_approvers :: "business_trip_permission_trip \<Rightarrow> string list" where
  "explicit_approvers trip =
     (if bpt_approver_ids trip = [] then bpt_approval_user_ids trip else bpt_approver_ids trip)"

definition profile_department_ids :: "business_trip_profile \<Rightarrow> string list" where
  "profile_department_ids profile =
     (if bpf_department_ids profile = [] then bpf_org_unit_ids profile else bpf_department_ids profile)"

definition can_view_business_trip_lifecycle :: "business_trip_permission_input \<Rightarrow> bool" where
  "can_view_business_trip_lifecycle input =
     (if \<not> is_business_trip_legal_scope_allowed (bpi_principal input) (bpi_trip input)
            (bpi_tenant_id input) then False
      else
        let uid = trim (btp_user_id (bpi_principal input));
            roles = workflow_roles (bpi_principal input) (bpi_profile input) in
        if has_admin_view_role roles then True
        else
          let requester_id = trip_requester_id (bpi_trip input);
              executor_id = trim (bpt_executor_id (bpi_trip input)) in
          if uid = requester_id \<or> uid = executor_id then True
          else if ''approver'' \<in> roles \<and> contains_id (explicit_approvers (bpi_trip input)) uid then True
          else
            case bpi_profile input of
              None \<Rightarrow> False
            | Some profile \<Rightarrow>
                if requester_id \<noteq> []
                   \<and> is_some_and (\<lambda>traveler_profile. trim (bpf_manager_user_id traveler_profile) = uid)
                       (bpi_requester_profile input) then True
                else
                  let site_id = trim (bpt_site_id (bpi_trip input));
                      dept_id = trip_department_id (bpi_trip input);
                      allowed_sites = bpf_site_ids profile;
                      allowed_departments = profile_department_ids profile in
                  if site_id \<noteq> [] \<and> contains_id allowed_sites site_id
                     \<and> (''site_manager'' \<in> roles \<or> ''hr'' \<in> roles) then True
                  else if dept_id \<noteq> [] \<and> contains_id allowed_departments dept_id
                     \<and> (''department_manager'' \<in> roles \<or> ''site_manager'' \<in> roles \<or> ''hr'' \<in> roles)
                    then True
                  else if ''viewer'' \<in> roles
                     \<and> ((site_id \<noteq> [] \<and> contains_id (bpf_viewer_site_ids profile) site_id)
                        \<or> (dept_id \<noteq> [] \<and> contains_id (bpf_viewer_department_ids profile) dept_id))
                    then True
                  else False)"

definition can_manage_business_trip_lifecycle :: "business_trip_permission_input \<Rightarrow> bool" where
  "can_manage_business_trip_lifecycle input =
     (if \<not> is_business_trip_legal_scope_allowed (bpi_principal input) (bpi_trip input)
            (bpi_tenant_id input) then False
      else
        let uid = trim (btp_user_id (bpi_principal input));
            roles = workflow_roles (bpi_principal input) (bpi_profile input) in
        if has_admin_view_role roles then True
        else
          let requester_id = trip_requester_id (bpi_trip input);
              executor_id = trim (bpt_executor_id (bpi_trip input)) in
          uid = requester_id \<or> uid = executor_id)"

definition can_administer_business_trip_lifecycle ::
    "business_trip_principal \<Rightarrow> business_trip_profile option \<Rightarrow> bool" where
  "can_administer_business_trip_lifecycle user profile = has_admin_view_role (workflow_roles user profile)"

definition can_view_site_report ::
    "business_trip_principal \<Rightarrow> business_trip_profile option \<Rightarrow> string \<Rightarrow> bool" where
  "can_view_site_report user profile site_id =
     (if has_admin_view_role (workflow_roles user profile) then True
      else case profile of
             None \<Rightarrow> False
           | Some profile \<Rightarrow> contains_id (bpf_site_ids profile) (trim site_id))"

definition can_close_month ::
    "business_trip_principal \<Rightarrow> business_trip_profile option \<Rightarrow> string \<Rightarrow> bool" where
  "can_close_month user profile site_id =
     (let roles = workflow_roles user profile in
      if ''admin'' \<in> roles \<or> ''finance'' \<in> roles then can_view_site_report user profile site_id
      else ''site_manager'' \<in> roles \<and> can_view_site_report user profile site_id)"

definition can_manage_execution_task ::
    "business_trip_principal \<Rightarrow> business_trip_profile option \<Rightarrow> string \<Rightarrow> bool" where
  "can_manage_execution_task user profile executor_id =
     (if ''admin'' \<in> workflow_roles user profile then True
      else trim (btp_user_id user) = trim executor_id)"

definition can_run_business_trip_overdue_evaluator ::
    "business_trip_principal \<Rightarrow> business_trip_profile option \<Rightarrow> bool" where
  "can_run_business_trip_overdue_evaluator user profile =
     (let roles = workflow_roles user profile in
      has_admin_view_role roles \<or> ''site_manager'' \<in> roles \<or> ''department_manager'' \<in> roles
      \<or> ''hr'' \<in> roles)"

definition can_evaluate_business_trip_overdue :: "business_trip_permission_input \<Rightarrow> bool" where
  "can_evaluate_business_trip_overdue input =
     (if \<not> is_business_trip_legal_scope_allowed (bpi_principal input) (bpi_trip input)
            (bpi_tenant_id input) then False
      else
        let roles = workflow_roles (bpi_principal input) (bpi_profile input) in
        if has_admin_view_role roles then True
        else
          case bpi_profile input of
            None \<Rightarrow> False
          | Some profile \<Rightarrow>
              let site_id = trim (bpt_site_id (bpi_trip input));
                  dept_id = trip_department_id (bpi_trip input);
                  allowed_sites = bpf_site_ids profile;
                  allowed_departments = profile_department_ids profile in
              if site_id \<noteq> [] \<and> contains_id allowed_sites site_id
                 \<and> (''site_manager'' \<in> roles \<or> ''hr'' \<in> roles) then True
              else dept_id \<noteq> [] \<and> contains_id allowed_departments dept_id
                 \<and> (''department_manager'' \<in> roles \<or> ''site_manager'' \<in> roles \<or> ''hr'' \<in> roles))"

section \<open>Shared facts\<close>

lemma legal_scope_partition:
  assumes "is_business_trip_legal_scope_allowed user trip tenant_id"
  shows "trim (bpt_tenant_id trip) \<in> {[], trim tenant_id}
    \<and> trim (btp_tenant_id user) \<in> {[], trim tenant_id,
        first_nonempty [bpt_origin_tenant_id trip, bpt_legal_tenant_id trip,
          trim (bpt_tenant_id trip), trim tenant_id]}"
  using assms
  by (auto simp: is_business_trip_legal_scope_allowed_def Let_def simp del: first_nonempty_Cons split: if_splits)

lemma manage_in_scope:
  "can_manage_business_trip_lifecycle input \<Longrightarrow>
     is_business_trip_legal_scope_allowed (bpi_principal input) (bpi_trip input) (bpi_tenant_id input)"
  by (simp add: can_manage_business_trip_lifecycle_def split: if_splits)

lemma view_in_scope:
  "can_view_business_trip_lifecycle input \<Longrightarrow>
     is_business_trip_legal_scope_allowed (bpi_principal input) (bpi_trip input) (bpi_tenant_id input)"
  by (simp add: can_view_business_trip_lifecycle_def split: if_splits)

lemma manage_view:
  "can_manage_business_trip_lifecycle input \<Longrightarrow> can_view_business_trip_lifecycle input"
  by (auto simp: can_manage_business_trip_lifecycle_def can_view_business_trip_lifecycle_def Let_def
      split: if_splits)

lemma evaluate_view:
  "can_evaluate_business_trip_overdue input \<Longrightarrow> can_view_business_trip_lifecycle input"
  by (auto simp: can_evaluate_business_trip_overdue_def can_view_business_trip_lifecycle_def Let_def
      split: if_splits option.splits)

lemma evaluate_run:
  "can_evaluate_business_trip_overdue input \<Longrightarrow>
     can_run_business_trip_overdue_evaluator (bpi_principal input) (bpi_profile input)"
  by (auto simp: can_evaluate_business_trip_overdue_def can_run_business_trip_overdue_evaluator_def
      Let_def split: if_splits option.splits)

lemma edit_view: "can_edit_document input \<Longrightarrow> can_view_document input"
  by (auto simp: can_edit_document_def can_view_document_def Let_def split: if_splits)

lemma approve_view: "can_approve_document input \<Longrightarrow> can_view_document input"
  using find_first_Some
  by (fastforce simp: can_approve_document_def can_view_document_def Let_def list_ex_iff
      split: if_splits option.splits)

definition admin_in_scope :: "business_trip_permission_input \<Rightarrow> bool" where
  "admin_in_scope input \<longleftrightarrow>
     can_administer_business_trip_lifecycle (bpi_principal input) (bpi_profile input)
     \<and> is_business_trip_legal_scope_allowed (bpi_principal input) (bpi_trip input) (bpi_tenant_id input)"

lemma admin_all:
  "admin_in_scope input \<Longrightarrow>
     can_manage_business_trip_lifecycle input \<and> can_evaluate_business_trip_overdue input"
  by (simp add: admin_in_scope_def can_administer_business_trip_lifecycle_def Let_def
      can_manage_business_trip_lifecycle_def can_evaluate_business_trip_overdue_def)

section \<open>Properties\<close>

text \<open>
  C36: the permissions on a trip form a hierarchy within the legal scope: administering it
  gives managing and evaluating, either of which gives viewing, and evaluating a trip needs
  the right to run the evaluator; nothing is ever seen of a trip stored for another tenant, nor
  by a user of a tenant that is neither the storing one nor the trip's origin.
\<close>

theorem trip_permission_hierarchy:
  "(admin_in_scope input \<longrightarrow>
      can_manage_business_trip_lifecycle input \<and> can_evaluate_business_trip_overdue input)
   \<and> (can_manage_business_trip_lifecycle input \<or> can_evaluate_business_trip_overdue input \<longrightarrow>
        can_view_business_trip_lifecycle input)
   \<and> (can_evaluate_business_trip_overdue input \<longrightarrow>
        can_run_business_trip_overdue_evaluator (bpi_principal input) (bpi_profile input))
   \<and> (can_view_business_trip_lifecycle input \<longrightarrow>
        trim (bpt_tenant_id (bpi_trip input)) \<in> {[], trim (bpi_tenant_id input)}
        \<and> trim (btp_tenant_id (bpi_principal input)) \<in> {[], trim (bpi_tenant_id input),
            first_nonempty [bpt_origin_tenant_id (bpi_trip input), bpt_legal_tenant_id (bpi_trip input),
              trim (bpt_tenant_id (bpi_trip input)), trim (bpi_tenant_id input)]})"
proof (intro conjI impI)
  show "can_manage_business_trip_lifecycle input" "can_evaluate_business_trip_overdue input"
    if "admin_in_scope input" using admin_all[OF that] by blast+
  show "can_view_business_trip_lifecycle input"
    if "can_manage_business_trip_lifecycle input \<or> can_evaluate_business_trip_overdue input"
    using that manage_view evaluate_view by blast
  show "can_run_business_trip_overdue_evaluator (bpi_principal input) (bpi_profile input)"
    if "can_evaluate_business_trip_overdue input" using that by (rule evaluate_run)
  assume "can_view_business_trip_lifecycle input"
  note legal_scope_partition[OF view_in_scope[OF this]]
  then show "trim (bpt_tenant_id (bpi_trip input)) \<in> {[], trim (bpi_tenant_id input)}"
    "trim (btp_tenant_id (bpi_principal input)) \<in> {[], trim (bpi_tenant_id input),
       first_nonempty [bpt_origin_tenant_id (bpi_trip input), bpt_legal_tenant_id (bpi_trip input),
         trim (bpt_tenant_id (bpi_trip input)), trim (bpi_tenant_id input)]}" by blast+
qed

definition sample_permission_input :: business_trip_permission_input where
  "sample_permission_input =
     \<lparr>bpi_principal = \<lparr>btp_user_id = ''kim'', btp_tenant_id = ''t1'', btp_role = ''Admin''\<rparr>,
      bpi_profile = None, bpi_requester_profile = None,
      bpi_trip = business_trip_permission_trip_default\<lparr>bpt_tenant_id := ''t1''\<rparr>,
      bpi_tenant_id = '' t1 ''\<rparr>"

theorem trip_permission_hierarchy_witness:
  "can_manage_business_trip_lifecycle sample_permission_input
   \<and> can_view_business_trip_lifecycle sample_permission_input"
proof -
  have "admin_in_scope sample_permission_input" by code_simp
  with trip_permission_hierarchy[of sample_permission_input] show ?thesis by blast
qed

text \<open>
  Nobody edits and approves one document in the same state, and either right includes
  viewing it; an edit is the requester's, in a draft or a returned document; an approval is
  for the first step that is still pending, by its own approver, or by a holder of an
  administrative role who may approve workflows.
\<close>

theorem document_edit_approve:
  "\<not> (can_edit_document input \<and> can_approve_document input)
   \<and> (can_edit_document input \<or> can_approve_document input \<longrightarrow> can_view_document input)
   \<and> (can_edit_document input \<longrightarrow>
        trim (wpd_requester_id (wdi_document input)) = trim (btp_user_id (wdi_principal input))
        \<and> trim (btp_user_id (wdi_principal input)) \<noteq> []
        \<and> trim (wpd_status (wdi_document input)) \<in> {''draft'', ''requested_changes''})
   \<and> (can_approve_document input \<longrightarrow>
        (\<exists>before step after. wpd_approval_steps (wdi_document input) = before @ step # after
          \<and> trim (was_status step) = ''pending''
          \<and> (\<forall>s \<in> set before. trim (was_status s) \<noteq> ''pending'')
          \<and> (trim (was_approver_id step) = trim (btp_user_id (wdi_principal input))
               \<and> trim (btp_user_id (wdi_principal input)) \<noteq> []
             \<or> wdi_can_approve_workflow input
               \<and> has_admin_view_role (workflow_roles (wdi_principal input) (wdi_profile input)))))"
proof (intro conjI impI)
  show "\<not> (can_edit_document input \<and> can_approve_document input)"
    by (auto simp: can_edit_document_def can_approve_document_def Let_def split: if_splits)
  show "can_view_document input" if "can_edit_document input \<or> can_approve_document input"
    using that edit_view approve_view by blast
  show "trim (wpd_requester_id (wdi_document input)) = trim (btp_user_id (wdi_principal input))"
    "trim (btp_user_id (wdi_principal input)) \<noteq> []"
    "trim (wpd_status (wdi_document input)) \<in> {''draft'', ''requested_changes''}"
    if "can_edit_document input"
    using that by (auto simp: can_edit_document_def Let_def split: if_splits)
  assume "can_approve_document input"
  then obtain step where step:
    "find_first (\<lambda>step. trim (was_status step) = ''pending'') (wpd_approval_steps (wdi_document input)) = Some step"
    "trim (was_approver_id step) = trim (btp_user_id (wdi_principal input))
       \<and> trim (btp_user_id (wdi_principal input)) \<noteq> []
     \<or> wdi_can_approve_workflow input
       \<and> has_admin_view_role (workflow_roles (wdi_principal input) (wdi_profile input))"
    by (auto simp: can_approve_document_def Let_def split: if_splits option.splits)
  then show "\<exists>before step after. wpd_approval_steps (wdi_document input) = before @ step # after
      \<and> trim (was_status step) = ''pending''
      \<and> (\<forall>s \<in> set before. trim (was_status s) \<noteq> ''pending'')
      \<and> (trim (was_approver_id step) = trim (btp_user_id (wdi_principal input))
           \<and> trim (btp_user_id (wdi_principal input)) \<noteq> []
         \<or> wdi_can_approve_workflow input
           \<and> has_admin_view_role (workflow_roles (wdi_principal input) (wdi_profile input)))"
    using find_first_split[OF step(1)] by blast
qed

definition sample_document_input :: "string \<Rightarrow> string \<Rightarrow> workflow_document_permission_input" where
  "sample_document_input user status =
     \<lparr>wdi_principal = \<lparr>btp_user_id = user, btp_tenant_id = ''t1'', btp_role = ''staff''\<rparr>,
      wdi_profile = None,
      wdi_document =
        \<lparr>wpd_document_type = ''GENERAL_DRAFT'', wpd_origin_tenant_id = [], wpd_legal_tenant_id = [],
         wpd_legal_entity_id = [], wpd_content_trip_id = [], wpd_content_origin_tenant_id = [],
         wpd_content_legal_tenant_id = [], wpd_content_legal_entity_id = [], wpd_status = status,
         wpd_requester_id = ''kim'', wpd_site_id = [],
         wpd_approval_steps =
           [\<lparr>was_approver_id = ''lee'', was_status = ''approved''\<rparr>,
            \<lparr>was_approver_id = ''park'', was_status = ''pending''\<rparr>]\<rparr>,
      wdi_tenant_id = ''t1'', wdi_can_approve_workflow = False\<rparr>"

theorem document_edit_approve_witness:
  "can_view_document (sample_document_input ''park'' ''in_review'')
   \<and> \<not> can_edit_document (sample_document_input ''park'' ''in_review'')
   \<and> \<not> can_approve_document (sample_document_input ''kim'' ''draft'')"
proof -
  have "can_approve_document (sample_document_input ''park'' ''in_review'')"
    "can_edit_document (sample_document_input ''kim'' ''draft'')" by code_simp+
  with document_edit_approve[of "sample_document_input ''park'' ''in_review''"]
    document_edit_approve[of "sample_document_input ''kim'' ''draft''"]
  show ?thesis by blast
qed

text \<open>
  A principal without a user id manages every trip in its scope that has no executor yet
  (or no requester): the empty id is compared with the empty field.  The document rights
  exclude the empty id, the trip and task rights do not.
\<close>

theorem blank_user_manages:
  assumes "is_business_trip_legal_scope_allowed (bpi_principal input) (bpi_trip input) (bpi_tenant_id input)"
    and "trim (btp_user_id (bpi_principal input)) = []"
    and "trim (bpt_executor_id (bpi_trip input)) = []"
  shows "can_manage_business_trip_lifecycle input \<and> can_view_business_trip_lifecycle input
    \<and> can_manage_execution_task (bpi_principal input) (bpi_profile input)
        (bpt_executor_id (bpi_trip input))
    \<and> (\<forall>document. wdi_principal document = bpi_principal input \<longrightarrow> \<not> can_edit_document document)"
proof -
  have m: "can_manage_business_trip_lifecycle input"
    using assms by (simp add: can_manage_business_trip_lifecycle_def Let_def)
  moreover have "can_manage_execution_task (bpi_principal input) (bpi_profile input)
      (bpt_executor_id (bpi_trip input))"
    using assms by (simp add: can_manage_execution_task_def)
  moreover have "\<not> can_edit_document document" if "wdi_principal document = bpi_principal input" for document
    using assms(2) that by (simp add: can_edit_document_def Let_def)
  ultimately show ?thesis using manage_view by blast
qed

theorem blank_user_manages_witness:
  "can_manage_business_trip_lifecycle
     \<lparr>bpi_principal = \<lparr>btp_user_id = [], btp_tenant_id = ''t1'', btp_role = ''staff''\<rparr>,
      bpi_profile = None, bpi_requester_profile = None,
      bpi_trip = business_trip_permission_trip_default
        \<lparr>bpt_tenant_id := ''t1'', bpt_requester_id := ''kim''\<rparr>,
      bpi_tenant_id = ''t1''\<rparr>" (is "can_manage_business_trip_lifecycle ?input")
proof -
  have "is_business_trip_legal_scope_allowed (bpi_principal ?input) (bpi_trip ?input) (bpi_tenant_id ?input)"
    "trim (btp_user_id (bpi_principal ?input)) = []"
    "trim (bpt_executor_id (bpi_trip ?input)) = []" by code_simp+
  from blank_user_manages[OF this] show ?thesis by blast
qed

end
