(* ===== verification/Business_Trip.thy ===== *)
theory Business_Trip
  imports Workflow_Common
begin

text \<open>
  Business trips as JSON records: \<open>crates/workflow-core/src/business_trip.rs\<close>.  A record is
  migrated to a canonical form on every read, and its status moves along a fixed table.  The
  clock is the argument \<open>now_iso\<close>, as in the source.
\<close>

section \<open>Statuses\<close>

definition trip_statuses :: "string list" where
  "trip_statuses =
     [''draft'', ''planned'', ''approved'', ''in_progress'', ''diary_due'', ''overdue'', ''completed'',
      ''cancelled'']"

definition kpi_reflection_statuses :: "string list" where
  "kpi_reflection_statuses = [''blocked'', ''ready'', ''reflected'', ''not_applicable'']"

definition trip_source_kinds :: "string list" where
  "trip_source_kinds = [''workflow'', ''gw_import'', ''manual'']"

definition trip_view_model_keys :: "string list" where
  "trip_view_model_keys =
     [''trip_id'', ''tenant_id'', ''origin_tenant_id'', ''legal_entity_id'', ''status'',
      ''kpi_reflection_status'', ''kpi_record_id'', ''title'', ''requester_id'',
      ''traveler_user_id'', ''traveler_name'', ''executor_id'', ''site_id'', ''department_id'',
      ''planned_start'', ''planned_end'', ''period_start'', ''period_end'', ''actual_start'',
      ''actual_end'', ''diary_due_at'', ''completed_at'', ''overdue_at'', ''plan_document_id'',
      ''attendance_request_id'', ''execution_task_id'', ''approved_document_id'',
      ''diary_document_id'', ''report_document_id'', ''escalation_level'', ''last_escalated_at'',
      ''escalation_target_user_ids'', ''follow_up_source_keys'', ''source'', ''dedupe_key'',
      ''created_at'', ''updated_at'']"

definition normalize_trip_status :: "string \<Rightarrow> string" where
  "normalize_trip_status status =
     unwrap_or ''draft'' (find_first (\<lambda>candidate. candidate = trim status) trip_statuses)"

definition normalize_kpi_reflection_status :: "string \<Rightarrow> string" where
  "normalize_kpi_reflection_status status =
     unwrap_or ''blocked'' (find_first (\<lambda>candidate. candidate = trim status) kpi_reflection_statuses)"

section \<open>Records\<close>

definition normalize_trip_source :: "json \<Rightarrow> json" where
  "normalize_trip_source source =
     (let raw = as_object source;
          field = (\<lambda>key. map_option value_to_trimmed_string (Option.bind raw (bt_get key)));
          kind = unwrap_or ''manual'' (field ''kind'');
          kind = (if kind \<notin> set trip_source_kinds then ''manual'' else kind);
          document_id = unwrap_or [] (field ''document_id'');
          dedupe_key = unwrap_or document_id (opt_filter (\<lambda>v. v \<noteq> []) (field ''dedupe_key''))
      in JObj (bt_collect
           [(''kind'', JStr kind), (''document_id'', JStr document_id), (''dedupe_key'', JStr dedupe_key)]))"

definition or_default_str :: "string \<Rightarrow> string \<Rightarrow> string" where
  "or_default_str s default_value = (if trim s = [] then trim default_value else trim s)"

definition int_or_zero :: "json option \<Rightarrow> i64" where
  "int_or_zero v =
     (let amount =
            (case v of
               Some (JNum number) \<Rightarrow> unwrap_or 0 (as_i64 (JNum number))
             | Some (JStr text) \<Rightarrow> unwrap_or 0 (parse_i64 (trim text))
             | Some (JBool True) \<Rightarrow> 1
             | _ \<Rightarrow> 0)
      in max amount 0)"

definition json_string_list :: "json option \<Rightarrow> json list" where
  "json_string_list v =
     (case v of
        Some (JArr vs) \<Rightarrow> map JStr (filter (\<lambda>text. text \<noteq> []) (map value_to_trimmed_string vs))
      | Some other \<Rightarrow>
          (let text = value_to_trimmed_string other in if text = [] then [] else [JStr text])
      | None \<Rightarrow> [])"

text \<open>\<open>insert_string\<close> as an entry to insert: the text is trimmed.\<close>

definition string_entry :: "string \<Rightarrow> string \<Rightarrow> string \<times> json" where
  "string_entry key v = (key, JStr (trim v))"

definition insert_entries :: "(string \<times> json) list \<Rightarrow> (string \<times> json) list \<Rightarrow> (string \<times> json) list" where
  "insert_entries m entries = foldl (\<lambda>m (k, v). bt_insert k v m) m entries"

definition migrated_status :: "json \<Rightarrow> string" where
  "migrated_status record_value =
     (let status = normalize_trip_status (text_field record_value ''status'') in
      if status = [] then ''draft'' else status)"

definition migrated_kpi_status :: "json \<Rightarrow> string" where
  "migrated_kpi_status record_value =
     (let status = normalize_trip_status (text_field record_value ''status'');
          kpi_status = normalize_kpi_reflection_status (text_field record_value ''kpi_reflection_status'')
      in if status = ''cancelled'' then ''not_applicable''
         else if status \<noteq> ''completed'' \<and> (kpi_status = ''ready'' \<or> kpi_status = ''reflected'')
         then ''blocked''
         else kpi_status)"

text \<open>The entries that the migration inserts, in the order of the source.\<close>

definition migration_entries :: "string \<Rightarrow> json \<Rightarrow> string \<Rightarrow> string \<Rightarrow> (string \<times> json) list" where
  "migration_entries default_tenant_id r now_iso default_trip_id =
     (let source = normalize_trip_source (unwrap_or JNull (json_get ''source'' r));
          source_dedupe = text_field source ''dedupe_key'';
          trip_id = first_nonempty [text_field r ''trip_id'', text_field r ''id'', trim default_trip_id];
          planned_start = first_nonempty [text_field r ''planned_start'', text_field r ''period_start''];
          planned_end = first_nonempty [text_field r ''planned_end'', text_field r ''period_end''];
          requester_id = first_nonempty
            [text_field r ''requester_id'', text_field r ''traveler_user_id'', text_field r ''traveler_id''];
          traveler_user_id = first_nonempty [text_field r ''traveler_user_id'', requester_id];
          tenant_id = first_nonempty [text_field r ''tenant_id'', trim default_tenant_id];
          origin_tenant_id = first_nonempty
            [text_field r ''origin_tenant_id'', text_field r ''legal_tenant_id'',
             text_field r ''tenant_origin_id'', text_field r ''tenant_id'', trim default_tenant_id]
      in [string_entry ''id'' trip_id,
          string_entry ''trip_id'' trip_id,
          string_entry ''tenant_id'' tenant_id,
          string_entry ''origin_tenant_id'' origin_tenant_id,
          string_entry ''legal_entity_id''
            (or_default_str (text_field r ''legal_entity_id'') (text_field r ''entity_id'')),
          string_entry ''status'' (migrated_status r),
          string_entry ''kpi_reflection_status'' (migrated_kpi_status r),
          string_entry ''kpi_record_id'' (text_field r ''kpi_record_id''),
          string_entry ''title'' (text_field r ''title''),
          string_entry ''requester_id'' (first_nonempty [requester_id, traveler_user_id]),
          string_entry ''traveler_user_id'' (first_nonempty [traveler_user_id, requester_id]),
          string_entry ''traveler_name''
            (first_nonempty [text_field r ''traveler_name'', text_field r ''requester_name'']),
          string_entry ''executor_id'' (text_field r ''executor_id''),
          string_entry ''site_id'' (text_field r ''site_id''),
          string_entry ''department_id'' (text_field r ''department_id''),
          string_entry ''planned_start'' planned_start,
          string_entry ''planned_end'' planned_end,
          string_entry ''period_start'' (first_nonempty [text_field r ''period_start'', planned_start]),
          string_entry ''period_end'' (first_nonempty [text_field r ''period_end'', planned_end]),
          string_entry ''actual_start'' (text_field r ''actual_start''),
          string_entry ''actual_end'' (text_field r ''actual_end''),
          string_entry ''diary_due_at'' (text_field r ''diary_due_at''),
          string_entry ''completed_at'' (text_field r ''completed_at''),
          string_entry ''overdue_at'' (text_field r ''overdue_at''),
          string_entry ''plan_document_id''
            (first_nonempty [text_field r ''plan_document_id'', text_field r ''approved_document_id'']),
          string_entry ''attendance_request_id'' (text_field r ''attendance_request_id''),
          string_entry ''execution_task_id'' (text_field r ''execution_task_id''),
          string_entry ''approved_document_id'' (text_field r ''approved_document_id''),
          string_entry ''diary_document_id'' (text_field r ''diary_document_id''),
          string_entry ''report_document_id'' (text_field r ''report_document_id''),
          (''escalation_level'', JNum (JInt (int_or_zero (json_get ''escalation_level'' r)))),
          string_entry ''last_escalated_at'' (text_field r ''last_escalated_at''),
          (''escalation_target_user_ids'',
           JArr (json_string_list (json_get ''escalation_target_user_ids'' r))),
          (''follow_up_source_keys'', JArr (json_string_list (json_get ''follow_up_source_keys'' r))),
          (''source'', source),
          string_entry ''dedupe_key''
            (first_nonempty [text_field r ''dedupe_key'', source_dedupe, trip_id]),
          string_entry ''created_at'' (first_nonempty [text_field r ''created_at'', trim now_iso]),
          string_entry ''updated_at'' (first_nonempty [text_field r ''updated_at'', trim now_iso])])"

definition migrate_business_trip_record :: "string \<Rightarrow> json \<Rightarrow> string \<Rightarrow> string \<Rightarrow> json" where
  "migrate_business_trip_record default_tenant_id r now_iso default_trip_id =
     JObj (insert_entries (unwrap_or [] (as_object r))
       (migration_entries default_tenant_id r now_iso default_trip_id))"

definition business_trip_view_model :: "json \<Rightarrow> string \<Rightarrow> string \<Rightarrow> json" where
  "business_trip_view_model r now_iso default_trip_id =
     (let migrated =
            migrate_business_trip_record (text_field r ''tenant_id'') r now_iso default_trip_id
      in JObj (bt_collect
           (map (\<lambda>key. (key, unwrap_or (JStr []) (json_get key migrated))) trip_view_model_keys)))"

section \<open>Transitions\<close>

definition transition_targets :: "string \<Rightarrow> string list" where
  "transition_targets status =
     (if status = ''draft'' then [''planned'', ''cancelled'']
      else if status = ''planned'' then [''approved'', ''cancelled'']
      else if status = ''approved'' then [''in_progress'', ''cancelled'']
      else if status = ''in_progress'' then [''diary_due'', ''overdue'']
      else if status = ''diary_due'' then [''completed'', ''overdue'']
      else if status = ''overdue'' then [''completed'', ''cancelled'']
      else [])"

definition can_transition_trip_status :: "string \<Rightarrow> string \<Rightarrow> bool" where
  "can_transition_trip_status current target \<longleftrightarrow>
     normalize_trip_status target \<in> set (transition_targets (normalize_trip_status current))"

datatype business_trip_transition_error =
  BusinessTripTransitionError (bte_current: string) (bte_target: string)

definition transition_error_to_string :: "business_trip_transition_error \<Rightarrow> string" where
  "transition_error_to_string e =
     ''Invalid business trip status transition: '' @ bte_current e @ '' -> '' @ bte_target e"

definition insert_string :: "string \<Rightarrow> string \<Rightarrow> (string \<times> json) list \<Rightarrow> (string \<times> json) list" where
  "insert_string key v m = bt_insert key (JStr (trim v)) m"

text \<open>\<open>if map_text_field(obj, key).is_empty() { insert_string(obj, key, now) }\<close>.\<close>

definition stamp :: "string \<Rightarrow> string \<Rightarrow> (string \<times> json) list \<Rightarrow> (string \<times> json) list" where
  "stamp now_iso key m = (if map_text_field m key = [] then insert_string key (trim now_iso) m else m)"

definition apply_transition ::
    "string \<Rightarrow> string \<Rightarrow> (string \<times> json) list \<Rightarrow> (string \<times> json) list" where
  "apply_transition target now_iso obj =
     (let obj = insert_string ''status'' target obj;
          obj = insert_string ''updated_at'' (trim now_iso) obj;
          obj = (if target = ''in_progress'' then stamp now_iso ''actual_start'' obj else obj);
          obj = (if target = ''diary_due'' then
                   stamp now_iso ''diary_due_at'' (stamp now_iso ''actual_end''
                     (stamp now_iso ''actual_start'' obj))
                 else obj);
          obj = (if target = ''overdue'' then stamp now_iso ''overdue_at'' obj else obj);
          obj = (if target = ''completed'' \<and> map_text_field obj ''kpi_reflection_status'' = ''blocked'' then
                   insert_string ''kpi_reflection_status'' ''ready''
                     (stamp now_iso ''completed_at'' (stamp now_iso ''actual_end'' obj))
                 else obj);
          obj = (if target = ''cancelled'' then
                   insert_string ''kpi_reflection_status'' ''not_applicable'' obj
                 else obj)
      in obj)"

definition transition_trip_status ::
    "json \<Rightarrow> string \<Rightarrow> string \<Rightarrow> business_trip_transition_error + json" where
  "transition_trip_status r target now_iso =
     (let current = normalize_trip_status (text_field r ''status'');
          target = normalize_trip_status target;
          tenant_id = text_field r ''tenant_id'';
          migrated = migrate_business_trip_record tenant_id r now_iso (text_field r ''trip_id'') in
      if target = current then Inr migrated
      else if \<not> can_transition_trip_status current target then
        Inl (BusinessTripTransitionError current target)
      else
        case as_object migrated of
          None \<Rightarrow> Inr migrated
        | Some obj \<Rightarrow> Inr (JObj (apply_transition target now_iso obj)))"

definition business_trip_source_matches :: "json \<Rightarrow> json \<Rightarrow> bool" where
  "business_trip_source_matches r source =
     (let normalized = normalize_trip_source source;
          dedupe_key = text_field normalized ''dedupe_key'';
          document_id = text_field normalized ''document_id'';
          row_source = normalize_trip_source (unwrap_or JNull (json_get ''source'' r)) in
      dedupe_key \<noteq> [] \<and> (text_field r ''dedupe_key'' = dedupe_key
                         \<or> text_field row_source ''dedupe_key'' = dedupe_key)
      \<or> document_id \<noteq> [] \<and> text_field row_source ''document_id'' = document_id)"

section \<open>Inserting entries\<close>

text \<open>A record as the library gives it: if it is an object, the object is a map.\<close>

definition record_ok :: "json \<Rightarrow> bool" where
  "record_ok r = pred_option bt_ok (as_object r)"

lemma record_ok_JObj [simp]: "record_ok (JObj m) = bt_ok m"
  by (simp add: record_ok_def)

lemma record_ok_object: "record_ok r \<Longrightarrow> bt_ok (unwrap_or [] (as_object r))"
  by (cases "as_object r") (simp_all add: record_ok_def)

lemma insert_entries_simps [simp]:
  "insert_entries m [] = m"
  "insert_entries m ((k, v) # es) = insert_entries (bt_insert k v m) es"
  by (simp_all add: insert_entries_def)

lemma insert_entries_ok [simp]: "bt_ok m \<Longrightarrow> bt_ok (insert_entries m es)"
  by (induction es arbitrary: m) (auto simp: bt_ok_insert)

lemma insert_entries_get:
  assumes "bt_ok m" and "distinct (map fst es)"
  shows "bt_get k (insert_entries m es) = (case map_of es k of None \<Rightarrow> bt_get k m | Some v \<Rightarrow> Some v)"
  using assms
proof (induction es arbitrary: m)
  case (Cons e es)
  obtain k' v where e: "e = (k', v)" by (cases e)
  have "map_of es k' = None" using Cons.prems(2) by (simp add: e map_of_eq_None_iff)
  with Cons e show ?case by (auto simp: bt_ok_insert bt_get_insert split: option.split)
qed simp

lemma bt_insert_same: "bt_ok m \<Longrightarrow> bt_get k m = Some v \<Longrightarrow> bt_insert k v m = m"
  by (rule bt_eqI) (simp_all add: bt_ok_insert bt_get_insert)

lemma insert_entries_same:
  assumes "bt_ok m" and "\<And>k v. (k, v) \<in> set es \<Longrightarrow> bt_get k m = Some v"
  shows "insert_entries m es = m"
  using assms
proof (induction es)
  case (Cons e es)
  then show ?case by (cases e) (simp add: bt_insert_same)
qed simp

section \<open>The migrated record\<close>

lemma migration_keys:
  "map fst (migration_entries t r n d) =
     [''id'', ''trip_id'', ''tenant_id'', ''origin_tenant_id'', ''legal_entity_id'', ''status'',
      ''kpi_reflection_status'', ''kpi_record_id'', ''title'', ''requester_id'', ''traveler_user_id'',
      ''traveler_name'', ''executor_id'', ''site_id'', ''department_id'', ''planned_start'',
      ''planned_end'', ''period_start'', ''period_end'', ''actual_start'', ''actual_end'',
      ''diary_due_at'', ''completed_at'', ''overdue_at'', ''plan_document_id'',
      ''attendance_request_id'', ''execution_task_id'', ''approved_document_id'',
      ''diary_document_id'', ''report_document_id'', ''escalation_level'', ''last_escalated_at'',
      ''escalation_target_user_ids'', ''follow_up_source_keys'', ''source'', ''dedupe_key'',
      ''created_at'', ''updated_at'']"
  by (simp add: migration_entries_def Let_def string_entry_def)

lemma migration_distinct: "distinct (map fst (migration_entries t r n d))"
  unfolding migration_keys by code_simp

lemma json_get_object: "json_get k r = bt_get k (unwrap_or [] (as_object r))"
  by (cases r) (simp_all add: json_get_def bt_get_def)

lemma migrated_get:
  assumes "record_ok r"
  shows "json_get k (migrate_business_trip_record t r n d) =
    (case map_of (migration_entries t r n d) k of None \<Rightarrow> json_get k r | Some v \<Rightarrow> Some v)"
  unfolding json_get_object[of k r] migrate_business_trip_record_def json_get_JObj
  by (rule insert_entries_get[OF record_ok_object[OF assms] migration_distinct])

lemma text_field_get: "text_field v k = unwrap_or [] (map_option value_to_trimmed_string (json_get k v))"
  unfolding text_field_def json_get_def by (cases "as_object v") simp_all

lemma migrated_text:
  assumes "record_ok r"
  shows "text_field (migrate_business_trip_record t r n d) k =
    (case map_of (migration_entries t r n d) k of
       None \<Rightarrow> text_field r k | Some v \<Rightarrow> value_to_trimmed_string v)"
  unfolding text_field_get migrated_get[OF assms]
  by (cases "map_of (migration_entries t r n d) k") simp_all

lemma migrated_record_ok [simp]: "record_ok r \<Longrightarrow> record_ok (migrate_business_trip_record t r n d)"
  by (simp add: migrate_business_trip_record_def record_ok_object)

lemma find_first_eq: "find_first (\<lambda>c. c = x) xs = (if x \<in> set xs then Some x else None)"
  by (induction xs) auto

lemma normalize_trip_status_eq:
  "normalize_trip_status s = (if trim s \<in> set trip_statuses then trim s else ''draft'')"
  by (simp add: normalize_trip_status_def find_first_eq)

lemma normalize_kpi_eq:
  "normalize_kpi_reflection_status s = (if trim s \<in> set kpi_reflection_statuses then trim s else ''blocked'')"
  by (simp add: normalize_kpi_reflection_status_def find_first_eq)

lemma normalize_trip_status_cases: "normalize_trip_status s \<in> set trip_statuses"
  by (simp add: normalize_trip_status_eq) (simp add: trip_statuses_def)

lemma normalize_kpi_cases: "normalize_kpi_reflection_status s \<in> set kpi_reflection_statuses"
  by (simp add: normalize_kpi_eq) (simp add: kpi_reflection_statuses_def)

lemma status_fixed: "s \<in> set trip_statuses \<Longrightarrow> normalize_trip_status s = s \<and> trim s = s \<and> s \<noteq> []"
proof -
  have "list_all (\<lambda>s. normalize_trip_status s = s \<and> trim s = s \<and> s \<noteq> []) trip_statuses" by code_simp
  then show "s \<in> set trip_statuses \<Longrightarrow> ?thesis" by (simp add: list_all_iff)
qed

lemma kpi_fixed: "s \<in> set kpi_reflection_statuses \<Longrightarrow> normalize_kpi_reflection_status s = s \<and> trim s = s"
proof -
  have "list_all (\<lambda>s. normalize_kpi_reflection_status s = s \<and> trim s = s) kpi_reflection_statuses"
    by code_simp
  then show "s \<in> set kpi_reflection_statuses \<Longrightarrow> ?thesis" by (simp add: list_all_iff)
qed

lemma migrated_status_eq: "migrated_status r = normalize_trip_status (text_field r ''status'')"
  using status_fixed[OF normalize_trip_status_cases] by (simp add: migrated_status_def Let_def)

lemma migrated_kpi_cases: "migrated_kpi_status r \<in> set kpi_reflection_statuses"
proof -
  have "set [''not_applicable'', ''blocked''] \<subseteq> set kpi_reflection_statuses"
    by (simp add: kpi_reflection_statuses_def)
  with normalize_kpi_cases show ?thesis by (auto simp: migrated_kpi_status_def Let_def)
qed

lemma migrated_status_trim [simp]: "trim (migrated_status r) = migrated_status r"
  using status_fixed[OF normalize_trip_status_cases] by (simp add: migrated_status_eq)

lemma migrated_kpi_trim [simp]: "trim (migrated_kpi_status r) = migrated_kpi_status r"
  using kpi_fixed[OF migrated_kpi_cases] by simp

lemma trim_or_default_str [simp]: "trim (or_default_str s d) = or_default_str s d"
  by (simp add: or_default_str_def)

lemma migrated_entry:
  assumes "record_ok r" and "(k, v) \<in> set (migration_entries t r n d)"
  shows "json_get k (migrate_business_trip_record t r n d) = Some v"
  using map_of_is_SomeI[OF migration_distinct assms(2)] by (simp add: migrated_get[OF assms(1)])

lemma migrated_entry_text:
  assumes "record_ok r" and "(k, JStr s) \<in> set (migration_entries t r n d)" and "trim s = v"
  shows "text_field (migrate_business_trip_record t r n d) k = v"
  using assms(3) unfolding text_field_get migrated_entry[OF assms(1,2)] by simp

lemmas entry_unfolds = migration_entries_def Let_def string_entry_def list.set

text \<open>The fields that the migration passes through, and those that it computes.\<close>

definition plain_fields :: "string list" where
  "plain_fields =
     [''kpi_record_id'', ''title'', ''executor_id'', ''site_id'', ''department_id'', ''actual_start'',
      ''actual_end'', ''diary_due_at'', ''completed_at'', ''overdue_at'', ''attendance_request_id'',
      ''execution_task_id'', ''approved_document_id'', ''diary_document_id'', ''report_document_id'',
      ''last_escalated_at'']"

definition other_fields :: "string list" where
  "other_fields = [''traveler_id'', ''legal_tenant_id'', ''tenant_origin_id'', ''entity_id'', ''requester_name'']"

lemma plain_entries: "set (map (\<lambda>k. string_entry k (text_field r k)) plain_fields) \<subseteq> set (migration_entries t r n d)"
  unfolding plain_fields_def list.map list.set migration_entries_def Let_def
  by (intro insert_subsetI empty_subsetI; (rule insertI1 | rule insertI2)+)

lemma migrated_plain:
  assumes "record_ok r" and "k \<in> set plain_fields \<union> set other_fields"
  shows "text_field (migrate_business_trip_record t r n d) k = text_field r k"
proof (cases "k \<in> set plain_fields")
  case True
  then have "string_entry k (text_field r k) \<in> set (migration_entries t r n d)"
    using plain_entries[of r t n d] by auto
  then show ?thesis by (intro migrated_entry_text[OF assms(1)]) (auto simp: string_entry_def)
next
  case False
  have "list_all (\<lambda>k. k \<notin> set (map fst (migration_entries t r n d))) other_fields"
    unfolding migration_keys by code_simp
  with False assms(2) have "k \<notin> set (map fst (migration_entries t r n d))" by (auto simp: list_all_iff)
  then have "map_of (migration_entries t r n d) k = None" by (simp add: map_of_eq_None_iff)
  then show ?thesis by (simp add: migrated_text[OF assms(1)])
qed

lemma migrated_status_field:
  assumes "record_ok r"
  shows "text_field (migrate_business_trip_record t r n d) ''status'' = migrated_status r"
    and "text_field (migrate_business_trip_record t r n d) ''kpi_reflection_status'' = migrated_kpi_status r"
  by (rule migrated_entry_text[OF assms(1)], unfold entry_unfolds, (rule insertI1 | rule insertI2)+, simp)+

lemma migrated_ids:
  fixes t n d :: string
  assumes "record_ok r"
  defines "m \<equiv> migrate_business_trip_record t r n d"
  shows "text_field m ''id'' = first_nonempty [text_field r ''trip_id'', text_field r ''id'', trim d]"
    and "text_field m ''trip_id'' = first_nonempty [text_field r ''trip_id'', text_field r ''id'', trim d]"
    and "text_field m ''tenant_id'' = first_nonempty [text_field r ''tenant_id'', trim t]"
    and "text_field m ''origin_tenant_id'' = first_nonempty
            [text_field r ''origin_tenant_id'', text_field r ''legal_tenant_id'',
             text_field r ''tenant_origin_id'', text_field r ''tenant_id'', trim t]"
    and "text_field m ''legal_entity_id'' =
       or_default_str (text_field r ''legal_entity_id'') (text_field r ''entity_id'')"
    and "text_field m ''requester_id'' = first_nonempty
       [text_field r ''requester_id'', text_field r ''traveler_user_id'', text_field r ''traveler_id'']"
    and "text_field m ''traveler_user_id'' = first_nonempty
       [text_field r ''traveler_user_id'', text_field r ''requester_id'', text_field r ''traveler_id'']"
    and "text_field m ''traveler_name'' =
       first_nonempty [text_field r ''traveler_name'', text_field r ''requester_name'']"
    and "text_field m ''plan_document_id'' =
       first_nonempty [text_field r ''plan_document_id'', text_field r ''approved_document_id'']"
  unfolding m_def
  by (rule migrated_entry_text[OF assms(1)], unfold entry_unfolds, (rule insertI1 | rule insertI2)+, simp)+

lemma migrated_dates:
  fixes t n d :: string
  assumes "record_ok r"
  defines "m \<equiv> migrate_business_trip_record t r n d"
  shows "text_field m ''planned_start'' = first_nonempty [text_field r ''planned_start'', text_field r ''period_start'']"
    and "text_field m ''planned_end'' = first_nonempty [text_field r ''planned_end'', text_field r ''period_end'']"
    and "text_field m ''period_start'' = first_nonempty [text_field r ''period_start'', text_field r ''planned_start'']"
    and "text_field m ''period_end'' = first_nonempty [text_field r ''period_end'', text_field r ''planned_end'']"
    and "text_field m ''created_at'' = first_nonempty [text_field r ''created_at'', trim n]"
    and "text_field m ''updated_at'' = first_nonempty [text_field r ''updated_at'', trim n]"
    and "text_field m ''dedupe_key'' = first_nonempty
       [text_field r ''dedupe_key'',
        text_field (normalize_trip_source (unwrap_or JNull (json_get ''source'' r))) ''dedupe_key'',
        text_field r ''trip_id'', text_field r ''id'', trim d]"
  unfolding m_def
  by (rule migrated_entry_text[OF assms(1)], unfold entry_unfolds, (rule insertI1 | rule insertI2)+, simp)+

lemma migrated_values:
  fixes t n d :: string
  assumes "record_ok r"
  defines "m \<equiv> migrate_business_trip_record t r n d"
  shows "json_get ''source'' m = Some (normalize_trip_source (unwrap_or JNull (json_get ''source'' r)))"
    and "json_get ''escalation_level'' m = Some (JNum (JInt (int_or_zero (json_get ''escalation_level'' r))))"
    and "json_get ''escalation_target_user_ids'' m =
       Some (JArr (json_string_list (json_get ''escalation_target_user_ids'' r)))"
    and "json_get ''follow_up_source_keys'' m =
       Some (JArr (json_string_list (json_get ''follow_up_source_keys'' r)))"
  unfolding m_def
  by (rule migrated_entry[OF assms(1)], unfold entry_unfolds, (rule insertI1 | rule insertI2)+)+

lemma normalize_trip_source_object:
  "\<exists>kind document_id dedupe_key. normalize_trip_source s =
     JObj [(''dedupe_key'', JStr dedupe_key), (''document_id'', JStr document_id), (''kind'', JStr kind)]
   \<and> kind \<in> set trip_source_kinds \<and> trim document_id = document_id \<and> trim dedupe_key = dedupe_key
   \<and> (dedupe_key = [] \<longrightarrow> document_id = [])"
proof -
  define field where "field key = map_option value_to_trimmed_string (Option.bind (as_object s) (bt_get key))" for key
  have f: "field key = Some v \<Longrightarrow> trim v = v" for key v by (auto simp: field_def)
  have o: "(''document_id'' :: string) < ''kind''" "(''dedupe_key'' :: string) < ''kind''"
    "(''dedupe_key'' :: string) < ''document_id''" by code_simp+
  then have "\<not> (''kind'' :: string) < ''dedupe_key''" "\<not> (''document_id'' :: string) < ''dedupe_key''" by auto
  with o show ?thesis using f
    by (cases "field ''document_id''"; cases "field ''dedupe_key''"; cases "field ''kind''")
      (simp_all add: normalize_trip_source_def Let_def bt_collect_def field_def[symmetric]
        trip_source_kinds_def)
qed

lemma json_string_list_fixed: "json_string_list (Some (JArr (json_string_list v))) = json_string_list v"
proof -
  have "map JStr (filter (\<lambda>text. text \<noteq> []) (map value_to_trimmed_string (map JStr xs))) = map JStr xs"
    if "\<forall>x \<in> set xs. trim x = x \<and> x \<noteq> []" for xs
    using that by (induction xs) simp_all
  moreover have "\<exists>xs. json_string_list v = map JStr xs \<and> (\<forall>x \<in> set xs. trim x = x \<and> x \<noteq> [])"
  proof (cases v)
    case None
    then show ?thesis by (simp add: json_string_list_def)
  next
    case (Some w)
    show ?thesis
    proof (cases "\<exists>vs. w = JArr vs")
      case True
      then obtain vs where "w = JArr vs" by blast
      then show ?thesis unfolding Some
        by (intro exI[of _ "filter (\<lambda>text. text \<noteq> []) (map value_to_trimmed_string vs)"])
          (auto simp: json_string_list_def)
    next
      case False
      then have "json_string_list v = map JStr (filter (\<lambda>text. text \<noteq> []) [value_to_trimmed_string w])"
        unfolding Some by (cases w) (simp_all add: json_string_list_def Let_def)
      then show ?thesis
        by (intro exI[of _ "filter (\<lambda>text. text \<noteq> []) [value_to_trimmed_string w]"]) auto
    qed
  qed
  ultimately show ?thesis by (auto simp: json_string_list_def)
qed

lemma int_or_zero_fixed: "int_or_zero (Some (JNum (JInt (int_or_zero v)))) = int_or_zero v"
proof -
  have nn: "0 \<le> int_or_zero v" by (simp add: int_or_zero_def)
  have "is_i64 (int_or_zero v)"
  proof -
    have "is_i64 (max n 0)" if "n = 0 \<or> n = 1 \<or> is_i64 n" for n
      using that by (auto simp: is_i64_def i64_min_def i64_max_def max_def)
    moreover have "is_i64 n" if "as_i64 (JNum number) = Some n" for number n
      using that by (cases number) (auto split: if_splits)
    then have "unwrap_or 0 (as_i64 (JNum number)) = 0 \<or> is_i64 (unwrap_or 0 (as_i64 (JNum number)))" for number
      by (cases "as_i64 (JNum number)") (simp_all del: as_i64.simps)
    moreover have "unwrap_or 0 (parse_i64 s) = 0 \<or> is_i64 (unwrap_or 0 (parse_i64 s))" for s
      using parse_i64_range[of s] by (cases "parse_i64 s") auto
    ultimately have "is_i64 (max (unwrap_or 0 (as_i64 (JNum number))) 0)"
      "is_i64 (max (unwrap_or 0 (parse_i64 s)) 0)" for number s by blast+
    moreover have "is_i64 0" "is_i64 1" by (simp_all add: is_i64_def i64_min_def i64_max_def)
    ultimately show ?thesis unfolding int_or_zero_def Let_def
      by (simp del: as_i64.simps split: option.split json.split bool.split)
  qed
  with nn show ?thesis by (simp add: int_or_zero_def)
qed

lemma normalize_trip_source_fixed [simp]: "normalize_trip_source (normalize_trip_source s) = normalize_trip_source s"
proof -
  obtain kind document_id dedupe_key where s: "normalize_trip_source s =
     JObj [(''dedupe_key'', JStr dedupe_key), (''document_id'', JStr document_id), (''kind'', JStr kind)]"
    "kind \<in> set trip_source_kinds" "trim document_id = document_id" "trim dedupe_key = dedupe_key"
    "dedupe_key = [] \<longrightarrow> document_id = []" using normalize_trip_source_object by blast
  have "list_all (\<lambda>k. trim k = k) trip_source_kinds" by code_simp
  with s(2) have "trim kind = kind" by (auto simp: list_all_iff)
  have o: "(''document_id'' :: string) < ''kind''" "(''dedupe_key'' :: string) < ''kind''"
    "(''dedupe_key'' :: string) < ''document_id''" by code_simp+
  then have "\<not> (''kind'' :: string) < ''dedupe_key''" "\<not> (''document_id'' :: string) < ''dedupe_key''" by auto
  with o s(2-5) \<open>trim kind = kind\<close> show ?thesis
    unfolding s(1) by (simp add: normalize_trip_source_def bt_get_def bt_collect_def Let_def)
qed

text \<open>Migrating a migrated record, with the same defaults, changes nothing.\<close>

lemma migration_entries_fixed:
  fixes t n d :: string
  assumes "record_ok r"
  defines "m \<equiv> migrate_business_trip_record t r n d"
  shows "migration_entries t m n d = migration_entries t r n d"
proof -
  have st: "migrated_status m = migrated_status r"
  proof -
    have "text_field m ''status'' = migrated_status r"
      unfolding m_def by (rule migrated_status_field(1)[OF assms(1)])
    then show ?thesis
      using status_fixed[OF normalize_trip_status_cases[of "text_field r ''status''"]]
      by (simp add: migrated_status_eq)
  qed
  have kpi: "migrated_kpi_status m = migrated_kpi_status r"
  proof -
    have "normalize_trip_status (text_field m ''status'') = normalize_trip_status (text_field r ''status'')"
      using st by (simp add: migrated_status_eq)
    moreover have "normalize_kpi_reflection_status (text_field m ''kpi_reflection_status'') = migrated_kpi_status r"
      unfolding m_def migrated_status_field[OF assms(1)] using kpi_fixed[OF migrated_kpi_cases] by simp
    ultimately show ?thesis
      unfolding migrated_kpi_status_def[of m] Let_def
      by (auto simp: migrated_kpi_status_def Let_def)
  qed
  have plain:
    "text_field m ''kpi_record_id'' = text_field r ''kpi_record_id''"
    "text_field m ''title'' = text_field r ''title''"
    "text_field m ''executor_id'' = text_field r ''executor_id''"
    "text_field m ''site_id'' = text_field r ''site_id''"
    "text_field m ''department_id'' = text_field r ''department_id''"
    "text_field m ''actual_start'' = text_field r ''actual_start''"
    "text_field m ''actual_end'' = text_field r ''actual_end''"
    "text_field m ''diary_due_at'' = text_field r ''diary_due_at''"
    "text_field m ''completed_at'' = text_field r ''completed_at''"
    "text_field m ''overdue_at'' = text_field r ''overdue_at''"
    "text_field m ''attendance_request_id'' = text_field r ''attendance_request_id''"
    "text_field m ''execution_task_id'' = text_field r ''execution_task_id''"
    "text_field m ''approved_document_id'' = text_field r ''approved_document_id''"
    "text_field m ''diary_document_id'' = text_field r ''diary_document_id''"
    "text_field m ''report_document_id'' = text_field r ''report_document_id''"
    "text_field m ''last_escalated_at'' = text_field r ''last_escalated_at''"
    "text_field m ''traveler_id'' = text_field r ''traveler_id''"
    "text_field m ''legal_tenant_id'' = text_field r ''legal_tenant_id''"
    "text_field m ''tenant_origin_id'' = text_field r ''tenant_origin_id''"
    "text_field m ''entity_id'' = text_field r ''entity_id''"
    "text_field m ''requester_name'' = text_field r ''requester_name''"
    unfolding m_def
    by (rule migrated_plain[OF assms(1)], simp add: plain_fields_def other_fields_def)+
  note fields = migrated_ids[OF assms(1), of t n d, folded m_def] migrated_dates[OF assms(1), of t n d, folded m_def]
    migrated_values[OF assms(1), of t n d, folded m_def]
  show ?thesis
    unfolding migration_entries_def Let_def fields st kpi plain string_entry_def
    by ((rule arg_cong2[where f = Cons], simp add: json_string_list_fixed int_or_zero_fixed or_default_str_def)+)
      (rule refl)
qed

lemma migrate_idempotent:
  assumes "record_ok r"
  shows "migrate_business_trip_record t (migrate_business_trip_record t r n d) n d =
    migrate_business_trip_record t r n d"
proof -
  let ?m = "migrate_business_trip_record t r n d"
  obtain obj where obj: "?m = JObj obj" by (simp add: migrate_business_trip_record_def)
  have ok: "bt_ok obj" using migrated_record_ok[OF assms, of t n d] by (simp add: obj)
  have "insert_entries obj (migration_entries t r n d) = obj"
  proof (rule insert_entries_same[OF ok])
    fix k v assume "(k, v) \<in> set (migration_entries t r n d)"
    from migrated_entry[OF assms this] show "bt_get k obj = Some v" by (simp add: obj)
  qed
  then show ?thesis
    using migration_entries_fixed[OF assms, of t n d]
    unfolding obj by (simp add: migrate_business_trip_record_def)
qed

section \<open>Transitions of a record\<close>

lemma map_text_insert [simp]:
  "bt_ok m \<Longrightarrow> map_text_field (insert_string key v m) k = (if k = key then trim v else map_text_field m k)"
  by (simp add: map_text_field_def insert_string_def bt_get_insert)

lemma insert_string_ok [simp]: "bt_ok m \<Longrightarrow> bt_ok (insert_string key v m)"
  by (simp add: insert_string_def bt_ok_insert)

lemma stamp_ok [simp]: "bt_ok m \<Longrightarrow> bt_ok (stamp now key m)"
  by (simp add: stamp_def)

lemma map_text_stamp [simp]:
  "bt_ok m \<Longrightarrow> map_text_field (stamp now key m) k =
     (if k = key \<and> map_text_field m key = [] then trim now else map_text_field m k)"
  by (simp add: stamp_def)

lemma apply_transition_ok [simp]: "bt_ok m \<Longrightarrow> bt_ok (apply_transition target now m)"
  by (simp add: apply_transition_def Let_def)

lemma trim_literals: "trim ''ready'' = ''ready''" "trim ''not_applicable'' = ''not_applicable''"
  by code_simp+

text \<open>The fields that a transition changes.\<close>

lemma apply_transition_fields:
  fixes now :: string
  assumes "bt_ok m" and "target \<in> set trip_statuses"
  defines "m' \<equiv> apply_transition target now m"
  shows "map_text_field m' ''status'' = target"
    and "map_text_field m' ''kpi_reflection_status'' =
      (if target = ''cancelled'' then ''not_applicable''
       else if target = ''completed'' \<and> map_text_field m ''kpi_reflection_status'' = ''blocked'' then ''ready''
       else map_text_field m ''kpi_reflection_status'')"
    and "map_text_field m' ''actual_start'' =
      (if target \<in> {''in_progress'', ''diary_due''} \<and> map_text_field m ''actual_start'' = [] then trim now
       else map_text_field m ''actual_start'')"
    and "map_text_field m' ''diary_due_at'' =
      (if target = ''diary_due'' \<and> map_text_field m ''diary_due_at'' = [] then trim now
       else map_text_field m ''diary_due_at'')"
    and "map_text_field m' ''overdue_at'' =
      (if target = ''overdue'' \<and> map_text_field m ''overdue_at'' = [] then trim now
       else map_text_field m ''overdue_at'')"
    and "map_text_field m' ''completed_at'' =
      (if target = ''completed'' \<and> map_text_field m ''kpi_reflection_status'' = ''blocked''
          \<and> map_text_field m ''completed_at'' = [] then trim now
       else map_text_field m ''completed_at'')"
    and "map_text_field m' ''actual_end'' =
      (if (target = ''diary_due'' \<or> target = ''completed'' \<and> map_text_field m ''kpi_reflection_status'' = ''blocked'')
          \<and> map_text_field m ''actual_end'' = [] then trim now
       else map_text_field m ''actual_end'')"
  using assms(1) status_fixed[OF assms(2)] trim_literals
  by (auto simp: m'_def apply_transition_def Let_def)

section \<open>The lifecycle\<close>

text \<open>
  One call of \<open>transition_trip_status\<close> that succeeds, with a clock that is not blank; a move is
  one that changes the status.
\<close>

inductive trip_step :: "json \<Rightarrow> json \<Rightarrow> bool" where
  step: "transition_trip_status r target now = Inr r' \<Longrightarrow> trim now \<noteq> [] \<Longrightarrow> trip_step r r'"

inductive trip_move :: "json \<Rightarrow> json \<Rightarrow> bool" where
  move: "transition_trip_status r target now = Inr r' \<Longrightarrow>
    normalize_trip_status target \<noteq> normalize_trip_status (text_field r ''status'') \<Longrightarrow> trip_move r r'"

inductive_cases trip_stepE: "trip_step r r'"
inductive_cases trip_moveE: "trip_move r r'"

definition kpi_consistent :: "json \<Rightarrow> bool" where
  "kpi_consistent r \<longleftrightarrow>
     text_field r ''status'' \<in> set trip_statuses
     \<and> text_field r ''kpi_reflection_status'' \<in> set kpi_reflection_statuses
     \<and> (text_field r ''status'' = ''cancelled'' \<longrightarrow> text_field r ''kpi_reflection_status'' = ''not_applicable'')
     \<and> (text_field r ''kpi_reflection_status'' \<in> {''ready'', ''reflected''} \<longrightarrow>
          text_field r ''status'' = ''completed'')"

definition stamps_complete :: "json \<Rightarrow> bool" where
  "stamps_complete r \<longleftrightarrow>
     (text_field r ''status'' \<in> {''in_progress'', ''diary_due'', ''overdue'', ''completed''} \<longrightarrow>
        text_field r ''actual_start'' \<noteq> [])
     \<and> (text_field r ''status'' = ''diary_due'' \<longrightarrow>
          text_field r ''actual_end'' \<noteq> [] \<and> text_field r ''diary_due_at'' \<noteq> [])
     \<and> (text_field r ''status'' = ''overdue'' \<longrightarrow> text_field r ''overdue_at'' \<noteq> [])
     \<and> (text_field r ''status'' = ''completed'' \<and> text_field r ''kpi_reflection_status'' \<noteq> ''not_applicable''
          \<longrightarrow> text_field r ''completed_at'' \<noteq> [] \<and> text_field r ''actual_end'' \<noteq> [])"

text \<open>The two ways a transition succeeds.\<close>

lemma transition_cases:
  assumes "transition_trip_status r target now = Inr r'"
  obtains (same) "normalize_trip_status target = normalize_trip_status (text_field r ''status'')"
      "r' = migrate_business_trip_record (text_field r ''tenant_id'') r now (text_field r ''trip_id'')"
  | (moved) obj where "normalize_trip_status target \<noteq> normalize_trip_status (text_field r ''status'')"
      "normalize_trip_status target \<in> set (transition_targets (normalize_trip_status (text_field r ''status'')))"
      "migrate_business_trip_record (text_field r ''tenant_id'') r now (text_field r ''trip_id'') = JObj obj"
      "r' = JObj (apply_transition (normalize_trip_status target) now obj)"
proof -
  let ?m = "migrate_business_trip_record (text_field r ''tenant_id'') r now (text_field r ''trip_id'')"
  obtain obj where obj: "?m = JObj obj" by (simp add: migrate_business_trip_record_def)
  have fix_status: "normalize_trip_status (normalize_trip_status s) = normalize_trip_status s" for s
    using status_fixed[OF normalize_trip_status_cases] by blast
  show thesis
  proof (cases "normalize_trip_status target = normalize_trip_status (text_field r ''status'')")
    case True
    with assms have "r' = ?m" by (simp add: transition_trip_status_def Let_def)
    with True show thesis by (rule same)
  next
    case False
    with assms obj have "normalize_trip_status target \<in> set (transition_targets (normalize_trip_status (text_field r ''status'')))"
      "r' = JObj (apply_transition (normalize_trip_status target) now obj)"
      by (auto simp: transition_trip_status_def can_transition_trip_status_def fix_status Let_def split: if_splits)
    with False obj show thesis by (intro moved)
  qed
qed

lemma migrated_kpi_consistent:
  assumes "record_ok r"
  shows "kpi_consistent (migrate_business_trip_record t r n d)"
  unfolding kpi_consistent_def migrated_status_field[OF assms]
  using migrated_kpi_cases[of r] normalize_trip_status_cases[of "text_field r ''status''"]
  by (auto simp: migrated_status_eq migrated_kpi_status_def Let_def split: if_splits)

lemma migrated_keeps:
  assumes "record_ok r" and "kpi_consistent r"
  shows "migrated_status r = text_field r ''status'' \<and> migrated_kpi_status r = text_field r ''kpi_reflection_status''"
proof -
  define s q where "s = text_field r ''status''" and "q = text_field r ''kpi_reflection_status''"
  have c: "s \<in> set trip_statuses" "q \<in> set kpi_reflection_statuses"
    "s \<noteq> ''cancelled'' \<or> q = ''not_applicable''" "q \<noteq> ''ready'' \<and> q \<noteq> ''reflected'' \<or> s = ''completed''"
    using assms(2) unfolding kpi_consistent_def s_def q_def by blast+
  have "normalize_trip_status s = s" "normalize_kpi_reflection_status q = q"
    using status_fixed[OF c(1)] kpi_fixed[OF c(2)] by blast+
  then show ?thesis using c(3,4)
    unfolding migrated_status_eq migrated_kpi_status_def Let_def s_def[symmetric] q_def[symmetric]
    by (elim disjE) auto
qed

lemma migrated_stamps:
  assumes "record_ok r" and "kpi_consistent r" and "stamps_complete r"
  shows "stamps_complete (migrate_business_trip_record t r n d)"
proof -
  note keep = migrated_keeps[OF assms(1,2)]
  have "text_field (migrate_business_trip_record t r n d) k = text_field r k"
    if "k \<in> set plain_fields" for k using migrated_plain[OF assms(1)] that by blast
  from this[of "''actual_start''"] this[of "''actual_end''"] this[of "''diary_due_at''"]
    this[of "''overdue_at''"] this[of "''completed_at''"]
  show ?thesis using assms(3) keep
    unfolding stamps_complete_def migrated_status_field[OF assms(1)] by (simp add: plain_fields_def)
qed

definition lifecycle_ok :: "json \<Rightarrow> bool" where
  "lifecycle_ok r \<longleftrightarrow> record_ok r \<and> kpi_consistent r \<and> stamps_complete r"

lemma target_sources:
  "target \<in> set (transition_targets s) \<Longrightarrow>
     target \<in> set trip_statuses
     \<and> (target \<in> {''diary_due'', ''overdue'', ''completed''} \<longrightarrow> s \<in> {''in_progress'', ''diary_due'', ''overdue''})
     \<and> target \<noteq> ''draft'' \<and> s \<notin> {''completed'', ''cancelled''}"
  by (auto simp: transition_targets_def trip_statuses_def split: if_splits)

lemma apply_transition_lifecycle:
  assumes "lifecycle_ok (JObj obj)" and "trim now \<noteq> []"
    and "target \<in> set (transition_targets (text_field (JObj obj) ''status''))"
  shows "lifecycle_ok (JObj (apply_transition target now obj))"
proof -
  have ok: "bt_ok obj" and tg: "target \<in> set trip_statuses"
    using assms(1) target_sources[OF assms(3)] by (auto simp: lifecycle_ok_def)
  note f = apply_transition_fields[OF ok tg, of now]
  have start: "target \<in> {''overdue'', ''completed''} \<Longrightarrow> map_text_field obj ''actual_start'' \<noteq> []"
    using assms(1) target_sources[OF assms(3)] by (auto simp: lifecycle_ok_def stamps_complete_def)
  have kpi: "map_text_field obj ''kpi_reflection_status'' \<in> {''blocked'', ''not_applicable''}"
  proof -
    have "map_text_field obj ''kpi_reflection_status'' \<in> set kpi_reflection_statuses"
      "map_text_field obj ''kpi_reflection_status'' \<notin> {''ready'', ''reflected''}"
      using assms(1) target_sources[OF assms(3)]
      unfolding lifecycle_ok_def kpi_consistent_def text_field_JObj by blast+
    then show ?thesis by (simp add: kpi_reflection_statuses_def)
  qed
  have "kpi_consistent (JObj (apply_transition target now obj))"
    unfolding kpi_consistent_def text_field_JObj f
    using kpi tg by (auto simp: kpi_reflection_statuses_def)
  moreover have "stamps_complete (JObj (apply_transition target now obj))"
    unfolding stamps_complete_def text_field_JObj f
    using start kpi assms(2) by auto
  ultimately show ?thesis using ok by (simp add: lifecycle_ok_def)
qed

lemma migrated_lifecycle:
  "lifecycle_ok r \<Longrightarrow> lifecycle_ok (migrate_business_trip_record t r n d)"
  by (simp add: lifecycle_ok_def migrated_kpi_consistent migrated_stamps)

lemma step_lifecycle:
  assumes "trip_step r r'" and "lifecycle_ok r"
  shows "lifecycle_ok r'"
  using assms(1)
proof (rule trip_stepE)
  fix target now
  assume tr: "transition_trip_status r target now = Inr r'" and "trim now \<noteq> []"
  have rok: "record_ok r" "kpi_consistent r" using assms(2) by (auto simp: lifecycle_ok_def)
  from tr show "lifecycle_ok r'"
  proof (cases rule: transition_cases)
    case same
    with migrated_lifecycle[OF assms(2)] show ?thesis by simp
  next
    case (moved obj)
    have l: "lifecycle_ok (JObj obj)" using migrated_lifecycle[OF assms(2)] by (simp add: moved(3)[symmetric])
    have "text_field (JObj obj) ''status'' = migrated_status r"
      unfolding moved(3)[symmetric] by (rule migrated_status_field(1)[OF rok(1)])
    with moved(2) have "normalize_trip_status target \<in> set (transition_targets (text_field (JObj obj) ''status''))"
      by (simp add: migrated_status_eq)
    from apply_transition_lifecycle[OF l \<open>trim now \<noteq> []\<close> this] moved(4) show ?thesis by simp
  qed
qed

lemma steps_lifecycle: "trip_step\<^sup>*\<^sup>* r r' \<Longrightarrow> lifecycle_ok r \<Longrightarrow> lifecycle_ok r'"
  by (induction rule: rtranclp_induct) (auto intro: step_lifecycle)

section \<open>Progress\<close>

definition trip_rank :: "string \<Rightarrow> nat" where
  "trip_rank status =
     (if status = ''draft'' then 0 else if status = ''planned'' then 1 else if status = ''approved'' then 2
      else if status = ''in_progress'' then 3 else if status = ''diary_due'' then 4
      else if status = ''overdue'' then 5 else 6)"

definition record_rank :: "json \<Rightarrow> nat" where
  "record_rank r = trip_rank (normalize_trip_status (text_field r ''status''))"

lemma rank_increases: "target \<in> set (transition_targets s) \<Longrightarrow> trip_rank s < trip_rank target"
  by (auto simp: transition_targets_def trip_rank_def split: if_splits)

lemma move_record_ok: "transition_trip_status r target now = Inr r' \<Longrightarrow> record_ok r \<Longrightarrow> record_ok r'"
proof (erule transition_cases)
  fix obj assume "record_ok r"
    "migrate_business_trip_record (text_field r ''tenant_id'') r now (text_field r ''trip_id'') = JObj obj"
    "r' = JObj (apply_transition (normalize_trip_status target) now obj)"
  then show "record_ok r'" using migrated_record_ok[of r] by (metis apply_transition_ok record_ok_JObj)
qed simp

lemma move_rank:
  assumes "trip_move r r'" and "record_ok r"
  shows "record_rank r < record_rank r' \<and> record_ok r'"
  using assms(1)
proof (rule trip_moveE)
  fix target now
  assume tr: "transition_trip_status r target now = Inr r'"
    and ne: "normalize_trip_status target \<noteq> normalize_trip_status (text_field r ''status'')"
  from tr show ?thesis
  proof (cases rule: transition_cases)
    case (moved obj)
    have "bt_ok obj" using migrated_record_ok[OF assms(2)] moved(3) by (metis record_ok_JObj)
    from apply_transition_fields(1)[OF this normalize_trip_status_cases[of target]] moved(4)
    have "text_field r' ''status'' = normalize_trip_status target" by simp
    then have "normalize_trip_status (text_field r' ''status'') = normalize_trip_status target"
      using status_fixed[OF normalize_trip_status_cases] by simp
    then show ?thesis using rank_increases[OF moved(2)] move_record_ok[OF tr assms(2)]
      by (simp add: record_rank_def)
  qed (use ne in simp)
qed

lemma moves_rank: "(trip_move ^^ k) r r' \<Longrightarrow> record_ok r \<Longrightarrow> record_rank r + k \<le> record_rank r' \<and> record_ok r'"
proof (induction k arbitrary: r')
  case (Suc k)
  then obtain s where "(trip_move ^^ k) r s" "trip_move s r'" by auto
  with Suc.IH Suc.prems(2) move_rank[of s r'] show ?case by fastforce
qed simp

lemma draft_lifecycle:
  assumes "record_ok r" and "normalize_trip_status (text_field r ''status'') = ''draft''"
  shows "lifecycle_ok (migrate_business_trip_record t r n d)"
proof -
  have "text_field (migrate_business_trip_record t r n d) ''status'' = ''draft''"
    unfolding migrated_status_field(1)[OF assms(1)] migrated_status_eq by (rule assms(2))
  then have "stamps_complete (migrate_business_trip_record t r n d)" by (simp add: stamps_complete_def)
  with assms(1) show ?thesis by (simp add: lifecycle_ok_def migrated_kpi_consistent)
qed

lemma final_no_move:
  assumes "normalize_trip_status (text_field r ''status'') \<in> {''completed'', ''cancelled''}"
  shows "\<not> trip_move r r'"
proof
  assume "trip_move r r'"
  then show False
  proof (rule trip_moveE)
    fix target now
    assume tr: "transition_trip_status r target now = Inr r'"
      and ne: "normalize_trip_status target \<noteq> normalize_trip_status (text_field r ''status'')"
    from tr show False
    proof (cases rule: transition_cases)
      case (moved obj)
      with target_sources[OF moved(2)] assms show False by blast
    qed (use ne in simp)
  qed
qed

section \<open>Properties\<close>

text \<open>
  C34: along every sequence of successful transitions from a migrated draft, under any clock
  that is never blank, the record stays consistent: a cancelled trip has no KPI reflection and
  only a completed one is ready for it or reflected; a trip that was started has a start time,
  one whose diary is due has an end and a due time, an overdue one has its time, and a
  completed one whose KPI applies has an end and a completion time.
\<close>

theorem trip_lifecycle_invariant:
  assumes "record_ok r" and "normalize_trip_status (text_field r ''status'') = ''draft''"
    and "trip_step\<^sup>*\<^sup>* (migrate_business_trip_record tenant r now trip_id) r'"
  shows "kpi_consistent r' \<and> stamps_complete r'"
  using steps_lifecycle[OF assms(3) draft_lifecycle[OF assms(1,2)]] by (simp add: lifecycle_ok_def)

theorem trip_lifecycle_invariant_witness:
  "\<exists>r'. transition_trip_status (migrate_business_trip_record ''t1'' (JObj []) ''now'' ''b1'') ''planned'' ''now'' = Inr r'
     \<and> kpi_consistent r'"
proof -
  let ?m = "migrate_business_trip_record ''t1'' (JObj []) ''now'' ''b1''"
  have n: "normalize_trip_status (text_field (JObj []) ''status'') = ''draft''" by code_simp
  have "map_sum id (\<lambda>_. ()) (transition_trip_status ?m ''planned'' ''now'') = Inr ()" by code_simp
  then obtain r' where r': "transition_trip_status ?m ''planned'' ''now'' = Inr r'"
    by (cases "transition_trip_status ?m ''planned'' ''now''") auto
  have "trim ''now'' \<noteq> []" by code_simp
  with r' have "trip_step\<^sup>*\<^sup>* ?m r'" by (intro r_into_rtranclp trip_step.intros)
  then have "kpi_consistent r'"
    using trip_lifecycle_invariant[of "JObj []" "''t1''" "''now''" "''b1''" r'] n by simp
  with r' show ?thesis by blast
qed

text \<open>
  C35: the status table has no cycle: at most six moves lead from any record to a record that is
  completed or cancelled, from which no move leads on; and a transition fails exactly when the
  target differs from the status and the table does not list it.
\<close>

theorem trip_moves_bounded:
  assumes "record_ok r" and "(trip_move ^^ k) r r'"
  shows "k \<le> 6
    \<and> (normalize_trip_status (text_field r' ''status'') \<in> {''completed'', ''cancelled''} \<longrightarrow>
         (\<forall>r''. \<not> trip_move r' r''))
    \<and> (\<forall>target now e. transition_trip_status r' target now = Inl e \<longleftrightarrow>
         e = BusinessTripTransitionError (normalize_trip_status (text_field r' ''status''))
               (normalize_trip_status target)
         \<and> normalize_trip_status target \<notin>
             insert (normalize_trip_status (text_field r' ''status''))
               (set (transition_targets (normalize_trip_status (text_field r' ''status'')))))"
proof (intro conjI allI impI)
  have "trip_rank s \<le> 6" for s by (simp add: trip_rank_def)
  then have "record_rank r' \<le> 6" unfolding record_rank_def by blast
  moreover have "record_rank r + k \<le> record_rank r'" using moves_rank[OF assms(2,1)] by blast
  ultimately show "k \<le> 6" by linarith
  show "\<not> trip_move r' r''" if "normalize_trip_status (text_field r' ''status'') \<in> {''completed'', ''cancelled''}" for r''
    using final_no_move[OF that] .
  fix target now e
  have f: "normalize_trip_status (normalize_trip_status s) = normalize_trip_status s" for s
    using status_fixed[OF normalize_trip_status_cases] by blast
  show "transition_trip_status r' target now = Inl e \<longleftrightarrow>
      e = BusinessTripTransitionError (normalize_trip_status (text_field r' ''status''))
            (normalize_trip_status target)
      \<and> normalize_trip_status target \<notin>
          insert (normalize_trip_status (text_field r' ''status''))
            (set (transition_targets (normalize_trip_status (text_field r' ''status''))))"
  proof -
    obtain obj where "migrate_business_trip_record (text_field r' ''tenant_id'') r' now (text_field r' ''trip_id'') = JObj obj"
      by (simp add: migrate_business_trip_record_def)
    then show ?thesis
      unfolding transition_trip_status_def can_transition_trip_status_def f Let_def by auto
  qed
qed

theorem trip_moves_bounded_witness:
  "\<exists>r'. transition_trip_status (JObj [(''status'', JStr ''overdue'')]) ''cancelled'' ''now'' = Inr r'
     \<and> transition_trip_status r' ''draft'' ''now'' =
         Inl (BusinessTripTransitionError ''cancelled'' ''draft'')"
proof -
  let ?r = "JObj [(''status'', JStr ''overdue'')]"
  have "map_sum id (\<lambda>r. text_field r ''status'') (transition_trip_status ?r ''cancelled'' ''now'') = Inr ''cancelled''"
    by code_simp
  then obtain r' where r': "transition_trip_status ?r ''cancelled'' ''now'' = Inr r'" "text_field r' ''status'' = ''cancelled''"
    by (cases "transition_trip_status ?r ''cancelled'' ''now''") auto
  have "normalize_trip_status ''cancelled'' \<noteq> normalize_trip_status (text_field ?r ''status'')" by code_simp
  with r'(1) have "trip_move ?r r'" by (rule trip_move.intros)
  then have "(trip_move ^^ 1) ?r r'" by (simp only: relpowp_1)
  moreover have "record_ok ?r" by (simp add: bt_ok_def)
  moreover have "normalize_trip_status ''cancelled'' = ''cancelled''" "normalize_trip_status ''draft'' = ''draft''"
    "transition_targets ''cancelled'' = []" by code_simp+
  ultimately show ?thesis using trip_moves_bounded[of ?r 1 r'] r' by auto
qed

text \<open>
  Migrating a record puts it in a form that a second migration, with the same defaults, leaves
  as it is: every alias of a field is resolved for good, and status and KPI status agree.
\<close>

theorem migration_canonical:
  assumes "record_ok r"
  shows "migrate_business_trip_record tenant (migrate_business_trip_record tenant r now trip_id) now trip_id
      = migrate_business_trip_record tenant r now trip_id
    \<and> kpi_consistent (migrate_business_trip_record tenant r now trip_id)"
  by (simp add: migrate_idempotent[OF assms] migrated_kpi_consistent[OF assms])

theorem migration_canonical_witness:
  "kpi_consistent (migrate_business_trip_record ''t1''
     (JObj [(''kpi_reflection_status'', JStr ''ready''), (''status'', JStr ''planned'')]) ''now'' ''b1'')"
proof -
  have "record_ok (JObj [(''kpi_reflection_status'', JStr ''ready''), (''status'', JStr ''planned'')])"
    unfolding record_ok_JObj by code_simp
  from migration_canonical[OF this] show ?thesis by blast
qed

text \<open>
  A trip whose KPI reflection does not apply is completed without a completion time: the
  stamps of the completion are tied to the KPI status.
\<close>

theorem completed_without_time:
  "map_sum id (\<lambda>r. (text_field r ''status'', text_field r ''completed_at''))
     (transition_trip_status
       (JObj [(''kpi_reflection_status'', JStr ''not_applicable''), (''status'', JStr ''diary_due'')])
       ''completed'' ''2026-03-01'') = Inr (''completed'', [])"
  by code_simp

end
