(* ===== verification/Workflow_Inbox.thy ===== *)
theory Workflow_Inbox
  imports Rust_Str
begin

text \<open>
  Which inboxes of a user show a workflow document:
  \<open>crates/workflow-core/src/workflow_inbox.rs\<close>.  The list kind of an imported document is
  Unicode lower-cased in the source; the only non-ASCII letter whose lower case is ASCII is
  the Kelvin sign, and no list kind holds a \<open>k\<close>, so ASCII lower case decides the same
  comparisons.
\<close>

section \<open>Data\<close>

record workflow_inbox_approval_step =
  wis_approver_id :: string

record workflow_inbox_document =
  wid_status :: string
  wid_requester_id :: string
  wid_approval_steps :: "workflow_inbox_approval_step list"
  wid_cc_user_ids :: "string list"
  wid_cc_users :: "string list"
  wid_content_gw_list :: string
  wid_content_imported_from :: string
  wid_content_gw_doc_id :: string

record workflow_inbox_match_input =
  wim_document :: workflow_inbox_document
  wim_inbox_id :: string
  wim_user_id :: string
  wim_can_approve_document :: bool

definition inbox_ids :: "string list" where
  "inbox_ids =
     [''to_approve'', ''my_draft'', ''circulate'', ''in_progress'', ''completed'', ''rejected'',
      ''reference'', ''all'']"

definition gw_inbox_quick_tab_ids :: "string list" where
  "gw_inbox_quick_tab_ids = [''all'', ''to_approve'', ''my_draft'', ''circulate'']"

section \<open>Helpers\<close>

definition is_active_approval_status :: "string \<Rightarrow> bool" where
  "is_active_approval_status status \<longleftrightarrow> status = ''submitted'' \<or> status = ''in_review''"

definition is_gw_import :: "workflow_inbox_document \<Rightarrow> bool" where
  "is_gw_import document \<longleftrightarrow>
     wid_content_imported_from document \<noteq> [] \<or> wid_content_gw_doc_id document \<noteq> []"

definition cc_users :: "workflow_inbox_document \<Rightarrow> string list" where
  "cc_users document =
     (if wid_cc_user_ids document = [] then wid_cc_users document else wid_cc_user_ids document)"

definition contains_user_id :: "string list \<Rightarrow> string \<Rightarrow> bool" where
  "contains_user_id ids expected \<longleftrightarrow> list_ex (\<lambda>v. v = expected) ids"

definition gw_list_kind :: "workflow_inbox_document \<Rightarrow> string" where
  "gw_list_kind document = to_ascii_lowercase (wid_content_gw_list document)"

section \<open>Matching\<close>

text \<open>The pending-approval inbox is the to-approve inbox under another name.\<close>

definition matches_to_approve :: "workflow_inbox_match_input \<Rightarrow> bool" where
  "matches_to_approve input =
     (let document = wim_document input; status = wid_status document;
          gw_list = gw_list_kind document in
      if is_gw_import document
         \<and> (gw_list = ''pending'' \<or> gw_list = ''to_approve'' \<or> gw_list = ''inbox_scrape'' \<or> gw_list = ''inbox'')
      then is_active_approval_status status
      else wim_can_approve_document input \<and> is_active_approval_status status)"

definition matches_inbox :: "workflow_inbox_match_input \<Rightarrow> bool" where
  "matches_inbox input =
     (let inbox_id = wim_inbox_id input; document = wim_document input in
      if inbox_id = [] \<or> inbox_id = ''all'' then True
      else
        let uid = wim_user_id input;
            status = wid_status document;
            is_mine = (uid \<noteq> [] \<and> wid_requester_id document = uid);
            on_line = (uid \<noteq> [] \<and> list_ex (\<lambda>step. wis_approver_id step = uid) (wid_approval_steps document));
            in_cc = (uid \<noteq> [] \<and> contains_user_id (cc_users document) uid);
            can_approve = wim_can_approve_document input;
            gw_list = gw_list_kind document in
        if inbox_id = ''to_approve'' then matches_to_approve input
        else if inbox_id = ''my_draft'' then
          (if is_gw_import document then
             gw_list = ''draft'' \<or> gw_list = ''drafts'' \<or> gw_list = ''my_draft'' \<or> gw_list = ''drafts_page1''
             \<or> gw_list = [CHR 0xEA, CHR 0xB8, CHR 0xB0, CHR 0xEC, CHR 0x95, CHR 0x88] \<or> gw_list = ''browser''
           else is_mine \<and> (status = ''draft'' \<or> status = ''requested_changes''))
        else if inbox_id = ''in_progress'' then (is_mine \<or> on_line) \<and> is_active_approval_status status
        else if inbox_id = ''completed'' then
          (status = ''approved'' \<or> status = ''completed'' \<or> status = ''closed'')
          \<and> (is_mine \<or> on_line \<or> in_cc)
        else if inbox_id = ''rejected'' then
          (status = ''rejected'' \<or> status = ''cancelled'') \<and> (is_mine \<or> on_line)
        else if inbox_id = ''circulate'' then
          (if is_gw_import document
              \<and> (gw_list = ''circulate'' \<or> gw_list = ''circulate_home_widget''
                 \<or> gw_list = [CHR 0xEA, CHR 0xB3, CHR 0xB5, CHR 0xEB, CHR 0x9E, CHR 0x8C] \<or> gw_list = ''reference'') then True
           else if \<not> in_cc then False
           else if can_approve \<and> is_active_approval_status status then False
           else \<not> (status = ''draft'' \<or> status = ''cancelled''))
        else if inbox_id = ''reference'' then \<not> in_cc \<and> on_line \<and> \<not> is_mine \<and> status \<noteq> ''draft''
        else if inbox_id = ''my_requests'' then is_mine
        else if inbox_id = ''pending_approval'' then matches_to_approve input
        else True)"

definition filter_inbox_ids :: "workflow_inbox_document \<Rightarrow> string \<Rightarrow> bool \<Rightarrow> string list" where
  "filter_inbox_ids document user_id can_approve_document =
     filter (\<lambda>inbox_id. matches_inbox
       \<lparr>wim_document = document, wim_inbox_id = inbox_id, wim_user_id = user_id,
        wim_can_approve_document = can_approve_document\<rparr>) inbox_ids"

section \<open>Properties\<close>

definition document_statuses :: "string list" where
  "document_statuses =
     [''draft'', ''submitted'', ''in_review'', ''approved'', ''rejected'', ''requested_changes'',
      ''cancelled'', ''completed'', ''closed'']"

lemma filter_inbox_member:
  "inbox \<in> set (filter_inbox_ids d u c) \<longleftrightarrow> inbox \<in> set inbox_ids \<and> matches_inbox
     \<lparr>wim_document = d, wim_inbox_id = inbox, wim_user_id = u, wim_can_approve_document = c\<rparr>"
  by (auto simp: filter_inbox_ids_def)

lemma own_inboxes:
  assumes "u \<noteq> []" and "wid_requester_id d = u" and "\<not> is_gw_import d"
  shows "''my_draft'' \<in> set (filter_inbox_ids d u c) \<longleftrightarrow> wid_status d \<in> {''draft'', ''requested_changes''}"
    and "''in_progress'' \<in> set (filter_inbox_ids d u c) \<longleftrightarrow> wid_status d \<in> {''submitted'', ''in_review''}"
    and "''completed'' \<in> set (filter_inbox_ids d u c) \<longleftrightarrow> wid_status d \<in> {''approved'', ''completed'', ''closed''}"
    and "''rejected'' \<in> set (filter_inbox_ids d u c) \<longleftrightarrow> wid_status d \<in> {''rejected'', ''cancelled''}"
  using assms
  by (simp_all add: filter_inbox_member matches_inbox_def inbox_ids_def is_active_approval_status_def Let_def)

lemma exclusive_inboxes:
  assumes "\<not> is_gw_import d" and "''circulate'' \<in> set (filter_inbox_ids d u c)"
  shows "''to_approve'' \<notin> set (filter_inbox_ids d u c) \<and> ''reference'' \<notin> set (filter_inbox_ids d u c)"
  using assms
  by (auto simp: filter_inbox_member matches_inbox_def matches_to_approve_def inbox_ids_def Let_def split: if_splits)

text \<open>
  For its requester a document that was not imported is in exactly one of the four inboxes of
  one's own documents, whatever its status of the nine is; and for anyone a document to
  circulate is neither to be approved nor a reference, while every document is in the inbox of
  all.
\<close>

theorem inbox_partition:
  assumes "\<not> is_gw_import d" and "wid_status d \<in> set document_statuses"
  shows "(user \<noteq> [] \<and> wid_requester_id d = user \<longrightarrow>
      length (filter (\<lambda>inbox. inbox \<in> set (filter_inbox_ids d user approve))
        [''my_draft'', ''in_progress'', ''completed'', ''rejected'']) = 1)
    \<and> (''circulate'' \<in> set (filter_inbox_ids d user approve) \<longrightarrow>
        ''to_approve'' \<notin> set (filter_inbox_ids d user approve)
        \<and> ''reference'' \<notin> set (filter_inbox_ids d user approve))
    \<and> ''all'' \<in> set (filter_inbox_ids d user approve)"
proof -
  have "length (filter (\<lambda>inbox. inbox \<in> set (filter_inbox_ids d user approve))
      [''my_draft'', ''in_progress'', ''completed'', ''rejected'']) = 1"
    if "user \<noteq> []" and "wid_requester_id d = user"
    using own_inboxes[OF that assms(1), of approve] assms(2) by (auto simp: document_statuses_def)
  moreover have "''all'' \<in> set (filter_inbox_ids d user approve)"
    by (simp add: filter_inbox_member matches_inbox_def inbox_ids_def)
  ultimately show ?thesis
    using exclusive_inboxes[OF assms(1)] by blast
qed

theorem inbox_partition_witness:
  "\<exists>d. wid_status d = ''in_review'' \<and> wid_cc_users d = [''kim'']
     \<and> length (filter (\<lambda>inbox. inbox \<in> set (filter_inbox_ids d ''kim'' False))
         [''my_draft'', ''in_progress'', ''completed'', ''rejected'']) = 1"
proof -
  define d where "d = \<lparr>wid_status = ''in_review'', wid_requester_id = ''kim'', wid_approval_steps = [],
       wid_cc_user_ids = [], wid_cc_users = [''kim''], wid_content_gw_list = [],
       wid_content_imported_from = [], wid_content_gw_doc_id = []\<rparr>"
  have f: "wid_status d = ''in_review''" "wid_cc_users d = [''kim'']" "wid_requester_id d = ''kim''"
    by (simp_all add: d_def)
  have "\<not> is_gw_import d" "wid_status d \<in> set document_statuses"
    by (simp_all add: is_gw_import_def document_statuses_def d_def)
  from inbox_partition[OF this, of "''kim''" False] f show ?thesis by blast
qed

end
