(* ===== verification/Workflow_Follow_Up.thy ===== *)
theory Workflow_Follow_Up
  imports Rust_Str
begin

text \<open>
  The to-dos and calendar entries that submitting or approving a workflow document creates:
  \<open>crates/workflow-core/src/workflow_follow_up.rs\<close>.  The set of users already served is the
  list of them, of which the code only asks membership.
\<close>

section \<open>Data\<close>

record workflow_follow_up_document =
  wfd_title :: string
  wfd_document_no :: string
  wfd_document_id :: string
  wfd_document_type :: string
  wfd_document_type_label :: string
  wfd_trip_id :: string
  wfd_period_start :: string
  wfd_requested_date :: string
  wfd_period_end :: string
  wfd_due_date :: string
  wfd_requester_id :: string

record workflow_follow_up_approval_step =
  wfs_approver_id :: string
  wfs_approver_role :: string

record workflow_submission_follow_up_input =
  wsi_document :: workflow_follow_up_document
  wsi_approval_line :: "workflow_follow_up_approval_step list"
  wsi_tenant_id :: string
  wsi_session_user_id :: string
  wsi_cc_user_ids :: "string list"

record workflow_approval_complete_follow_up_input =
  wci_document :: workflow_follow_up_document
  wci_tenant_id :: string
  wci_executor_id :: string

record workflow_follow_up_action =
  wfa_action_type :: string
  wfa_user_id :: string
  wfa_tenant_id :: string
  wfa_title :: string
  wfa_date :: string
  wfa_end_date :: string
  wfa_due_date :: string
  wfa_source :: string
  wfa_document_id :: string
  wfa_source_key :: string
  wfa_role :: string
  wfa_trip_id :: string

definition follow_up_action_default :: workflow_follow_up_action where
  "follow_up_action_default =
     \<lparr>wfa_action_type = [], wfa_user_id = [], wfa_tenant_id = [], wfa_title = [], wfa_date = [],
      wfa_end_date = [], wfa_due_date = [], wfa_source = [], wfa_document_id = [],
      wfa_source_key = [], wfa_role = [], wfa_trip_id = []\<rparr>"

section \<open>Helpers\<close>

definition todo_action :: "workflow_follow_up_action \<Rightarrow> workflow_follow_up_action" where
  "todo_action action = action\<lparr>wfa_action_type := ''todo''\<rparr>"

definition calendar_action :: "workflow_follow_up_action \<Rightarrow> workflow_follow_up_action" where
  "calendar_action action = action\<lparr>wfa_action_type := ''calendar''\<rparr>"

definition non_empty_or :: "string \<Rightarrow> string \<Rightarrow> string" where
  "non_empty_or text default_value = (if text = [] then default_value else text)"

definition first_non_empty :: "string list \<Rightarrow> string" where
  "first_non_empty texts = unwrap_or [] (find_first (\<lambda>text. text \<noteq> []) texts)"

section \<open>Submission\<close>

text \<open>The values that the actions of one submission share.\<close>

record submission_values =
  sub_title :: string
  sub_doc_no :: string
  sub_doc_id :: string
  sub_period_start :: string
  sub_period_end :: string
  sub_due :: string
  sub_requester_id :: string
  sub_tenant_id :: string
  sub_trip_id :: string

definition submission_values_of :: "workflow_submission_follow_up_input \<Rightarrow> submission_values" where
  "submission_values_of input =
     (let doc = wsi_document input;
          period_start = first_non_empty [wfd_period_start doc, wfd_requested_date doc, []];
          period_end = first_non_empty [wfd_period_end doc, wfd_due_date doc, period_start] in
      \<lparr>sub_title = non_empty_or (wfd_title doc) ([CHR 0xEB, CHR 0xAC, CHR 0xB8, CHR 0xEC, CHR 0x84, CHR 0x9C]),
       sub_doc_no = wfd_document_no doc,
       sub_doc_id = wfd_document_id doc,
       sub_period_start = period_start,
       sub_period_end = period_end,
       sub_due = first_non_empty [period_end, period_start],
       sub_requester_id = first_non_empty [wfd_requester_id doc, wsi_session_user_id input],
       sub_tenant_id = wsi_tenant_id input,
       sub_trip_id = wfd_trip_id doc\<rparr>)"

definition requester_actions :: "string \<Rightarrow> submission_values \<Rightarrow> workflow_follow_up_action list" where
  "requester_actions dtype_label v =
     (let base = ''['' @ dtype_label @ ''] '' @ sub_title v;
          cal_title =
            (if sub_period_start v \<noteq> [] \<and> sub_period_end v \<noteq> [] \<and> sub_period_start v \<noteq> sub_period_end v
             then base @ '' ('' @ sub_period_start v @ ''~'' @ sub_period_end v @ '')'' else base) in
      [calendar_action (follow_up_action_default
         \<lparr>wfa_user_id := sub_requester_id v, wfa_tenant_id := sub_tenant_id v,
          wfa_title := cal_title,
          wfa_date := first_non_empty [sub_period_start v, sub_due v],
          wfa_end_date := sub_period_end v, wfa_source := ''workflow'',
          wfa_document_id := sub_doc_id v,
          wfa_source_key := ''workflow:calendar:'' @ sub_doc_id v @ '':requester:'' @ sub_requester_id v\<rparr>),
       todo_action (follow_up_action_default
         \<lparr>wfa_user_id := sub_requester_id v, wfa_tenant_id := sub_tenant_id v,
          wfa_title := [CHR 0xEA, CHR 0xB2, CHR 0xB0, CHR 0xEC, CHR 0x9E, CHR 0xAC] @ '' '' @ [CHR 0xEC, CHR 0xA7, CHR 0x84, CHR 0xED, CHR 0x96, CHR 0x89] @ '': '' @ sub_title v @ '' ('' @ sub_doc_no v @ '')'',
          wfa_due_date := sub_due v, wfa_source := ''workflow'',
          wfa_document_id := sub_doc_id v,
          wfa_source_key := ''workflow:todo:'' @ sub_doc_id v @ '':requester:'' @ sub_requester_id v,
          wfa_trip_id := sub_trip_id v\<rparr>)])"

definition approver_actions ::
    "submission_values \<Rightarrow> nat \<Rightarrow> string \<Rightarrow> string \<Rightarrow> workflow_follow_up_action list" where
  "approver_actions v ordinal uid role =
     [todo_action (follow_up_action_default
        \<lparr>wfa_user_id := uid, wfa_tenant_id := sub_tenant_id v,
         wfa_title := [CHR 0xEA, CHR 0xB2, CHR 0xB0, CHR 0xEC, CHR 0x9E, CHR 0xAC] @ '' '' @ show_nat ordinal @ [CHR 0xEB, CHR 0x8B, CHR 0xA8, CHR 0xEA, CHR 0xB3, CHR 0x84] @ '': '' @ sub_title v @ '' ('' @ sub_doc_no v @ '')'',
         wfa_due_date := sub_due v, wfa_source := ''workflow_approval'',
         wfa_document_id := sub_doc_id v,
         wfa_source_key := ''workflow_approval:todo:'' @ sub_doc_id v @ '':'' @ show_nat ordinal @ '':'' @ uid,
         wfa_role := role, wfa_trip_id := sub_trip_id v\<rparr>),
      calendar_action (follow_up_action_default
        \<lparr>wfa_user_id := uid, wfa_tenant_id := sub_tenant_id v,
         wfa_title := [CHR 0xEA, CHR 0xB2, CHR 0xB0, CHR 0xEC, CHR 0x9E, CHR 0xAC] @ '': '' @ sub_title v,
         wfa_date := first_non_empty [sub_due v, sub_period_start v],
         wfa_end_date := sub_period_end v, wfa_source := ''workflow_approval'',
         wfa_document_id := sub_doc_id v,
         wfa_source_key := ''workflow_approval:calendar:'' @ sub_doc_id v @ '':'' @ show_nat ordinal @ '':'' @ uid\<rparr>)]"

text \<open>The loop over the approval line: the step's position, the users served, the actions.\<close>

fun approval_loop ::
    "submission_values \<Rightarrow> nat \<Rightarrow> string list \<Rightarrow> workflow_follow_up_approval_step list \<Rightarrow>
     workflow_follow_up_action list \<times> string list" where
  "approval_loop v idx seen [] = ([], seen)"
| "approval_loop v idx seen (step # line) =
     (let uid = trim (wfs_approver_id step) in
      if uid = [] \<or> uid \<in> set seen then approval_loop v (idx + 1) seen line
      else let (actions, seen') = approval_loop v (idx + 1) (uid # seen) line in
           (approver_actions v (idx + 1) uid (wfs_approver_role step) @ actions, seen'))"

definition cc_action :: "submission_values \<Rightarrow> string \<Rightarrow> workflow_follow_up_action" where
  "cc_action v uid =
     todo_action (follow_up_action_default
       \<lparr>wfa_user_id := uid, wfa_tenant_id := sub_tenant_id v,
        wfa_title := [CHR 0xEC, CHR 0xB0, CHR 0xB8, CHR 0xEC, CHR 0xA1, CHR 0xB0] @ '': '' @ sub_title v @ '' ('' @ sub_doc_no v @ '')'',
        wfa_due_date := sub_due v, wfa_source := ''workflow_cc'',
        wfa_document_id := sub_doc_id v,
        wfa_source_key := ''workflow_cc:todo:'' @ sub_doc_id v @ '':'' @ uid,
        wfa_trip_id := sub_trip_id v\<rparr>)"

fun cc_loop :: "submission_values \<Rightarrow> string list \<Rightarrow> string list \<Rightarrow> workflow_follow_up_action list" where
  "cc_loop v seen [] = []"
| "cc_loop v seen (cc_user_id # ids) =
     (let uid = trim cc_user_id in
      if uid = [] \<or> uid \<in> set seen \<or> uid = sub_requester_id v then cc_loop v seen ids
      else cc_action v uid # cc_loop v seen ids)"

definition plan_submission_follow_up ::
    "workflow_submission_follow_up_input \<Rightarrow> workflow_follow_up_action list" where
  "plan_submission_follow_up input =
     (let v = submission_values_of input;
          dtype_label = non_empty_or (wfd_document_type_label (wsi_document input)) ([CHR 0xEB, CHR 0xAC, CHR 0xB8, CHR 0xEC, CHR 0x84, CHR 0x9C]);
          (approvals, seen) = approval_loop v 0 [] (wsi_approval_line input) in
      requester_actions dtype_label v @ approvals @ cc_loop v seen (wsi_cc_user_ids input))"

section \<open>Approval complete\<close>

definition plan_approval_complete_follow_up ::
    "workflow_approval_complete_follow_up_input \<Rightarrow> workflow_follow_up_action list" where
  "plan_approval_complete_follow_up input =
     (let doc = wci_document input;
          title = non_empty_or (wfd_title doc) ([CHR 0xEB, CHR 0xAC, CHR 0xB8, CHR 0xEC, CHR 0x84, CHR 0x9C]);
          doc_id = wfd_document_id doc;
          trip_id = wfd_trip_id doc;
          period_end = first_non_empty [wfd_period_end doc, wfd_due_date doc];
          requester_id = wfd_requester_id doc;
          tenant_id = wci_tenant_id input;
          executor_id = wci_executor_id input in
      todo_action (follow_up_action_default
        \<lparr>wfa_user_id := requester_id, wfa_tenant_id := tenant_id,
         wfa_title := [CHR 0xEC, CHR 0x8B, CHR 0xA4, CHR 0xED, CHR 0x96, CHR 0x89, CHR 0xC2, CHR 0xB7, CHR 0xEC, CHR 0x99, CHR 0x84, CHR 0xEB, CHR 0xA3, CHR 0x8C] @ '' '' @ [CHR 0xED, CHR 0x99, CHR 0x95, CHR 0xEC, CHR 0x9D, CHR 0xB8] @ '': '' @ title, wfa_due_date := period_end,
         wfa_source := ''workflow_execution'', wfa_document_id := doc_id,
         wfa_source_key := ''workflow_execution:todo:'' @ doc_id @ '':confirm:'' @ requester_id,
         wfa_trip_id := trip_id\<rparr>)
      # (if executor_id \<noteq> [] \<and> executor_id \<noteq> requester_id then
           [todo_action (follow_up_action_default
              \<lparr>wfa_user_id := executor_id, wfa_tenant_id := tenant_id,
               wfa_title := [CHR 0xEC, CHR 0x8B, CHR 0xA4, CHR 0xED, CHR 0x96, CHR 0x89] @ '': '' @ title, wfa_due_date := period_end,
               wfa_source := ''workflow_execution'', wfa_document_id := doc_id,
               wfa_source_key := ''workflow_execution:todo:'' @ doc_id @ '':executor:'' @ executor_id,
               wfa_trip_id := trip_id\<rparr>),
            calendar_action (follow_up_action_default
              \<lparr>wfa_user_id := executor_id, wfa_tenant_id := tenant_id,
               wfa_title := [CHR 0xEC, CHR 0x8B, CHR 0xA4, CHR 0xED, CHR 0x96, CHR 0x89] @ '': '' @ title,
               wfa_date := first_non_empty [period_end, wfd_period_start doc],
               wfa_source := ''workflow_execution'', wfa_document_id := doc_id,
               wfa_source_key := ''workflow_execution:calendar:'' @ doc_id @ '':executor:'' @ executor_id\<rparr>)]
         else []))"

section \<open>Properties\<close>

text \<open>The distinct elements of a list in the order of their first occurrence.\<close>

definition first_occurrences :: "'a list \<Rightarrow> 'a list" where
  "first_occurrences xs = rev (remdups (rev xs))"

definition approver_ids :: "workflow_follow_up_approval_step list \<Rightarrow> string list" where
  "approver_ids line = filter (\<lambda>uid. uid \<noteq> []) (map (\<lambda>step. trim (wfs_approver_id step)) line)"

definition actions_of :: "string \<Rightarrow> string \<Rightarrow> workflow_follow_up_action list \<Rightarrow> string list" where
  "actions_of source kind actions =
     map wfa_user_id (filter (\<lambda>a. wfa_source a = source \<and> wfa_action_type a = kind) actions)"

lemma actions_of_append [simp]: "actions_of s k (xs @ ys) = actions_of s k xs @ actions_of s k ys"
  by (simp add: actions_of_def)

lemma actions_of_Nil [simp]: "actions_of s k [] = []"
  by (simp add: actions_of_def)

lemma actions_of_Cons:
  "actions_of s k (a # as) =
     (if wfa_source a = s \<and> wfa_action_type a = k then [wfa_user_id a] else []) @ actions_of s k as"
  by (simp add: actions_of_def)

lemmas action_defs = todo_action_def calendar_action_def follow_up_action_default_def

lemma first_occurrences_Nil [simp]: "first_occurrences [] = []"
  by (simp add: first_occurrences_def)

lemma remdups_snoc: "remdups (xs @ [x]) = remdups (filter (\<lambda>y. y \<noteq> x) xs) @ [x]"
  by (induction xs) auto

lemma first_occurrences_Cons:
  "first_occurrences (x # xs) = x # first_occurrences (filter (\<lambda>y. y \<noteq> x) xs)"
  by (simp add: first_occurrences_def remdups_snoc rev_filter)

lemma set_first_occurrences [simp]: "set (first_occurrences xs) = set xs"
  by (simp add: first_occurrences_def)

lemma distinct_first_occurrences [simp]: "distinct (first_occurrences xs)"
  by (simp add: first_occurrences_def)

lemma approver_actions_of [simp]:
  "actions_of ''workflow_approval'' ''todo'' (approver_actions v n uid role) = [uid]"
  "actions_of ''workflow_approval'' ''calendar'' (approver_actions v n uid role) = [uid]"
  "actions_of ''workflow_cc'' ''todo'' (approver_actions v n uid role) = []"
  by (simp_all add: approver_actions_def action_defs actions_of_Cons)

lemma requester_actions_of [simp]:
  "actions_of ''workflow_approval'' k (requester_actions l v) = []"
  "actions_of ''workflow_cc'' k (requester_actions l v) = []"
  by (simp_all add: requester_actions_def action_defs actions_of_Cons Let_def)

lemma approval_loop_users:
  "kind = ''todo'' \<or> kind = ''calendar'' \<Longrightarrow>
   actions_of ''workflow_approval'' kind (fst (approval_loop v i seen line))
     = first_occurrences (filter (\<lambda>uid. uid \<notin> set seen) (approver_ids line))
   \<and> actions_of ''workflow_cc'' ''todo'' (fst (approval_loop v i seen line)) = []
   \<and> set (snd (approval_loop v i seen line)) = set seen \<union> set (approver_ids line)"
proof (induction v i seen line rule: approval_loop.induct)
  case (2 v idx seen step line)
  let ?uid = "trim (wfs_approver_id step)"
  show ?case
  proof (cases "?uid = [] \<or> ?uid \<in> set seen")
    case True
    with 2 show ?thesis by (auto simp: approver_ids_def Let_def)
  next
    case False
    obtain actions seen' where loop: "approval_loop v (idx + 1) (?uid # seen) line = (actions, seen')"
      by force
    have "filter (\<lambda>uid. uid \<noteq> ?uid) (filter (\<lambda>uid. uid \<notin> set seen) (approver_ids line))
        = filter (\<lambda>uid. uid \<notin> set (?uid # seen)) (approver_ids line)"
      by (auto intro: filter_cong)
    with False 2(2)[OF refl False 2(3)] 2(3) loop show ?thesis
      by (auto simp: approver_ids_def Let_def first_occurrences_Cons)
  qed
qed (simp add: approver_ids_def)

lemma cc_loop_users:
  "actions_of ''workflow_cc'' ''todo'' (cc_loop v seen ids)
     = filter (\<lambda>uid. uid \<noteq> [] \<and> uid \<notin> set seen \<and> uid \<noteq> sub_requester_id v) (map trim ids)
   \<and> actions_of ''workflow_approval'' k (cc_loop v seen ids) = []"
  by (induction v seen ids rule: cc_loop.induct)
    (auto simp: cc_action_def action_defs actions_of_Cons Let_def)

text \<open>
  C37: submitting a document gives every user who occurs in its approval line, in the order of
  their first step, exactly one approval to-do and one calendar entry, and gives a copy to-do to
  the copied users who neither approve nor are the requester, in their order.
\<close>

theorem submission_follow_up_users:
  "(let actions = plan_submission_follow_up input;
        approvers = approver_ids (wsi_approval_line input);
        requester = first_non_empty [wfd_requester_id (wsi_document input), wsi_session_user_id input] in
    actions_of ''workflow_approval'' ''todo'' actions = first_occurrences approvers
    \<and> actions_of ''workflow_approval'' ''calendar'' actions = first_occurrences approvers
    \<and> distinct (actions_of ''workflow_approval'' ''todo'' actions)
    \<and> actions_of ''workflow_cc'' ''todo'' actions
      = filter (\<lambda>uid. uid \<noteq> [] \<and> uid \<notin> set approvers \<and> uid \<noteq> requester)
          (map trim (wsi_cc_user_ids input)))"
proof -
  obtain approvals seen where
    loop: "approval_loop (submission_values_of input) 0 [] (wsi_approval_line input) = (approvals, seen)"
    by force
  have req: "sub_requester_id (submission_values_of input)
      = first_non_empty [wfd_requester_id (wsi_document input), wsi_session_user_id input]"
    by (simp add: submission_values_of_def Let_def)
  from approval_loop_users[of _ "submission_values_of input" 0 "[]" "wsi_approval_line input"] loop
  have "kind = ''todo'' \<or> kind = ''calendar'' \<Longrightarrow>
      actions_of ''workflow_approval'' kind approvals = first_occurrences (approver_ids (wsi_approval_line input))
      \<and> actions_of ''workflow_cc'' ''todo'' approvals = []
      \<and> set seen = set (approver_ids (wsi_approval_line input))" for kind
    by simp
  from this[of "''todo''"] this[of "''calendar''"] show ?thesis
    by (simp add: plan_submission_follow_up_def loop req cc_loop_users Let_def)
qed

text \<open>A user who is copied twice gets the same to-do, with the same key, twice.\<close>

theorem copied_user_repeated:
  "uid \<noteq> [] \<Longrightarrow> trim uid = uid \<Longrightarrow> uid \<noteq> sub_requester_id v \<Longrightarrow> uid \<notin> set seen \<Longrightarrow>
   cc_loop v seen [uid, uid] = [cc_action v uid, cc_action v uid]"
  by simp

theorem approval_complete_users:
  "map (\<lambda>a. (wfa_action_type a, wfa_user_id a)) (plan_approval_complete_follow_up input) =
     (let requester = wfd_requester_id (wci_document input); executor = wci_executor_id input in
      (''todo'', requester) #
      (if executor = [] \<or> executor = requester then [] else [(''todo'', executor), (''calendar'', executor)]))"
  by (simp add: plan_approval_complete_follow_up_def action_defs Let_def)

end
