(* ===== verification/Workflow_Forms.thy ===== *)
theory Workflow_Forms
  imports Btree
begin

text \<open>
  The built-in forms of the workflow documents, the validation of a submitted form and the
  document fields made of it: \<open>crates/workflow-core/src/workflow_forms.rs\<close>.
\<close>

section \<open>Forms\<close>

definition workflow_form_document_types :: "string list" where
  "workflow_form_document_types =
     [''GENERAL_DRAFT'', ''ATTENDANCE_REQUEST'', ''PURCHASE_REQUEST'', ''EXPENSE_REPORT'', ''CLOSING_REPORT'', ''BUSINESS_TRIP_REQUEST'']"

definition attendance_type_labels :: "(string \<times> string) list" where
  "attendance_type_labels =
     [(''annual_leave'', [CHR 0xEC, CHR 0x97, CHR 0xB0, CHR 0xEC, CHR 0xB0, CHR 0xA8]),
      (''half_day_morning'', [CHR 0xEC, CHR 0x98, CHR 0xA4, CHR 0xEC, CHR 0xA0, CHR 0x84] @ '' '' @ [CHR 0xEB, CHR 0xB0, CHR 0x98, CHR 0xEC, CHR 0xB0, CHR 0xA8]),
      (''half_day_afternoon'', [CHR 0xEC, CHR 0x98, CHR 0xA4, CHR 0xED, CHR 0x9B, CHR 0x84] @ '' '' @ [CHR 0xEB, CHR 0xB0, CHR 0x98, CHR 0xEC, CHR 0xB0, CHR 0xA8]),
      (''early_leave'', [CHR 0xEC, CHR 0xA1, CHR 0xB0, CHR 0xED, CHR 0x87, CHR 0xB4]),
      (''outside_work'', [CHR 0xEC, CHR 0x99, CHR 0xB8, CHR 0xEA, CHR 0xB7, CHR 0xBC]),
      (''business_trip'', [CHR 0xEC, CHR 0xB6, CHR 0x9C, CHR 0xEC, CHR 0x9E, CHR 0xA5]),
      (''overtime'', [CHR 0xEC, CHR 0x95, CHR 0xBC, CHR 0xEA, CHR 0xB7, CHR 0xBC]),
      (''holiday_work'', [CHR 0xED, CHR 0x8A, CHR 0xB9, CHR 0xEA, CHR 0xB7, CHR 0xBC]),
      (''sick_leave'', [CHR 0xEB, CHR 0xB3, CHR 0x91, CHR 0xEA, CHR 0xB0, CHR 0x80]),
      (''other'', [CHR 0xEA, CHR 0xB8, CHR 0xB0, CHR 0xED, CHR 0x83, CHR 0x80])]"

definition expense_categories :: "string list" where
  "expense_categories =
     [[CHR 0xEB, CHR 0xB2, CHR 0x95, CHR 0xEC, CHR 0x9D, CHR 0xB8, CHR 0xEC, CHR 0xB9, CHR 0xB4, CHR 0xEB, CHR 0x93, CHR 0x9C],
      [CHR 0xED, CHR 0x98, CHR 0x84, CHR 0xEA, CHR 0xB8, CHR 0x88, CHR 0xC2, CHR 0xB7, CHR 0xEC, CHR 0x98, CHR 0x81, CHR 0xEC, CHR 0x88, CHR 0x98, CHR 0xEC, CHR 0xA6, CHR 0x9D],
      [CHR 0xEA, CHR 0xB2, CHR 0xBD, CHR 0xEB, CHR 0xB9, CHR 0x84, CHR 0xEC, CHR 0xA0, CHR 0x95, CHR 0xEC, CHR 0x82, CHR 0xB0],
      [CHR 0xEC, CHR 0xB6, CHR 0x9C, CHR 0xEC, CHR 0x9E, CHR 0xA5, CHR 0xEB, CHR 0xB9, CHR 0x84],
      [CHR 0xEA, CHR 0xB8, CHR 0xB0, CHR 0xED, CHR 0x83, CHR 0x80]]"

definition business_trip_transport_options :: "string list" where
  "business_trip_transport_options =
     [[CHR 0xEB, CHR 0x8C, CHR 0x80, CHR 0xEC, CHR 0xA4, CHR 0x91, CHR 0xEA, CHR 0xB5, CHR 0x90, CHR 0xED, CHR 0x86, CHR 0xB5],
      [CHR 0xEB, CHR 0xB2, CHR 0x95, CHR 0xEC, CHR 0x9D, CHR 0xB8, CHR 0xEC, CHR 0xB0, CHR 0xA8, CHR 0xEB, CHR 0x9F, CHR 0x89],
      [CHR 0xEA, CHR 0xB0, CHR 0x9C, CHR 0xEC, CHR 0x9D, CHR 0xB8, CHR 0xEC, CHR 0xB0, CHR 0xA8, CHR 0xEB, CHR 0x9F, CHR 0x89],
      [CHR 0xED, CHR 0x95, CHR 0xAD, CHR 0xEA, CHR 0xB3, CHR 0xB5],
      [CHR 0xEA, CHR 0xB8, CHR 0xB0, CHR 0xEC, CHR 0xB0, CHR 0xA8],
      [CHR 0xEA, CHR 0xB8, CHR 0xB0, CHR 0xED, CHR 0x83, CHR 0x80]]"

record workflow_form_field_def =
  wff_key :: string
  wff_label :: string
  wff_field_type :: string
  wff_required :: bool
  wff_options :: "string list"
  wff_input_hint :: string
  wff_maps_to :: string

record workflow_document_fields =
  wdf_title :: string
  wdf_summary :: string
  wdf_content :: string
  wdf_total_amount :: i64
  wdf_due_date :: string
  wdf_period_start :: string
  wdf_period_end :: string
  wdf_payload :: "(string \<times> string) list"

record field_builder =
  fib_key :: string
  fib_label :: string
  fib_field_type :: string
  fib_required :: bool
  fib_options :: "string list"
  fib_input_hint :: string
  fib_maps_to :: string

definition form_field :: "string \<Rightarrow> string \<Rightarrow> field_builder" where
  "form_field key label =
     \<lparr>fib_key = key, fib_label = label, fib_field_type = ''text'', fib_required = False,
      fib_options = [], fib_input_hint = [], fib_maps_to = []\<rparr>"

definition field_kind :: "string \<Rightarrow> field_builder \<Rightarrow> field_builder" where
  "field_kind field_type b = b\<lparr>fib_field_type := field_type\<rparr>"

definition field_required :: "field_builder \<Rightarrow> field_builder" where
  "field_required b = b\<lparr>fib_required := True\<rparr>"

definition field_options :: "string list \<Rightarrow> field_builder \<Rightarrow> field_builder" where
  "field_options options b = b\<lparr>fib_options := options\<rparr>"

definition field_input_hint :: "string \<Rightarrow> field_builder \<Rightarrow> field_builder" where
  "field_input_hint hint b = b\<lparr>fib_input_hint := hint\<rparr>"

definition field_maps_to :: "string \<Rightarrow> field_builder \<Rightarrow> field_builder" where
  "field_maps_to target b = b\<lparr>fib_maps_to := target\<rparr>"

definition field_build :: "field_builder \<Rightarrow> workflow_form_field_def" where
  "field_build b =
     \<lparr>wff_key = fib_key b, wff_label = fib_label b, wff_field_type = fib_field_type b,
      wff_required = fib_required b, wff_options = fib_options b,
      wff_input_hint = fib_input_hint b, wff_maps_to = fib_maps_to b\<rparr>"

definition general_schema :: "workflow_form_field_def list" where
  "general_schema = map field_build
     [field_maps_to ''title'' (field_required (form_field ''title'' ([CHR 0xEC, CHR 0xA0, CHR
        0x9C, CHR 0xEB, CHR 0xAA, CHR 0xA9]))),
      field_maps_to ''period_start'' (field_required (field_kind ''date'' (form_field
        ''period_start'' ([CHR 0xEC, CHR 0x97, CHR 0x85, CHR 0xEB, CHR 0xAC, CHR 0xB4] @ '' '' @
        [CHR 0xEC, CHR 0x8B, CHR 0x9C, CHR 0xEC, CHR 0x9E, CHR 0x91, CHR 0xEC, CHR 0x9D, CHR
        0xBC])))),
      field_maps_to ''period_end'' (field_required (field_kind ''date'' (form_field
        ''period_end'' ([CHR 0xEC, CHR 0x97, CHR 0x85, CHR 0xEB, CHR 0xAC, CHR 0xB4] @ '' '' @
        [CHR 0xEC, CHR 0xA2, CHR 0x85, CHR 0xEB, CHR 0xA3, CHR 0x8C, CHR 0xEC, CHR 0x9D, CHR
        0xBC])))),
      field_required (form_field ''purpose'' ([CHR 0xEA, CHR 0xB8, CHR 0xB0, CHR 0xEC, CHR 0x95,
        CHR 0x88] @ '' '' @ [CHR 0xEB, CHR 0xAA, CHR 0xA9, CHR 0xEC, CHR 0xA0, CHR 0x81])),
      field_maps_to ''summary'' (field_required (field_kind ''multiline'' (form_field
        ''content'' ([CHR 0xEC, CHR 0x83, CHR 0x81, CHR 0xEC, CHR 0x84, CHR 0xB8] @ '' '' @ [CHR
        0xEB, CHR 0x82, CHR 0xB4, CHR 0xEC, CHR 0x9A, CHR 0xA9])))),
      field_kind ''multiline'' (form_field ''expected_outcome'' ([CHR 0xEA, CHR 0xB8, CHR 0xB0,
        CHR 0xEB, CHR 0x8C, CHR 0x80] @ '' '' @ [CHR 0xEC, CHR 0x84, CHR 0xB1, CHR 0xEA, CHR
        0xB3, CHR 0xBC])),
      field_maps_to ''due_date'' (field_kind ''date'' (form_field ''due_date'' ([CHR 0xEC, CHR
        0x99, CHR 0x84, CHR 0xEB, CHR 0xA3, CHR 0x8C] @ '' '' @ [CHR 0xED, CHR 0x9D, CHR 0xAC,
        CHR 0xEB, CHR 0xA7, CHR 0x9D, CHR 0xEC, CHR 0x9D, CHR 0xBC])))]"

definition attendance_schema :: "workflow_form_field_def list" where
  "attendance_schema = map field_build
     [field_maps_to ''title'' (field_required (form_field ''title'' ([CHR 0xEC, CHR 0xA0, CHR
        0x9C, CHR 0xEB, CHR 0xAA, CHR 0xA9]))),
      field_options (map snd attendance_type_labels) (field_required (field_kind ''select''
        (form_field ''attendance_type'' ([CHR 0xEA, CHR 0xB7, CHR 0xBC, CHR 0xED, CHR 0x83, CHR
        0x9C] @ '' '' @ [CHR 0xEC, CHR 0x9C, CHR 0xA0, CHR 0xED, CHR 0x98, CHR 0x95])))),
      field_maps_to ''period_start'' (field_required (field_kind ''date'' (form_field
        ''period_start'' ([CHR 0xEC, CHR 0x8B, CHR 0x9C, CHR 0xEC, CHR 0x9E, CHR 0x91, CHR 0xEC,
        CHR 0x9D, CHR 0xBC])))),
      field_maps_to ''period_end'' (field_required (field_kind ''date'' (form_field
        ''period_end'' ([CHR 0xEC, CHR 0xA2, CHR 0x85, CHR 0xEB, CHR 0xA3, CHR 0x8C, CHR 0xEC,
        CHR 0x9D, CHR 0xBC])))),
      field_maps_to ''summary'' (field_required (field_kind ''multiline'' (form_field ''reason''
        ([CHR 0xEC, CHR 0x82, CHR 0xAC, CHR 0xEC, CHR 0x9C, CHR 0xA0])))),
      field_input_hint ([CHR 0xEB, CHR 0xB6, CHR 0x80, CHR 0xEC, CHR 0x9E, CHR 0xAC] @ '' '' @
        [CHR 0xEC, CHR 0x8B, CHR 0x9C] @ '' '' @ [CHR 0xEB, CHR 0x8C, CHR 0x80, CHR 0xEB, CHR
        0xA6, CHR 0xAC, CHR 0xEC, CHR 0x9D, CHR 0xB8]) (form_field ''substitute'' ([CHR 0xEC,
        CHR 0x97, CHR 0x85, CHR 0xEB, CHR 0xAC, CHR 0xB4] @ '' '' @ [CHR 0xEC, CHR 0x9D, CHR
        0xB8, CHR 0xEC, CHR 0x88, CHR 0x98, CHR 0xEC, CHR 0x9E, CHR 0x90]))]"

definition purchase_schema :: "workflow_form_field_def list" where
  "purchase_schema = map field_build
     [field_maps_to ''title'' (field_required (form_field ''title'' ([CHR 0xEA, CHR 0xB5, CHR
        0xAC, CHR 0xEB, CHR 0xA7, CHR 0xA4] @ '' '' @ [CHR 0xEA, CHR 0xB1, CHR 0xB4, CHR 0xEB,
        CHR 0xAA, CHR 0x85]))),
      field_required (form_field ''item_summary'' ([CHR 0xED, CHR 0x92, CHR 0x88, CHR 0xEB, CHR
        0xAA, CHR 0xA9] @ '' '' @ [CHR 0xEC, CHR 0x9A, CHR 0x94, CHR 0xEC, CHR 0x95, CHR 0xBD])),
      form_field ''vendor'' ([CHR 0xEA, CHR 0xB1, CHR 0xB0, CHR 0xEB, CHR 0x9E, CHR 0x98, CHR
        0xEC, CHR 0xB2, CHR 0x98] @ ''/'' @ [CHR 0xEA, CHR 0xB3, CHR 0xB5, CHR 0xEA, CHR 0xB8,
        CHR 0x89, CHR 0xEC, CHR 0x82, CHR 0xAC]),
      field_maps_to ''period_start'' (field_required (field_kind ''date'' (form_field
        ''period_start'' ([CHR 0xEB, CHR 0x82, CHR 0xA9, CHR 0xEA, CHR 0xB8, CHR 0xB0] @ '' '' @
        [CHR 0xED, CHR 0x9D, CHR 0xAC, CHR 0xEB, CHR 0xA7, CHR 0x9D, CHR 0xEC, CHR 0x9D, CHR
        0xBC])))),
      field_maps_to ''period_end'' (field_kind ''date'' (form_field ''period_end'' ([CHR 0xEC,
        CHR 0x82, CHR 0xAC, CHR 0xEC, CHR 0x9A, CHR 0xA9] @ '' '' @ [CHR 0xEA, CHR 0xB8, CHR
        0xB0, CHR 0xEA, CHR 0xB0, CHR 0x84] @ '' '' @ [CHR 0xEC, CHR 0xA2, CHR 0x85, CHR 0xEB,
        CHR 0xA3, CHR 0x8C]))),
      field_maps_to ''total_amount'' (field_required (field_kind ''number'' (form_field
        ''total_amount'' ([CHR 0xEC, CHR 0x98, CHR 0x88, CHR 0xEC, CHR 0x83, CHR 0x81] @ '' '' @
        [CHR 0xEA, CHR 0xB8, CHR 0x88, CHR 0xEC, CHR 0x95, CHR 0xA1] @ ''('' @ [CHR 0xEC, CHR
        0x9B, CHR 0x90] @ '')'')))),
      field_maps_to ''summary'' (field_required (field_kind ''multiline'' (form_field
        ''purpose'' ([CHR 0xEA, CHR 0xB5, CHR 0xAC, CHR 0xEB, CHR 0xA7, CHR 0xA4] @ '' '' @ [CHR
        0xEC, CHR 0x82, CHR 0xAC, CHR 0xEC, CHR 0x9C, CHR 0xA0]))))]"

definition expense_schema :: "workflow_form_field_def list" where
  "expense_schema = map field_build
     [field_maps_to ''title'' (field_required (form_field ''title'' ([CHR 0xEC, CHR 0xA7, CHR
        0x80, CHR 0xEC, CHR 0xB6, CHR 0x9C] @ '' '' @ [CHR 0xEA, CHR 0xB1, CHR 0xB4, CHR 0xEB,
        CHR 0xAA, CHR 0x85]))),
      field_options (expense_categories) (field_required (field_kind ''select'' (form_field
        ''expense_category'' ([CHR 0xEC, CHR 0xA7, CHR 0x80, CHR 0xEC, CHR 0xB6, CHR 0x9C] @ ''
        '' @ [CHR 0xEA, CHR 0xB5, CHR 0xAC, CHR 0xEB, CHR 0xB6, CHR 0x84])))),
      field_maps_to ''period_start'' (field_required (field_kind ''date'' (form_field
        ''period_start'' ([CHR 0xEC, CHR 0x82, CHR 0xAC, CHR 0xEC, CHR 0x9A, CHR 0xA9, CHR 0xEC,
        CHR 0x9D, CHR 0xBC] @ ''('' @ [CHR 0xEC, CHR 0x8B, CHR 0x9C, CHR 0xEC, CHR 0x9E, CHR
        0x91] @ '')'')))),
      field_maps_to ''period_end'' (field_kind ''date'' (form_field ''period_end'' ([CHR 0xEC,
        CHR 0x82, CHR 0xAC, CHR 0xEC, CHR 0x9A, CHR 0xA9, CHR 0xEC, CHR 0x9D, CHR 0xBC] @ ''(''
        @ [CHR 0xEC, CHR 0xA2, CHR 0x85, CHR 0xEB, CHR 0xA3, CHR 0x8C] @ '')''))),
      field_maps_to ''total_amount'' (field_required (field_kind ''number'' (form_field
        ''total_amount'' ([CHR 0xEA, CHR 0xB8, CHR 0x88, CHR 0xEC, CHR 0x95, CHR 0xA1] @ ''('' @
        [CHR 0xEC, CHR 0x9B, CHR 0x90] @ '')'')))),
      field_maps_to ''summary'' (field_required (field_kind ''multiline'' (form_field
        ''purpose'' ([CHR 0xEC, CHR 0xA7, CHR 0x80, CHR 0xEC, CHR 0xB6, CHR 0x9C] @ '' '' @ [CHR
        0xEB, CHR 0xAA, CHR 0xA9, CHR 0xEC, CHR 0xA0, CHR 0x81]))))]"

definition closing_schema :: "workflow_form_field_def list" where
  "closing_schema = map field_build
     [field_maps_to ''title'' (field_required (form_field ''title'' ([CHR 0xEB, CHR 0xB3, CHR
        0xB4, CHR 0xEA, CHR 0xB3, CHR 0xA0] @ '' '' @ [CHR 0xEC, CHR 0xA0, CHR 0x9C, CHR 0xEB,
        CHR 0xAA, CHR 0xA9]))),
      field_input_hint ''YYYY-MM'' (field_required (form_field ''closing_month'' ([CHR 0xEB, CHR
        0xA7, CHR 0x88, CHR 0xEA, CHR 0xB0, CHR 0x90] @ '' '' @ [CHR 0xEC, CHR 0x9B, CHR
        0x94]))),
      field_maps_to ''period_start'' (field_required (field_kind ''date'' (form_field
        ''period_start'' ([CHR 0xEC, CHR 0xA7, CHR 0x91, CHR 0xEA, CHR 0xB3, CHR 0x84] @ '' '' @
        [CHR 0xEC, CHR 0x8B, CHR 0x9C, CHR 0xEC, CHR 0x9E, CHR 0x91])))),
      field_maps_to ''period_end'' (field_required (field_kind ''date'' (form_field
        ''period_end'' ([CHR 0xEC, CHR 0xA7, CHR 0x91, CHR 0xEA, CHR 0xB3, CHR 0x84] @ '' '' @
        [CHR 0xEC, CHR 0xA2, CHR 0x85, CHR 0xEB, CHR 0xA3, CHR 0x8C])))),
      field_maps_to ''summary'' (field_required (field_kind ''multiline'' (form_field
        ''summary'' ([CHR 0xEC, CHR 0x8B, CHR 0xA4, CHR 0xEC, CHR 0xA0, CHR 0x81] @ '' '' @ [CHR
        0xEC, CHR 0x9A, CHR 0x94, CHR 0xEC, CHR 0x95, CHR 0xBD])))),
      field_kind ''multiline'' (form_field ''issues'' ([CHR 0xED, CHR 0x8A, CHR 0xB9, CHR 0xEC,
        CHR 0x9D, CHR 0xB4, CHR 0xC2, CHR 0xB7, CHR 0xEB, CHR 0xA6, CHR 0xAC, CHR 0xEC, CHR
        0x8A, CHR 0xA4, CHR 0xED, CHR 0x81, CHR 0xAC]))]"

definition business_trip_schema :: "workflow_form_field_def list" where
  "business_trip_schema = map field_build
     [field_maps_to ''title'' (field_required (form_field ''title'' ([CHR 0xEC, CHR 0xB6, CHR
        0x9C, CHR 0xEC, CHR 0x9E, CHR 0xA5] @ '' '' @ [CHR 0xEC, CHR 0xA0, CHR 0x9C, CHR 0xEB,
        CHR 0xAA, CHR 0xA9]))),
      field_maps_to ''period_start'' (field_required (field_kind ''date'' (form_field
        ''period_start'' ([CHR 0xEC, CHR 0xB6, CHR 0x9C, CHR 0xEC, CHR 0x9E, CHR 0xA5] @ '' '' @
        [CHR 0xEC, CHR 0x8B, CHR 0x9C, CHR 0xEC, CHR 0x9E, CHR 0x91, CHR 0xEC, CHR 0x9D, CHR
        0xBC])))),
      field_maps_to ''period_end'' (field_required (field_kind ''date'' (form_field
        ''period_end'' ([CHR 0xEC, CHR 0xB6, CHR 0x9C, CHR 0xEC, CHR 0x9E, CHR 0xA5] @ '' '' @
        [CHR 0xEC, CHR 0xA2, CHR 0x85, CHR 0xEB, CHR 0xA3, CHR 0x8C, CHR 0xEC, CHR 0x9D, CHR
        0xBC])))),
      field_required (form_field ''destination'' ([CHR 0xEC, CHR 0xB6, CHR 0x9C, CHR 0xEC, CHR
        0x9E, CHR 0xA5, CHR 0xEC, CHR 0xA7, CHR 0x80])),
      field_maps_to ''summary'' (field_required (field_kind ''multiline'' (form_field
        ''business_trip_purpose'' ([CHR 0xEC, CHR 0xB6, CHR 0x9C, CHR 0xEC, CHR 0x9E, CHR 0xA5]
        @ '' '' @ [CHR 0xEB, CHR 0xAA, CHR 0xA9, CHR 0xEC, CHR 0xA0, CHR 0x81])))),
      field_kind ''multiline'' (form_field ''expected_outcome'' ([CHR 0xEA, CHR 0xB8, CHR 0xB0,
        CHR 0xEB, CHR 0x8C, CHR 0x80] @ '' '' @ [CHR 0xEC, CHR 0x84, CHR 0xB1, CHR 0xEA, CHR
        0xB3, CHR 0xBC])),
      field_options (business_trip_transport_options) (field_required (field_kind ''select''
        (form_field ''transportation'' ([CHR 0xEC, CHR 0x9D, CHR 0xB4, CHR 0xEB, CHR 0x8F, CHR
        0x99] @ '' '' @ [CHR 0xEC, CHR 0x88, CHR 0x98, CHR 0xEB, CHR 0x8B, CHR 0xA8])))),
      field_maps_to ''total_amount'' (field_kind ''number'' (form_field ''estimated_amount''
        ([CHR 0xEC, CHR 0x98, CHR 0x88, CHR 0xEC, CHR 0x83, CHR 0x81] @ '' '' @ [CHR 0xEC, CHR
        0xB6, CHR 0x9C, CHR 0xEC, CHR 0x9E, CHR 0xA5, CHR 0xEB, CHR 0xB9, CHR 0x84] @ ''('' @
        [CHR 0xEC, CHR 0x9B, CHR 0x90] @ '')''))),
      field_required (form_field ''executor_id'' ([CHR 0xEC, CHR 0xB6, CHR 0x9C, CHR 0xEC, CHR
        0x9E, CHR 0xA5] @ '' '' @ [CHR 0xEC, CHR 0x88, CHR 0x98, CHR 0xED, CHR 0x96, CHR 0x89,
        CHR 0xEC, CHR 0x9E, CHR 0x90] @ '' ID'')),
      form_field ''site_id'' ([CHR 0xED, CHR 0x98, CHR 0x84, CHR 0xEC, CHR 0x9E, CHR 0xA5] @
        ''/'' @ [CHR 0xEC, CHR 0x82, CHR 0xAC, CHR 0xEC, CHR 0x97, CHR 0x85, CHR 0xEC, CHR 0x9E,
        CHR 0xA5] @ '' ID''),
      form_field ''department_id'' ([CHR 0xEB, CHR 0xB6, CHR 0x80, CHR 0xEC, CHR 0x84, CHR 0x9C]
        @ '' ID''),
      field_input_hint ([CHR 0xEB, CHR 0xB9, CHR 0x84, CHR 0xEC, CHR 0x9B, CHR 0x8C, CHR 0xEB,
        CHR 0x91, CHR 0x90, CHR 0xEB, CHR 0xA9, CHR 0xB4] @ '' '' @ [CHR 0xEB, CHR 0xAC, CHR
        0xB8, CHR 0xEC, CHR 0x84, CHR 0x9C] @ '' ID '' @ [CHR 0xEA, CHR 0xB8, CHR 0xB0, CHR
        0xEC, CHR 0xA4, CHR 0x80] @ '' '' @ [CHR 0xEC, CHR 0x9E, CHR 0x90, CHR 0xEB, CHR 0x8F,
        CHR 0x99] @ '' '' @ [CHR 0xEC, CHR 0x97, CHR 0xB0, CHR 0xEA, CHR 0xB2, CHR 0xB0])
        (form_field ''trip_dedupe_key'' ([CHR 0xEC, CHR 0xB6, CHR 0x9C, CHR 0xEC, CHR 0x9E, CHR
        0xA5] @ '' '' @ [CHR 0xEC, CHR 0xA4, CHR 0x91, CHR 0xEB, CHR 0xB3, CHR 0xB5] @ '' '' @
        [CHR 0xEB, CHR 0xB0, CHR 0xA9, CHR 0xEC, CHR 0xA7, CHR 0x80] @ '' '' @ [CHR 0xED, CHR
        0x82, CHR 0xA4]))]"

text \<open>A document type that has no form of its own gets the general one.\<close>

definition builtin_form_schema :: "string \<Rightarrow> workflow_form_field_def list" where
  "builtin_form_schema document_type =
     (if document_type = ''GENERAL_DRAFT'' then general_schema
      else if document_type = ''ATTENDANCE_REQUEST'' then attendance_schema
      else if document_type = ''PURCHASE_REQUEST'' then purchase_schema
      else if document_type = ''EXPENSE_REPORT'' then expense_schema
      else if document_type = ''CLOSING_REPORT'' then closing_schema
      else if document_type = ''BUSINESS_TRIP_REQUEST'' then business_trip_schema
      else general_schema)"

section \<open>Validation\<close>

definition parse_python_int :: "string \<Rightarrow> i64 option" where
  "parse_python_int text = parse_i64 (remove_char (CHR '','') text)"

definition field_errors :: "(string \<times> string) list \<Rightarrow> workflow_form_field_def \<Rightarrow> string list" where
  "field_errors vals field =
     (let raw = trim (unwrap_or [] (bt_get (wff_key field) vals)) in
      (if wff_required field \<and> raw = []
       then [([CHR 0xE3, CHR 0x80, CHR 0x8C]) @ wff_label field @ ([CHR 0xE3, CHR 0x80, CHR 0x8D, CHR 0xEC, CHR 0x9D, CHR 0x80] @ ''('' @ [CHR 0xEB, CHR 0x8A, CHR 0x94] @ '') '' @ [CHR 0xED, CHR 0x95, CHR 0x84, CHR 0xEC, CHR 0x88, CHR 0x98, CHR 0xEC, CHR 0x9E, CHR 0x85, CHR 0xEB, CHR 0x8B, CHR 0x88, CHR 0xEB, CHR 0x8B, CHR 0xA4] @ ''.'')] else [])
      @ (if wff_field_type field = ''number'' \<and> raw \<noteq> [] \<and> parse_python_int raw = None
         then [([CHR 0xE3, CHR 0x80, CHR 0x8C]) @ wff_label field @ ([CHR 0xE3, CHR 0x80, CHR 0x8D, CHR 0xEC, CHR 0x9D, CHR 0x80] @ ''('' @ [CHR 0xEB, CHR 0x8A, CHR 0x94] @ '') '' @ [CHR 0xEC, CHR 0x88, CHR 0xAB, CHR 0xEC, CHR 0x9E, CHR 0x90, CHR 0xEB, CHR 0xA1, CHR 0x9C] @ '' '' @ [CHR 0xEC, CHR 0x9E, CHR 0x85, CHR 0xEB, CHR 0xA0, CHR 0xA5, CHR 0xED, CHR 0x95, CHR 0x98, CHR 0xEC, CHR 0x84, CHR 0xB8, CHR 0xEC, CHR 0x9A, CHR 0x94] @ ''.'')] else [])
      @ (if wff_key field = ''closing_month'' \<and> raw \<noteq> [] \<and> char_count raw < 7
         then [[CHR 0xEB, CHR 0xA7, CHR 0x88, CHR 0xEA, CHR 0xB0, CHR 0x90] @ '' '' @ [CHR 0xEC, CHR 0x9B, CHR 0x94, CHR 0xEC, CHR 0x9D, CHR 0x80] @ '' YYYY-MM '' @ [CHR 0xED, CHR 0x98, CHR 0x95, CHR 0xEC, CHR 0x8B, CHR 0x9D, CHR 0xEC, CHR 0x9D, CHR 0xB4, CHR 0xEC, CHR 0x96, CHR 0xB4, CHR 0xEC, CHR 0x95, CHR 0xBC] @ '' '' @ [CHR 0xED, CHR 0x95, CHR 0xA9, CHR 0xEB, CHR 0x8B, CHR 0x88, CHR 0xEB, CHR 0x8B, CHR 0xA4] @ ''.''] else []))"

definition validate_form_values ::
    "workflow_form_field_def list \<Rightarrow> (string \<times> string) list \<Rightarrow> string list" where
  "validate_form_values schema vals =
     (let period_start = trim (unwrap_or [] (bt_get ''period_start'' vals));
          period_end = trim (unwrap_or [] (bt_get ''period_end'' vals)) in
      concat (map (field_errors vals) schema)
      @ (if period_start \<noteq> [] \<and> period_end \<noteq> [] \<and> period_start > period_end
         then [[CHR 0xEC, CHR 0x8B, CHR 0x9C, CHR 0xEC, CHR 0x9E, CHR 0x91, CHR 0xEC, CHR 0x9D, CHR 0xBC, CHR 0xEC, CHR 0x9D, CHR 0xB4] @ '' '' @ [CHR 0xEC, CHR 0xA2, CHR 0x85, CHR 0xEB, CHR 0xA3, CHR 0x8C, CHR 0xEC, CHR 0x9D, CHR 0xBC, CHR 0xEB, CHR 0xB3, CHR 0xB4, CHR 0xEB, CHR 0x8B, CHR 0xA4] @ '' '' @ [CHR 0xEB, CHR 0x8A, CHR 0xA6, CHR 0xEC, CHR 0x9D, CHR 0x84] @ '' '' @ [CHR 0xEC, CHR 0x88, CHR 0x98] @ '' '' @ [CHR 0xEC, CHR 0x97, CHR 0x86, CHR 0xEC, CHR 0x8A, CHR 0xB5, CHR 0xEB, CHR 0x8B, CHR 0x88, CHR 0xEB, CHR 0x8B, CHR 0xA4] @ ''.''] else []))"

definition validate_builtin_form_values :: "string \<Rightarrow> (string \<times> string) list \<Rightarrow> string list" where
  "validate_builtin_form_values document_type vals =
     validate_form_values (builtin_form_schema document_type) vals"

section \<open>The document of a form\<close>

definition form_value :: "(string \<times> string) list \<Rightarrow> string \<Rightarrow> string" where
  "form_value vals key = unwrap_or [] (bt_get key vals)"

definition first_value :: "(string \<times> string) list \<Rightarrow> string list \<Rightarrow> string" where
  "first_value vals keys = unwrap_or [] (find_first (\<lambda>v. v \<noteq> []) (map (form_value vals) keys))"

definition cleaned_values :: "(string \<times> string) list \<Rightarrow> (string \<times> string) list" where
  "cleaned_values vals = bt_collect (map (\<lambda>(key, v). (key, trim v)) vals)"

definition form_summary :: "(string \<times> string) list \<Rightarrow> string" where
  "form_summary cleaned =
     (let summary = first_value cleaned
            [''summary'', ''content'', ''business_trip_purpose'', ''purpose'', ''reason''] in
      if summary = [] then
        join_with [CHR 0x0A] (filter (\<lambda>v. v \<noteq> []) (map (form_value cleaned)
          [''business_trip_purpose'', ''purpose'', ''content'', ''reason'', ''item_summary'']))
      else summary)"

definition form_amount :: "(string \<times> string) list \<Rightarrow> i64" where
  "form_amount cleaned =
     (let amount_source = first_value cleaned [''total_amount'', ''estimated_amount''] in
      if amount_source = [] then 0 else unwrap_or 0 (parse_python_int amount_source))"

definition build_document_fields :: "string \<Rightarrow> (string \<times> string) list \<Rightarrow> workflow_document_fields" where
  "build_document_fields document_type vals =
     (let cleaned = cleaned_values vals; summary = form_summary cleaned in
      \<lparr>wdf_title = form_value cleaned ''title'',
       wdf_summary = summary,
       wdf_content = summary,
       wdf_total_amount = form_amount cleaned,
       wdf_due_date = first_value cleaned [''due_date'', ''period_end''],
       wdf_period_start = form_value cleaned ''period_start'',
       wdf_period_end = form_value cleaned ''period_end'',
       wdf_payload = bt_insert ''document_type'' document_type cleaned\<rparr>)"

definition attendance_type_key :: "string \<Rightarrow> string" where
  "attendance_type_key label =
     unwrap_or ''other'' (map_option fst
       (find_first (\<lambda>(key, candidate_label). candidate_label = label) attendance_type_labels))"

section \<open>Properties\<close>

lemmas field_defs = form_field_def field_kind_def field_required_def field_options_def
  field_input_hint_def field_maps_to_def field_build_def

lemmas schema_defs = general_schema_def attendance_schema_def purchase_schema_def expense_schema_def
  closing_schema_def business_trip_schema_def

lemma cleaned_ok [simp]: "bt_ok (cleaned_values vals)"
  by (simp add: cleaned_values_def)

lemma cleaned_get:
  assumes "bt_ok vals"
  shows "bt_get key (cleaned_values vals) = map_option trim (bt_get key vals)"
proof -
  have keys: "map fst (map (\<lambda>(key, v). (key, trim v)) vals) = map fst vals"
    by (induction vals) auto
  have "map_of (map (\<lambda>(key, v). (key, trim v)) vals) key = map_option trim (map_of vals key)"
    by (simp add: map_of_map)
  moreover have "bt_get key (cleaned_values vals) = map_of (map (\<lambda>(key, v). (key, trim v)) vals) key"
    unfolding cleaned_values_def
    by (rule bt_collect_distinct) (simp only: keys bt_ok_distinct[OF assms])
  ultimately show ?thesis by (simp add: bt_get_def)
qed

lemma cleaned_value: "bt_ok vals \<Longrightarrow> form_value (cleaned_values vals) key = trim (form_value vals key)"
  by (cases "bt_get key vals") (simp_all add: form_value_def cleaned_get)

lemma field_errors_Nil_iff:
  "field_errors vals field = [] \<longleftrightarrow>
     (wff_required field \<longrightarrow> trim (form_value vals (wff_key field)) \<noteq> [])
   \<and> (wff_field_type field = ''number'' \<and> trim (form_value vals (wff_key field)) \<noteq> []
        \<longrightarrow> parse_python_int (trim (form_value vals (wff_key field))) \<noteq> None)
   \<and> (wff_key field = ''closing_month'' \<and> trim (form_value vals (wff_key field)) \<noteq> []
        \<longrightarrow> 7 \<le> char_count (trim (form_value vals (wff_key field))))"
  by (auto simp: field_errors_def form_value_def Let_def)

lemma validate_Nil_iff:
  "validate_form_values schema vals = [] \<longleftrightarrow>
     (\<forall>field \<in> set schema. field_errors vals field = [])
   \<and> (trim (form_value vals ''period_start'') = [] \<or> trim (form_value vals ''period_end'') = []
      \<or> trim (form_value vals ''period_start'') \<le> trim (form_value vals ''period_end''))"
  by (auto simp: validate_form_values_def form_value_def Let_def not_less)

text \<open>The keys a form requires, and the numbers among them.\<close>

definition required_keys :: "workflow_form_field_def list \<Rightarrow> string list" where
  "required_keys schema = map wff_key (filter wff_required schema)"

definition number_keys :: "workflow_form_field_def list \<Rightarrow> string list" where
  "number_keys schema = map wff_key (filter (\<lambda>f. wff_field_type f = ''number'') schema)"

lemma schema_keys:
  "required_keys general_schema = [''title'', ''period_start'', ''period_end'', ''purpose'', ''content'']"
  "required_keys attendance_schema =
     [''title'', ''attendance_type'', ''period_start'', ''period_end'', ''reason'']"
  "required_keys purchase_schema =
     [''title'', ''item_summary'', ''period_start'', ''total_amount'', ''purpose'']"
  "required_keys expense_schema =
     [''title'', ''expense_category'', ''period_start'', ''total_amount'', ''purpose'']"
  "required_keys closing_schema =
     [''title'', ''closing_month'', ''period_start'', ''period_end'', ''summary'']"
  "required_keys business_trip_schema =
     [''title'', ''period_start'', ''period_end'', ''destination'', ''business_trip_purpose'',
      ''transportation'', ''executor_id'']"
  "number_keys general_schema = []" "number_keys attendance_schema = []"
  "number_keys closing_schema = []" "number_keys purchase_schema = [''total_amount'']"
  "number_keys expense_schema = [''total_amount'']"
  "number_keys business_trip_schema = [''estimated_amount'']"
  by (simp_all add: required_keys_def number_keys_def schema_defs field_defs)

lemma validated_required:
  "validate_form_values schema vals = [] \<Longrightarrow> key \<in> set (required_keys schema) \<Longrightarrow>
   trim (form_value vals key) \<noteq> []"
  by (auto simp: validate_Nil_iff field_errors_Nil_iff required_keys_def)

lemma validated_number:
  "validate_form_values schema vals = [] \<Longrightarrow> key \<in> set (number_keys schema) \<Longrightarrow>
   trim (form_value vals key) \<noteq> [] \<Longrightarrow> parse_python_int (trim (form_value vals key)) \<noteq> None"
  by (auto simp: validate_Nil_iff field_errors_Nil_iff number_keys_def)

definition summary_keys :: "string list" where
  "summary_keys = [''summary'', ''content'', ''business_trip_purpose'', ''purpose'', ''reason'']"

lemma first_value_nonempty:
  "key \<in> set keys \<Longrightarrow> form_value vals key \<noteq> [] \<Longrightarrow> first_value vals keys \<noteq> []"
proof -
  assume a: "key \<in> set keys" "form_value vals key \<noteq> []"
  then have "find_first (\<lambda>v. v \<noteq> []) (map (form_value vals) keys) \<noteq> None"
    unfolding find_first_None by auto
  then obtain v where v: "find_first (\<lambda>v. v \<noteq> []) (map (form_value vals) keys) = Some v" by blast
  from find_first_Some[OF v] v show ?thesis by (simp add: first_value_def)
qed

lemma builtin_schema_cases:
  "builtin_form_schema document_type \<in> {general_schema, attendance_schema, purchase_schema,
     expense_schema, closing_schema, business_trip_schema}"
  by (simp add: builtin_form_schema_def)

lemma builtin_required:
  "{''title'', ''period_start''} \<subseteq> set (required_keys (builtin_form_schema document_type))
   \<and> (\<exists>key \<in> set summary_keys. key \<in> set (required_keys (builtin_form_schema document_type)))"
  using builtin_schema_cases[of document_type]
  by (auto simp: schema_keys summary_keys_def)

text \<open>
  A form that the validation of its document type accepts makes a document with a title, a
  summary, a first day, and a last day that is missing or not before the first; and the amount of
  a purchase or an expense is the number that was entered, never the zero that replaces a number
  which does not parse.
\<close>

theorem validated_form_document:
  assumes "bt_ok vals" and "validate_builtin_form_values document_type vals = []"
  shows "(let doc = build_document_fields document_type vals in
      wdf_title doc \<noteq> [] \<and> wdf_summary doc \<noteq> [] \<and> wdf_content doc = wdf_summary doc
      \<and> wdf_period_start doc \<noteq> []
      \<and> (wdf_period_end doc = [] \<or> wdf_period_start doc \<le> wdf_period_end doc)
      \<and> (document_type \<in> {''PURCHASE_REQUEST'', ''EXPENSE_REPORT''} \<longrightarrow>
           parse_python_int (trim (form_value vals ''total_amount'')) = Some (wdf_total_amount doc)))"
proof -
  note valid = assms(2)[unfolded validate_builtin_form_values_def]
  note need = validated_required[OF valid]
  from builtin_required[of document_type] need
  have title: "trim (form_value vals ''title'') \<noteq> []" "trim (form_value vals ''period_start'') \<noteq> []"
    by auto
  from builtin_required[of document_type] need obtain key
    where key: "key \<in> set summary_keys" "trim (form_value vals key) \<noteq> []" by auto
  have "first_value (cleaned_values vals) summary_keys \<noteq> []"
    by (rule first_value_nonempty[OF key(1)]) (simp add: cleaned_value assms(1) key(2))
  then have summary: "form_summary (cleaned_values vals) \<noteq> []"
    by (simp add: form_summary_def summary_keys_def)
  have "trim (form_value vals ''period_end'') = []
      \<or> trim (form_value vals ''period_start'') \<le> trim (form_value vals ''period_end'')"
    using valid title by (auto simp: validate_Nil_iff)
  moreover have "parse_python_int (trim (form_value vals ''total_amount''))
      = Some (form_amount (cleaned_values vals))"
    if "document_type \<in> {''PURCHASE_REQUEST'', ''EXPENSE_REPORT''}"
  proof -
    have keys: "''total_amount'' \<in> set (required_keys (builtin_form_schema document_type))"
      "''total_amount'' \<in> set (number_keys (builtin_form_schema document_type))"
      using that by (auto simp: builtin_form_schema_def schema_keys)
    note given = need[OF keys(1)]
    from validated_number[OF valid keys(2) given] show ?thesis
      using given by (auto simp: form_amount_def first_value_def cleaned_value assms(1))
  qed
  ultimately show ?thesis
    using title summary by (simp add: build_document_fields_def Let_def cleaned_value assms(1))
qed

theorem validated_form_document_witness:
  "\<exists>doc. build_document_fields ''PURCHASE_REQUEST'' (bt_collect
      [(''title'', ''chairs ''), (''item_summary'', ''ten''), (''period_start'', ''2026-05-01''),
       (''total_amount'', '' 1,250''), (''purpose'', ''desks'')]) = doc
    \<and> wdf_title doc \<noteq> [] \<and> wdf_summary doc \<noteq> [] \<and> wdf_total_amount doc = 1250"
proof -
  define vals where "vals = bt_collect
      [(''title'', ''chairs ''), (''item_summary'', ''ten''), (''period_start'', ''2026-05-01''),
       (''total_amount'', '' 1,250''), (''purpose'', ''desks'')]"
  have ok: "bt_ok vals" by (simp add: vals_def)
  have valid: "validate_builtin_form_values ''PURCHASE_REQUEST'' vals = []"
    unfolding vals_def by code_simp
  have amount: "parse_python_int (trim (form_value vals ''total_amount'')) = Some 1250"
    unfolding vals_def by code_simp
  from validated_form_document[OF ok valid] amount
  show ?thesis unfolding vals_def[symmetric] by (simp add: Let_def)
qed

text \<open>
  C38: the payload of a document is a form that makes the same document again.
\<close>

theorem payload_rebuilds:
  assumes "bt_ok vals"
  shows "build_document_fields document_type (wdf_payload (build_document_fields document_type vals))
    = build_document_fields document_type vals"
proof -
  let ?c = "cleaned_values vals" and ?p = "bt_insert ''document_type'' document_type (cleaned_values vals)"
  have ok: "bt_ok ?p" by simp
  have same: "form_value (cleaned_values ?p) key = form_value ?c key" if "key \<noteq> ''document_type''" for key
    using that ok assms
    by (cases "bt_get key vals") (simp_all add: cleaned_value form_value_def bt_get_insert cleaned_get)
  have firsts: "first_value (cleaned_values ?p) keys = first_value ?c keys"
    if "''document_type'' \<notin> set keys" for keys
  proof -
    have "map (form_value (cleaned_values ?p)) keys = map (form_value ?c) keys"
      using that by (intro map_cong) (auto intro: same)
    then show ?thesis by (simp only: first_value_def)
  qed
  have payload: "bt_insert ''document_type'' document_type (cleaned_values ?p) = ?p"
    by (rule bt_eqI) (auto simp: bt_get_insert cleaned_get ok assms option.map_comp o_def)
  show ?thesis
    by (simp add: build_document_fields_def Let_def form_summary_def form_amount_def firsts same payload)
qed

theorem payload_rebuilds_witness:
  "wdf_payload (build_document_fields ''X'' (wdf_payload (build_document_fields ''X'' [(''title'', ''a '')])))
   = [(''document_type'', ''X''), (''title'', ''a'')]"
proof -
  have ok: "bt_ok [(''title'', ''a '')]" by (simp add: bt_ok_def)
  have "wdf_payload (build_document_fields ''X'' [(''title'', ''a '')])
      = [(''document_type'', ''X''), (''title'', ''a'')]" by code_simp
  then show ?thesis using payload_rebuilds[OF ok, of "''X''"] by simp
qed

text \<open>The second choice of a summary is read only when its first four keys are all blank.\<close>

lemma summary_falls_back_to_items:
  "first_value cleaned summary_keys = [] \<Longrightarrow> form_summary cleaned = form_value cleaned ''item_summary''"
proof -
  assume e: "first_value cleaned summary_keys = []"
  have "form_value cleaned key = []" if "key \<in> set summary_keys" for key
    using first_value_nonempty[OF that, of cleaned] e by blast
  with e show ?thesis by (simp add: form_summary_def summary_keys_def)
qed

lemma attendance_type_key_labels:
  "list_all (\<lambda>(key, label). attendance_type_key label = key) attendance_type_labels"
  by code_simp

end
