(* ===== verification/Attendance.thy ===== *)
theory Attendance
  imports Policy Rounding "HOL-Library.Multiset"
begin

text \<open>
  Attendance records grouped into the rows of an invoice:
  \<open>crates/payroll-api/src/attendance.rs\<close>.
\<close>

section \<open>Records and rows\<close>

definition normalized_name_key :: "string \<Rightarrow> string" where
  "normalized_name_key text = strip_ws text"

record attendance_source_record =
  asr_name :: string
  asr_name_key :: string
  asr_dept :: string
  asr_workplace :: string
  asr_work_hours :: f64
  asr_late_hours :: f64
  asr_early_leave_hours :: f64
  asr_overtime_hours :: f64
  asr_night_hours :: f64
  asr_special_hours :: f64
  asr_leave_days :: f64
  asr_unpaid_days :: f64

definition attendance_source_record_new :: "string \<Rightarrow> attendance_source_record" where
  "attendance_source_record_new name =
     (let name = trim name in
     \<lparr>asr_name = name, asr_name_key = normalized_name_key name,
      asr_dept = [], asr_workplace = [],
      asr_work_hours = 0, asr_late_hours = 0,
      asr_early_leave_hours = 0, asr_overtime_hours = 0,
      asr_night_hours = 0, asr_special_hours = 0,
      asr_leave_days = 0, asr_unpaid_days = 0\<rparr>)"

definition asr_with_name_key :: "string \<Rightarrow> attendance_source_record \<Rightarrow> attendance_source_record" where
  "asr_with_name_key name_key i = i\<lparr>asr_name_key := trim name_key\<rparr>"

definition asr_with_dept :: "string \<Rightarrow> attendance_source_record \<Rightarrow> attendance_source_record" where
  "asr_with_dept dept i = i\<lparr>asr_dept := trim dept\<rparr>"

definition asr_with_workplace :: "string \<Rightarrow> attendance_source_record \<Rightarrow> attendance_source_record" where
  "asr_with_workplace workplace i = i\<lparr>asr_workplace := trim workplace\<rparr>"

definition asr_with_work_hours :: "f64 \<Rightarrow> attendance_source_record \<Rightarrow> attendance_source_record" where
  "asr_with_work_hours hours i = i\<lparr>asr_work_hours := hours\<rparr>"

definition asr_with_late_hours :: "f64 \<Rightarrow> attendance_source_record \<Rightarrow> attendance_source_record" where
  "asr_with_late_hours hours i = i\<lparr>asr_late_hours := hours\<rparr>"

definition asr_with_early_leave_hours :: "f64 \<Rightarrow> attendance_source_record \<Rightarrow> attendance_source_record" where
  "asr_with_early_leave_hours hours i = i\<lparr>asr_early_leave_hours := hours\<rparr>"

definition asr_with_overtime_hours :: "f64 \<Rightarrow> attendance_source_record \<Rightarrow> attendance_source_record" where
  "asr_with_overtime_hours hours i = i\<lparr>asr_overtime_hours := hours\<rparr>"

definition asr_with_night_hours :: "f64 \<Rightarrow> attendance_source_record \<Rightarrow> attendance_source_record" where
  "asr_with_night_hours hours i = i\<lparr>asr_night_hours := hours\<rparr>"

definition asr_with_special_hours :: "f64 \<Rightarrow> attendance_source_record \<Rightarrow> attendance_source_record" where
  "asr_with_special_hours hours i = i\<lparr>asr_special_hours := hours\<rparr>"

definition asr_with_leave_days :: "f64 \<Rightarrow> attendance_source_record \<Rightarrow> attendance_source_record" where
  "asr_with_leave_days days i = i\<lparr>asr_leave_days := days\<rparr>"

definition asr_with_unpaid_days :: "f64 \<Rightarrow> attendance_source_record \<Rightarrow> attendance_source_record" where
  "asr_with_unpaid_days days i = i\<lparr>asr_unpaid_days := days\<rparr>"

record attendance_invoice_row =
  air_row :: u64
  air_name :: string
  air_dept :: string
  air_hire_date :: string
  air_workplace :: string
  air_base_hourly :: f64
  air_ordinary_hourly :: f64
  air_base_days :: f64
  air_work_days :: f64
  air_unpaid_days :: f64
  air_leave_days :: f64
  air_ot_hours :: f64
  air_shift_hours :: f64
  air_night_hours :: f64
  air_special_hours :: f64
  air_special_ext_hours :: f64
  air_early_leave_hours :: f64
  air_base_salary :: i64
  air_base_deduction :: i64
  air_ot_pay :: i64
  air_night_pay :: i64
  air_special_pay :: i64
  air_special_ext_pay :: i64
  air_position_pay :: i64
  air_shift_pay :: i64
  air_workers_day_pay :: i64
  air_annual_pay :: i64
  air_transport :: i64
  air_subtotal :: i64
  air_gross_pay :: i64
  air_health_insurance :: i64
  air_long_term_care :: i64
  air_national_pension :: i64
  air_employment_insurance :: i64
  air_insurance_total :: i64
  air_attendance_days :: u64
  air_attendance_input :: bool

record grouped_attendance =
  gra_name :: string
  gra_dept :: string
  gra_workplace :: string
  gra_work_hours :: f64
  gra_late_hours :: f64
  gra_early_leave_hours :: f64
  gra_overtime_hours :: f64
  gra_night_hours :: f64
  gra_special_hours :: f64
  gra_leave_days :: f64
  gra_unpaid_days :: f64
  gra_attendance_days :: u64

definition grouped_attendance_default :: grouped_attendance where
  "grouped_attendance_default =
     \<lparr>gra_name = [], gra_dept = [], gra_workplace = [], gra_work_hours = 0, gra_late_hours = 0,
      gra_early_leave_hours = 0, gra_overtime_hours = 0, gra_night_hours = 0,
      gra_special_hours = 0, gra_leave_days = 0, gra_unpaid_days = 0, gra_attendance_days = 0\<rparr>"

section \<open>Aggregation\<close>

definition attendance_key :: "attendance_source_record \<Rightarrow> string" where
  "attendance_key record =
     (let key = trim (asr_name_key record) in
      if key = [] then normalized_name_key (asr_name record) else key)"

definition round_hours :: "f64 \<Rightarrow> i64 \<Rightarrow> f64" where
  "round_hours hours rounding_minutes =
     (if hours \<le> 0 then 0
      else
        let unit = of_i64 (max rounding_minutes 1);
            rounded_minutes = round_ties_even_eps (hours * lit 60 / unit) * unit in
        round_decimal_places (rounded_minutes / lit 60) 4)"

definition invoice_row :: "grouped_attendance \<Rightarrow> i64 \<Rightarrow> attendance_invoice_row" where
  "invoice_row item rounding_minutes =
     (let work_hours = round_hours (gra_work_hours item) rounding_minutes in
      \<lparr>air_row = 0, air_name = gra_name item, air_dept = gra_dept item, air_hire_date = [],
       air_workplace = gra_workplace item, air_base_hourly = 0, air_ordinary_hourly = 0,
       air_base_days = work_hours, air_work_days = work_hours,
       air_unpaid_days = gra_unpaid_days item, air_leave_days = gra_leave_days item,
       air_ot_hours = round_hours (gra_overtime_hours item) rounding_minutes, air_shift_hours = 0,
       air_night_hours = round_hours (gra_night_hours item) rounding_minutes,
       air_special_hours = round_hours (gra_special_hours item) rounding_minutes,
       air_special_ext_hours = 0,
       air_early_leave_hours =
         round_hours (gra_early_leave_hours item + gra_late_hours item) rounding_minutes,
       air_base_salary = 0, air_base_deduction = 0, air_ot_pay = 0, air_night_pay = 0,
       air_special_pay = 0, air_special_ext_pay = 0, air_position_pay = 0, air_shift_pay = 0,
       air_workers_day_pay = 0, air_annual_pay = 0, air_transport = 0, air_subtotal = 0,
       air_gross_pay = 0, air_health_insurance = 0, air_long_term_care = 0,
       air_national_pension = 0, air_employment_insurance = 0, air_insurance_total = 0,
       air_attendance_days = gra_attendance_days item, air_attendance_input = True\<rparr>)"

text \<open>The entry a new key gets, and what every record adds to the entry of its key.\<close>

definition grouped_start :: "string \<Rightarrow> attendance_source_record \<Rightarrow> grouped_attendance" where
  "grouped_start workplace record =
     grouped_attendance_default
       \<lparr>gra_name := asr_name record, gra_dept := asr_dept record,
        gra_workplace := (if asr_workplace record = [] then workplace else asr_workplace record)\<rparr>"

definition add_record ::
    "attendance_policy \<Rightarrow> attendance_source_record \<Rightarrow> grouped_attendance \<Rightarrow> grouped_attendance" where
  "add_record policy record item =
     (let late_grace = of_i64 (ap_late_grace_minutes policy);
          early_grace = of_i64 (ap_early_leave_grace_minutes policy) in
      item\<lparr>gra_work_hours := gra_work_hours item + f64_max (asr_work_hours record) 0,
           gra_late_hours :=
             (if asr_late_hours record * lit 60 > late_grace
              then gra_late_hours item + f64_max (asr_late_hours record - late_grace / lit 60) 0
              else gra_late_hours item),
           gra_early_leave_hours :=
             (if asr_early_leave_hours record * lit 60 > early_grace
              then gra_early_leave_hours item + f64_max (asr_early_leave_hours record - early_grace / lit 60) 0
              else gra_early_leave_hours item),
           gra_overtime_hours := gra_overtime_hours item + asr_overtime_hours record,
           gra_night_hours := gra_night_hours item + asr_night_hours record,
           gra_special_hours := gra_special_hours item + asr_special_hours record,
           gra_leave_days := gra_leave_days item + asr_leave_days record,
           gra_unpaid_days := gra_unpaid_days item + asr_unpaid_days record,
           gra_attendance_days := gra_attendance_days item + 1\<rparr>)"

definition attendance_step ::
    "string \<Rightarrow> attendance_policy \<Rightarrow> (string \<times> grouped_attendance) list \<Rightarrow> attendance_source_record \<Rightarrow>
     (string \<times> grouped_attendance) list" where
  "attendance_step workplace policy grouped record =
     (if attendance_key record = [] then grouped
      else bt_upd attendance_key (grouped_start workplace) (add_record policy) grouped record)"

definition aggregate_attendance_records ::
    "attendance_source_record list \<Rightarrow> string \<Rightarrow> attendance_policy \<Rightarrow> attendance_invoice_row list" where
  "aggregate_attendance_records records workplace policy =
     (let workplace = trim workplace;
          policy = attendance_policy_normalized policy;
          grouped = foldl (attendance_step workplace policy) [] records in
      sort_key air_name
        (map (\<lambda>(_, item). invoice_row item (ap_rounding_minutes policy)) grouped))"

section \<open>Properties\<close>

text \<open>The records of somebody: those whose key is not blank.\<close>

definition keyed_records :: "attendance_source_record list \<Rightarrow> attendance_source_record list" where
  "keyed_records records = filter (\<lambda>record. attendance_key record \<noteq> []) records"

definition records_of :: "string \<Rightarrow> attendance_source_record list \<Rightarrow> attendance_source_record list" where
  "records_of key records = filter (\<lambda>record. attendance_key record = key) (keyed_records records)"

text \<open>The row of a person, computed from his or her records alone.\<close>

definition person_row ::
    "string \<Rightarrow> attendance_policy \<Rightarrow> attendance_source_record list \<Rightarrow> attendance_invoice_row" where
  "person_row workplace policy records =
     invoice_row (group_fold (grouped_start workplace) (add_record policy) records)
       (ap_rounding_minutes policy)"

lemma attendance_loop:
  "foldl (attendance_step workplace policy) m records
   = foldl (bt_upd attendance_key (grouped_start workplace) (add_record policy)) m (keyed_records records)"
  by (induction records arbitrary: m) (simp_all add: attendance_step_def keyed_records_def)

lemma aggregate_rows:
  "aggregate_attendance_records records workplace policy =
     sort_key air_name
       (map (\<lambda>key. person_row (trim workplace) (attendance_policy_normalized policy) (records_of key records))
         (sorted_list_of_set (attendance_key ` set (keyed_records records))))"
  by (simp add: aggregate_attendance_records_def attendance_loop bt_group records_of_def
      person_row_def o_def Let_def)

lemma group_fold_days:
  "gra_attendance_days (fold (add_record policy) records item) = gra_attendance_days item + int (length records)"
  by (induction records arbitrary: item) (simp_all add: add_record_def Let_def)

lemma person_row_days:
  "air_attendance_days (person_row workplace policy records) = int (length records)"
  by (simp add: person_row_def invoice_row_def group_fold_def group_fold_days grouped_start_def
      grouped_attendance_default_def Let_def)

lemma sum_list_sort_key: "sum_list (map f (sort_key g xs)) = sum_list (map f xs)" for f :: "'a \<Rightarrow> int"
  by (simp flip: sum_mset_sum_list)

lemma sum_group_sizes:
  fixes key :: "'a \<Rightarrow> 'k::linorder"
  shows "sum_list (map (\<lambda>k. int (length (filter (\<lambda>x. key x = k) xs))) (sorted_list_of_set (key ` set xs)))
    = int (length xs)"
proof -
  have "int (length xs) = (\<Sum>k \<in> S. int (length (filter (\<lambda>x. key x = k) xs)))"
    if "finite S" "key ` set xs \<subseteq> S" for S
    using that(2)
  proof (induction xs)
    case (Cons x xs)
    then have "(\<Sum>k \<in> S. int (length (filter (\<lambda>y. key y = k) (x # xs))))
        = (\<Sum>k \<in> S. (if k = key x then 1 else 0) + int (length (filter (\<lambda>y. key y = k) xs)))"
      by (intro sum.cong) auto
    also have "\<dots> = 1 + int (length xs)"
      using Cons that(1) by (simp add: sum.distrib)
    finally show ?case by simp
  qed simp
  from this[of "key ` set xs"] show ?thesis
    by (simp add: sum_list_distinct_conv_sum_set)
qed

text \<open>
  C39: the loop over the attendance records is a grouping: every person with a record has exactly
  one row, computed from the records with his or her key alone, in their order, and the rows
  are sorted by name and, within a name, by key.  So the order in which the records of different
  people are interleaved does not matter, and the attended days of the rows add up to the
  number of records that name somebody.
\<close>

theorem attendance_grouping:
  "aggregate_attendance_records records workplace policy =
     sort_key air_name
       (map (\<lambda>key. person_row (trim workplace) (attendance_policy_normalized policy) (records_of key records))
         (sorted_list_of_set (attendance_key ` set (keyed_records records))))
   \<and> sum_list (map air_attendance_days (aggregate_attendance_records records workplace policy))
     = int (length (keyed_records records))"
  by (simp add: aggregate_rows sum_list_sort_key o_def person_row_days records_of_def sum_group_sizes)

text \<open>The overtime hours are rounded with the general unit: the one for overtime is not read.\<close>

theorem overtime_unit_not_read:
  "person_row workplace (policy\<lparr>ap_overtime_rounding_minutes := n\<rparr>) records = person_row workplace policy records"
proof -
  have "add_record (policy\<lparr>ap_overtime_rounding_minutes := n\<rparr>) = add_record policy"
    by (intro ext) (simp add: add_record_def Let_def)
  then show ?thesis by (simp add: person_row_def)
qed

text \<open>
  Two lists of records that agree, person by person, make the same rows.
\<close>

theorem attendance_interleaving:
  assumes "\<And>key. records_of key records = records_of key records'"
  shows "aggregate_attendance_records records workplace policy
    = aggregate_attendance_records records' workplace policy"
proof -
  have "attendance_key ` set (keyed_records rs) = {key. records_of key rs \<noteq> []}" for rs
    by (auto simp: records_of_def filter_empty_conv)
  with assms have "attendance_key ` set (keyed_records records) = attendance_key ` set (keyed_records records')"
    by simp
  with assms show ?thesis by (simp add: aggregate_rows)
qed

theorem attendance_interleaving_witness:
  "aggregate_attendance_records
     [attendance_source_record_new ''kim'', attendance_source_record_new ''lee''] ''A'' attendance_policy_default
   = aggregate_attendance_records
     [attendance_source_record_new ''lee'', attendance_source_record_new ''kim''] ''A'' attendance_policy_default"
proof (rule attendance_interleaving)
  have keys: "attendance_key (attendance_source_record_new ''kim'') = ''kim''"
    "attendance_key (attendance_source_record_new ''lee'') = ''lee''"
    by code_simp+
  show "records_of key [attendance_source_record_new ''kim'', attendance_source_record_new ''lee'']
      = records_of key [attendance_source_record_new ''lee'', attendance_source_record_new ''kim'']" for key
    by (auto simp: records_of_def keyed_records_def keys)
qed

end
