(* ===== verification/Workplace_Hours.thy ===== *)
theory Workplace_Hours
  imports F64_Text Rounding
begin

text \<open>
  The monthly hours of a workplace: \<open>crates/payroll-api/src/workplace_hours.rs\<close>.  Its rounding
  functions are those of the theory Rounding.
\<close>

section \<open>Modes and policies\<close>

definition workplace_standard_hours :: f64 where
  "workplace_standard_hours = lit 209"

datatype workplace_hours_mode =
    HoursFixed
  | HoursInvoiceWorkDays
  | HoursInvoiceBaseDays
  | HoursWorkOrFixed
  | HoursBaseOrFixed

fun workplace_hours_mode_as_str :: "workplace_hours_mode \<Rightarrow> string" where
  "workplace_hours_mode_as_str HoursFixed = ''fixed''"
| "workplace_hours_mode_as_str HoursInvoiceWorkDays = ''invoice_work_days''"
| "workplace_hours_mode_as_str HoursInvoiceBaseDays = ''invoice_base_days''"
| "workplace_hours_mode_as_str HoursWorkOrFixed = ''work_or_fixed''"
| "workplace_hours_mode_as_str HoursBaseOrFixed = ''base_or_fixed''"

definition workplace_hours_mode_normalize :: "string \<Rightarrow> workplace_hours_mode" where
  "workplace_hours_mode_normalize text =
     (let t = trim text in
      if t = ''invoice_work_days'' then HoursInvoiceWorkDays
      else if t = ''invoice_base_days'' then HoursInvoiceBaseDays
      else if t = ''work_or_fixed'' then HoursWorkOrFixed
      else if t = ''base_or_fixed'' then HoursBaseOrFixed
      else HoursFixed)"

fun workplace_hours_mode_label :: "workplace_hours_mode \<Rightarrow> string" where
  "workplace_hours_mode_label HoursFixed =
     [CHR 0xEA, CHR 0xB3, CHR 0xA0, CHR 0xEC, CHR 0xA0, CHR 0x95] @ '' '' @ [CHR 0xEC, CHR 0x8B, CHR 0x9C, CHR 0xEA, CHR 0xB0, CHR 0x84]"
| "workplace_hours_mode_label HoursInvoiceWorkDays =
     [CHR 0xEC, CHR 0xB2, CHR 0xAD, CHR 0xEA, CHR 0xB5, CHR 0xAC, CHR 0xEC, CHR 0x84, CHR 0x9C] @ '' '' @ [CHR 0xEA, CHR 0xB7, CHR 0xBC, CHR 0xEB, CHR 0xAC, CHR 0xB4, CHR 0xEC, CHR 0x8B, CHR 0x9C, CHR 0xEA, CHR 0xB0, CHR 0x84] @ ''(J'' @ [CHR 0xEC, CHR 0x97, CHR 0xB4] @ '')''"
| "workplace_hours_mode_label HoursInvoiceBaseDays =
     [CHR 0xEC, CHR 0xB2, CHR 0xAD, CHR 0xEA, CHR 0xB5, CHR 0xAC, CHR 0xEC, CHR 0x84, CHR 0x9C] @ '' '' @ [CHR 0xEA, CHR 0xB8, CHR 0xB0, CHR 0xEC, CHR 0xA4, CHR 0x80, CHR 0xEC, CHR 0x8B, CHR 0x9C, CHR 0xEA, CHR 0xB0, CHR 0x84] @ ''(I'' @ [CHR 0xEC, CHR 0x97, CHR 0xB4] @ '')''"
| "workplace_hours_mode_label HoursWorkOrFixed =
     [CHR 0xEA, CHR 0xB7, CHR 0xBC, CHR 0xEB, CHR 0xAC, CHR 0xB4, CHR 0xEC, CHR 0x8B, CHR 0x9C, CHR 0xEA, CHR 0xB0, CHR 0x84] @ '' '' @ [CHR 0xEC, CHR 0x9A, CHR 0xB0, CHR 0xEC, CHR 0x84, CHR 0xA0] @ '' ('' @ [CHR 0xEC, CHR 0x97, CHR 0x86, CHR 0xEC, CHR 0x9C, CHR 0xBC, CHR 0xEB, CHR 0xA9, CHR 0xB4] @ '' '' @ [CHR 0xEA, CHR 0xB3, CHR 0xA0, CHR 0xEC, CHR 0xA0, CHR 0x95] @ '')''"
| "workplace_hours_mode_label HoursBaseOrFixed =
     [CHR 0xEA, CHR 0xB8, CHR 0xB0, CHR 0xEC, CHR 0xA4, CHR 0x80, CHR 0xEC, CHR 0x8B, CHR 0x9C, CHR 0xEA, CHR 0xB0, CHR 0x84] @ '' '' @ [CHR 0xEC, CHR 0x9A, CHR 0xB0, CHR 0xEC, CHR 0x84, CHR 0xA0] @ '' ('' @ [CHR 0xEC, CHR 0x97, CHR 0x86, CHR 0xEC, CHR 0x9C, CHR 0xBC, CHR 0xEB, CHR 0xA9, CHR 0xB4] @ '' '' @ [CHR 0xEA, CHR 0xB3, CHR 0xA0, CHR 0xEC, CHR 0xA0, CHR 0x95] @ '')''"

record workplace_hours_policy =
  whp_mode :: workplace_hours_mode
  whp_hours :: f64
  whp_daily_hours :: "f64 option"
  whp_break_minutes :: "f64 option"

definition workplace_hours_policy_default :: workplace_hours_policy where
  "workplace_hours_policy_default =
     \<lparr>whp_mode = HoursFixed, whp_hours = workplace_standard_hours, whp_daily_hours = None,
      whp_break_minutes = None\<rparr>"

definition whp_normalized :: "workplace_hours_policy \<Rightarrow> workplace_hours_policy" where
  "whp_normalized p =
     (let hours = (if is_finite (whp_hours p) \<and> whp_hours p > 0 then whp_hours p
                   else workplace_standard_hours) in
      \<lparr>whp_mode = whp_mode p,
       whp_hours = round_decimal_places hours 4,
       whp_daily_hours = map_option (\<lambda>h. round_decimal_places h 4)
         (opt_filter (\<lambda>h. is_finite h \<and> h > 0) (whp_daily_hours p)),
       whp_break_minutes = map_option (\<lambda>m. round_decimal_places m 2)
         (opt_filter (\<lambda>m. is_finite m \<and> m \<ge> 0) (whp_break_minutes p))\<rparr>)"

definition whp_with_mode :: "workplace_hours_mode \<Rightarrow> workplace_hours_policy \<Rightarrow> workplace_hours_policy" where
  "whp_with_mode mode i = i\<lparr>whp_mode := mode\<rparr>"

definition whp_with_mode_text :: "string \<Rightarrow> workplace_hours_policy \<Rightarrow> workplace_hours_policy" where
  "whp_with_mode_text mode i = i\<lparr>whp_mode := workplace_hours_mode_normalize mode\<rparr>"

definition whp_with_hours :: "f64 \<Rightarrow> workplace_hours_policy \<Rightarrow> workplace_hours_policy" where
  "whp_with_hours hours i = i\<lparr>whp_hours := hours\<rparr>"

definition whp_with_daily_hours :: "f64 \<Rightarrow> workplace_hours_policy \<Rightarrow> workplace_hours_policy" where
  "whp_with_daily_hours daily_hours i = i\<lparr>whp_daily_hours := Some daily_hours\<rparr>"

definition whp_with_break_minutes :: "f64 \<Rightarrow> workplace_hours_policy \<Rightarrow> workplace_hours_policy" where
  "whp_with_break_minutes break_minutes i = i\<lparr>whp_break_minutes := Some break_minutes\<rparr>"

section \<open>Resolution\<close>

record workplace_hours_invoice =
  whi_workplace :: string
  whi_work_days :: f64
  whi_base_days :: f64
  whi_monthly_work_hours :: "f64 option"
  whi_monthly_hours_source :: string

definition whi_with_workplace :: "string \<Rightarrow> workplace_hours_invoice \<Rightarrow> workplace_hours_invoice" where
  "whi_with_workplace workplace i = i\<lparr>whi_workplace := trim workplace\<rparr>"

definition whi_with_work_days :: "f64 \<Rightarrow> workplace_hours_invoice \<Rightarrow> workplace_hours_invoice" where
  "whi_with_work_days hours i = i\<lparr>whi_work_days := hours\<rparr>"

definition whi_with_base_days :: "f64 \<Rightarrow> workplace_hours_invoice \<Rightarrow> workplace_hours_invoice" where
  "whi_with_base_days hours i = i\<lparr>whi_base_days := hours\<rparr>"

record workplace_monthly_hours_resolution =
  wmr_hours :: f64
  wmr_source :: string
  wmr_workplace :: string
  wmr_policy :: workplace_hours_policy

record workplace_monthly_hours_application =
  wma_hours :: f64
  wma_source :: string
  wma_invoice :: workplace_hours_invoice
  wma_policy :: workplace_hours_policy

definition positive_invoice_hours :: "f64 \<Rightarrow> f64" where
  "positive_invoice_hours hours = (if is_finite hours then f64_max hours 0 else 0)"

definition fixed_hours_text :: "f64 \<Rightarrow> string" where
  "fixed_hours_text hours = [CHR 0xEA, CHR 0xB3, CHR 0xA0, CHR 0xEC, CHR 0xA0, CHR 0x95] @ '' '' @ display_f64 hours @ [CHR 0xEC, CHR 0x8B, CHR 0x9C, CHR 0xEA, CHR 0xB0, CHR 0x84]"

definition hours_and_detail :: "workplace_hours_mode \<Rightarrow> f64 \<Rightarrow> f64 \<Rightarrow> f64 \<Rightarrow> f64 \<times> string" where
  "hours_and_detail mode fixed_hours work_hours base_hours =
     (case mode of
        HoursFixed \<Rightarrow> (fixed_hours, fixed_hours_text fixed_hours)
      | HoursInvoiceWorkDays \<Rightarrow>
          (if work_hours > 0 then (work_hours, [CHR 0xEC, CHR 0xB2, CHR 0xAD, CHR 0xEA, CHR 0xB5, CHR 0xAC, CHR 0xEC, CHR 0x84, CHR 0x9C] @ '' '' @ [CHR 0xEA, CHR 0xB7, CHR 0xBC, CHR 0xEB, CHR 0xAC, CHR 0xB4, CHR 0xEC, CHR 0x8B, CHR 0x9C, CHR 0xEA, CHR 0xB0, CHR 0x84])
           else (fixed_hours, fixed_hours_text fixed_hours @ ''('' @ [CHR 0xEA, CHR 0xB7, CHR 0xBC, CHR 0xEB, CHR 0xAC, CHR 0xB4, CHR 0xEC, CHR 0x8B, CHR 0x9C, CHR 0xEA, CHR 0xB0, CHR 0x84] @ '' '' @ [CHR 0xEC, CHR 0x97, CHR 0x86, CHR 0xEC, CHR 0x9D, CHR 0x8C] @ '')''))
      | HoursInvoiceBaseDays \<Rightarrow>
          (if base_hours > 0 then (base_hours, [CHR 0xEC, CHR 0xB2, CHR 0xAD, CHR 0xEA, CHR 0xB5, CHR 0xAC, CHR 0xEC, CHR 0x84, CHR 0x9C] @ '' '' @ [CHR 0xEA, CHR 0xB8, CHR 0xB0, CHR 0xEC, CHR 0xA4, CHR 0x80, CHR 0xEC, CHR 0x8B, CHR 0x9C, CHR 0xEA, CHR 0xB0, CHR 0x84])
           else (fixed_hours, fixed_hours_text fixed_hours @ ''('' @ [CHR 0xEA, CHR 0xB8, CHR 0xB0, CHR 0xEC, CHR 0xA4, CHR 0x80, CHR 0xEC, CHR 0x8B, CHR 0x9C, CHR 0xEA, CHR 0xB0, CHR 0x84] @ '' '' @ [CHR 0xEC, CHR 0x97, CHR 0x86, CHR 0xEC, CHR 0x9D, CHR 0x8C] @ '')''))
      | HoursWorkOrFixed \<Rightarrow>
          (if work_hours > 0 then (work_hours, [CHR 0xEC, CHR 0xB2, CHR 0xAD, CHR 0xEA, CHR 0xB5, CHR 0xAC, CHR 0xEC, CHR 0x84, CHR 0x9C] @ '' '' @ [CHR 0xEA, CHR 0xB7, CHR 0xBC, CHR 0xEB, CHR 0xAC, CHR 0xB4, CHR 0xEC, CHR 0x8B, CHR 0x9C, CHR 0xEA, CHR 0xB0, CHR 0x84] @ '' '' @ display_f64 work_hours)
           else (fixed_hours, fixed_hours_text fixed_hours))
      | HoursBaseOrFixed \<Rightarrow>
          (if base_hours > 0 then (base_hours, [CHR 0xEC, CHR 0xB2, CHR 0xAD, CHR 0xEA, CHR 0xB5, CHR 0xAC, CHR 0xEC, CHR 0x84, CHR 0x9C] @ '' '' @ [CHR 0xEA, CHR 0xB8, CHR 0xB0, CHR 0xEC, CHR 0xA4, CHR 0x80, CHR 0xEC, CHR 0x8B, CHR 0x9C, CHR 0xEA, CHR 0xB0, CHR 0x84] @ '' '' @ display_f64 base_hours)
           else (fixed_hours, fixed_hours_text fixed_hours)))"

definition resolve_monthly_work_hours ::
    "workplace_hours_invoice \<Rightarrow> string \<Rightarrow> workplace_hours_policy \<Rightarrow> workplace_monthly_hours_resolution" where
  "resolve_monthly_work_hours invoice workplace policy =
     (let policy = whp_normalized policy;
          workplace = trim workplace;
          workplace_label = (if workplace = [] then ''('' @ [CHR 0xEA, CHR 0xB8, CHR 0xB0, CHR 0xEB, CHR 0xB3, CHR 0xB8] @ '')'' else workplace);
          (hours, detail) = hours_and_detail (whp_mode policy) (whp_hours policy)
            (positive_invoice_hours (whi_work_days invoice))
            (positive_invoice_hours (whi_base_days invoice)) in
      \<lparr>wmr_hours = hours, wmr_source = workplace_label @ '': '' @ detail, wmr_workplace = workplace,
       wmr_policy = policy\<rparr>)"

definition apply_monthly_hours_to_invoice ::
    "workplace_hours_invoice \<Rightarrow> string \<Rightarrow> workplace_hours_policy \<Rightarrow> workplace_monthly_hours_application" where
  "apply_monthly_hours_to_invoice invoice workplace policy =
     (let resolution = resolve_monthly_work_hours invoice workplace policy in
      \<lparr>wma_hours = wmr_hours resolution, wma_source = wmr_source resolution,
       wma_invoice = invoice\<lparr>whi_monthly_work_hours := Some (wmr_hours resolution),
                             whi_monthly_hours_source := wmr_source resolution\<rparr>,
       wma_policy = wmr_policy resolution\<rparr>)"

section \<open>Properties\<close>

text \<open>The hours of the invoice that a mode reads.\<close>

fun mode_invoice_hours :: "workplace_hours_mode \<Rightarrow> workplace_hours_invoice \<Rightarrow> f64" where
  "mode_invoice_hours HoursFixed invoice = 0"
| "mode_invoice_hours HoursInvoiceWorkDays invoice = whi_work_days invoice"
| "mode_invoice_hours HoursWorkOrFixed invoice = whi_work_days invoice"
| "mode_invoice_hours HoursInvoiceBaseDays invoice = whi_base_days invoice"
| "mode_invoice_hours HoursBaseOrFixed invoice = whi_base_days invoice"

lemma mode_roundtrip: "workplace_hours_mode_normalize (workplace_hours_mode_as_str mode) = mode"
  by (cases mode; simp only:; code_simp)

lemma positive_hours_cases:
  "positive_invoice_hours h > 0 \<longleftrightarrow> is_finite h \<and> h > 0"
  "is_finite h \<Longrightarrow> h > 0 \<Longrightarrow> positive_invoice_hours h = h"
  by (cases h; auto simp: positive_invoice_hours_def zero_f64_def)+

lemma zero_less_zero: "\<not> (0::f64) < 0"
  by (simp add: zero_f64_def)

lemma round_4_whole: "\<bar>n\<bar> \<le> 10 ^ 9 \<Longrightarrow> round_decimal_places (Fin (of_int n)) 4 = Fin (of_int n)"
proof -
  assume n: "\<bar>n\<bar> \<le> 10 ^ 9"
  have b: "\<bar>of_int n * 10 ^ 4 :: rat\<bar> \<le> 2 ^ 52"
  proof -
    have "\<bar>of_int n :: rat\<bar> \<le> of_int (10 ^ 9)" using n by (simp only: of_int_abs[symmetric] of_int_le_iff)
    then show ?thesis by (simp add: abs_mult)
  qed
  have e: "(of_int n * 10 ^ 4 :: rat) = of_int (n * 10000)" by simp
  have m: "\<bar>n * 10000\<bar> \<le> 2 ^ 53" "\<bar>n\<bar> \<le> 2 ^ 53" using n by (simp_all add: abs_mult)
  have "rnd_val (of_int n * 10 ^ 4) = of_int n * 10 ^ 4"
    unfolding e by (rule rnd_val_int[OF m(1)])
  then have w: "whole_of (rnd_val (of_int n * 10 ^ 4)) = n * 10000"
    unfolding e by (simp only: rnd_val_int[OF m(1)] whole_of_int)
  have q: "of_int (n * 10000) / 10 ^ 4 = (of_int n :: rat)" by simp
  show ?thesis
    unfolding round_decimal_places_Fin[OF b, simplified] w[simplified]
    using rnd_val_int[OF m(2)] w by simp
qed

lemma round_4_at_least:
  assumes "of_int n \<le> r" "r \<le> 10 ^ 9" "0 \<le> n"
  shows "Fin (of_int n) \<le> round_decimal_places (Fin r) 4" and "is_finite (round_decimal_places (Fin r) 4)"
proof -
  have n: "of_int n \<le> (10 ^ 9 :: rat)" using assms by linarith
  then have n': "n \<le> 10 ^ 9" by (metis of_int_le_iff of_int_numeral of_int_power)
  have r: "\<bar>r * 10 ^ 4\<bar> \<le> 2 ^ 52" "\<bar>of_int n * 10 ^ 4 :: rat\<bar> \<le> 2 ^ 52"
    using assms n by (simp_all add: abs_mult)
  from round_decimal_places_mono[OF assms(1) r(2) r(1)] round_4_whole[of n] n' assms(3)
  show "Fin (of_int n) \<le> round_decimal_places (Fin r) 4" by simp
  show "is_finite (round_decimal_places (Fin r) 4)"
    by (simp add: round_decimal_places_Fin[OF r(1)])
qed

lemma normalized_hours_positive:
  assumes "\<forall>r. whp_hours p = Fin r \<and> 0 < r \<longrightarrow> 1 \<le> r \<and> r \<le> 10 ^ 9"
  shows "is_finite (whp_hours (whp_normalized p)) \<and> Fin 1 \<le> whp_hours (whp_normalized p)"
proof -
  have std: "workplace_standard_hours = Fin 209"
    using rnd_of_int[of 209] by (simp add: workplace_standard_hours_def lit_def)
  have one: "Fin (of_int 1) = Fin 1" by simp
  define hours where "hours = (if is_finite (whp_hours p) \<and> whp_hours p > 0 then whp_hours p
                   else workplace_standard_hours)"
  obtain r where r: "hours = Fin r" "1 \<le> r" "r \<le> 10 ^ 9"
  proof (cases "is_finite (whp_hours p) \<and> whp_hours p > 0")
    case True
    then obtain r where "whp_hours p = Fin r" "0 < r"
      by (cases "whp_hours p") (auto simp: zero_f64_def)
    with assms True that[of r] show ?thesis by (simp add: hours_def)
  next
    case False
    then show ?thesis using that[of 209] by (simp only: hours_def std if_False) simp
  qed
  have "of_int 1 \<le> r" using r(2) by simp
  from round_4_at_least[OF this r(3)] show ?thesis
    by (simp add: whp_normalized_def Let_def hours_def[symmetric] r(1))
qed

text \<open>
  The monthly hours are the positive, finite hours of the invoice that the mode reads, and
  otherwise the hours of the policy, rounded; they are finite and positive unless the policy's
  hours are below one hour or absurdly large, and applying them changes nothing else in the
  invoice.
\<close>

theorem monthly_hours_choice:
  assumes "\<forall>r. whp_hours policy = Fin r \<and> 0 < r \<longrightarrow> 1 \<le> r \<and> r \<le> 10 ^ 9"
  shows "(let application = apply_monthly_hours_to_invoice invoice workplace policy;
              given = mode_invoice_hours (whp_mode policy) invoice in
      wma_hours application
        = (if is_finite given \<and> given > 0 then given else whp_hours (whp_normalized policy))
    \<and> is_finite (wma_hours application) \<and> wma_hours application > 0
    \<and> whi_monthly_work_hours (wma_invoice application) = Some (wma_hours application)
    \<and> whi_monthly_hours_source (wma_invoice application) = wma_source application
    \<and> whi_work_days (wma_invoice application) = whi_work_days invoice
    \<and> whi_base_days (wma_invoice application) = whi_base_days invoice
    \<and> whi_workplace (wma_invoice application) = whi_workplace invoice)"
proof -
  let ?given = "mode_invoice_hours (whp_mode policy) invoice"
  have mode: "whp_mode (whp_normalized policy) = whp_mode policy"
    by (simp add: whp_normalized_def Let_def)
  have hours: "wmr_hours (resolve_monthly_work_hours invoice workplace policy)
      = (if is_finite ?given \<and> ?given > 0 then ?given else whp_hours (whp_normalized policy))"
    by (cases "whp_mode policy")
      (simp_all add: resolve_monthly_work_hours_def hours_and_detail_def mode positive_hours_cases
        zero_less_zero Let_def)
  have pos: "is_finite (whp_hours (whp_normalized policy)) \<and> whp_hours (whp_normalized policy) > 0"
    using normalized_hours_positive[OF assms]
    by (cases "whp_hours (whp_normalized policy)") (auto simp: zero_f64_def)
  show ?thesis
    using pos by (simp add: apply_monthly_hours_to_invoice_def hours Let_def)
qed

theorem monthly_hours_choice_witness:
  "\<exists>application. apply_monthly_hours_to_invoice
      \<lparr>whi_workplace = ''A'', whi_work_days = Fin 0, whi_base_days = Fin 160,
       whi_monthly_work_hours = None, whi_monthly_hours_source = []\<rparr> ''A''
      (whp_with_mode HoursBaseOrFixed workplace_hours_policy_default) = application
    \<and> wma_hours application = Fin 160"
proof -
  let ?i = "\<lparr>whi_workplace = ''A'', whi_work_days = Fin 0, whi_base_days = Fin 160,
       whi_monthly_work_hours = None, whi_monthly_hours_source = []\<rparr>"
  let ?p = "whp_with_mode HoursBaseOrFixed workplace_hours_policy_default"
  have std: "workplace_standard_hours = Fin 209"
    using rnd_of_int[of 209] by (simp add: workplace_standard_hours_def lit_def)
  have "\<forall>r. whp_hours ?p = Fin r \<and> 0 < r \<longrightarrow> 1 \<le> r \<and> r \<le> 10 ^ 9"
    by (simp add: whp_with_mode_def workplace_hours_policy_default_def std)
  from monthly_hours_choice[OF this, of ?i "''A''"] show ?thesis
    by (simp add: Let_def whp_with_mode_def workplace_hours_policy_default_def zero_f64_def)
qed

text \<open>
  Hours that round to zero pass the positivity test before the rounding: the normalised policy
  has no hours, and normalising it again gives the standard hours.
\<close>

theorem tiny_hours_vanish:
  "whp_hours (whp_normalized (whp_with_hours (Fin (1 / 2 ^ 15)) workplace_hours_policy_default)) = Fin 0
   \<and> whp_hours (whp_normalized (whp_normalized
        (whp_with_hours (Fin (1 / 2 ^ 15)) workplace_hours_policy_default))) = Fin 209"
proof -
  have std: "workplace_standard_hours = Fin (of_int 209)"
    using rnd_of_int[of 209] by (simp add: workplace_standard_hours_def lit_def)
  have e: "rnd_val (625 / 2048) = 625 / 2048"
    using rnd_val_dyadic[of 625 "- 11"] by simp
  have fl: "\<lfloor>625 / 2048 :: rat\<rfloor> = 0" by (rule floor_unique) simp_all
  have w: "whole_of (rnd_val (625 / 2048)) = 0"
    by (simp only: e whole_of_def fl Let_def of_int_0 diff_zero) simp
  have tiny: "round_decimal_places (Fin (1 / 2 ^ 15)) 4 = Fin 0"
    using round_decimal_places_Fin[of "1 / 2 ^ 15" 4] w by simp
  have first: "whp_hours (whp_normalized (whp_with_hours (Fin (1 / 2 ^ 15)) workplace_hours_policy_default)) = Fin 0"
    using tiny by (simp add: whp_normalized_def whp_with_hours_def zero_f64_def Let_def)
  have "whp_hours p = Fin 0 \<Longrightarrow> whp_hours (whp_normalized p) = Fin 209" for p
    using round_4_whole[of 209] by (simp add: whp_normalized_def zero_f64_def std Let_def)
  with first show ?thesis by blast
qed

end
