(* ===== verification/Fixed_Hours.thy ===== *)
theory Fixed_Hours
  imports F64_Text Rounding
begin

text \<open>
  Contracted fixed hours applied to an invoice: \<open>crates/payroll-api/src/fixed_hours.rs\<close>.  Its
  rounding functions are those of the theory Rounding.
\<close>

section \<open>Pay types and profiles\<close>

definition fixed_standard_monthly_hours :: f64 where
  "fixed_standard_monthly_hours = lit 209"

definition fixed_hours_source_contract :: string where
  "fixed_hours_source_contract =
     [CHR 0xEA, CHR 0xB7, CHR 0xBC, CHR 0xEB, CHR 0xA1, CHR 0x9C, CHR 0xEA, CHR 0xB3, CHR 0x84, CHR 0xEC, CHR 0x95, CHR 0xBD, CHR 0xEC, CHR 0x84, CHR 0x9C] @ '' '' @ [CHR 0xEA, CHR 0xB8, CHR 0xB0, CHR 0xEC, CHR 0xA4, CHR 0x80] @ '' '' @ [CHR 0xEA, CHR 0xB3, CHR 0xA0, CHR 0xEC, CHR 0xA0, CHR 0x95]"

definition fixed_hours_source_template :: string where
  "fixed_hours_source_template =
     [CHR 0xEC, CHR 0x82, CHR 0xAC, CHR 0xEC, CHR 0x97, CHR 0x85, CHR 0xEC, CHR 0x9E, CHR 0xA5] @ '' '' @ [CHR 0xEC, CHR 0xA7, CHR 0x81, CHR 0xEA, CHR 0xB5, CHR 0xB0] @ '' '' @ [CHR 0xED, CHR 0x85, CHR 0x9C, CHR 0xED, CHR 0x94, CHR 0x8C, CHR 0xEB, CHR 0xA6, CHR 0xBF]"

datatype fixed_hours_pay_type = PayHourly | PayMonthlySalary

definition fixed_hours_pay_type_normalize :: "string \<Rightarrow> fixed_hours_pay_type" where
  "fixed_hours_pay_type_normalize value =
     (let text = remove_char (CHR '' '') (trim value) in
      if text = [] then PayHourly
      else if contains_str ([CHR 0xEC, CHR 0x97, CHR 0xB0, CHR 0xEB, CHR 0xB4, CHR 0x89]) text
              \<or> text \<in> set [''monthly_salary'', ''monthly'', ''salary'']
      then PayMonthlySalary
      else PayHourly)"

fun fixed_hours_pay_type_as_str :: "fixed_hours_pay_type \<Rightarrow> string" where
  "fixed_hours_pay_type_as_str PayHourly = ''hourly''"
| "fixed_hours_pay_type_as_str PayMonthlySalary = ''monthly_salary''"

fun fixed_hours_pay_type_label :: "fixed_hours_pay_type \<Rightarrow> string" where
  "fixed_hours_pay_type_label PayHourly = [CHR 0xEC, CHR 0x8B, CHR 0x9C, CHR 0xEA, CHR 0xB8, CHR 0x89]"
| "fixed_hours_pay_type_label PayMonthlySalary = [CHR 0xEC, CHR 0x97, CHR 0xB0, CHR 0xEB, CHR 0xB4, CHR 0x89, CHR 0xEC, CHR 0xA7, CHR 0x81]"

record fixed_hours_profile =
  fhp_fixed_hours_mode :: bool
  fhp_monthly_fixed_hours :: f64
  fhp_daily_fixed_hours :: f64
  fhp_fixed_overtime_hours :: f64
  fhp_fixed_extension_hours :: f64
  fhp_pay_type :: fixed_hours_pay_type
  fhp_job_group :: string
  fhp_source :: string
  fhp_source_label :: string
  fhp_contract_id :: string

definition fixed_hours_profile_default :: fixed_hours_profile where
  "fixed_hours_profile_default =
     \<lparr>fhp_fixed_hours_mode = False, fhp_monthly_fixed_hours = fixed_standard_monthly_hours,
      fhp_daily_fixed_hours = 0, fhp_fixed_overtime_hours = 0, fhp_fixed_extension_hours = 0,
      fhp_pay_type = PayHourly, fhp_job_group = [], fhp_source = [], fhp_source_label = [],
      fhp_contract_id = []\<rparr>"

definition fhp_active :: fixed_hours_profile where
  "fhp_active = fixed_hours_profile_default\<lparr>fhp_fixed_hours_mode := True\<rparr>"

definition fhp_normalized :: "fixed_hours_profile \<Rightarrow> fixed_hours_profile" where
  "fhp_normalized p =
     (let daily = fhp_daily_fixed_hours p;
          monthly = (if fhp_monthly_fixed_hours p \<le> 0 \<and> daily > 0 then daily * lit 26
                     else fhp_monthly_fixed_hours p);
          monthly = (if monthly \<le> 0 then fixed_standard_monthly_hours else monthly) in
      \<lparr>fhp_fixed_hours_mode = fhp_fixed_hours_mode p,
       fhp_monthly_fixed_hours = round_decimal_places monthly 4,
       fhp_daily_fixed_hours = (if daily > 0 then round_decimal_places daily 4 else 0),
       fhp_fixed_overtime_hours = f64_max (fhp_fixed_overtime_hours p) 0,
       fhp_fixed_extension_hours = f64_max (fhp_fixed_extension_hours p) 0,
       fhp_pay_type = fhp_pay_type p,
       fhp_job_group = trim (fhp_job_group p),
       fhp_source = trim (fhp_source p),
       fhp_source_label = trim (fhp_source_label p),
       fhp_contract_id = trim (fhp_contract_id p)\<rparr>)"

definition fhp_with_monthly_fixed_hours :: "f64 \<Rightarrow> fixed_hours_profile \<Rightarrow> fixed_hours_profile" where
  "fhp_with_monthly_fixed_hours hours i = i\<lparr>fhp_monthly_fixed_hours := hours\<rparr>"

definition fhp_with_daily_fixed_hours :: "f64 \<Rightarrow> fixed_hours_profile \<Rightarrow> fixed_hours_profile" where
  "fhp_with_daily_fixed_hours hours i = i\<lparr>fhp_daily_fixed_hours := hours\<rparr>"

definition fhp_with_fixed_overtime_hours :: "f64 \<Rightarrow> fixed_hours_profile \<Rightarrow> fixed_hours_profile" where
  "fhp_with_fixed_overtime_hours hours i = i\<lparr>fhp_fixed_overtime_hours := hours\<rparr>"

definition fhp_with_fixed_extension_hours :: "f64 \<Rightarrow> fixed_hours_profile \<Rightarrow> fixed_hours_profile" where
  "fhp_with_fixed_extension_hours hours i = i\<lparr>fhp_fixed_extension_hours := hours\<rparr>"

definition fhp_with_pay_type :: "fixed_hours_pay_type \<Rightarrow> fixed_hours_profile \<Rightarrow> fixed_hours_profile" where
  "fhp_with_pay_type pay_type i = i\<lparr>fhp_pay_type := pay_type\<rparr>"

definition fhp_with_job_group :: "string \<Rightarrow> fixed_hours_profile \<Rightarrow> fixed_hours_profile" where
  "fhp_with_job_group job_group i = i\<lparr>fhp_job_group := job_group\<rparr>"

definition fhp_with_source :: "string \<Rightarrow> fixed_hours_profile \<Rightarrow> fixed_hours_profile" where
  "fhp_with_source source i = i\<lparr>fhp_source := source\<rparr>"

definition fhp_with_source_label :: "string \<Rightarrow> fixed_hours_profile \<Rightarrow> fixed_hours_profile" where
  "fhp_with_source_label source_label i = i\<lparr>fhp_source_label := source_label\<rparr>"

definition fhp_with_contract_id :: "string \<Rightarrow> fixed_hours_profile \<Rightarrow> fixed_hours_profile" where
  "fhp_with_contract_id contract_id i = i\<lparr>fhp_contract_id := contract_id\<rparr>"

section \<open>Invoices\<close>

record fixed_hours_invoice =
  fhi_name :: string
  fhi_workplace :: string
  fhi_work_days :: f64
  fhi_base_days :: f64
  fhi_ot_hours :: f64
  fhi_special_hours :: f64
  fhi_special_ext_hours :: f64
  fhi_invoice_work_days :: "f64 option"
  fhi_invoice_base_days :: "f64 option"
  fhi_invoice_ot_hours :: "f64 option"
  fhi_invoice_special_hours :: "f64 option"
  fhi_invoice_special_ext_hours :: "f64 option"
  fhi_monthly_work_hours :: "f64 option"
  fhi_monthly_hours_source :: string
  fhi_fixed_hours_mode :: bool
  fhi_fixed_hours_source :: string
  fhi_fixed_hours_pay_type :: string
  fhi_fixed_hours_job_group :: string
  fhi_preserve_reference_hours :: bool

definition fixed_hours_invoice_new :: "string \<Rightarrow> fixed_hours_invoice" where
  "fixed_hours_invoice_new name =
     \<lparr>fhi_name = trim name, fhi_workplace = [],
      fhi_work_days = 0, fhi_base_days = 0,
      fhi_ot_hours = 0, fhi_special_hours = 0,
      fhi_special_ext_hours = 0, fhi_invoice_work_days = None,
      fhi_invoice_base_days = None, fhi_invoice_ot_hours = None,
      fhi_invoice_special_hours = None, fhi_invoice_special_ext_hours = None,
      fhi_monthly_work_hours = None, fhi_monthly_hours_source = [],
      fhi_fixed_hours_mode = False, fhi_fixed_hours_source = [],
      fhi_fixed_hours_pay_type = [], fhi_fixed_hours_job_group = [],
      fhi_preserve_reference_hours = False\<rparr>"

definition fhi_with_workplace :: "string \<Rightarrow> fixed_hours_invoice \<Rightarrow> fixed_hours_invoice" where
  "fhi_with_workplace workplace i = i\<lparr>fhi_workplace := trim workplace\<rparr>"

definition fhi_with_work_days :: "f64 \<Rightarrow> fixed_hours_invoice \<Rightarrow> fixed_hours_invoice" where
  "fhi_with_work_days hours i = i\<lparr>fhi_work_days := hours\<rparr>"

definition fhi_with_base_days :: "f64 \<Rightarrow> fixed_hours_invoice \<Rightarrow> fixed_hours_invoice" where
  "fhi_with_base_days hours i = i\<lparr>fhi_base_days := hours\<rparr>"

definition fhi_with_ot_hours :: "f64 \<Rightarrow> fixed_hours_invoice \<Rightarrow> fixed_hours_invoice" where
  "fhi_with_ot_hours hours i = i\<lparr>fhi_ot_hours := hours\<rparr>"

definition fhi_with_special_hours :: "f64 \<Rightarrow> fixed_hours_invoice \<Rightarrow> fixed_hours_invoice" where
  "fhi_with_special_hours hours i = i\<lparr>fhi_special_hours := hours\<rparr>"

definition fhi_with_special_ext_hours :: "f64 \<Rightarrow> fixed_hours_invoice \<Rightarrow> fixed_hours_invoice" where
  "fhi_with_special_ext_hours hours i = i\<lparr>fhi_special_ext_hours := hours\<rparr>"

definition fhi_with_preserve_reference_hours :: "bool \<Rightarrow> fixed_hours_invoice \<Rightarrow> fixed_hours_invoice" where
  "fhi_with_preserve_reference_hours preserve i = i\<lparr>fhi_preserve_reference_hours := preserve\<rparr>"

record fixed_hours_application =
  fha_applied :: bool
  fha_invoice :: fixed_hours_invoice
  fha_profile :: fixed_hours_profile
  fha_audit_flags :: "string list"

definition preserve_invoice_values :: "fixed_hours_invoice \<Rightarrow> fixed_hours_invoice" where
  "preserve_invoice_values invoice =
     invoice
       \<lparr>fhi_invoice_work_days := opt_or (fhi_invoice_work_days invoice) (Some (fhi_work_days invoice)),
        fhi_invoice_base_days := opt_or (fhi_invoice_base_days invoice) (Some (fhi_base_days invoice)),
        fhi_invoice_ot_hours := opt_or (fhi_invoice_ot_hours invoice) (Some (fhi_ot_hours invoice)),
        fhi_invoice_special_hours :=
          opt_or (fhi_invoice_special_hours invoice) (Some (fhi_special_hours invoice)),
        fhi_invoice_special_ext_hours :=
          opt_or (fhi_invoice_special_ext_hours invoice) (Some (fhi_special_ext_hours invoice))\<rparr>"

definition source_label :: "fixed_hours_profile \<Rightarrow> string" where
  "source_label profile =
     (if fhp_source_label profile = [] then fixed_hours_source_contract else fhp_source_label profile)"

definition format_number :: "f64 \<Rightarrow> string" where
  "format_number value =
     (let rounded = round_decimal_places value 4 in
      if f64_abs (rounded - f64_round rounded) < lit (1 / 10 ^ 9)
      then show_int (to_i64 (f64_round rounded))
      else
        let text = display_fixed 4 rounded;
            text = (if CHR ''.'' \<in> set text then rev (dropWhile (\<lambda>c. c = CHR ''0'') (rev text)) else text) in
        if text \<noteq> [] \<and> last text = CHR ''.'' then butlast text else text)"

section \<open>Audit and application\<close>

text \<open>The message of one disagreement between the invoice and the contract.\<close>

definition hours_mismatch :: "string \<Rightarrow> f64 \<Rightarrow> string \<Rightarrow> f64 \<Rightarrow> string" where
  "hours_mismatch given invoice_hours agreed fixed_hours =
     given @ format_number invoice_hours @ ''h) '' @ [CHR 0xE2, CHR 0x89, CHR 0xA0] @ '' '' @ agreed @ format_number fixed_hours @ ''h)''"

definition fixed_hours_audit_flags :: "fixed_hours_invoice \<Rightarrow> fixed_hours_profile \<Rightarrow> string list" where
  "fixed_hours_audit_flags invoice profile =
     (let profile = fhp_normalized profile in
      if \<not> fhp_fixed_hours_mode profile \<or> \<not> fhi_fixed_hours_mode invoice then []
      else
        let job_group = (if fhp_job_group profile = [] then trim (fhi_fixed_hours_job_group invoice)
                         else fhp_job_group profile);
            label = source_label profile;
            first = (if job_group \<noteq> [] then label @ '' ('' @ job_group @ '')'' else label);
            invoice_ot = unwrap_or (fhi_ot_hours invoice) (fhi_invoice_ot_hours invoice);
            invoice_special = unwrap_or (fhi_special_hours invoice) (fhi_invoice_special_hours invoice);
            fixed_ot = fhp_fixed_extension_hours profile;
            fixed_special = fhp_fixed_overtime_hours profile;
            invoice_work = unwrap_or 0 (fhi_invoice_work_days invoice);
            monthly = fhp_monthly_fixed_hours profile in
        [first, [CHR 0xEA, CHR 0xB8, CHR 0x89, CHR 0xEC, CHR 0x97, CHR 0xAC, CHR 0xED, CHR 0x98, CHR 0x95, CHR 0xED, CHR 0x83, CHR 0x9C] @ '': '' @ fixed_hours_pay_type_label (fhp_pay_type profile)]
        @ (if fixed_ot > 0 \<and> invoice_ot > 0 \<and> f64_abs (invoice_ot - fixed_ot) > lit (1 / 100)
           then [hours_mismatch ([CHR 0xEC, CHR 0xB2, CHR 0xAD, CHR 0xEA, CHR 0xB5, CHR 0xAC, CHR 0xEC, CHR 0x84, CHR 0x9C] @ '' '' @ [CHR 0xEC, CHR 0x97, CHR 0xB0, CHR 0xEC, CHR 0x9E, CHR 0xA5] @ ''('') invoice_ot ([CHR 0xEA, CHR 0xB3, CHR 0x84, CHR 0xEC, CHR 0x95, CHR 0xBD] @ '' '' @ [CHR 0xEA, CHR 0xB3, CHR 0xA0, CHR 0xEC, CHR 0xA0, CHR 0x95] @ ''('') fixed_ot] else [])
        @ (if fixed_special > 0 \<and> invoice_special > 0
              \<and> f64_abs (invoice_special - fixed_special) > lit (1 / 100)
           then [hours_mismatch ([CHR 0xEC, CHR 0xB2, CHR 0xAD, CHR 0xEA, CHR 0xB5, CHR 0xAC, CHR 0xEC, CHR 0x84, CHR 0x9C] @ '' '' @ [CHR 0xED, CHR 0x8A, CHR 0xB9, CHR 0xEA, CHR 0xB7, CHR 0xBC] @ ''('') invoice_special ([CHR 0xEA, CHR 0xB3, CHR 0x84, CHR 0xEC, CHR 0x95, CHR 0xBD] @ '' '' @ [CHR 0xEA, CHR 0xB3, CHR 0xA0, CHR 0xEC, CHR 0xA0, CHR 0x95] @ ''('') fixed_special] else [])
        @ (if invoice_work > 0 \<and> monthly > 0
              \<and> f64_abs (invoice_work - monthly) > monthly * lit (5 / 100)
           then [hours_mismatch ([CHR 0xEC, CHR 0xB2, CHR 0xAD, CHR 0xEA, CHR 0xB5, CHR 0xAC, CHR 0xEC, CHR 0x84, CHR 0x9C] @ '' '' @ [CHR 0xEA, CHR 0xB7, CHR 0xBC, CHR 0xEB, CHR 0xAC, CHR 0xB4, CHR 0xEC, CHR 0x8B, CHR 0x9C, CHR 0xEA, CHR 0xB0, CHR 0x84] @ ''('') invoice_work ([CHR 0xEA, CHR 0xB3, CHR 0x84, CHR 0xEC, CHR 0x95, CHR 0xBD] @ '' '' @ [CHR 0xEC, CHR 0x9B, CHR 0x94, CHR 0xEC, CHR 0x8B, CHR 0x9C, CHR 0xEA, CHR 0xB0, CHR 0x84] @ ''('') monthly] else []))"

text \<open>What an application assigns, once the monthly hours are known.\<close>

definition set_contract_fields ::
    "fixed_hours_profile \<Rightarrow> f64 \<Rightarrow> string \<Rightarrow> fixed_hours_invoice \<Rightarrow> fixed_hours_invoice" where
  "set_contract_fields profile monthly_hours workplace invoice =
     (let invoice = invoice
            \<lparr>fhi_monthly_work_hours := Some monthly_hours,
             fhi_monthly_hours_source := source_label profile,
             fhi_fixed_hours_mode := True,
             fhi_fixed_hours_source := fhp_source profile,
             fhi_fixed_hours_pay_type := fixed_hours_pay_type_as_str (fhp_pay_type profile),
             fhi_fixed_hours_job_group := fhp_job_group profile,
             fhi_base_days := monthly_hours,
             fhi_work_days := monthly_hours\<rparr>;
          invoice = (if fhp_fixed_extension_hours profile > 0
                     then invoice\<lparr>fhi_ot_hours := fhp_fixed_extension_hours profile\<rparr> else invoice);
          invoice = (if fhp_fixed_overtime_hours profile > 0
                     then invoice\<lparr>fhi_special_hours := fhp_fixed_overtime_hours profile\<rparr> else invoice);
          workplace = trim workplace in
      if workplace \<noteq> [] then invoice\<lparr>fhi_workplace := workplace\<rparr> else invoice)"

definition apply_fixed_hours_to_invoice ::
    "fixed_hours_invoice \<Rightarrow> fixed_hours_profile \<Rightarrow> string \<Rightarrow> fixed_hours_application" where
  "apply_fixed_hours_to_invoice invoice profile workplace =
     (let profile = fhp_normalized profile in
      if \<not> fhp_fixed_hours_mode profile
      then \<lparr>fha_applied = False, fha_invoice = invoice, fha_profile = profile, fha_audit_flags = []\<rparr>
      else
        let invoice = preserve_invoice_values invoice;
            monthly_hours = (if fhp_monthly_fixed_hours profile > 0 then fhp_monthly_fixed_hours profile
                             else fixed_standard_monthly_hours);
            invoice_hours =
              unwrap_or 0 (opt_or (fhi_invoice_work_days invoice) (fhi_invoice_base_days invoice));
            monthly_hours = (if fhi_preserve_reference_hours invoice \<and> invoice_hours > 0
                             then invoice_hours else monthly_hours);
            invoice = set_contract_fields profile monthly_hours workplace invoice in
        \<lparr>fha_applied = True, fha_invoice = invoice, fha_profile = profile,
         fha_audit_flags = fixed_hours_audit_flags invoice profile\<rparr>)"

section \<open>Properties\<close>

lemma pay_type_roundtrip: "fixed_hours_pay_type_normalize (fixed_hours_pay_type_as_str t) = t"
  by (cases t; simp only:; code_simp)

lemma contract_fields_idem:
  "set_contract_fields p m w (set_contract_fields p m w i) = set_contract_fields p m w i"
  by (cases i; cases "fhp_fixed_extension_hours p > 0"; cases "fhp_fixed_overtime_hours p > 0"; cases "trim w = []")
    (simp_all add: set_contract_fields_def Let_def)

lemma contract_fields_frame [simp]:
  "fhi_invoice_work_days (set_contract_fields p m w i) = fhi_invoice_work_days i"
  "fhi_invoice_base_days (set_contract_fields p m w i) = fhi_invoice_base_days i"
  "fhi_invoice_ot_hours (set_contract_fields p m w i) = fhi_invoice_ot_hours i"
  "fhi_invoice_special_hours (set_contract_fields p m w i) = fhi_invoice_special_hours i"
  "fhi_invoice_special_ext_hours (set_contract_fields p m w i) = fhi_invoice_special_ext_hours i"
  "fhi_preserve_reference_hours (set_contract_fields p m w i) = fhi_preserve_reference_hours i"
  "fhi_monthly_work_hours (set_contract_fields p m w i) = Some m"
  "fhi_work_days (set_contract_fields p m w i) = m"
  "fhi_base_days (set_contract_fields p m w i) = m"
  by (simp_all add: set_contract_fields_def Let_def)

lemma preserve_frame [simp]:
  "fhi_invoice_work_days (preserve_invoice_values i) = Some (unwrap_or (fhi_work_days i) (fhi_invoice_work_days i))"
  "fhi_invoice_base_days (preserve_invoice_values i) = Some (unwrap_or (fhi_base_days i) (fhi_invoice_base_days i))"
  "fhi_invoice_ot_hours (preserve_invoice_values i) = Some (unwrap_or (fhi_ot_hours i) (fhi_invoice_ot_hours i))"
  "fhi_invoice_special_hours (preserve_invoice_values i)
     = Some (unwrap_or (fhi_special_hours i) (fhi_invoice_special_hours i))"
  "fhi_invoice_special_ext_hours (preserve_invoice_values i)
     = Some (unwrap_or (fhi_special_ext_hours i) (fhi_invoice_special_ext_hours i))"
  "fhi_preserve_reference_hours (preserve_invoice_values i) = fhi_preserve_reference_hours i"
  by (simp_all add: preserve_invoice_values_def opt_or_def unwrap_or_def split: option.split)

lemma preserved_values:
  assumes "fhi_invoice_work_days i \<noteq> None" "fhi_invoice_base_days i \<noteq> None" "fhi_invoice_ot_hours i \<noteq> None"
    "fhi_invoice_special_hours i \<noteq> None" "fhi_invoice_special_ext_hours i \<noteq> None"
  shows "preserve_invoice_values i = i"
  using assms by (cases i) (auto simp: preserve_invoice_values_def)

lemma applied_mode [simp]:
  "fhp_fixed_hours_mode (fhp_normalized p) = fhp_fixed_hours_mode p"
  by (simp add: fhp_normalized_def Let_def)

text \<open>
  Applying the contracted hours keeps the hours that the invoice gave, once: a second
  application with the same contract and workplace changes nothing, so the originals are never
  overwritten by contracted ones; and without the fixed-hours mode the invoice is untouched.
\<close>

theorem fixed_hours_application:
  "(let result = apply_fixed_hours_to_invoice invoice profile workplace; after = fha_invoice result in
     apply_fixed_hours_to_invoice after profile workplace = result
   \<and> (if fhp_fixed_hours_mode profile
      then fhi_invoice_work_days after = Some (unwrap_or (fhi_work_days invoice) (fhi_invoice_work_days invoice))
         \<and> fhi_invoice_base_days after = Some (unwrap_or (fhi_base_days invoice) (fhi_invoice_base_days invoice))
         \<and> fhi_invoice_ot_hours after = Some (unwrap_or (fhi_ot_hours invoice) (fhi_invoice_ot_hours invoice))
         \<and> fhi_invoice_special_hours after
           = Some (unwrap_or (fhi_special_hours invoice) (fhi_invoice_special_hours invoice))
         \<and> fhi_monthly_work_hours after = Some (fhi_work_days after) \<and> fhi_base_days after = fhi_work_days after
      else after = invoice \<and> fha_audit_flags result = [] \<and> \<not> fha_applied result))"
proof (cases "fhp_fixed_hours_mode profile")
  case False
  then show ?thesis by (simp add: apply_fixed_hours_to_invoice_def Let_def)
next
  case True
  define p where "p = fhp_normalized profile"
  define month where "month = (\<lambda>i :: fixed_hours_invoice. if fhi_preserve_reference_hours i
      \<and> unwrap_or 0 (opt_or (fhi_invoice_work_days i) (fhi_invoice_base_days i)) > 0
    then unwrap_or 0 (opt_or (fhi_invoice_work_days i) (fhi_invoice_base_days i))
    else if fhp_monthly_fixed_hours p > 0 then fhp_monthly_fixed_hours p else fixed_standard_monthly_hours)"
  have apply_eq: "apply_fixed_hours_to_invoice i profile workplace =
      (let i' = set_contract_fields p (month (preserve_invoice_values i)) workplace (preserve_invoice_values i) in
       \<lparr>fha_applied = True, fha_invoice = i', fha_profile = p, fha_audit_flags = fixed_hours_audit_flags i' p\<rparr>)" for i
    using True by (simp add: apply_fixed_hours_to_invoice_def p_def month_def Let_def)
  define after where "after = set_contract_fields p (month (preserve_invoice_values invoice)) workplace
      (preserve_invoice_values invoice)"
  have stable: "preserve_invoice_values after = after"
    by (rule preserved_values) (simp_all add: after_def)
  have "month after = month (preserve_invoice_values invoice)"
    unfolding month_def after_def by simp
  then have again: "set_contract_fields p (month after) workplace after = after"
    by (simp add: after_def contract_fields_idem)
  have first: "apply_fixed_hours_to_invoice invoice profile workplace =
      \<lparr>fha_applied = True, fha_invoice = after, fha_profile = p, fha_audit_flags = fixed_hours_audit_flags after p\<rparr>"
    unfolding apply_eq after_def Let_def ..
  have second: "apply_fixed_hours_to_invoice after profile workplace = apply_fixed_hours_to_invoice invoice profile workplace"
    unfolding first unfolding apply_eq stable again Let_def ..
  show ?thesis
    unfolding Let_def using second by (simp add: first True) (simp add: after_def)
qed

text \<open>
  The audit of an applied contract raises no flag about hours exactly when the given hours
  agree with the contracted ones: within a hundredth of an hour for extension and special work,
  within five per cent for the month.
\<close>

theorem fixed_hours_audit:
  assumes "fhp_fixed_hours_mode profile" and "fhi_fixed_hours_mode invoice"
  shows "(let p = fhp_normalized profile;
            ot = unwrap_or (fhi_ot_hours invoice) (fhi_invoice_ot_hours invoice);
            special = unwrap_or (fhi_special_hours invoice) (fhi_invoice_special_hours invoice);
            work = unwrap_or 0 (fhi_invoice_work_days invoice);
            differ = (\<lambda>given agreed tolerance. agreed > 0 \<and> given > 0 \<and> f64_abs (given - agreed) > tolerance) in
     int (length (fixed_hours_audit_flags invoice profile)) = 2
       + of_bool (differ ot (fhp_fixed_extension_hours p) (lit (1 / 100)))
       + of_bool (differ special (fhp_fixed_overtime_hours p) (lit (1 / 100)))
       + of_bool (differ work (fhp_monthly_fixed_hours p) (fhp_monthly_fixed_hours p * lit (5 / 100))))"
  using assms by (auto simp: fixed_hours_audit_flags_def Let_def)

theorem fixed_hours_audit_witness:
  "\<exists>flags. fixed_hours_audit_flags
     ((fixed_hours_invoice_new ''kim'')\<lparr>fhi_fixed_hours_mode := True, fhi_invoice_ot_hours := Some (Fin 0)\<rparr>) fhp_active = flags
   \<and> length flags = 2"
proof -
  let ?i = "(fixed_hours_invoice_new ''kim'')\<lparr>fhi_fixed_hours_mode := True, fhi_invoice_ot_hours := Some (Fin 0)\<rparr>"
  have "fhp_fixed_hours_mode fhp_active" "fhi_fixed_hours_mode ?i"
    by (simp_all add: fhp_active_def)
  from fixed_hours_audit[OF this] show ?thesis
    by (simp add: fixed_hours_invoice_new_def zero_f64_def Let_def)
qed

end
