(* ===== verification/Invoice_Audit.thy ===== *)
theory Invoice_Audit
  imports Workplace_Hours Fixed_Hours
begin

text \<open>
  The audit of the hours and the base salary of invoices:
  \<open>crates/payroll-api/src/invoice_audit.rs\<close>.  Its number helpers are those of the theories
  Rounding and Fixed\_Hours; the counters of a batch are natural numbers.
\<close>

section \<open>Data\<close>

datatype invoice_audit_status = AuditPass | AuditWarn

fun invoice_audit_status_as_str :: "invoice_audit_status \<Rightarrow> string" where
  "invoice_audit_status_as_str AuditPass = ''pass''"
| "invoice_audit_status_as_str AuditWarn = ''warn''"

fun invoice_audit_status_label :: "invoice_audit_status \<Rightarrow> string" where
  "invoice_audit_status_label AuditPass = [CHR 0xEC, CHR 0xA0, CHR 0x95, CHR 0xEC, CHR 0x83, CHR 0x81]"
| "invoice_audit_status_label AuditWarn = [CHR 0xED, CHR 0x99, CHR 0x95, CHR 0xEC, CHR 0x9D, CHR 0xB8]"

record invoice_audit_invoice =
  iai_name :: string
  iai_workplace :: string
  iai_base_days :: f64
  iai_work_days :: f64
  iai_leave_days :: f64
  iai_ot_hours :: f64
  iai_special_hours :: f64
  iai_special_ext_hours :: f64
  iai_base_hourly :: f64
  iai_base_salary :: i64
  iai_preserve_reference_hours :: bool

definition invoice_audit_invoice_new :: "string \<Rightarrow> invoice_audit_invoice" where
  "invoice_audit_invoice_new name =
     \<lparr>iai_name = trim name, iai_workplace = [],
      iai_base_days = 0, iai_work_days = 0,
      iai_leave_days = 0, iai_ot_hours = 0,
      iai_special_hours = 0, iai_special_ext_hours = 0,
      iai_base_hourly = 0, iai_base_salary = 0,
      iai_preserve_reference_hours = False\<rparr>"

definition iai_with_workplace :: "string \<Rightarrow> invoice_audit_invoice \<Rightarrow> invoice_audit_invoice" where
  "iai_with_workplace workplace i = i\<lparr>iai_workplace := trim workplace\<rparr>"

definition iai_with_base_days :: "f64 \<Rightarrow> invoice_audit_invoice \<Rightarrow> invoice_audit_invoice" where
  "iai_with_base_days hours i = i\<lparr>iai_base_days := hours\<rparr>"

definition iai_with_work_days :: "f64 \<Rightarrow> invoice_audit_invoice \<Rightarrow> invoice_audit_invoice" where
  "iai_with_work_days hours i = i\<lparr>iai_work_days := hours\<rparr>"

definition iai_with_leave_days :: "f64 \<Rightarrow> invoice_audit_invoice \<Rightarrow> invoice_audit_invoice" where
  "iai_with_leave_days days i = i\<lparr>iai_leave_days := days\<rparr>"

definition iai_with_ot_hours :: "f64 \<Rightarrow> invoice_audit_invoice \<Rightarrow> invoice_audit_invoice" where
  "iai_with_ot_hours hours i = i\<lparr>iai_ot_hours := hours\<rparr>"

definition iai_with_special_hours :: "f64 \<Rightarrow> invoice_audit_invoice \<Rightarrow> invoice_audit_invoice" where
  "iai_with_special_hours hours i = i\<lparr>iai_special_hours := hours\<rparr>"

definition iai_with_special_ext_hours :: "f64 \<Rightarrow> invoice_audit_invoice \<Rightarrow> invoice_audit_invoice" where
  "iai_with_special_ext_hours hours i = i\<lparr>iai_special_ext_hours := hours\<rparr>"

definition iai_with_base_hourly :: "f64 \<Rightarrow> invoice_audit_invoice \<Rightarrow> invoice_audit_invoice" where
  "iai_with_base_hourly amount i = i\<lparr>iai_base_hourly := amount\<rparr>"

definition iai_with_base_salary :: "i64 \<Rightarrow> invoice_audit_invoice \<Rightarrow> invoice_audit_invoice" where
  "iai_with_base_salary amount i = i\<lparr>iai_base_salary := amount\<rparr>"

definition iai_with_preserve_reference_hours :: "bool \<Rightarrow> invoice_audit_invoice \<Rightarrow> invoice_audit_invoice" where
  "iai_with_preserve_reference_hours preserve i = i\<lparr>iai_preserve_reference_hours := preserve\<rparr>"

record invoice_audit_record =
  iar_name :: string
  iar_workplace :: string
  iar_base_hourly :: f64
  iar_monthly_work_hours :: "f64 option"

definition invoice_audit_record_new :: "string \<Rightarrow> invoice_audit_record" where
  "invoice_audit_record_new name =
     \<lparr>iar_name = trim name, iar_workplace = [],
      iar_base_hourly = 0, iar_monthly_work_hours = None\<rparr>"

definition iar_with_workplace :: "string \<Rightarrow> invoice_audit_record \<Rightarrow> invoice_audit_record" where
  "iar_with_workplace workplace i = i\<lparr>iar_workplace := trim workplace\<rparr>"

definition iar_with_base_hourly :: "f64 \<Rightarrow> invoice_audit_record \<Rightarrow> invoice_audit_record" where
  "iar_with_base_hourly amount i = i\<lparr>iar_base_hourly := amount\<rparr>"

definition iar_with_monthly_work_hours :: "f64 \<Rightarrow> invoice_audit_record \<Rightarrow> invoice_audit_record" where
  "iar_with_monthly_work_hours hours i = i\<lparr>iar_monthly_work_hours := Some hours\<rparr>"

record invoice_audit_row =
  iaw_name :: string
  iaw_workplace :: string
  iaw_status :: invoice_audit_status
  iaw_status_label :: string
  iaw_flags :: "string list"
  iaw_base_days :: f64
  iaw_work_days :: f64
  iaw_break_hours :: "f64 option"
  iaw_applied_monthly_hours :: f64
  iaw_hours_source :: string
  iaw_policy_mode :: workplace_hours_mode
  iaw_policy_fixed_hours :: f64
  iaw_base_hourly :: f64
  iaw_invoice_base_salary :: i64
  iaw_calc_base_salary :: i64
  iaw_formula :: string
  iaw_fixed_hours_mode :: bool
  iaw_fixed_hours_source :: string

record invoice_audit_batch_item =
  iab_invoice :: invoice_audit_invoice
  iab_workplace :: string
  iab_policy :: workplace_hours_policy
  iab_record :: "invoice_audit_record option"
  iab_fixed_profile :: "fixed_hours_profile option"

definition invoice_audit_batch_item_new :: "invoice_audit_invoice \<Rightarrow> invoice_audit_batch_item" where
  "invoice_audit_batch_item_new invoice =
     \<lparr>iab_invoice = invoice, iab_workplace = [],
      iab_policy = workplace_hours_policy_default, iab_record = None,
      iab_fixed_profile = None\<rparr>"

definition iab_with_workplace :: "string \<Rightarrow> invoice_audit_batch_item \<Rightarrow> invoice_audit_batch_item" where
  "iab_with_workplace workplace i = i\<lparr>iab_workplace := trim workplace\<rparr>"

definition iab_with_policy :: "workplace_hours_policy \<Rightarrow> invoice_audit_batch_item \<Rightarrow> invoice_audit_batch_item" where
  "iab_with_policy policy i = i\<lparr>iab_policy := policy\<rparr>"

definition iab_with_record :: "invoice_audit_record \<Rightarrow> invoice_audit_batch_item \<Rightarrow> invoice_audit_batch_item" where
  "iab_with_record record i = i\<lparr>iab_record := Some record\<rparr>"

definition iab_with_fixed_profile :: "fixed_hours_profile \<Rightarrow> invoice_audit_batch_item \<Rightarrow> invoice_audit_batch_item" where
  "iab_with_fixed_profile fixed_profile i = i\<lparr>iab_fixed_profile := Some fixed_profile\<rparr>"

record invoice_audit_summary =
  ias_total :: nat
  ias_pass :: nat
  ias_warn :: nat

record invoice_audit_batch_result =
  ibr_workplace :: string
  ibr_summary :: invoice_audit_summary
  ibr_rows :: "invoice_audit_row list"
  ibr_pass_count :: nat
  ibr_warn_count :: nat

section \<open>Helpers\<close>

definition format_i64 :: "i64 \<Rightarrow> string" where
  "format_i64 value =
     (let sign = (if value < 0 then ''-'' else []);
          digits = show_int (i64_abs value);
          out = concat (map (\<lambda>(index, ch). if index > 0 \<and> index mod 3 = 0 then [CHR '','', ch] else [ch])
                  (enumerate 0 (rev digits))) in
      sign @ rev out)"

definition fixed_invoice_from_audit :: "invoice_audit_invoice \<Rightarrow> fixed_hours_invoice" where
  "fixed_invoice_from_audit invoice =
     fhi_with_preserve_reference_hours (iai_preserve_reference_hours invoice)
       (fhi_with_special_ext_hours (iai_special_ext_hours invoice)
         (fhi_with_special_hours (iai_special_hours invoice)
           (fhi_with_ot_hours (iai_ot_hours invoice)
             (fhi_with_base_days (iai_base_days invoice)
               (fhi_with_work_days (iai_work_days invoice)
                 (fhi_with_workplace (iai_workplace invoice)
                   (fixed_hours_invoice_new (iai_name invoice))))))))"

definition resolved_workplace ::
    "invoice_audit_invoice \<Rightarrow> string \<Rightarrow> invoice_audit_record option \<Rightarrow> string" where
  "resolved_workplace invoice workplace record =
     (let explicit = trim workplace;
          record_workplace = unwrap_or [] (map_option (\<lambda>r. trim (iar_workplace r)) record) in
      if explicit \<noteq> [] then explicit
      else if record_workplace \<noteq> [] then record_workplace
      else trim (iai_workplace invoice))"

definition selected_base_hourly :: "invoice_audit_invoice \<Rightarrow> invoice_audit_record option \<Rightarrow> f64" where
  "selected_base_hourly invoice record =
     (case record of
        Some r \<Rightarrow>
          if is_finite (iar_base_hourly r) \<and> \<not> f64_eq (iar_base_hourly r) 0 then iar_base_hourly r
          else safe_number (iai_base_hourly invoice)
      | None \<Rightarrow> safe_number (iai_base_hourly invoice))"

definition estimate_break_hours :: "invoice_audit_invoice \<Rightarrow> workplace_hours_policy \<Rightarrow> f64 option" where
  "estimate_break_hours invoice policy =
     (let policy = whp_normalized policy;
          break_minutes = unwrap_or 0 (whp_break_minutes policy);
          daily_hours = unwrap_or (lit 8) (opt_filter (\<lambda>h. h > 0) (whp_daily_hours policy));
          work = safe_number (iai_work_days invoice);
          base = safe_number (iai_base_days invoice);
          leave = safe_number (iai_leave_days invoice) in
      if break_minutes > 0 \<and> work > 0 then
        (let work_days_count = (if work \<le> lit 31 then work else work / daily_hours) in
         Some (round_decimal_places (break_minutes / lit 60 * work_days_count) 4))
      else if base > work \<and> work > 0 \<and> base \<ge> lit 24 \<and> work \<ge> lit 1 then
        (let gap = base - work - leave in
         if gap > 0 then Some (round_decimal_places gap 4) else None)
      else None)"

section \<open>The audit of a row\<close>

text \<open>Where the applied hours come from: the contract, if it has fixed hours, or the workplace.\<close>

record audit_hours =
  auh_applied_hours :: f64
  auh_hours_source :: string
  auh_fixed_hours_mode :: bool
  auh_fixed_hours_source :: string
  auh_fixed_flags :: "string list"

definition select_audit_hours ::
    "invoice_audit_invoice \<Rightarrow> string \<Rightarrow> workplace_hours_policy \<Rightarrow> fixed_hours_profile option \<Rightarrow> audit_hours" where
  "select_audit_hours invoice workplace policy fixed_profile =
     (case opt_filter fhp_fixed_hours_mode (map_option fhp_normalized fixed_profile) of
        Some profile \<Rightarrow>
          (let result = apply_fixed_hours_to_invoice (fixed_invoice_from_audit invoice) profile workplace;
               applied = fha_invoice result in
           \<lparr>auh_applied_hours = unwrap_or 0 (fhi_monthly_work_hours applied),
            auh_hours_source = (if fhi_monthly_hours_source applied = [] then fixed_hours_source_contract
                                else fhi_monthly_hours_source applied),
            auh_fixed_hours_mode = True,
            auh_fixed_hours_source = fhp_source_label profile,
            auh_fixed_flags = fha_audit_flags result\<rparr>)
      | None \<Rightarrow>
          (let result = apply_monthly_hours_to_invoice
                 (whi_with_base_days (iai_base_days invoice)
                   (whi_with_work_days (iai_work_days invoice)
                     (whi_with_workplace (iai_workplace invoice)
                       \<lparr>whi_workplace = [], whi_work_days = 0, whi_base_days = 0,
                        whi_monthly_work_hours = None, whi_monthly_hours_source = []\<rparr>)))
                 workplace policy in
           \<lparr>auh_applied_hours = wma_hours result, auh_hours_source = wma_source result,
            auh_fixed_hours_mode = False, auh_fixed_hours_source = [], auh_fixed_flags = []\<rparr>))"

text \<open>The checks of the hours and the salary: whether one warns, and its flag.\<close>

definition row_checks ::
    "workplace_hours_policy \<Rightarrow> f64 \<Rightarrow> f64 \<Rightarrow> f64 \<Rightarrow> f64 option \<Rightarrow> f64 \<Rightarrow> i64 \<Rightarrow> i64 \<Rightarrow> (bool \<times> string) list" where
  "row_checks policy applied_hours work_days base_days break_hours base_hourly
       calc_base_salary invoice_base_salary =
     (let mode = whp_mode policy; fixed_hours = whp_hours policy in
      (if mode \<in> set [HoursInvoiceWorkDays, HoursWorkOrFixed] \<and> work_days \<le> 0
       then [(True, [CHR 0xEC, CHR 0xB2, CHR 0xAD, CHR 0xEA, CHR 0xB5, CHR 0xAC, CHR 0xEC, CHR 0x84, CHR 0x9C] @ '' '' @ [CHR 0xEA, CHR 0xB7, CHR 0xBC, CHR 0xEB, CHR 0xAC, CHR 0xB4, CHR 0xEC, CHR 0x8B, CHR 0x9C, CHR 0xEA, CHR 0xB0, CHR 0x84] @ ''(J) '' @ [CHR 0xEC, CHR 0x97, CHR 0x86, CHR 0xEC, CHR 0x9D, CHR 0x8C] @ '' '' @ [CHR 0xE2, CHR 0x80, CHR 0x94] @ '' '' @ [CHR 0xEA, CHR 0xB3, CHR 0xA0, CHR 0xEC, CHR 0xA0, CHR 0x95, CHR 0xEA, CHR 0xB0, CHR 0x92] @ '' '' @ [CHR 0xEB, CHR 0x8C, CHR 0x80, CHR 0xEC, CHR 0xB2, CHR 0xB4])] else [])
      @ (if mode \<in> set [HoursInvoiceBaseDays, HoursBaseOrFixed] \<and> base_days \<le> 0
         then [(True, [CHR 0xEC, CHR 0xB2, CHR 0xAD, CHR 0xEA, CHR 0xB5, CHR 0xAC, CHR 0xEC, CHR 0x84, CHR 0x9C] @ '' '' @ [CHR 0xEA, CHR 0xB8, CHR 0xB0, CHR 0xEC, CHR 0xA4, CHR 0x80, CHR 0xEC, CHR 0x8B, CHR 0x9C, CHR 0xEA, CHR 0xB0, CHR 0x84] @ ''(I) '' @ [CHR 0xEC, CHR 0x97, CHR 0x86, CHR 0xEC, CHR 0x9D, CHR 0x8C] @ '' '' @ [CHR 0xE2, CHR 0x80, CHR 0x94] @ '' '' @ [CHR 0xEA, CHR 0xB3, CHR 0xA0, CHR 0xEC, CHR 0xA0, CHR 0x95, CHR 0xEA, CHR 0xB0, CHR 0x92] @ '' '' @ [CHR 0xEB, CHR 0x8C, CHR 0x80, CHR 0xEC, CHR 0xB2, CHR 0xB4])] else [])
      @ (if mode = HoursFixed \<and> work_days > fixed_hours * lit (105 / 100) \<and> work_days \<ge> lit 24
         then [(True, [CHR 0xEC, CHR 0xB2, CHR 0xAD, CHR 0xEA, CHR 0xB5, CHR 0xAC, CHR 0xEC, CHR 0x84, CHR 0x9C] @ '' '' @ [CHR 0xEA, CHR 0xB7, CHR 0xBC, CHR 0xEB, CHR 0xAC, CHR 0xB4, CHR 0xEC, CHR 0x8B, CHR 0x9C, CHR 0xEA, CHR 0xB0, CHR 0x84] @ ''('' @ format_number work_days @ ''h)'' @ [CHR 0xEC, CHR 0x9D, CHR 0xB4] @ '' '' @ [CHR 0xEC, CHR 0x82, CHR 0xAC, CHR 0xEC, CHR 0x97, CHR 0x85, CHR 0xEC, CHR 0x9E, CHR 0xA5] @ '' '' @ [CHR 0xEA, CHR 0xB3, CHR 0xA0, CHR 0xEC, CHR 0xA0, CHR 0x95] @ ''('' @ format_number fixed_hours @ ''h) '' @ [CHR 0xEC, CHR 0xB4, CHR 0x88, CHR 0xEA, CHR 0xB3, CHR 0xBC])]
         else [])
      @ (if applied_hours > fixed_hours * lit (11 / 10) \<and> mode = HoursFixed
         then [(True, [CHR 0xEC, CHR 0xA0, CHR 0x81, CHR 0xEC, CHR 0x9A, CHR 0xA9] @ '' '' @ [CHR 0xEC, CHR 0x8B, CHR 0x9C, CHR 0xEA, CHR 0xB0, CHR 0x84] @ ''('' @ format_number applied_hours @ ''h)'' @ [CHR 0xEC, CHR 0x9D, CHR 0xB4] @ '' '' @ [CHR 0xEA, CHR 0xB3, CHR 0xA0, CHR 0xEC, CHR 0xA0, CHR 0x95] @ '' '' @ [CHR 0xEA, CHR 0xB8, CHR 0xB0, CHR 0xEC, CHR 0xA4, CHR 0x80] @ ''('' @ format_number fixed_hours @ ''h)'' @ [CHR 0xEB, CHR 0xB3, CHR 0xB4, CHR 0xEB, CHR 0x8B, CHR 0xA4] @ '' '' @ [CHR 0xED, CHR 0x81, CHR 0xBC])]
         else [])
      @ (if base_hourly > 0 \<and> invoice_base_salary > 0
            \<and> i64_abs (i64_sub calc_base_salary invoice_base_salary) > 1
         then [(True, [CHR 0xEA, CHR 0xB8, CHR 0xB0, CHR 0xEB, CHR 0xB3, CHR 0xB8, CHR 0xEA, CHR 0xB8, CHR 0x89] @ '' '' @ [CHR 0xEB, CHR 0xB6, CHR 0x88, CHR 0xEC, CHR 0x9D, CHR 0xBC, CHR 0xEC, CHR 0xB9, CHR 0x98] @ '': '' @ [CHR 0xEC, CHR 0x82, CHR 0xB0, CHR 0xEC, CHR 0xB6, CHR 0x9C] @ '' '' @ format_i64 calc_base_salary @ [CHR 0xEC, CHR 0x9B, CHR 0x90] @ '' vs '' @ [CHR 0xEC, CHR 0xB2, CHR 0xAD, CHR 0xEA, CHR 0xB5, CHR 0xAC, CHR 0xEC, CHR 0x84, CHR 0x9C] @ '' '' @ format_i64 invoice_base_salary @ [CHR 0xEC, CHR 0x9B, CHR 0x90])]
         else if base_hourly \<le> 0 \<and> invoice_base_salary > 0 then [(False, [CHR 0xEB, CHR 0xAA, CHR 0x85, CHR 0xEB, CHR 0xB6, CHR 0x80] @ '' '' @ [CHR 0xEA, CHR 0xB8, CHR 0xB0, CHR 0xEB, CHR 0xB3, CHR 0xB8, CHR 0xEC, CHR 0x8B, CHR 0x9C, CHR 0xEA, CHR 0xB8, CHR 0x89] @ '' '' @ [CHR 0xEC, CHR 0x97, CHR 0x86, CHR 0xEC, CHR 0x9D, CHR 0x8C] @ '' '' @ [CHR 0xE2, CHR 0x80, CHR 0x94] @ '' '' @ [CHR 0xEA, CHR 0xB8, CHR 0xB0, CHR 0xEB, CHR 0xB3, CHR 0xB8, CHR 0xEA, CHR 0xB8, CHR 0x89] @ '' '' @ [CHR 0xEA, CHR 0xB2, CHR 0x80, CHR 0xEC, CHR 0xA6, CHR 0x9D] @ '' '' @ [CHR 0xEC, CHR 0x83, CHR 0x9D, CHR 0xEB, CHR 0x9E, CHR 0xB5])]
         else [])
      @ (if break_hours = None \<and> base_days > work_days \<and> work_days > 0
         then [(False, [CHR 0xED, CHR 0x9C, CHR 0xB4, CHR 0xEA, CHR 0xB3, CHR 0x84] @ '' '' @ [CHR 0xEB, CHR 0xAF, CHR 0xB8, CHR 0xEC, CHR 0x84, CHR 0xA4, CHR 0xEC, CHR 0xA0, CHR 0x95] @ '' '' @ [CHR 0xE2, CHR 0x80, CHR 0x94] @ '' I'' @ [CHR 0xC2, CHR 0xB7] @ ''J'' @ [CHR 0xEC, CHR 0x97, CHR 0xB4] @ '' '' @ [CHR 0xEC, CHR 0xB0, CHR 0xA8, CHR 0xEC, CHR 0x9D, CHR 0xB4, CHR 0xEB, CHR 0x8A, CHR 0x94] @ '' '' @ [CHR 0xED, CHR 0x9C, CHR 0xB4, CHR 0xEA, CHR 0xB0, CHR 0x80, CHR 0xC2, CHR 0xB7, CHR 0xEB, CHR 0xAC, CHR 0xB4, CHR 0xEA, CHR 0xB8, CHR 0x89] @ '' '' @ [CHR 0xED, CHR 0x8F, CHR 0xAC, CHR 0xED, CHR 0x95, CHR 0xA8] @ '' '' @ [CHR 0xEA, CHR 0xB0, CHR 0x80, CHR 0xEB, CHR 0x8A, CHR 0xA5])] else []))"

definition not_equal_sign :: string where
  "not_equal_sign = [CHR 0xE2, CHR 0x89, CHR 0xA0]"

definition record_check :: "invoice_audit_record option \<Rightarrow> f64 \<Rightarrow> (bool \<times> string) list" where
  "record_check record applied_hours =
     (let record_hours = unwrap_or 0 (opt_filter is_finite (Option.bind record iar_monthly_work_hours)) in
      if record \<noteq> None \<and> record_hours > 0 \<and> f64_abs (record_hours - applied_hours) > lit (1 / 100)
      then [(True, [CHR 0xEB, CHR 0x8C, CHR 0x80, CHR 0xEC, CHR 0x9E, CHR 0xA5] @ '' '' @ [CHR 0xEC, CHR 0xA0, CHR 0x81, CHR 0xEC, CHR 0x9A, CHR 0xA9, CHR 0xEC, CHR 0x8B, CHR 0x9C, CHR 0xEA, CHR 0xB0, CHR 0x84] @ ''('' @ format_number record_hours @ ''h)'' @ [CHR 0xEA, CHR 0xB3, CHR 0xBC] @ '' '' @ [CHR 0xEC, CHR 0x9E, CHR 0xAC, CHR 0xEA, CHR 0xB2, CHR 0x80, CHR 0xEC, CHR 0x97, CHR 0xB4] @ ''('' @ format_number applied_hours @ ''h) '' @ [CHR 0xEC, CHR 0x83, CHR 0x81, CHR 0xEC, CHR 0x9D, CHR 0xB4])]
      else [])"

definition audit_formula :: "f64 \<Rightarrow> f64 \<Rightarrow> i64 \<Rightarrow> string" where
  "audit_formula base_hourly applied_hours calc_base_salary =
     [CHR 0xEA, CHR 0xB8, CHR 0xB0, CHR 0xEB, CHR 0xB3, CHR 0xB8, CHR 0xEC, CHR 0x8B, CHR 0x9C, CHR 0xEA, CHR 0xB8, CHR 0x89] @ '' '' @ format_i64 (to_i64 (round_ties_even_eps base_hourly)) @ [CHR 0xEC, CHR 0x9B, CHR 0x90] @ '' '' @ [CHR 0xC3, CHR 0x97] @ '' ''
     @ format_number applied_hours @ [CHR 0xEC, CHR 0x8B, CHR 0x9C, CHR 0xEA, CHR 0xB0, CHR 0x84]
     @ (if calc_base_salary > 0 then '' = '' @ format_i64 calc_base_salary @ [CHR 0xEC, CHR 0x9B, CHR 0x90] else [])"

definition audit_invoice_row ::
    "invoice_audit_invoice \<Rightarrow> string \<Rightarrow> workplace_hours_policy \<Rightarrow> invoice_audit_record option \<Rightarrow>
     fixed_hours_profile option \<Rightarrow> invoice_audit_row" where
  "audit_invoice_row invoice workplace policy record fixed_profile =
     (let workplace = resolved_workplace invoice workplace record;
          policy = whp_normalized policy;
          hours = select_audit_hours invoice workplace policy fixed_profile;
          applied_hours = auh_applied_hours hours;
          base_days = safe_number (iai_base_days invoice);
          work_days = safe_number (iai_work_days invoice);
          break_hours = estimate_break_hours invoice policy;
          base_hourly = selected_base_hourly invoice record;
          calc_base_salary = (if base_hourly > 0 then round_won_eps (base_hourly * applied_hours) else 0);
          checks = row_checks policy applied_hours work_days base_days break_hours base_hourly
            calc_base_salary (iai_base_salary invoice);
          fixed_checks = map (\<lambda>flag. (contains_str not_equal_sign flag, flag)) (auh_fixed_flags hours);
          all_checks = fixed_checks @ checks @ record_check record applied_hours;
          status = (if list_ex fst all_checks then AuditWarn else AuditPass) in
      \<lparr>iaw_name = iai_name invoice, iaw_workplace = workplace, iaw_status = status,
       iaw_status_label = invoice_audit_status_label status, iaw_flags = map snd all_checks,
       iaw_base_days = base_days, iaw_work_days = work_days, iaw_break_hours = break_hours,
       iaw_applied_monthly_hours = applied_hours, iaw_hours_source = auh_hours_source hours,
       iaw_policy_mode = whp_mode policy, iaw_policy_fixed_hours = whp_hours policy,
       iaw_base_hourly = base_hourly, iaw_invoice_base_salary = iai_base_salary invoice,
       iaw_calc_base_salary = calc_base_salary,
       iaw_formula = audit_formula base_hourly applied_hours calc_base_salary,
       iaw_fixed_hours_mode = auh_fixed_hours_mode hours,
       iaw_fixed_hours_source = auh_fixed_hours_source hours\<rparr>)"

section \<open>Batches\<close>

definition batch_row :: "string \<Rightarrow> invoice_audit_batch_item \<Rightarrow> invoice_audit_row" where
  "batch_row workplace item =
     audit_invoice_row (iab_invoice item)
       (if trim (iab_workplace item) = [] then workplace else trim (iab_workplace item))
       (iab_policy item) (iab_record item) (iab_fixed_profile item)"

text \<open>The loop of the batch: the rows so far, and the two counters.\<close>

definition batch_step ::
    "string \<Rightarrow> invoice_audit_row list \<times> nat \<times> nat \<Rightarrow> invoice_audit_batch_item \<Rightarrow>
     invoice_audit_row list \<times> nat \<times> nat" where
  "batch_step workplace state item =
     (case state of (rows, pass_count, warn_count) \<Rightarrow>
       let row = batch_row workplace item in
       case iaw_status row of
         AuditPass \<Rightarrow> (rows @ [row], pass_count + 1, warn_count)
       | AuditWarn \<Rightarrow> (rows @ [row], pass_count, warn_count + 1))"

definition audit_invoice_batch :: "invoice_audit_batch_item list \<Rightarrow> string \<Rightarrow> invoice_audit_batch_result" where
  "audit_invoice_batch items workplace =
     (let workplace = trim workplace;
          (rows, pass_count, warn_count) = foldl (batch_step workplace) ([], 0, 0) items in
      \<lparr>ibr_workplace = workplace,
       ibr_summary = \<lparr>ias_total = length rows, ias_pass = pass_count, ias_warn = warn_count\<rparr>,
       ibr_rows = rows, ibr_pass_count = pass_count, ibr_warn_count = warn_count\<rparr>)"

section \<open>Properties\<close>

lemma batch_loop:
  "foldl (batch_step w) (rows, p, q) items =
     (let new = map (batch_row w) items in
      (rows @ new, p + (length (filter (\<lambda>r. iaw_status r = AuditPass) new)),
       q + (length (filter (\<lambda>r. iaw_status r = AuditWarn) new))))"
proof (induction items arbitrary: rows p q)
  case (Cons item items)
  then show ?case
    by (cases "iaw_status (batch_row w item)") (simp_all add: batch_step_def Let_def)
qed (simp add: Let_def)

lemma status_split:
  "length (filter (\<lambda>r. iaw_status r = AuditPass) rows) + length (filter (\<lambda>r. iaw_status r = AuditWarn) rows)
   = length rows"
proof (induction rows)
  case (Cons row rows)
  then show ?case by (cases "iaw_status row") simp_all
qed simp

text \<open>
  A batch has one row per item, in the order of the items, and its two counts are the numbers
  of rows that pass and that warn, which make up the total.
\<close>

theorem audit_batch_counts:
  "(let result = audit_invoice_batch items workplace; rows = ibr_rows result in
     rows = map (batch_row (trim workplace)) items
   \<and> ibr_pass_count result = (length (filter (\<lambda>r. iaw_status r = AuditPass) rows))
   \<and> ibr_warn_count result = (length (filter (\<lambda>r. iaw_status r = AuditWarn) rows))
   \<and> ias_total (ibr_summary result) = ibr_pass_count result + ibr_warn_count result
   \<and> ias_total (ibr_summary result) = (length items))"
  using status_split[of "map (batch_row (trim workplace)) items"]
  by (simp add: audit_invoice_batch_def batch_loop Let_def)

lemma abs_diff_small:
  assumes "is_i64 a" "is_i64 b" "0 \<le> a" "0 < b" "\<not> i64_abs (i64_sub a b) > 1"
  shows "\<bar>a - b\<bar> \<le> 1"
proof -
  have "is_i64 (a - b)" "is_i64 \<bar>a - b\<bar>" using assms(1-4) by (auto simp: is_i64_def)
  then show ?thesis using assms(5) by (simp add: i64_defs wrap64_id)
qed



text \<open>The separators of a printed amount are all that is added to its digits.\<close>

lemma group_digits:
  "filter (\<lambda>c. c \<noteq> CHR '','') (concat (map (\<lambda>(index, ch).
      if index > 0 \<and> index mod 3 = 0 then [CHR '','', ch] else [ch]) (enumerate n s)))
   = filter (\<lambda>c. c \<noteq> CHR '','') s"
  by (induction s arbitrary: n) auto

lemma format_i64_digits:
  assumes "is_i64 n" and "n \<noteq> i64_min"
  shows "remove_char (CHR '','') (format_i64 n) = show_int n"
proof -
  have a: "i64_abs n = \<bar>n\<bar>"
    using assms by (simp add: i64_abs_def wrap64_id is_i64_def i64_min_def abs_if)
  have d: "filter (\<lambda>c. c \<noteq> CHR '','') (show_nat k) = show_nat k" for k
  proof -
    have "CHR '','' \<notin> set (show_nat k)" by (rule digits_not_in[OF show_nat_digits]) code_simp
    then show ?thesis by (auto simp: filter_id_conv)
  qed
  have abs: "show_int \<bar>n\<bar> = show_nat (nat \<bar>n\<bar>)" by (simp add: show_int_def)
  have "filter (\<lambda>c. c \<noteq> CHR '','') (rev (concat (map (\<lambda>(index, ch).
      if index > 0 \<and> index mod 3 = 0 then [CHR '','', ch] else [ch]) (enumerate 0 (rev (show_nat k))))))
    = show_nat k" for k
    by (simp only: rev_filter[symmetric] group_digits) (simp add: rev_filter d)
  then show ?thesis
    by (simp add: format_i64_def remove_char_def a abs Let_def) (auto simp: show_int_def)
qed

end
