(* ===== verification/Base64url.thy ===== *)
theory Base64url
  imports Rust_Str
begin

text \<open>
  The base64url decoder of \<open>crates/payroll-api/src/auth_session.rs\<close> (\<open>decode_base64url\<close>), the
  encoding of RFC 4648 that it inverts, and the hexadecimal printing of digests.  The decoder
  shifts its input through a 32-bit buffer whose upper bits it never clears; the model keeps
  the buffer as the code does.
\<close>

unbundle bit_operations_syntax

section \<open>The decoder\<close>

definition b64_value :: "char \<Rightarrow> int option" where
  "b64_value byte =
     (let n = int (char_code byte) in
      if 65 \<le> n \<and> n \<le> 90 then Some (n - 65)
      else if 97 \<le> n \<and> n \<le> 122 then Some (n - 97 + 26)
      else if 48 \<le> n \<and> n \<le> 57 then Some (n - 48 + 52)
      else if n = 45 then Some 62
      else if n = 95 then Some 63
      else None)"

text \<open>\<open>buffer = (buffer << 6) | value\<close> on \<open>u32\<close>.\<close>

definition b64_push :: "int \<Rightarrow> int \<Rightarrow> int" where
  "b64_push buffer v = take_bit 32 (push_bit 6 buffer) OR v"

text \<open>The inner loop: the complete bytes of the buffer, and the bits that stay.\<close>

fun b64_drain :: "int \<Rightarrow> nat \<Rightarrow> string \<times> nat" where
  "b64_drain buffer bits =
     (if bits \<ge> 8 then
        let bits = bits - 8; (bytes, left) = b64_drain buffer bits in
        (char_of (nat (drop_bit bits buffer AND 255)) # bytes, left)
      else ([], bits))"

declare b64_drain.simps [simp del]

fun b64_loop :: "int \<Rightarrow> nat \<Rightarrow> string \<Rightarrow> (string \<times> int \<times> nat) option" where
  "b64_loop buffer bits [] = Some ([], buffer, bits)"
| "b64_loop buffer bits (byte # input) =
     (case b64_value byte of
        None \<Rightarrow> None
      | Some v \<Rightarrow>
          let buffer = b64_push buffer v; (bytes, bits) = b64_drain buffer (bits + 6) in
          map_option (\<lambda>(output, final). (bytes @ output, final)) (b64_loop buffer bits input))"

definition decode_base64url :: "string \<Rightarrow> string option" where
  "decode_base64url input =
     (if CHR ''='' \<in> set input then None
      else case b64_loop 0 0 input of
        None \<Rightarrow> None
      | Some (output, buffer, bits) \<Rightarrow>
          if bits > 0 \<and> buffer AND (push_bit bits 1 - 1) \<noteq> 0 then None else Some output)"

definition hex_bytes :: "string \<Rightarrow> string" where
  "hex_bytes bytes = concat (map (\<lambda>byte.
     let digit = (\<lambda>n. if n < 10 then char_of (48 + n) else char_of (87 + n :: nat)) in
     [digit (char_code byte div 16), digit (char_code byte mod 16)]) bytes)"

section \<open>The encoding\<close>

definition b64_char :: "nat \<Rightarrow> char" where
  "b64_char v =
     (if v < 26 then char_of (65 + v)
      else if v < 52 then char_of (71 + v)
      else if v < 62 then char_of (v - 4)
      else if v = 62 then CHR ''-'' else CHR ''_'')"

fun b64_encode :: "string \<Rightarrow> string" where
  "b64_encode [] = []"
| "b64_encode [x] = (let a = char_code x in [b64_char (a div 4), b64_char (a mod 4 * 16)])"
| "b64_encode [x, y] = (let a = char_code x; b = char_code y in
     [b64_char (a div 4), b64_char (a mod 4 * 16 + b div 16), b64_char (b mod 16 * 4)])"
| "b64_encode (x # y # z # rest) = (let a = char_code x; b = char_code y; c = char_code z in
     [b64_char (a div 4), b64_char (a mod 4 * 16 + b div 16), b64_char (b mod 16 * 4 + c div 64),
      b64_char (c mod 64)] @ b64_encode rest)"

section \<open>The arithmetic of the buffer\<close>

lemma char_code_literals: "char_code (CHR ''-'') = 45" "char_code (CHR ''_'') = 95" "char_code (CHR ''='') = 61"
  by (simp_all add: char_code_def)

lemma b64_char_code:
  "v < 64 \<Longrightarrow> char_code (b64_char v) =
     (if v < 26 then 65 + v else if v < 52 then 71 + v else if v < 62 then v - 4 else if v = 62 then 45 else 95)"
  by (simp add: b64_char_def char_code_literals)

lemma b64_char_value: "v < 64 \<Longrightarrow> b64_value (b64_char v) = Some (int v)"
  unfolding b64_value_def Let_def b64_char_code by (auto simp: of_nat_diff)

lemma b64_char_not_pad: "v < 64 \<Longrightarrow> b64_char v \<noteq> CHR ''=''"
  using b64_char_code[of v] char_code_literals(3) by (auto split: if_splits)

lemma b64_push_arith:
  assumes "0 \<le> v" "v < 64"
  shows "b64_push buffer v = (buffer * 64) mod 2 ^ 32 + v"
proof -
  have "take_bit 6 v = v" using assms by (simp add: take_bit_eq_mod)
  then have "\<not> bit v n" if "6 \<le> n" for n
    by (metis bit_take_bit_iff not_le that)
  then have "take_bit 32 (push_bit 6 buffer) AND v = 0"
    by (intro bit_eqI) (auto simp: bit_simps not_le)
  then have "b64_push buffer v = take_bit 32 (push_bit 6 buffer) + v"
    unfolding b64_push_def by (simp only: disjunctive_add_eq_or)
  then show ?thesis by (simp add: take_bit_eq_mod push_bit_eq_mult)
qed

lemma b64_push_low:
  assumes "0 \<le> v" "v < 64" "k \<le> 26"
  shows "b64_push buffer v mod 2 ^ (k + 6) = (buffer mod 2 ^ k) * 64 + v"
proof -
  have "(2::int) ^ (k + 6) dvd 2 ^ 32" using assms(3) by (intro le_imp_power_dvd) simp
  then have "(buffer * 64) mod 2 ^ 32 mod 2 ^ (k + 6) = (buffer * 64) mod 2 ^ (k + 6)"
    by (rule mod_mod_cancel)
  then have "b64_push buffer v mod 2 ^ (k + 6) = (buffer * 64 + v) mod 2 ^ (k + 6)"
    unfolding b64_push_arith[OF assms(1,2)] by (metis mod_add_left_eq)
  also have "\<dots> = (64 * buffer + v) mod (64 * 2 ^ k)"
    by (simp add: power_add mult.commute)
  also have "\<dots> = 64 * (buffer mod 2 ^ k) + v"
  proof -
    have "(64 * buffer + v) mod (64 * 2 ^ k) = 64 * ((64 * buffer + v) div 64 mod 2 ^ k) + (64 * buffer + v) mod 64"
      by (rule zmod_zmult2_eq) simp
    moreover have "(64 * buffer + v) div 64 = buffer" "(64 * buffer + v) mod 64 = v"
      using assms by auto
    ultimately show ?thesis by simp
  qed
  finally show ?thesis by simp
qed

lemma drop_byte:
  fixes x :: int
  shows "drop_bit k x AND 255 = x mod 2 ^ (k + 8) div 2 ^ k"
proof -
  have "drop_bit k x AND 255 = take_bit 8 (drop_bit k x)"
    using take_bit_eq_mask[of 8 "drop_bit k x"] by (simp add: mask_eq_exp_minus_1)
  also have "\<dots> = drop_bit k (take_bit (k + 8) x)"
    by (simp add: drop_bit_take_bit)
  finally show ?thesis by (simp add: take_bit_eq_mod drop_bit_eq_div)
qed

lemma char_code_less: "char_code c < 256"
  by (simp add: char_code_def)

lemma char_of_code [simp]: "char_of (char_code c) = c"
  by (simp add: char_code_def)

lemma b64_drain_simps:
  "bits < 8 \<Longrightarrow> b64_drain buffer bits = ([], bits)"
  "bits < 8 \<Longrightarrow> b64_drain buffer (bits + 8) = ([char_of (nat (drop_bit bits buffer AND 255))], bits)"
  by (simp_all add: b64_drain.simps[of buffer "bits + 8"] b64_drain.simps[of buffer bits])

lemma low_digit_16: "(a * 64 + b) mod 16 = b mod (16::nat)"
  using mod_mult_self2[of b 16 "4 * a"] by (simp add: ac_simps)

lemma low_digit_4: "(a * 64 + b) mod 4 = b mod (4::nat)"
  using mod_mult_self2[of b 4 "16 * a"] by (simp add: ac_simps)

text \<open>The buffer after one to four digits, as far as it is read.\<close>

lemma b64_pushes:
  fixes buffer :: int
  assumes "v0 < 64" "v1 < 64" "v2 < 64" "v3 < 64"
  defines "b1 \<equiv> b64_push buffer (int v0)"
  defines "b2 \<equiv> b64_push b1 (int v1)"
  defines "b3 \<equiv> b64_push b2 (int v2)"
  defines "b4 \<equiv> b64_push b3 (int v3)"
  shows "b64_drain b1 6 = ([], 6)"
    and "b64_drain b2 12 = ([char_of ((v0 * 64 + v1) div 16)], 4)"
    and "b64_drain b3 10 = ([char_of ((v1 mod 16 * 64 + v2) div 4)], 2)"
    and "b64_drain b4 8 = ([char_of (v2 mod 4 * 64 + v3)], 0)"
    and "b2 mod 2 ^ 4 = int (v1 mod 16)"
    and "b3 mod 2 ^ 2 = int (v2 mod 4)"
proof -
  have m1: "b1 mod 2 ^ 6 = int v0"
    unfolding b1_def using b64_push_low[of "int v0" 0 buffer] assms(1) by simp
  have m2: "b2 mod 2 ^ 12 = int (v0 * 64 + v1)"
    unfolding b2_def using b64_push_low[of "int v1" 6 b1] m1 assms(2) by simp
  show m2': "b2 mod 2 ^ 4 = int (v1 mod 16)"
  proof -
    have "b2 mod 2 ^ 12 mod 2 ^ 4 = b2 mod 2 ^ 4"
      by (rule mod_mod_cancel) (rule le_imp_power_dvd, simp)
    then have "b2 mod 2 ^ 4 = int (v0 * 64 + v1) mod 2 ^ 4"
      unfolding m2 by (rule sym)
    also have "int (v0 * 64 + v1) mod 2 ^ 4 = int ((v0 * 64 + v1) mod 16)"
      unfolding of_nat_mod of_nat_numeral by (rule arg_cong2[where f = "(mod)"]) simp_all
    also have "(v0 * 64 + v1) mod 16 = v1 mod 16" by (rule low_digit_16)
    finally show ?thesis .
  qed
  have m3: "b3 mod 2 ^ 10 = int (v1 mod 16 * 64 + v2)"
    unfolding b3_def using b64_push_low[of "int v2" 4 b2] m2' assms(3) by simp
  show m3': "b3 mod 2 ^ 2 = int (v2 mod 4)"
  proof -
    have "b3 mod 2 ^ 10 mod 2 ^ 2 = b3 mod 2 ^ 2"
      by (rule mod_mod_cancel) (rule le_imp_power_dvd, simp)
    then have "b3 mod 2 ^ 2 = int (v1 mod 16 * 64 + v2) mod 2 ^ 2"
      unfolding m3 by (rule sym)
    also have "int (v1 mod 16 * 64 + v2) mod 2 ^ 2 = int ((v1 mod 16 * 64 + v2) mod 4)"
      unfolding of_nat_mod of_nat_numeral by (rule arg_cong2[where f = "(mod)"]) simp_all
    also have "(v1 mod 16 * 64 + v2) mod 4 = v2 mod 4" by (rule low_digit_4)
    finally show ?thesis .
  qed
  have m4: "b4 mod 2 ^ 8 = int (v2 mod 4 * 64 + v3)"
    unfolding b4_def using b64_push_low[of "int v3" 2 b3] m3' assms(4) by simp
  show "b64_drain b1 6 = ([], 6)" by (rule b64_drain_simps) simp
  have byte: "b64_drain b (k + 8) = ([char_of (n div 2 ^ k)], k)"
    if "b mod 2 ^ (k + 8) = int n" "k < 8" for b k n
  proof -
    have "int n div 2 ^ k = int (n div 2 ^ k)" by (simp only: of_nat_div of_nat_power of_nat_numeral)
    then show ?thesis using b64_drain_simps(2)[OF that(2), of b] drop_byte[of k b] that(1) by simp
  qed
  show "b64_drain b2 12 = ([char_of ((v0 * 64 + v1) div 16)], 4)"
    using byte[of b2 4 "v0 * 64 + v1"] m2 by simp
  show "b64_drain b3 10 = ([char_of ((v1 mod 16 * 64 + v2) div 4)], 2)"
    using byte[of b3 2 "v1 mod 16 * 64 + v2"] m3 by simp
  show "b64_drain b4 8 = ([char_of (v2 mod 4 * 64 + v3)], 0)"
    using byte[of b4 0 "v2 mod 4 * 64 + v3"] m4 by simp
qed

lemma pending_zero: "b mod 2 ^ k = 0 \<Longrightarrow> b AND (push_bit k 1 - 1) = (0::int)"
  using take_bit_eq_mask[of k b] by (simp add: take_bit_eq_mod mask_eq_exp_minus_1 push_bit_eq_mult)

lemmas pending_zero_16 = pending_zero[of _ 4, simplified]
lemmas pending_zero_4 = pending_zero[of _ 2, simplified]

text \<open>How the decoder ends: nothing but zeros is pending.\<close>

definition b64_finish :: "(string \<times> int \<times> nat) option \<Rightarrow> string option" where
  "b64_finish result =
     (case result of None \<Rightarrow> None
      | Some (output, buffer, bits) \<Rightarrow>
          if bits > 0 \<and> buffer AND (push_bit bits 1 - 1) \<noteq> 0 then None else Some output)"

lemma b64_finish_prefix:
  "b64_finish (map_option (\<lambda>(output, final). (bytes @ output, final)) r) = map_option ((@) bytes) (b64_finish r)"
  by (cases r) (auto simp: b64_finish_def)

lemma b64_two:
  assumes "v0 < 64" "v1 < 64" "v1 mod 16 = 0"
  shows "b64_finish (b64_loop buffer 0 [b64_char v0, b64_char v1]) = Some [char_of ((v0 * 64 + v1) div 16)]"
  using b64_pushes[OF assms(1,2), of 0 0 buffer] assms(3)
  by (simp add: b64_char_value assms b64_finish_def pending_zero_16 pending_zero_4 Let_def)

lemma b64_three:
  assumes "v0 < 64" "v1 < 64" "v2 < 64" "v2 mod 4 = 0"
  shows "b64_finish (b64_loop buffer 0 [b64_char v0, b64_char v1, b64_char v2])
    = Some [char_of ((v0 * 64 + v1) div 16), char_of ((v1 mod 16 * 64 + v2) div 4)]"
  using b64_pushes[OF assms(1,2,3), of 0 buffer] assms(4)
  by (simp add: b64_char_value assms b64_finish_def pending_zero_16 pending_zero_4 Let_def)

lemma b64_four:
  assumes "v0 < 64" "v1 < 64" "v2 < 64" "v3 < 64"
  shows "\<exists>buffer'. \<forall>input. b64_loop buffer 0 (b64_char v0 # b64_char v1 # b64_char v2 # b64_char v3 # input) =
     map_option (\<lambda>(output, final).
       ([char_of ((v0 * 64 + v1) div 16), char_of ((v1 mod 16 * 64 + v2) div 4), char_of (v2 mod 4 * 64 + v3)]
         @ output, final)) (b64_loop buffer' 0 input)"
  using b64_pushes[OF assms, of buffer]
  by (intro exI[of _ "b64_push (b64_push (b64_push (b64_push buffer (int v0)) (int v1)) (int v2)) (int v3)"] allI)
    (simp add: b64_char_value assms Let_def option.map_comp o_def case_prod_unfold)

section \<open>The round trip\<close>

lemma first_byte: "b < 256 \<Longrightarrow> (a div 4 * 64 + (a mod 4 * 16 + b div 16)) div 16 = (a::nat)"
proof -
  assume "b < 256"
  then have h: "b div 16 < 16" by (simp add: less_mult_imp_div_less)
  have "a div 4 * 64 + (a mod 4 * 16 + b div 16) = b div 16 + 16 * a"
    using div_mult_mod_eq[of a 4] by linarith
  with h show ?thesis by simp
qed

lemma second_byte: "c < 256 \<Longrightarrow> b < 256 \<Longrightarrow>
  ((a mod 4 * 16 + b div 16) mod 16 * 64 + (b mod 16 * 4 + c div 64)) div 4 = (b::nat)"
proof -
  assume "c < 256" "b < 256"
  then have h: "c div 64 < 4" "b div 16 < 16" by (simp_all add: less_mult_imp_div_less)
  then have m: "(a mod 4 * 16 + b div 16) mod 16 = b div 16" by simp
  have "b div 16 * 64 + (b mod 16 * 4 + c div 64) = c div 64 + 4 * b"
    using div_mult_mod_eq[of b 16] by linarith
  with h m show ?thesis by simp
qed

lemma third_byte: "c < 256 \<Longrightarrow> (b mod 16 * 4 + c div 64) mod 4 * 64 + c mod 64 = (c::nat)"
proof -
  assume "c < 256"
  then have "c div 64 < 4" by (simp add: less_mult_imp_div_less)
  then have "(b mod 16 * 4 + c div 64) mod 4 = c div 64" by simp
  then show ?thesis using div_mult_mod_eq[of c 64] by linarith
qed

lemma digits_small:
  assumes "a < 256" "b < 256" "c < (256::nat)"
  shows "a div 4 < 64" "a mod 4 * 16 + b div 16 < 64" "b mod 16 * 4 + c div 64 < 64" "c mod 64 < 64"
proof -
  have "b div 16 < 16" "c div 64 < 4" "a mod 4 < 4" "b mod 16 < 16"
    using assms by (simp_all add: less_mult_imp_div_less)
  then show "a mod 4 * 16 + b div 16 < 64" "b mod 16 * 4 + c div 64 < 64" by linarith+
qed (use assms in \<open>simp_all add: less_mult_imp_div_less\<close>)

lemma encode_finish: "b64_finish (b64_loop buffer 0 (b64_encode bytes)) = Some bytes"
proof (induction bytes arbitrary: buffer rule: b64_encode.induct)
  case 1
  then show ?case by (simp add: b64_finish_def)
next
  case (2 x)
  let ?a = "char_code x"
  have "?a div 4 < 64" "?a mod 4 * 16 < 64"
    using digits_small[OF char_code_less[of x], of 0 0] by simp_all
  from b64_two[OF this] first_byte[of 0 ?a] show ?case by (simp add: Let_def)
next
  case (3 x y)
  let ?a = "char_code x" and ?b = "char_code y"
  have "?a div 4 < 64" "?a mod 4 * 16 + ?b div 16 < 64" "?b mod 16 * 4 < 64"
    using digits_small[OF char_code_less[of x] char_code_less[of y], of 0] by simp_all
  from b64_three[OF this] first_byte[OF char_code_less[of y], of ?a] second_byte[OF _ char_code_less[of y], of 0 ?a]
  show ?case by (simp add: Let_def)
next
  case (4 x y z rest)
  let ?a = "char_code x" and ?b = "char_code y" and ?c = "char_code z"
  note small = digits_small[OF char_code_less[of x] char_code_less[of y] char_code_less[of z]]
  from b64_four[OF small, of buffer] obtain buffer' where
    "b64_loop buffer 0 (b64_encode (x # y # z # rest)) =
       map_option (\<lambda>(output, final). ([x, y, z] @ output, final)) (b64_loop buffer' 0 (b64_encode rest))"
    using first_byte[OF char_code_less[of y], of ?a] third_byte[OF char_code_less[of z], of ?b]
      second_byte[OF char_code_less[of z] char_code_less[of y], of ?a]
    by (auto simp: Let_def)
  with 4[OF refl refl refl, of buffer'] show ?case by (simp only: b64_finish_prefix) simp
qed

lemma b64_char_pad: "v < 64 \<Longrightarrow> CHR ''='' \<noteq> b64_char v"
  using b64_char_not_pad[of v] by metis

lemma encode_no_pad: "CHR ''='' \<notin> set (b64_encode bytes)"
proof (induction bytes rule: b64_encode.induct)
  case (4 x y z rest)
  from 4[OF refl refl refl] digits_small[OF char_code_less[of x] char_code_less[of y] char_code_less[of z]]
  show ?case by (simp add: Let_def b64_char_pad)
next
  case (3 x y)
  from digits_small[OF char_code_less[of x] char_code_less[of y], of 0]
  show ?case by (simp add: Let_def b64_char_pad)
next
  case (2 x)
  from digits_small[OF char_code_less[of x], of 0 0]
  show ?case by (simp add: Let_def b64_char_pad)
qed simp

lemma decode_finish:
  "CHR ''='' \<notin> set input \<Longrightarrow> decode_base64url input = b64_finish (b64_loop 0 0 input)"
  by (simp add: decode_base64url_def b64_finish_def)

lemma decode_encode [simp]: "decode_base64url (b64_encode bytes) = Some bytes"
  by (simp add: decode_finish encode_no_pad encode_finish)

text \<open>
  The decoder inverts the base64url encoding of RFC 4648 without padding, on every byte
  string, although its buffer overflows on the way.
\<close>

theorem base64url_roundtrip:
  "decode_base64url (b64_encode bytes) = Some bytes
   \<and> (b64_encode bytes = b64_encode bytes' \<longleftrightarrow> bytes = bytes')"
  by (metis decode_encode option.inject)

text \<open>
  It is not injective: after a whole number of groups a single further letter \<open>A\<close>, which RFC 4648
  excludes, leaves six pending zeros and is ignored.
\<close>

theorem base64url_accepts_stray_digit:
  "decode_base64url ''AAAA'' = Some [CHR 0x00, CHR 0x00, CHR 0x00]
   \<and> decode_base64url ''AAAAA'' = Some [CHR 0x00, CHR 0x00, CHR 0x00]"
  by code_simp

end
