(* ===== verification/Auth_Session.thy ===== *)
theory Auth_Session
  imports Auth_Policy Base64url
begin

text \<open>
  Sessions: OpenID discovery documents, signed session tokens and WebAuthn assertions,
  \<open>crates/payroll-api/src/auth_session.rs\<close>.  The digest and the signature checks
  (\<open>sha2\<close>, \<open>ring\<close>) and the parsers that \<open>serde\<close> derives are arguments of the definitions,
  collected in the record \<open>auth_libs\<close>; the theorems hold for all of them.
\<close>

section \<open>Data\<close>

definition auth_session_schema :: string where
  "auth_session_schema = ''bitween.auth-session.v1''"

definition auth_oidc_discovery_schema :: string where
  "auth_oidc_discovery_schema = ''bitween.auth-oidc-discovery.v1''"

definition auth_webauthn_assertion_schema :: string where
  "auth_webauthn_assertion_schema = ''bitween.auth-webauthn-assertion.v1''"

definition auth_session_allowed_algorithm :: string where
  "auth_session_allowed_algorithm = ''RS256''"

definition auth_webauthn_challenge_ttl_seconds :: u64 where
  "auth_webauthn_challenge_ttl_seconds = 300"

definition session_clean :: "string \<Rightarrow> string" where
  "session_clean text = take_chars 256 (trim text)"

definition clean_uri :: "string \<Rightarrow> string" where
  "clean_uri text = take_chars 512 (trim text)"

definition clean_values :: "string list \<Rightarrow> string list" where
  "clean_values texts = take 32 (filter (\<lambda>v. v \<noteq> []) (map session_clean texts))"

text \<open>\<open>value.contains(char::is_whitespace)\<close>: no whitespace starts at a continuation byte.\<close>

fun contains_whitespace :: "string \<Rightarrow> bool" where
  "contains_whitespace [] = False"
| "contains_whitespace (c # t) = (ws_len (c # t) > 0 \<or> contains_whitespace t)"

definition is_trusted_https_url :: "string \<Rightarrow> bool" where
  "is_trusted_https_url url \<longleftrightarrow>
     starts_with ''https://'' url \<and> \<not> contains_whitespace url \<and> CHR ''#'' \<notin> set url
     \<and> CHR ''?'' \<notin> set url \<and> length url \<le> 512"

record auth_session_verifier_config =
  avc_expected_issuer :: string
  avc_expected_audience :: string
  avc_now_unix :: u64

definition auth_session_verifier_config_new :: "string \<Rightarrow> string \<Rightarrow> u64 \<Rightarrow> auth_session_verifier_config" where
  "auth_session_verifier_config_new expected_issuer expected_audience now_unix =
     \<lparr>avc_expected_issuer = session_clean expected_issuer,
      avc_expected_audience = session_clean expected_audience, avc_now_unix = now_unix\<rparr>"

record oidc_discovery_verifier_config =
  odc_expected_issuer :: string
  odc_expected_jwks_uri :: "string option"

definition oidc_discovery_verifier_config_new :: "string \<Rightarrow> string option \<Rightarrow> oidc_discovery_verifier_config" where
  "oidc_discovery_verifier_config_new expected_issuer expected_jwks_uri =
     \<lparr>odc_expected_issuer = session_clean expected_issuer,
      odc_expected_jwks_uri = opt_filter (\<lambda>v. v \<noteq> []) (map_option clean_uri expected_jwks_uri)\<rparr>"

record web_authn_assertion_verifier_config =
  wac_rp_id :: string
  wac_expected_origin :: string
  wac_challenge :: string
  wac_challenge_issued_at_unix :: u64
  wac_now_unix :: u64
  wac_previous_sign_count :: nat
  wac_credential_public_key_x_base64url :: string
  wac_credential_public_key_y_base64url :: string

definition web_authn_assertion_verifier_config_new ::
    "string \<Rightarrow> string \<Rightarrow> string \<Rightarrow> u64 \<Rightarrow> u64 \<Rightarrow> nat \<Rightarrow> string \<Rightarrow> string \<Rightarrow>
     web_authn_assertion_verifier_config" where
  "web_authn_assertion_verifier_config_new rp_id expected_origin challenge challenge_issued_at_unix
       now_unix previous_sign_count x y =
     \<lparr>wac_rp_id = session_clean rp_id, wac_expected_origin = clean_uri expected_origin,
      wac_challenge = session_clean challenge, wac_challenge_issued_at_unix = challenge_issued_at_unix,
      wac_now_unix = now_unix, wac_previous_sign_count = previous_sign_count,
      wac_credential_public_key_x_base64url = session_clean x,
      wac_credential_public_key_y_base64url = session_clean y\<rparr>"

record web_authn_assertion_input =
  wai_client_data_json_base64url :: string
  wai_authenticator_data_base64url :: string
  wai_signature_der_base64url :: string

record web_authn_assertion_verification =
  wav_schema :: string
  wav_ok :: bool
  wav_verified :: bool
  wav_reason :: string
  wav_user_present :: bool
  wav_user_verified :: bool
  wav_sign_count :: nat
  wav_rp_id_hash_sha256 :: string
  wav_challenge_sha256 :: string

definition wav_denied :: "string \<Rightarrow> web_authn_assertion_verification" where
  "wav_denied reason =
     \<lparr>wav_schema = auth_webauthn_assertion_schema, wav_ok = False, wav_verified = False,
      wav_reason = reason, wav_user_present = False, wav_user_verified = False,
      wav_sign_count = 0, wav_rp_id_hash_sha256 = [], wav_challenge_sha256 = []\<rparr>"

record oidc_discovery_validation =
  odv_schema :: string
  odv_ok :: bool
  odv_verified :: bool
  odv_reason :: string
  odv_issuer :: string
  odv_jwks_uri :: string
  odv_response_types_supported :: "string list"
  odv_subject_types_supported :: "string list"
  odv_signing_algorithms :: "string list"

definition odv_denied :: "string \<Rightarrow> oidc_discovery_validation" where
  "odv_denied reason =
     \<lparr>odv_schema = auth_oidc_discovery_schema, odv_ok = False, odv_verified = False,
      odv_reason = reason, odv_issuer = [], odv_jwks_uri = [], odv_response_types_supported = [],
      odv_subject_types_supported = [], odv_signing_algorithms = []\<rparr>"

record auth_session_verification =
  asv_schema :: string
  asv_ok :: bool
  asv_verified :: bool
  asv_reason :: string
  asv_algorithm :: string
  asv_key_id :: string
  asv_issuer :: string
  asv_audience :: string
  asv_subject :: string
  asv_expires_at_unix :: u64
  asv_not_before_unix :: "u64 option"
  asv_issued_at_unix :: "u64 option"
  asv_jwt_id_sha256 :: string
  asv_webauthn_user_verified :: bool
  asv_acr_level :: string
  asv_acr_event_at_unix :: u64
  asv_role :: string
  asv_authz_policy_id :: string
  asv_authorized_tenant_id :: string
  asv_authorized_legal_entity :: string
  asv_authorized_workplace :: string

definition asv_denied :: "string \<Rightarrow> auth_session_verification" where
  "asv_denied reason =
     \<lparr>asv_schema = auth_session_schema, asv_ok = False, asv_verified = False, asv_reason = reason,
      asv_algorithm = [], asv_key_id = [], asv_issuer = [], asv_audience = [], asv_subject = [],
      asv_expires_at_unix = 0, asv_not_before_unix = None, asv_issued_at_unix = None,
      asv_jwt_id_sha256 = [], asv_webauthn_user_verified = False, asv_acr_level = [],
      asv_acr_event_at_unix = 0, asv_role = [], asv_authz_policy_id = [],
      asv_authorized_tenant_id = [], asv_authorized_legal_entity = [], asv_authorized_workplace = []\<rparr>"

record jwt_header =
  jwh_alg :: string
  jwh_kid :: "string option"
  jwh_typ :: "string option"

datatype jwt_audience = AudSingle string | AudMultiple "string list"

fun jwt_audience_contains :: "jwt_audience \<Rightarrow> string \<Rightarrow> bool" where
  "jwt_audience_contains (AudSingle v) expected = (v = expected)"
| "jwt_audience_contains (AudMultiple vs) expected = list_ex (\<lambda>v. v = expected) vs"

definition jwt_audience_display_for :: "jwt_audience \<Rightarrow> string \<Rightarrow> string" where
  "jwt_audience_display_for aud expected =
     (if jwt_audience_contains aud expected then expected
      else case aud of AudSingle v \<Rightarrow> v | AudMultiple vs \<Rightarrow> join_with '','' vs)"

record jwt_claims =
  jwc_iss :: string
  jwc_sub :: string
  jwc_aud :: jwt_audience
  jwc_exp :: u64
  jwc_nbf :: "u64 option"
  jwc_iat :: "u64 option"
  jwc_jti :: "string option"
  jwc_acr :: "string option"
  jwc_auth_time :: "u64 option"
  jwc_amr :: "(string list) option"
  jwc_webauthn_user_verified :: "bool option"
  jwc_bitween_role :: "string option"
  jwc_bitween_tenant_id :: "string option"
  jwc_bitween_legal_entity :: "string option"
  jwc_bitween_workplace :: "string option"

record jwk_key =
  jwk_kty :: string
  jwk_kid :: "string option"
  jwk_alg :: "string option"
  jwk_use :: "string option"
  jwk_n :: "string option"
  jwk_e :: "string option"

record jwks_document =
  jwd_keys :: "jwk_key list"

record oidc_provider_configuration =
  opc_issuer :: string
  opc_jwks_uri :: string
  opc_response_types_supported :: "string list"
  opc_subject_types_supported :: "string list"
  opc_id_token_signing_alg_values_supported :: "string list"

record web_authn_client_data =
  wcd_ceremony_type :: string
  wcd_challenge :: string
  wcd_origin :: string

definition trusts_rs256_signature :: "jwk_key \<Rightarrow> bool" where
  "trusts_rs256_signature key \<longleftrightarrow>
     jwk_kty key = ''RSA''
     \<and> unwrap_or auth_session_allowed_algorithm (jwk_alg key) = auth_session_allowed_algorithm
     \<and> unwrap_or ''sig'' (jwk_use key) = ''sig''"

section \<open>The libraries\<close>

text \<open>
  Digest; RSA check of modulus, exponent, message and signature; ECDSA check of public key,
  message and signature; and the parsers of the documents, which give nothing for an invalid
  text.
\<close>

record auth_libs =
  lib_sha256 :: "string \<Rightarrow> string"
  lib_rsa_verify :: "string \<Rightarrow> string \<Rightarrow> string \<Rightarrow> string \<Rightarrow> bool"
  lib_ecdsa_verify :: "string \<Rightarrow> string \<Rightarrow> string \<Rightarrow> bool"
  lib_parse_header :: "string \<Rightarrow> jwt_header option"
  lib_parse_claims :: "string \<Rightarrow> jwt_claims option"
  lib_parse_jwks :: "string \<Rightarrow> jwks_document option"
  lib_parse_discovery :: "string \<Rightarrow> oidc_provider_configuration option"
  lib_parse_client_data :: "string \<Rightarrow> web_authn_client_data option"
  lib_parse_assertion :: "string \<Rightarrow> web_authn_assertion_input option"

definition hex_sha256 :: "auth_libs \<Rightarrow> string \<Rightarrow> string" where
  "hex_sha256 libs text = hex_bytes (lib_sha256 libs text)"

section \<open>OpenID discovery\<close>

definition validate_oidc_discovery ::
    "auth_libs \<Rightarrow> string \<Rightarrow> oidc_discovery_verifier_config \<Rightarrow> oidc_discovery_validation" where
  "validate_oidc_discovery libs discovery_json config =
     (if trim discovery_json = [] then odv_denied ''oidc_discovery_missing''
      else if odc_expected_issuer config = [] then odv_denied ''oidc_config_missing''
      else case lib_parse_discovery libs discovery_json of
        None \<Rightarrow> odv_denied ''oidc_discovery_invalid''
      | Some discovery \<Rightarrow>
          let issuer = clean_uri (opc_issuer discovery);
              jwks_uri = clean_uri (opc_jwks_uri discovery);
              signing_algorithms = clean_values (opc_id_token_signing_alg_values_supported discovery);
              response_types = clean_values (opc_response_types_supported discovery);
              subject_types = clean_values (opc_subject_types_supported discovery) in
          if issuer \<noteq> odc_expected_issuer config then odv_denied ''oidc_issuer_mismatch''
          else if \<not> is_trusted_https_url jwks_uri then odv_denied ''oidc_jwks_uri_untrusted''
          else if is_some_and (\<lambda>expected. expected \<noteq> jwks_uri) (odc_expected_jwks_uri config)
          then odv_denied ''oidc_jwks_uri_mismatch''
          else if \<not> list_ex (\<lambda>a. a = auth_session_allowed_algorithm) signing_algorithms
          then odv_denied ''oidc_rs256_unsupported''
          else if response_types = [] then odv_denied ''oidc_response_types_missing''
          else if subject_types = [] then odv_denied ''oidc_subject_types_missing''
          else \<lparr>odv_schema = auth_oidc_discovery_schema, odv_ok = True, odv_verified = True,
                odv_reason = ''verified'', odv_issuer = issuer, odv_jwks_uri = jwks_uri,
                odv_response_types_supported = response_types,
                odv_subject_types_supported = subject_types,
                odv_signing_algorithms = signing_algorithms\<rparr>)"

section \<open>WebAuthn assertions\<close>

definition webauthn_public_key_from_xy ::
    "web_authn_assertion_verifier_config \<Rightarrow> string + string" where
  "webauthn_public_key_from_xy config =
     (case (decode_base64url (wac_credential_public_key_x_base64url config),
            decode_base64url (wac_credential_public_key_y_base64url config)) of
        (Some x, Some y) \<Rightarrow>
          if length x \<noteq> 32 \<or> length y \<noteq> 32 then Inl ''webauthn_public_key_invalid''
          else Inr ([CHR 0x04] @ x @ y)
      | _ \<Rightarrow> Inl ''webauthn_public_key_invalid'')"

text \<open>\<open>u32::from_be_bytes\<close> of the bytes 33 to 36.\<close>

definition sign_count_of :: "string \<Rightarrow> nat" where
  "sign_count_of authenticator_data =
     ((char_code (authenticator_data ! 33) * 256 + char_code (authenticator_data ! 34)) * 256
      + char_code (authenticator_data ! 35)) * 256 + char_code (authenticator_data ! 36)"

text \<open>The flags \<open>0x01\<close> and \<open>0x04\<close> of a byte.\<close>

definition flag_set :: "nat \<Rightarrow> char \<Rightarrow> bool" where
  "flag_set k byte = odd (char_code byte div 2 ^ k)"

definition check_authenticator_data ::
    "auth_libs \<Rightarrow> web_authn_assertion_input \<Rightarrow> web_authn_assertion_verifier_config \<Rightarrow> string \<Rightarrow>
     web_authn_assertion_verification" where
  "check_authenticator_data libs assertion config client_data_bytes =
     (case decode_base64url (wai_authenticator_data_base64url assertion) of
        None \<Rightarrow> wav_denied ''webauthn_authenticator_data_invalid''
      | Some authenticator_data \<Rightarrow>
          if length authenticator_data < 37 then wav_denied ''webauthn_authenticator_data_invalid''
          else
            let rp_id_hash = take 32 authenticator_data;
                flags = authenticator_data ! 32;
                user_present = flag_set 0 flags;
                user_verified = flag_set 2 flags;
                sign_count = sign_count_of authenticator_data in
            if rp_id_hash \<noteq> lib_sha256 libs (wac_rp_id config)
            then wav_denied ''webauthn_rp_id_hash_mismatch''
            else if \<not> user_present then wav_denied ''webauthn_user_not_present''
            else if \<not> user_verified then wav_denied ''webauthn_user_not_verified''
            else if wac_previous_sign_count config > 0 \<and> sign_count > 0
                    \<and> sign_count \<le> wac_previous_sign_count config
            then wav_denied ''webauthn_sign_count_replayed''
            else case webauthn_public_key_from_xy config of
              Inl reason \<Rightarrow> wav_denied reason
            | Inr public_key \<Rightarrow>
                (case decode_base64url (wai_signature_der_base64url assertion) of
                   None \<Rightarrow> wav_denied ''webauthn_signature_invalid''
                 | Some signature \<Rightarrow>
                     let signed_data = authenticator_data @ lib_sha256 libs client_data_bytes in
                     if \<not> lib_ecdsa_verify libs public_key signed_data signature
                     then wav_denied ''webauthn_signature_invalid''
                     else \<lparr>wav_schema = auth_webauthn_assertion_schema, wav_ok = True,
                           wav_verified = True, wav_reason = ''verified'',
                           wav_user_present = user_present, wav_user_verified = user_verified,
                           wav_sign_count = sign_count,
                           wav_rp_id_hash_sha256 = hex_bytes rp_id_hash,
                           wav_challenge_sha256 = hex_sha256 libs (wac_challenge config)\<rparr>))"

definition verify_webauthn_assertion ::
    "auth_libs \<Rightarrow> web_authn_assertion_input \<Rightarrow> web_authn_assertion_verifier_config \<Rightarrow>
     web_authn_assertion_verification" where
  "verify_webauthn_assertion libs assertion config =
     (if wac_rp_id config = [] \<or> wac_expected_origin config = [] \<or> wac_challenge config = []
         \<or> wac_credential_public_key_x_base64url config = []
         \<or> wac_credential_public_key_y_base64url config = []
      then wav_denied ''webauthn_config_missing''
      else if \<not> is_trusted_https_url (wac_expected_origin config)
      then wav_denied ''webauthn_origin_untrusted''
      else if wac_challenge_issued_at_unix config = 0
              \<or> wac_challenge_issued_at_unix config > wac_now_unix config
              \<or> wac_now_unix config - wac_challenge_issued_at_unix config > auth_webauthn_challenge_ttl_seconds
      then wav_denied ''webauthn_challenge_expired''
      else case decode_base64url (wai_client_data_json_base64url assertion) of
        None \<Rightarrow> wav_denied ''webauthn_client_data_invalid''
      | Some client_data_bytes \<Rightarrow>
          (case lib_parse_client_data libs client_data_bytes of
             None \<Rightarrow> wav_denied ''webauthn_client_data_invalid''
           | Some client_data \<Rightarrow>
               if wcd_ceremony_type client_data \<noteq> ''webauthn.get'' then wav_denied ''webauthn_type_invalid''
               else if session_clean (wcd_challenge client_data) \<noteq> wac_challenge config
               then wav_denied ''webauthn_challenge_mismatch''
               else if clean_uri (wcd_origin client_data) \<noteq> wac_expected_origin config
               then wav_denied ''webauthn_origin_mismatch''
               else check_authenticator_data libs assertion config client_data_bytes))"

section \<open>Session tokens\<close>

definition decode_json_part :: "(string \<Rightarrow> 'a option) \<Rightarrow> string \<Rightarrow> string + 'a" where
  "decode_json_part parse part =
     (case decode_base64url part of
        None \<Rightarrow> Inl ''jwt_header_invalid''
      | Some bytes \<Rightarrow> ok_or ''jwt_header_invalid'' (parse bytes))"

definition claims_user_verified :: "jwt_claims \<Rightarrow> bool" where
  "claims_user_verified claims \<longleftrightarrow>
     unwrap_or False (jwc_webauthn_user_verified claims)
     \<or> is_some_and (list_ex (\<lambda>v. to_ascii_lowercase (trim v) \<in> set [''webauthn'', ''passkey'', ''fido2'']))
         (jwc_amr claims)"

definition validate_claims ::
    "auth_libs \<Rightarrow> string \<Rightarrow> string \<Rightarrow> jwt_claims \<Rightarrow> auth_session_verifier_config \<Rightarrow>
     auth_session_verification" where
  "validate_claims libs algorithm key_id claims config =
     (let subject = session_clean (jwc_sub claims);
          jwt_id = session_clean (unwrap_or [] (jwc_jti claims));
          webauthn_user_verified = claims_user_verified claims;
          acr_level = session_clean (unwrap_or [] (jwc_acr claims));
          acr_event_at_unix = unwrap_or 0 (jwc_auth_time claims);
          role = session_clean (unwrap_or [] (jwc_bitween_role claims));
          tenant_id = session_clean (unwrap_or [] (jwc_bitween_tenant_id claims));
          legal_entity = session_clean (unwrap_or [] (jwc_bitween_legal_entity claims));
          workplace = session_clean (unwrap_or [] (jwc_bitween_workplace claims));
          now = avc_now_unix config in
      if jwc_iss claims \<noteq> avc_expected_issuer config then asv_denied ''jwt_issuer_mismatch''
      else if \<not> jwt_audience_contains (jwc_aud claims) (avc_expected_audience config)
      then asv_denied ''jwt_audience_mismatch''
      else if subject = [] then asv_denied ''jwt_subject_missing''
      else if jwc_exp claims \<le> now then asv_denied ''jwt_expired''
      else if is_some_and (\<lambda>nbf. nbf > now) (jwc_nbf claims) then asv_denied ''jwt_not_yet_valid''
      else if is_some_and (\<lambda>iat. iat > (now + 60) mod 2 ^ 64) (jwc_iat claims)
      then asv_denied ''jwt_issued_in_future''
      else if jwt_id = [] then asv_denied ''jwt_id_missing''
      else if \<not> webauthn_user_verified then asv_denied ''webauthn_user_verification_missing''
      else if acr_parse acr_level = None then asv_denied ''acr_missing''
      else if acr_event_at_unix = 0 \<or> acr_event_at_unix > now then asv_denied ''acr_event_invalid''
      else if role = [] then asv_denied ''role_missing''
      else if tenant_id = [] \<or> legal_entity = [] \<or> workplace = [] then asv_denied ''tenant_scope_missing''
      else \<lparr>asv_schema = auth_session_schema, asv_ok = True, asv_verified = True,
            asv_reason = ''verified'', asv_algorithm = algorithm, asv_key_id = key_id,
            asv_issuer = jwc_iss claims,
            asv_audience = jwt_audience_display_for (jwc_aud claims) (avc_expected_audience config),
            asv_subject = subject, asv_expires_at_unix = jwc_exp claims,
            asv_not_before_unix = jwc_nbf claims, asv_issued_at_unix = jwc_iat claims,
            asv_jwt_id_sha256 = hex_sha256 libs jwt_id,
            asv_webauthn_user_verified = webauthn_user_verified, asv_acr_level = acr_level,
            asv_acr_event_at_unix = acr_event_at_unix, asv_role = role,
            asv_authz_policy_id = authz_policy_id, asv_authorized_tenant_id = tenant_id,
            asv_authorized_legal_entity = legal_entity, asv_authorized_workplace = workplace\<rparr>)"

text \<open>The key of the token, and the check of its signature.\<close>

definition check_token_signature ::
    "auth_libs \<Rightarrow> string \<Rightarrow> string \<Rightarrow> string \<Rightarrow> string \<Rightarrow> string \<Rightarrow> string option" where
  "check_token_signature libs jwks_json key_id header_part payload_part signature_part =
     (case lib_parse_jwks libs jwks_json of
        None \<Rightarrow> Some ''jwks_invalid''
      | Some jwks \<Rightarrow>
          (case find_first (\<lambda>key. jwk_kid key = Some key_id) (jwd_keys jwks) of
             None \<Rightarrow> Some ''jwks_key_missing''
           | Some jwk \<Rightarrow>
               if \<not> trusts_rs256_signature jwk then Some ''jwks_key_untrusted''
               else case (Option.bind (jwk_n jwk) decode_base64url, Option.bind (jwk_e jwk) decode_base64url) of
                 (Some n, Some e) \<Rightarrow>
                   (case decode_base64url signature_part of
                      None \<Rightarrow> Some ''jwt_signature_invalid''
                    | Some signature \<Rightarrow>
                        if lib_rsa_verify libs n e (header_part @ ''.'' @ payload_part) signature then None
                        else Some ''jwt_signature_invalid'')
               | _ \<Rightarrow> Some ''jwks_key_invalid''))"

definition verify_jwt_session ::
    "auth_libs \<Rightarrow> string \<Rightarrow> string \<Rightarrow> auth_session_verifier_config \<Rightarrow> auth_session_verification" where
  "verify_jwt_session libs token jwks_json config =
     (if trim token = [] then asv_denied ''token_missing''
      else if avc_expected_issuer config = [] \<or> avc_expected_audience config = []
      then asv_denied ''verifier_config_missing''
      else case split_on (CHR ''.'') token of
        [header_part, payload_part, signature_part] \<Rightarrow>
          (if header_part = [] \<or> payload_part = [] \<or> signature_part = [] then asv_denied ''jwt_format_invalid''
           else case decode_json_part (lib_parse_header libs) header_part of
             Inl reason \<Rightarrow> asv_denied reason
           | Inr header \<Rightarrow>
               let key_id = session_clean (unwrap_or [] (jwh_kid header)) in
               if jwh_alg header \<noteq> auth_session_allowed_algorithm then asv_denied ''jwt_alg_untrusted''
               else if is_some_and (\<lambda>typ. typ \<noteq> ''JWT'') (jwh_typ header) then asv_denied ''jwt_type_invalid''
               else if key_id = [] then asv_denied ''jwt_kid_missing''
               else case decode_json_part (lib_parse_claims libs) payload_part of
                 Inl _ \<Rightarrow> asv_denied ''jwt_payload_invalid''
               | Inr claims \<Rightarrow>
                   (case check_token_signature libs jwks_json key_id header_part payload_part signature_part of
                      Some reason \<Rightarrow> asv_denied reason
                    | None \<Rightarrow> validate_claims libs (jwh_alg header) key_id claims config))
      | _ \<Rightarrow> asv_denied ''jwt_format_invalid'')"

section \<open>Properties\<close>

lemma denied_not_verified [simp]:
  "\<not> asv_verified (asv_denied reason)" "\<not> wav_verified (wav_denied reason)"
  "\<not> odv_verified (odv_denied reason)"
  by (simp_all add: asv_denied_def wav_denied_def odv_denied_def)

lemma split_on_three:
  "split_on sep s = [a, b, c] \<Longrightarrow> s = a @ sep # b @ sep # c \<and> sep \<notin> set a \<and> sep \<notin> set b \<and> sep \<notin> set c"
proof -
  have join: "s = (case ps of [] \<Rightarrow> [] | p # qs \<Rightarrow> p @ concat (map ((#) sep) qs)) \<and> (\<forall>p \<in> set ps. sep \<notin> set p)"
    if "split_on sep s = ps" for ps
    using that
  proof (induction s arbitrary: ps)
    case (Cons x s)
    obtain p qs where s: "split_on sep s = p # qs" by (cases "split_on sep s") auto
    have ps: "ps = (if x = sep then [] # p # qs else (x # p) # qs)"
      using Cons.prems s by auto
    from Cons.IH[OF s] have "s = p @ concat (map ((#) sep) qs)" "sep \<notin> set p" "\<forall>q \<in> set qs. sep \<notin> set q"
      by simp_all
    then show ?case by (auto simp: ps)
  qed auto
  from join[of "[a, b, c]"] show "split_on sep s = [a, b, c] \<Longrightarrow> ?thesis" by auto
qed

text \<open>A claim that the checks of the claims let through.\<close>

definition claims_accepted :: "auth_session_verifier_config \<Rightarrow> jwt_claims \<Rightarrow> bool" where
  "claims_accepted config claims \<longleftrightarrow>
     jwc_iss claims = avc_expected_issuer config
     \<and> jwt_audience_contains (jwc_aud claims) (avc_expected_audience config)
     \<and> session_clean (jwc_sub claims) \<noteq> []
     \<and> avc_now_unix config < jwc_exp claims
     \<and> (\<forall>nbf. jwc_nbf claims = Some nbf \<longrightarrow> nbf \<le> avc_now_unix config)
     \<and> (\<forall>iat. jwc_iat claims = Some iat \<longrightarrow> iat \<le> (avc_now_unix config + 60) mod 2 ^ 64)
     \<and> session_clean (unwrap_or [] (jwc_jti claims)) \<noteq> []
     \<and> claims_user_verified claims
     \<and> acr_parse (session_clean (unwrap_or [] (jwc_acr claims))) \<noteq> None
     \<and> (\<exists>t. jwc_auth_time claims = Some t \<and> t \<noteq> 0 \<and> t \<le> avc_now_unix config)
     \<and> session_clean (unwrap_or [] (jwc_bitween_role claims)) \<noteq> []
     \<and> session_clean (unwrap_or [] (jwc_bitween_tenant_id claims)) \<noteq> []
     \<and> session_clean (unwrap_or [] (jwc_bitween_legal_entity claims)) \<noteq> []
     \<and> session_clean (unwrap_or [] (jwc_bitween_workplace claims)) \<noteq> []"

lemma verified_unless:
  "asv_verified (if P then asv_denied reason else session) \<longleftrightarrow> \<not> P \<and> asv_verified session"
  by simp

lemma validate_claims_verified:
  "asv_verified (validate_claims libs algorithm key_id claims config) \<longleftrightarrow> claims_accepted config claims"
proof -
  have auth_time: "\<not> (unwrap_or 0 x = 0 \<or> unwrap_or 0 x > n) \<longleftrightarrow> (\<exists>t. x = Some t \<and> t \<noteq> 0 \<and> t \<le> n)"
    for x :: "int option" and n
    by (cases x) auto
  have bound: "\<not> is_some_and (\<lambda>v. v > n) x \<longleftrightarrow> (\<forall>v. x = Some v \<longrightarrow> v \<le> n)" for x :: "int option" and n
    by (cases x) auto
  show ?thesis
    unfolding validate_claims_def claims_accepted_def Let_def verified_unless auth_time bound
    by (simp add: not_le)
qed

lemma validate_claims_fields:
  assumes "asv_verified (validate_claims libs algorithm key_id claims config)"
  shows "validate_claims libs algorithm key_id claims config = r \<Longrightarrow>
    asv_subject r = session_clean (jwc_sub claims)
    \<and> asv_role r = session_clean (unwrap_or [] (jwc_bitween_role claims))
    \<and> asv_authorized_tenant_id r = session_clean (unwrap_or [] (jwc_bitween_tenant_id claims))
    \<and> asv_authorized_legal_entity r = session_clean (unwrap_or [] (jwc_bitween_legal_entity claims))
    \<and> asv_authorized_workplace r = session_clean (unwrap_or [] (jwc_bitween_workplace claims))
    \<and> asv_expires_at_unix r = jwc_exp claims \<and> asv_key_id r = key_id
    \<and> acr_parse (asv_acr_level r) \<noteq> None"
  using assms unfolding validate_claims_def Let_def verified_unless
  by (elim conjE) (simp only: if_False, clarsimp)

text \<open>What the three parts of a token have to be.\<close>

definition token_signed :: "auth_libs \<Rightarrow> string \<Rightarrow> string \<Rightarrow> jwt_header \<Rightarrow> jwt_claims \<Rightarrow> bool" where
  "token_signed libs jwks_json token header claims \<longleftrightarrow>
     (\<exists>header_part payload_part signature_part jwks jwk n e signature.
        token = header_part @ ''.'' @ payload_part @ ''.'' @ signature_part
      \<and> Option.bind (decode_base64url header_part) (lib_parse_header libs) = Some header
      \<and> Option.bind (decode_base64url payload_part) (lib_parse_claims libs) = Some claims
      \<and> jwh_alg header = ''RS256''
      \<and> lib_parse_jwks libs jwks_json = Some jwks
      \<and> find_first (\<lambda>key. jwk_kid key = Some (session_clean (unwrap_or [] (jwh_kid header)))) (jwd_keys jwks) = Some jwk
      \<and> trusts_rs256_signature jwk
      \<and> Option.bind (jwk_n jwk) decode_base64url = Some n \<and> Option.bind (jwk_e jwk) decode_base64url = Some e
      \<and> decode_base64url signature_part = Some signature
      \<and> lib_rsa_verify libs n e (header_part @ ''.'' @ payload_part) signature)"

lemma decode_json_part_Inr:
  "decode_json_part parse part = Inr v \<longleftrightarrow> Option.bind (decode_base64url part) parse = Some v"
  by (cases "decode_base64url part") (simp_all add: decode_json_part_def)

lemma verified_session_parts:
  assumes "asv_verified (verify_jwt_session libs token jwks_json config)"
  obtains header claims where "token_signed libs jwks_json token header claims"
    "verify_jwt_session libs token jwks_json config
      = validate_claims libs (jwh_alg header) (session_clean (unwrap_or [] (jwh_kid header))) claims config"
proof -
  let ?parts = "split_on (CHR ''.'') token"
  from assms have "trim token \<noteq> []" "\<not> (avc_expected_issuer config = [] \<or> avc_expected_audience config = [])"
    by (auto simp: verify_jwt_session_def split: if_splits)
  note start = this
  obtain h p s where parts: "?parts = [h, p, s]"
    using assms start by (auto simp: verify_jwt_session_def split: list.splits)
  from split_on_three[OF parts] have token: "token = h @ ''.'' @ p @ ''.'' @ s" by simp
  from assms start parts obtain header where
    header: "decode_json_part (lib_parse_header libs) h = Inr header"
      "jwh_alg header = auth_session_allowed_algorithm"
    by (auto simp: verify_jwt_session_def Let_def split: sum.splits if_splits)
  define key_id where "key_id = session_clean (unwrap_or [] (jwh_kid header))"
  from assms start parts header obtain claims where
    claims: "decode_json_part (lib_parse_claims libs) p = Inr claims"
      "check_token_signature libs jwks_json key_id h p s = None"
    by (auto simp: verify_jwt_session_def Let_def key_id_def split: sum.splits if_splits option.splits)
  have run: "verify_jwt_session libs token jwks_json config
      = validate_claims libs (jwh_alg header) key_id claims config"
    using assms start parts header claims
    by (auto simp: verify_jwt_session_def Let_def key_id_def split: if_splits)
  from claims(2) have "token_signed libs jwks_json token header claims"
    unfolding token_signed_def check_token_signature_def
    using token header claims(1)
    by (auto simp: decode_json_part_Inr key_id_def auth_session_allowed_algorithm_def
        split: option.splits if_splits)
  with run show thesis using that unfolding key_id_def by blast
qed

text \<open>
  C19: A session is verified only on a token of three parts whose header names RS256 and a key of
  the provider, the first with that name, an RSA signing key under which the signature of the
  header and payload as sent is valid; and only if the signed claims were issued by the expected
  issuer for the expected audience, are in their time window, and show a verified user, a
  known assurance level with a past event, a role and a full scope.  The session's subject,
  role and scope are those of the signed claims.
\<close>

theorem verified_session_sound:
  assumes "asv_verified session" and "session = verify_jwt_session libs token jwks_json config"
  shows "\<exists>header claims. token_signed libs jwks_json token header claims \<and> claims_accepted config claims
    \<and> asv_subject session = session_clean (jwc_sub claims)
    \<and> asv_role session = session_clean (unwrap_or [] (jwc_bitween_role claims))
    \<and> asv_authorized_tenant_id session = session_clean (unwrap_or [] (jwc_bitween_tenant_id claims))
    \<and> asv_authorized_legal_entity session = session_clean (unwrap_or [] (jwc_bitween_legal_entity claims))
    \<and> asv_authorized_workplace session = session_clean (unwrap_or [] (jwc_bitween_workplace claims))
    \<and> avc_now_unix config < asv_expires_at_unix session \<and> acr_parse (asv_acr_level session) \<noteq> None"
proof -
  from assms have v: "asv_verified (verify_jwt_session libs token jwks_json config)" by simp
  from verified_session_parts[OF v] obtain header claims where
    signed: "token_signed libs jwks_json token header claims"
    and run: "verify_jwt_session libs token jwks_json config
      = validate_claims libs (jwh_alg header) (session_clean (unwrap_or [] (jwh_kid header))) claims config"
    by blast
  from v have ok: "claims_accepted config claims" unfolding run validate_claims_verified .
  from validate_claims_fields[OF v[unfolded run] refl] signed ok show ?thesis
    unfolding assms(2) run by (auto simp: claims_accepted_def)
qed

text \<open>Libraries that accept one token, for the witnesses.\<close>

definition sample_claims :: jwt_claims where
  "sample_claims =
     \<lparr>jwc_iss = ''i'', jwc_sub = ''u'', jwc_aud = AudSingle ''a'', jwc_exp = 20, jwc_nbf = None,
      jwc_iat = Some 5, jwc_jti = Some ''j'', jwc_acr = Some ''routine'', jwc_auth_time = Some 6,
      jwc_amr = None, jwc_webauthn_user_verified = Some True, jwc_bitween_role = Some ''r'',
      jwc_bitween_tenant_id = Some ''t'', jwc_bitween_legal_entity = Some ''l'',
      jwc_bitween_workplace = Some ''w''\<rparr>"

definition sample_libs :: auth_libs where
  "sample_libs =
     \<lparr>lib_sha256 = (\<lambda>_. replicate 32 (CHR ''h'')), lib_rsa_verify = (\<lambda>n e m s. True),
      lib_ecdsa_verify = (\<lambda>k m s. True),
      lib_parse_header = (\<lambda>_. Some \<lparr>jwh_alg = ''RS256'', jwh_kid = Some ''k'', jwh_typ = None\<rparr>),
      lib_parse_claims = (\<lambda>_. Some sample_claims),
      lib_parse_jwks = (\<lambda>_. Some \<lparr>jwd_keys = [\<lparr>jwk_kty = ''RSA'', jwk_kid = Some ''k'', jwk_alg = None,
        jwk_use = None, jwk_n = Some ''AQ'', jwk_e = Some ''AQ''\<rparr>]\<rparr>),
      lib_parse_discovery = (\<lambda>_. None),
      lib_parse_client_data = (\<lambda>_. Some \<lparr>wcd_ceremony_type = ''webauthn.get'', wcd_challenge = ''c'',
        wcd_origin = ''https://o''\<rparr>),
      lib_parse_assertion = (\<lambda>_. None)\<rparr>"

lemma sample_facts:
  "decode_base64url ''AQ'' = Some [CHR 0x01]" "trim ''AQ.AQ.AQ'' = ''AQ.AQ.AQ''"
  "session_clean ''u'' = ''u''" "session_clean ''i'' = ''i''" "session_clean ''a'' = ''a''"
  "session_clean ''j'' = ''j''" "session_clean ''k'' = ''k''" "session_clean ''r'' = ''r''"
  "session_clean ''t'' = ''t''" "session_clean ''l'' = ''l''" "session_clean ''w'' = ''w''"
  "session_clean ''routine'' = ''routine''" "acr_parse ''routine'' = Some AcrRoutine"
  by code_simp+

theorem verified_session_sound_witness:
  "\<exists>session. asv_verified session \<and> asv_subject session = ''u'' \<and> 10 < asv_expires_at_unix session
     \<and> session = verify_jwt_session sample_libs ''AQ.AQ.AQ'' [] (auth_session_verifier_config_new ''i'' ''a'' 10)"
proof -
  let ?s = "verify_jwt_session sample_libs ''AQ.AQ.AQ'' [] (auth_session_verifier_config_new ''i'' ''a'' 10)"
  have ok: "asv_verified ?s" "asv_subject ?s = ''u''"
    unfolding verify_jwt_session_def sample_libs_def sample_claims_def
    by (simp_all add: sample_facts auth_session_verifier_config_new_def decode_json_part_def
        check_token_signature_def trusts_rs256_signature_def validate_claims_def claims_user_verified_def
        auth_session_allowed_algorithm_def Let_def)
  from verified_session_sound[OF ok(1) refl] ok show ?thesis
    by (auto simp: auth_session_verifier_config_new_def)
qed

text \<open>
  C20: A WebAuthn assertion is verified only within five minutes of its challenge, on client data
  of an assertion ceremony with that challenge and the expected origin, and on authenticator data
  for the relying party with the user present and verified, signed together with the digest of
  the client data; and of two signature counts that are not zero the new one is the larger.
\<close>

theorem verified_assertion_sound:
  assumes "wav_verified (verify_webauthn_assertion libs assertion config)"
  shows "\<exists>client_bytes client data x y signature.
      decode_base64url (wai_client_data_json_base64url assertion) = Some client_bytes
    \<and> lib_parse_client_data libs client_bytes = Some client
    \<and> wcd_ceremony_type client = ''webauthn.get''
    \<and> session_clean (wcd_challenge client) = wac_challenge config \<and> wac_challenge config \<noteq> []
    \<and> clean_uri (wcd_origin client) = wac_expected_origin config
    \<and> is_trusted_https_url (wac_expected_origin config)
    \<and> 0 < wac_now_unix config - wac_challenge_issued_at_unix config + 1
    \<and> wac_now_unix config - wac_challenge_issued_at_unix config \<le> 300
    \<and> decode_base64url (wai_authenticator_data_base64url assertion) = Some data
    \<and> 37 \<le> length data \<and> take 32 data = lib_sha256 libs (wac_rp_id config)
    \<and> flag_set 0 (data ! 32) \<and> flag_set 2 (data ! 32)
    \<and> (wac_previous_sign_count config = 0 \<or> sign_count_of data = 0
        \<or> wac_previous_sign_count config < sign_count_of data)
    \<and> decode_base64url (wac_credential_public_key_x_base64url config) = Some x \<and> length x = 32
    \<and> decode_base64url (wac_credential_public_key_y_base64url config) = Some y \<and> length y = 32
    \<and> decode_base64url (wai_signature_der_base64url assertion) = Some signature
    \<and> lib_ecdsa_verify libs ([CHR 0x04] @ x @ y) (data @ lib_sha256 libs client_bytes) signature"
proof -
  from assms obtain client_bytes client where c:
    "decode_base64url (wai_client_data_json_base64url assertion) = Some client_bytes"
    "lib_parse_client_data libs client_bytes = Some client" "wcd_ceremony_type client = ''webauthn.get''"
    "session_clean (wcd_challenge client) = wac_challenge config" "wac_challenge config \<noteq> []"
    "clean_uri (wcd_origin client) = wac_expected_origin config"
    "is_trusted_https_url (wac_expected_origin config)"
    "0 < wac_now_unix config - wac_challenge_issued_at_unix config + 1"
    "wac_now_unix config - wac_challenge_issued_at_unix config \<le> 300"
    "wav_verified (check_authenticator_data libs assertion config client_bytes)"
    by (auto simp: verify_webauthn_assertion_def auth_webauthn_challenge_ttl_seconds_def
        split: if_splits option.splits)
  from c(10) obtain data public_key signature where d:
    "decode_base64url (wai_authenticator_data_base64url assertion) = Some data"
    "37 \<le> length data" "take 32 data = lib_sha256 libs (wac_rp_id config)"
    "flag_set 0 (data ! 32)" "flag_set 2 (data ! 32)"
    "wac_previous_sign_count config = 0 \<or> sign_count_of data = 0
        \<or> wac_previous_sign_count config < sign_count_of data"
    "webauthn_public_key_from_xy config = Inr public_key"
    "decode_base64url (wai_signature_der_base64url assertion) = Some signature"
    "lib_ecdsa_verify libs public_key (data @ lib_sha256 libs client_bytes) signature"
    by (auto simp: check_authenticator_data_def Let_def split: if_splits option.splits sum.splits)
  from d(7) obtain x y where
    "decode_base64url (wac_credential_public_key_x_base64url config) = Some x" "length x = 32"
    "decode_base64url (wac_credential_public_key_y_base64url config) = Some y" "length y = 32"
    "public_key = [CHR 0x04] @ x @ y"
    by (auto simp: webauthn_public_key_from_xy_def split: if_splits option.splits)
  with c d show ?thesis by (metis (no_types, lifting))
qed

lemma assertion_facts:
  "session_clean ''c'' = ''c''" "clean_uri ''https://o'' = ''https://o''" "is_trusted_https_url ''https://o''"
  "flag_set 0 (CHR 0x05)" "flag_set 2 (CHR 0x05)"
  by code_simp+

theorem verified_assertion_sound_witness:
  "\<exists>data. decode_base64url (b64_encode (replicate 32 (CHR ''h'') @ [CHR 0x05] @ replicate 4 (CHR 0x00))) = Some data
     \<and> 37 \<le> length data \<and> flag_set 2 (data ! 32)"
proof -
  define data where "data = replicate 32 (CHR ''h'') @ [CHR 0x05] @ replicate 4 (CHR 0x00)"
  define assertion where "assertion = \<lparr>wai_client_data_json_base64url = b64_encode ''x'',
    wai_authenticator_data_base64url = b64_encode data, wai_signature_der_base64url = b64_encode ''s''\<rparr>"
  define config where "config = \<lparr>wac_rp_id = ''p'', wac_expected_origin = ''https://o'', wac_challenge = ''c'',
    wac_challenge_issued_at_unix = 100, wac_now_unix = 200, wac_previous_sign_count = 0,
    wac_credential_public_key_x_base64url = b64_encode (replicate 32 (CHR 0x01)),
    wac_credential_public_key_y_base64url = b64_encode (replicate 32 (CHR 0x02))\<rparr>"
  have d: "length data = 37" "take 32 data = replicate 32 (CHR ''h'')" "data ! 32 = CHR 0x05"
    by (simp_all add: data_def nth_append)
  have nonempty: "b64_encode (replicate 32 c) \<noteq> []" for c
    using decode_encode[of "replicate 32 c"] decode_encode[of "[]"] by (metis length_replicate list.size(3) b64_encode.simps(1) option.inject zero_neq_numeral)
  have key: "webauthn_public_key_from_xy config
      = Inr ([CHR 0x04] @ replicate 32 (CHR 0x01) @ replicate 32 (CHR 0x02))"
    by (simp add: webauthn_public_key_from_xy_def config_def)
  have "wav_verified (check_authenticator_data sample_libs assertion config ''x'')"
    unfolding check_authenticator_data_def key
    by (simp add: assertion_def config_def d assertion_facts sample_libs_def Let_def del: b64_encode.simps)
  then have "wav_verified (verify_webauthn_assertion sample_libs assertion config)"
    by (simp add: verify_webauthn_assertion_def config_def nonempty assertion_facts
        auth_webauthn_challenge_ttl_seconds_def sample_libs_def assertion_def del: b64_encode.simps)
  from verified_assertion_sound[OF this] show ?thesis
    unfolding data_def[symmetric] by (auto simp: assertion_def simp del: b64_encode.simps)
qed

text \<open>A counter that falls back to zero is accepted, whatever it was before.\<close>

lemma counter_reset_accepted:
  assumes "decode_base64url (wai_authenticator_data_base64url assertion) = Some data"
    and "sign_count_of data = 0"
  shows "check_authenticator_data libs assertion config client_bytes
    = check_authenticator_data libs assertion (config\<lparr>wac_previous_sign_count := 0\<rparr>) client_bytes"
proof -
  have key: "webauthn_public_key_from_xy (config\<lparr>wac_previous_sign_count := 0\<rparr>) = webauthn_public_key_from_xy config"
    by (simp add: webauthn_public_key_from_xy_def)
  show ?thesis unfolding check_authenticator_data_def key
    by (simp add: assms Let_def split: sum.split option.split)
qed

text \<open>
  A discovery document is accepted only from the expected issuer, with the expected key set
  address if one is configured, a secure one in any case, and with RS256 among its algorithms.
\<close>

theorem discovery_sound:
  assumes "odv_verified (validate_oidc_discovery libs discovery_json config)"
  shows "\<exists>discovery. lib_parse_discovery libs discovery_json = Some discovery
    \<and> clean_uri (opc_issuer discovery) = odc_expected_issuer config \<and> odc_expected_issuer config \<noteq> []
    \<and> is_trusted_https_url (clean_uri (opc_jwks_uri discovery))
    \<and> (\<forall>uri. odc_expected_jwks_uri config = Some uri \<longrightarrow> clean_uri (opc_jwks_uri discovery) = uri)
    \<and> ''RS256'' \<in> set (odv_signing_algorithms (validate_oidc_discovery libs discovery_json config))"
proof -
  have ex: "list_ex (\<lambda>a. a = v) vs \<longleftrightarrow> v \<in> set vs" for v :: string and vs
    by (auto simp: list_ex_iff)
  from assms show ?thesis
    by (cases "odc_expected_jwks_uri config")
      (auto simp: validate_oidc_discovery_def auth_session_allowed_algorithm_def ex Let_def
        split: if_splits option.splits)
qed

end
