(* ===== verification/Postgres_Repository.thy ===== *)
theory Postgres_Repository
  imports Base64url Btree
begin

text \<open>
  The PostgreSQL repository: configuration, TLS policy, tenant scope, sessions and the
  migration runner, \<open>crates/payroll-api/src/postgres_repository.rs\<close>, with the migration job of
  \<open>crates/payroll-api/src/bin/postgres_migrate.rs\<close>.

  The database is not code of the repository.  A connection is a state of some type \<open>'db\<close>, and the
  calls of its client are the functions of the record \<open>pg_client\<close>: each gives the next state and
  whether, or with what answer, the call succeeded.  What the runner relies on (transactions,
  the ledger table, scripts that leave the ledger alone) is the predicate \<open>ledger_laws\<close>.  The
  texts of the migration files are a function of their names.
\<close>

section \<open>Configuration\<close>

datatype postgres_tls_policy = VerifyFull | VerifyCa | ApprovedEncryptedNetworkBoundary

record postgres_repository_config =
  prc_dsn :: string
  prc_tls_policy :: postgres_tls_policy
  prc_implicit_migrations_allowed :: bool

datatype postgres_repository_status =
    MissingDsn
  | Configured postgres_tls_policy string bool
  | Invalid string

record postgres_driver_config =
  pdc_driver_crate :: string
  pdc_required_tls_connector_crate :: string
  pdc_redacted_dsn :: string
  pdc_tls_policy :: postgres_tls_policy
  pdc_implicit_migrations_allowed :: bool

record postgres_tls_connector_profile =
  ptp_connector_crate :: string
  ptp_crypto_provider :: string
  ptp_root_store :: string
  ptp_root_count :: nat
  ptp_verification :: string
  ptp_sni_enabled :: bool
  ptp_permits_no_tls :: bool

record postgres_tenant_scope =
  pts_tenant_id :: string
  pts_legal_entity_id :: string
  pts_workplace_id :: string

record postgres_connection_failure =
  pcf_code :: string
  pcf_redacted_dsn :: string

definition redacted_dsn :: string where
  "redacted_dsn = ''postgres://<redacted>''"

definition clean_dsn :: "string option \<Rightarrow> string + string" where
  "clean_dsn dsn =
     (case opt_filter (\<lambda>v. v \<noteq> []) (map_option trim dsn) of
        None \<Rightarrow> Inl ''postgres_dsn_required''
      | Some d \<Rightarrow>
          if starts_with ''postgres://'' d \<or> starts_with ''postgresql://'' d then Inr d
          else Inl ''postgres_dsn_invalid_scheme'')"

definition tls_policy_parse :: "string option \<Rightarrow> string + postgres_tls_policy" where
  "tls_policy_parse value_text =
     (let v = unwrap_or ''verify-full'' (opt_filter (\<lambda>v. v \<noteq> []) (map_option trim value_text));
          normalized = to_ascii_lowercase (replace_chars [CHR ''_''] (CHR ''-'') v) in
      if normalized = ''verify-full'' \<or> normalized = ''require'' then Inr VerifyFull
      else if normalized = ''verify-ca'' then Inr VerifyCa
      else if normalized \<in> set [''approved-encrypted-network-boundary'', ''service-mesh'', ''mesh'', ''mtls-sidecar'']
      then Inr ApprovedEncryptedNetworkBoundary
      else if normalized \<in> set [''no-tls'', ''notls'', ''disable'', ''disabled''] then Inl ''postgres_no_tls_rejected''
      else Inl ''postgres_tls_policy_invalid'')"

definition from_env_parts :: "string option \<Rightarrow> string option \<Rightarrow> string + postgres_repository_config" where
  "from_env_parts dsn tls_policy =
     result_bind (clean_dsn dsn) (\<lambda>clean.
     result_bind (tls_policy_parse tls_policy) (\<lambda>policy.
       Inr \<lparr>prc_dsn = clean, prc_tls_policy = policy, prc_implicit_migrations_allowed = False\<rparr>))"

definition dsn_is_configured :: "postgres_repository_config \<Rightarrow> bool" where
  "dsn_is_configured config \<longleftrightarrow> prc_dsn config \<noteq> []"

definition postgres_repository_status :: "string option \<Rightarrow> string option \<Rightarrow> postgres_repository_status" where
  "postgres_repository_status dsn tls_policy =
     (case from_env_parts dsn tls_policy of
        Inr config \<Rightarrow>
          Configured (prc_tls_policy config) redacted_dsn (prc_implicit_migrations_allowed config)
      | Inl error_code \<Rightarrow>
          if error_code = ''postgres_dsn_required'' then MissingDsn else Invalid error_code)"

text \<open>The driver's own parser of connection strings is a parameter.\<close>

definition validate_driver_config ::
    "(string \<Rightarrow> bool) \<Rightarrow> postgres_repository_config \<Rightarrow> string + postgres_driver_config" where
  "validate_driver_config driver_parses config =
     (if \<not> driver_parses (prc_dsn config) then Inl ''postgres_dsn_invalid_driver_config''
      else Inr \<lparr>pdc_driver_crate = ''tokio-postgres'',
                pdc_required_tls_connector_crate = ''tokio-postgres-rustls'',
                pdc_redacted_dsn = redacted_dsn, pdc_tls_policy = prc_tls_policy config,
                pdc_implicit_migrations_allowed = prc_implicit_migrations_allowed config\<rparr>)"

definition build_tls_connector ::
    "nat \<Rightarrow> postgres_repository_config \<Rightarrow> string + postgres_tls_connector_profile" where
  "build_tls_connector root_count config =
     (if prc_tls_policy config \<noteq> VerifyFull then Inl ''postgres_tls_connector_requires_verify_full''
      else Inr \<lparr>ptp_connector_crate = ''tokio-postgres-rustls'', ptp_crypto_provider = ''ring'',
                ptp_root_store = ''webpki-roots'', ptp_root_count = root_count,
                ptp_verification = ''verify-full'', ptp_sni_enabled = True,
                ptp_permits_no_tls = False\<rparr>)"

definition clean_scope_part :: "string \<Rightarrow> string + string" where
  "clean_scope_part text = (if trim text = [] then Inl ''postgres_scope_required'' else Inr (trim text))"

definition postgres_tenant_scope_new :: "string \<Rightarrow> string \<Rightarrow> string \<Rightarrow> string + postgres_tenant_scope" where
  "postgres_tenant_scope_new tenant_id legal_entity_id workplace_id =
     result_bind (clean_scope_part tenant_id) (\<lambda>t.
     result_bind (clean_scope_part legal_entity_id) (\<lambda>l.
     result_bind (clean_scope_part workplace_id) (\<lambda>w.
       Inr \<lparr>pts_tenant_id = t, pts_legal_entity_id = l, pts_workplace_id = w\<rparr>)))"

section \<open>Statements\<close>

definition tenant_session_setting_sql :: "string list" where
  "tenant_session_setting_sql =
     [''SELECT set_config('' @ [CHR 0x27] @ ''bitween.tenant_id'' @ [CHR 0x27] @ '', $1, false)'',
      ''SELECT set_config('' @ [CHR 0x27] @ ''bitween.legal_entity_id'' @ [CHR 0x27] @ '', $2, false)'',
      ''SELECT set_config('' @ [CHR 0x27] @ ''bitween.workplace_id'' @ [CHR 0x27] @ '', $3, false)'']"

definition tenant_session_setting_batch_sql :: string where
  "tenant_session_setting_batch_sql =
     ''SELECT set_config('' @ [CHR 0x27] @ ''bitween.tenant_id'' @ [CHR 0x27] @ '', $1, false), set_config('' @ [CHR 0x27]
     @ ''bitween.legal_entity_id'' @ [CHR 0x27] @ '', $2, false), set_config('' @ [CHR 0x27]
     @ ''bitween.workplace_id'' @ [CHR 0x27] @ '', $3, false)''"

definition postgres_migration_lock_key :: i64 where
  "postgres_migration_lock_key = 0x6269747765656e01"

definition postgres_migration_begin_sql :: string where
  "postgres_migration_begin_sql = ''BEGIN ISOLATION LEVEL READ COMMITTED''"

definition postgres_migration_lock_sql :: string where
  "postgres_migration_lock_sql = ''SELECT pg_advisory_xact_lock($1)''"

definition postgres_migration_lookup_sql :: string where
  "postgres_migration_lookup_sql =
     ''SELECT checksum_sha256 FROM bitween_migrations.schema_migration WHERE migration_name = $1''"

definition postgres_migration_insert_sql :: string where
  "postgres_migration_insert_sql =
     ''INSERT INTO bitween_migrations.schema_migration (migration_name, checksum_sha256) VALUES ($1, $2)''"

definition postgres_migration_registry_sql :: string where
  "postgres_migration_registry_sql =
     ''CREATE SCHEMA IF NOT EXISTS bitween_migrations;'' @ [CHR 0x0A]
     @ ''CREATE TABLE IF NOT EXISTS bitween_migrations.schema_migration ('' @ [CHR 0x0A]
     @ ''    migration_name text PRIMARY KEY,'' @ [CHR 0x0A]
     @ ''    checksum_sha256 char(64) NOT NULL CHECK (checksum_sha256 ~ '' @ [CHR 0x27]
     @ ''^[0-9a-f]{64}$'' @ [CHR 0x27] @ ''),'' @ [CHR 0x0A]
     @ ''    applied_at timestamptz NOT NULL DEFAULT now()'' @ [CHR 0x0A] @ '');''"

section \<open>Migrations\<close>

record postgres_migration =
  pmg_name :: string
  pmg_sql :: string

datatype postgres_migration_status = MigrationApplied | MigrationAlreadyApplied

record postgres_migration_receipt =
  pmr_name :: string
  pmr_checksum_sha256 :: string
  pmr_status :: postgres_migration_status

definition checksum_sha256 :: "(string \<Rightarrow> string) \<Rightarrow> postgres_migration \<Rightarrow> string" where
  "checksum_sha256 sha256 migration = hex_bytes (sha256 (pmg_sql migration))"

definition required_migration_names :: "string list" where
  "required_migration_names =
     [''001_archive_intake.sql'', ''002_workflow_templates.sql'', ''003_hr_employee.sql'',
      ''004_user_preferences.sql'', ''005_payroll_attendance_intake.sql'',
      ''006_archive_admission_rollback.sql'', ''007_auth_session_security.sql'',
      ''008_rls_force_and_employee_scope.sql'']"

definition required_postgres_migrations :: "(string \<Rightarrow> string) \<Rightarrow> postgres_migration list" where
  "required_postgres_migrations sql_text =
     map (\<lambda>name. \<lparr>pmg_name = name, pmg_sql = sql_text name\<rparr>) required_migration_names"

section \<open>The client\<close>

text \<open>
  A query gives nothing when it fails, and otherwise the first column of the row, if there is one;
  a connection may be refused.
\<close>

record 'db pg_client =
  pgc_connect :: "string \<Rightarrow> 'db \<Rightarrow> bool \<times> 'db"
  pgc_batch_execute :: "string \<Rightarrow> 'db \<Rightarrow> bool \<times> 'db"
  pgc_execute :: "string \<Rightarrow> string list \<Rightarrow> 'db \<Rightarrow> bool \<times> 'db"
  pgc_query_opt :: "string \<Rightarrow> string list \<Rightarrow> 'db \<Rightarrow> string option option \<times> 'db"

record postgres_client_session =
  pcs_scope :: postgres_tenant_scope
  pcs_redacted_dsn :: string

definition failure :: "string \<Rightarrow> postgres_connection_failure" where
  "failure code = \<lparr>pcf_code = code, pcf_redacted_dsn = redacted_dsn\<rparr>"

text \<open>A statement, and what follows when it succeeds; otherwise the failure with its code.\<close>

definition run_then ::
    "('db \<Rightarrow> bool \<times> 'db) \<Rightarrow> string \<Rightarrow> ('db \<Rightarrow> (postgres_connection_failure + 'a) \<times> 'db) \<Rightarrow>
     'db \<Rightarrow> (postgres_connection_failure + 'a) \<times> 'db" where
  "run_then statement code rest db =
     (case statement db of (ok, db') \<Rightarrow> if ok then rest db' else (Inl (failure code), db'))"

text \<open>The end of a transaction: commit a success, roll an error back whatever that answers.\<close>

definition finish_transaction ::
    "'db pg_client \<Rightarrow> (postgres_connection_failure + 'a) \<times> 'db \<Rightarrow>
     (postgres_connection_failure + 'a) \<times> 'db" where
  "finish_transaction client outcome =
     (case outcome of
        (Inr result, db) \<Rightarrow>
          run_then (pgc_batch_execute client ''COMMIT'') ''postgres_migration_transaction_failed''
            (\<lambda>db. (Inr result, db)) db
      | (Inl error, db) \<Rightarrow> (Inl error, snd (pgc_batch_execute client ''ROLLBACK'' db)))"

definition lock_parameters :: "string list" where
  "lock_parameters = [show_int postgres_migration_lock_key]"

definition bootstrap_migration_registry ::
    "'db pg_client \<Rightarrow> 'db \<Rightarrow> (postgres_connection_failure + unit) \<times> 'db" where
  "bootstrap_migration_registry client =
     run_then (pgc_batch_execute client postgres_migration_begin_sql) ''postgres_migration_transaction_failed''
       (\<lambda>db. finish_transaction client
         (run_then (pgc_execute client postgres_migration_lock_sql lock_parameters) ''postgres_migration_lock_failed''
           (run_then (pgc_batch_execute client postgres_migration_registry_sql) ''postgres_migration_registry_failed''
             (\<lambda>db. (Inr (), db))) db))"

definition apply_migration_in_transaction ::
    "(string \<Rightarrow> string) \<Rightarrow> 'db pg_client \<Rightarrow> postgres_migration \<Rightarrow> 'db \<Rightarrow>
     (postgres_connection_failure + postgres_migration_receipt) \<times> 'db" where
  "apply_migration_in_transaction sha256 client migration =
     run_then (pgc_execute client postgres_migration_lock_sql lock_parameters) ''postgres_migration_lock_failed''
       (\<lambda>db.
         let checksum = checksum_sha256 sha256 migration in
         case pgc_query_opt client postgres_migration_lookup_sql [pmg_name migration] db of
           (None, db) \<Rightarrow> (Inl (failure ''postgres_migration_lookup_failed''), db)
         | (Some (Some existing_checksum), db) \<Rightarrow>
             if existing_checksum = checksum
             then (Inr \<lparr>pmr_name = pmg_name migration, pmr_checksum_sha256 = checksum,
                        pmr_status = MigrationAlreadyApplied\<rparr>, db)
             else (Inl (failure ''postgres_migration_checksum_mismatch''), db)
         | (Some None, db) \<Rightarrow>
             run_then (pgc_batch_execute client (pmg_sql migration)) ''postgres_migration_apply_failed''
               (run_then (pgc_execute client postgres_migration_insert_sql [pmg_name migration, checksum])
                  ''postgres_migration_record_failed''
                  (\<lambda>db. (Inr \<lparr>pmr_name = pmg_name migration, pmr_checksum_sha256 = checksum,
                              pmr_status = MigrationApplied\<rparr>, db))) db)"

definition apply_migration ::
    "(string \<Rightarrow> string) \<Rightarrow> 'db pg_client \<Rightarrow> postgres_migration \<Rightarrow> 'db \<Rightarrow>
     (postgres_connection_failure + postgres_migration_receipt) \<times> 'db" where
  "apply_migration sha256 client migration =
     run_then (pgc_batch_execute client postgres_migration_begin_sql) ''postgres_migration_transaction_failed''
       (\<lambda>db. finish_transaction client (apply_migration_in_transaction sha256 client migration db))"

fun apply_migrations ::
    "(string \<Rightarrow> string) \<Rightarrow> 'db pg_client \<Rightarrow> postgres_migration list \<Rightarrow> 'db \<Rightarrow>
     (postgres_connection_failure + postgres_migration_receipt list) \<times> 'db" where
  "apply_migrations sha256 client [] db = (Inr [], db)"
| "apply_migrations sha256 client (migration # migrations) db =
     (case apply_migration sha256 client migration db of
        (Inl e, db) \<Rightarrow> (Inl e, db)
      | (Inr receipt, db) \<Rightarrow>
          (case apply_migrations sha256 client migrations db of
             (Inl e, db) \<Rightarrow> (Inl e, db)
           | (Inr receipts, db) \<Rightarrow> (Inr (receipt # receipts), db)))"

definition apply_required_migrations ::
    "(string \<Rightarrow> string) \<Rightarrow> 'db pg_client \<Rightarrow> postgres_migration list \<Rightarrow> 'db \<Rightarrow>
     (postgres_connection_failure + postgres_migration_receipt list) \<times> 'db" where
  "apply_required_migrations sha256 client migrations db =
     (case bootstrap_migration_registry client db of
        (Inl e, db) \<Rightarrow> (Inl e, db)
      | (Inr _, db) \<Rightarrow> apply_migrations sha256 client migrations db)"

definition connect_client_session ::
    "'db pg_client \<Rightarrow> nat \<Rightarrow> postgres_repository_config \<Rightarrow> postgres_tenant_scope \<Rightarrow> 'db \<Rightarrow>
     (postgres_connection_failure + postgres_client_session) \<times> 'db" where
  "connect_client_session client root_count config scope db =
     (case build_tls_connector root_count config of
        Inl error_code \<Rightarrow> (Inl (failure error_code), db)
      | Inr _ \<Rightarrow>
          run_then (pgc_connect client (prc_dsn config)) ''postgres_connect_failed''
            (run_then (pgc_execute client tenant_session_setting_batch_sql
                 [pts_tenant_id scope, pts_legal_entity_id scope, pts_workplace_id scope])
               ''postgres_tenant_session_failed''
               (\<lambda>db. (Inr \<lparr>pcs_scope = scope, pcs_redacted_dsn = redacted_dsn\<rparr>, db))) db)"

section \<open>The migration job\<close>

record migration_job_env =
  mje_dsn :: "string option"
  mje_tls_policy :: "string option"
  mje_tenant_id :: "string option"
  mje_legal_entity_id :: "string option"
  mje_workplace_id :: "string option"

datatype migration_job_status = JobApplied | JobBlocked

record migration_receipt_view =
  mrv_name :: string
  mrv_checksum_sha256 :: string
  mrv_status :: string

record migration_job_response =
  mjr_schema :: string
  mjr_status :: migration_job_status
  mjr_receipts :: "migration_receipt_view list"
  mjr_error_code :: "string option"
  mjr_redacted_dsn :: string

text \<open>An ASCII name of a status in snake case: \<open>AlreadyApplied\<close> becomes \<open>already_applied\<close>.\<close>

definition to_ascii_snake_case :: "string \<Rightarrow> string" where
  "to_ascii_snake_case text =
     concat (map (\<lambda>(index, c).
       if ascii_lower c \<noteq> c then (if index > 0 then [CHR ''_'', ascii_lower c] else [ascii_lower c]) else [c])
       (enumerate 0 text))"

fun debug_status :: "postgres_migration_status \<Rightarrow> string" where
  "debug_status MigrationApplied = ''Applied''"
| "debug_status MigrationAlreadyApplied = ''AlreadyApplied''"

definition receipt_view :: "postgres_migration_receipt \<Rightarrow> migration_receipt_view" where
  "receipt_view receipt =
     \<lparr>mrv_name = pmr_name receipt, mrv_checksum_sha256 = pmr_checksum_sha256 receipt,
      mrv_status = to_ascii_snake_case (debug_status (pmr_status receipt))\<rparr>"

definition postgres_migrate_schema :: string where
  "postgres_migrate_schema = ''bitween.postgres-migrate.v1''"

definition job_env_from :: "(string \<Rightarrow> string option) \<Rightarrow> migration_job_env" where
  "job_env_from env =
     \<lparr>mje_dsn = env ''BITWEEN_POSTGRES_DSN'', mje_tls_policy = env ''BITWEEN_POSTGRES_TLS_POLICY'',
      mje_tenant_id = env ''BITWEEN_POSTGRES_TENANT_ID'',
      mje_legal_entity_id = env ''BITWEEN_POSTGRES_LEGAL_ENTITY_ID'',
      mje_workplace_id = env ''BITWEEN_POSTGRES_WORKPLACE_ID''\<rparr>"

definition job_tenant_scope :: "migration_job_env \<Rightarrow> string + postgres_tenant_scope" where
  "job_tenant_scope job_env =
     result_bind (ok_or ''postgres_tenant_scope_required'' (mje_tenant_id job_env)) (\<lambda>t.
     result_bind (ok_or ''postgres_legal_entity_scope_required'' (mje_legal_entity_id job_env)) (\<lambda>l.
     result_bind (ok_or ''postgres_workplace_scope_required'' (mje_workplace_id job_env)) (\<lambda>w.
       postgres_tenant_scope_new t l w)))"

definition job_blocked :: "string \<Rightarrow> migration_job_response" where
  "job_blocked error_code =
     \<lparr>mjr_schema = postgres_migrate_schema, mjr_status = JobBlocked, mjr_receipts = [],
      mjr_error_code = Some error_code, mjr_redacted_dsn = redacted_dsn\<rparr>"

definition run_migration_job ::
    "(string \<Rightarrow> string) \<Rightarrow> (string \<Rightarrow> string) \<Rightarrow> 'db pg_client \<Rightarrow> nat \<Rightarrow> migration_job_env \<Rightarrow> 'db \<Rightarrow>
     migration_job_response \<times> 'db" where
  "run_migration_job sha256 sql_text client root_count job_env db =
     (case job_tenant_scope job_env of
        Inl error_code \<Rightarrow> (job_blocked error_code, db)
      | Inr scope \<Rightarrow>
          (case from_env_parts (mje_dsn job_env) (mje_tls_policy job_env) of
             Inl error_code \<Rightarrow> (job_blocked error_code, db)
           | Inr config \<Rightarrow>
               (case connect_client_session client root_count config scope db of
                  (Inl error, db) \<Rightarrow> (job_blocked (pcf_code error), db)
                | (Inr _, db) \<Rightarrow>
                    (case apply_required_migrations sha256 client (required_postgres_migrations sql_text) db of
                       (Inl error, db) \<Rightarrow> (job_blocked (pcf_code error), db)
                     | (Inr receipts, db) \<Rightarrow>
                         (\<lparr>mjr_schema = postgres_migrate_schema, mjr_status = JobApplied,
                           mjr_receipts = map receipt_view receipts, mjr_error_code = None,
                           mjr_redacted_dsn = redacted_dsn\<rparr>, db)))))"

section \<open>What the runner relies on\<close>

text \<open>
  What a state of the database holds, as far as migrations go: the ledger, and the scripts that
  were executed, in order.
\<close>

record ledger_state =
  led_rows :: "string \<Rightarrow> string option"
  led_scripts :: "string list"

text \<open>
  \<open>committed\<close> is what every connection sees, \<open>working\<close> what the connection in its transaction
  sees.  A statement that fails leaves the committed state alone, a commit that fails may have
  taken effect or not, and a script of the list does not touch the ledger.
\<close>

definition ledger_laws ::
    "'db pg_client \<Rightarrow> string list \<Rightarrow> ('db \<Rightarrow> ledger_state) \<Rightarrow> ('db \<Rightarrow> ledger_state) \<Rightarrow> bool" where
  "ledger_laws client scripts committed working \<longleftrightarrow>
     (\<forall>db ok db'. pgc_batch_execute client postgres_migration_begin_sql db = (ok, db') \<longrightarrow>
        committed db' = committed db \<and> (ok \<longrightarrow> working db' = committed db))
   \<and> (\<forall>db ok db'. pgc_batch_execute client ''COMMIT'' db = (ok, db') \<longrightarrow>
        committed db' = working db \<or> (\<not> ok \<and> committed db' = committed db))
   \<and> (\<forall>db ok db'. pgc_batch_execute client ''ROLLBACK'' db = (ok, db') \<longrightarrow> committed db' = committed db)
   \<and> (\<forall>db ok db' ps. pgc_execute client postgres_migration_lock_sql ps db = (ok, db') \<longrightarrow>
        committed db' = committed db \<and> (ok \<longrightarrow> working db' = working db))
   \<and> (\<forall>db ok db'. pgc_batch_execute client postgres_migration_registry_sql db = (ok, db') \<longrightarrow>
        committed db' = committed db \<and> (ok \<longrightarrow> working db' = working db))
   \<and> (\<forall>db answer db' name. pgc_query_opt client postgres_migration_lookup_sql [name] db = (answer, db') \<longrightarrow>
        committed db' = committed db
        \<and> (answer \<noteq> None \<longrightarrow> working db' = working db \<and> answer = Some (led_rows (working db) name)))
   \<and> (\<forall>db ok db' sql. sql \<in> set scripts \<and> pgc_batch_execute client sql db = (ok, db') \<longrightarrow>
        committed db' = committed db
        \<and> (ok \<longrightarrow> working db' = (working db)\<lparr>led_scripts := led_scripts (working db) @ [sql]\<rparr>))
   \<and> (\<forall>db ok db' name checksum.
        pgc_execute client postgres_migration_insert_sql [name, checksum] db = (ok, db') \<longrightarrow>
        committed db' = committed db
        \<and> (ok \<longrightarrow> working db' = (working db)\<lparr>led_rows := (led_rows (working db))(name \<mapsto> checksum)\<rparr>))"

section \<open>The specification\<close>

text \<open>One migration on the committed ledger, and a list of them.\<close>

definition migrate_one ::
    "(string \<Rightarrow> string) \<Rightarrow> postgres_migration \<Rightarrow> ledger_state \<Rightarrow>
     (postgres_migration_receipt \<times> ledger_state) option" where
  "migrate_one sha256 m s =
     (let checksum = checksum_sha256 sha256 m;
          receipt = (\<lambda>status. \<lparr>pmr_name = pmg_name m, pmr_checksum_sha256 = checksum, pmr_status = status\<rparr>) in
      case led_rows s (pmg_name m) of
        Some existing \<Rightarrow> if existing = checksum then Some (receipt MigrationAlreadyApplied, s) else None
      | None \<Rightarrow> Some (receipt MigrationApplied,
          \<lparr>led_rows = (led_rows s)(pmg_name m \<mapsto> checksum), led_scripts = led_scripts s @ [pmg_sql m]\<rparr>))"

fun migrate_all ::
    "(string \<Rightarrow> string) \<Rightarrow> postgres_migration list \<Rightarrow> ledger_state \<Rightarrow>
     (postgres_migration_receipt list \<times> ledger_state) option" where
  "migrate_all sha256 [] s = Some ([], s)"
| "migrate_all sha256 (m # ms) s =
     (case migrate_one sha256 m s of
        None \<Rightarrow> None
      | Some (receipt, s) \<Rightarrow>
          map_option (\<lambda>(receipts, s). (receipt # receipts, s)) (migrate_all sha256 ms s))"

section \<open>Properties\<close>

lemma run_then_Inr:
  "run_then statement code rest db = (Inr v, db'') \<longleftrightarrow>
     (\<exists>db'. statement db = (True, db') \<and> rest db' = (Inr v, db''))"
  by (cases "statement db") (simp add: run_then_def)

lemma run_then_Inl:
  "run_then statement code rest db = (Inl e, db'') \<longleftrightarrow>
     (statement db = (False, db'') \<and> e = failure code)
     \<or> (\<exists>db'. statement db = (True, db') \<and> rest db' = (Inl e, db''))"
  by (cases "statement db") (auto simp: run_then_def)

subsection \<open>The laws, one by one\<close>

lemmas law_conjuncts =
  ledger_laws_def[THEN iffD1, THEN conjunct1, rule_format]
  ledger_laws_def[THEN iffD1, THEN conjunct2, THEN conjunct1, rule_format]
  ledger_laws_def[THEN iffD1, THEN conjunct2, THEN conjunct2, THEN conjunct1, rule_format]
  ledger_laws_def[THEN iffD1, THEN conjunct2, THEN conjunct2, THEN conjunct2, THEN conjunct1, rule_format]
  ledger_laws_def[THEN iffD1, THEN conjunct2, THEN conjunct2, THEN conjunct2, THEN conjunct2, THEN conjunct1, rule_format]
  ledger_laws_def[THEN iffD1, THEN conjunct2, THEN conjunct2, THEN conjunct2, THEN conjunct2, THEN conjunct2, THEN conjunct1, rule_format]
  ledger_laws_def[THEN iffD1, THEN conjunct2, THEN conjunct2, THEN conjunct2, THEN conjunct2, THEN conjunct2, THEN conjunct2, THEN conjunct1, rule_format]
  ledger_laws_def[THEN iffD1, THEN conjunct2, THEN conjunct2, THEN conjunct2, THEN conjunct2, THEN conjunct2, THEN conjunct2, THEN conjunct2, rule_format]

lemma begin_law:
  "ledger_laws client scripts committed working \<Longrightarrow>
     pgc_batch_execute client postgres_migration_begin_sql db = (ok, db') \<Longrightarrow>
     committed db' = committed db \<and> (ok \<longrightarrow> working db' = committed db)"
  by (rule law_conjuncts(1))

lemma commit_law:
  "ledger_laws client scripts committed working \<Longrightarrow>
     pgc_batch_execute client ''COMMIT'' db = (ok, db') \<Longrightarrow>
     committed db' = working db \<or> (\<not> ok \<and> committed db' = committed db)"
  by (rule law_conjuncts(2))

lemma rollback_law:
  "ledger_laws client scripts committed working \<Longrightarrow>
     pgc_batch_execute client ''ROLLBACK'' db = (ok, db') \<Longrightarrow> committed db' = committed db"
  by (rule law_conjuncts(3))

lemma lock_law:
  "ledger_laws client scripts committed working \<Longrightarrow>
     pgc_execute client postgres_migration_lock_sql ps db = (ok, db') \<Longrightarrow>
     committed db' = committed db \<and> (ok \<longrightarrow> working db' = working db)"
  by (rule law_conjuncts(4))

lemma registry_law:
  "ledger_laws client scripts committed working \<Longrightarrow>
     pgc_batch_execute client postgres_migration_registry_sql db = (ok, db') \<Longrightarrow>
     committed db' = committed db \<and> (ok \<longrightarrow> working db' = working db)"
  by (rule law_conjuncts(5))

lemma lookup_law:
  "ledger_laws client scripts committed working \<Longrightarrow>
     pgc_query_opt client postgres_migration_lookup_sql [name] db = (answer, db') \<Longrightarrow>
     committed db' = committed db
     \<and> (answer \<noteq> None \<longrightarrow> working db' = working db \<and> answer = Some (led_rows (working db) name))"
  by (rule law_conjuncts(6))

lemma script_law:
  "ledger_laws client scripts committed working \<Longrightarrow>
     sql \<in> set scripts \<and> pgc_batch_execute client sql db = (ok, db') \<Longrightarrow>
     committed db' = committed db
     \<and> (ok \<longrightarrow> working db' = (working db)\<lparr>led_scripts := led_scripts (working db) @ [sql]\<rparr>)"
  by (rule law_conjuncts(7))

lemma insert_law:
  "ledger_laws client scripts committed working \<Longrightarrow>
     pgc_execute client postgres_migration_insert_sql [name, checksum] db = (ok, db') \<Longrightarrow>
     committed db' = committed db
     \<and> (ok \<longrightarrow> working db' = (working db)\<lparr>led_rows := (led_rows (working db))(name \<mapsto> checksum)\<rparr>)"
  by (rule law_conjuncts(8))

text \<open>The end of a transaction makes its work visible, or leaves the committed state alone.\<close>

lemma finish_Inr:
  assumes laws: "ledger_laws client scripts committed working"
    and "finish_transaction client (r, db) = (Inr v, db')"
  shows "r = Inr v \<and> committed db' = working db"
  using assms commit_law[OF laws] by (cases r) (auto simp: finish_transaction_def run_then_Inr)

lemma finish_Inl:
  assumes laws: "ledger_laws client scripts committed working"
    and "finish_transaction client (r, db) = (Inl e, db')"
  shows "committed db' = committed db \<or> (\<exists>v. r = Inr v \<and> committed db' = working db)"
proof (cases r)
  case (Inl e1)
  obtain ok d where "pgc_batch_execute client ''ROLLBACK'' db = (ok, d)" by fastforce
  then show ?thesis using assms rollback_law[OF laws] Inl by (auto simp: finish_transaction_def)
next
  case (Inr v)
  then show ?thesis using assms commit_law[OF laws] by (auto simp: finish_transaction_def run_then_Inl)
qed

text \<open>
  A body that relates the working states before and after by \<open>Q\<close> relates the committed states of
  its transaction by \<open>Q\<close>; a failed transaction may only have lost the answer of its commit.
\<close>

lemma transaction_committed:
  assumes laws: "ledger_laws client scripts committed working"
    and run: "run_then (pgc_batch_execute client postgres_migration_begin_sql) code
                  (\<lambda>db. finish_transaction client (body db)) db = (r, db')"
    and body: "\<And>d q d'. body d = (q, d') \<Longrightarrow>
                 committed d' = committed d \<and> (\<forall>v. q = Inr v \<longrightarrow> Q v (working d) (working d'))"
  shows "(\<forall>v. r = Inr v \<longrightarrow> Q v (committed db) (committed db'))
       \<and> (\<forall>e. r = Inl e \<longrightarrow> committed db' = committed db \<or> (\<exists>v. Q v (committed db) (committed db')))"
proof -
  obtain ok d where d: "pgc_batch_execute client postgres_migration_begin_sql db = (ok, d)" by fastforce
  obtain q d1 where q: "body d = (q, d1)" by fastforce
  note began = begin_law[OF laws d] and worked = body[OF q]
  show ?thesis
  proof (cases ok)
    case False
    then show ?thesis using run d began by (auto simp: run_then_def)
  next
    case True
    then have fin: "finish_transaction client (q, d1) = (r, db')" using run d q by (simp add: run_then_def)
    show ?thesis
    proof (cases r)
      case (Inl e)
      show ?thesis using finish_Inl[OF laws fin[unfolded Inl]] began worked True Inl by auto
    next
      case (Inr v)
      show ?thesis using finish_Inr[OF laws fin[unfolded Inr]] began worked True Inr by auto
    qed
  qed
qed

lemma bootstrap_keeps:
  assumes laws: "ledger_laws client scripts committed working"
    and "bootstrap_migration_registry client db = (r, db')"
  shows "committed db' = committed db"
proof -
  have "run_then (pgc_execute client postgres_migration_lock_sql lock_parameters) c1
     (run_then (pgc_batch_execute client postgres_migration_registry_sql) c2 (\<lambda>db. (Inr (), db))) d = (q, d') \<Longrightarrow>
     committed d' = committed d \<and> (\<forall>u. q = Inr u \<longrightarrow> working d' = working d)" for c1 c2 d q d'
    by (cases q) (auto simp: run_then_Inl run_then_Inr dest!: lock_law[OF laws] registry_law[OF laws])
  from transaction_committed[OF laws assms(2)[unfolded bootstrap_migration_registry_def], where Q = "\<lambda>_ s s'. s' = s", OF this]
  show ?thesis by (cases r) auto
qed

lemma in_transaction:
  assumes laws: "ledger_laws client scripts committed working"
    and run: "apply_migration_in_transaction sha256 client m db = (r, db')" and sql: "pmg_sql m \<in> set scripts"
  shows "committed db' = committed db
     \<and> (\<forall>receipt. r = Inr receipt \<longrightarrow> migrate_one sha256 m (working db) = Some (receipt, working db'))"
proof -
  obtain ok1 d1 where l: "pgc_execute client postgres_migration_lock_sql lock_parameters db = (ok1, d1)" by fastforce
  obtain answer d2 where a: "pgc_query_opt client postgres_migration_lookup_sql [pmg_name m] d1 = (answer, d2)" by fastforce
  obtain ok3 d3 where s: "pgc_batch_execute client (pmg_sql m) d2 = (ok3, d3)" by fastforce
  obtain ok4 d4 where i: "pgc_execute client postgres_migration_insert_sql
      [pmg_name m, checksum_sha256 sha256 m] d3 = (ok4, d4)" by fastforce
  note steps = l a s i
  note facts = lock_law[OF laws l] lookup_law[OF laws a] script_law[OF laws conjI, OF sql s] insert_law[OF laws i]
  consider "\<not> ok1" | "ok1" "answer = None" | c where "ok1" "answer = Some (Some c)"
    | "ok1" "answer = Some None" by (metis option.exhaust)
  then show ?thesis
    using run facts
    by cases (auto simp: apply_migration_in_transaction_def run_then_def Let_def steps migrate_one_def
        split: if_splits option.splits)
qed

lemma apply_migration_committed:
  assumes laws: "ledger_laws client scripts committed working"
    and "apply_migration sha256 client m db = (r, db')" and "pmg_sql m \<in> set scripts"
  shows "(\<forall>receipt. r = Inr receipt \<longrightarrow> migrate_one sha256 m (committed db) = Some (receipt, committed db'))
     \<and> (\<forall>e. r = Inl e \<longrightarrow> committed db' = committed db
          \<or> (\<exists>receipt. migrate_one sha256 m (committed db) = Some (receipt, committed db')))"
  by (rule transaction_committed[OF laws assms(2)[unfolded apply_migration_def],
        where Q = "\<lambda>v s s'. migrate_one sha256 m s = Some (v, s')"])
    (rule in_transaction[OF laws _ assms(3)])

text \<open>The runner implements the specification, and an error leaves a prefix of it.\<close>

lemma apply_migrations_Inr:
  assumes laws: "ledger_laws client scripts committed working"
    and "apply_migrations sha256 client ms db = (Inr receipts, db')" and "set (map pmg_sql ms) \<subseteq> set scripts"
  shows "migrate_all sha256 ms (committed db) = Some (receipts, committed db')"
  using assms
proof (induction ms arbitrary: db receipts)
  case (Cons m ms)
  obtain r d where d: "apply_migration sha256 client m db = (r, d)" by fastforce
  show ?case using Cons d apply_migration_committed[OF laws d] by (fastforce split: sum.splits prod.splits)
qed simp

lemma apply_migrations_Inl:
  assumes laws: "ledger_laws client scripts committed working"
    and "apply_migrations sha256 client ms db = (Inl e, db')" and "set (map pmg_sql ms) \<subseteq> set scripts"
  shows "\<exists>k \<le> length ms. \<exists>receipts. migrate_all sha256 (take k ms) (committed db) = Some (receipts, committed db')"
  using assms
proof (induction ms arbitrary: db)
  case (Cons m ms)
  obtain r d where d: "apply_migration sha256 client m db = (r, d)" by fastforce
  note one = apply_migration_committed[OF laws d]
  show ?case
  proof (cases r)
    case (Inl e1)
    then have "d = db'" using Cons.prems d by simp
    then consider "committed db' = committed db"
      | receipt where "migrate_one sha256 m (committed db) = Some (receipt, committed db')"
      using one Inl Cons.prems by auto
    then show ?thesis
    proof cases
      case 1
      then have "migrate_all sha256 (take 0 (m # ms)) (committed db) = Some ([], committed db')" by simp
      then show ?thesis by blast
    next
      case 2
      then have "migrate_all sha256 (take 1 (m # ms)) (committed db) = Some ([receipt], committed db')" by simp
      then show ?thesis by (intro exI[of _ 1]) auto
    qed
  next
    case (Inr receipt)
    then have "apply_migrations sha256 client ms d = (Inl e, db')"
      using Cons.prems d by (simp split: sum.splits prod.splits)
    then obtain k receipts where "k \<le> length ms"
        "migrate_all sha256 (take k ms) (committed d) = Some (receipts, committed db')"
      using Cons.IH[of d] Cons.prems(1,3) by auto
    then have "migrate_all sha256 (take (Suc k) (m # ms)) (committed db) = Some (receipt # receipts, committed db')"
      using one Inr Cons.prems by simp
    then show ?thesis using \<open>k \<le> length ms\<close> by (intro exI[of _ "Suc k"]) auto
  qed
qed simp

text \<open>What the specification says of a second run.\<close>

lemma migrate_one_again:
  assumes "migrate_one sha256 m s = Some (receipt, s')"
  shows "led_rows s' (pmg_name m) = Some (checksum_sha256 sha256 m)"
    and "led_rows s n = Some c \<Longrightarrow> led_rows s' n = Some c"
  using assms by (auto simp: migrate_one_def Let_def split: option.splits if_splits)

lemma migrate_all_keeps:
  "migrate_all sha256 ms s = Some (receipts, s') \<Longrightarrow> led_rows s n = Some c \<Longrightarrow> led_rows s' n = Some c"
  by (induction ms arbitrary: s receipts) (fastforce dest: migrate_one_again(2) split: option.splits)+

lemma migrate_all_records:
  "migrate_all sha256 ms s = Some (receipts, s') \<Longrightarrow>
     \<forall>m \<in> set ms. led_rows s' (pmg_name m) = Some (checksum_sha256 sha256 m)"
proof (induction ms arbitrary: s receipts)
  case (Cons m ms)
  then obtain receipt s1 rs where one: "migrate_one sha256 m s = Some (receipt, s1)"
      and all: "migrate_all sha256 ms s1 = Some (rs, s')" by (auto split: option.splits)
  show ?case using Cons.IH[OF all] migrate_all_keeps[OF all migrate_one_again(1)[OF one]] by simp
qed simp

definition already_applied :: "(string \<Rightarrow> string) \<Rightarrow> postgres_migration \<Rightarrow> postgres_migration_receipt" where
  "already_applied sha256 m =
     \<lparr>pmr_name = pmg_name m, pmr_checksum_sha256 = checksum_sha256 sha256 m, pmr_status = MigrationAlreadyApplied\<rparr>"

lemma migrate_all_recorded:
  "\<forall>m \<in> set ms. led_rows s (pmg_name m) = Some (checksum_sha256 sha256 m) \<Longrightarrow>
     migrate_all sha256 ms s = Some (map (already_applied sha256) ms, s)"
  by (induction ms) (simp_all add: migrate_one_def Let_def already_applied_def)

lemma apply_required_cases:
  "apply_required_migrations sha256 client ms db = (r, db') \<longleftrightarrow>
     (\<exists>q d. bootstrap_migration_registry client db = (q, d) \<and>
        (case q of Inl e \<Rightarrow> r = Inl e \<and> db' = d
         | Inr _ \<Rightarrow> apply_migrations sha256 client ms d = (r, db')))"
  by (cases "bootstrap_migration_registry client db")
    (auto simp: apply_required_migrations_def split: sum.splits)

text \<open>C21: The migration runner refines the specification on the committed ledger: a run that
  succeeds has applied exactly the migrations the ledger did not hold, each script once, and gives
  the receipts of the specification; a run that fails has committed the run of some prefix of the
  list, whole migrations only, script and ledger row together.\<close>

lemma migrations_refine_ledger:
  assumes "ledger_laws client (map pmg_sql ms) committed working"
    and "apply_required_migrations sha256 client ms db = (result, db')"
  shows "case result of
      Inr receipts \<Rightarrow> migrate_all sha256 ms (committed db) = Some (receipts, committed db')
    | Inl _ \<Rightarrow> \<exists>k \<le> length ms. \<exists>receipts.
        migrate_all sha256 (take k ms) (committed db) = Some (receipts, committed db')"
proof -
  obtain q d where q: "bootstrap_migration_registry client db = (q, d)"
      and r: "case q of Inl e \<Rightarrow> result = Inl e \<and> db' = d | Inr _ \<Rightarrow> apply_migrations sha256 client ms d = (result, db')"
    using assms(2) unfolding apply_required_cases by blast
  note keeps = bootstrap_keeps[OF assms(1) q]
  show ?thesis
  proof (cases q)
    case (Inl e)
    then have "result = Inl e" "migrate_all sha256 (take 0 ms) (committed db) = Some ([], committed db')"
      using r keeps by auto
    then show ?thesis by auto
  next
    case (Inr u)
    then have "apply_migrations sha256 client ms d = (result, db')" using r by simp
    then show ?thesis
      using apply_migrations_Inr[OF assms(1)] apply_migrations_Inl[OF assms(1)] keeps
      by (cases result) fastforce+
  qed
qed

text \<open>After a run that succeeded, a second run that succeeds applies nothing: every receipt
  says the migration was applied already, and the committed state is the one the first run left.\<close>

lemma migrations_second_run:
  assumes "ledger_laws client (map pmg_sql ms) committed working"
    and "apply_required_migrations sha256 client ms db = (Inr receipts, db')"
    and "apply_required_migrations sha256 client ms db' = (Inr receipts', db'')"
  shows "receipts' = map (already_applied sha256) ms \<and> committed db'' = committed db'"
proof -
  have run: "migrate_all sha256 ms (committed d) = Some (rs, committed d')"
    if "apply_required_migrations sha256 client ms d = (Inr rs, d')" for d rs d'
    using that apply_migrations_Inr[OF assms(1)] bootstrap_keeps[OF assms(1)]
    unfolding apply_required_cases by (fastforce split: sum.splits)
  show ?thesis
    using run[OF assms(3)] migrate_all_recorded[OF migrate_all_records[OF run[OF assms(2)]]] by simp
qed

text \<open>
  A concrete client: the state is the committed ledger and that of the open transaction, and every
  call succeeds.
\<close>

definition sample_client :: "(ledger_state \<times> ledger_state) pg_client" where
  "sample_client =
     \<lparr>pgc_connect = (\<lambda>_ db. (True, db)),
      pgc_batch_execute = (\<lambda>sql (c, w).
        (True,
         if sql = postgres_migration_begin_sql then (c, c)
         else if sql = ''COMMIT'' then (w, w)
         else if sql = ''ROLLBACK'' then (c, c)
         else if sql = postgres_migration_registry_sql then (c, w)
         else (c, w\<lparr>led_scripts := led_scripts w @ [sql]\<rparr>))),
      pgc_execute = (\<lambda>sql ps (c, w).
        (True,
         if sql = postgres_migration_insert_sql
         then (c, w\<lparr>led_rows := (led_rows w)(ps ! 0 \<mapsto> ps ! 1)\<rparr>) else (c, w))),
      pgc_query_opt = (\<lambda>sql ps (c, w). (Some (led_rows w (ps ! 0)), (c, w)))\<rparr>"

definition sample_migrations :: "postgres_migration list" where
  "sample_migrations = [\<lparr>pmg_name = ''001.sql'', pmg_sql = ''A''\<rparr>, \<lparr>pmg_name = ''002.sql'', pmg_sql = ''B''\<rparr>]"

lemma sql_texts_distinct:
  "postgres_migration_begin_sql \<noteq> ''COMMIT''" "postgres_migration_begin_sql \<noteq> ''ROLLBACK''"
  "postgres_migration_registry_sql \<noteq> postgres_migration_begin_sql"
  "postgres_migration_registry_sql \<noteq> ''COMMIT''" "postgres_migration_registry_sql \<noteq> ''ROLLBACK''"
  "postgres_migration_lock_sql \<noteq> postgres_migration_insert_sql"
  "''A'' \<noteq> postgres_migration_begin_sql" "''B'' \<noteq> postgres_migration_begin_sql"
  "''A'' \<noteq> postgres_migration_registry_sql" "''B'' \<noteq> postgres_migration_registry_sql"
  by (simp_all add: postgres_migration_begin_sql_def postgres_migration_registry_sql_def
      postgres_migration_lock_sql_def postgres_migration_insert_sql_def)

lemma sample_client_laws:
  "ledger_laws sample_client (map pmg_sql sample_migrations) fst snd"
  unfolding ledger_laws_def sample_client_def sample_migrations_def
  by (auto simp: sql_texts_distinct sql_texts_distinct[symmetric])

definition sample_ledger :: ledger_state where
  "sample_ledger = \<lparr>led_rows = (\<lambda>_. None), led_scripts = []\<rparr>"

definition sample_receipts :: "postgres_migration_status \<Rightarrow> postgres_migration_receipt list" where
  "sample_receipts status =
     map (\<lambda>m. \<lparr>pmr_name = pmg_name m, pmr_checksum_sha256 = checksum_sha256 id m, pmr_status = status\<rparr>)
       sample_migrations"

definition sample_migrated :: ledger_state where
  "sample_migrated =
     \<lparr>led_rows = [''001.sql'' \<mapsto> ''41'', ''002.sql'' \<mapsto> ''42''], led_scripts = [''A'', ''B'']\<rparr>"

lemmas sample_run_simps =
  apply_required_migrations_def bootstrap_migration_registry_def apply_migration_def run_then_def
  finish_transaction_def apply_migration_in_transaction_def Let_def sample_client_def
  sample_migrations_def sql_texts_distinct sql_texts_distinct[symmetric]

lemma sample_checksums: "checksum_sha256 id \<lparr>pmg_name = n, pmg_sql = ''A''\<rparr> = ''41''"
  "checksum_sha256 id \<lparr>pmg_name = n, pmg_sql = ''B''\<rparr> = ''42''"
  by (simp_all add: checksum_sha256_def) code_simp+

lemma sample_run:
  "apply_required_migrations id sample_client sample_migrations (sample_ledger, sample_ledger) =
     (Inr (sample_receipts MigrationApplied), (sample_migrated, sample_migrated))"
  by (simp add: sample_run_simps sample_ledger_def sample_receipts_def sample_migrated_def sample_checksums)

lemma sample_second_run:
  "apply_required_migrations id sample_client sample_migrations (sample_migrated, sample_migrated) =
     (Inr (sample_receipts MigrationAlreadyApplied), (sample_migrated, sample_migrated))"
  by (simp add: sample_run_simps sample_receipts_def sample_migrated_def sample_checksums)

lemma migrations_refine_ledger_witness:
  "migrate_all id sample_migrations sample_ledger = Some (sample_receipts MigrationApplied, sample_migrated)"
  using migrations_refine_ledger[OF sample_client_laws sample_run] by simp

lemma migrations_second_run_witness:
  "sample_receipts MigrationAlreadyApplied = map (already_applied id) sample_migrations"
  using migrations_second_run[OF sample_client_laws sample_run sample_second_run] by simp

text \<open>A session is opened only under the policy that verifies the certificate and the name
  of the server, and only after the three scope settings were sent; every other policy is refused
  before the database is touched.\<close>

lemma session_needs_verify_full:
  "(fst (connect_client_session client root_count config scope db) = Inr session \<longrightarrow>
      prc_tls_policy config = VerifyFull \<and> pcs_scope session = scope)
   \<and> (prc_tls_policy config \<noteq> VerifyFull \<longrightarrow>
      connect_client_session client root_count config scope db =
        (Inl (failure ''postgres_tls_connector_requires_verify_full''), db))"
  by (auto simp: connect_client_session_def build_tls_connector_def run_then_def split: prod.splits)

end
