(* ===== verification/Archive_Text.thy ===== *)
theory Archive_Text
  imports Json
begin

text \<open>
  The text operations of the archive intake store,
  \<open>crates/payroll-api/src/bin/archive_intake_store.rs\<close>: lines and cells of a delimited sample,
  the redaction of an excerpt, the normal forms of numbers, dates and keys, XML cells, and the
  validation of names and object references.
\<close>

section \<open>Characters and lines\<close>

text \<open>\<open>chars()\<close>: the characters of a string, each as its bytes.\<close>

fun utf8_chars :: "string \<Rightarrow> string list" where
  "utf8_chars [] = []"
| "utf8_chars (c # t) =
     (case utf8_chars t of
        [] \<Rightarrow> [[c]]
      | ch # rest \<Rightarrow> if ch \<noteq> [] \<and> is_continuation (hd ch) then (c # ch) # rest else [c] # ch # rest)"

definition quote :: char where
  "quote = CHR 0x22"

definition newline :: char where
  "newline = CHR 0x0A"

definition drop_cr :: "string \<Rightarrow> string" where
  "drop_cr s = (if s \<noteq> [] \<and> last s = CHR 0x0D then butlast s else s)"

text \<open>\<open>str::lines\<close>: a carriage return goes with the line feed it stands before.\<close>

definition str_lines :: "string \<Rightarrow> string list" where
  "str_lines s =
     (let parts = split_on newline s in
      map drop_cr (butlast parts) @ (if last parts = [] then [] else [last parts]))"

definition ascii_alphanumeric :: "char \<Rightarrow> bool" where
  "ascii_alphanumeric c \<longleftrightarrow>
     is_digit c \<or> (65 \<le> char_code c \<and> char_code c \<le> 90) \<or> (97 \<le> char_code c \<and> char_code c \<le> 122)"

definition ascii_hexdigit :: "char \<Rightarrow> bool" where
  "ascii_hexdigit c \<longleftrightarrow>
     is_digit c \<or> (65 \<le> char_code c \<and> char_code c \<le> 70) \<or> (97 \<le> char_code c \<and> char_code c \<le> 102)"

text \<open>\<open>replace(pattern, "")\<close> for a pattern of one character, given by its bytes.\<close>

function remove_str :: "string \<Rightarrow> string \<Rightarrow> string" where
  "remove_str p s =
     (if p = [] \<or> s = [] then s
      else if starts_with p s then remove_str p (drop (length p) s) else hd s # remove_str p (tl s))"
  by pat_completeness auto
termination
  by (relation "measure (length \<circ> snd)") auto

declare remove_str.simps [simp del]

text \<open>\<open>trim_matches('-')\<close>.\<close>

definition trim_dashes :: "string \<Rightarrow> string" where
  "trim_dashes s = rev (dropWhile (\<lambda>c. c = CHR ''-'') (rev (dropWhile (\<lambda>c. c = CHR ''-'') s)))"

text \<open>\<open>windows(n)\<close>.\<close>

definition windows :: "nat \<Rightarrow> 'a list \<Rightarrow> 'a list list" where
  "windows n xs = map (\<lambda>i. take n (drop i xs)) [0..<Suc (length xs) - n]"

section \<open>Cells\<close>

definition table_delimiter :: "string \<Rightarrow> char" where
  "table_delimiter first_line =
     (if CHR 0x09 \<in> set first_line then CHR 0x09
      else if CHR '';'' \<in> set first_line then CHR '';'' else CHR '','')"

text \<open>The loop over a line: whether the cell is quoted, and its characters so far.\<close>

fun split_cells :: "char \<Rightarrow> bool \<Rightarrow> string \<Rightarrow> string \<Rightarrow> string list" where
  "split_cells delimiter in_quotes current [] = [trim current]"
| "split_cells delimiter in_quotes current (ch # chars) =
     (if ch = quote then
        (if in_quotes \<and> chars \<noteq> [] \<and> hd chars = quote
         then split_cells delimiter in_quotes (current @ [quote]) (tl chars)
         else split_cells delimiter (\<not> in_quotes) current chars)
      else if ch = delimiter \<and> \<not> in_quotes
      then trim current # split_cells delimiter in_quotes [] chars
      else split_cells delimiter in_quotes (current @ [ch]) chars)"

definition split_delimited_line :: "string \<Rightarrow> char \<Rightarrow> string list" where
  "split_delimited_line line delimiter = split_cells delimiter False [] line"

section \<open>Redaction\<close>

definition looks_like_email :: "string \<Rightarrow> bool" where
  "looks_like_email v =
     (let lower = to_ascii_lowercase v;
          local_part = takeWhile (\<lambda>c. c \<noteq> CHR ''@'') lower;
          domain = drop (Suc (length local_part)) lower in
      CHR ''@'' \<in> set lower \<and> local_part \<noteq> [] \<and> CHR ''.'' \<in> set domain
      \<and> list_all (\<lambda>c. ascii_alphanumeric c \<or> c = CHR ''-'' \<or> c = CHR ''.'') domain)"

text \<open>Six digits, a dash, seven digits.\<close>

definition rrn_window :: "string \<Rightarrow> bool" where
  "rrn_window w \<longleftrightarrow>
     list_all is_digit (take 6 w) \<and> w ! 6 = CHR ''-'' \<and> list_all is_digit (drop 7 w)"

definition contains_korean_rrn :: "string \<Rightarrow> bool" where
  "contains_korean_rrn v \<longleftrightarrow> list_ex rrn_window (windows 14 v)"

text \<open>A Hangul syllable, U+AC00 to U+D7A3, as its three bytes.\<close>

definition hangul_syllable :: "string \<Rightarrow> bool" where
  "hangul_syllable ch \<longleftrightarrow>
     length ch = 3 \<and> [CHR 0xEA, CHR 0xB0, CHR 0x80] \<le> ch \<and> ch \<le> [CHR 0xED, CHR 0x9E, CHR 0xA3]"

definition looks_like_korean_name :: "string \<Rightarrow> bool" where
  "looks_like_korean_name v \<longleftrightarrow>
     2 \<le> char_count v \<and> char_count v \<le> 4 \<and> list_all hangul_syllable (utf8_chars v)"

definition redact_sensitive_cell :: "string \<Rightarrow> string" where
  "redact_sensitive_cell v =
     (let trimmed = trim v in
      if trimmed = [] then []
      else if looks_like_email trimmed then ''[redacted-email]''
      else if contains_korean_rrn trimmed then ''[redacted-korean-rrn]''
      else if looks_like_korean_name trimmed then ''[redacted-name]''
      else take_chars 256 trimmed)"

definition redacted_line :: "string \<Rightarrow> string" where
  "redacted_line line =
     (let delimiter = table_delimiter line in
      join_with [delimiter] (map redact_sensitive_cell (split_delimited_line line delimiter)))"

fun excerpt_loop :: "nat \<Rightarrow> string \<Rightarrow> string list \<Rightarrow> string" where
  "excerpt_loop line_index excerpt [] = excerpt"
| "excerpt_loop line_index excerpt (line # lines) =
     (if 50 \<le> line_index \<or> 8192 \<le> char_count excerpt then excerpt
      else excerpt_loop (Suc line_index)
        ((if excerpt = [] then [] else excerpt @ [newline]) @ redacted_line line) lines)"

definition redacted_content_sample_excerpt :: "string \<Rightarrow> string" where
  "redacted_content_sample_excerpt sample_text =
     take_chars 8192 (excerpt_loop 0 [] (filter (\<lambda>line. trim line \<noteq> []) (str_lines sample_text)))"

section \<open>Numbers, dates, keys\<close>

text \<open>\<open>normalized_numeric_text\<close>: without thousands separators, won signs and the won syllable.\<close>

definition won_sign :: string where
  "won_sign = [CHR 0xE2, CHR 0x82, CHR 0xA9]"

definition won_syllable :: string where
  "won_syllable = [CHR 0xEC, CHR 0x9B, CHR 0x90]"

definition numeric_text_chars :: "string \<Rightarrow> bool" where
  "numeric_text_chars cleaned \<longleftrightarrow>
     list_all (\<lambda>(index, c). is_digit c \<or> c = CHR ''.'' \<or> (c = CHR ''-'' \<and> index = 0)) (enumerate 0 cleaned)"

definition normalized_numeric_text :: "string \<Rightarrow> string option" where
  "normalized_numeric_text v =
     (let cleaned = remove_str won_syllable (remove_str won_sign (remove_char (CHR '','') (trim v))) in
      if cleaned = [] \<or> \<not> numeric_text_chars cleaned \<or> \<not> list_ex is_digit cleaned then None
      else Some cleaned)"

definition normalized_date_text :: "string \<Rightarrow> string option" where
  "normalized_date_text v =
     (let cleaned = trim v in
      if length cleaned = 10 \<and> cleaned ! 4 = CHR ''-'' \<and> cleaned ! 7 = CHR ''-''
         \<and> list_all (\<lambda>(index, ch). index = 4 \<or> index = 7 \<or> (length ch = 1 \<and> is_digit (hd ch)))
             (enumerate 0 (utf8_chars cleaned))
      then Some cleaned else None)"

definition stable_key :: "string \<Rightarrow> string" where
  "stable_key v =
     trim_dashes (map (\<lambda>ch. if length ch = 1 \<and> ascii_alphanumeric (hd ch) then ascii_lower (hd ch) else CHR ''-'')
       (utf8_chars v))"

definition issue_item_id :: "string \<Rightarrow> string \<Rightarrow> string \<Rightarrow> string" where
  "issue_item_id prefix code column =
     (let column_key = stable_key column in
      if column_key = [] then prefix @ ''-'' @ stable_key code
      else prefix @ ''-'' @ stable_key code @ ''-'' @ column_key)"

definition issue_prompt :: "string \<Rightarrow> string \<Rightarrow> string" where
  "issue_prompt code column = (if trim column = [] then code else code @ '':'' @ trim column)"

definition looks_like_korean_resident_id :: "string \<Rightarrow> bool" where
  "looks_like_korean_resident_id v \<longleftrightarrow> length (filter is_digit v) = 13 \<and> CHR ''-'' \<in> set v"

definition looks_like_phone :: "string \<Rightarrow> bool" where
  "looks_like_phone v =
     (let digits = length (filter is_digit v) in
      9 \<le> digits \<and> digits \<le> 12 \<and> list_all (\<lambda>c. is_digit c \<or> c \<in> set '' -()+'') v)"

definition contains_any :: "string \<Rightarrow> string list \<Rightarrow> bool" where
  "contains_any v needles \<longleftrightarrow> list_ex (\<lambda>needle. contains_str needle v) needles"

section \<open>Fields and references\<close>

definition required_intake_field :: "string option \<Rightarrow> string \<Rightarrow> string + string" where
  "required_intake_field v name =
     ok_or (''missing required intake field: '' @ name) (opt_filter (\<lambda>v. v \<noteq> []) (map_option trim v))"

definition bounded_note :: "string \<Rightarrow> string" where
  "bounded_note v = take_chars 512 (trim v)"

definition is_sha256_hex :: "string \<Rightarrow> bool" where
  "is_sha256_hex v \<longleftrightarrow> length v = 64 \<and> list_all ascii_hexdigit v"

record rust_fs_object_ref =
  rfo_uri :: string
  rfo_bucket :: string
  rfo_key :: string

definition rustfs_object_ref :: "string option \<Rightarrow> string + rust_fs_object_ref" where
  "rustfs_object_ref v =
     result_bind (required_intake_field v ''object_uri'') (\<lambda>uri.
       if \<not> starts_with ''rustfs://'' uri then Inl ''archive intake object_uri must start with rustfs://''
       else let without_scheme = drop 9 uri in
         if CHR ''/'' \<notin> set without_scheme
         then Inl ''archive intake object_uri must include bucket and object key''
         else let bucket = trim (takeWhile (\<lambda>c. c \<noteq> CHR ''/'') without_scheme);
                  key = trim (tl (dropWhile (\<lambda>c. c \<noteq> CHR ''/'') without_scheme)) in
           if bucket = [] \<or> key = []
           then Inl ''archive intake object_uri must include bucket and object key''
           else Inr \<lparr>rfo_uri = uri, rfo_bucket = bucket, rfo_key = key\<rparr>)"

text \<open>\<open>rsplit_once(c)\<close>: what stands behind the last \<open>c\<close>.\<close>

definition after_last :: "char \<Rightarrow> string \<Rightarrow> string option" where
  "after_last c s = (if c \<in> set s then Some (rev (takeWhile (\<lambda>d. d \<noteq> c) (rev s))) else None)"

definition normalize_file_type :: "string option \<Rightarrow> string \<Rightarrow> string" where
  "normalize_file_type input_type file_name =
     (let extension = to_ascii_lowercase (trim (unwrap_or [] (after_last (CHR ''.'') file_name)));
          browser_type = to_ascii_lowercase (unwrap_or [] (opt_filter (\<lambda>v. v \<noteq> []) (map_option trim input_type))) in
      if extension \<noteq> [] then extension
      else if browser_type \<noteq> [] then unwrap_or browser_type (after_last (CHR ''/'') browser_type)
      else ''unknown'')"

definition truthy_env :: "string option \<Rightarrow> bool" where
  "truthy_env v \<longleftrightarrow> is_some_and (\<lambda>t. to_ascii_lowercase (trim t) \<in> set [''1'', ''true'', ''yes'', ''on'']) v"

definition local_review_store_path :: "string option \<Rightarrow> string option \<Rightarrow> string + string" where
  "local_review_store_path allow_local_review_store configured_path =
     (if \<not> truthy_env allow_local_review_store
      then Inl ''PostgreSQL relational archive intake storage is required; set BITWEEN_POSTGRES_DSN for production wiring or BITWEEN_ALLOW_LOCAL_REVIEW_STORE=true only for hermetic local review.''
      else Inr (unwrap_or ''.bitween/local-review/archive/intake.json'' configured_path))"

definition postgres_dsn_configured :: "(string \<Rightarrow> string option) \<Rightarrow> bool" where
  "postgres_dsn_configured env \<longleftrightarrow> is_some_and (\<lambda>v. trim v \<noteq> []) (env ''BITWEEN_POSTGRES_DSN'')"

section \<open>XML cells and derived object keys\<close>

text \<open>
  The five replacements run one after another; as the ampersand goes first and no replacement
  brings in a character that a later one replaces, each byte is replaced once.
\<close>

definition replace_char :: "char \<Rightarrow> string \<Rightarrow> string \<Rightarrow> string" where
  "replace_char x r s = concat (map (\<lambda>c. if c = x then r else [c]) s)"

definition xml_escape :: "string \<Rightarrow> string" where
  "xml_escape v =
     replace_char (CHR 0x27) ''&apos;'' (replace_char quote ''&quot;'' (replace_char (CHR ''>'') ''&gt;''
       (replace_char (CHR ''<'') ''&lt;'' (replace_char (CHR ''&'') ''&amp;'' v))))"

definition push_excel_row :: "string \<Rightarrow> string list \<Rightarrow> string" where
  "push_excel_row body values_list =
     body @ ''<Row>''
     @ concat (map (\<lambda>v. ''<Cell><Data ss:Type='' @ [quote] @ ''String'' @ [quote] @ ''>'' @ xml_escape v @ ''</Data></Cell>'') values_list)
     @ ''</Row>''"

fun json_scalar_to_string :: "json option \<Rightarrow> string" where
  "json_scalar_to_string (Some (JStr v)) = v"
| "json_scalar_to_string (Some JNull) = []"
| "json_scalar_to_string None = []"
| "json_scalar_to_string (Some v) = json_to_string v"

definition if_empty :: "string \<Rightarrow> string \<Rightarrow> string" where
  "if_empty s default_value = (if s = [] then default_value else s)"

definition source_sync_key_part :: "string \<Rightarrow> string" where
  "source_sync_key_part v =
     (let cleaned = map (\<lambda>ch.
            if length ch = 1 \<and> (ascii_alphanumeric (hd ch) \<or> hd ch = CHR ''-'' \<or> hd ch = CHR ''_'')
            then ascii_lower (hd ch) else CHR ''-'') (utf8_chars v) in
      if_empty (take_chars 96 (trim_dashes cleaned)) ''item'')"

definition source_sync_bucket_from_parts :: "string option \<Rightarrow> string option \<Rightarrow> string + string" where
  "source_sync_bucket_from_parts primary_bucket archive_bucket =
     result_bind (ok_or ''archive_source_sync_rustfs_bucket_required''
         (opt_filter (\<lambda>v. v \<noteq> []) (map_option trim (opt_or primary_bucket archive_bucket)))) (\<lambda>bucket.
       if \<not> list_all (\<lambda>c. (97 \<le> char_code c \<and> char_code c \<le> 122) \<or> is_digit c \<or> c = CHR ''-'' \<or> c = CHR ''.'') bucket
          \<or> hd bucket = CHR ''-'' \<or> last bucket = CHR ''-'' \<or> length bucket < 3 \<or> length bucket > 63
       then Inl ''archive_source_sync_rustfs_bucket_invalid''
       else Inr bucket)"

section \<open>The excerpt holds no resident number\<close>

lemma windows_Cons:
  "windows n (x # xs) = (if n \<le> Suc (length xs) then take n (x # xs) # windows n xs else windows n xs)"
proof (cases "n \<le> Suc (length xs)")
  case True
  have "[0..<Suc (Suc (length xs)) - n] = 0 # map Suc [0..<Suc (length xs) - n]"
    using True by (simp add: upt_conv_Cons map_Suc_upt Suc_diff_le del: upt_Suc)
  then show ?thesis using True by (simp add: windows_def comp_def del: upt_Suc)
next
  case False
  then show ?thesis by (simp add: windows_def)
qed

lemma contains_rrn_Nil [simp]: "\<not> contains_korean_rrn []"
  by (simp add: contains_korean_rrn_def windows_def)

lemma contains_rrn_Cons:
  "contains_korean_rrn (c # s) \<longleftrightarrow>
     (13 \<le> length s \<and> rrn_window (take 14 (c # s))) \<or> contains_korean_rrn s"
  by (auto simp: contains_korean_rrn_def windows_Cons)

lemma rrn_window_chars:
  assumes "rrn_window w" "length w = 14" "c \<in> set w"
  shows "is_digit c \<or> c = CHR ''-''"
proof -
  have "w = take 6 w @ w ! 6 # drop 7 w" using assms(2) id_take_nth_drop[of 6 w] by simp
  then have "c \<in> set (take 6 w @ w ! 6 # drop 7 w)" using assms(3) by simp
  then show ?thesis using assms(1) by (auto simp: rrn_window_def list_all_iff)
qed

lemma contains_rrn_append:
  assumes "\<not> is_digit d" "d \<noteq> CHR ''-''"
  shows "contains_korean_rrn (xs @ d # ys) \<longleftrightarrow> contains_korean_rrn xs \<or> contains_korean_rrn ys"
proof (induction xs)
  case Nil
  have "\<not> rrn_window (take 14 (d # ys))" if "13 \<le> length ys"
    using rrn_window_chars[of "take 14 (d # ys)" d] assms that by auto
  then show ?case by (auto simp: contains_rrn_Cons)
next
  case (Cons x xs)
  have "13 \<le> length (xs @ d # ys) \<and> rrn_window (take 14 (x # xs @ d # ys)) \<longleftrightarrow>
        13 \<le> length xs \<and> rrn_window (take 14 (x # xs))"
  proof (cases "13 \<le> length xs")
    case False
    then have "d \<in> set (take 14 (x # xs @ d # ys))" by (auto simp: take_Cons')
    moreover have "length (take 14 (x # xs @ d # ys)) = 14" if "13 \<le> length (xs @ d # ys)"
      using that by (simp only: length_take length_Cons min_def) simp
    ultimately have "\<not> rrn_window (take 14 (x # xs @ d # ys))" if "13 \<le> length (xs @ d # ys)"
      using rrn_window_chars[of "take 14 (x # xs @ d # ys)" d] assms that by blast
    then show ?thesis using False by auto
  qed simp
  then show ?case using Cons.IH by (simp add: contains_rrn_Cons del: take_Suc_Cons)
qed

lemma contains_rrn_prefix: "contains_korean_rrn (take n s) \<Longrightarrow> contains_korean_rrn s"
proof (induction s arbitrary: n)
  case (Cons c s)
  then show ?case by (cases n) (auto simp: contains_rrn_Cons take_Cons' min_def split: if_splits)
qed simp

lemma take_chars_prefix: "\<exists>n. take_chars m s = take n s"
proof (induction s arbitrary: m)
  case (Cons c s)
  then obtain n1 n2 where "take_chars m s = take n1 s" "take_chars (m - 1) s = take n2 s" by blast
  then have "take_chars m (c # s) \<in> {take (Suc n1) (c # s), take 0 (c # s), take (Suc n2) (c # s)}" by simp
  then show ?case by blast
qed simp

lemma contains_rrn_take_chars: "contains_korean_rrn (take_chars m s) \<Longrightarrow> contains_korean_rrn s"
  using take_chars_prefix[of m s] contains_rrn_prefix by metis

lemma char_count_take_chars: "char_count (take_chars m s) \<le> m"
  by (induction m s rule: take_chars.induct) (auto simp: char_count_def)

lemma redaction_marks [simp]:
  "\<not> contains_korean_rrn ''[redacted-email]''" "\<not> contains_korean_rrn ''[redacted-korean-rrn]''"
  "\<not> contains_korean_rrn ''[redacted-name]''"
  by (simp_all add: contains_rrn_Cons rrn_window_def is_digit_def char_code_def)

lemma redacted_cell_safe: "\<not> contains_korean_rrn (redact_sensitive_cell v)"
  by (auto simp: redact_sensitive_cell_def Let_def dest: contains_rrn_take_chars)

lemma join_safe:
  assumes "\<not> is_digit d" "d \<noteq> CHR ''-''" "\<forall>s \<in> set cells. \<not> contains_korean_rrn s"
  shows "\<not> contains_korean_rrn (join_with [d] cells)"
  using assms by (induction "[d]" cells rule: join_with.induct) (auto simp: contains_rrn_append)

lemma delimiter_chars: "table_delimiter s \<in> {CHR 0x09, CHR '';'', CHR '',''}"
  by (simp add: table_delimiter_def)

lemma delimiter_not_rrn: "\<not> is_digit (table_delimiter s) \<and> table_delimiter s \<noteq> CHR ''-''"
  using delimiter_chars[of s] by (auto simp: is_digit_def char_code_def)

lemma redacted_line_safe: "\<not> contains_korean_rrn (redacted_line line)"
  unfolding redacted_line_def Let_def
  by (rule join_safe) (auto simp: delimiter_not_rrn redacted_cell_safe)

lemma newline_not_rrn: "\<not> is_digit newline \<and> newline \<noteq> CHR ''-''"
  by (simp add: newline_def is_digit_def char_code_def)

lemma excerpt_loop_safe:
  "\<not> contains_korean_rrn excerpt \<Longrightarrow> \<not> contains_korean_rrn (excerpt_loop i excerpt lines)"
proof (induction i excerpt lines rule: excerpt_loop.induct)
  case (2 i excerpt line lines)
  then show ?case
    by (simp add: redacted_line_safe contains_rrn_append[OF newline_not_rrn[THEN conjunct1] newline_not_rrn[THEN conjunct2]])
qed simp


section \<open>Quoted lines\<close>

text \<open>A cell as a spreadsheet writes it: in quotes, each quote of it twice.\<close>

definition quote_cell :: "string \<Rightarrow> string" where
  "quote_cell s = quote # concat (map (\<lambda>c. if c = quote then [quote, quote] else [c]) s) @ [quote]"

lemma split_quoted:
  assumes "rest = [] \<or> hd rest \<noteq> quote"
  shows "split_cells d True current
     (concat (map (\<lambda>c. if c = quote then [quote, quote] else [c]) s) @ quote # rest) =
     split_cells d False (current @ s) rest"
  using assms by (induction s arbitrary: current) auto

lemma split_quote_cell:
  assumes "rest = [] \<or> hd rest \<noteq> quote"
  shows "split_cells d False [] (quote_cell s @ rest) = split_cells d False s rest"
  using split_quoted[OF assms, of d "[]" s] by (simp add: quote_cell_def)

text \<open>Splitting a line of quoted cells gives the cells back, trimmed, whatever delimiters
  and quotes they hold.\<close>

lemma quoted_cells_roundtrip:
  assumes "delimiter \<noteq> quote" "cells \<noteq> []"
  shows "split_delimited_line (join_with [delimiter] (map quote_cell cells)) delimiter = map trim cells"
  unfolding split_delimited_line_def
  using assms(2)
proof (induction cells rule: list_nonempty_induct)
  case (single s)
  show ?case using split_quote_cell[of "[]" delimiter s] by simp
next
  case (cons s cells)
  then obtain t rest where cells: "cells = t # rest" by (cases cells) auto
  then show ?case
    using split_quote_cell[of "delimiter # join_with [delimiter] (map quote_cell cells)" delimiter s] assms(1) cons
    by simp
qed

lemma quoted_cells_roundtrip_witness:
  "split_delimited_line (join_with '','' (map quote_cell [''a,b'', ''c'']))  (CHR '','') = map trim [''a,b'', ''c'']"
  using quoted_cells_roundtrip[of "CHR '',''" "[''a,b'', ''c'']"] by (simp add: quote_def)

section \<open>Numbers and dates\<close>

text \<open>A date that no calendar has, and a number with two points, pass for normal forms.\<close>

lemma impossible_date_accepted:
  "normalized_date_text ''2024-99-99'' = Some ''2024-99-99'' \<and> normalized_numeric_text ''1.2.3'' = Some ''1.2.3''"
  by code_simp

text \<open>A resident number without its dash is not redacted.\<close>

lemma undashed_number_kept:
  "redacted_content_sample_excerpt ''id,9001011234567'' = ''id,9001011234567''"
  by code_simp

section \<open>XML\<close>

text \<open>The text of a cell read back, one entity or byte at a time.\<close>

lemma replace_char_append [simp]: "replace_char x r (s @ t) = replace_char x r s @ replace_char x r t"
  by (simp add: replace_char_def)

lemma replace_char_Nil [simp]: "replace_char x r [] = []"
  by (simp add: replace_char_def)

lemma replace_char_Cons: "replace_char x r (c # s) = (if c = x then r else [c]) @ replace_char x r s"
  by (simp add: replace_char_def)

definition xml_escape_char :: "char \<Rightarrow> string" where
  "xml_escape_char c =
     (if c = CHR ''&'' then ''&amp;'' else if c = CHR ''<'' then ''&lt;'' else if c = CHR ''>'' then ''&gt;''
      else if c = quote then ''&quot;'' else if c = CHR 0x27 then ''&apos;'' else [c])"

lemma xml_escape_Cons: "xml_escape (c # s) = xml_escape_char c @ xml_escape s"
  by (simp add: xml_escape_def xml_escape_char_def replace_char_Cons quote_def)

lemma xml_escape_Nil [simp]: "xml_escape [] = []"
  by (simp add: xml_escape_def)

definition xml_entity :: "string \<Rightarrow> char \<times> string" where
  "xml_entity s =
     (if starts_with ''amp;'' s then (CHR ''&'', drop 4 s) else if starts_with ''lt;'' s then (CHR ''<'', drop 3 s)
      else if starts_with ''gt;'' s then (CHR ''>'', drop 3 s) else if starts_with ''quot;'' s then (quote, drop 5 s)
      else if starts_with ''apos;'' s then (CHR 0x27, drop 5 s) else (CHR ''&'', s))"

lemma xml_entity_length: "length (snd (xml_entity s)) \<le> length s"
  by (simp add: xml_entity_def)

function xml_unescape :: "string \<Rightarrow> string" where
  "xml_unescape [] = []"
| "xml_unescape (c # s) =
     (if c = CHR ''&'' then fst (xml_entity s) # xml_unescape (snd (xml_entity s)) else c # xml_unescape s)"
  by pat_completeness auto
termination
  by (relation "measure length") (auto simp: le_imp_less_Suc xml_entity_length)

lemma xml_escape_char_cases:
  "xml_unescape (xml_escape_char c @ s) = c # xml_unescape s"
  by (auto simp: xml_escape_char_def xml_entity_def starts_with_def)

text \<open>
  Escaping for a workbook cell loses nothing, and its result holds no markup character but the
  ampersand.
\<close>

lemma xml_unescape_escape: "xml_unescape (xml_escape v) = v"
  by (induction v) (simp_all add: xml_escape_Cons xml_escape_char_cases)

lemma xml_escape_plain: "set (xml_escape v) \<inter> {CHR ''<'', CHR ''>'', quote, CHR 0x27} = {}"
proof (induction v)
  case (Cons c v)
  have "set (xml_escape_char c) \<inter> {CHR ''<'', CHR ''>'', quote, CHR 0x27} = {}"
    by (auto simp: xml_escape_char_def quote_def)
  then show ?case using Cons by (simp add: xml_escape_Cons Int_Un_distrib2)
qed simp

section \<open>Derived keys\<close>

text \<open>The characters a part of a derived object key may have.\<close>

definition key_char :: "char \<Rightarrow> bool" where
  "key_char c \<longleftrightarrow> (97 \<le> char_code c \<and> char_code c \<le> 122) \<or> is_digit c \<or> c = CHR ''-'' \<or> c = CHR ''_''"

lemma key_char_lower:
  "ascii_alphanumeric c \<or> c = CHR ''-'' \<or> c = CHR ''_'' \<Longrightarrow> key_char (ascii_lower c)"
  by (auto simp: key_char_def ascii_alphanumeric_def is_digit_def ascii_lower_code ascii_lower_def)

lemma take_chars_set: "set (take_chars n s) \<subseteq> set s"
  by (induction n s rule: take_chars.induct) auto

lemma trim_dashes_set: "set (trim_dashes s) \<subseteq> set s"
  unfolding trim_dashes_def by (auto dest!: set_dropWhileD)

lemma key_char_not_continuation: "key_char c \<Longrightarrow> \<not> is_continuation c"
  by (auto simp: key_char_def is_continuation_def is_digit_def char_code_def)

lemma char_count_key_chars: "list_all key_char s \<Longrightarrow> char_count s = length s"
  by (induction s) (auto simp: char_count_def key_char_not_continuation)

text \<open>
  A part of a derived object key is never empty, has at most 96 bytes, and consists of
  lower-case letters, digits, dashes and underscores: no separator and no dot of an identifier
  reaches the key of the object.
\<close>

lemma key_part_safe:
  "source_sync_key_part v \<noteq> [] \<and> length (source_sync_key_part v) \<le> 96
   \<and> list_all key_char (source_sync_key_part v)"
proof -
  let ?cleaned = "map (\<lambda>ch. if length ch = 1 \<and> (ascii_alphanumeric (hd ch) \<or> hd ch = CHR ''-'' \<or> hd ch = CHR ''_'')
            then ascii_lower (hd ch) else CHR ''-'') (utf8_chars v)"
  let ?part = "take_chars 96 (trim_dashes ?cleaned)"
  have "list_all key_char ?cleaned"
    unfolding list_all_iff set_map
  proof (rule ballI, elim imageE)
    fix c ch assume "c = (if length ch = 1 \<and> (ascii_alphanumeric (hd ch) \<or> hd ch = CHR ''-'' \<or> hd ch = CHR ''_'')
            then ascii_lower (hd ch) else CHR ''-'')"
    then show "key_char c" using key_char_lower[of "hd ch"] by (simp add: key_char_def split: if_splits)
  qed
  then have "list_all key_char ?part"
    using take_chars_set[of 96] trim_dashes_set by (fastforce simp: list_all_iff)
  moreover have "length ?part \<le> 96"
    unfolding char_count_key_chars[OF calculation, symmetric] by (rule char_count_take_chars)
  moreover have "list_all key_char ''item''"
    by (simp add: key_char_def char_code_def)
  ultimately show ?thesis by (simp add: source_sync_key_part_def if_empty_def Let_def)
qed

lemmas key_part_chars = key_part_safe[THEN conjunct2, THEN conjunct2]

end
