(* ===== verification/Archive_Types.thy ===== *)
theory Archive_Types
  imports Archive_Text Base64url
begin

text \<open>
  The data of the archive intake store (\<open>crates/payroll-api/src/bin/archive_intake_store.rs\<close>):
  the enumerations with the texts they are stored as, and the records of an intake.
\<close>

section \<open>Enumerations\<close>

datatype file_family =
    FamilyHr | FamilyPayroll | FamilyGeneralArchive | FamilyUnknown

fun file_family_prefix :: "file_family \<Rightarrow> string" where
  "file_family_prefix FamilyHr = ''hr''"
| "file_family_prefix FamilyPayroll = ''payroll''"
| "file_family_prefix FamilyGeneralArchive = ''archive''"
| "file_family_prefix FamilyUnknown = ''needs-review''"

fun file_family_value :: "file_family \<Rightarrow> string" where
  "file_family_value FamilyHr = ''hr''"
| "file_family_value FamilyPayroll = ''payroll''"
| "file_family_value FamilyGeneralArchive = ''general_archive''"
| "file_family_value FamilyUnknown = ''unknown''"

definition file_family_from :: "string \<Rightarrow> string + file_family" where
  "file_family_from v =
     (if v = ''hr'' then Inr FamilyHr
      else if v = ''payroll'' then Inr FamilyPayroll
      else if v = ''general_archive'' then Inr FamilyGeneralArchive
      else if v = ''unknown'' then Inr FamilyUnknown
      else Inl ''unsupported archive family from PostgreSQL'')"

datatype database_target =
    TargetHrEmployeeStaging | TargetHrAttendanceStaging | TargetPayrollInputStaging | TargetArchiveBlob | TargetNeedsMapping

fun database_target_value :: "database_target \<Rightarrow> string" where
  "database_target_value TargetHrEmployeeStaging = ''hr_employee_staging''"
| "database_target_value TargetHrAttendanceStaging = ''hr_attendance_staging''"
| "database_target_value TargetPayrollInputStaging = ''payroll_input_staging''"
| "database_target_value TargetArchiveBlob = ''archive_blob''"
| "database_target_value TargetNeedsMapping = ''needs_mapping''"

definition database_target_from :: "string \<Rightarrow> string + database_target" where
  "database_target_from v =
     (if v = ''hr_employee_staging'' then Inr TargetHrEmployeeStaging
      else if v = ''hr_attendance_staging'' then Inr TargetHrAttendanceStaging
      else if v = ''payroll_input_staging'' then Inr TargetPayrollInputStaging
      else if v = ''archive_blob'' then Inr TargetArchiveBlob
      else if v = ''needs_mapping'' then Inr TargetNeedsMapping
      else Inl ''unsupported archive database target from PostgreSQL'')"

datatype archive_extraction_status =
    ExtractionConverted | ExtractionNeedsGuidance | ExtractionNotReadable | ExtractionNotApplicable

fun archive_extraction_status_value :: "archive_extraction_status \<Rightarrow> string" where
  "archive_extraction_status_value ExtractionConverted = ''converted''"
| "archive_extraction_status_value ExtractionNeedsGuidance = ''needs_guidance''"
| "archive_extraction_status_value ExtractionNotReadable = ''not_readable''"
| "archive_extraction_status_value ExtractionNotApplicable = ''not_applicable''"

definition archive_extraction_status_from :: "string \<Rightarrow> string + archive_extraction_status" where
  "archive_extraction_status_from v =
     (if v = ''converted'' then Inr ExtractionConverted
      else if v = ''needs_guidance'' then Inr ExtractionNeedsGuidance
      else if v = ''not_readable'' then Inr ExtractionNotReadable
      else if v = ''not_applicable'' then Inr ExtractionNotApplicable
      else Inl ''unsupported archive extraction status from PostgreSQL'')"

datatype archive_intake_status =
    IntakeReceived | IntakeNeedsGuidance | IntakeReadyForStaging | IntakeArchived | IntakeAdmitted | IntakeRejected

fun archive_intake_status_value :: "archive_intake_status \<Rightarrow> string" where
  "archive_intake_status_value IntakeReceived = ''received''"
| "archive_intake_status_value IntakeNeedsGuidance = ''needs_guidance''"
| "archive_intake_status_value IntakeReadyForStaging = ''ready_for_staging''"
| "archive_intake_status_value IntakeArchived = ''archived''"
| "archive_intake_status_value IntakeAdmitted = ''admitted''"
| "archive_intake_status_value IntakeRejected = ''rejected''"

definition archive_intake_status_from :: "string \<Rightarrow> string + archive_intake_status" where
  "archive_intake_status_from v =
     (if v = ''received'' then Inr IntakeReceived
      else if v = ''needs_guidance'' then Inr IntakeNeedsGuidance
      else if v = ''ready_for_staging'' then Inr IntakeReadyForStaging
      else if v = ''archived'' then Inr IntakeArchived
      else if v = ''admitted'' then Inr IntakeAdmitted
      else if v = ''rejected'' then Inr IntakeRejected
      else Inl ''unsupported archive intake status from PostgreSQL'')"

datatype archive_intake_action =
    ActionMapColumns | ActionResolveAnomalies | ActionSaveToBusinessData | ActionKeepInArchive

fun archive_intake_action_value :: "archive_intake_action \<Rightarrow> string" where
  "archive_intake_action_value ActionMapColumns = ''map_columns''"
| "archive_intake_action_value ActionResolveAnomalies = ''resolve_anomalies''"
| "archive_intake_action_value ActionSaveToBusinessData = ''save_to_business_data''"
| "archive_intake_action_value ActionKeepInArchive = ''keep_in_archive''"

definition archive_intake_action_from :: "string \<Rightarrow> string + archive_intake_action" where
  "archive_intake_action_from v =
     (if v = ''map_columns'' then Inr ActionMapColumns
      else if v = ''resolve_anomalies'' then Inr ActionResolveAnomalies
      else if v = ''save_to_business_data'' then Inr ActionSaveToBusinessData
      else if v = ''keep_in_archive'' \<or> v = ''none'' then Inr ActionKeepInArchive
      else Inl ''unsupported archive next action from PostgreSQL'')"

datatype field_mapping_status =
    MappingInferred | MappingNeedsReview | MappingPreserved | MappingConfirmed | MappingIgnored

datatype guidance_code =
    GuideChooseBusinessArea | GuideExplainColumn | GuideConfirmMissingRequiredData | GuideUploadReadableSheet

fun guidance_code_value :: "guidance_code \<Rightarrow> string" where
  "guidance_code_value GuideChooseBusinessArea = ''choose_business_area''"
| "guidance_code_value GuideExplainColumn = ''explain_column''"
| "guidance_code_value GuideConfirmMissingRequiredData = ''confirm_missing_required_data''"
| "guidance_code_value GuideUploadReadableSheet = ''upload_readable_sheet''"

definition guidance_code_from :: "string \<Rightarrow> string + guidance_code" where
  "guidance_code_from v =
     (if v = ''choose_business_area'' then Inr GuideChooseBusinessArea
      else if v = ''explain_column'' then Inr GuideExplainColumn
      else if v = ''confirm_missing_required_data'' then Inr GuideConfirmMissingRequiredData
      else if v = ''upload_readable_sheet'' then Inr GuideUploadReadableSheet
      else Inl ''unsupported archive guidance code from PostgreSQL'')"

datatype anomaly_code =
    AnomalyEmptyFile | AnomalyLargeFile | AnomalyNoRowsDetected | AnomalyUnknownFileStructure

fun anomaly_code_value :: "anomaly_code \<Rightarrow> string" where
  "anomaly_code_value AnomalyEmptyFile = ''empty_file''"
| "anomaly_code_value AnomalyLargeFile = ''large_file''"
| "anomaly_code_value AnomalyNoRowsDetected = ''no_rows_detected''"
| "anomaly_code_value AnomalyUnknownFileStructure = ''unknown_file_structure''"

definition anomaly_code_from :: "string \<Rightarrow> string + anomaly_code" where
  "anomaly_code_from v =
     (if v = ''empty_file'' then Inr AnomalyEmptyFile
      else if v = ''large_file'' then Inr AnomalyLargeFile
      else if v = ''no_rows_detected'' then Inr AnomalyNoRowsDetected
      else if v = ''unknown_file_structure'' then Inr AnomalyUnknownFileStructure
      else Inl ''unsupported archive anomaly code from PostgreSQL'')"

datatype guidance_severity =
    SeverityInfo | SeverityWarning | SeverityBlocking

fun guidance_severity_value :: "guidance_severity \<Rightarrow> string" where
  "guidance_severity_value SeverityInfo = ''info''"
| "guidance_severity_value SeverityWarning = ''warning''"
| "guidance_severity_value SeverityBlocking = ''blocking''"

definition guidance_severity_from :: "string \<Rightarrow> string + guidance_severity" where
  "guidance_severity_from v =
     (if v = ''info'' then Inr SeverityInfo
      else if v = ''warning'' then Inr SeverityWarning
      else if v = ''blocking'' then Inr SeverityBlocking
      else Inl ''unsupported archive guidance severity from PostgreSQL'')"

fun is_review_blocking :: "field_mapping_status \<Rightarrow> bool" where
  "is_review_blocking MappingNeedsReview = True"
| "is_review_blocking MappingPreserved = True"
| "is_review_blocking _ = False"

definition database_target_default :: database_target where
  "database_target_default = TargetNeedsMapping"

definition archive_extraction_status_default :: archive_extraction_status where
  "archive_extraction_status_default = ExtractionNotReadable"

definition field_mapping_status_default :: field_mapping_status where
  "field_mapping_status_default = MappingNeedsReview"

section \<open>Records\<close>

record guidance_item =
  gdi_id :: string
  gdi_code :: guidance_code
  gdi_severity :: guidance_severity
  gdi_column :: string

record anomaly_item =
  ani_id :: string
  ani_code :: anomaly_code
  ani_severity :: guidance_severity
  ani_column :: string

record field_mapping =
  fmp_source_column :: string
  fmp_target_table :: database_target
  fmp_target_field :: string
  fmp_confidence :: u8
  fmp_required :: bool
  fmp_status :: field_mapping_status
  fmp_editable :: bool
  fmp_reason_codes :: "string list"
  fmp_value_shape :: "string option"

record field_mapping_decision_input =
  fmd_source_column :: string
  fmd_target_table :: database_target
  fmd_target_field :: string
  fmd_status :: field_mapping_status
  fmd_ignore_reason :: "string option"

record archive_field_mapping_input =
  afm_source_fingerprint :: string
  afm_mappings :: "field_mapping_decision_input list"

record archive_intake_input =
  aii_file_name :: "string option"
  aii_file_type :: "string option"
  aii_file_size_bytes :: "u64 option"
  aii_content_sha256 :: "string option"
  aii_sample_text :: "string option"
  aii_object_uri :: "string option"
  aii_blob_uri :: "string option"

record archive_issue_resolution_input =
  air_issue_type :: "string option"
  air_issue_id :: "string option"
  air_code :: "string option"
  air_column :: "string option"
  air_decision :: "string option"
  air_note :: "string option"

record archive_issue_resolution_audit =
  ara_decision :: string
  ara_note :: string
  ara_resolved_by :: string

record archive_rollback_input =
  arb_reason :: "string option"
  arb_recovery_point_id :: "string option"

record archive_recovery_point =
  arp_id :: string
  arp_target_table :: string
  arp_business_key :: string
  arp_action :: string
  arp_before_exists :: bool
  arp_recovery_status :: string
  arp_captured_at_unix :: u64

record archive_source_sync_item =
  ass_id :: string
  ass_operation :: string
  ass_status :: string
  ass_source_object_uri :: string
  ass_generated_object_uri :: string
  ass_created_at_unix :: u64

record archive_source_version =
  avs_version :: i32
  avs_object_uri :: string
  avs_content_sha256 :: string
  avs_file_size_bytes :: u64
  avs_created_at_unix :: u64

record archive_intake_record =
  rec_id :: string
  rec_original_file_name :: string
  rec_stored_file_name :: string
  rec_file_type :: string
  rec_file_size_bytes :: u64
  rec_content_sha256 :: string
  rec_content_sample_sha256 :: string
  rec_content_sample_row_count :: u64
  rec_extraction_status :: archive_extraction_status
  rec_object_uri :: string
  rec_object_bucket :: string
  rec_object_key :: string
  rec_blob_ref :: string
  rec_family :: file_family
  rec_database_target :: database_target
  rec_status :: archive_intake_status
  rec_next_action :: archive_intake_action
  rec_extracted_columns :: "string list"
  rec_source_fingerprint :: string
  rec_field_mappings :: "field_mapping list"
  rec_estimated_rows :: u64
  rec_guidance_items :: "guidance_item list"
  rec_anomalies :: "anomaly_item list"
  rec_source_versions :: "archive_source_version list"
  rec_recovery_points :: "archive_recovery_point list"
  rec_source_sync_items :: "archive_source_sync_item list"
  rec_postgres_ready :: bool
  rec_updated_at_unix :: u64

record archive_intake_store =
  sto_schema :: string
  sto_intakes :: "archive_intake_record list"

record archive_source_sync_plan_item =
  spi_sync_item_id :: string
  spi_intake_id :: string
  spi_operation :: string
  spi_target_table :: string
  spi_source_object_uri :: string
  spi_generated_object_uri :: string
  spi_object_key :: string
  spi_content_type :: string
  spi_content_sha256 :: string
  spi_file_size_bytes :: u64
  spi_body_text :: string

record archive_source_sync_plan =
  spl_schema :: string
  spl_generated_at_unix :: u64
  spl_sync_items :: "archive_source_sync_plan_item list"

record archive_source_sync_completion_input =
  sci_sync_item_id :: "string option"
  sci_generated_object_uri :: "string option"
  sci_content_sha256 :: "string option"
  sci_file_size_bytes :: "u64 option"

record archive_source_sync_completion =
  sco_sync_item_id :: string
  sco_generated_object_uri :: string
  sco_content_sha256 :: string
  sco_file_size_bytes :: i64

record archive_source_sync_failure_input =
  sfi_sync_item_id :: "string option"
  sfi_error :: "string option"

record archive_source_sync_failure =
  sfa_sync_item_id :: string
  sfa_error :: string

record archive_source_sync_pending_row =
  spr_sync_item_id :: string
  spr_intake_id :: string
  spr_source_version :: i32
  spr_target_table :: string
  spr_operation :: string
  spr_source_object_uri :: string
  spr_change_payload :: json
  spr_workbook_rows :: "json list"
  spr_created_by :: string

record staged_business_row =
  sbr_row_number :: i32
  sbr_row_hash :: string
  sbr_row_payload_json :: string
  sbr_employee_external_id :: "string option"
  sbr_display_name :: "string option"
  sbr_department :: "string option"
  sbr_employment_status :: "string option"
  sbr_work_date :: "string option"
  sbr_gross_pay :: "string option"
  sbr_deduction_total :: "string option"

section \<open>Stored texts\<close>

text \<open>The contract of a stored enumeration: a value read back is the value that was written.\<close>

locale stored_value =
  fixes put :: "'a \<Rightarrow> string"
    and fetch :: "string \<Rightarrow> string + 'a"
  assumes fetch_put: "fetch (put x) = Inr x"
begin

lemma put_inj: "put x = put y \<longleftrightarrow> x = y"
  by (metis fetch_put sum.inject(2))

lemma fetch_put_all: "map (\<lambda>x. fetch (put x)) xs = map Inr xs"
  by (simp add: fetch_put)

end

lemma file_family_stored: "file_family_from (file_family_value x) = Inr x"
  by (cases x) (simp_all add: file_family_from_def)

interpretation file_family_text: stored_value file_family_value file_family_from
  by unfold_locales (rule file_family_stored)

lemma database_target_stored: "database_target_from (database_target_value x) = Inr x"
  by (cases x) (simp_all add: database_target_from_def)

interpretation database_target_text: stored_value database_target_value database_target_from
  by unfold_locales (rule database_target_stored)

lemma archive_extraction_status_stored: "archive_extraction_status_from (archive_extraction_status_value x) = Inr x"
  by (cases x) (simp_all add: archive_extraction_status_from_def)

interpretation archive_extraction_status_text: stored_value archive_extraction_status_value archive_extraction_status_from
  by unfold_locales (rule archive_extraction_status_stored)

lemma archive_intake_status_stored: "archive_intake_status_from (archive_intake_status_value x) = Inr x"
  by (cases x) (simp_all add: archive_intake_status_from_def)

interpretation archive_intake_status_text: stored_value archive_intake_status_value archive_intake_status_from
  by unfold_locales (rule archive_intake_status_stored)

lemma archive_intake_action_stored: "archive_intake_action_from (archive_intake_action_value x) = Inr x"
  by (cases x) (simp_all add: archive_intake_action_from_def)

interpretation archive_intake_action_text: stored_value archive_intake_action_value archive_intake_action_from
  by unfold_locales (rule archive_intake_action_stored)

lemma guidance_code_stored: "guidance_code_from (guidance_code_value x) = Inr x"
  by (cases x) (simp_all add: guidance_code_from_def)

interpretation guidance_code_text: stored_value guidance_code_value guidance_code_from
  by unfold_locales (rule guidance_code_stored)

lemma anomaly_code_stored: "anomaly_code_from (anomaly_code_value x) = Inr x"
  by (cases x) (simp_all add: anomaly_code_from_def)

interpretation anomaly_code_text: stored_value anomaly_code_value anomaly_code_from
  by unfold_locales (rule anomaly_code_stored)

lemma guidance_severity_stored: "guidance_severity_from (guidance_severity_value x) = Inr x"
  by (cases x) (simp_all add: guidance_severity_from_def)

interpretation guidance_severity_text: stored_value guidance_severity_value guidance_severity_from
  by unfold_locales (rule guidance_severity_stored)

text \<open>Every value of an enumeration of the intake store that is written to the database is
  read back as the same value, and two values are never stored as one text.\<close>

lemma enumerations_roundtrip:
  "(file_family_from (file_family_value a) = Inr a \<and> (file_family_value a = file_family_value a' \<longleftrightarrow> a = a'))
   \<and> (database_target_from (database_target_value b) = Inr b \<and> (database_target_value b = database_target_value b' \<longleftrightarrow> b = b'))
   \<and> (archive_extraction_status_from (archive_extraction_status_value c) = Inr c \<and> (archive_extraction_status_value c = archive_extraction_status_value c' \<longleftrightarrow> c = c'))
   \<and> (archive_intake_status_from (archive_intake_status_value d) = Inr d \<and> (archive_intake_status_value d = archive_intake_status_value d' \<longleftrightarrow> d = d'))
   \<and> (archive_intake_action_from (archive_intake_action_value e) = Inr e \<and> (archive_intake_action_value e = archive_intake_action_value e' \<longleftrightarrow> e = e'))
   \<and> (guidance_code_from (guidance_code_value f) = Inr f \<and> (guidance_code_value f = guidance_code_value f' \<longleftrightarrow> f = f'))
   \<and> (anomaly_code_from (anomaly_code_value g) = Inr g \<and> (anomaly_code_value g = anomaly_code_value g' \<longleftrightarrow> g = g'))
   \<and> (guidance_severity_from (guidance_severity_value h) = Inr h \<and> (guidance_severity_value h = guidance_severity_value h' \<longleftrightarrow> h = h'))"
  by (simp add: file_family_text.fetch_put file_family_text.put_inj database_target_text.fetch_put database_target_text.put_inj archive_extraction_status_text.fetch_put archive_extraction_status_text.put_inj archive_intake_status_text.fetch_put archive_intake_status_text.put_inj archive_intake_action_text.fetch_put archive_intake_action_text.put_inj guidance_code_text.fetch_put guidance_code_text.put_inj anomaly_code_text.fetch_put anomaly_code_text.put_inj guidance_severity_text.fetch_put guidance_severity_text.put_inj)

section \<open>Hexadecimal text\<close>

lemma hex_bytes_hex: "list_all ascii_hexdigit (hex_bytes bs) \<and> length (hex_bytes bs) = 2 * length bs"
proof (induction bs)
  case (Cons b bs)
  have "char_code b < 256" by (simp add: char_code_def)
  moreover have digit: "ascii_hexdigit (if n < 10 then char_of (48 + n) else char_of (87 + n))" if "n < 16" for n :: nat
    using that by (simp add: ascii_hexdigit_def is_digit_def)
  ultimately show ?case
    using Cons digit[of "char_code b div 16"] digit[of "char_code b mod 16"] by (simp add: hex_bytes_def Let_def)
qed (simp add: hex_bytes_def)

lemma hex_bytes_nonempty: "bs \<noteq> [] \<Longrightarrow> hex_bytes bs \<noteq> []"
  using hex_bytes_hex[of bs] by fastforce

lemma hex_bytes_trimmed: "trim (hex_bytes bs) = hex_bytes bs"
proof (rule trim_graphic)
  have "graphic c" if "ascii_hexdigit c" for c using that by (auto simp: ascii_hexdigit_def graphic_def is_digit_def)
  then show "list_all graphic (hex_bytes bs)" using hex_bytes_hex[of bs] by (auto simp: list_all_iff)
qed

end
