(* ===== verification/Archive_Mapping.thy ===== *)
theory Archive_Mapping
  imports Archive_Types
begin

text \<open>
  Columns and their targets in the archive intake store
  (\<open>crates/payroll-api/src/bin/archive_intake_store.rs\<close>): header keys, the header line of a
  sample, the rows below it, the classification of a file, the inferred field mappings, the
  required fields, and the staged rows.

  The lower case and the alphanumeric property of Unicode characters are the tables of the
  standard library's Unicode version; they are a parameter, given by the functions of the record
  \<open>unicode_tables\<close> on the bytes of a character (\<open>ut_lower\<close>, \<open>ut_alphanumeric\<close>) and on a string
  (\<open>ut_to_lowercase\<close>).  So is the SHA-256 digest.
\<close>

record unicode_tables =
  ut_lower :: "string \<Rightarrow> string"
  ut_alphanumeric :: "string \<Rightarrow> bool"
  ut_to_lowercase :: "string \<Rightarrow> string"

section \<open>Header keys and header lines\<close>

definition normalized_header_key :: "unicode_tables \<Rightarrow> string \<Rightarrow> string" where
  "normalized_header_key ut v =
     concat (filter (\<lambda>ch. ut_alphanumeric ut ch \<or> hangul_syllable ch)
       (utf8_chars (concat (map (ut_lower ut) (utf8_chars v)))))"

definition header_aliases :: "string list" where
  "header_aliases =
     [''no'', [CHR 0xEC, CHR 0x88, CHR 0x9C], 
      [CHR 0xEB, CHR 0xB2, CHR 0x88, CHR 0xED, CHR 0x98, CHR 0xB8], 
      [CHR 0xEC, CHR 0x82, CHR 0xAC, CHR 0xEB, CHR 0xB2, CHR 0x88], 
      [CHR 0xEC, CHR 0xA7, CHR 0x81, CHR 0xEC, CHR 0x9B, CHR 0x90, CHR 0xEB, CHR 0xB2, CHR 0x88, CHR 0xED, CHR 0x98, CHR 0xB8], 
      [CHR 0xEC, CHR 0x82, CHR 0xAC, CHR 0xEC, CHR 0x9B, CHR 0x90, CHR 0xEB, CHR 0xB2, CHR 0x88, CHR 0xED, CHR 0x98, CHR 0xB8], 
      [CHR 0xEC, CHR 0x84, CHR 0xB1, CHR 0xEB, CHR 0xAA, CHR 0x85], 
      [CHR 0xEC, CHR 0x84, CHR 0xB1] @ '' '' @ [CHR 0xEB, CHR 0xAA, CHR 0x85], 
      [CHR 0xEC, CHR 0x9D, CHR 0xB4, CHR 0xEB, CHR 0xA6, CHR 0x84], 
      [CHR 0xEC, CHR 0xA7, CHR 0x81, CHR 0xEC, CHR 0x9B, CHR 0x90, CHR 0xEB, CHR 0xAA, CHR 0x85], 
      [CHR 0xEC, CHR 0x86, CHR 0x8C, CHR 0xEC, CHR 0x86, CHR 0x8D], 
      [CHR 0xEB, CHR 0xB6, CHR 0x80, CHR 0xEC, CHR 0x84, CHR 0x9C], 
      [CHR 0xEC, CHR 0xA1, CHR 0xB0, CHR 0xEC, CHR 0xA7, CHR 0x81], 
      [CHR 0xEA, CHR 0xB7, CHR 0xBC, CHR 0xEB, CHR 0xAC, CHR 0xB4, CHR 0xEC, CHR 0xA7, CHR 0x80], 
      [CHR 0xEC, CHR 0x97, CHR 0x85, CHR 0xEB, CHR 0xAC, CHR 0xB4], 
      [CHR 0xEC, CHR 0xA7, CHR 0x81, CHR 0xEB, CHR 0xAC, CHR 0xB4], 
      [CHR 0xEC, CHR 0xA7, CHR 0x81, CHR 0xEC, CHR 0xB1, CHR 0x85], 
      [CHR 0xEA, CHR 0xB8, CHR 0xB0, CHR 0xEB, CHR 0xB3, CHR 0xB8, CHR 0xEC, CHR 0x8B, CHR 0x9C, CHR 0xEA, CHR 0xB8, CHR 0x89], 
      [CHR 0xED, CHR 0x86, CHR 0xB5, CHR 0xEC, CHR 0x83, CHR 0x81, CHR 0xEC, CHR 0x8B, CHR 0x9C, CHR 0xEA, CHR 0xB8, CHR 0x89], 
      [CHR 0xEA, CHR 0xB8, CHR 0x89, CHR 0xEC, CHR 0x97, CHR 0xAC], 
      [CHR 0xEC, CHR 0xA7, CHR 0x80, CHR 0xEA, CHR 0xB8, CHR 0x89, CHR 0xEC, CHR 0x95, CHR 0xA1], 
      [CHR 0xEC, CHR 0xA7, CHR 0x80, CHR 0xEA, CHR 0xB8, CHR 0x89, CHR 0xEC, CHR 0xB4, CHR 0x9D, CHR 0xEC, CHR 0x95, CHR 0xA1], 
      [CHR 0xEA, CHR 0xB3, CHR 0xB5, CHR 0xEC, CHR 0xA0, CHR 0x9C], 
      [CHR 0xEA, CHR 0xB3, CHR 0xB5, CHR 0xEC, CHR 0xA0, CHR 0x9C, CHR 0xEC, CHR 0xB4, CHR 0x9D, CHR 0xEC, CHR 0x95, CHR 0xA1], 
      [CHR 0xEC, CHR 0x9E, CHR 0x85, CHR 0xEC, CHR 0x82, CHR 0xAC, CHR 0xEC, CHR 0x9D, CHR 0xBC], 
      [CHR 0xED, CHR 0x87, CHR 0xB4, CHR 0xEC, CHR 0x82, CHR 0xAC, CHR 0xEC, CHR 0x9D, CHR 0xBC], 
      [CHR 0xEA, CHR 0xB7, CHR 0xBC, CHR 0xEB, CHR 0xAC, CHR 0xB4, CHR 0xEC, CHR 0x9D, CHR 0xBC], 
      [CHR 0xEC, CHR 0xA3, CHR 0xBC, CHR 0xEB, CHR 0xAF, CHR 0xBC, CHR 0xEB, CHR 0xB2, CHR 0x88, CHR 0xED, CHR 0x98, CHR 0xB8], 
      [CHR 0xED, CHR 0x9C, CHR 0xB4, CHR 0xEB, CHR 0x8C, CHR 0x80, CHR 0xED, CHR 0x8F, CHR 0xB0], 
      ''email'', ''e-mail'', [CHR 0xEC, CHR 0x9D, CHR 0x80, CHR 0xED, CHR 0x96, CHR 0x89], 
      [CHR 0xEA, CHR 0xB3, CHR 0x84, CHR 0xEC, CHR 0xA2, CHR 0x8C]]"

definition header_cells_score :: "unicode_tables \<Rightarrow> string list \<Rightarrow> int" where
  "header_cells_score ut cells =
     (let non_empty = filter (\<lambda>cell. cell \<noteq> []) (map trim cells) in
      if length non_empty < 2 then 0
      else
        let alias_keys = map (normalized_header_key ut) header_aliases;
            alias_score = int (length (filter (\<lambda>cell.
              let key = normalized_header_key ut cell in
              list_ex (\<lambda>alias. key = alias \<or> (alias \<noteq> [] \<and> contains_str alias key)) alias_keys) non_empty)) * 5;
            text_score = int (length (filter (\<lambda>cell. list_ex (\<lambda>ch.
              (length ch = 1 \<and> ascii_alphanumeric (hd ch) \<and> \<not> is_digit (hd ch)) \<or> hangul_syllable ch)
              (utf8_chars cell)) non_empty));
            numeric_penalty = int (length (filter (\<lambda>cell. normalized_numeric_text cell \<noteq> None) non_empty)) * 2 in
        alias_score + text_score + int (min (length non_empty) 12) - numeric_penalty)"

text \<open>The lines of a sample that are not blank, trimmed.\<close>

definition sample_lines :: "string \<Rightarrow> string list" where
  "sample_lines sample_text = filter (\<lambda>line. line \<noteq> []) (map trim (str_lines sample_text))"

text \<open>The best line so far is kept as its index, the line and its score.\<close>

fun best_line_loop :: "unicode_tables \<Rightarrow> nat \<Rightarrow> nat \<times> string \<times> int \<Rightarrow> string list \<Rightarrow> nat \<times> string \<times> int" where
  "best_line_loop ut index best [] = best"
| "best_line_loop ut index best (line # lines) =
     (let score = header_cells_score ut (split_delimited_line line (table_delimiter line)) in
      best_line_loop ut (Suc index) (if score > snd (snd best) then (index, line, score) else best) lines)"

definition best_header_line :: "unicode_tables \<Rightarrow> string \<Rightarrow> (nat \<times> string) option" where
  "best_header_line ut sample_text =
     (case sample_lines sample_text of
        [] \<Rightarrow> None
      | first # rest \<Rightarrow>
          (case best_line_loop ut 0 (0, first, 0) (take 40 (first # rest)) of
             (index, line, _) \<Rightarrow> Some (index, line)))"

text \<open>\<open>trim_matches\<close> of the quote character.\<close>

definition trim_quotes :: "string \<Rightarrow> string" where
  "trim_quotes s = rev (dropWhile (\<lambda>c. c = quote) (rev (dropWhile (\<lambda>c. c = quote) s)))"

definition extract_columns :: "unicode_tables \<Rightarrow> string \<Rightarrow> string list" where
  "extract_columns ut sample_text =
     (case best_header_line ut sample_text of
        None \<Rightarrow> []
      | Some (_, header_line) \<Rightarrow>
          take 48 (filter (\<lambda>v. v \<noteq> [])
            (map (\<lambda>v. trim_quotes (trim v)) (split_delimited_line header_line (table_delimiter header_line)))))"

definition estimate_rows :: "unicode_tables \<Rightarrow> string \<Rightarrow> u64" where
  "estimate_rows ut sample_text =
     (case best_header_line ut sample_text of
        None \<Rightarrow> 0
      | Some (header_index, _) \<Rightarrow>
          int (length (drop (header_index + 1) (filter (\<lambda>line. trim line \<noteq> []) (str_lines sample_text)))))"

section \<open>Rows\<close>

text \<open>Is a line the header the columns were taken from?\<close>

definition header_matches :: "string list \<Rightarrow> string \<Rightarrow> bool" where
  "header_matches columns line =
     (let parsed = filter (\<lambda>v. trim v \<noteq> []) (split_delimited_line line (table_delimiter line)) in
      list_all (\<lambda>(l, r). trim l = trim r) (zip parsed columns) \<and> length parsed = length columns)"

fun index_of :: "('a \<Rightarrow> bool) \<Rightarrow> 'a list \<Rightarrow> nat option" where
  "index_of p [] = None"
| "index_of p (x # xs) = (if p x then Some 0 else map_option Suc (index_of p xs))"

definition fit_row :: "nat \<Rightarrow> string list \<Rightarrow> string list" where
  "fit_row n row = take n row @ replicate (n - length row) []"

definition parse_business_rows :: "unicode_tables \<Rightarrow> string list \<Rightarrow> string \<Rightarrow> string list list" where
  "parse_business_rows ut columns sample_text =
     (let lines = sample_lines sample_text in
      if lines = [] then []
      else
        let header_index = unwrap_or 0 (opt_or (index_of (header_matches columns) lines)
              (map_option fst (best_header_line ut sample_text)));
            header_line = (if header_index < length lines then lines ! header_index else []);
            delimiter = table_delimiter header_line in
        map (fit_row (length columns))
          (filter (list_ex (\<lambda>v. trim v \<noteq> []))
            (map (\<lambda>line. split_delimited_line line delimiter) (take 500 (drop (header_index + 1) lines)))))"

section \<open>Families and targets\<close>

definition score_terms :: "unicode_tables \<Rightarrow> string \<Rightarrow> string list \<Rightarrow> string list \<Rightarrow> nat" where
  "score_terms ut text normalized_columns terms =
     sum_list (map (\<lambda>term. let term_key = normalized_header_key ut term in
       of_bool (contains_str term text)
       + length (filter (\<lambda>column. column = term_key \<or> contains_str term_key column) normalized_columns)) terms)"

definition payroll_terms :: "string list" where
  "payroll_terms =
     [''payroll'', ''salary'', [CHR 0xEA, CHR 0xB8, CHR 0x89, CHR 0xEC, CHR 0x97, CHR 0xAC], 
      [CHR 0xEC, CHR 0x9E, CHR 0x84, CHR 0xEA, CHR 0xB8, CHR 0x88], 
      [CHR 0xEA, CHR 0xB3, CHR 0xB5, CHR 0xEC, CHR 0xA0, CHR 0x9C, CHR 0xEC, CHR 0xB4, CHR 0x9D, CHR 0xEC, CHR 0x95, CHR 0xA1], 
      [CHR 0xEA, CHR 0xB8, CHR 0xB0, CHR 0xEB, CHR 0xB3, CHR 0xB8, CHR 0xEA, CHR 0xB8, CHR 0x89], 
      [CHR 0xEC, CHR 0x9E, CHR 0x94, CHR 0xEC, CHR 0x97, CHR 0x85, CHR 0xEC, CHR 0x8B, CHR 0x9C, CHR 0xEA, CHR 0xB0, CHR 0x84], 
      [CHR 0xEC, CHR 0xA7, CHR 0x80, CHR 0xEA, CHR 0xB8, CHR 0x89, CHR 0xEC, CHR 0xB4, CHR 0x9D, CHR 0xEC, CHR 0x95, CHR 0xA1], 
      [CHR 0xEC, CHR 0xA7, CHR 0x80, CHR 0xEA, CHR 0xB8, CHR 0x89, CHR 0xEC, CHR 0x95, CHR 0xA1], 
      [CHR 0xEC, CHR 0xB2, CHR 0xAD, CHR 0xEA, CHR 0xB5, CHR 0xAC, CHR 0xEA, CHR 0xB8, CHR 0x88, CHR 0xEC, CHR 0x95, CHR 0xA1]]"

definition hr_terms :: "string list" where
  "hr_terms =
     [''hr'', ''employee'', ''roster'', ''attendance'', 
      [CHR 0xEA, CHR 0xB7, CHR 0xBC, CHR 0xEB, CHR 0xA1, CHR 0x9C, CHR 0xEC, CHR 0x9E, CHR 0x90, CHR 0xEB, CHR 0xAA, CHR 0x85, CHR 0xEB, CHR 0xB6, CHR 0x80], 
      [CHR 0xEC, CHR 0xA7, CHR 0x81, CHR 0xEC, CHR 0x9B, CHR 0x90], 
      [CHR 0xEC, CHR 0x82, CHR 0xAC, CHR 0xEC, CHR 0x9B, CHR 0x90], 
      [CHR 0xEC, CHR 0x9D, CHR 0xB8, CHR 0xEC, CHR 0x82, CHR 0xAC], 
      [CHR 0xEA, CHR 0xB7, CHR 0xBC, CHR 0xED, CHR 0x83, CHR 0x9C], 
      [CHR 0xEC, CHR 0xB6, CHR 0x9C, CHR 0xED, CHR 0x87, CHR 0xB4, CHR 0xEA, CHR 0xB7, CHR 0xBC], 
      [CHR 0xED, CHR 0x9C, CHR 0xB4, CHR 0xEA, CHR 0xB0, CHR 0x80], 
      [CHR 0xEC, CHR 0xA3, CHR 0xBC, CHR 0xEB, CHR 0xAF, CHR 0xBC, CHR 0xEB, CHR 0xB2, CHR 0x88, CHR 0xED, CHR 0x98, CHR 0xB8], 
      [CHR 0xEC, CHR 0x9E, CHR 0x85, CHR 0xEC, CHR 0x82, CHR 0xAC, CHR 0xEC, CHR 0x9D, CHR 0xBC], 
      [CHR 0xED, CHR 0x87, CHR 0xB4, CHR 0xEC, CHR 0x82, CHR 0xAC, CHR 0xEC, CHR 0x9D, CHR 0xBC], 
      [CHR 0xED, CHR 0x9C, CHR 0xB4, CHR 0xEB, CHR 0x8C, CHR 0x80, CHR 0xED, CHR 0x8F, CHR 0xB0], 
      [CHR 0xEA, CHR 0xB3, CHR 0x84, CHR 0xEC, CHR 0xA2, CHR 0x8C]]"

definition classify_family :: "unicode_tables \<Rightarrow> string \<Rightarrow> string \<Rightarrow> string \<Rightarrow> string list \<Rightarrow> file_family" where
  "classify_family ut file_name file_type sample_text columns =
     (let text = ut_to_lowercase ut file_name @ '' '' @ ut_to_lowercase ut file_type @ '' ''
            @ ut_to_lowercase ut (join_with '' '' (take 2 (str_lines sample_text)));
          normalized_columns = map (normalized_header_key ut) columns;
          payroll_score = score_terms ut text normalized_columns payroll_terms;
          hr_score = score_terms ut text normalized_columns hr_terms in
      if hr_score > 0 \<and> hr_score \<ge> payroll_score then FamilyHr
      else if payroll_score > 0 then FamilyPayroll
      else if columns \<noteq> [] then FamilyUnknown else FamilyGeneralArchive)"

definition attendance_terms :: "string list" where
  "attendance_terms = []"

definition database_target_for :: "unicode_tables \<Rightarrow> file_family \<Rightarrow> string \<Rightarrow> string list \<Rightarrow> database_target" where
  "database_target_for ut family file_name columns =
     (let text = ut_to_lowercase ut file_name @ '' '' @ ut_to_lowercase ut (join_with '' '' columns) in
      case family of
        FamilyPayroll \<Rightarrow> TargetPayrollInputStaging
      | FamilyHr \<Rightarrow> if contains_any text attendance_terms then TargetHrAttendanceStaging else TargetHrEmployeeStaging
      | FamilyGeneralArchive \<Rightarrow> TargetArchiveBlob
      | FamilyUnknown \<Rightarrow> TargetNeedsMapping)"

definition is_staging_target :: "database_target \<Rightarrow> bool" where
  "is_staging_target target \<longleftrightarrow>
     target \<in> {TargetHrEmployeeStaging, TargetHrAttendanceStaging, TargetPayrollInputStaging}"

section \<open>Target fields\<close>

text \<open>A target field with the aliases of its headers; every entry of the tables is exact.\<close>

type_synonym target_table = "(string \<times> bool \<times> string list) list"

definition target_for_key :: "unicode_tables \<Rightarrow> string \<Rightarrow> target_table \<Rightarrow> (string \<times> bool) option" where
  "target_for_key ut key mappings =
     map_option (\<lambda>(target, exact, _). (target, exact))
       (opt_or
         (find_first (\<lambda>(_, _, aliases). list_ex (\<lambda>alias. key = normalized_header_key ut alias) aliases) mappings)
         (find_first (\<lambda>(_, _, aliases). list_ex (\<lambda>alias.
            let alias_key = normalized_header_key ut alias in
            3 \<le> length alias_key \<and> contains_str alias_key key) aliases) mappings))"

definition hr_employee_targets :: target_table where
  "hr_employee_targets =
     [(''source_row_number'', True, [''no'', ''no.'', [CHR 0xEC, CHR 0x88, CHR 0x9C], 
         [CHR 0xEB, CHR 0xB2, CHR 0x88, CHR 0xED, CHR 0x98, CHR 0xB8]]),
      (''employee_external_id'', True, [[CHR 0xEC, CHR 0x82, CHR 0xAC, CHR 0xEB, CHR 0xB2, CHR 0x88], 
         [CHR 0xEC, CHR 0xA7, CHR 0x81, CHR 0xEC, CHR 0x9B, CHR 0x90, CHR 0xEB, CHR 0xB2, CHR 0x88, CHR 0xED, CHR 0x98, CHR 0xB8], 
         [CHR 0xEC, CHR 0x82, CHR 0xAC, CHR 0xEC, CHR 0x9B, CHR 0x90, CHR 0xEB, CHR 0xB2, CHR 0x88, CHR 0xED, CHR 0x98, CHR 0xB8], 
         ''employeeid'', ''employee_id'', ''externalid'']),
      (''display_name'', True, [[CHR 0xEC, CHR 0x84, CHR 0xB1, CHR 0xEB, CHR 0xAA, CHR 0x85], 
         [CHR 0xEC, CHR 0x84, CHR 0xB1] @ '' '' @ [CHR 0xEB, CHR 0xAA, CHR 0x85], 
         [CHR 0xEC, CHR 0x9D, CHR 0xB4, CHR 0xEB, CHR 0xA6, CHR 0x84], 
         [CHR 0xEC, CHR 0xA7, CHR 0x81, CHR 0xEC, CHR 0x9B, CHR 0x90, CHR 0xEB, CHR 0xAA, CHR 0x85], 
         ''name'', ''displayname'']),
      (''department'', True, [[CHR 0xEC, CHR 0x86, CHR 0x8C, CHR 0xEC, CHR 0x86, CHR 0x8D], 
         [CHR 0xEB, CHR 0xB6, CHR 0x80, CHR 0xEC, CHR 0x84, CHR 0x9C], 
         [CHR 0xEC, CHR 0xA1, CHR 0xB0, CHR 0xEC, CHR 0xA7, CHR 0x81], ''department'', ''team'']),
      (''workplace'', True, [[CHR 0xEA, CHR 0xB7, CHR 0xBC, CHR 0xEB, CHR 0xAC, CHR 0xB4, CHR 0xEC, CHR 0xA7, CHR 0x80], 
         [CHR 0xEC, CHR 0x82, CHR 0xAC, CHR 0xEC, CHR 0x97, CHR 0x85, CHR 0xEC, CHR 0x9E, CHR 0xA5], 
         ''workplace'', ''site'']),
      (''job_duty'', True, [[CHR 0xEC, CHR 0x97, CHR 0x85, CHR 0xEB, CHR 0xAC, CHR 0xB4], 
         [CHR 0xEC, CHR 0xA7, CHR 0x81, CHR 0xEB, CHR 0xAC, CHR 0xB4], 
         [CHR 0xEB, CHR 0x8B, CHR 0xB4, CHR 0xEB, CHR 0x8B, CHR 0xB9, CHR 0xEC, CHR 0x97, CHR 0x85, CHR 0xEB, CHR 0xAC, CHR 0xB4], 
         ''jobduty'', ''job'']),
      (''role_title'', True, [[CHR 0xEC, CHR 0xA7, CHR 0x81, CHR 0xEC, CHR 0xB1, CHR 0x85], 
         [CHR 0xEC, CHR 0xA7, CHR 0x81, CHR 0xEC, CHR 0x9C, CHR 0x84], 
         [CHR 0xEC, CHR 0xA7, CHR 0x81, CHR 0xEA, CHR 0xB8, CHR 0x89], ''title'', ''role'']),
      (''base_hourly_rate'', True, [[CHR 0xEA, CHR 0xB8, CHR 0xB0, CHR 0xEB, CHR 0xB3, CHR 0xB8, CHR 0xEC, CHR 0x8B, CHR 0x9C, CHR 0xEA, CHR 0xB8, CHR 0x89], 
         ''basehourlyrate'']),
      (''regular_hourly_rate'', True, [[CHR 0xED, CHR 0x86, CHR 0xB5, CHR 0xEC, CHR 0x83, CHR 0x81, CHR 0xEC, CHR 0x8B, CHR 0x9C, CHR 0xEA, CHR 0xB8, CHR 0x89], 
         ''regularhourlyrate'']),
      (''allowance'', True, [[CHR 0xEC, CHR 0x88, CHR 0x98, CHR 0xEB, CHR 0x8B, CHR 0xB9], ''allowance'']),
      (''national_pension'', True, [[CHR 0xEA, CHR 0xB5, CHR 0xAD, CHR 0xEB, CHR 0xAF, CHR 0xBC, CHR 0xEC, CHR 0x97, CHR 0xB0, CHR 0xEA, CHR 0xB8, CHR 0x88], 
         ''nationalpension'']),
      (''health_insurance'', True, [[CHR 0xEA, CHR 0xB1, CHR 0xB4, CHR 0xEA, CHR 0xB0, CHR 0x95, CHR 0xEB, CHR 0xB3, CHR 0xB4, CHR 0xED, CHR 0x97, CHR 0x98], 
         ''healthinsurance'']),
      (''income_tax'', True, [[CHR 0xEC, CHR 0x86, CHR 0x8C, CHR 0xEB, CHR 0x93, CHR 0x9D, CHR 0xEC, CHR 0x84, CHR 0xB8], 
         ''incometax'']),
      (''annual_leave_accrued'', True, [[CHR 0xEB, CHR 0xB0, CHR 0x9C, CHR 0xEC, CHR 0x83, CHR 0x9D, CHR 0xEC, CHR 0x97, CHR 0xB0, CHR 0xEC, CHR 0xB0, CHR 0xA8]]),
      (''annual_leave_used'', True, [[CHR 0xEC, CHR 0x82, CHR 0xAC, CHR 0xEC, CHR 0x9A, CHR 0xA9, CHR 0xEC, CHR 0x97, CHR 0xB0, CHR 0xEC, CHR 0xB0, CHR 0xA8]]),
      (''annual_leave_balance'', True, [[CHR 0xEC, CHR 0x9E, CHR 0x94, CHR 0xEC, CHR 0x97, CHR 0xAC, CHR 0xEC, CHR 0x97, CHR 0xB0, CHR 0xEC, CHR 0xB0, CHR 0xA8]]),
      (''resident_registration_number'', True, [[CHR 0xEC, CHR 0xA3, CHR 0xBC, CHR 0xEB, CHR 0xAF, CHR 0xBC, CHR 0xEB, CHR 0xB2, CHR 0x88, CHR 0xED, CHR 0x98, CHR 0xB8], 
         [CHR 0xEC, CHR 0xA3, CHR 0xBC, CHR 0xEB, CHR 0xAF, CHR 0xBC, CHR 0xEB, CHR 0x93, CHR 0xB1, CHR 0xEB, CHR 0xA1, CHR 0x9D, CHR 0xEB, CHR 0xB2, CHR 0x88, CHR 0xED, CHR 0x98, CHR 0xB8]]),
      (''hire_date'', True, [[CHR 0xEC, CHR 0x9E, CHR 0x85, CHR 0xEC, CHR 0x82, CHR 0xAC, CHR 0xEC, CHR 0x9D, CHR 0xBC], 
         ''hiredate'']),
      (''insurance_start_date'', True, [[CHR 0xEB, CHR 0xB3, CHR 0xB4, CHR 0xED, CHR 0x97, CHR 0x98, CHR 0xEA, CHR 0xB0, CHR 0x80, CHR 0xEC, CHR 0x9E, CHR 0x85, CHR 0xEC, CHR 0x9D, CHR 0xBC]]),
      (''termination_date'', True, [[CHR 0xED, CHR 0x87, CHR 0xB4, CHR 0xEC, CHR 0x82, CHR 0xAC, CHR 0xEC, CHR 0x9D, CHR 0xBC], 
         ''terminationdate'']),
      (''insurance_end_date'', True, [[CHR 0xEB, CHR 0xB3, CHR 0xB4, CHR 0xED, CHR 0x97, CHR 0x98, CHR 0xEC, CHR 0x83, CHR 0x81, CHR 0xEC, CHR 0x8B, CHR 0xA4, CHR 0xEC, CHR 0x9D, CHR 0xBC]]),
      (''address'', True, [[CHR 0xEC, CHR 0xA3, CHR 0xBC, CHR 0xEC, CHR 0x86, CHR 0x8C], ''address'']),
      (''mobile_phone'', True, [[CHR 0xED, CHR 0x9C, CHR 0xB4, CHR 0xEB, CHR 0x8C, CHR 0x80, CHR 0xED, CHR 0x8F, CHR 0xB0], 
         [CHR 0xEC, CHR 0xA0, CHR 0x84, CHR 0xED, CHR 0x99, CHR 0x94, CHR 0xEB, CHR 0xB2, CHR 0x88, CHR 0xED, CHR 0x98, CHR 0xB8], 
         ''mobile'', ''phone'']),
      (''email'', True, [''email'', ''e-mail'', 
         [CHR 0xEC, CHR 0x9D, CHR 0xB4, CHR 0xEB, CHR 0xA9, CHR 0x94, CHR 0xEC, CHR 0x9D, CHR 0xBC]]),
      (''severance_interim_settlement'', True, [[CHR 0xED, CHR 0x87, CHR 0xB4, CHR 0xEC, CHR 0xA7, CHR 0x81, CHR 0xEA, CHR 0xB8, CHR 0x88, CHR 0xEC, CHR 0xA4, CHR 0x91, CHR 0xEA, CHR 0xB0, CHR 0x84, CHR 0xEC, CHR 0xA0, CHR 0x95, CHR 0xEC, CHR 0x82, CHR 0xB0]]),
      (''bank_name'', True, [[CHR 0xEC, CHR 0x9D, CHR 0x80, CHR 0xED, CHR 0x96, CHR 0x89], ''bank'']),
      (''bank_account'', True, [[CHR 0xEA, CHR 0xB3, CHR 0x84, CHR 0xEC, CHR 0xA2, CHR 0x8C], ''account'']),
      (''certification'', True, [[CHR 0xEC, CHR 0x9E, CHR 0x90, CHR 0xEA, CHR 0xB2, CHR 0xA9, CHR 0xEC, CHR 0xA6, CHR 0x9D], 
         ''certification''])]"

definition hr_employee_target_for_key :: "unicode_tables \<Rightarrow> string \<Rightarrow> (string \<times> bool) option" where
  "hr_employee_target_for_key ut key = target_for_key ut key hr_employee_targets"

definition attendance_targets :: target_table where
  "attendance_targets =
     [(''employee_external_id'', True, [[CHR 0xEC, CHR 0x82, CHR 0xAC, CHR 0xEB, CHR 0xB2, CHR 0x88], 
         [CHR 0xEC, CHR 0xA7, CHR 0x81, CHR 0xEC, CHR 0x9B, CHR 0x90, CHR 0xEB, CHR 0xB2, CHR 0x88, CHR 0xED, CHR 0x98, CHR 0xB8], 
         [CHR 0xEC, CHR 0x82, CHR 0xAC, CHR 0xEC, CHR 0x9B, CHR 0x90, CHR 0xEB, CHR 0xB2, CHR 0x88, CHR 0xED, CHR 0x98, CHR 0xB8], 
         ''employeeid'']),
      (''display_name'', True, [[CHR 0xEC, CHR 0x84, CHR 0xB1, CHR 0xEB, CHR 0xAA, CHR 0x85], 
         [CHR 0xEC, CHR 0x84, CHR 0xB1] @ '' '' @ [CHR 0xEB, CHR 0xAA, CHR 0x85], 
         [CHR 0xEC, CHR 0x9D, CHR 0xB4, CHR 0xEB, CHR 0xA6, CHR 0x84], 
         [CHR 0xEC, CHR 0xA7, CHR 0x81, CHR 0xEC, CHR 0x9B, CHR 0x90, CHR 0xEB, CHR 0xAA, CHR 0x85], 
         ''name'']),
      (''work_date'', True, [[CHR 0xEA, CHR 0xB7, CHR 0xBC, CHR 0xEB, CHR 0xAC, CHR 0xB4, CHR 0xEC, CHR 0x9D, CHR 0xBC], 
         [CHR 0xEC, CHR 0x9D, CHR 0xBC, CHR 0xEC, CHR 0x9E, CHR 0x90], ''date'', ''workdate'']),
      (''work_hours'', True, [[CHR 0xEA, CHR 0xB7, CHR 0xBC, CHR 0xEB, CHR 0xAC, CHR 0xB4, CHR 0xEC, CHR 0x8B, CHR 0x9C, CHR 0xEA, CHR 0xB0, CHR 0x84], 
         [CHR 0xEC, CHR 0x8B, CHR 0x9C, CHR 0xEA, CHR 0xB0, CHR 0x84], ''hours'']),
      (''attendance_status'', True, [[CHR 0xEA, CHR 0xB7, CHR 0xBC, CHR 0xED, CHR 0x83, CHR 0x9C], 
         [CHR 0xEC, CHR 0x83, CHR 0x81, CHR 0xED, CHR 0x83, CHR 0x9C], ''status''])]"

definition attendance_target_for_key :: "unicode_tables \<Rightarrow> string \<Rightarrow> (string \<times> bool) option" where
  "attendance_target_for_key ut key = target_for_key ut key attendance_targets"

definition payroll_targets :: target_table where
  "payroll_targets =
     [(''source_row_number'', True, [[CHR 0xEC, CHR 0x88, CHR 0x9C], ''no'', ''no.'', 
         [CHR 0xEB, CHR 0xB2, CHR 0x88, CHR 0xED, CHR 0x98, CHR 0xB8]]),
      (''employee_external_id'', True, [[CHR 0xEC, CHR 0x82, CHR 0xAC, CHR 0xEB, CHR 0xB2, CHR 0x88], 
         [CHR 0xEC, CHR 0xA7, CHR 0x81, CHR 0xEC, CHR 0x9B, CHR 0x90, CHR 0xEB, CHR 0xB2, CHR 0x88, CHR 0xED, CHR 0x98, CHR 0xB8], 
         [CHR 0xEC, CHR 0x82, CHR 0xAC, CHR 0xEC, CHR 0x9B, CHR 0x90, CHR 0xEB, CHR 0xB2, CHR 0x88, CHR 0xED, CHR 0x98, CHR 0xB8], 
         ''employeeid'', [CHR 0xEC, CHR 0xBD, CHR 0x94, CHR 0xEB, CHR 0x93, CHR 0x9C]]),
      (''display_name'', True, [[CHR 0xEC, CHR 0x84, CHR 0xB1, CHR 0xEB, CHR 0xAA, CHR 0x85], 
         [CHR 0xEC, CHR 0x84, CHR 0xB1] @ '' '' @ [CHR 0xEB, CHR 0xAA, CHR 0x85], 
         [CHR 0xEC, CHR 0x9D, CHR 0xB4, CHR 0xEB, CHR 0xA6, CHR 0x84], 
         [CHR 0xEC, CHR 0xA7, CHR 0x81, CHR 0xEC, CHR 0x9B, CHR 0x90, CHR 0xEB, CHR 0xAA, CHR 0x85], 
         ''name'']),
      (''department'', True, [[CHR 0xEC, CHR 0x86, CHR 0x8C, CHR 0xEC, CHR 0x86, CHR 0x8D], 
         [CHR 0xEB, CHR 0xB6, CHR 0x80, CHR 0xEC, CHR 0x84, CHR 0x9C], 
         [CHR 0xEC, CHR 0xA1, CHR 0xB0, CHR 0xEC, CHR 0xA7, CHR 0x81], ''department'']),
      (''workplace'', True, [[CHR 0xEA, CHR 0xB7, CHR 0xBC, CHR 0xEB, CHR 0xAC, CHR 0xB4, CHR 0xEC, CHR 0xA7, CHR 0x80], 
         [CHR 0xEC, CHR 0x82, CHR 0xAC, CHR 0xEC, CHR 0x97, CHR 0x85, CHR 0xEC, CHR 0x9E, CHR 0xA5], 
         ''workplace'']),
      (''hire_date'', True, [[CHR 0xEC, CHR 0x9E, CHR 0x85, CHR 0xEC, CHR 0x82, CHR 0xAC, CHR 0xEC, CHR 0x9D, CHR 0xBC], 
         ''hiredate'']),
      (''termination_date'', True, [[CHR 0xED, CHR 0x87, CHR 0xB4, CHR 0xEC, CHR 0x82, CHR 0xAC, CHR 0xEC, CHR 0x9D, CHR 0xBC], 
         ''terminationdate'']),
      (''base_hourly_rate'', True, [[CHR 0xEA, CHR 0xB8, CHR 0xB0, CHR 0xEB, CHR 0xB3, CHR 0xB8, CHR 0xEC, CHR 0x8B, CHR 0x9C, CHR 0xEA, CHR 0xB8, CHR 0x89], 
         ''basehourlyrate'']),
      (''regular_hourly_rate'', True, [[CHR 0xED, CHR 0x86, CHR 0xB5, CHR 0xEC, CHR 0x83, CHR 0x81, CHR 0xEC, CHR 0x8B, CHR 0x9C, CHR 0xEA, CHR 0xB8, CHR 0x89], 
         ''regularhourlyrate'']),
      (''base_pay'', True, [[CHR 0xEA, CHR 0xB8, CHR 0xB0, CHR 0xEB, CHR 0xB3, CHR 0xB8, CHR 0xEA, CHR 0xB8, CHR 0x89], 
         [CHR 0xEA, CHR 0xB8, CHR 0xB0] @ '' '' @ [CHR 0xEB, CHR 0xB3, CHR 0xB8] @ '' '' @ [CHR 0xEA, CHR 0xB8, CHR 0x89], 
         ''basepay'']),
      (''gross_pay'', True, [[CHR 0xEA, CHR 0xB8, CHR 0x89, CHR 0xEC, CHR 0x97, CHR 0xAC], 
         [CHR 0xEC, CHR 0xA7, CHR 0x80, CHR 0xEA, CHR 0xB8, CHR 0x89, CHR 0xEC, CHR 0xB4, CHR 0x9D, CHR 0xEC, CHR 0x95, CHR 0xA1], 
         [CHR 0xEC, CHR 0xB4, CHR 0x9D, CHR 0xEC, CHR 0xA7, CHR 0x80, CHR 0xEA, CHR 0xB8, CHR 0x89], 
         [CHR 0xED, CHR 0x95, CHR 0xA9, CHR 0xEA, CHR 0xB3, CHR 0x84], 
         [CHR 0xEC, CHR 0xB2, CHR 0xAD, CHR 0xEA, CHR 0xB5, CHR 0xAC, CHR 0xEA, CHR 0xB8, CHR 0x88, CHR 0xEC, CHR 0x95, CHR 0xA1], 
         [CHR 0xEC, CHR 0xA7, CHR 0x80, CHR 0xEA, CHR 0xB8, CHR 0x89, CHR 0xEC, CHR 0x95, CHR 0xA1], 
         ''grosspay'']),
      (''deduction_total'', True, [[CHR 0xEA, CHR 0xB3, CHR 0xB5, CHR 0xEC, CHR 0xA0, CHR 0x9C, CHR 0xEC, CHR 0xB4, CHR 0x9D, CHR 0xEC, CHR 0x95, CHR 0xA1], 
         [CHR 0xEA, CHR 0xB3, CHR 0xB5] @ '' '' @ [CHR 0xEC, CHR 0xA0, CHR 0x9C] @ '' '' @ [CHR 0xEC, CHR 0xB4, CHR 0x9D] @ '' '' @ [CHR 0xEC, CHR 0x95, CHR 0xA1], 
         [CHR 0xEA, CHR 0xB3, CHR 0xB5, CHR 0xEC, CHR 0xA0, CHR 0x9C, CHR 0xEA, CHR 0xB8, CHR 0x88, CHR 0xEC, CHR 0x95, CHR 0xA1], 
         [CHR 0xEA, CHR 0xB3, CHR 0xB5, CHR 0xEC, CHR 0xA0, CHR 0x9C], ''deductiontotal'']),
      (''overtime_hours'', True, [[CHR 0xEC, CHR 0x9E, CHR 0x94, CHR 0xEC, CHR 0x97, CHR 0x85, CHR 0xEC, CHR 0x8B, CHR 0x9C, CHR 0xEA, CHR 0xB0, CHR 0x84], 
         ''ot'', ''o/t'', ''overtime'']),
      (''shift_hours'', True, [[CHR 0xEA, CHR 0xB5, CHR 0x90, CHR 0xEB, CHR 0x8C, CHR 0x80, CHR 0xEC, CHR 0x8B, CHR 0x9C, CHR 0xEA, CHR 0xB0, CHR 0x84]]),
      (''night_hours'', True, [[CHR 0xEC, CHR 0x8B, CHR 0xAC, CHR 0xEC, CHR 0x95, CHR 0xBC, CHR 0xEC, CHR 0x8B, CHR 0x9C, CHR 0xEA, CHR 0xB0, CHR 0x84]]),
      (''holiday_hours'', True, [[CHR 0xED, CHR 0x8A, CHR 0xB9, CHR 0xEA, CHR 0xB7, CHR 0xBC, CHR 0xEC, CHR 0x8B, CHR 0x9C, CHR 0xEA, CHR 0xB0, CHR 0x84]]),
      (''position_allowance'', True, [[CHR 0xEC, CHR 0xA7, CHR 0x81, CHR 0xEC, CHR 0xB1, CHR 0x85, CHR 0xEC, CHR 0x88, CHR 0x98, CHR 0xEB, CHR 0x8B, CHR 0xB9]]),
      (''labor_cost'', True, [[CHR 0xEB, CHR 0x85, CHR 0xB8, CHR 0xEB, CHR 0xAC, CHR 0xB4, CHR 0xEB, CHR 0xB9, CHR 0x84, CHR 0xEA, CHR 0xB3, CHR 0x84]]),
      (''supply_amount'', True, [[CHR 0xEA, CHR 0xB3, CHR 0xB5, CHR 0xEA, CHR 0xB8, CHR 0x89, CHR 0xEA, CHR 0xB0, CHR 0x80, CHR 0xEC, CHR 0x95, CHR 0xA1]]),
      (''vat'', True, [[CHR 0xEB, CHR 0xB6, CHR 0x80, CHR 0xEA, CHR 0xB0, CHR 0x80, CHR 0xEC, CHR 0x84, CHR 0xB8]])]"

definition payroll_target_for_key :: "unicode_tables \<Rightarrow> string \<Rightarrow> (string \<times> bool) option" where
  "payroll_target_for_key ut key = target_for_key ut key payroll_targets"

fun canonical_fields_of :: "database_target \<Rightarrow> string list" where
  "canonical_fields_of TargetHrEmployeeStaging =
     [''employee_external_id'', ''display_name'', ''department'', ''workplace'', ''job_duty'', 
      ''role_title'', ''base_hourly_rate'', ''regular_hourly_rate'', ''allowance'', 
      ''national_pension'', ''health_insurance'', ''income_tax'', ''annual_leave_accrued'', 
      ''annual_leave_used'', ''annual_leave_balance'', ''resident_registration_number'', 
      ''hire_date'', ''insurance_start_date'', ''termination_date'', ''insurance_end_date'', 
      ''address'', ''mobile_phone'', ''email'', ''severance_interim_settlement'', ''bank_name'', 
      ''bank_account'', ''certification'', ''source_row_number'', ''employment_status'']"
| "canonical_fields_of TargetHrAttendanceStaging =
     [''employee_external_id'', ''display_name'', ''work_date'', ''work_hours'', ''attendance_status'']"
| "canonical_fields_of TargetPayrollInputStaging =
     [''employee_external_id'', ''display_name'', ''department'', ''workplace'', ''hire_date'', 
      ''termination_date'', ''base_hourly_rate'', ''regular_hourly_rate'', ''base_pay'', 
      ''gross_pay'', ''deduction_total'', ''overtime_hours'', ''shift_hours'', ''night_hours'', 
      ''holiday_hours'', ''position_allowance'', ''labor_cost'', ''supply_amount'', ''vat'', 
      ''source_row_number'']"
| "canonical_fields_of TargetArchiveBlob = []"
| "canonical_fields_of TargetNeedsMapping = []"

definition canonical_target_fields :: "database_target \<Rightarrow> string list" where
  "canonical_target_fields target = canonical_fields_of target @ [''source_payload'', ''ignored'']"

fun required_target_fields :: "database_target \<Rightarrow> string list" where
  "required_target_fields TargetHrEmployeeStaging = [''display_name'', ''department'']"
| "required_target_fields TargetHrAttendanceStaging = [''employee_external_id'', ''work_date'']"
| "required_target_fields TargetPayrollInputStaging = [''employee_external_id'', ''gross_pay'']"
| "required_target_fields TargetArchiveBlob = []"
| "required_target_fields TargetNeedsMapping = []"

definition target_field_required :: "database_target \<Rightarrow> string \<Rightarrow> bool" where
  "target_field_required target target_field \<longleftrightarrow> target_field \<in> set (required_target_fields target)"

definition target_field_allowed :: "database_target \<Rightarrow> string \<Rightarrow> bool" where
  "target_field_allowed target target_field \<longleftrightarrow> target_field \<in> set (canonical_target_fields target)"

definition accepts_field :: "database_target \<Rightarrow> string \<Rightarrow> field_mapping \<Rightarrow> bool" where
  "accepts_field target required mapping \<longleftrightarrow>
     fmp_target_table mapping = target \<and> fmp_target_field mapping = required
     \<and> fmp_status mapping \<notin> {MappingIgnored, MappingNeedsReview}"

definition missing_required_mapping_fields :: "database_target \<Rightarrow> field_mapping list \<Rightarrow> string list" where
  "missing_required_mapping_fields target field_mappings =
     filter (\<lambda>required. \<not> list_ex (accepts_field target required) field_mappings) (required_target_fields target)"

definition unclear_field_mappings :: "field_mapping list \<Rightarrow> field_mapping list" where
  "unclear_field_mappings field_mappings = filter (\<lambda>mapping. is_review_blocking (fmp_status mapping)) field_mappings"

section \<open>Inference\<close>

definition inferred_target_field ::
    "unicode_tables \<Rightarrow> database_target \<Rightarrow> string \<Rightarrow> (string \<times> u8 \<times> field_mapping_status \<times> string list) option" where
  "inferred_target_field ut target column =
     (let key = normalized_header_key ut column in
      if key = [] then None
      else map_option (\<lambda>(field, exact). (field, if exact then 96 else 82, MappingInferred, [''header_alias'']))
        (case target of
           TargetHrEmployeeStaging \<Rightarrow> hr_employee_target_for_key ut key
         | TargetHrAttendanceStaging \<Rightarrow> attendance_target_for_key ut key
         | TargetPayrollInputStaging \<Rightarrow> payroll_target_for_key ut key
         | TargetArchiveBlob \<Rightarrow> None
         | TargetNeedsMapping \<Rightarrow> None))"

definition infer_column :: "unicode_tables \<Rightarrow> database_target \<Rightarrow> string \<Rightarrow> field_mapping" where
  "infer_column ut target column =
     (case unwrap_or (''source_payload'', 35, MappingPreserved, [''preserved_for_review''])
             (inferred_target_field ut target column) of
        (target_field, confidence, status, reason_codes) \<Rightarrow>
          \<lparr>fmp_source_column = column, fmp_target_table = target, fmp_target_field = target_field,
           fmp_confidence = confidence, fmp_required = target_field_required target target_field,
           fmp_status = status, fmp_editable = True, fmp_reason_codes = reason_codes,
           fmp_value_shape = None\<rparr>)"

definition infer_field_mappings :: "unicode_tables \<Rightarrow> database_target \<Rightarrow> string list \<Rightarrow> field_mapping list" where
  "infer_field_mappings ut target columns =
     (if columns = [] \<or> target = TargetArchiveBlob then [] else map (infer_column ut target) columns)"

definition nth_opt :: "'a list \<Rightarrow> nat \<Rightarrow> 'a option" where
  "nth_opt xs n = (if n < length xs then Some (xs ! n) else None)"

definition option_list :: "'a option list \<Rightarrow> 'a list" where
  "option_list xs = List.map_filter (\<lambda>x. x) xs"

definition value_shape_for_column :: "unicode_tables \<Rightarrow> string list \<Rightarrow> string list list \<Rightarrow> string \<Rightarrow> string option" where
  "value_shape_for_column ut columns parsed_rows source_column =
     (case index_of (\<lambda>column. column = source_column) columns of
        None \<Rightarrow> None
      | Some index \<Rightarrow>
          let samples = take 20 (filter (\<lambda>v. v \<noteq> [])
                (map trim (option_list (map (\<lambda>row. nth_opt row index) parsed_rows)))) in
          if samples = [] then Some ''empty''
          else if list_all (\<lambda>v. normalized_numeric_text v \<noteq> None) samples then Some ''numeric_normalized''
          else if list_all (\<lambda>v. normalized_date_text v \<noteq> None) samples then Some ''date_normalized''
          else if list_ex looks_like_korean_resident_id samples then Some ''sensitive_identifier_redacted''
          else if list_ex looks_like_email samples then Some ''email_redacted''
          else if list_ex looks_like_phone samples then Some ''phone_redacted''
          else if list_all (\<lambda>v. length v \<le> 32
                 \<and> list_all (\<lambda>ch. ut_alphanumeric ut ch \<or> ch = ''-'' \<or> ch = ''_'') (utf8_chars v)) samples
          then Some ''identifier''
          else Some ''text_sanitized'')"

definition annotate_field_mapping_value_shapes ::
    "unicode_tables \<Rightarrow> field_mapping list \<Rightarrow> string list \<Rightarrow> string \<Rightarrow> field_mapping list" where
  "annotate_field_mapping_value_shapes ut mappings columns sample_text =
     (let parsed_rows = parse_business_rows ut columns sample_text in
      map (\<lambda>mapping. mapping\<lparr>fmp_value_shape :=
        value_shape_for_column ut columns parsed_rows (fmp_source_column mapping)\<rparr>) mappings)"

definition infer_field_mappings_with_sample ::
    "unicode_tables \<Rightarrow> database_target \<Rightarrow> string list \<Rightarrow> string \<Rightarrow> field_mapping list" where
  "infer_field_mappings_with_sample ut target columns sample_text =
     annotate_field_mapping_value_shapes ut (infer_field_mappings ut target columns) columns sample_text"

definition sha256_hex :: "(string \<Rightarrow> string) \<Rightarrow> string \<Rightarrow> string" where
  "sha256_hex sha256 bytes = hex_bytes (sha256 bytes)"

definition source_fingerprint :: "(string \<Rightarrow> string) \<Rightarrow> unicode_tables \<Rightarrow> string list \<Rightarrow> database_target \<Rightarrow> string" where
  "source_fingerprint sha256 ut columns target =
     ''sha256:'' @ sha256_hex sha256
       (join_with [CHR 0x1F] (map (normalized_header_key ut) columns) @ [CHR 0x1F] @ database_target_value target)"

section \<open>Staged rows\<close>

definition row_payload_json :: "string list \<Rightarrow> string list \<Rightarrow> string" where
  "row_payload_json columns row =
     json_to_string (JObj (foldl (\<lambda>payload (index, column).
       if trim column = [] then payload
       else bt_insert (trim column) (JStr (unwrap_or [] (nth_opt row index))) payload) [] (enumerate 0 columns)))"

definition column_matches :: "unicode_tables \<Rightarrow> string \<Rightarrow> string list \<Rightarrow> bool" where
  "column_matches ut column aliases =
     (let normalized = replace_chars [CHR ''_'', CHR ''-''] (CHR '' '') (ut_to_lowercase ut (trim column)) in
      list_ex (\<lambda>alias. contains_str alias normalized) aliases)"

definition value_for_column :: "unicode_tables \<Rightarrow> string list \<Rightarrow> string list \<Rightarrow> string list \<Rightarrow> string option" where
  "value_for_column ut columns row aliases =
     opt_filter (\<lambda>v. v \<noteq> []) (map_option trim
       (Option.bind (index_of (\<lambda>column. column_matches ut column aliases) columns) (nth_opt row)))"

definition value_for_target_field ::
    "unicode_tables \<Rightarrow> string list \<Rightarrow> string list \<Rightarrow> field_mapping list \<Rightarrow> string \<Rightarrow> string list \<Rightarrow> string option" where
  "value_for_target_field ut columns row field_mappings target_field fallback_aliases =
     opt_or
       (opt_filter (\<lambda>v. v \<noteq> []) (map_option trim
         (Option.bind (find_first (\<lambda>mapping. fmp_target_field mapping = target_field
              \<and> fmp_status mapping \<notin> {MappingIgnored, MappingNeedsReview}) field_mappings)
            (\<lambda>mapping. Option.bind (index_of (\<lambda>column. column = fmp_source_column mapping) columns) (nth_opt row)))))
       (value_for_column ut columns row fallback_aliases)"

definition employee_external_id_columns :: "string list" where
  "employee_external_id_columns = [''employee id'', ''employee_id'', ''external id'', 
    [CHR 0xEC, CHR 0x82, CHR 0xAC, CHR 0xEB, CHR 0xB2, CHR 0x88], 
    [CHR 0xEC, CHR 0xA7, CHR 0x81, CHR 0xEC, CHR 0x9B, CHR 0x90, CHR 0xEB, CHR 0xB2, CHR 0x88, CHR 0xED, CHR 0x98, CHR 0xB8], 
    [CHR 0xEC, CHR 0x82, CHR 0xAC, CHR 0xEC, CHR 0x9B, CHR 0x90, CHR 0xEB, CHR 0xB2, CHR 0x88, CHR 0xED, CHR 0x98, CHR 0xB8]]"

definition display_name_columns :: "string list" where
  "display_name_columns = [''display name'', ''name'', [CHR 0xEC, CHR 0x84, CHR 0xB1, CHR 0xEB, CHR 0xAA, CHR 0x85], 
    [CHR 0xEC, CHR 0x9D, CHR 0xB4, CHR 0xEB, CHR 0xA6, CHR 0x84], 
    [CHR 0xEC, CHR 0xA7, CHR 0x81, CHR 0xEC, CHR 0x9B, CHR 0x90, CHR 0xEB, CHR 0xAA, CHR 0x85]]"

definition department_columns :: "string list" where
  "department_columns = [''department'', ''team'', [CHR 0xEB, CHR 0xB6, CHR 0x80, CHR 0xEC, CHR 0x84, CHR 0x9C], 
    [CHR 0xEC, CHR 0xA1, CHR 0xB0, CHR 0xEC, CHR 0xA7, CHR 0x81]]"

definition employment_status_columns :: "string list" where
  "employment_status_columns = [''employment status'', ''status'', 
    [CHR 0xEC, CHR 0x9E, CHR 0xAC, CHR 0xEC, CHR 0xA7, CHR 0x81], 
    [CHR 0xEC, CHR 0x83, CHR 0x81, CHR 0xED, CHR 0x83, CHR 0x9C]]"

definition work_date_columns :: "string list" where
  "work_date_columns = [''work date'', ''date'', 
    [CHR 0xEA, CHR 0xB7, CHR 0xBC, CHR 0xEB, CHR 0xAC, CHR 0xB4, CHR 0xEC, CHR 0x9D, CHR 0xBC], 
    [CHR 0xEC, CHR 0x9D, CHR 0xBC, CHR 0xEC, CHR 0x9E, CHR 0x90]]"

definition gross_pay_columns :: "string list" where
  "gross_pay_columns = [''gross pay'', ''gross'', ''amount'', ''salary'', ''pay'', ''wage'', 
    [CHR 0xEA, CHR 0xB8, CHR 0x89, CHR 0xEC, CHR 0x97, CHR 0xAC], 
    [CHR 0xEC, CHR 0x9E, CHR 0x84, CHR 0xEA, CHR 0xB8, CHR 0x88], 
    [CHR 0xEC, CHR 0xA7, CHR 0x80, CHR 0xEA, CHR 0xB8, CHR 0x89], 
    [CHR 0xEA, CHR 0xB8, CHR 0x88, CHR 0xEC, CHR 0x95, CHR 0xA1]]"

definition deduction_total_columns :: "string list" where
  "deduction_total_columns = [''deduction total'', ''deduction'', [CHR 0xEA, CHR 0xB3, CHR 0xB5, CHR 0xEC, CHR 0xA0, CHR 0x9C]]"

definition staged_row ::
    "(string \<Rightarrow> string) \<Rightarrow> unicode_tables \<Rightarrow> string list \<Rightarrow> field_mapping list \<Rightarrow> nat \<Rightarrow> string list \<Rightarrow>
     string + staged_business_row" where
  "staged_row sha256 ut columns field_mappings index row =
     (let payload = row_payload_json columns row;
          value_of = value_for_target_field ut columns row field_mappings in
      if int (index + 1) > 2147483647 then Inl ''archive_staging_row_number_out_of_range''
      else Inr \<lparr>sbr_row_number = int (index + 1), sbr_row_hash = sha256_hex sha256 payload,
        sbr_row_payload_json = payload,
        sbr_employee_external_id = value_of ''employee_external_id'' employee_external_id_columns,
        sbr_display_name = value_of ''display_name'' display_name_columns,
        sbr_department = value_of ''department'' department_columns,
        sbr_employment_status = value_of ''employment_status'' employment_status_columns,
        sbr_work_date = Option.bind (value_of ''work_date'' work_date_columns) normalized_date_text,
        sbr_gross_pay = Option.bind (value_of ''gross_pay'' gross_pay_columns) normalized_numeric_text,
        sbr_deduction_total =
          Option.bind (value_of ''deduction_total'' deduction_total_columns) normalized_numeric_text\<rparr>)"

fun collect_results :: "('e + 'a) list \<Rightarrow> 'e + 'a list" where
  "collect_results [] = Inr []"
| "collect_results (r # rs) = result_bind r (\<lambda>a. result_bind (collect_results rs) (\<lambda>as. Inr (a # as)))"

definition staged_rows_for_record_with_mappings ::
    "(string \<Rightarrow> string) \<Rightarrow> unicode_tables \<Rightarrow> database_target \<Rightarrow> string list \<Rightarrow> string \<Rightarrow> field_mapping list \<Rightarrow>
     string + staged_business_row list" where
  "staged_rows_for_record_with_mappings sha256 ut target columns sample_text field_mappings =
     (if \<not> is_staging_target target \<or> columns = [] then Inr []
      else collect_results (map (\<lambda>(index, row). staged_row sha256 ut columns field_mappings index row)
        (enumerate 0 (parse_business_rows ut columns sample_text))))"

section \<open>Rows of a sample\<close>

lemma length_fit_row [simp]: "length (fit_row n row) = n"
  by (simp add: fit_row_def)

lemma parsed_rows_shape:
  "length (parse_business_rows ut columns sample_text) \<le> 500
   \<and> list_all (\<lambda>row. length row = length columns) (parse_business_rows ut columns sample_text)"
  by (auto simp: parse_business_rows_def Let_def list_all_iff
      intro: le_trans[OF length_filter_le])

section \<open>Normal forms\<close>

lemma remove_str_absent: "p \<noteq> [] \<Longrightarrow> hd p \<notin> set s \<Longrightarrow> remove_str p s = s"
proof (induction p s rule: remove_str.induct)
  case (1 p s)
  show ?case
  proof (cases s)
    case Nil
    then show ?thesis by (simp add: remove_str.simps)
  next
    case (Cons c t)
    then have "\<not> starts_with p s" using 1 by (cases p) (auto simp: starts_with_def)
    then show ?thesis using 1 Cons by (subst remove_str.simps) simp
  qed
qed

lemma numeric_text_char_set: "numeric_text_chars s \<Longrightarrow> c \<in> set s \<Longrightarrow> is_digit c \<or> c = CHR ''.'' \<or> c = CHR ''-''"
  by (auto simp: numeric_text_chars_def list_all_length in_set_conv_nth nth_enumerate_eq)

lemma numeric_char_graphic: "is_digit c \<or> c = CHR ''.'' \<or> c = CHR ''-'' \<Longrightarrow> graphic c"
  using is_digit_graphic by (auto simp: graphic_def char_code_def)

lemma normalized_numeric_idem:
  assumes "normalized_numeric_text v = Some t"
  shows "normalized_numeric_text t = Some t"
proof -
  have t: "t \<noteq> []" "numeric_text_chars t" "list_ex is_digit t"
    using assms by (auto simp: normalized_numeric_text_def Let_def split: if_splits)
  have chars: "is_digit c \<or> c = CHR ''.'' \<or> c = CHR ''-''" if "c \<in> set t" for c
    using numeric_text_char_set[OF t(2) that] .
  have "trim t = t" using chars numeric_char_graphic by (intro trim_graphic) (auto simp: list_all_iff)
  moreover have "remove_char (CHR '','') t = t"
    using chars[of "CHR '',''"] by (auto simp: remove_char_def is_digit_def char_code_def intro!: filter_True)
  moreover have "remove_str won_sign t = t"
    using chars[of "CHR 0xE2"] by (intro remove_str_absent) (auto simp: won_sign_def is_digit_def char_code_def)
  moreover have "remove_str won_syllable t = t"
    using chars[of "CHR 0xEC"] by (intro remove_str_absent) (auto simp: won_syllable_def is_digit_def char_code_def)
  ultimately show ?thesis using t by (simp add: normalized_numeric_text_def)
qed

lemma normalized_date_idem: "normalized_date_text v = Some t \<Longrightarrow> normalized_date_text t = Some t"
  by (auto simp: normalized_date_text_def Let_def split: if_splits)

lemma bind_normal: "(\<And>v t. f v = Some t \<Longrightarrow> f t = Some t) \<Longrightarrow> pred_option (\<lambda>t. f t = Some t) (Option.bind x f)"
  by (cases x; cases "f (the x)") auto

lemma filtered_text: "pred_option (\<lambda>v. v \<noteq> [] \<and> trim v = v) (opt_filter (\<lambda>v. v \<noteq> []) (map_option trim x))"
  by (cases x) simp_all

lemma value_for_column_text: "pred_option (\<lambda>v. v \<noteq> [] \<and> trim v = v) (value_for_column ut columns row aliases)"
  unfolding value_for_column_def by (rule filtered_text)

lemma opt_or_pred: "pred_option P x \<Longrightarrow> pred_option P y \<Longrightarrow> pred_option P (opt_or x y)"
  by (cases x) simp_all

lemma value_for_target_text:
  "pred_option (\<lambda>v. v \<noteq> [] \<and> trim v = v) (value_for_target_field ut columns row field_mappings field aliases)"
  unfolding value_for_target_field_def by (intro opt_or_pred filtered_text value_for_column_text)

section \<open>Staged rows\<close>

text \<open>What a staged row promises to the tables it is written to.\<close>

definition staged_row_ok :: "staged_business_row \<Rightarrow> bool" where
  "staged_row_ok row \<longleftrightarrow>
     pred_option (\<lambda>v. v \<noteq> [] \<and> trim v = v) (sbr_employee_external_id row)
   \<and> pred_option (\<lambda>v. v \<noteq> [] \<and> trim v = v) (sbr_display_name row)
   \<and> pred_option (\<lambda>v. v \<noteq> [] \<and> trim v = v) (sbr_department row)
   \<and> pred_option (\<lambda>v. v \<noteq> [] \<and> trim v = v) (sbr_employment_status row)
   \<and> pred_option (\<lambda>d. normalized_date_text d = Some d) (sbr_work_date row)
   \<and> pred_option (\<lambda>n. normalized_numeric_text n = Some n) (sbr_gross_pay row)
   \<and> pred_option (\<lambda>n. normalized_numeric_text n = Some n) (sbr_deduction_total row)"

lemma staged_row_result:
  assumes "index < 500"
  obtains r where "staged_row sha256 ut columns field_mappings index row = Inr r"
    "sbr_row_number r = int index + 1" "staged_row_ok r"
  using assms
  by (simp add: staged_row_def staged_row_ok_def Let_def value_for_target_text bind_normal
      normalized_date_idem normalized_numeric_idem)

lemma collect_results_Inr:
  assumes "\<And>i. i < length rs \<Longrightarrow> \<exists>a. rs ! i = Inr a \<and> Q i a"
  shows "\<exists>as. collect_results rs = Inr as \<and> length as = length rs \<and> (\<forall>i < length as. Q i (as ! i))"
  using assms
proof (induction rs arbitrary: Q)
  case (Cons r rs)
  obtain a where a: "r = Inr a" "Q 0 a" using Cons.prems[of 0] by auto
  have "\<exists>as. collect_results rs = Inr as \<and> length as = length rs \<and> (\<forall>i < length as. Q (Suc i) (as ! i))"
    using Cons.IH[of "\<lambda>i. Q (Suc i)"] Cons.prems by force
  then obtain as where "collect_results rs = Inr as" "length as = length rs" "\<forall>i < length as. Q (Suc i) (as ! i)"
    by blast
  then show ?case using a by (intro exI[of _ "a # as"]) (auto simp: nth_Cons split: nat.splits)
qed simp

text \<open>C11: Staging the rows of a sample never fails: there are at most 500 of them, numbered from
  one without a gap, every text of a row is trimmed and not empty, every date and every amount is
  in its normal form.\<close>

lemma staged_rows_normal:
  "\<exists>rows. staged_rows_for_record_with_mappings sha256 ut target columns sample_text field_mappings = Inr rows
     \<and> length rows \<le> 500 \<and> map sbr_row_number rows = map int [1..<Suc (length rows)]
     \<and> list_all staged_row_ok rows"
proof (cases "\<not> is_staging_target target \<or> columns = []")
  case True
  then show ?thesis by (simp add: staged_rows_for_record_with_mappings_def)
next
  case False
  let ?parsed = "parse_business_rows ut columns sample_text"
  let ?rs = "map (\<lambda>(index, row). staged_row sha256 ut columns field_mappings index row) (enumerate 0 ?parsed)"
  have small: "length ?parsed \<le> 500" using parsed_rows_shape by blast
  have "\<exists>r. ?rs ! i = Inr r \<and> (sbr_row_number r = int i + 1 \<and> staged_row_ok r)" if "i < length ?rs" for i
  proof -
    have "?rs ! i = staged_row sha256 ut columns field_mappings i (?parsed ! i)"
      using that by (simp add: nth_enumerate_eq)
    moreover have "i < 500" using that small by simp
    ultimately show ?thesis by (metis staged_row_result)
  qed
  from collect_results_Inr[OF this] obtain rows where rows: "collect_results ?rs = Inr rows"
      "length rows = length ?rs" "\<forall>i < length rows. sbr_row_number (rows ! i) = int i + 1 \<and> staged_row_ok (rows ! i)"
    by blast
  have "map sbr_row_number rows = map int [1..<Suc (length rows)]"
    using rows(3) by (intro nth_equalityI) (simp_all del: upt_Suc)
  then show ?thesis
    using rows small False by (auto simp: staged_rows_for_record_with_mappings_def list_all_length)
qed

section \<open>Inferred mappings\<close>

lemma table_fields:
  "list_all (\<lambda>(field, exact, _). exact \<and> target_field_allowed TargetHrEmployeeStaging field) hr_employee_targets"
  "list_all (\<lambda>(field, exact, _). exact \<and> target_field_allowed TargetHrAttendanceStaging field) attendance_targets"
  "list_all (\<lambda>(field, exact, _). exact \<and> target_field_allowed TargetPayrollInputStaging field) payroll_targets"
  by (simp_all add: hr_employee_targets_def attendance_targets_def payroll_targets_def
      target_field_allowed_def canonical_target_fields_def)

lemma target_for_key_in:
  assumes "target_for_key ut key mappings = Some (field, exact)" "list_all (\<lambda>(field, exact, _). P field exact) mappings"
  shows "P field exact"
  using assms by (auto simp: target_for_key_def list_all_iff opt_or_def split: option.splits dest!: find_first_Some)

lemma inferred_target_ok:
  assumes "inferred_target_field ut target column = Some (field, confidence, status, reasons)"
  shows "target_field_allowed target field \<and> confidence = 96 \<and> status = MappingInferred"
proof -
  have *: "e \<and> target_field_allowed t f" if "target_for_key ut key tbl = Some (f, e)"
      "list_all (\<lambda>(f, e, _). e \<and> target_field_allowed t f) tbl" for key tbl f e t
    using target_for_key_in[OF that(1), of "\<lambda>f e. e \<and> target_field_allowed t f"] that(2) by blast
  show ?thesis
    using assms
    by (auto dest!: *[OF _ table_fields(1)] *[OF _ table_fields(2)] *[OF _ table_fields(3)]
        simp: inferred_target_field_def Let_def hr_employee_target_for_key_def attendance_target_for_key_def
        payroll_target_for_key_def split: if_splits database_target.splits)
qed

lemma source_payload_allowed: "target_field_allowed target ''source_payload''"
  by (simp add: target_field_allowed_def canonical_target_fields_def)

text \<open>A mapping as inference may make it.\<close>

definition inferred_mapping_ok :: "database_target \<Rightarrow> field_mapping \<Rightarrow> bool" where
  "inferred_mapping_ok target mapping \<longleftrightarrow>
     fmp_target_table mapping = target \<and> target_field_allowed target (fmp_target_field mapping)
   \<and> fmp_required mapping = target_field_required target (fmp_target_field mapping)
   \<and> ((fmp_status mapping = MappingInferred \<and> fmp_confidence mapping = 96)
      \<or> (fmp_status mapping = MappingPreserved \<and> fmp_confidence mapping = 35
         \<and> fmp_target_field mapping = ''source_payload''))"

lemma infer_column_ok: "inferred_mapping_ok target (infer_column ut target column)"
  by (cases "inferred_target_field ut target column")
    (auto simp: infer_column_def inferred_mapping_ok_def source_payload_allowed dest: inferred_target_ok)

lemma infer_column_source [simp]: "fmp_source_column (infer_column ut target column) = column"
  by (simp add: infer_column_def split: prod.splits)

lemma annotate_ok:
  "list_all (inferred_mapping_ok target) ms \<Longrightarrow>
     list_all (inferred_mapping_ok target) (annotate_field_mapping_value_shapes ut ms columns sample_text)"
  by (auto simp: annotate_field_mapping_value_shapes_def Let_def list_all_iff inferred_mapping_ok_def)

lemma infer_field_mappings_ok: "list_all (inferred_mapping_ok target) (infer_field_mappings ut target columns)"
  by (auto simp: infer_field_mappings_def list_all_iff infer_column_ok)

text \<open>C12: Inference gives each column one mapping, in order, except for files that are only
  archived; each goes to a field the target table has, is marked as required exactly when the
  field is, and is either inferred from the header or preserved for review.\<close>

lemma inferred_mappings_typed:
  "map fmp_source_column (infer_field_mappings_with_sample ut target columns sample_text)
     = (if target = TargetArchiveBlob then [] else columns)
   \<and> list_all (inferred_mapping_ok target) (infer_field_mappings_with_sample ut target columns sample_text)"
proof -
  have "map fmp_source_column (infer_field_mappings_with_sample ut target columns sample_text)
     = map fmp_source_column (infer_field_mappings ut target columns)"
    by (simp add: infer_field_mappings_with_sample_def annotate_field_mapping_value_shapes_def Let_def comp_def)
  also have "\<dots> = (if target = TargetArchiveBlob then [] else columns)"
    by (simp add: infer_field_mappings_def comp_def)
  finally show ?thesis
    using annotate_ok[OF infer_field_mappings_ok] by (simp add: infer_field_mappings_with_sample_def)
qed

end
