(* ===== verification/Archive_Intake.thy ===== *)
theory Archive_Intake
  imports Archive_Mapping "HOL-Library.Product_Lexorder"
begin

text \<open>
  The review of an archived file in the intake store
  (\<open>crates/payroll-api/src/bin/archive_intake_store.rs\<close>): how a record is built from an upload,
  the open issues of a record, their resolution, the decisions on field mappings, the state of the
  review, records loaded from disk, and the commands of the local review store.

  The store is passed explicitly; the clock and the id seed are arguments, the parser of the input
  and the files are not modelled.
\<close>

section \<open>Issues of an upload\<close>

definition max_file_bytes :: u64 where
  "max_file_bytes = 50 * 1024 * 1024"

definition empty_sha256 :: string where
  "empty_sha256 = ''e3b0c44298fc1c149afbf4c8996fb92427ae41e4649b934ca495991b7852b855''"

definition required_mapping_guidance_id :: "string \<Rightarrow> string" where
  "required_mapping_guidance_id required_field = ''guidance-required-'' @ stable_key required_field"

definition unclear_mapping_guidance_id :: "string \<Rightarrow> string" where
  "unclear_mapping_guidance_id source_column = ''guidance-unclear-'' @ stable_key source_column"

definition required_item :: "string \<Rightarrow> guidance_item" where
  "required_item required_field =
     \<lparr>gdi_id = required_mapping_guidance_id required_field, gdi_code = GuideConfirmMissingRequiredData,
      gdi_severity = SeverityBlocking, gdi_column = required_field\<rparr>"

definition unclear_item :: "field_mapping \<Rightarrow> guidance_item" where
  "unclear_item mapping =
     \<lparr>gdi_id = unclear_mapping_guidance_id (fmp_source_column mapping), gdi_code = GuideExplainColumn,
      gdi_severity = SeverityWarning, gdi_column = fmp_source_column mapping\<rparr>"

definition readable_sheet_item :: guidance_item where
  "readable_sheet_item =
     \<lparr>gdi_id = ''guidance-readable-sheet'', gdi_code = GuideUploadReadableSheet,
      gdi_severity = SeverityBlocking, gdi_column = []\<rparr>"

definition guidance_items ::
    "file_family \<Rightarrow> database_target \<Rightarrow> string list \<Rightarrow> u64 \<Rightarrow> field_mapping list \<Rightarrow> guidance_item list" where
  "guidance_items family target columns estimated_rows field_mappings =
     (if family = FamilyUnknown \<or> target = TargetNeedsMapping
      then [\<lparr>gdi_id = ''guidance-business-area'', gdi_code = GuideChooseBusinessArea,
             gdi_severity = SeverityBlocking, gdi_column = []\<rparr>] else [])
     @ (if columns = [] \<and> family \<noteq> FamilyGeneralArchive then [readable_sheet_item] else [])
     @ (if estimated_rows = 0 \<and> family \<noteq> FamilyGeneralArchive
        then [\<lparr>gdi_id = ''guidance-missing-data'', gdi_code = GuideConfirmMissingRequiredData,
               gdi_severity = SeverityBlocking, gdi_column = []\<rparr>] else [])
     @ map required_item (missing_required_mapping_fields target field_mappings)
     @ map unclear_item (unclear_field_mappings field_mappings)"

definition anomalies :: "u64 \<Rightarrow> file_family \<Rightarrow> string list \<Rightarrow> u64 \<Rightarrow> anomaly_item list" where
  "anomalies file_size_bytes family columns estimated_rows =
     (let item = (\<lambda>id code. \<lparr>ani_id = id, ani_code = code, ani_severity = SeverityBlocking, ani_column = []\<rparr>) in
      (if file_size_bytes = 0 then [item ''anomaly-empty-file'' AnomalyEmptyFile] else [])
      @ (if file_size_bytes > max_file_bytes then [item ''anomaly-large-file'' AnomalyLargeFile] else [])
      @ (if family \<noteq> FamilyGeneralArchive \<and> columns = []
         then [item ''anomaly-unknown-structure'' AnomalyUnknownFileStructure] else [])
      @ (if family \<noteq> FamilyGeneralArchive \<and> estimated_rows = 0
         then [item ''anomaly-no-rows'' AnomalyNoRowsDetected] else []))"

definition extraction_status_for ::
    "database_target \<Rightarrow> archive_intake_status \<Rightarrow> u64 \<Rightarrow> bool \<Rightarrow> archive_extraction_status" where
  "extraction_status_for target status content_sample_row_count has_sample_text =
     (if target = TargetArchiveBlob then ExtractionNotApplicable
      else if status = IntakeNeedsGuidance \<or> target = TargetNeedsMapping then ExtractionNeedsGuidance
      else if is_staging_target target \<and> content_sample_row_count > 0 then ExtractionConverted
      else if has_sample_text then ExtractionNeedsGuidance else ExtractionNotReadable)"

section \<open>Building a record\<close>

definition normalized_stored_file_name :: "file_family \<Rightarrow> nat \<Rightarrow> string \<Rightarrow> string" where
  "normalized_stored_file_name family id_seed file_type =
     (let extension = stable_key file_type in
      if extension = [] \<or> extension = ''unknown'' then file_family_prefix family @ ''-'' @ show_nat id_seed
      else file_family_prefix family @ ''-'' @ show_nat id_seed @ ''.'' @ extension)"

text \<open>The guidance of a new record: a blocking anomaly asks for a readable sheet.\<close>

definition new_items ::
    "file_family \<Rightarrow> database_target \<Rightarrow> string list \<Rightarrow> u64 \<Rightarrow> field_mapping list \<Rightarrow> anomaly_item list \<Rightarrow> guidance_item list" where
  "new_items family target columns rows ms anomaly_list =
     (let items = guidance_items family target columns rows ms in
      if list_ex (\<lambda>item. ani_severity item = SeverityBlocking) anomaly_list
         \<and> \<not> list_ex (\<lambda>item. gdi_code item = GuideUploadReadableSheet) items
      then items @ [readable_sheet_item] else items)"

definition next_action_of :: "archive_intake_status \<Rightarrow> anomaly_item list \<Rightarrow> archive_intake_action" where
  "next_action_of status anomaly_list =
     (case status of
        IntakeNeedsGuidance \<Rightarrow> if anomaly_list \<noteq> [] then ActionResolveAnomalies else ActionMapColumns
      | IntakeReadyForStaging \<Rightarrow> ActionSaveToBusinessData
      | _ \<Rightarrow> ActionKeepInArchive)"

text \<open>The record, once the fields of the upload were found to be there.\<close>

definition new_record ::
    "(string \<Rightarrow> string) \<Rightarrow> unicode_tables \<Rightarrow> string \<Rightarrow> u64 \<Rightarrow> string \<Rightarrow> rust_fs_object_ref \<Rightarrow> archive_intake_input \<Rightarrow>
     u64 \<Rightarrow> nat \<Rightarrow> archive_intake_record" where
  "new_record sha256 ut original_file_name file_size_bytes content_sha256 object_ref input updated_at_unix id_seed =
     (let file_type = normalize_file_type (aii_file_type input) original_file_name;
          sample_text = unwrap_or [] (aii_sample_text input);
          extracted_columns = extract_columns ut sample_text;
          estimated_rows = estimate_rows ut sample_text;
          family = classify_family ut original_file_name file_type sample_text extracted_columns;
          target = database_target_for ut family original_file_name extracted_columns;
          field_mappings = infer_field_mappings_with_sample ut target extracted_columns sample_text;
          anomaly_list = anomalies file_size_bytes family extracted_columns estimated_rows;
          blocked = list_ex (\<lambda>item. ani_severity item = SeverityBlocking) anomaly_list;
          items = new_items family target extracted_columns estimated_rows field_mappings anomaly_list;
          postgres_ready = (items = [] \<and> \<not> blocked \<and> target \<notin> {TargetArchiveBlob, TargetNeedsMapping});
          status = (if items \<noteq> [] \<or> blocked then IntakeNeedsGuidance
                    else if postgres_ready then IntakeReadyForStaging else IntakeArchived) in
      \<lparr>rec_id = ''intake-'' @ show_nat id_seed, rec_original_file_name = original_file_name,
       rec_stored_file_name = normalized_stored_file_name family id_seed file_type,
       rec_file_type = file_type, rec_file_size_bytes = file_size_bytes,
       rec_content_sha256 = content_sha256,
       rec_content_sample_sha256 = sha256_hex sha256 sample_text,
       rec_content_sample_row_count = estimated_rows,
       rec_extraction_status = extraction_status_for target status estimated_rows (trim sample_text \<noteq> []),
       rec_object_uri = rfo_uri object_ref, rec_object_bucket = rfo_bucket object_ref,
       rec_object_key = rfo_key object_ref, rec_blob_ref = rfo_uri object_ref,
       rec_family = family, rec_database_target = target, rec_status = status,
       rec_next_action = next_action_of status anomaly_list,
       rec_extracted_columns = extracted_columns,
       rec_source_fingerprint = source_fingerprint sha256 ut extracted_columns target,
       rec_field_mappings = field_mappings, rec_estimated_rows = estimated_rows,
       rec_guidance_items = items, rec_anomalies = anomaly_list, rec_source_versions = [],
       rec_recovery_points = [], rec_source_sync_items = [], rec_postgres_ready = postgres_ready,
       rec_updated_at_unix = updated_at_unix\<rparr>)"

definition build_intake_record ::
    "(string \<Rightarrow> string) \<Rightarrow> unicode_tables \<Rightarrow> archive_intake_input \<Rightarrow> u64 \<Rightarrow> nat \<Rightarrow> string + archive_intake_record" where
  "build_intake_record sha256 ut input updated_at_unix id_seed =
     result_bind (required_intake_field (aii_file_name input) ''file_name'') (\<lambda>original_file_name.
     result_bind (ok_or ''missing required intake field: file_size_bytes'' (aii_file_size_bytes input)) (\<lambda>file_size_bytes.
     result_bind (required_intake_field (aii_content_sha256 input) ''content_sha256'') (\<lambda>content_sha256.
     result_bind (rustfs_object_ref (opt_or (aii_object_uri input) (aii_blob_uri input))) (\<lambda>object_ref.
       Inr (new_record sha256 ut original_file_name file_size_bytes content_sha256 object_ref input
              updated_at_unix id_seed)))))"

section \<open>The review\<close>

text \<open>An item is pushed unless one with its id is there already.\<close>

definition push_item :: "guidance_item \<Rightarrow> guidance_item list \<Rightarrow> guidance_item list" where
  "push_item item items = (if list_ex (\<lambda>i. gdi_id i = gdi_id item) items then items else items @ [item])"

definition rebuild_required_mapping_guidance :: "archive_intake_record \<Rightarrow> archive_intake_record" where
  "rebuild_required_mapping_guidance record =
     (let kept = filter (\<lambda>item. \<not> starts_with ''guidance-required-'' (gdi_id item)
                         \<and> \<not> starts_with ''guidance-unclear-'' (gdi_id item)) (rec_guidance_items record);
          with_required = fold (\<lambda>required_field. push_item (required_item required_field))
            (missing_required_mapping_fields (rec_database_target record) (rec_field_mappings record)) kept in
      record\<lparr>rec_guidance_items :=
        fold (\<lambda>mapping. push_item (unclear_item mapping)) (unclear_field_mappings (rec_field_mappings record))
          with_required\<rparr>)"

definition refresh_local_intake_review_state :: "archive_intake_record \<Rightarrow> u64 \<Rightarrow> archive_intake_record" where
  "refresh_local_intake_review_state record updated_at_unix =
     (let record = rebuild_required_mapping_guidance record;
          has_open_issue = (rec_guidance_items record \<noteq> [] \<or> rec_anomalies record \<noteq> []);
          has_open_anomaly = (rec_anomalies record \<noteq> []);
          staging_target = is_staging_target (rec_database_target record);
          status = (if has_open_issue then IntakeNeedsGuidance
                    else if staging_target then IntakeReadyForStaging else IntakeArchived) in
      record\<lparr>rec_postgres_ready := staging_target \<and> \<not> has_open_issue,
             rec_status := status,
             rec_next_action :=
               (if has_open_anomaly then ActionResolveAnomalies else if has_open_issue then ActionMapColumns
                else if staging_target then ActionSaveToBusinessData else ActionKeepInArchive),
             rec_extraction_status :=
               extraction_status_for (rec_database_target record) status (rec_content_sample_row_count record)
                 (rec_content_sample_sha256 record \<noteq> empty_sha256 \<or> rec_content_sample_row_count record > 0),
             rec_updated_at_unix := updated_at_unix\<rparr>)"

definition fill_object_ref :: "archive_intake_record \<Rightarrow> archive_intake_record" where
  "fill_object_ref record =
     (let r1 = (if rec_object_uri record = [] \<and> rec_blob_ref record \<noteq> []
                then record\<lparr>rec_object_uri := rec_blob_ref record\<rparr> else record);
          r2 = (if rec_object_bucket r1 = [] \<or> rec_object_key r1 = []
                then (case rustfs_object_ref (Some (rec_object_uri r1)) of
                        Inr object_ref \<Rightarrow> r1\<lparr>rec_object_bucket := rfo_bucket object_ref,
                                            rec_object_key := rfo_key object_ref\<rparr>
                      | Inl _ \<Rightarrow> r1)
                else r1) in
      if rec_blob_ref r2 = [] then r2\<lparr>rec_blob_ref := rec_object_uri r2\<rparr> else r2)"

definition fill_derived ::
    "(string \<Rightarrow> string) \<Rightarrow> unicode_tables \<Rightarrow> archive_intake_record \<Rightarrow> archive_intake_record" where
  "fill_derived sha256 ut record =
     (let r1 = (if rec_content_sample_sha256 record = [] then record\<lparr>rec_content_sample_sha256 := empty_sha256\<rparr> else record);
          r2 = (if rec_source_fingerprint r1 = []
                then r1\<lparr>rec_source_fingerprint :=
                      source_fingerprint sha256 ut (rec_extracted_columns r1) (rec_database_target r1)\<rparr> else r1) in
      if rec_field_mappings r2 = []
      then r2\<lparr>rec_field_mappings := infer_field_mappings ut (rec_database_target r2) (rec_extracted_columns r2)\<rparr>
      else r2)"

definition normalize_loaded_record ::
    "(string \<Rightarrow> string) \<Rightarrow> unicode_tables \<Rightarrow> archive_intake_record \<Rightarrow> archive_intake_record" where
  "normalize_loaded_record sha256 ut record =
     (let r = rebuild_required_mapping_guidance (fill_derived sha256 ut (fill_object_ref record)) in
      r\<lparr>rec_extraction_status :=
          extraction_status_for (rec_database_target r) (rec_status r) (rec_content_sample_row_count r)
            (rec_content_sample_sha256 r \<noteq> empty_sha256 \<or> rec_content_sample_row_count r > 0)\<rparr>)"

section \<open>Resolving an issue\<close>

definition nonempty_text :: "string option \<Rightarrow> string option" where
  "nonempty_text v = opt_filter (\<lambda>v. v \<noteq> []) (map_option trim v)"

definition normalized_issue_type :: "archive_issue_resolution_input \<Rightarrow> string + string" where
  "normalized_issue_type input =
     result_bind (ok_or ''archive_issue_type_required'' (nonempty_text (air_issue_type input))) (\<lambda>v.
       if to_ascii_lowercase v = ''guidance'' \<or> to_ascii_lowercase v = ''anomaly''
       then Inr (to_ascii_lowercase v) else Inl ''archive_issue_type_unsupported'')"

definition normalized_issue_code :: "archive_issue_resolution_input \<Rightarrow> string + string" where
  "normalized_issue_code input = ok_or ''archive_issue_code_required'' (nonempty_text (air_code input))"

definition normalized_issue_column :: "archive_issue_resolution_input \<Rightarrow> string" where
  "normalized_issue_column input = unwrap_or [] (map_option trim (air_column input))"

definition issue_resolution_audit :: "archive_issue_resolution_input \<Rightarrow> string \<Rightarrow> archive_issue_resolution_audit" where
  "issue_resolution_audit input resolved_by =
     \<lparr>ara_decision = unwrap_or ''confirmed_by_operator'' (nonempty_text (air_decision input)),
      ara_note = take_chars 512 (unwrap_or [] (nonempty_text (air_note input))),
      ara_resolved_by = trim resolved_by\<rparr>"

definition rollback_reason :: "archive_rollback_input \<Rightarrow> string" where
  "rollback_reason input = take_chars 512 (unwrap_or ''operator_requested'' (nonempty_text (arb_reason input)))"

definition rollback_recovery_point_id :: "archive_rollback_input \<Rightarrow> string" where
  "rollback_recovery_point_id input = unwrap_or [] (nonempty_text (arb_recovery_point_id input))"

definition guidance_item_matches_resolution :: "guidance_item \<Rightarrow> string option \<Rightarrow> string \<Rightarrow> string \<Rightarrow> bool" where
  "guidance_item_matches_resolution item issue_id code column \<longleftrightarrow>
     issue_id = Some (gdi_id item) \<or> (guidance_code_value (gdi_code item) = code \<and> trim (gdi_column item) = column)"

definition anomaly_item_matches_resolution :: "anomaly_item \<Rightarrow> string option \<Rightarrow> string \<Rightarrow> string \<Rightarrow> bool" where
  "anomaly_item_matches_resolution item issue_id code column \<longleftrightarrow>
     issue_id = Some (ani_id item) \<or> (anomaly_code_value (ani_code item) = code \<and> trim (ani_column item) = column)"

text \<open>The first record with an id is the one that changes.\<close>

fun update_record ::
    "string \<Rightarrow> (archive_intake_record \<Rightarrow> string + archive_intake_record) \<Rightarrow> archive_intake_record list \<Rightarrow>
     string + archive_intake_record list" where
  "update_record intake_id f [] = Inl ''archive_intake_not_found''"
| "update_record intake_id f (record # records) =
     (if rec_id record = intake_id then result_bind (f record) (\<lambda>r. Inr (r # records))
      else result_bind (update_record intake_id f records) (\<lambda>rs. Inr (record # rs)))"

definition resolve_record ::
    "string \<Rightarrow> string option \<Rightarrow> string \<Rightarrow> string \<Rightarrow> u64 \<Rightarrow> archive_intake_record \<Rightarrow> string + archive_intake_record" where
  "resolve_record issue_type issue_id code column updated_at_unix record =
     (let items = (if issue_type = ''guidance''
            then filter (\<lambda>item. \<not> guidance_item_matches_resolution item issue_id code column) (rec_guidance_items record)
            else rec_guidance_items record);
          anomaly_list = (if issue_type \<noteq> ''guidance'' \<and> issue_type = ''anomaly''
            then filter (\<lambda>item. \<not> anomaly_item_matches_resolution item issue_id code column) (rec_anomalies record)
            else rec_anomalies record) in
      if length items = length (rec_guidance_items record) \<and> length anomaly_list = length (rec_anomalies record)
      then Inl ''archive_issue_not_found''
      else Inr (refresh_local_intake_review_state
        (record\<lparr>rec_guidance_items := items, rec_anomalies := anomaly_list\<rparr>) updated_at_unix))"

definition resolve_local_intake_issue ::
    "archive_intake_store \<Rightarrow> string \<Rightarrow> archive_issue_resolution_input \<Rightarrow> u64 \<Rightarrow> string + archive_intake_store" where
  "resolve_local_intake_issue store intake_id input updated_at_unix =
     result_bind (normalized_issue_type input) (\<lambda>issue_type.
     result_bind (normalized_issue_code input) (\<lambda>code.
     result_bind (update_record intake_id
         (resolve_record issue_type (nonempty_text (air_issue_id input)) code (normalized_issue_column input) updated_at_unix)
         (sto_intakes store)) (\<lambda>intakes. Inr (store\<lparr>sto_intakes := intakes\<rparr>))))"

section \<open>Deciding on mappings\<close>

definition validate_field_mapping_decision ::
    "archive_intake_record \<Rightarrow> field_mapping_decision_input \<Rightarrow> string + unit" where
  "validate_field_mapping_decision record decision =
     (let source_column = trim (fmd_source_column decision);
          target_field = trim (fmd_target_field decision) in
      if source_column \<notin> set (rec_extracted_columns record) then Inl ''archive_field_mapping_source_column_not_found''
      else if fmd_target_table decision \<noteq> rec_database_target record
      then Inl ''archive_field_mapping_target_table_mismatch''
      else if \<not> target_field_allowed (fmd_target_table decision) target_field
      then Inl ''archive_field_mapping_target_field_unsupported''
      else if target_field_required (fmd_target_table decision) target_field \<and> fmd_status decision = MappingIgnored
      then Inl ''archive_field_mapping_required_target_cannot_be_ignored''
      else if target_field = ''ignored'' \<and> fmd_status decision \<noteq> MappingIgnored
      then Inl ''archive_field_mapping_ignored_target_requires_ignored_status''
      else if target_field = ''source_payload'' \<and> fmd_status decision \<noteq> MappingConfirmed
      then Inl ''archive_field_mapping_source_payload_requires_confirmed_status''
      else if fmd_status decision \<in> {MappingInferred, MappingPreserved}
      then Inl ''archive_field_mapping_operator_status_required''
      else Inr ())"

definition decided_mapping :: "field_mapping_decision_input \<Rightarrow> field_mapping \<Rightarrow> field_mapping" where
  "decided_mapping decision mapping =
     mapping\<lparr>fmp_target_table := fmd_target_table decision,
             fmp_target_field := trim (fmd_target_field decision),
             fmp_required := target_field_required (fmd_target_table decision) (trim (fmd_target_field decision)),
             fmp_status := fmd_status decision,
             fmp_confidence :=
               (if fmd_status decision = MappingConfirmed then 100
                else if fmd_status decision = MappingIgnored then 0 else min (fmp_confidence mapping) 90),
             fmp_reason_codes :=
               (if fmd_status decision = MappingIgnored then [''operator_ignored''] else [''operator_reviewed'']),
             fmp_value_shape := None\<rparr>"

fun update_first :: "('a \<Rightarrow> bool) \<Rightarrow> ('a \<Rightarrow> 'a) \<Rightarrow> 'a list \<Rightarrow> 'a list option" where
  "update_first p f [] = None"
| "update_first p f (x # xs) = (if p x then Some (f x # xs) else map_option ((#) x) (update_first p f xs))"

definition decide_mapping ::
    "archive_intake_record \<Rightarrow> field_mapping_decision_input \<Rightarrow> string + archive_intake_record" where
  "decide_mapping record decision =
     result_bind (validate_field_mapping_decision record decision) (\<lambda>_.
       map_sum id (\<lambda>ms. record\<lparr>rec_field_mappings := ms\<rparr>)
         (ok_or ''archive_field_mapping_source_column_not_found''
           (update_first (\<lambda>mapping. fmp_source_column mapping = trim (fmd_source_column decision))
             (decided_mapping decision) (rec_field_mappings record))))"

definition apply_field_mapping_decisions ::
    "unicode_tables \<Rightarrow> archive_intake_record \<Rightarrow> archive_field_mapping_input \<Rightarrow> string + archive_intake_record" where
  "apply_field_mapping_decisions ut record input =
     (if trim (afm_source_fingerprint input) \<noteq> rec_source_fingerprint record
      then Inl ''archive_field_mapping_source_fingerprint_mismatch''
      else if afm_mappings input = [] then Inl ''archive_field_mapping_decisions_required''
      else
        let record = (if rec_field_mappings record = []
              then record\<lparr>rec_field_mappings :=
                infer_field_mappings ut (rec_database_target record) (rec_extracted_columns record)\<rparr> else record) in
        map_sum id rebuild_required_mapping_guidance (try_fold decide_mapping record (afm_mappings input)))"

definition apply_local_field_mappings ::
    "unicode_tables \<Rightarrow> archive_intake_store \<Rightarrow> string \<Rightarrow> archive_field_mapping_input \<Rightarrow> u64 \<Rightarrow> string + archive_intake_store" where
  "apply_local_field_mappings ut store intake_id input updated_at_unix =
     result_bind (update_record intake_id (\<lambda>record.
         map_sum id (\<lambda>r. refresh_local_intake_review_state r updated_at_unix)
           (apply_field_mapping_decisions ut record input)) (sto_intakes store))
       (\<lambda>intakes. Inr (store\<lparr>sto_intakes := intakes\<rparr>))"

section \<open>The local store\<close>

definition archive_intake_store_schema :: string where
  "archive_intake_store_schema = ''bitween.archive.intake-store.v1''"

definition empty_store :: archive_intake_store where
  "empty_store = \<lparr>sto_schema = archive_intake_store_schema, sto_intakes = []\<rparr>"

text \<open>Newest first, then by file name; the sort is stable.\<close>

definition intake_key :: "archive_intake_record \<Rightarrow> int \<times> string" where
  "intake_key record = (- rec_updated_at_unix record, rec_original_file_name record)"

definition sort_intakes :: "archive_intake_store \<Rightarrow> archive_intake_store" where
  "sort_intakes store = store\<lparr>sto_intakes := sort_key intake_key (sto_intakes store)\<rparr>"

text \<open>What a stored file becomes when it is read, and the three commands that write it.\<close>

definition load_store ::
    "(string \<Rightarrow> string) \<Rightarrow> unicode_tables \<Rightarrow> archive_intake_store \<Rightarrow> archive_intake_store" where
  "load_store sha256 ut store =
     sort_intakes (store\<lparr>sto_intakes := map (normalize_loaded_record sha256 ut) (sto_intakes store)\<rparr>)"

definition local_add ::
    "(string \<Rightarrow> string) \<Rightarrow> unicode_tables \<Rightarrow> archive_intake_input \<Rightarrow> u64 \<Rightarrow> nat \<Rightarrow> archive_intake_store \<Rightarrow>
     string + archive_intake_store" where
  "local_add sha256 ut input now id_seed stored =
     (let store = load_store sha256 ut stored in
      result_bind (build_intake_record sha256 ut input now id_seed) (\<lambda>record.
        Inr (sort_intakes (store\<lparr>sto_intakes := sto_intakes store @ [record]\<rparr>))))"

definition local_resolve ::
    "(string \<Rightarrow> string) \<Rightarrow> unicode_tables \<Rightarrow> string \<Rightarrow> archive_issue_resolution_input \<Rightarrow> u64 \<Rightarrow>
     archive_intake_store \<Rightarrow> string + archive_intake_store" where
  "local_resolve sha256 ut intake_id input now stored =
     map_sum id sort_intakes (resolve_local_intake_issue (load_store sha256 ut stored) intake_id input now)"

definition local_map_fields ::
    "(string \<Rightarrow> string) \<Rightarrow> unicode_tables \<Rightarrow> string \<Rightarrow> archive_field_mapping_input \<Rightarrow> u64 \<Rightarrow>
     archive_intake_store \<Rightarrow> string + archive_intake_store" where
  "local_map_fields sha256 ut intake_id input now stored =
     map_sum id sort_intakes (apply_local_field_mappings ut (load_store sha256 ut stored) intake_id input now)"

text \<open>The stores that a sequence of commands can leave behind; a command that fails writes nothing.\<close>

inductive reachable_store :: "(string \<Rightarrow> string) \<Rightarrow> unicode_tables \<Rightarrow> archive_intake_store \<Rightarrow> bool"
  for sha256 ut where
  initial: "reachable_store sha256 ut empty_store"
| add: "reachable_store sha256 ut store \<Longrightarrow> local_add sha256 ut input now id_seed store = Inr store' \<Longrightarrow>
     reachable_store sha256 ut store'"
| resolve: "reachable_store sha256 ut store \<Longrightarrow> local_resolve sha256 ut intake_id resolution now store = Inr store' \<Longrightarrow>
     reachable_store sha256 ut store'"
| map_fields: "reachable_store sha256 ut store \<Longrightarrow> local_map_fields sha256 ut intake_id decisions now store = Inr store' \<Longrightarrow>
     reachable_store sha256 ut store'"

section \<open>Rebuilding the guidance\<close>

lemma push_item_nonempty [simp]: "push_item item items \<noteq> []"
  by (auto simp: push_item_def)

lemma fold_push_empty: "fold (\<lambda>x. push_item (f x)) xs items = [] \<longleftrightarrow> xs = [] \<and> items = []"
  by (induction xs arbitrary: items) auto

lemma push_item_filter: "\<not> P item \<Longrightarrow> filter P (push_item item items) = filter P items"
  by (simp add: push_item_def)

lemma fold_push_filter: "(\<And>x. \<not> P (f x)) \<Longrightarrow> filter P (fold (\<lambda>x. push_item (f x)) xs items) = filter P items"
  by (induction xs arbitrary: items) (simp_all add: push_item_filter)

lemma push_item_has: "\<exists>i \<in> set (push_item item items). gdi_id i = gdi_id item"
  by (auto simp: push_item_def list_ex_iff)

lemma fold_push_keeps: "set items \<subseteq> set (fold (\<lambda>x. push_item (f x)) xs items)"
proof (induction xs arbitrary: items)
  case (Cons x xs)
  have "set items \<subseteq> set (push_item (f x) items)" by (auto simp: push_item_def)
  then show ?case using Cons.IH[of "push_item (f x) items"] by auto
qed simp

lemma fold_push_has:
  "x \<in> set xs \<Longrightarrow> \<exists>i \<in> set (fold (\<lambda>x. push_item (f x)) xs items). gdi_id i = gdi_id (f x)"
proof (induction xs arbitrary: items)
  case (Cons y xs)
  show ?case
  proof (cases "x = y")
    case True
    then show ?thesis using push_item_has[of "f x" items] fold_push_keeps[of "push_item (f x) items" f xs] by auto
  next
    case False
    then show ?thesis using Cons by simp
  qed
qed simp

definition other_item :: "guidance_item \<Rightarrow> bool" where
  "other_item item \<longleftrightarrow> \<not> starts_with ''guidance-required-'' (gdi_id item)
     \<and> \<not> starts_with ''guidance-unclear-'' (gdi_id item)"

lemma mapping_items_not_other [simp]: "\<not> other_item (required_item f)" "\<not> other_item (unclear_item m)"
  by (simp_all add: other_item_def required_item_def unclear_item_def required_mapping_guidance_id_def
      unclear_mapping_guidance_id_def starts_with_def)

lemma rebuild_fields [simp]:
  "rec_field_mappings (rebuild_required_mapping_guidance r) = rec_field_mappings r"
  "rec_database_target (rebuild_required_mapping_guidance r) = rec_database_target r"
  "rec_extracted_columns (rebuild_required_mapping_guidance r) = rec_extracted_columns r"
  "rec_anomalies (rebuild_required_mapping_guidance r) = rec_anomalies r"
  "rec_status (rebuild_required_mapping_guidance r) = rec_status r"
  "rec_next_action (rebuild_required_mapping_guidance r) = rec_next_action r"
  "rec_postgres_ready (rebuild_required_mapping_guidance r) = rec_postgres_ready r"
  "rec_id (rebuild_required_mapping_guidance r) = rec_id r"
  by (simp_all add: rebuild_required_mapping_guidance_def Let_def)

abbreviation missing_fields :: "archive_intake_record \<Rightarrow> string list" where
  "missing_fields r \<equiv> missing_required_mapping_fields (rec_database_target r) (rec_field_mappings r)"

abbreviation unclear_mappings :: "archive_intake_record \<Rightarrow> field_mapping list" where
  "unclear_mappings r \<equiv> unclear_field_mappings (rec_field_mappings r)"

lemma rebuild_items:
  "rec_guidance_items (rebuild_required_mapping_guidance r) =
     fold (\<lambda>m. push_item (unclear_item m)) (unclear_mappings r)
       (fold (\<lambda>f. push_item (required_item f)) (missing_fields r) (filter other_item (rec_guidance_items r)))"
  by (simp add: rebuild_required_mapping_guidance_def Let_def other_item_def[abs_def])

lemma rebuild_empty:
  "rec_guidance_items (rebuild_required_mapping_guidance r) = [] \<longleftrightarrow>
     unclear_mappings r = [] \<and> missing_fields r = [] \<and> filter other_item (rec_guidance_items r) = []"
  by (auto simp: rebuild_items fold_push_empty)

lemma rebuild_other: "filter other_item (rec_guidance_items (rebuild_required_mapping_guidance r)) =
    filter other_item (rec_guidance_items r)"
  by (simp add: rebuild_items fold_push_filter)

lemma rebuild_idem: "rebuild_required_mapping_guidance (rebuild_required_mapping_guidance r) =
    rebuild_required_mapping_guidance r"
proof -
  let ?r = "rebuild_required_mapping_guidance r"
  have items: "rec_guidance_items (rebuild_required_mapping_guidance ?r) = rec_guidance_items ?r"
    unfolding rebuild_items[of ?r] rebuild_other rebuild_fields by (rule rebuild_items[symmetric])
  have "rebuild_required_mapping_guidance ?r =
      ?r\<lparr>rec_guidance_items := rec_guidance_items (rebuild_required_mapping_guidance ?r)\<rparr>"
    by (simp add: rebuild_required_mapping_guidance_def Let_def)
  then show ?thesis unfolding items by simp
qed

section \<open>The invariant of a record\<close>

text \<open>The state of the review follows from the open issues.\<close>

definition review_ok :: "archive_intake_record \<Rightarrow> bool" where
  "review_ok r \<longleftrightarrow>
     (let open_guidance = (rec_guidance_items r \<noteq> []); open_anomaly = (rec_anomalies r \<noteq> []);
          staging = is_staging_target (rec_database_target r) in
      rec_postgres_ready r = (staging \<and> \<not> open_guidance \<and> \<not> open_anomaly)
      \<and> rec_status r = (if open_guidance \<or> open_anomaly then IntakeNeedsGuidance
                        else if staging then IntakeReadyForStaging else IntakeArchived)
      \<and> rec_next_action r = (if open_anomaly then ActionResolveAnomalies else if open_guidance then ActionMapColumns
                             else if staging then ActionSaveToBusinessData else ActionKeepInArchive))"

text \<open>The open guidance is that of the mappings as they are.\<close>

definition guidance_fresh :: "archive_intake_record \<Rightarrow> bool" where
  "guidance_fresh r \<longleftrightarrow>
     (rec_guidance_items r = [] \<longleftrightarrow> rec_guidance_items (rebuild_required_mapping_guidance r) = [])"

definition mapping_typed :: "database_target \<Rightarrow> field_mapping \<Rightarrow> bool" where
  "mapping_typed target mapping \<longleftrightarrow>
     fmp_target_table mapping = target \<and> target_field_allowed target (fmp_target_field mapping)
   \<and> fmp_required mapping = target_field_required target (fmp_target_field mapping)"

definition mappings_ok :: "archive_intake_record \<Rightarrow> bool" where
  "mappings_ok r \<longleftrightarrow>
     map fmp_source_column (rec_field_mappings r) =
       (if rec_database_target r = TargetArchiveBlob then [] else rec_extracted_columns r)
   \<and> list_all (mapping_typed (rec_database_target r)) (rec_field_mappings r)"

definition record_ok :: "archive_intake_record \<Rightarrow> bool" where
  "record_ok r \<longleftrightarrow> review_ok r \<and> guidance_fresh r \<and> mappings_ok r"

text \<open>A record that is ready for the business tables.\<close>

lemma ready_record:
  assumes "record_ok r" "rec_postgres_ready r"
  shows "is_staging_target (rec_database_target r) \<and> rec_anomalies r = [] \<and> missing_fields r = [] \<and> unclear_mappings r = []"
proof -
  have "rec_guidance_items r = []" "is_staging_target (rec_database_target r)" "rec_anomalies r = []"
    using assms by (auto simp: record_ok_def review_ok_def Let_def)
  then show ?thesis using assms(1) by (simp add: record_ok_def guidance_fresh_def rebuild_empty)
qed

subsection \<open>A new record\<close>

lemma anomalies_blocking: "list_ex (\<lambda>item. ani_severity item = SeverityBlocking) (anomalies bytes family columns rows)
    \<longleftrightarrow> anomalies bytes family columns rows \<noteq> []"
  by (auto simp: anomalies_def Let_def)

lemma guidance_items_fresh:
  "guidance_items family target columns rows ms = [] \<longleftrightarrow>
     missing_required_mapping_fields target ms = [] \<and> unclear_field_mappings ms = []
     \<and> filter other_item (guidance_items family target columns rows ms) = []"
  by (auto simp: guidance_items_def readable_sheet_item_def other_item_def starts_with_def filter_empty_conv)

lemma inferred_typed: "list_all (mapping_typed target) (infer_field_mappings_with_sample ut target columns sample)"
  using infer_field_mappings_ok[of target ut columns, THEN annotate_ok]
  by (auto simp: infer_field_mappings_with_sample_def list_all_iff mapping_typed_def inferred_mapping_ok_def)

lemma inferred_sources:
  "map fmp_source_column (infer_field_mappings_with_sample ut target columns sample) =
     (if target = TargetArchiveBlob then [] else columns)"
  by (simp add: infer_field_mappings_with_sample_def annotate_field_mapping_value_shapes_def Let_def comp_def
      infer_field_mappings_def)

lemma readable_sheet_other [simp]: "other_item readable_sheet_item"
  by (simp add: other_item_def readable_sheet_item_def starts_with_def)

lemma new_items_fresh:
  "new_items family target columns rows ms anomaly_list = [] \<longleftrightarrow>
     missing_required_mapping_fields target ms = [] \<and> unclear_field_mappings ms = []
     \<and> filter other_item (new_items family target columns rows ms anomaly_list) = []"
  using guidance_items_fresh[of family target columns rows ms] by (auto simp: new_items_def Let_def)

lemma new_items_unmapped:
  "new_items family TargetNeedsMapping columns rows ms anomaly_list \<noteq> []"
  by (simp add: new_items_def guidance_items_def Let_def)

lemma staging_target_iff: "is_staging_target t \<longleftrightarrow> t \<noteq> TargetArchiveBlob \<and> t \<noteq> TargetNeedsMapping"
  by (cases t) (simp_all add: is_staging_target_def)

lemma new_record_ok: "record_ok (new_record sha256 ut file_name bytes digest object_ref input now id_seed)"
  (is "record_ok ?r")
proof -
  let ?family = "rec_family ?r" and ?target = "rec_database_target ?r" and ?columns = "rec_extracted_columns ?r"
  have ms: "rec_field_mappings ?r =
      infer_field_mappings_with_sample ut ?target ?columns (unwrap_or [] (aii_sample_text input))"
    and items: "rec_guidance_items ?r =
      new_items ?family ?target ?columns (rec_estimated_rows ?r) (rec_field_mappings ?r) (rec_anomalies ?r)"
    and ready: "rec_postgres_ready ?r \<longleftrightarrow> rec_guidance_items ?r = [] \<and> rec_anomalies ?r = []
      \<and> ?target \<notin> {TargetArchiveBlob, TargetNeedsMapping}"
    and status: "rec_status ?r = (if rec_guidance_items ?r \<noteq> [] \<or> rec_anomalies ?r \<noteq> [] then IntakeNeedsGuidance
      else if rec_postgres_ready ?r then IntakeReadyForStaging else IntakeArchived)"
    and action: "rec_next_action ?r = next_action_of (rec_status ?r) (rec_anomalies ?r)"
    by (simp_all only: new_record_def Let_def archive_intake_record.simps anomalies_blocking not_not)
  have "review_ok ?r"
    unfolding review_ok_def Let_def action status ready staging_target_iff by (auto simp: next_action_of_def)
  moreover have "guidance_fresh ?r"
    using new_items_fresh[of ?family ?target ?columns "rec_estimated_rows ?r" "rec_field_mappings ?r" "rec_anomalies ?r"]
    unfolding guidance_fresh_def rebuild_empty items[symmetric] by blast
  moreover have "mappings_ok ?r"
    unfolding mappings_ok_def ms using inferred_typed inferred_sources by blast
  ultimately show ?thesis by (simp add: record_ok_def)
qed

lemma build_ok: "build_intake_record sha256 ut input now id_seed = Inr r \<Longrightarrow> record_ok r"
  by (auto simp: build_intake_record_def result_bind_Inr_iff new_record_ok)

subsection \<open>The commands\<close>

lemma refresh_ok:
  assumes "mappings_ok r"
  shows "record_ok (refresh_local_intake_review_state r now)"
proof -
  let ?r = "refresh_local_intake_review_state r now" and ?b = "rebuild_required_mapping_guidance r"
  have same: "rec_field_mappings ?r = rec_field_mappings r" "rec_database_target ?r = rec_database_target r"
      "rec_extracted_columns ?r = rec_extracted_columns r" "rec_guidance_items ?r = rec_guidance_items ?b"
      "rec_anomalies ?r = rec_anomalies r"
    by (simp_all add: refresh_local_intake_review_state_def Let_def)
  have "rec_guidance_items (rebuild_required_mapping_guidance ?r) = rec_guidance_items (rebuild_required_mapping_guidance ?b)"
    unfolding rebuild_items same rebuild_fields ..
  then have "guidance_fresh ?r" unfolding guidance_fresh_def rebuild_idem same by simp
  moreover have "review_ok ?r"
    by (simp add: review_ok_def refresh_local_intake_review_state_def Let_def)
  moreover have "mappings_ok ?r" using assms by (simp add: mappings_ok_def same)
  ultimately show ?thesis by (simp add: record_ok_def)
qed

lemma decide_mapping_ok:
  assumes "decide_mapping r decision = Inr r'" "mappings_ok r"
  shows "mappings_ok r' \<and> rec_database_target r' = rec_database_target r"
proof -
  have valid: "fmd_target_table decision = rec_database_target r"
      "target_field_allowed (rec_database_target r) (trim (fmd_target_field decision))"
    using assms(1) by (auto simp: decide_mapping_def result_bind_Inr_iff validate_field_mapping_decision_def
        Let_def split: if_splits)
  obtain ms where ms: "update_first (\<lambda>m. fmp_source_column m = trim (fmd_source_column decision))
        (decided_mapping decision) (rec_field_mappings r) = Some ms" and r': "r' = r\<lparr>rec_field_mappings := ms\<rparr>"
    using assms(1) by (auto simp: decide_mapping_def result_bind_Inr_iff ok_or_def split: option.splits)
  have sources: "map fmp_source_column ms' = map fmp_source_column xs"
    if "update_first p (decided_mapping decision) xs = Some ms'" for p xs ms'
    using that by (induction xs arbitrary: ms') (auto simp: decided_mapping_def split: if_splits)
  have typed: "list_all (mapping_typed (rec_database_target r)) ms'"
    if "update_first p (decided_mapping decision) xs = Some ms'" "list_all (mapping_typed (rec_database_target r)) xs" for p xs ms'
    using that valid by (induction xs arbitrary: ms')
      (auto simp: decided_mapping_def mapping_typed_def split: if_splits)
  show ?thesis using assms(2) sources[OF ms] typed[OF ms] by (simp add: mappings_ok_def r')
qed

lemma infer_mappings_ok:
  "mappings_ok (r\<lparr>rec_field_mappings := infer_field_mappings ut (rec_database_target r) (rec_extracted_columns r)\<rparr>)"
proof -
  have "list_all (mapping_typed target) (infer_field_mappings ut target columns)" for target columns
    using infer_field_mappings_ok[of target ut columns]
    by (auto simp: list_all_iff mapping_typed_def inferred_mapping_ok_def)
  then show ?thesis by (simp add: mappings_ok_def infer_field_mappings_def comp_def)
qed

lemma decisions_ok:
  assumes "apply_field_mapping_decisions ut r input = Inr r'" "mappings_ok r"
  shows "mappings_ok r'"
proof -
  let ?start = "if rec_field_mappings r = [] then r\<lparr>rec_field_mappings :=
      infer_field_mappings ut (rec_database_target r) (rec_extracted_columns r)\<rparr> else r"
  have start: "mappings_ok ?start" using assms(2) infer_mappings_ok by simp
  obtain s where s: "try_fold decide_mapping ?start (afm_mappings input) = Inr s"
      and r': "r' = rebuild_required_mapping_guidance s"
    using assms(1) by (auto simp: apply_field_mapping_decisions_def Let_def map_sum_def split: if_splits sum.splits)
  have "mappings_ok s" if "try_fold decide_mapping a ds = Inr s" "mappings_ok a" for a ds s
    using that by (induction ds arbitrary: a) (auto simp: result_bind_Inr_iff dest: decide_mapping_ok)
  from this[OF s start] show ?thesis by (simp add: r' mappings_ok_def)
qed

lemma resolve_record_ok:
  assumes "resolve_record issue_type issue_id code column now r = Inr r'" "mappings_ok r"
  shows "record_ok r'"
  using assms by (auto simp: resolve_record_def Let_def mappings_ok_def split: if_splits intro!: refresh_ok)

lemma update_record_all:
  assumes "update_record intake_id f records = Inr records'" "list_all P records"
    "\<And>r r'. f r = Inr r' \<Longrightarrow> P r \<Longrightarrow> P r'"
  shows "list_all P records'"
  using assms(1,2) by (induction records arbitrary: records')
    (auto simp: result_bind_Inr_iff split: if_splits dest: assms(3))

text \<open>The fields the review depends on.\<close>

definition review_fields :: "archive_intake_record \<Rightarrow>
    field_mapping list \<times> database_target \<times> string list \<times> guidance_item list \<times> anomaly_item list
    \<times> archive_intake_status \<times> archive_intake_action \<times> bool" where
  "review_fields r =
     (rec_field_mappings r, rec_database_target r, rec_extracted_columns r, rec_guidance_items r,
      rec_anomalies r, rec_status r, rec_next_action r, rec_postgres_ready r)"

lemma fill_object_ref_review: "review_fields (fill_object_ref r) = review_fields r"
  by (simp add: review_fields_def fill_object_ref_def Let_def split: sum.splits)

lemma fill_derived_review: "mappings_ok r \<Longrightarrow> review_fields (fill_derived sha256 ut r) = review_fields r"
  by (auto simp: review_fields_def fill_derived_def Let_def mappings_ok_def infer_field_mappings_def split: if_splits)

lemma record_ok_review: "review_fields r = review_fields s \<Longrightarrow> record_ok r \<longleftrightarrow> record_ok s"
  by (simp add: review_fields_def record_ok_def review_ok_def guidance_fresh_def mappings_ok_def Let_def rebuild_items)

lemma mappings_ok_review: "review_fields r = review_fields s \<Longrightarrow> mappings_ok r \<longleftrightarrow> mappings_ok s"
  by (simp add: review_fields_def mappings_ok_def)

lemma rebuild_ok:
  assumes "record_ok r"
  shows "record_ok (rebuild_required_mapping_guidance r)"
  using assms rebuild_idem[of r]
  by (simp add: record_ok_def review_ok_def guidance_fresh_def mappings_ok_def Let_def)

lemma normalize_ok:
  assumes "record_ok r"
  shows "record_ok (normalize_loaded_record sha256 ut r)"
proof -
  let ?f = "fill_derived sha256 ut (fill_object_ref r)"
  have "mappings_ok (fill_object_ref r)"
    using assms mappings_ok_review[OF fill_object_ref_review] by (simp add: record_ok_def)
  then have "review_fields ?f = review_fields r" by (simp add: fill_derived_review fill_object_ref_review)
  then have "record_ok ?f" using assms record_ok_review by blast
  then have "record_ok (rebuild_required_mapping_guidance ?f)" by (rule rebuild_ok)
  moreover have "review_fields (normalize_loaded_record sha256 ut r) = review_fields (rebuild_required_mapping_guidance ?f)"
    by (simp add: normalize_loaded_record_def Let_def review_fields_def)
  ultimately show ?thesis using record_ok_review by blast
qed

section \<open>The store\<close>

lemma sort_intakes_all: "list_all P (sto_intakes (sort_intakes store)) \<longleftrightarrow> list_all P (sto_intakes store)"
  by (simp add: sort_intakes_def list_all_iff)

lemma sort_intakes_sorted: "sorted (map intake_key (sto_intakes (sort_intakes store)))"
  by (simp add: sort_intakes_def)

definition store_ok :: "archive_intake_store \<Rightarrow> bool" where
  "store_ok store \<longleftrightarrow> list_all record_ok (sto_intakes store) \<and> sorted (map intake_key (sto_intakes store))
     \<and> sto_schema store = archive_intake_store_schema"

lemma sort_ok: "list_all record_ok (sto_intakes store) \<Longrightarrow> sto_schema store = archive_intake_store_schema \<Longrightarrow>
    store_ok (sort_intakes store)"
  by (simp add: store_ok_def sort_intakes_all sort_intakes_sorted) (simp add: sort_intakes_def)

lemma load_ok: "store_ok store \<Longrightarrow> store_ok (load_store sha256 ut store)"
  unfolding load_store_def by (rule sort_ok) (auto simp: store_ok_def list_all_iff normalize_ok)

lemma local_add_ok: "local_add sha256 ut input now id_seed store = Inr store' \<Longrightarrow> store_ok store \<Longrightarrow> store_ok store'"
  using load_ok[of store sha256 ut] build_ok
  by (auto simp: local_add_def Let_def result_bind_Inr_iff store_ok_def intro!: sort_ok[unfolded store_ok_def])

lemma map_sum_Inr: "map_sum f g x = Inr z \<longleftrightarrow> (\<exists>y. x = Inr y \<and> z = g y)"
  by (cases x) auto

lemma local_resolve_ok:
  assumes "local_resolve sha256 ut intake_id input now store = Inr store'" "store_ok store"
  shows "store_ok store'"
proof -
  let ?l = "load_store sha256 ut store"
  obtain f records where u: "update_record intake_id f (sto_intakes ?l) = Inr records"
      and f: "\<And>r r'. f r = Inr r' \<Longrightarrow> record_ok r \<Longrightarrow> record_ok r'"
      and s: "store' = sort_intakes (?l\<lparr>sto_intakes := records\<rparr>)"
    using assms(1) resolve_record_ok
    by (auto simp: local_resolve_def resolve_local_intake_issue_def result_bind_Inr_iff map_sum_Inr record_ok_def)
  have "list_all record_ok records"
    using update_record_all[OF u _ f] load_ok[OF assms(2)] by (simp add: store_ok_def)
  then show ?thesis unfolding s using load_ok[OF assms(2), of sha256 ut] by (intro sort_ok) (simp_all add: store_ok_def)
qed

lemma local_map_ok:
  assumes "local_map_fields sha256 ut intake_id input now store = Inr store'" "store_ok store"
  shows "store_ok store'"
proof -
  let ?l = "load_store sha256 ut store"
  let ?f = "\<lambda>record. map_sum id (\<lambda>r. refresh_local_intake_review_state r now) (apply_field_mapping_decisions ut record input)"
  obtain records where u: "update_record intake_id ?f (sto_intakes ?l) = Inr records"
      and s: "store' = sort_intakes (?l\<lparr>sto_intakes := records\<rparr>)"
    using assms(1) by (auto simp: local_map_fields_def apply_local_field_mappings_def result_bind_Inr_iff map_sum_Inr)
  have f: "record_ok r'" if "?f r = Inr r'" "record_ok r" for r r'
    using that refresh_ok decisions_ok by (auto simp: map_sum_Inr record_ok_def)
  have "list_all record_ok records"
    using update_record_all[OF u _ f] load_ok[OF assms(2)] by (simp add: store_ok_def)
  then show ?thesis unfolding s using load_ok[OF assms(2), of sha256 ut] by (intro sort_ok) (simp_all add: store_ok_def)
qed

lemma empty_store_ok: "store_ok empty_store"
  by (simp add: store_ok_def empty_store_def)

lemma reachable_ok: "reachable_store sha256 ut store \<Longrightarrow> store_ok store"
  by (induction rule: reachable_store.induct)
    (simp_all add: empty_store_ok local_add_ok local_resolve_ok local_map_ok)


definition ascii_tables :: unicode_tables where
  "ascii_tables =
     \<lparr>ut_lower = map ascii_lower, ut_alphanumeric = (\<lambda>ch. length ch = 1 \<and> ascii_alphanumeric (hd ch)),
      ut_to_lowercase = map ascii_lower\<rparr>"

definition sample_upload :: archive_intake_input where
  "sample_upload =
     \<lparr>aii_file_name = Some ''staff.csv'', aii_file_type = None, aii_file_size_bytes = Some 64,
      aii_content_sha256 = Some ''00'', aii_sample_text = Some ''employee,pay'',
      aii_object_uri = Some ''rustfs://archive/staff.csv'', aii_blob_uri = None\<rparr>"

definition sample_new_record :: archive_intake_record where
  "sample_new_record =
     new_record id ascii_tables ''staff.csv'' 64 ''00''
       \<lparr>rfo_uri = ''rustfs://archive/staff.csv'', rfo_bucket = ''archive'', rfo_key = ''staff.csv''\<rparr> sample_upload 5 1"

lemma sample_build: "build_intake_record id ascii_tables sample_upload 5 1 = Inr sample_new_record"
proof -
  have "required_intake_field (Some ''staff.csv'') ''file_name'' = Inr ''staff.csv''"
    "required_intake_field (Some ''00'') ''content_sha256'' = Inr ''00''"
    "rustfs_object_ref (Some ''rustfs://archive/staff.csv'') =
       Inr \<lparr>rfo_uri = ''rustfs://archive/staff.csv'', rfo_bucket = ''archive'', rfo_key = ''staff.csv''\<rparr>"
    by code_simp+
  then show ?thesis by (simp add: build_intake_record_def sample_upload_def sample_new_record_def)
qed

lemma sample_add:
  "local_add id ascii_tables sample_upload 5 1 empty_store = Inr (empty_store\<lparr>sto_intakes := [sample_new_record]\<rparr>)"
  using sample_build[unfolded One_nat_def]
  by (simp add: local_add_def load_store_def sort_intakes_def empty_store_def)


text \<open>
  Resolving the guidance of a mapping does not decide the mapping: as long as it is unclear, an
  item with its id is open.
\<close>

lemma unclear_stays_open:
  assumes "m \<in> set (unclear_mappings r)"
  shows "\<exists>item \<in> set (rec_guidance_items (refresh_local_intake_review_state r now)).
     gdi_id item = unclear_mapping_guidance_id (fmp_source_column m)"
  using fold_push_has[OF assms, of unclear_item]
  by (simp add: refresh_local_intake_review_state_def Let_def rebuild_items unclear_item_def)

text \<open>Two columns whose names hold no ASCII letter or digit have one guidance id.\<close>

lemma korean_columns_share_id:
  "unclear_mapping_guidance_id [CHR 0xEA, CHR 0xB0, CHR 0x80] = unclear_mapping_guidance_id [CHR 0xEB, CHR 0x82, CHR 0x98]"
  by code_simp

end
