(* ===== verification/Archive_Sync.thy ===== *)
theory Archive_Sync
  imports Archive_Types
begin

text \<open>
  The derived workbooks of the archive intake store
  (\<open>crates/payroll-api/src/bin/archive_intake_store.rs\<close>): the object key and the body of a pending
  synchronisation, the plan item, and the validation of its completion or failure.
\<close>

section \<open>The plan item\<close>

definition archive_source_sync_content_type :: string where
  "archive_source_sync_content_type = ''application/vnd.ms-excel; charset=utf-8''"

definition archive_source_sync_plan_schema :: string where
  "archive_source_sync_plan_schema = ''bitween.archive.source-sync-plan.v1''"

definition sync_max_file_bytes :: u64 where
  "sync_max_file_bytes = 50 * 1024 * 1024"

definition parse_json_array :: "(string \<Rightarrow> json option) \<Rightarrow> string \<Rightarrow> string + json list" where
  "parse_json_array parser body =
     (case parser body of
        None \<Rightarrow> Inl ''archive_postgres_source_sync_json_decode_failed''
      | Some (JArr items) \<Rightarrow> Inr items
      | Some _ \<Rightarrow> Inl ''archive_postgres_source_sync_rows_not_array'')"

definition source_sync_object_key :: "archive_source_sync_pending_row \<Rightarrow> string" where
  "source_sync_object_key row =
     ''derived/'' @ source_sync_key_part (spr_intake_id row) @ ''/'' @ show_int (spr_source_version row) @ ''/''
     @ source_sync_key_part (spr_sync_item_id row) @ ''-'' @ source_sync_key_part (spr_operation row) @ ''.xml''"

definition payload_text :: "json \<Rightarrow> string \<Rightarrow> string \<Rightarrow> string" where
  "payload_text payload key default_value = unwrap_or default_value (Option.bind (json_get key payload) as_str)"

definition metadata_rows :: "archive_source_sync_pending_row \<Rightarrow> (string \<times> string) list" where
  "metadata_rows row =
     (let payload = spr_change_payload row in
      [(''schema'', archive_source_sync_plan_schema),
       (''sync_item_id'', spr_sync_item_id row),
       (''intake_id'', spr_intake_id row),
       (''operation'', spr_operation row),
       (''target_table'', spr_target_table row),
       (''source_version'', show_int (spr_source_version row)),
       (''source_object_uri'', spr_source_object_uri row),
       (''requested_by'', spr_created_by row),
       (''binary_snapshot_stored'', ''false''),
       (''postgres_payload'', payload_text payload ''postgres_payload'' ''row_delta_json''),
       (''workbook_strategy'',
        payload_text payload ''workbook_strategy'' ''immutable_original_plus_derived_rustfs_version''),
       (''admitted_rows'', json_scalar_to_string (json_get ''admitted_rows'' payload)),
       (''rejected_rows'', json_scalar_to_string (json_get ''rejected_rows'' payload)),
       (''reversed_rows'', json_scalar_to_string (json_get ''reversed_rows'' payload))])"

definition workbook_columns :: "string list" where
  "workbook_columns =
     [''row_number'', ''validation_status'', ''employee_external_id'', ''display_name'', ''department'',
      ''work_date'', ''gross_pay'', ''deduction_total'', ''row_hash'']"

definition workbook_row :: "json \<Rightarrow> string list" where
  "workbook_row item = map (\<lambda>column. json_scalar_to_string (json_get column item)) workbook_columns"

definition xml_declaration :: string where
  "xml_declaration =
     ''<?xml version='' @ [quote] @ ''1.0'' @ [quote] @ '' encoding='' @ [quote] @ ''UTF-8'' @ [quote] @ ''?>'' @ [newline]"

definition workbook_open :: string where
  "workbook_open =
     ''<?mso-application progid='' @ [quote] @ ''Excel.Sheet'' @ [quote] @ ''?><Workbook xmlns='' @ [quote]
     @ ''urn:schemas-microsoft-com:office:spreadsheet'' @ [quote] @ '' xmlns:ss='' @ [quote]
     @ ''urn:schemas-microsoft-com:office:spreadsheet'' @ [quote] @ ''>''"

definition worksheet_open :: "string \<Rightarrow> string" where
  "worksheet_open name = ''<Worksheet ss:Name='' @ [quote] @ name @ [quote] @ ''><Table>''"

definition source_sync_workbook_xml :: "archive_source_sync_pending_row \<Rightarrow> string" where
  "source_sync_workbook_xml row =
     (let body = xml_declaration @ workbook_open @ worksheet_open ''Sync'';
          body = foldl (\<lambda>body (key, v). push_excel_row body [key, v]) body (metadata_rows row);
          body = body @ ''</Table></Worksheet>'' @ worksheet_open ''Rows'';
          body = push_excel_row body workbook_columns;
          body = foldl (\<lambda>body item. push_excel_row body (workbook_row item)) body (spr_workbook_rows row) in
      body @ ''</Table></Worksheet></Workbook>'')"

text \<open>A body always has a size that fits 64 bits.\<close>

definition build_source_sync_plan_item ::
    "(string \<Rightarrow> string) \<Rightarrow> archive_source_sync_pending_row \<Rightarrow> string \<Rightarrow> archive_source_sync_plan_item" where
  "build_source_sync_plan_item sha256 row bucket =
     (let body_text = source_sync_workbook_xml row;
          object_key = source_sync_object_key row in
      \<lparr>spi_sync_item_id = spr_sync_item_id row, spi_intake_id = spr_intake_id row,
       spi_operation = spr_operation row, spi_target_table = spr_target_table row,
       spi_source_object_uri = spr_source_object_uri row,
       spi_generated_object_uri = ''rustfs://'' @ bucket @ ''/'' @ object_key,
       spi_object_key = object_key, spi_content_type = archive_source_sync_content_type,
       spi_content_sha256 = hex_bytes (sha256 body_text), spi_file_size_bytes = int (length body_text),
       spi_body_text = body_text\<rparr>)"

section \<open>Completion and failure\<close>

definition validate_source_sync_completion ::
    "archive_source_sync_completion_input \<Rightarrow> string + archive_source_sync_completion" where
  "validate_source_sync_completion input =
     result_bind (required_intake_field (sci_sync_item_id input) ''sync_item_id'') (\<lambda>sync_item_id.
     result_bind (required_intake_field (sci_generated_object_uri input) ''generated_object_uri'') (\<lambda>generated_object_uri.
       if \<not> starts_with ''rustfs://'' generated_object_uri
       then Inl ''archive_source_sync_generated_object_uri_must_be_rustfs''
       else result_bind (required_intake_field (sci_content_sha256 input) ''content_sha256'') (\<lambda>content_sha256.
         if \<not> is_sha256_hex content_sha256 then Inl ''archive_source_sync_generated_checksum_invalid''
         else result_bind (ok_or ''missing required intake field: file_size_bytes'' (sci_file_size_bytes input)) (\<lambda>file_size_bytes.
           if file_size_bytes = 0 \<or> file_size_bytes > sync_max_file_bytes \<or> file_size_bytes > i64_max
           then Inl ''archive_source_sync_generated_file_size_invalid''
           else Inr \<lparr>sco_sync_item_id = sync_item_id, sco_generated_object_uri = generated_object_uri,
                     sco_content_sha256 = content_sha256, sco_file_size_bytes = file_size_bytes\<rparr>))))"

definition validate_source_sync_completion_for_pending ::
    "archive_source_sync_completion_input \<Rightarrow> archive_source_sync_pending_row \<Rightarrow> string \<Rightarrow>
     string + archive_source_sync_completion" where
  "validate_source_sync_completion_for_pending input pending bucket =
     result_bind (validate_source_sync_completion input) (\<lambda>completion.
       if sco_generated_object_uri completion \<noteq> ''rustfs://'' @ bucket @ ''/'' @ source_sync_object_key pending
       then Inl ''archive_source_sync_generated_object_uri_mismatch'' else Inr completion)"

definition validate_source_sync_failure ::
    "archive_source_sync_failure_input \<Rightarrow> string + archive_source_sync_failure" where
  "validate_source_sync_failure input =
     result_bind (required_intake_field (sfi_sync_item_id input) ''sync_item_id'') (\<lambda>sync_item_id.
     result_bind (required_intake_field (sfi_error input) ''error'') (\<lambda>error.
       Inr \<lparr>sfa_sync_item_id = sync_item_id, sfa_error = bounded_note error\<rparr>))"

section \<open>Properties\<close>

lemma part_no_slash: "CHR ''/'' \<notin> set (source_sync_key_part v)"
  using key_part_safe[of v] by (auto simp: list_all_iff key_char_def is_digit_def char_code_def)

text \<open>The rows of a sheet, as the body holds them.\<close>

definition sheet_row :: "string list \<Rightarrow> string" where
  "sheet_row cells = push_excel_row [] cells"

lemma push_row: "push_excel_row body cells = body @ sheet_row cells"
  by (simp add: push_excel_row_def sheet_row_def)

lemma fold_rows: "foldl (\<lambda>body x. push_excel_row body (f x)) body xs = body @ concat (map (\<lambda>x. sheet_row (f x)) xs)"
  by (induction xs arbitrary: body) (simp_all add: push_row)

lemma fold_pairs:
  "foldl (\<lambda>body (key, v). push_excel_row body [key, v]) body xs = body @ concat (map (\<lambda>(key, v). sheet_row [key, v]) xs)"
  by (induction xs arbitrary: body) (auto simp: push_row)

definition sheet_rows :: "string list list \<Rightarrow> string" where
  "sheet_rows rows = concat (map sheet_row rows)"

definition metadata_cells :: "archive_source_sync_pending_row \<Rightarrow> string list list" where
  "metadata_cells row = map (\<lambda>(key, v). [key, v]) (metadata_rows row)"

definition data_cells :: "archive_source_sync_pending_row \<Rightarrow> string list list" where
  "data_cells row = workbook_columns # map workbook_row (spr_workbook_rows row)"

lemma workbook_layout:
  "source_sync_workbook_xml row =
     (xml_declaration @ workbook_open @ worksheet_open ''Sync'') @ sheet_rows (metadata_cells row)
     @ (''</Table></Worksheet>'' @ worksheet_open ''Rows'') @ sheet_rows (data_cells row)
     @ ''</Table></Worksheet></Workbook>''"
  unfolding source_sync_workbook_xml_def Let_def fold_rows fold_pairs
  unfolding push_row sheet_rows_def metadata_cells_def data_cells_def
  by (simp only: map_map comp_def list.map concat.simps append_assoc split_def)

subsection \<open>A reader\<close>

definition cell_open :: string where
  "cell_open = ''<Cell><Data ss:Type='' @ [quote] @ ''String'' @ [quote] @ ''>''"

definition cell_close :: string where
  "cell_close = ''</Data></Cell>''"

lemma sheet_row_cells:
  "sheet_row cells = ''<Row>'' @ concat (map (\<lambda>v. cell_open @ xml_escape v @ cell_close) cells) @ ''</Row>''"
  by (simp add: sheet_row_def push_excel_row_def cell_open_def cell_close_def)

lemma starts_with_length: "starts_with p s \<Longrightarrow> length p \<le> length s"
  by (metis length_take min.cobounded1 starts_with_def min.commute)

lemma cell_open_length: "0 < length cell_open"
  by (simp add: cell_open_def)

function read_cells :: "string \<Rightarrow> string list \<times> string" where
  "read_cells s =
     (if starts_with cell_open s
      then let body = drop (length cell_open) s; v = takeWhile (\<lambda>c. c \<noteq> CHR ''<'') body;
               (cells, rest) = read_cells (drop (length v + length cell_close) body) in
           (xml_unescape v # cells, rest)
      else ([], s))"
  by pat_completeness auto
termination
proof (relation "measure length")
  fix s body v :: string
  assume "starts_with cell_open s" "body = drop (length cell_open) s"
  then have "length body < length s" using starts_with_length[of cell_open s] cell_open_length
    by (metis diff_less length_drop less_le_trans)
  then show "(drop (length v + length cell_close) body, s) \<in> measure length" by simp
qed simp

declare read_cells.simps [simp del]

lemma read_cells_length: "length (snd (read_cells s)) \<le> length s"
proof (induction s rule: read_cells.induct)
  case (1 s)
  show ?case using 1 by (subst read_cells.simps) (force simp: Let_def split: prod.splits)
qed

function read_rows :: "string \<Rightarrow> string list list \<times> string" where
  "read_rows s =
     (if starts_with ''<Row>'' s
      then let (cells, rest) = read_cells (drop 5 s); (rows, rest') = read_rows (drop 6 rest) in
           (cells # rows, rest')
      else ([], s))"
  by pat_completeness auto
termination
proof (relation "measure length")
  fix s x cells rest
  assume "starts_with ''<Row>'' s" "x = read_cells (drop 5 s)" "(cells, rest) = x"
  then have "length rest \<le> length (drop 5 s)" "5 \<le> length s"
    using read_cells_length[of "drop 5 s"] starts_with_length[of "''<Row>''" s]
    by (auto dest!: sym[of "(cells, rest)"])
  then show "(drop 6 rest, s) \<in> measure length" by simp
qed simp

declare read_rows.simps [simp del]

definition read_workbook :: "string \<Rightarrow> string list list \<times> string list list" where
  "read_workbook s =
     (let (meta, rest) = read_rows (drop (length (xml_declaration @ workbook_open @ worksheet_open ''Sync'')) s) in
      (meta, fst (read_rows (drop (length (''</Table></Worksheet>'' @ worksheet_open ''Rows'')) rest))))"

lemma starts_with_append [simp]: "starts_with p (p @ s)"
  by (simp add: starts_with_def)

lemma escaped_cell:
  "takeWhile (\<lambda>c. c \<noteq> CHR ''<'') (xml_escape v @ cell_close @ s) = xml_escape v"
proof -
  have "\<forall>c \<in> set (xml_escape v). c \<noteq> CHR ''<''" using xml_escape_plain[of v] by auto
  then show ?thesis by (simp add: takeWhile_append2 cell_close_def)
qed

lemma read_cells_row:
  "read_cells (concat (map (\<lambda>v. cell_open @ xml_escape v @ cell_close) cells) @ ''</Row>'' @ s) = (cells, ''</Row>'' @ s)"
proof (induction cells)
  case Nil
  show ?case by (subst read_cells.simps) (simp add: cell_open_def starts_with_def)
next
  case (Cons v cells)
  show ?case
    using Cons.IH
    by (subst read_cells.simps) (simp add: Let_def escaped_cell xml_unescape_escape)
qed

lemma read_rows_sheet: "\<not> starts_with ''<Row>'' s \<Longrightarrow> read_rows (sheet_rows rows @ s) = (rows, s)"
proof (induction rows)
  case Nil
  then show ?case by (subst read_rows.simps) (simp add: sheet_rows_def)
next
  case (Cons cells rows)
  have "read_cells (drop 5 (sheet_rows (cells # rows) @ s)) = (cells, ''</Row>'' @ sheet_rows rows @ s)"
    using read_cells_row[of cells "sheet_rows rows @ s"] by (simp add: sheet_rows_def sheet_row_cells)
  moreover have "starts_with ''<Row>'' (sheet_rows (cells # rows) @ s)"
    by (simp add: sheet_rows_def sheet_row_cells starts_with_def)
  ultimately show ?case using Cons by (subst read_rows.simps) simp
qed

text \<open>C13: A derived workbook can be read back: whatever texts the rows hold, markup included, its
  two sheets give the metadata of the synchronisation and the header with one row per row of the
  table, cell by cell.\<close>

lemma workbook_roundtrip:
  "read_workbook (source_sync_workbook_xml row) = (metadata_cells row, data_cells row)"
proof -
  have rest: "\<not> starts_with ''<Row>'' ((''</Table></Worksheet>'' @ worksheet_open ''Rows'') @ s)"
    "\<not> starts_with ''<Row>'' ''</Table></Worksheet></Workbook>''" for s
    by (simp_all add: starts_with_def)
  have skip: "drop (length p) (p @ s) = s" for p s :: string by simp
  show ?thesis
    unfolding read_workbook_def workbook_layout skip read_rows_sheet[OF rest(1)] read_rows_sheet[OF rest(2)]
      Let_def prod.case fst_conv ..
qed

subsection \<open>Planned and completed\<close>

lemma key_char_graphic: "key_char c \<Longrightarrow> graphic c"
  by (auto simp: key_char_def graphic_def is_digit_def char_code_def)

lemma key_part_graphic: "list_all graphic (source_sync_key_part v)"
  using key_part_safe[of v] key_char_graphic by (auto simp: list_all_iff)

lemma object_key_graphic: "list_all graphic (source_sync_object_key row)"
proof -
  have "list_all graphic ''derived/''" "list_all graphic ''.xml''" "graphic (CHR ''/'')" "graphic (CHR ''-'')"
    by (simp_all add: graphic_def char_code_def)
  then show ?thesis
    using show_int_graphic by (simp add: source_sync_object_key_def key_part_graphic)
qed

lemma bucket_graphic:
  assumes "source_sync_bucket_from_parts p a = Inr bucket"
  shows "list_all graphic bucket"
  using assms
  by (auto simp: source_sync_bucket_from_parts_def result_bind_Inr_iff list_all_iff graphic_def is_digit_def
      char_code_def split: if_splits)

lemma generated_uri_trimmed:
  assumes "source_sync_bucket_from_parts p a = Inr bucket"
  shows "trim (''rustfs://'' @ bucket @ ''/'' @ source_sync_object_key row) = ''rustfs://'' @ bucket @ ''/'' @ source_sync_object_key row"
proof (rule trim_graphic)
  have "list_all graphic ''rustfs://''" "list_all graphic ''/''" by (simp_all add: graphic_def char_code_def)
  then show "list_all graphic (''rustfs://'' @ bucket @ ''/'' @ source_sync_object_key row)"
    using bucket_graphic[OF assms] object_key_graphic by (simp del: append.simps)
qed

text \<open>The report of an uploader that stored the body of a plan item where the plan says.\<close>

definition report_of :: "archive_source_sync_plan_item \<Rightarrow> archive_source_sync_completion_input" where
  "report_of item =
     \<lparr>sci_sync_item_id = Some (spi_sync_item_id item), sci_generated_object_uri = Some (spi_generated_object_uri item),
      sci_content_sha256 = Some (spi_content_sha256 item), sci_file_size_bytes = Some (spi_file_size_bytes item)\<rparr>"

lemma required_present: "trim v = v \<Longrightarrow> v \<noteq> [] \<Longrightarrow> required_intake_field (Some v) name = Inr v"
  by (simp add: required_intake_field_def)

text \<open>C14: Planning and completing fit together: when the body of a plan item is within the size
  limit, the report that it was stored at the planned place with the planned checksum is accepted
  for the pending row, and no completion for that row is accepted for any other place.\<close>

lemma planned_completion_accepted:
  assumes bucket: "source_sync_bucket_from_parts p a = Inr bucket"
    and item: "item = build_source_sync_plan_item sha256 row bucket"
    and id: "trim (spr_sync_item_id row) = spr_sync_item_id row" "spr_sync_item_id row \<noteq> []"
    and digest: "length (sha256 (spi_body_text item)) = 32"
    and limit: "spi_file_size_bytes item \<le> sync_max_file_bytes"
  shows "validate_source_sync_completion_for_pending (report_of item) row bucket =
      Inr \<lparr>sco_sync_item_id = spr_sync_item_id row, sco_generated_object_uri = spi_generated_object_uri item,
           sco_content_sha256 = spi_content_sha256 item, sco_file_size_bytes = spi_file_size_bytes item\<rparr>
    \<and> (validate_source_sync_completion_for_pending report row bucket = Inr c \<longrightarrow>
      sco_generated_object_uri c = spi_generated_object_uri item)"
proof (rule conjI)
  let ?uri = "''rustfs://'' @ bucket @ ''/'' @ source_sync_object_key row"
  let ?sha = "hex_bytes (sha256 (source_sync_workbook_xml row))"
  have fields: "spi_sync_item_id item = spr_sync_item_id row" "spi_generated_object_uri item = ?uri"
      "spi_content_sha256 item = ?sha" "spi_body_text item = source_sync_workbook_xml row"
      "spi_file_size_bytes item = int (length (source_sync_workbook_xml row))"
    by (simp_all add: item build_source_sync_plan_item_def Let_def)
  have sha: "is_sha256_hex ?sha" "trim ?sha = ?sha" "?sha \<noteq> []"
    using digest hex_bytes_hex[of "sha256 (source_sync_workbook_xml row)"] hex_bytes_trimmed hex_bytes_nonempty
    by (auto simp: is_sha256_hex_def fields)
  have size: "0 < length (source_sync_workbook_xml row)" by (simp add: workbook_layout)
  have uri: "required_intake_field (Some ?uri) name = Inr ?uri" for name
    by (rule required_present[OF generated_uri_trimmed[OF bucket]]) simp
  have starts: "starts_with ''rustfs://'' ?uri" by (rule starts_with_append)
  show "validate_source_sync_completion_for_pending (report_of item) row bucket =
      Inr \<lparr>sco_sync_item_id = spr_sync_item_id row, sco_generated_object_uri = spi_generated_object_uri item,
           sco_content_sha256 = spi_content_sha256 item, sco_file_size_bytes = spi_file_size_bytes item\<rparr>"
    using limit size sha unfolding validate_source_sync_completion_for_pending_def validate_source_sync_completion_def
      report_of_def fields archive_source_sync_completion_input.simps uri required_present[OF id] required_present[OF sha(2,3)]
      result_bind_simps ok_or_simps
    by (simp only: starts not_True_eq_False if_False sha(1) result_bind_simps archive_source_sync_completion.simps)
      (simp add: sync_max_file_bytes_def i64_max_def)
  show "validate_source_sync_completion_for_pending report row bucket = Inr c \<longrightarrow>
      sco_generated_object_uri c = spi_generated_object_uri item"
    unfolding fields by (auto simp: validate_source_sync_completion_for_pending_def result_bind_Inr_iff split: if_splits)
qed

definition sample_pending :: archive_source_sync_pending_row where
  "sample_pending =
     \<lparr>spr_sync_item_id = ''s1'', spr_intake_id = ''i1'', spr_source_version = 2, spr_target_table = ''hr'',
      spr_operation = ''admission'', spr_source_object_uri = ''rustfs://a/b'', spr_change_payload = JNull,
      spr_workbook_rows = [], spr_created_by = ''op''\<rparr>"

definition sample_item :: archive_source_sync_plan_item where
  "sample_item = build_source_sync_plan_item (\<lambda>_. replicate 32 (CHR ''A'')) sample_pending ''archive''"

lemma planned_completion_accepted_witness:
  "validate_source_sync_completion_for_pending (report_of sample_item) sample_pending ''archive'' =
      Inr \<lparr>sco_sync_item_id = ''s1'', sco_generated_object_uri = spi_generated_object_uri sample_item,
           sco_content_sha256 = spi_content_sha256 sample_item, sco_file_size_bytes = spi_file_size_bytes sample_item\<rparr>"
proof -
  have b: "source_sync_bucket_from_parts (Some ''archive'') None = Inr ''archive''" by code_simp
  have i: "trim (spr_sync_item_id sample_pending) = spr_sync_item_id sample_pending"
    "spr_sync_item_id sample_pending \<noteq> []" by code_simp+
  have l: "spi_file_size_bytes sample_item \<le> sync_max_file_bytes" by code_simp
  show ?thesis
    using planned_completion_accepted[OF b sample_item_def i _ l] by (simp add: sample_pending_def)
qed

end
