(* ===== verification/Workflow_Graph.thy ===== *)
theory Workflow_Graph
  imports Btree
begin

text \<open>
  The step graph of a workflow template
  (\<open>crates/payroll-api/src/bin/workflow_template_store.rs\<close>): the adjacency map and the
  depth-first searches over it.  A Rust search is a recursive function whose body loops over the
  successors of a step; here the loop and the recursion are one function on the list of steps
  still to be entered, so a search from one step is the search from a one-element list.  The hash
  sets the searches share by mutable reference are passed in and out.  Every search is total: it
  enters a step of the map at most once (or, for the longest path, once along each path).
\<close>

type_synonym adjacency = "(string \<times> string list) list"

section \<open>Successors\<close>

definition children :: "adjacency \<Rightarrow> string \<Rightarrow> string list" where
  "children adj x = (case bt_get x adj of None \<Rightarrow> [] | Some next_ids \<Rightarrow> next_ids)"

definition edges :: "adjacency \<Rightarrow> (string \<times> string) set" where
  "edges adj = {(x, y). y \<in> set (children adj x)}"

definition keys :: "adjacency \<Rightarrow> string set" where
  "keys adj = fst ` set adj"

lemma finite_keys [simp]: "finite (keys adj)"
  by (simp add: keys_def)

lemma children_outside [simp]: "x \<notin> keys adj \<Longrightarrow> children adj x = []"
  by (simp add: children_def bt_get_def keys_def map_of_eq_None_iff[THEN iffD2])

lemma edge_iff [simp]: "(x, y) \<in> edges adj \<longleftrightarrow> y \<in> set (children adj x)"
  by (simp add: edges_def)

lemma edge_from_key: "(x, y) \<in> edges adj \<Longrightarrow> x \<in> keys adj"
  by (metis children_outside edge_iff empty_iff list.set(1))

lemma trancl_from_key: "(x, y) \<in> (edges adj)\<^sup>+ \<Longrightarrow> x \<in> keys adj"
  by (meson edge_from_key tranclD)

text \<open>
  The number of steps a search may still enter, for the termination proofs: entering a step of
  the map lowers it, entering another step leaves it and leaves nothing to enter behind it.
\<close>

definition unseen :: "adjacency \<Rightarrow> string set \<Rightarrow> nat" where
  "unseen adj seen = card (keys adj - seen)"

lemma unseen_mono: "seen \<subseteq> seen' \<Longrightarrow> unseen adj seen' \<le> unseen adj seen"
  unfolding unseen_def by (rule card_mono) auto

lemma unseen_insert: "x \<in> keys adj \<Longrightarrow> x \<notin> seen \<Longrightarrow> unseen adj (insert x seen) < unseen adj seen"
  unfolding unseen_def by (rule psubset_card_mono) auto

lemma unseen_enter:
  assumes "x \<notin> seen"
  shows "((unseen adj (insert x seen), length (children adj x)), (unseen adj seen, Suc n)) \<in> less_than <*lex*> less_than"
proof (cases "x \<in> keys adj")
  case False
  then show ?thesis using unseen_mono[OF subset_insertI[of seen x], of adj] by (auto simp: order_le_less)
qed (use unseen_insert[OF _ assms] in auto)

lemma unseen_next:
  assumes "seen \<subseteq> seen'"
  shows "((unseen adj seen', n), (unseen adj seen, Suc n)) \<in> less_than <*lex*> less_than"
  using unseen_mono[OF assms, of adj] by auto

section \<open>Reachable steps\<close>

function collect_reachable :: "adjacency \<Rightarrow> string list \<Rightarrow> string set \<Rightarrow> string set" where
  "collect_reachable adj [] reachable = reachable"
| "collect_reachable adj (x # xs) reachable =
     (if x \<in> reachable then collect_reachable adj xs reachable
      else collect_reachable adj xs (collect_reachable adj (children adj x) (insert x reachable)))"
  by pat_completeness auto

termination
proof -
  have grows: "r \<subseteq> collect_reachable adj xs r" if "collect_reachable_dom (adj, xs, r)" for adj xs r
    using that by (induction adj xs r rule: collect_reachable.pinduct) (auto simp: collect_reachable.psimps)
  show ?thesis
  proof (relation "inv_image (less_than <*lex*> less_than) (\<lambda>(adj, xs, r). (unseen adj r, length xs))", goal_cases)
    case (4 adj x xs r)
    then have "r \<subseteq> collect_reachable adj (children adj x) (insert x r)" using grows by blast
    then show ?case using unseen_next by simp
  qed (auto simp: unseen_enter unseen_next[OF order_refl] simp del: in_lex_prod)
qed

lemma collect_reachable_grows: "r \<subseteq> collect_reachable adj xs r"
  by (induction adj xs r rule: collect_reachable.induct) auto

definition reachable_steps :: "string list \<Rightarrow> adjacency \<Rightarrow> string set" where
  "reachable_steps roots adj = collect_reachable adj roots {}"

text \<open>What the search adds is closed under successors, and nothing else is added.\<close>

lemma collect_reachable_closed:
  "set xs \<subseteq> collect_reachable adj xs r
     \<and> (\<forall>y \<in> collect_reachable adj xs r - r. set (children adj y) \<subseteq> collect_reachable adj xs r)"
proof (induction adj xs r rule: collect_reachable.induct)
  case (2 adj x xs r)
  show ?case
  proof (cases "x \<in> r")
    case True
    then show ?thesis using 2(1) collect_reachable_grows[of r adj xs] by auto
  next
    case False
    let ?r1 = "collect_reachable adj (children adj x) (insert x r)"
    let ?r2 = "collect_reachable adj xs ?r1"
    from 2(2)[OF False] have one: "set (children adj x) \<subseteq> ?r1"
      "\<forall>y \<in> ?r1 - insert x r. set (children adj y) \<subseteq> ?r1" by auto
    from 2(3)[OF False] have two: "set xs \<subseteq> ?r2" "\<forall>y \<in> ?r2 - ?r1. set (children adj y) \<subseteq> ?r2" by auto
    have grow: "insert x r \<subseteq> ?r1" "?r1 \<subseteq> ?r2" by (rule collect_reachable_grows)+
    have "set (children adj y) \<subseteq> ?r2" if "y \<in> ?r2 - r" for y
      using that one two grow by (cases "y \<in> ?r1"; cases "y = x") blast+
    then show ?thesis using False two(1) grow by auto
  qed
qed simp

lemma collect_reachable_sound: "collect_reachable adj xs r \<subseteq> r \<union> (edges adj)\<^sup>* `` set xs"
proof (induction adj xs r rule: collect_reachable.induct)
  case (2 adj x xs r)
  show ?case
  proof (cases "x \<in> r")
    case False
    have "(edges adj)\<^sup>* `` set (children adj x) \<subseteq> (edges adj)\<^sup>* `` {x}"
      by (auto intro: converse_rtrancl_into_rtrancl)
    moreover have "x \<in> (edges adj)\<^sup>* `` {x}" by simp
    ultimately have "collect_reachable adj (children adj x) (insert x r) \<subseteq> r \<union> (edges adj)\<^sup>* `` {x}"
      using 2(2)[OF False] by blast
    then show ?thesis using False 2(3)[OF False] by auto
  qed (use 2 in auto)
qed simp

lemma reachable_steps_rtrancl: "reachable_steps roots adj = (edges adj)\<^sup>* `` set roots"
proof (rule antisym)
  show "reachable_steps roots adj \<subseteq> (edges adj)\<^sup>* `` set roots"
    using collect_reachable_sound[of adj roots "{}"] by (simp add: reachable_steps_def)
  have closed: "y \<in> reachable_steps roots adj" if "(x, y) \<in> (edges adj)\<^sup>*" "x \<in> set roots" for x y
    using that
  proof (induction rule: rtrancl_induct)
    case (step y z)
    then show ?case
      using collect_reachable_closed[of roots adj "{}"] by (auto simp: reachable_steps_def)
  qed (use collect_reachable_closed[of roots adj "{}"] in \<open>auto simp: reachable_steps_def\<close>)
  then show "(edges adj)\<^sup>* `` set roots \<subseteq> reachable_steps roots adj" by auto
qed

section \<open>Cycles\<close>

text \<open>
  The result says whether a step was entered while its own search was open; \<open>visiting\<close> are the
  steps whose search is open and \<open>visited\<close> those whose search is over.  The loop ends at the
  first cycle, as the early \<open>return true\<close> and \<open>any\<close> do.
\<close>

function cycle_from ::
    "adjacency \<Rightarrow> string list \<Rightarrow> string set \<Rightarrow> string set \<Rightarrow> bool \<times> string set \<times> string set" where
  "cycle_from adj [] visiting visited = (False, visiting, visited)"
| "cycle_from adj (x # xs) visiting visited =
     (if x \<in> visited then cycle_from adj xs visiting visited
      else if x \<in> visiting then (True, visiting, visited)
      else (case cycle_from adj (children adj x) (insert x visiting) visited of
              (True, visiting', visited') \<Rightarrow> (True, visiting', visited')
            | (False, visiting', visited') \<Rightarrow>
                cycle_from adj xs (visiting' - {x}) (insert x visited')))"
  by pat_completeness auto

termination
proof -
  have grows: "cycle_from adj xs v d = (False, v', d') \<Longrightarrow> v \<union> d \<subseteq> v' \<union> d'" if "cycle_from_dom (adj, xs, v, d)"
    for adj xs v d v' d'
    using that
  proof (induction adj xs v d arbitrary: v' d' rule: cycle_from.pinduct)
    case (2 adj x xs v d)
    show ?case
    proof (cases "x \<in> d \<or> x \<in> v")
      case True
      then show ?thesis using 2 by (auto simp: cycle_from.psimps split: if_splits)
    next
      case False
      obtain b v1 d1 where inner: "cycle_from adj (children adj x) (insert x v) d = (b, v1, d1)"
        by (metis prod_cases3)
      with 2(1) 2(5) False have b: "\<not> b" "cycle_from adj xs (v1 - {x}) (insert x d1) = (False, v', d')"
        by (auto simp: cycle_from.psimps split: if_splits bool.splits)
      have "insert x v \<union> d \<subseteq> v1 \<union> d1" using 2(3) False inner b(1) by simp
      moreover have "(v1 - {x}) \<union> insert x d1 \<subseteq> v' \<union> d'"
        using 2(4) False inner b by simp
      ultimately show ?thesis by auto
    qed
  qed (simp add: cycle_from.psimps)
  show ?thesis
  proof (relation "inv_image (less_than <*lex*> less_than) (\<lambda>(adj, xs, v, d). (unseen adj (v \<union> d), length xs))", goal_cases)
    case (3 adj x xs v d)
    then show ?case using unseen_enter[of x "v \<union> d" adj] by simp
  next
    case (4 adj x xs v d b p v' d')
    then have "cycle_from adj (children adj x) (insert x v) d = (False, v', d')" by simp
    then have "insert x v \<union> d \<subseteq> v' \<union> d'" using grows 4 by blast
    then have "v \<union> d \<subseteq> (v' - {x}) \<union> insert x d'" by auto
    then show ?case using unseen_next by simp
  qed (auto simp: unseen_next[OF order_refl] simp del: in_lex_prod)
qed

definition graph_has_cycle :: "adjacency \<Rightarrow> bool" where
  "graph_has_cycle adj = fst (cycle_from adj (map fst adj) {} {})"

lemma cycle_from_restores:
  "cycle_from adj xs v d = (False, v', d') \<Longrightarrow> v \<inter> d = {} \<Longrightarrow>
     v' = v \<and> d \<subseteq> d' \<and> v' \<inter> d' = {} \<and> set xs \<subseteq> d'"
proof (induction adj xs v d arbitrary: v' d' rule: cycle_from.induct)
  case (2 adj x xs v d)
  show ?case
  proof (cases "x \<in> d")
    case True
    then show ?thesis using 2 by auto
  next
    case False
    obtain b v1 d1 where inner: "cycle_from adj (children adj x) (insert x v) d = (b, v1, d1)"
      by (metis prod_cases3)
    with 2(4) False have b: "\<not> b" "x \<notin> v" "cycle_from adj xs (v1 - {x}) (insert x d1) = (False, v', d')"
      by (auto split: if_splits bool.splits)
    have one: "v1 = insert x v \<and> d \<subseteq> d1 \<and> v1 \<inter> d1 = {}"
      using 2(2)[OF False b(2), of v1 d1] inner b 2(5) False by auto
    have "v' = v1 - {x} \<and> insert x d1 \<subseteq> d' \<and> v' \<inter> d' = {} \<and> set xs \<subseteq> d'"
      using 2(3)[OF False b(2) inner[symmetric] _ refl, of v' d'] b one by auto
    then show ?thesis using one b(2) by auto
  qed
qed simp

text \<open>No cycle found: the finished steps are closed under successors and lie on no cycle.\<close>

definition finished :: "adjacency \<Rightarrow> string set \<Rightarrow> bool" where
  "finished adj d \<longleftrightarrow> (\<forall>y \<in> d. set (children adj y) \<subseteq> d \<and> (y, y) \<notin> (edges adj)\<^sup>+)"

lemma finished_trancl: "finished adj d \<Longrightarrow> (y, z) \<in> (edges adj)\<^sup>+ \<Longrightarrow> y \<in> d \<Longrightarrow> z \<in> d"
  by (rotate_tac 1, induction rule: trancl_induct) (auto simp: finished_def)

lemma finished_insert:
  assumes fin: "finished adj d" and sub: "set (children adj x) \<subseteq> d" and new: "x \<notin> d"
  shows "finished adj (insert x d)"
proof -
  have "(x, x) \<notin> (edges adj)\<^sup>+"
  proof
    assume "(x, x) \<in> (edges adj)\<^sup>+"
    then obtain y where "(x, y) \<in> edges adj" "(y, x) \<in> (edges adj)\<^sup>*" by (meson tranclD)
    then have "y \<in> d" "y \<noteq> x" using sub new by auto
    with \<open>(y, x) \<in> (edges adj)\<^sup>*\<close> have "x \<in> d"
      using finished_trancl[OF fin] by (meson rtranclD)
    with new show False by simp
  qed
  then show ?thesis using fin sub by (auto simp: finished_def)
qed

lemma cycle_from_finished:
  "cycle_from adj xs v d = (False, v', d') \<Longrightarrow> v \<inter> d = {} \<Longrightarrow> finished adj d \<Longrightarrow> finished adj d'"
proof (induction adj xs v d arbitrary: v' d' rule: cycle_from.induct)
  case (2 adj x xs v d)
  show ?case
  proof (cases "x \<in> d")
    case True
    then show ?thesis using 2 by auto
  next
    case False
    obtain b v1 d1 where inner: "cycle_from adj (children adj x) (insert x v) d = (b, v1, d1)"
      by (metis prod_cases3)
    with 2(4) False have b: "\<not> b" "x \<notin> v" "cycle_from adj xs (v1 - {x}) (insert x d1) = (False, v', d')"
      by (auto split: if_splits bool.splits)
    have r: "v1 = insert x v \<and> d \<subseteq> d1 \<and> v1 \<inter> d1 = {} \<and> set (children adj x) \<subseteq> d1"
      using cycle_from_restores[of adj "children adj x" "insert x v" d v1 d1] inner b 2(5) False by auto
    have "finished adj d1"
      using 2(2)[OF False b(2), of v1 d1] inner b(1) 2(5,6) False by simp
    then have "finished adj (insert x d1)" using r by (intro finished_insert) auto
    then show ?thesis
      using 2(3)[OF False b(2) inner[symmetric]] inner b r by auto
  qed
qed simp

text \<open>A cycle reported: every open step leads to the step entered again.\<close>

lemma cycle_from_sound:
  "cycle_from adj xs v d = (True, v', d') \<Longrightarrow> v \<inter> d = {} \<Longrightarrow>
     (\<And>u y. u \<in> v \<Longrightarrow> y \<in> set xs \<Longrightarrow> (u, y) \<in> (edges adj)\<^sup>+) \<Longrightarrow> \<exists>y. (y, y) \<in> (edges adj)\<^sup>+"
proof (induction adj xs v d arbitrary: v' d' rule: cycle_from.induct)
  case (2 adj x xs v d)
  consider "x \<in> d" | "x \<notin> d" "x \<in> v" | "x \<notin> d" "x \<notin> v" by blast
  then show ?case
  proof cases
    case 1
    then show ?thesis using 2(1)[OF 1, of v' d'] 2(4-6) by auto
  next
    case 2
    then show ?thesis using "2.prems"(3)[of x x] by auto
  next
    case 3
    obtain b v1 d1 where inner: "cycle_from adj (children adj x) (insert x v) d = (b, v1, d1)"
      by (metis prod_cases3)
    show ?thesis
    proof (cases b)
      case True
      have "(u, y) \<in> (edges adj)\<^sup>+" if "u \<in> insert x v" "y \<in> set (children adj x)" for u y
        using that "2.prems"(3)[of u x] by (auto intro: trancl_into_trancl)
      with True show ?thesis using 2(2)[OF 3, of v1 d1] inner "2.prems"(2) 3 by simp
    next
      case False
      with inner "2.prems"(1) 3 have rest: "cycle_from adj xs (v1 - {x}) (insert x d1) = (True, v', d')"
        by simp
      have r: "v1 = insert x v \<and> v1 \<inter> d1 = {}"
        using cycle_from_restores[of adj "children adj x" "insert x v" d v1 d1] inner False "2.prems"(2) 3 by auto
      then have v: "v1 - {x} = v" using 3 by auto
      show ?thesis
        using 2(3)[OF 3 inner[symmetric]] inner False rest r v "2.prems"(3) by auto
    qed
  qed
qed simp

lemma graph_has_cycle_iff: "graph_has_cycle adj \<longleftrightarrow> \<not> acyclic (edges adj)"
proof -
  obtain b v d where run: "cycle_from adj (map fst adj) {} {} = (b, v, d)" by (metis prod_cases3)
  show ?thesis
  proof (cases b)
    case True
    then show ?thesis
      using run cycle_from_sound[of adj "map fst adj" "{}" "{}" v d] by (auto simp: graph_has_cycle_def acyclic_def)
  next
    case False
    then have "finished adj d" "keys adj \<subseteq> d"
      using run cycle_from_finished[of adj "map fst adj" "{}" "{}" v d]
        cycle_from_restores[of adj "map fst adj" "{}" "{}" v d] by (auto simp: finished_def keys_def)
    then have "acyclic (edges adj)"
      by (auto simp: acyclic_def finished_def dest: trancl_from_key)
    with run False show ?thesis by (simp add: graph_has_cycle_def)
  qed
qed

section \<open>The plan\<close>

text \<open>\<open>planned\<close> lists the steps in the order in which they are entered.\<close>

function collect_planned_steps ::
    "adjacency \<Rightarrow> string list \<Rightarrow> string set \<times> string list \<Rightarrow> string set \<times> string list" where
  "collect_planned_steps adj [] (visited, planned) = (visited, planned)"
| "collect_planned_steps adj (x # xs) (visited, planned) =
     (if x \<in> visited then collect_planned_steps adj xs (visited, planned)
      else collect_planned_steps adj xs
             (collect_planned_steps adj (children adj x) (insert x visited, planned @ [x])))"
  by pat_completeness auto

termination
proof -
  have grows: "fst s \<subseteq> fst (collect_planned_steps adj xs s)" if "collect_planned_steps_dom (adj, xs, s)" for adj xs s
    using that by (induction adj xs s rule: collect_planned_steps.pinduct) (auto simp: collect_planned_steps.psimps)
  show ?thesis
  proof (relation "inv_image (less_than <*lex*> less_than) (\<lambda>(adj, xs, v, p). (unseen adj v, length xs))", goal_cases)
    case (4 adj x xs v p)
    obtain v' p' where run: "collect_planned_steps adj (children adj x) (insert x v, p @ [x]) = (v', p')"
      by (metis surj_pair)
    then have "insert x v \<subseteq> v'" using grows[OF 4(2)] by simp
    then have "v \<subseteq> v'" by simp
    then show ?case using unseen_next run by simp
  qed (auto simp: unseen_enter unseen_next[OF order_refl] simp del: in_lex_prod)
qed

text \<open>The steps left over by the searches from the roots, in their own order.\<close>

fun plan_rest :: "string list \<Rightarrow> string set \<times> string list \<Rightarrow> string set \<times> string list" where
  "plan_rest [] (visited, planned) = (visited, planned)"
| "plan_rest (x # xs) (visited, planned) =
     (if x \<in> visited then plan_rest xs (visited, planned)
      else plan_rest xs (insert x visited, planned @ [x]))"

definition plan_from :: "adjacency \<Rightarrow> string list \<Rightarrow> string list \<Rightarrow> string list" where
  "plan_from adj roots ids = snd (plan_rest ids (collect_planned_steps adj roots ({}, [])))"

definition plan_ok :: "string set \<times> string list \<Rightarrow> bool" where
  "plan_ok s \<longleftrightarrow> distinct (snd s) \<and> set (snd s) = fst s"

lemma plan_ok_push: "plan_ok (v, p) \<Longrightarrow> x \<notin> v \<Longrightarrow> plan_ok (insert x v, p @ [x])"
  by (auto simp: plan_ok_def)

lemma collect_planned_ok: "plan_ok s \<Longrightarrow> plan_ok (collect_planned_steps adj xs s)"
  by (induction adj xs s rule: collect_planned_steps.induct) (auto simp: plan_ok_push)

lemma plan_rest_ok: "plan_ok s \<Longrightarrow> plan_ok (plan_rest xs s) \<and> fst (plan_rest xs s) = fst s \<union> set xs"
  by (induction xs s rule: plan_rest.induct) (auto simp: plan_ok_push)

text \<open>The plan visits what the reachability search visits.\<close>

lemma collect_planned_reachable: "fst (collect_planned_steps adj xs (v, p)) = collect_reachable adj xs v"
proof (induction adj xs v arbitrary: p rule: collect_reachable.induct)
  case (2 adj x xs v)
  obtain v' p' where run: "collect_planned_steps adj (children adj x) (insert x v, p @ [x]) = (v', p')"
    by (metis surj_pair)
  show ?case using 2(1)[of p] 2(2)[of "p @ [x]"] 2(3)[of p'] run by auto
qed simp

text \<open>
  Except for the first steps of a search and the steps left over, a step is entered after one of
  the steps that lead to it.
\<close>

definition led_to :: "adjacency \<Rightarrow> string set \<Rightarrow> string list \<Rightarrow> bool" where
  "led_to adj starts p \<longleftrightarrow>
     (\<forall>i < length p. p ! i \<in> starts \<or> (\<exists>j < i. (p ! j, p ! i) \<in> edges adj))"

lemma led_to_push:
  assumes "led_to adj starts p" "x \<in> starts \<or> (\<exists>y \<in> set p. (y, x) \<in> edges adj)"
  shows "led_to adj starts (p @ [x])"
  unfolding led_to_def
proof (intro allI impI)
  fix i
  assume i: "i < length (p @ [x])"
  show "(p @ [x]) ! i \<in> starts \<or> (\<exists>j < i. ((p @ [x]) ! j, (p @ [x]) ! i) \<in> edges adj)"
  proof (cases "i < length p")
    case True
    then have old: "p ! i \<in> starts \<or> (\<exists>j < i. (p ! j, p ! i) \<in> edges adj)"
      using assms(1) unfolding led_to_def by blast
    have "(p @ [x]) ! k = p ! k" if "k \<le> i" for k using True that by (simp add: nth_append)
    with old show ?thesis by (metis order.strict_implies_order order_refl)
  next
    case False
    with i have "i = length p" by simp
    then show ?thesis using assms(2) by (fastforce simp: in_set_conv_nth nth_append)
  qed
qed

lemma collect_planned_led_to:
  "led_to adj starts (snd s) \<Longrightarrow> (\<forall>x \<in> set xs. x \<in> starts \<or> (\<exists>y \<in> set (snd s). (y, x) \<in> edges adj)) \<Longrightarrow>
     led_to adj starts (snd (collect_planned_steps adj xs s)) \<and> set (snd s) \<subseteq> set (snd (collect_planned_steps adj xs s))"
proof (induction adj xs s rule: collect_planned_steps.induct)
  case (2 adj x xs v p)
  show ?case
  proof (cases "x \<in> v")
    case False
    obtain v' p' where run: "collect_planned_steps adj (children adj x) (insert x v, p @ [x]) = (v', p')"
      by (metis surj_pair)
    have "led_to adj starts (p @ [x])" using 2(4,5) by (intro led_to_push) auto
    then have one: "led_to adj starts p' \<and> set (p @ [x]) \<subseteq> set p'"
      using 2(2)[OF False] run by simp
    have "led_to adj starts (snd (collect_planned_steps adj xs (v', p')))
        \<and> set p' \<subseteq> set (snd (collect_planned_steps adj xs (v', p')))"
      using 2(3)[OF False] run one 2(5) by fastforce
    then show ?thesis using one run False by auto
  qed (use 2 in auto)
qed simp

lemma plan_rest_led_to:
  "led_to adj starts (snd s) \<Longrightarrow> set xs - fst s \<subseteq> starts \<Longrightarrow> led_to adj starts (snd (plan_rest xs s))"
  by (induction xs s rule: plan_rest.induct) (auto simp: subset_iff intro!: led_to_push)

section \<open>The longest path\<close>

text \<open>
  \<open>active_path\<close> holds the steps on the path walked so far; the code removes a step again when it
  leaves it, so each call sees the set of its caller.  The lengths are \<open>u16\<close>.
\<close>

definition max_or_zero :: "int list \<Rightarrow> int" where
  "max_or_zero xs = foldr max xs 0"

function longest_path_from :: "adjacency \<Rightarrow> string \<Rightarrow> string set \<Rightarrow> int" where
  "longest_path_from adj x active_path =
     (if x \<in> active_path then 0
      else (1 + max_or_zero (map (\<lambda>next_id. longest_path_from adj next_id (insert x active_path))
                               (children adj x))) mod 65536)"
  by pat_completeness auto
termination
proof (relation "measure (\<lambda>(adj, x, active_path). unseen adj active_path)")
  fix adj x n and active :: "string set"
  assume "x \<notin> active" "n \<in> set (children adj x)"
  then show "((adj, n, insert x active), (adj, x, active)) \<in> measure (\<lambda>(adj, x, active_path). unseen adj active_path)"
    using edge_from_key[of x n adj] by (simp add: unseen_insert)
qed simp

declare longest_path_from.simps [simp del]

section \<open>Counting\<close>

text \<open>The counters are \<open>u16\<close>.\<close>

definition as_u16 :: "nat \<Rightarrow> int" where
  "as_u16 n = int n mod 65536"

definition u16_inc :: "int \<Rightarrow> int" where
  "u16_inc c = (c + 1) mod 65536"

definition count_incoming :: "(string \<times> int) list \<Rightarrow> string \<Rightarrow> (string \<times> int) list" where
  "count_incoming counts next_id =
     (case bt_get next_id counts of
        Some count \<Rightarrow> bt_insert next_id (u16_inc count) counts
      | None \<Rightarrow> counts)"

definition incoming_counts :: "adjacency \<Rightarrow> (string \<times> int) list" where
  "incoming_counts adj =
     foldl (foldl count_incoming) (map (\<lambda>(id, _). (id, 0)) adj) (map snd adj)"

definition load_counts :: "string list \<Rightarrow> (string \<times> int) list" where
  "load_counts values' = foldl (bt_upd (\<lambda>v. v) (\<lambda>_. 0) (\<lambda>_. u16_inc)) [] values'"

lemma count_incoming_get:
  "bt_ok m \<Longrightarrow> bt_ok (count_incoming m y)
     \<and> bt_get x (count_incoming m y) = (if x = y then map_option u16_inc (bt_get x m) else bt_get x m)"
  by (auto simp: count_incoming_def bt_get_insert split: option.split)

lemma count_incoming_fold:
  "bt_ok m \<Longrightarrow> x \<notin> set ys \<Longrightarrow> bt_ok (foldl count_incoming m ys) \<and> bt_get x (foldl count_incoming m ys) = bt_get x m"
  by (induction ys arbitrary: m) (auto simp: count_incoming_get)

lemma count_incoming_fold_ok: "bt_ok m \<Longrightarrow> bt_ok (foldl count_incoming m ys)"
  by (induction ys arbitrary: m) (auto simp: count_incoming_get)

lemma incoming_fold:
  "bt_ok m \<Longrightarrow> \<forall>ys \<in> set yss. x \<notin> set ys \<Longrightarrow> bt_get x (foldl (foldl count_incoming) m yss) = bt_get x m"
  by (induction yss arbitrary: m) (auto simp: count_incoming_fold)

text \<open>A step that no step leads to counts no incoming edge.\<close>

lemma no_incoming:
  assumes ok: "bt_ok adj" and none: "\<forall>y. (y, x) \<notin> edges adj"
  shows "unwrap_or 0 (bt_get x (incoming_counts adj)) = 0"
proof -
  have "bt_ok (map (\<lambda>(id, _). (id, 0::int)) adj)" using ok by (simp add: bt_ok_def o_def case_prod_beta)
  moreover have "x \<notin> set ys" if "(y, ys) \<in> set adj" for y ys
  proof -
    have "children adj y = ys"
      using that bt.entries_get[OF ok, of y ys] by (simp add: children_def)
    then show ?thesis using none by auto
  qed
  ultimately have "bt_get x (incoming_counts adj) = bt_get x (map (\<lambda>(id, _). (id, 0::int)) adj)"
    unfolding incoming_counts_def by (intro incoming_fold) auto
  also have "\<dots> \<in> {None, Some 0}"
    by (cases "map_of (map (\<lambda>(id, _). (id, 0::int)) adj) x") (auto simp: bt_get_def dest: map_of_SomeD)
  finally show ?thesis by auto
qed

section \<open>The graph of a list of steps\<close>

text \<open>The steps as pairs of an id and its next ids; next ids that name no step are left out.\<close>

definition adjacency_of :: "(string \<times> string list) list \<Rightarrow> adjacency" where
  "adjacency_of nodes =
     (let step_ids = set (map fst nodes)
      in bt_collect (map (\<lambda>(id, next_ids). (id, filter (\<lambda>n. n \<in> step_ids) next_ids)) nodes))"

definition root_ids :: "(string \<times> string list) list \<Rightarrow> string list" where
  "root_ids nodes =
     (let incoming = incoming_counts (adjacency_of nodes)
      in filter (\<lambda>id. unwrap_or 0 (bt_get id incoming) = 0) (map fst nodes))"

definition planned_ids :: "(string \<times> string list) list \<Rightarrow> string list" where
  "planned_ids nodes = plan_from (adjacency_of nodes) (root_ids nodes) (map fst nodes)"

definition disconnected_ids :: "(string \<times> string list) list \<Rightarrow> string list" where
  "disconnected_ids nodes =
     filter (\<lambda>id. id \<notin> reachable_steps (root_ids nodes) (adjacency_of nodes)) (map fst nodes)"

lemma adjacency_of_ok [simp]: "bt_ok (adjacency_of nodes)"
  by (simp add: adjacency_of_def Let_def)

lemma adjacency_of_keys: "keys (adjacency_of nodes) = fst ` set nodes"
proof -
  have "x \<in> keys (adjacency_of nodes) \<longleftrightarrow> bt_get x (adjacency_of nodes) \<noteq> None" for x
    by (simp add: keys_def bt_get_def map_of_eq_None_iff del: not_None_eq)
  also have "\<dots> x \<longleftrightarrow> x \<in> fst ` set nodes" for x
    by (simp add: adjacency_of_def Let_def bt_collect_rev map_of_eq_None_iff image_image case_prod_beta
        del: not_None_eq)
  finally show ?thesis by blast
qed

lemma adjacency_of_children: "set (children (adjacency_of nodes) x) \<subseteq> fst ` set nodes"
proof (cases "bt_get x (adjacency_of nodes)")
  case (Some ns)
  then have "(x, ns) \<in> set (map (\<lambda>(id, ns). (id, filter (\<lambda>n. n \<in> fst ` set nodes) ns)) nodes)"
    using map_of_SomeD[of "rev (map (\<lambda>(id, ns). (id, filter (\<lambda>n. n \<in> fst ` set nodes) ns)) nodes)" x ns]
    by (simp add: adjacency_of_def Let_def bt_collect_rev)
  then have "set ns \<subseteq> fst ` set nodes" by auto
  with Some show ?thesis by (simp add: children_def)
qed (simp add: children_def)

lemma adjacency_of_children_distinct:
  assumes "distinct (map fst nodes)" "(x, ns) \<in> set nodes"
  shows "children (adjacency_of nodes) x = filter (\<lambda>n. n \<in> fst ` set nodes) ns"
  using assms
  by (simp add: adjacency_of_def Let_def children_def bt_collect_distinct case_prod_beta o_def
      map_of_eq_Some_iff[THEN iffD2] map_of_map[of "\<lambda>ns. filter (\<lambda>n. n \<in> fst ` set nodes) ns"])

text \<open>Without a cycle every step is reachable from a root.\<close>

lemma acyclic_connected:
  assumes "acyclic (edges (adjacency_of nodes))" "x \<in> fst ` set nodes"
  shows "x \<in> reachable_steps (root_ids nodes) (adjacency_of nodes)"
proof -
  let ?E = "edges (adjacency_of nodes)"
  have "?E \<subseteq> keys (adjacency_of nodes) \<times> fst ` set nodes"
    using edge_from_key adjacency_of_children by (auto simp del: edge_iff) (auto simp: subset_iff)
  then have "finite ?E" by (rule finite_subset) simp
  then have "wf ?E" using assms(1) by (rule finite_acyclic_wf)
  then show ?thesis using assms(2)
  proof (induction x rule: wf_induct_rule)
    case (less x)
    show ?case
    proof (cases "\<exists>y. (y, x) \<in> ?E")
      case True
      then obtain y where y: "(y, x) \<in> ?E" by blast
      then have "y \<in> fst ` set nodes"
        using edge_from_key[OF y] by (simp add: adjacency_of_keys)
      then have "y \<in> ?E\<^sup>* `` set (root_ids nodes)" using less(1)[OF y] by (simp add: reachable_steps_rtrancl)
      then show ?thesis using y by (auto simp: reachable_steps_rtrancl simp del: edge_iff intro: rtrancl_into_rtrancl)
    next
      case False
      then have "x \<in> set (root_ids nodes)"
        using no_incoming[of "adjacency_of nodes" x] less(2) by (auto simp: root_ids_def)
      then show ?thesis by (auto simp: reachable_steps_rtrancl)
    qed
  qed
qed

end
