(* ===== verification/Workflow_Template_Types.thy ===== *)
theory Workflow_Template_Types
  imports Workflow_Graph Archive_Mapping "HOL-Library.Product_Lexorder"
begin

text \<open>
  The data of the workflow template store
  (\<open>crates/payroll-api/src/bin/workflow_template_store.rs\<close>): its records, the allowed values, the
  cleaning of every text an editor sends, the built-in steps with their controls, and the order in
  which steps are kept.  Maps are \<open>BTreeMap\<close>s; \<open>u16\<close> fields hold integers from 0 to 65535.
\<close>

section \<open>Records\<close>

record workflow_step_override =
  ws_id :: string
  ws_title :: "string option"
  ws_action :: "string option"
  ws_owner :: string
  ws_status :: string
  ws_tone :: string
  ws_lane :: string
  ws_node_type :: string
  ws_position_x :: int
  ws_position_y :: int
  ws_next_step_ids :: "string list"
  ws_slo_minutes :: "int option"
  ws_escalation_role :: "string option"
  ws_condition_expression :: "(string \<times> string) list"
  ws_permission_scope :: "(string \<times> string) list"
  ws_enabled :: bool
  ws_updated_at_unix :: u64

record workflow_template =
  wt_id :: string
  wt_version :: nat
  wt_title_key :: string
  wt_steps :: "workflow_step_override list"
  wt_updated_at_unix :: u64

record workflow_template_version_record =
  wtv_id :: string
  wtv_template_id :: string
  wtv_version :: nat
  wtv_graph_hash :: string
  wtv_change_summary :: string
  wtv_actor_role :: string
  wtv_created_at_unix :: u64
  wtv_rollback_of_version :: "nat option"
  wtv_steps :: "workflow_step_override list"

record workflow_audit_event =
  wae_id :: string
  wae_template_id :: string
  wae_step_id :: string
  wae_action :: string
  wae_actor_role :: string
  wae_updated_at_unix :: u64

record workflow_data_operation =
  wdo_id :: string
  wdo_operation_type :: string
  wdo_target :: string
  wdo_status :: string
  wdo_record_count :: int
  wdo_metadata :: "(string \<times> string) list"

record workflow_runtime_event =
  wre_id :: string
  wre_template_id :: string
  wre_step_id :: string
  wre_action :: string
  wre_actor_role :: string
  wre_affected_step_ids :: "string list"
  wre_data_operations :: "workflow_data_operation list"
  wre_status_before :: string
  wre_status_after :: string
  wre_updated_at_unix :: u64

record workflow_data_record =
  wdr_id :: string
  wdr_template_id :: string
  wdr_step_id :: string
  wdr_record_type :: string
  wdr_target :: string
  wdr_status :: string
  wdr_record_count :: int
  wdr_metadata :: "(string \<times> string) list"
  wdr_updated_at_unix :: u64

record workflow_load =
  wl_key :: string
  wl_count :: int

record workflow_validation_issue =
  wvi_code :: string
  wvi_step_id :: "string option"
  wvi_severity :: string

record workflow_template_analytics =
  wta_template_id :: string
  wta_step_count :: int
  wta_edge_count :: int
  wta_branch_count :: int
  wta_blocked_count :: int
  wta_waiting_count :: int
  wta_completed_count :: int
  wta_disconnected_step_ids :: "string list"
  wta_cycle_detected :: bool
  wta_longest_path_steps :: int
  wta_owner_loads :: "workflow_load list"
  wta_lane_loads :: "workflow_load list"
  wta_validation_issues :: "workflow_validation_issue list"

record workflow_template_store =
  wts_schema :: string
  wts_templates :: "workflow_template list"
  wts_template_versions :: "workflow_template_version_record list"
  wts_analytics :: "workflow_template_analytics list"
  wts_audit_events :: "workflow_audit_event list"
  wts_runtime_events :: "workflow_runtime_event list"
  wts_data_records :: "workflow_data_record list"

record workflow_step_input =
  wsi_id :: "string option"
  wsi_title :: "string option"
  wsi_action :: "string option"
  wsi_owner :: "string option"
  wsi_status :: "string option"
  wsi_tone :: "string option"
  wsi_lane :: "string option"
  wsi_node_type :: "string option"
  wsi_position_x :: "int option"
  wsi_position_y :: "int option"
  wsi_next_step_ids :: "string list option"
  wsi_after_step_id :: "string option"
  wsi_enabled :: "bool option"
  wsi_slo_minutes :: "int option"
  wsi_escalation_role :: "string option"
  wsi_condition_expression :: "(string \<times> string) list option"
  wsi_permission_scope :: "(string \<times> string) list option"
  wsi_actor_role :: "string option"
  wsi_scope_tenant :: "string option"
  wsi_scope_workplace :: "string option"
  wsi_scope_period :: "string option"

section \<open>Allowed values\<close>

definition max_position :: int where
  "max_position = 100"

definition max_label_len :: nat where
  "max_label_len = 120"

definition max_action_len :: nat where
  "max_action_len = 240"

definition max_metadata_key_len :: nat where
  "max_metadata_key_len = 40"

definition max_metadata_value_len :: nat where
  "max_metadata_value_len = 180"

definition max_slo_minutes :: int where
  "max_slo_minutes = 10080"

definition default_template_id :: string where
  "default_template_id = ''payroll-close''"

definition allowed_statuses :: "string list" where
  "allowed_statuses = [''blocked'', ''completed'', ''needs_attention'', ''ready'', ''waiting'']"

definition allowed_tones :: "string list" where
  "allowed_tones = [''blocked'', ''ready'', ''attention'', ''neutral'']"

definition allowed_lanes :: "string list" where
  "allowed_lanes = [''source'', ''rule'', ''operation'', ''approval'', ''record'']"

definition allowed_node_types :: "string list" where
  "allowed_node_types = [''trigger'', ''condition'', ''action'', ''approval'', ''record'']"

definition allowed_owners :: "string list" where
  "allowed_owners =
     [''hr_operator'', ''hr_manager'', ''payroll_operator'', ''payroll_manager'', ''approval_signer'',
      ''archive_operator'', ''it_security_admin'', ''platform_owner'']"

definition tone_for_status :: "string \<Rightarrow> string" where
  "tone_for_status status =
     (if status = ''blocked'' then ''blocked''
      else if status = ''completed'' \<or> status = ''ready'' then ''ready''
      else if status = ''waiting'' then ''neutral''
      else ''attention'')"

section \<open>Cleaning\<close>

text \<open>\<open>map(f).transpose()?\<close> on an option.\<close>

definition opt_try :: "('a \<Rightarrow> 'e + 'b) \<Rightarrow> 'a option \<Rightarrow> 'e + 'b option" where
  "opt_try f x = (case x of None \<Rightarrow> Inr None | Some v \<Rightarrow> result_bind (f v) (\<lambda>w. Inr (Some w)))"

definition clean_non_empty :: "string \<Rightarrow> string \<Rightarrow> string + string" where
  "clean_non_empty v name =
     (let cleaned = replace_chars ''-'' (CHR ''_'') (to_ascii_lowercase (trim v)) in
      if cleaned = [] then Inl (''missing workflow '' @ name) else Inr cleaned)"

definition allowed_value :: "string \<Rightarrow> string \<Rightarrow> string list \<Rightarrow> string + string" where
  "allowed_value v name allowed =
     result_bind (clean_non_empty v name) (\<lambda>cleaned.
     if cleaned \<in> set allowed then Inr cleaned
     else Inl (''unsupported workflow '' @ name @ '': '' @ cleaned))"

text \<open>
  The words of a key: every character that is not an ASCII letter or digit separates them.  (A
  character of several bytes becomes several separators instead of one; empty words are dropped.)
\<close>

definition key_words :: "char \<Rightarrow> string \<Rightarrow> string" where
  "key_words sep v =
     join_with [sep] (filter (\<lambda>part. part \<noteq> [])
       (split_on sep (map (\<lambda>c. if ascii_alphanumeric c then c else sep) (to_ascii_lowercase (trim v)))))"

definition clean_step_id :: "string \<Rightarrow> string \<Rightarrow> string + string" where
  "clean_step_id v name =
     (let cleaned = key_words (CHR ''-'') v in
      if cleaned = [] then Inl (''missing workflow '' @ name) else Inr cleaned)"

definition clean_template_key :: "string \<Rightarrow> string \<Rightarrow> string + string" where
  "clean_template_key v name = clean_step_id v name"

text \<open>\<open>split_whitespace\<close>: the words of a text, with the word being read as an accumulator.\<close>

function split_words :: "string \<Rightarrow> string \<Rightarrow> string list" where
  "split_words word [] = (if word = [] then [] else [word])"
| "split_words word (c # s) =
     (if ws_len (c # s) > 0
      then (if word = [] then [] else [word]) @ split_words [] (drop (ws_len (c # s)) (c # s))
      else split_words (word @ [c]) s)"
  by pat_completeness auto
termination
  by (relation "measure (length \<circ> snd)") auto

definition clean_label :: "string \<Rightarrow> string \<Rightarrow> nat \<Rightarrow> string + string" where
  "clean_label v name max_len =
     (let cleaned = join_with '' '' (split_words [] v) in
      if cleaned = [] then Inl (''missing workflow '' @ name)
      else if char_count cleaned > max_len then Inl (''workflow '' @ name @ '' is too long'')
      else Inr cleaned)"

definition clean_label_required :: "string option \<Rightarrow> string \<Rightarrow> nat \<Rightarrow> string + string" where
  "clean_label_required v name max_len =
     (case v of
        None \<Rightarrow> Inl (''missing workflow '' @ name)
      | Some v \<Rightarrow> clean_label v name max_len)"

definition clean_optional_metadata :: "string option \<Rightarrow> string \<Rightarrow> string + string option" where
  "clean_optional_metadata v name = opt_try (\<lambda>v. clean_label v name max_label_len) v"

definition clean_metadata_key :: "string \<Rightarrow> string \<Rightarrow> string + string" where
  "clean_metadata_key v name =
     (let cleaned = key_words (CHR ''_'') v in
      if cleaned = [] then Inl (''missing workflow '' @ name @ '' key'')
      else if char_count cleaned > max_metadata_key_len then Inl (''workflow '' @ name @ '' key is too long'')
      else Inr cleaned)"

definition clean_metadata_map :: "(string \<times> string) list \<Rightarrow> string \<Rightarrow> string + (string \<times> string) list" where
  "clean_metadata_map values' name =
     try_fold (\<lambda>cleaned (k, v).
       result_bind (clean_metadata_key k name) (\<lambda>k.
       result_bind (clean_label v name max_metadata_value_len) (\<lambda>v.
       Inr (bt_insert k v cleaned)))) [] values'"

definition validate_position :: "int \<Rightarrow> string \<Rightarrow> string + int" where
  "validate_position v name =
     (if v > max_position
      then Inl (''workflow '' @ name @ '' must be between 0 and '' @ show_int max_position)
      else Inr v)"

definition validate_slo_minutes :: "int \<Rightarrow> string + int" where
  "validate_slo_minutes v =
     (if v = 0 \<or> v > max_slo_minutes
      then Inl (''workflow slo_minutes must be between 1 and '' @ show_int max_slo_minutes)
      else Inr v)"

definition clean_next_id ::
    "string \<Rightarrow> string set \<Rightarrow> string list \<Rightarrow> string \<Rightarrow> string + string list" where
  "clean_next_id step_id step_ids cleaned v =
     result_bind (clean_step_id v ''next_step_id'') (\<lambda>id.
     if id = step_id then Inl ''workflow step cannot connect to itself''
     else if id \<notin> step_ids then Inl (''workflow next step not found: '' @ id)
     else Inr (if id \<in> set cleaned then cleaned else cleaned @ [id]))"

definition clean_existing_next_ids :: "string list \<Rightarrow> string \<Rightarrow> string set \<Rightarrow> string + string list" where
  "clean_existing_next_ids values' step_id step_ids =
     try_fold (clean_next_id step_id step_ids) [] values'"

definition clean_next_step_ids ::
    "string list \<Rightarrow> string \<Rightarrow> workflow_step_override list \<Rightarrow> string + string list" where
  "clean_next_step_ids values' step_id steps =
     clean_existing_next_ids values' step_id (set (map ws_id steps))"

end
