(* ===== verification/Workflow_Template_Steps.thy ===== *)
theory Workflow_Template_Steps
  imports Workflow_Template_Types
begin

text \<open>
  The steps of a workflow template
  (\<open>crates/payroll-api/src/bin/workflow_template_store.rs\<close>): the built-in payroll-close steps and
  the controls filled in for them, positions and order, the wiring of a template without edges, and
  the validation of stored steps.  A step is hashed as the JSON text \<open>serde\<close> writes for it, its
  fields in the order of the struct.  The SHA-256 function is a parameter.
\<close>

section \<open>Built-in steps\<close>

definition default_step_rank :: "string \<Rightarrow> int" where
  "default_step_rank sid =
     (if sid = ''set-payroll-scope'' then 0
      else if sid = ''configure-access'' then 1
      else if sid = ''close-attendance'' then 2
      else if sid = ''close-payroll-inputs'' then 3
      else if sid = ''review-deductions'' then 4
      else if sid = ''run-calculation'' then 5
      else if sid = ''request-approval'' then 6
      else if sid = ''prepare-payout'' then 7
      else if sid = ''archive-payroll-evidence'' then 8
      else 99)"

definition default_slo_minutes :: "string \<Rightarrow> int option" where
  "default_slo_minutes sid =
     (if sid = ''set-payroll-scope'' then Some 180
      else if sid = ''configure-access'' then Some 180
      else if sid = ''close-attendance'' then Some 240
      else if sid = ''close-payroll-inputs'' then Some 180
      else if sid = ''review-deductions'' then Some 180
      else if sid = ''run-calculation'' then Some 120
      else if sid = ''request-approval'' then Some 240
      else if sid = ''prepare-payout'' then Some 180
      else if sid = ''archive-payroll-evidence'' then Some 480
      else None)"

definition default_escalation_role :: "string \<Rightarrow> string option" where
  "default_escalation_role owner =
     (if owner = ''hr_operator'' then Some ''hr_manager''
      else if owner = ''payroll_operator'' then Some ''payroll_manager''
      else if owner = ''approval_signer'' then Some ''payroll_manager''
      else if owner = ''archive_operator'' then Some ''payroll_manager''
      else if owner = ''it_security_admin'' then Some ''platform_owner''
      else if owner \<in> set [''hr_manager'', ''payroll_manager'', ''platform_owner''] then Some owner
      else None)"

definition default_condition_expression :: "string \<Rightarrow> (string \<times> string) list" where
  "default_condition_expression sid =
     (if sid = ''set-payroll-scope'' then [(''rule'', ''tenant workplace and pay period must be selected'')]
      else if sid = ''configure-access''
      then [(''rule'', ''actor role must match tenant and payroll period policy'')]
      else if sid = ''review-deductions''
      then [(''rule'', ''deduction exceptions must be assigned before calculation'')]
      else [])"

definition permission_object_scope :: "string \<Rightarrow> string option" where
  "permission_object_scope sid =
     (if sid = ''close-attendance'' then Some ''hr_attendance''
      else if sid = ''archive-payroll-evidence'' then Some ''payroll_evidence''
      else if sid = ''request-approval'' then Some ''approval_packet''
      else if sid \<in> set [''set-payroll-scope'', ''configure-access'', ''close-payroll-inputs'',
                        ''review-deductions'', ''run-calculation'', ''prepare-payout'']
      then Some ''payroll_period''
      else None)"

definition default_permission_scope :: "string \<Rightarrow> (string \<times> string) list" where
  "default_permission_scope sid =
     (case permission_object_scope sid of
        None \<Rightarrow> []
      | Some object_scope \<Rightarrow>
          bt_collect [(''data_class'', ''sensitive''), (''tenant_required'', ''true''), (''object_scope'', object_scope)])"

definition builtin_step ::
    "string \<Rightarrow> string \<Rightarrow> string \<Rightarrow> string \<Rightarrow> int \<Rightarrow> int \<Rightarrow> u64 \<Rightarrow> workflow_step_override" where
  "builtin_step sid owner lane node_type position_x position_y updated_at_unix =
     \<lparr>ws_id = sid, ws_title = None, ws_action = None, ws_owner = owner,
      ws_status = ''needs_attention'', ws_tone = ''attention'', ws_lane = lane, ws_node_type = node_type,
      ws_position_x = position_x, ws_position_y = position_y, ws_next_step_ids = [],
      ws_slo_minutes = default_slo_minutes sid, ws_escalation_role = default_escalation_role owner,
      ws_condition_expression = default_condition_expression sid,
      ws_permission_scope = default_permission_scope sid, ws_enabled = True,
      ws_updated_at_unix = updated_at_unix\<rparr>"

definition backfill_builtin_step_controls :: "workflow_step_override \<Rightarrow> workflow_step_override" where
  "backfill_builtin_step_controls s0 =
     (let s1 = (if ws_slo_minutes s0 = None then s0\<lparr>ws_slo_minutes := default_slo_minutes (ws_id s0)\<rparr> else s0);
          s2 = (if ws_escalation_role s1 = None \<and> ws_slo_minutes s1 \<noteq> None
                then s1\<lparr>ws_escalation_role := default_escalation_role (ws_owner s1)\<rparr> else s1);
          s3 = (if ws_condition_expression s2 = []
                then s2\<lparr>ws_condition_expression := default_condition_expression (ws_id s2)\<rparr> else s2)
      in if ws_permission_scope s3 = []
         then s3\<lparr>ws_permission_scope := default_permission_scope (ws_id s3)\<rparr> else s3)"

section \<open>Positions and order\<close>

definition lane_position_x :: "string \<Rightarrow> int" where
  "lane_position_x lane =
     (if lane = ''source'' then 10
      else if lane = ''rule'' then 30
      else if lane = ''operation'' then 50
      else if lane = ''approval'' then 70
      else if lane = ''record'' then 90
      else 50)"

definition normalize_step_position :: "workflow_step_override \<Rightarrow> workflow_step_override" where
  "normalize_step_position s =
     (let s = (if ws_position_x s = 0 then s\<lparr>ws_position_x := lane_position_x (ws_lane s)\<rparr> else s)
      in if ws_position_y s = 0
         then s\<lparr>ws_position_y := (default_step_rank (ws_id s) + 1) * 10\<rparr> else s)"

definition next_position_y :: "workflow_step_override list \<Rightarrow> int" where
  "next_position_y steps = min (min (max_or_zero (map ws_position_y steps) + 10) 65535) max_position"

definition step_sort_key :: "workflow_step_override \<Rightarrow> int \<times> int \<times> int \<times> string" where
  "step_sort_key s = (ws_position_y s, ws_position_x s, default_step_rank (ws_id s), ws_id s)"

definition sort_steps :: "workflow_step_override list \<Rightarrow> workflow_step_override list" where
  "sort_steps steps = sort_key step_sort_key steps"

fun wire_sequentially_for_steps :: "workflow_step_override list \<Rightarrow> workflow_step_override list" where
  "wire_sequentially_for_steps [] = []"
| "wire_sequentially_for_steps [s] = [s\<lparr>ws_next_step_ids := []\<rparr>]"
| "wire_sequentially_for_steps (s # t # rest) =
     s\<lparr>ws_next_step_ids := [ws_id t]\<rparr> # wire_sequentially_for_steps (t # rest)"

definition wire_sequentially :: "workflow_template \<Rightarrow> workflow_template" where
  "wire_sequentially template =
     template\<lparr>wt_steps := wire_sequentially_for_steps (sort_steps (wt_steps template))\<rparr>"

definition default_steps :: "u64 \<Rightarrow> workflow_step_override list" where
  "default_steps now = wire_sequentially_for_steps
     [builtin_step ''set-payroll-scope'' ''payroll_manager'' ''rule'' ''condition'' 30 10 now,
      builtin_step ''configure-access'' ''it_security_admin'' ''rule'' ''condition'' 30 20 now,
      builtin_step ''close-attendance'' ''hr_operator'' ''source'' ''trigger'' 10 30 now,
      builtin_step ''close-payroll-inputs'' ''payroll_operator'' ''operation'' ''action'' 50 40 now,
      builtin_step ''review-deductions'' ''payroll_manager'' ''operation'' ''condition'' 50 50 now,
      builtin_step ''run-calculation'' ''payroll_operator'' ''operation'' ''action'' 50 60 now,
      builtin_step ''request-approval'' ''approval_signer'' ''approval'' ''approval'' 70 70 now,
      builtin_step ''prepare-payout'' ''payroll_manager'' ''operation'' ''action'' 50 80 now,
      builtin_step ''archive-payroll-evidence'' ''archive_operator'' ''record'' ''record'' 90 90 now]"

section \<open>The hash of a template\<close>

definition string_map_to_value :: "(string \<times> string) list \<Rightarrow> json" where
  "string_map_to_value m = JObj (map (\<lambda>(k, v). (k, JStr v)) m)"

definition some_field :: "string \<Rightarrow> ('a \<Rightarrow> json) \<Rightarrow> 'a option \<Rightarrow> (string \<times> json) list" where
  "some_field key f v = (case v of None \<Rightarrow> [] | Some x \<Rightarrow> [(key, f x)])"

definition map_field :: "string \<Rightarrow> (string \<times> string) list \<Rightarrow> (string \<times> json) list" where
  "map_field key m = (if m = [] then [] else [(key, string_map_to_value m)])"

definition step_to_value :: "workflow_step_override \<Rightarrow> json" where
  "step_to_value s = JObj
     ([(''id'', JStr (ws_id s))]
      @ some_field ''title'' JStr (ws_title s)
      @ some_field ''action'' JStr (ws_action s)
      @ [(''owner'', JStr (ws_owner s)), (''status'', JStr (ws_status s)), (''tone'', JStr (ws_tone s)),
         (''lane'', JStr (ws_lane s)), (''node_type'', JStr (ws_node_type s)),
         (''position_x'', JNum (JInt (ws_position_x s))), (''position_y'', JNum (JInt (ws_position_y s))),
         (''next_step_ids'', JArr (map JStr (ws_next_step_ids s)))]
      @ some_field ''slo_minutes'' (\<lambda>n. JNum (JInt n)) (ws_slo_minutes s)
      @ some_field ''escalation_role'' JStr (ws_escalation_role s)
      @ map_field ''condition_expression'' (ws_condition_expression s)
      @ map_field ''permission_scope'' (ws_permission_scope s)
      @ [(''enabled'', JBool (ws_enabled s)), (''updated_at_unix'', JNum (JInt (ws_updated_at_unix s)))])"

definition template_to_value :: "workflow_template \<Rightarrow> json" where
  "template_to_value template = JObj
     [(''id'', JStr (wt_id template)),
      (''version'', JNum (JInt (int (wt_version template)))),
      (''title_key'', JStr (wt_title_key template)),
      (''steps'', JArr (map step_to_value (wt_steps template))),
      (''updated_at_unix'', JNum (JInt (wt_updated_at_unix template)))]"

text \<open>Serialising a template cannot fail, so the hash is no result.\<close>

definition workflow_graph_hash :: "(string \<Rightarrow> string) \<Rightarrow> workflow_template \<Rightarrow> string" where
  "workflow_graph_hash sha256 template = sha256_hex sha256 (json_to_string (template_to_value template))"

section \<open>Validation of stored steps\<close>

definition cleaned_step :: "workflow_step_override \<Rightarrow> string + workflow_step_override" where
  "cleaned_step s =
     result_bind (clean_step_id (ws_id s) ''step id'') (\<lambda>id.
     result_bind (opt_try (\<lambda>v. clean_label v ''title'' max_label_len) (ws_title s)) (\<lambda>title.
     result_bind (opt_try (\<lambda>v. clean_label v ''action'' max_action_len) (ws_action s)) (\<lambda>action.
     result_bind (allowed_value (ws_owner s) ''owner'' allowed_owners) (\<lambda>owner.
     result_bind (allowed_value (ws_status s) ''status'' allowed_statuses) (\<lambda>status.
     result_bind (allowed_value (ws_tone s) ''tone'' allowed_tones) (\<lambda>tone.
     result_bind (allowed_value (ws_lane s) ''lane'' allowed_lanes) (\<lambda>lane.
     result_bind (allowed_value (ws_node_type s) ''node_type'' allowed_node_types) (\<lambda>node_type.
     result_bind (validate_position (ws_position_x s) ''position_x'') (\<lambda>position_x.
     result_bind (validate_position (ws_position_y s) ''position_y'') (\<lambda>position_y.
     result_bind (opt_try validate_slo_minutes (ws_slo_minutes s)) (\<lambda>slo_minutes.
     result_bind (opt_try (\<lambda>v. allowed_value v ''escalation_role'' allowed_owners) (ws_escalation_role s)) (\<lambda>escalation_role.
     result_bind (clean_metadata_map (ws_condition_expression s) ''condition_expression'') (\<lambda>condition_expression.
     result_bind (clean_metadata_map (ws_permission_scope s) ''permission_scope'') (\<lambda>permission_scope.
     Inr (s\<lparr>ws_id := id, ws_title := title, ws_action := action, ws_owner := owner, ws_status := status,
            ws_tone := tone, ws_lane := lane, ws_node_type := node_type, ws_position_x := position_x,
            ws_position_y := position_y, ws_slo_minutes := slo_minutes,
            ws_escalation_role := escalation_role, ws_condition_expression := condition_expression,
            ws_permission_scope := permission_scope\<rparr>)))))))))))))))"

definition validated_step :: "string set \<Rightarrow> workflow_step_override \<Rightarrow> string + workflow_step_override" where
  "validated_step step_ids s =
     result_bind (cleaned_step s) (\<lambda>cleaned.
     let s' = normalize_step_position (backfill_builtin_step_controls cleaned) in
     result_bind (clean_existing_next_ids (ws_next_step_ids s') (ws_id s') step_ids) (\<lambda>next_ids.
     Inr (s'\<lparr>ws_next_step_ids := next_ids\<rparr>)))"

definition validated_steps :: "workflow_step_override list \<Rightarrow> string + workflow_step_override list" where
  "validated_steps steps =
     result_bind (try_map (\<lambda>s. clean_step_id (ws_id s) ''step id'') steps) (\<lambda>ids.
     try_map (validated_step (set ids)) steps)"

definition unwired :: "workflow_step_override list \<Rightarrow> bool" where
  "unwired steps \<longleftrightarrow> list_all (\<lambda>s. ws_next_step_ids s = []) steps"

definition validate_historical_steps ::
    "workflow_step_override list \<Rightarrow> string + workflow_step_override list" where
  "validate_historical_steps steps =
     (if steps = [] then Inl ''workflow template version must keep at least one step''
      else result_bind (validated_steps steps) (\<lambda>steps.
           Inr (sort_steps (if unwired steps then wire_sequentially_for_steps steps else steps))))"

definition validate_template :: "workflow_template \<Rightarrow> string + workflow_template" where
  "validate_template template =
     (if trim (wt_id template) = [] then Inl ''workflow template id is required''
      else let steps = (if wt_steps template = [] \<and> wt_id template = default_template_id
                        then default_steps (wt_updated_at_unix template) else wt_steps template) in
           result_bind (validated_steps steps) (\<lambda>steps.
           let template = template\<lparr>wt_steps := steps\<rparr> in
           Inr (if unwired steps then wire_sequentially template else template)))"

definition validate_template_version_record ::
    "(string \<Rightarrow> string) \<Rightarrow> workflow_template_version_record \<Rightarrow> string + workflow_template_version_record" where
  "validate_template_version_record sha256 record =
     result_bind (clean_template_key (wtv_template_id record) ''template id'') (\<lambda>template_id.
     if wtv_version record = 0 then Inl ''workflow template version must be greater than zero''
     else
     result_bind (clean_label (wtv_change_summary record) ''change_summary'' max_label_len) (\<lambda>change_summary.
     result_bind (allowed_value (wtv_actor_role record) ''actor_role'' allowed_owners) (\<lambda>actor_role.
     if wtv_rollback_of_version record = Some 0 then Inl ''workflow rollback version must be greater than zero''
     else
     result_bind (validate_historical_steps (wtv_steps record)) (\<lambda>steps.
     let template = \<lparr>wt_id = template_id, wt_version = wtv_version record,
                     wt_title_key = ''preview.workflow.templates.payrollClose.title'', wt_steps = steps,
                     wt_updated_at_unix = wtv_created_at_unix record\<rparr>;
         graph_hash = workflow_graph_hash sha256 template in
     Inr (record\<lparr>wtv_template_id := template_id, wtv_change_summary := change_summary,
                 wtv_actor_role := actor_role, wtv_steps := steps, wtv_graph_hash := graph_hash,
                 wtv_id := ''workflow-template-version-'' @ template_id @ ''-'' @
                   show_nat (wtv_version record) @ ''-'' @ take 12 graph_hash\<rparr>)))))"

end
