(* ===== verification/Workflow_Template_Plan.thy ===== *)
theory Workflow_Template_Plan
  imports Workflow_Template_Steps
begin

text \<open>
  What the workflow template store computes from a template
  (\<open>crates/payroll-api/src/bin/workflow_template_store.rs\<close>): its analytics and the issues an edit
  is refused for, the data operations of a step, and the preflight report.  The graph searches are
  those of \<open>Workflow_Graph\<close>.
\<close>

section \<open>Analytics\<close>

definition step_nodes :: "workflow_step_override list \<Rightarrow> (string \<times> string list) list" where
  "step_nodes steps = map (\<lambda>s. (ws_id s, ws_next_step_ids s)) steps"

definition count_steps :: "(workflow_step_override \<Rightarrow> bool) \<Rightarrow> workflow_step_override list \<Rightarrow> int" where
  "count_steps p steps = as_u16 (length (filter p steps))"

definition issue :: "string \<Rightarrow> string option \<Rightarrow> string \<Rightarrow> workflow_validation_issue" where
  "issue code step_id severity = \<lparr>wvi_code = code, wvi_step_id = step_id, wvi_severity = severity\<rparr>"

definition step_issues :: "workflow_step_override \<Rightarrow> workflow_validation_issue list" where
  "step_issues s =
     (if ws_slo_minutes s = None then [issue ''missing_slo'' (Some (ws_id s)) ''warning''] else [])
     @ (if ws_slo_minutes s \<noteq> None \<and> ws_escalation_role s = None
        then [issue ''missing_escalation_role'' (Some (ws_id s)) ''warning''] else [])
     @ (if ws_node_type s = ''condition'' \<and> ws_condition_expression s = []
        then [issue ''missing_condition_expression'' (Some (ws_id s)) ''warning''] else [])
     @ (if ws_permission_scope s = [] then [issue ''missing_permission_scope'' (Some (ws_id s)) ''warning''] else [])"

definition template_issues :: "bool \<Rightarrow> string list \<Rightarrow> workflow_step_override list \<Rightarrow> workflow_validation_issue list" where
  "template_issues cycle_detected disconnected_step_ids steps =
     (if cycle_detected then [issue ''cycle_detected'' None ''error''] else [])
     @ map (\<lambda>step_id. issue ''disconnected_step'' (Some step_id) ''warning'') disconnected_step_ids
     @ concat (map step_issues (filter ws_enabled steps))"

definition loads :: "string list \<Rightarrow> workflow_load list" where
  "loads values' = map (\<lambda>(k, n). \<lparr>wl_key = k, wl_count = n\<rparr>) (load_counts values')"

definition analyze_template :: "workflow_template \<Rightarrow> workflow_template_analytics" where
  "analyze_template template =
     (let steps = wt_steps template;
          adjacency = adjacency_of (step_nodes steps);
          roots = root_ids (step_nodes steps);
          disconnected = disconnected_ids (step_nodes steps);
          cycle = graph_has_cycle adjacency in
      \<lparr>wta_template_id = wt_id template,
       wta_step_count = as_u16 (length steps),
       wta_edge_count = as_u16 (sum_list (map (\<lambda>(_, next_ids). length next_ids) adjacency)),
       wta_branch_count = as_u16 (length (filter (\<lambda>(_, next_ids). length next_ids > 1) adjacency)),
       wta_blocked_count = count_steps (\<lambda>s. ws_status s = ''blocked'') steps,
       wta_waiting_count = count_steps (\<lambda>s. ws_status s = ''waiting'') steps,
       wta_completed_count = count_steps (\<lambda>s. ws_status s = ''completed'') steps,
       wta_disconnected_step_ids = disconnected,
       wta_cycle_detected = cycle,
       wta_longest_path_steps = max_or_zero (map (\<lambda>root. longest_path_from adjacency root {}) roots),
       wta_owner_loads = loads (map ws_owner steps),
       wta_lane_loads = loads (map ws_lane steps),
       wta_validation_issues = template_issues cycle disconnected steps\<rparr>)"

definition reject_blocking_graph_issues :: "workflow_template \<Rightarrow> string + unit" where
  "reject_blocking_graph_issues template =
     (case find_first (\<lambda>i. wvi_severity i = ''error'') (wta_validation_issues (analyze_template template)) of
        Some i \<Rightarrow> Inl (''workflow graph edit rejected: '' @ wvi_code i)
      | None \<Rightarrow> Inr ())"

section \<open>Data operations\<close>

definition completed_upstream_steps :: "workflow_template \<Rightarrow> string \<Rightarrow> int" where
  "completed_upstream_steps template step_id =
     count_steps (\<lambda>s. step_id \<in> set (ws_next_step_ids s) \<and> ws_status s = ''completed'') (wt_steps template)"

definition metadata_insert_all :: "(string \<times> string) list \<Rightarrow> (string \<times> string) list \<Rightarrow> (string \<times> string) list" where
  "metadata_insert_all m entries = foldl (\<lambda>m (k, v). bt_insert k v m) m entries"

definition option_entry :: "string \<Rightarrow> string option \<Rightarrow> (string \<times> string) list" where
  "option_entry key v = (case v of None \<Rightarrow> [] | Some text' \<Rightarrow> [(key, text')])"

definition operation_metadata ::
    "workflow_template \<Rightarrow> workflow_step_override \<Rightarrow> workflow_step_input \<Rightarrow> workflow_template_analytics
      \<Rightarrow> string + (string \<times> string) list" where
  "operation_metadata template s input analytics =
     (let m = metadata_insert_all []
        ([(''template_id'', wt_id template),
          (''template_version'', show_nat (wt_version template)),
          (''step_id'', ws_id s),
          (''step_owner'', ws_owner s),
          (''lane'', ws_lane s),
          (''node_type'', ws_node_type s)]
         @ option_entry ''slo_minutes'' (map_option show_int (ws_slo_minutes s))
         @ option_entry ''escalation_role'' (ws_escalation_role s)
         @ [(''condition_count'', show_nat (length (ws_condition_expression s))),
            (''permission_scope_count'', show_nat (length (ws_permission_scope s))),
            (''branch_count'', show_int (wta_branch_count analytics)),
            (''edge_count'', show_int (wta_edge_count analytics)),
            (''validation_issue_count'', show_nat (length (wta_validation_issues analytics)))]) in
     result_bind (clean_optional_metadata (wsi_scope_tenant input) ''scope_tenant'') (\<lambda>tenant.
     result_bind (clean_optional_metadata (wsi_scope_workplace input) ''scope_workplace'') (\<lambda>workplace.
     result_bind (clean_optional_metadata (wsi_scope_period input) ''scope_period'') (\<lambda>period.
     Inr (metadata_insert_all m
       (option_entry ''scope_tenant'' tenant @ option_entry ''scope_workplace'' workplace
        @ option_entry ''scope_period'' period))))))"

text \<open>\<open>saturating_add(1)\<close> on a \<open>u16\<close>.\<close>

definition u16_saturating_inc :: "int \<Rightarrow> int" where
  "u16_saturating_inc n = min (n + 1) 65535"

definition operation_kind ::
    "string \<Rightarrow> int \<Rightarrow> int \<Rightarrow> nat \<Rightarrow> string \<times> string \<times> string \<times> int" where
  "operation_kind step_id blocked_count completed affected =
     (if step_id = ''set-payroll-scope'' then (''scope_lock'', ''payroll_scope'', ''recorded'', 1)
      else if step_id = ''configure-access''
      then (''authorization_gate_check'', ''authorization_policy'', ''verified'', 1)
      else if step_id = ''close-attendance'' then (''attendance_source_close'', ''hr_attendance'', ''closed'', 1)
      else if step_id = ''close-payroll-inputs'' then (''payroll_input_freeze'', ''payroll_inputs'', ''frozen'', 1)
      else if step_id = ''review-deductions''
      then (''deduction_exception_review'', ''payroll_deductions'', ''reviewed'', blocked_count)
      else if step_id = ''run-calculation''
      then (''payroll_calculation_plan'', ''payroll'', ''planned'', u16_saturating_inc completed)
      else if step_id = ''request-approval''
      then (''approval_packet'', ''electronic_approval'', ''created'', u16_saturating_inc completed)
      else if step_id = ''prepare-payout''
      then (''payout_package'', ''payment_file'', ''prepared'', u16_saturating_inc completed)
      else if step_id = ''archive-payroll-evidence''
      then (''evidence_archive_admission'', ''rustfs_postgres_evidence'', ''queued'', u16_saturating_inc completed)
      else (''custom_workflow_action'', ''workflow_runtime'', ''recorded'', as_u16 affected))"

definition data_operations_for_step ::
    "workflow_template \<Rightarrow> nat \<Rightarrow> workflow_step_input \<Rightarrow> string list \<Rightarrow> u64 \<Rightarrow> nat
      \<Rightarrow> string + workflow_data_operation list" where
  "data_operations_for_step template index input affected_step_ids updated_at_unix event_seed =
     result_bind (ok_or ''workflow step not found'' (nth_opt (wt_steps template) index)) (\<lambda>s.
     let analytics = analyze_template template;
         completed = completed_upstream_steps template (ws_id s);
         (operation_type, target, status, record_count) =
           operation_kind (ws_id s) (wta_blocked_count analytics) completed (length affected_step_ids) in
     result_bind (operation_metadata template s input analytics) (\<lambda>metadata.
     Inr [\<lparr>wdo_id = ''workflow-data-operation-'' @ show_nat event_seed @ ''-0'',
           wdo_operation_type = operation_type, wdo_target = target, wdo_status = status,
           wdo_record_count = record_count,
           wdo_metadata = metadata_insert_all metadata
             [(''affected_step_count'', show_nat (length affected_step_ids)),
              (''completed_dependency_count'', show_int completed),
              (''updated_at_unix'', show_int updated_at_unix)]\<rparr>]))"

section \<open>Finding templates and steps\<close>

definition template_ref :: "workflow_template_store \<Rightarrow> string \<Rightarrow> string + workflow_template" where
  "template_ref store template_id =
     ok_or ''workflow template not found'' (find_first (\<lambda>t. wt_id t = template_id) (wts_templates store))"

definition step_index :: "workflow_template \<Rightarrow> string \<Rightarrow> string + nat" where
  "step_index template step_id =
     ok_or ''workflow step not found'' (index_of (\<lambda>s. ws_id s = step_id) (wt_steps template))"

definition find_step :: "workflow_template \<Rightarrow> string \<Rightarrow> workflow_step_override option" where
  "find_step template step_id = find_first (\<lambda>s. ws_id s = step_id) (wt_steps template)"

section \<open>The preflight report\<close>

record workflow_preflight_issue =
  wpi_code :: string
  wpi_severity :: string
  wpi_step_id :: "string option"
  wpi_owner :: "string option"

record workflow_preflight_next_action =
  wna_step_id :: string
  wna_owner :: string
  wna_action :: string
  wna_due_window :: string
  wna_reason :: string

record workflow_preflight_report =
  wpr_schema :: string
  wpr_template_id :: string
  wpr_template_version :: nat
  wpr_graph_hash :: string
  wpr_status :: string
  wpr_planned_step_ids :: "string list"
  wpr_blocker_count :: int
  wpr_warning_count :: int
  wpr_issues :: "workflow_preflight_issue list"
  wpr_next_actions :: "workflow_preflight_next_action list"
  wpr_data_operations :: "workflow_data_operation list"
  wpr_generated_at_unix :: u64

definition planned_step_ids_for_template :: "workflow_template \<Rightarrow> string list" where
  "planned_step_ids_for_template template = planned_ids (step_nodes (wt_steps template))"

definition analytics_to_preflight_issues ::
    "workflow_template \<Rightarrow> workflow_template_analytics \<Rightarrow> workflow_preflight_issue list" where
  "analytics_to_preflight_issues template analytics =
     map (\<lambda>i. \<lparr>wpi_code = wvi_code i, wpi_severity = wvi_severity i, wpi_step_id = wvi_step_id i,
               wpi_owner = Option.bind (wvi_step_id i)
                 (\<lambda>step_id. map_option ws_owner (find_step template step_id))\<rparr>)
       (wta_validation_issues analytics)"

definition blocked_step_issues :: "workflow_template \<Rightarrow> workflow_preflight_issue list" where
  "blocked_step_issues template =
     map (\<lambda>s. \<lparr>wpi_code = ''blocked_step'', wpi_severity = ''error'', wpi_step_id = Some (ws_id s),
               wpi_owner = Some (ws_owner s)\<rparr>)
       (filter (\<lambda>s. ws_enabled s \<and> ws_status s = ''blocked'') (wt_steps template))"

definition severity_count :: "string \<Rightarrow> workflow_preflight_issue list \<Rightarrow> int" where
  "severity_count severity issues = as_u16 (length (filter (\<lambda>i. wpi_severity i = severity) issues))"

definition next_action :: "workflow_step_override \<Rightarrow> workflow_preflight_next_action" where
  "next_action s =
     \<lparr>wna_step_id = ws_id s, wna_owner = ws_owner s,
      wna_action = unwrap_or (unwrap_or (ws_id s) (ws_title s)) (ws_action s),
      wna_due_window = (case ws_slo_minutes s of Some minutes \<Rightarrow> show_int minutes @ ''m'' | None \<Rightarrow> ''not_set''),
      wna_reason = (if ws_status s = ''blocked'' then ''remove_blocker''
                    else if ws_status s = ''waiting'' then ''owner_review'' else ''ready_to_start'')\<rparr>"

definition next_actions :: "workflow_template \<Rightarrow> string list \<Rightarrow> workflow_preflight_next_action list" where
  "next_actions template planned =
     map next_action (take 5 (filter (\<lambda>s. ws_enabled s \<and> ws_status s \<noteq> ''completed'')
       (List.map_filter (find_step template) planned)))"

text \<open>\<open>event_seed.saturating_add(offset)\<close> on a \<open>u128\<close>.\<close>

definition seed_at :: "nat \<Rightarrow> nat \<Rightarrow> nat" where
  "seed_at event_seed offset = min (event_seed + offset) (2 ^ 128 - 1)"

definition planned_operations ::
    "workflow_template \<Rightarrow> workflow_step_input \<Rightarrow> string list \<Rightarrow> u64 \<Rightarrow> nat
      \<Rightarrow> string + workflow_data_operation list" where
  "planned_operations template input planned generated_at_unix event_seed =
     try_fold (\<lambda>operations (offset, step_id).
       result_bind (step_index template step_id) (\<lambda>index.
       let s = wt_steps template ! index in
       if \<not> ws_enabled s then Inr operations
       else result_bind (data_operations_for_step template index input (ws_next_step_ids s)
                           generated_at_unix (seed_at event_seed offset))
              (\<lambda>ops. Inr (operations @ ops)))) [] (enumerate 0 planned)"

definition workflow_preflight_schema :: string where
  "workflow_preflight_schema = ''bitween.workflow.preflight.v1''"

definition preflight_template ::
    "(string \<Rightarrow> string) \<Rightarrow> workflow_template_store \<Rightarrow> string \<Rightarrow> workflow_step_input \<Rightarrow> u64 \<Rightarrow> nat
      \<Rightarrow> string + workflow_preflight_report" where
  "preflight_template sha256 store template_id input generated_at_unix event_seed =
     result_bind (template_ref store template_id) (\<lambda>template.
     let issues = analytics_to_preflight_issues template (analyze_template template) @ blocked_step_issues template;
         blocker_count = severity_count ''error'' issues;
         warning_count = severity_count ''warning'' issues;
         planned = planned_step_ids_for_template template in
     result_bind (if blocker_count = 0
                  then planned_operations template input planned generated_at_unix event_seed else Inr [])
       (\<lambda>data_operations.
     Inr \<lparr>wpr_schema = workflow_preflight_schema, wpr_template_id = wt_id template,
          wpr_template_version = wt_version template, wpr_graph_hash = workflow_graph_hash sha256 template,
          wpr_status = (if blocker_count > 0 then ''blocked''
                        else if warning_count > 0 then ''needs_review'' else ''ready''),
          wpr_planned_step_ids = planned, wpr_blocker_count = blocker_count,
          wpr_warning_count = warning_count, wpr_issues = issues,
          wpr_next_actions = next_actions template planned, wpr_data_operations = data_operations,
          wpr_generated_at_unix = generated_at_unix\<rparr>))"

end
