(* ===== verification/Workflow_Template_Store.thy ===== *)
theory Workflow_Template_Store
  imports Workflow_Template_Plan
begin

text \<open>
  The operations of the workflow template store
  (\<open>crates/payroll-api/src/bin/workflow_template_store.rs\<close>): adding, changing, deleting and
  executing a step, rolling a template back, and validating a stored file.  An operation takes the
  store and returns the changed store or the error text; the code changes the store in place and
  its callers drop it when an operation fails.  The clock, the event seed (nanoseconds, \<open>u128\<close>)
  and the SHA-256 function are arguments.
\<close>

section \<open>Templates in the store\<close>

definition put_template :: "workflow_template_store \<Rightarrow> string \<Rightarrow> workflow_template \<Rightarrow> workflow_template_store" where
  "put_template store template_id template =
     (case index_of (\<lambda>t. wt_id t = template_id) (wts_templates store) of
        None \<Rightarrow> store
      | Some i \<Rightarrow> store\<lparr>wts_templates := (wts_templates store)[i := template]\<rparr>)"

definition sort_store :: "workflow_template_store \<Rightarrow> workflow_template_store" where
  "sort_store store = store
     \<lparr>wts_templates := map (\<lambda>t. t\<lparr>wt_steps := sort_steps (wt_steps t)\<rparr>) (sort_key wt_id (wts_templates store)),
      wts_template_versions := sort_key (\<lambda>r. (wtv_template_id r, wtv_version r)) (wts_template_versions store),
      wts_audit_events := sort_key wae_updated_at_unix (wts_audit_events store),
      wts_runtime_events := sort_key wre_updated_at_unix (wts_runtime_events store),
      wts_data_records := sort_key wdr_id (wts_data_records store)\<rparr>"

definition refresh_store_analytics :: "workflow_template_store \<Rightarrow> workflow_template_store" where
  "refresh_store_analytics store = store\<lparr>wts_analytics := map analyze_template (wts_templates store)\<rparr>"

section \<open>Versions and events\<close>

definition actor_or_owner :: "string option \<Rightarrow> string + string" where
  "actor_or_owner actor_role =
     result_bind (opt_try (\<lambda>v. allowed_value v ''actor_role'' allowed_owners) actor_role)
       (\<lambda>role. Inr (unwrap_or ''platform_owner'' role))"

definition template_version_record ::
    "(string \<Rightarrow> string) \<Rightarrow> workflow_template \<Rightarrow> string \<Rightarrow> string \<Rightarrow> u64 \<Rightarrow> nat option
      \<Rightarrow> string + workflow_template_version_record" where
  "template_version_record sha256 template change_summary actor_role created_at_unix rollback_of_version =
     (let graph_hash = workflow_graph_hash sha256 template in
      result_bind (clean_label change_summary ''change_summary'' max_label_len) (\<lambda>change_summary.
      result_bind (allowed_value actor_role ''actor_role'' allowed_owners) (\<lambda>actor_role.
      result_bind (clean_template_key (wt_id template) ''template id'') (\<lambda>template_key.
      Inr \<lparr>wtv_id = ''workflow-template-version-'' @ template_key @ ''-'' @ show_nat (wt_version template)
             @ ''-'' @ take 12 graph_hash,
           wtv_template_id = wt_id template, wtv_version = wt_version template,
           wtv_graph_hash = graph_hash, wtv_change_summary = change_summary, wtv_actor_role = actor_role,
           wtv_created_at_unix = created_at_unix, wtv_rollback_of_version = rollback_of_version,
           wtv_steps = wt_steps template\<rparr>))))"

text \<open>The greatest recorded version of a template; \<open>saturating_add(1)\<close> on a \<open>u32\<close>.\<close>

definition recorded_versions :: "workflow_template_store \<Rightarrow> string \<Rightarrow> nat list" where
  "recorded_versions store template_id =
     map wtv_version (filter (\<lambda>r. wtv_template_id r = template_id) (wts_template_versions store))"

definition u32_max :: nat where
  "u32_max = 4294967295"

definition next_template_version :: "workflow_template_store \<Rightarrow> string \<Rightarrow> string + nat" where
  "next_template_version store template_id =
     result_bind (template_ref store template_id) (\<lambda>template.
     let current = wt_version template;
         recorded = recorded_versions store template_id;
         max_recorded = (if recorded = [] then current else foldr max recorded 0) in
     Inr (min (max max_recorded current + 1) u32_max))"

definition publish_template_version ::
    "(string \<Rightarrow> string) \<Rightarrow> workflow_template_store \<Rightarrow> string \<Rightarrow> string \<Rightarrow> string option \<Rightarrow> u64 \<Rightarrow> nat option
      \<Rightarrow> string + workflow_template_store" where
  "publish_template_version sha256 store template_id change_summary actor_role now rollback_of_version =
     result_bind (clean_template_key template_id ''template id'') (\<lambda>clean_id.
     result_bind (actor_or_owner actor_role) (\<lambda>actor_role.
     result_bind (next_template_version store clean_id) (\<lambda>next_version.
     result_bind (template_ref store clean_id) (\<lambda>template.
     let template = template\<lparr>wt_version := next_version, wt_updated_at_unix := now\<rparr>;
         store = put_template store clean_id template in
     result_bind (template_version_record sha256 template change_summary actor_role now rollback_of_version)
       (\<lambda>record.
     Inr (store\<lparr>wts_template_versions := wts_template_versions store @ [record]\<rparr>))))))"

definition ensure_template_version_records ::
    "(string \<Rightarrow> string) \<Rightarrow> workflow_template_store \<Rightarrow> u64 \<Rightarrow> string + workflow_template_store" where
  "ensure_template_version_records sha256 store created_at_unix =
     try_fold (\<lambda>store template.
       if \<exists>r \<in> set (wts_template_versions store).
            wtv_template_id r = wt_id template \<and> wtv_version r = wt_version template
       then Inr store
       else result_bind (template_version_record sha256 template ''import_current_version''
                           ''platform_owner'' created_at_unix None)
              (\<lambda>record. Inr (store\<lparr>wts_template_versions := wts_template_versions store @ [record]\<rparr>)))
       store (wts_templates store)"

definition push_audit_event ::
    "workflow_template_store \<Rightarrow> string \<Rightarrow> string \<Rightarrow> string \<Rightarrow> string option \<Rightarrow> u64 \<Rightarrow> nat
      \<Rightarrow> string + workflow_template_store" where
  "push_audit_event store template_id step_id action actor_role now event_seed =
     result_bind (actor_or_owner actor_role) (\<lambda>role.
     Inr (store\<lparr>wts_audit_events := wts_audit_events store @
       [\<lparr>wae_id = ''workflow-event-'' @ show_nat event_seed, wae_template_id = template_id,
         wae_step_id = step_id, wae_action = action, wae_actor_role = role, wae_updated_at_unix = now\<rparr>]\<rparr>))"

definition push_runtime_event ::
    "workflow_template_store \<Rightarrow> string \<Rightarrow> string \<Rightarrow> string \<Rightarrow> string option \<Rightarrow> string list
      \<Rightarrow> workflow_data_operation list \<Rightarrow> string \<Rightarrow> string \<Rightarrow> u64 \<Rightarrow> nat \<Rightarrow> string + workflow_template_store" where
  "push_runtime_event store template_id step_id action actor_role affected operations
     status_before status_after now event_seed =
     result_bind (actor_or_owner actor_role) (\<lambda>role.
     Inr (store\<lparr>wts_runtime_events := wts_runtime_events store @
       [\<lparr>wre_id = ''workflow-runtime-event-'' @ show_nat event_seed, wre_template_id = template_id,
         wre_step_id = step_id, wre_action = action, wre_actor_role = role,
         wre_affected_step_ids = affected, wre_data_operations = operations,
         wre_status_before = status_before, wre_status_after = status_after,
         wre_updated_at_unix = now\<rparr>]\<rparr>))"

text \<open>What every edit of a template ends with, once the edited graph is accepted.\<close>

definition commit_edit ::
    "(string \<Rightarrow> string) \<Rightarrow> workflow_template_store \<Rightarrow> string \<Rightarrow> workflow_template \<Rightarrow> string \<Rightarrow> string
      \<Rightarrow> string option \<Rightarrow> u64 \<Rightarrow> nat \<Rightarrow> nat option \<Rightarrow> string + workflow_template_store" where
  "commit_edit sha256 store template_id template step_id action actor_role now event_seed rollback_of_version =
     result_bind (reject_blocking_graph_issues template) (\<lambda>_.
     let store = put_template store template_id (template\<lparr>wt_updated_at_unix := now\<rparr>) in
     result_bind (publish_template_version sha256 store template_id action actor_role now rollback_of_version) (\<lambda>store.
     result_bind (push_audit_event store template_id step_id action actor_role now event_seed) (\<lambda>store.
     Inr (refresh_store_analytics (sort_store store)))))"

section \<open>Editing steps\<close>

definition placed_steps ::
    "workflow_step_override list \<Rightarrow> string \<Rightarrow> string \<Rightarrow> nat \<Rightarrow> nat \<Rightarrow> workflow_step_override list" where
  "placed_steps steps step_id after_id current after =
     (let steps = map (\<lambda>s. s\<lparr>ws_next_step_ids := filter (\<lambda>n. n \<noteq> step_id) (ws_next_step_ids s)\<rparr>) steps;
          previous = ws_next_step_ids (steps ! after);
          steps = steps[current := (steps ! current)
                    \<lparr>ws_next_step_ids := filter (\<lambda>n. n \<noteq> step_id \<and> n \<noteq> after_id) previous\<rparr>];
          steps = steps[after := (steps ! after)\<lparr>ws_next_step_ids := [step_id]\<rparr>] in
      steps[current := (steps ! current)
        \<lparr>ws_position_x := lane_position_x (ws_lane (steps ! current)),
         ws_position_y := min (min (ws_position_y (steps ! after) + 1) 65535) max_position\<rparr>])"

definition place_step_after :: "workflow_template \<Rightarrow> string \<Rightarrow> string \<Rightarrow> string + workflow_template" where
  "place_step_after template step_id after_step_id =
     result_bind (clean_step_id after_step_id ''after_step_id'') (\<lambda>after_id.
     if after_id = step_id then Inl ''workflow step cannot be placed after itself''
     else
     result_bind (step_index template step_id) (\<lambda>current.
     result_bind (step_index template after_id) (\<lambda>after.
     Inr (template\<lparr>wt_steps := placed_steps (wt_steps template) step_id after_id current after\<rparr>))))"

definition optionally_place_after ::
    "workflow_template \<Rightarrow> string \<Rightarrow> string option \<Rightarrow> string + workflow_template" where
  "optionally_place_after template step_id after_step_id =
     (case after_step_id of None \<Rightarrow> Inr template | Some after_id \<Rightarrow> place_step_after template step_id after_id)"

text \<open>
  \<open>unique_step_id\<close>: the cleaned title, or the first free suffix from 2 to 999, or the event seed.
\<close>

fun free_suffix :: "string list \<Rightarrow> string \<Rightarrow> nat \<Rightarrow> nat list \<Rightarrow> string" where
  "free_suffix taken base event_seed [] = base @ ''-'' @ show_nat event_seed"
| "free_suffix taken base event_seed (n # ns) =
     (if base @ ''-'' @ show_nat n \<notin> set taken then base @ ''-'' @ show_nat n
      else free_suffix taken base event_seed ns)"

definition unique_step_id :: "(string \<Rightarrow> string) \<Rightarrow> workflow_template \<Rightarrow> string \<Rightarrow> nat \<Rightarrow> string" where
  "unique_step_id sha256 template title event_seed =
     (let taken = map ws_id (wt_steps template);
          base = (case clean_step_id title ''step id'' of
                    Inr cleaned \<Rightarrow> cleaned
                  | Inl _ \<Rightarrow> ''step-'' @ take 8 (sha256_hex sha256 title)) in
      if base \<notin> set taken then base else free_suffix taken base event_seed [2..<1000])"

definition new_step ::
    "workflow_template \<Rightarrow> workflow_step_input \<Rightarrow> string \<Rightarrow> string \<Rightarrow> string \<Rightarrow> u64 \<Rightarrow> string + workflow_step_override" where
  "new_step template input sid title action now =
     result_bind (opt_try (\<lambda>v. allowed_value v ''lane'' allowed_lanes) (wsi_lane input)) (\<lambda>lane.
     result_bind (opt_try (\<lambda>v. allowed_value v ''node_type'' allowed_node_types) (wsi_node_type input)) (\<lambda>node_type.
     result_bind (opt_try (\<lambda>v. allowed_value v ''status'' allowed_statuses) (wsi_status input)) (\<lambda>status.
     let status = unwrap_or ''waiting'' status in
     result_bind (opt_try (\<lambda>v. allowed_value v ''tone'' allowed_tones) (wsi_tone input)) (\<lambda>tone.
     result_bind (opt_try (\<lambda>v. allowed_value v ''owner'' allowed_owners) (wsi_owner input)) (\<lambda>owner.
     result_bind (opt_try (\<lambda>ids. clean_next_step_ids ids sid (wt_steps template)) (wsi_next_step_ids input)) (\<lambda>next_ids.
     result_bind (opt_try validate_slo_minutes (wsi_slo_minutes input)) (\<lambda>slo_minutes.
     result_bind (opt_try (\<lambda>v. allowed_value v ''escalation_role'' allowed_owners) (wsi_escalation_role input)) (\<lambda>escalation_role.
     result_bind (opt_try (\<lambda>m. clean_metadata_map m ''condition_expression'') (wsi_condition_expression input)) (\<lambda>condition_expression.
     result_bind (opt_try (\<lambda>m. clean_metadata_map m ''permission_scope'') (wsi_permission_scope input)) (\<lambda>permission_scope.
     result_bind (validate_position (unwrap_or 0 (wsi_position_x input)) ''position_x'') (\<lambda>position_x.
     result_bind (validate_position (unwrap_or (next_position_y (wt_steps template)) (wsi_position_y input)) ''position_y'') (\<lambda>position_y.
     Inr (normalize_step_position
       \<lparr>ws_id = sid, ws_title = Some title, ws_action = Some action,
        ws_owner = unwrap_or ''platform_owner'' owner, ws_status = status,
        ws_tone = unwrap_or (tone_for_status status) tone, ws_lane = unwrap_or ''operation'' lane,
        ws_node_type = unwrap_or ''action'' node_type, ws_position_x = position_x, ws_position_y = position_y,
        ws_next_step_ids = unwrap_or [] next_ids, ws_slo_minutes = slo_minutes,
        ws_escalation_role = escalation_role,
        ws_condition_expression = unwrap_or [] condition_expression,
        ws_permission_scope = unwrap_or [] permission_scope,
        ws_enabled = unwrap_or True (wsi_enabled input), ws_updated_at_unix = now\<rparr>)))))))))))))"

definition add_step ::
    "(string \<Rightarrow> string) \<Rightarrow> workflow_template_store \<Rightarrow> string \<Rightarrow> workflow_step_input \<Rightarrow> u64 \<Rightarrow> nat
      \<Rightarrow> string + workflow_template_store" where
  "add_step sha256 store template_id input now event_seed =
     result_bind (template_ref store template_id) (\<lambda>template.
     result_bind (clean_label_required (wsi_title input) ''title'' max_label_len) (\<lambda>title.
     result_bind (clean_label_required (wsi_action input) ''action'' max_action_len) (\<lambda>action.
     result_bind (opt_try (\<lambda>v. clean_step_id v ''step id'') (wsi_id input)) (\<lambda>given.
     let sid = (case given of Some v \<Rightarrow> v | None \<Rightarrow> unique_step_id sha256 template title event_seed) in
     if sid \<in> set (map ws_id (wt_steps template)) then Inl (''workflow step already exists: '' @ sid)
     else
     result_bind (new_step template input sid title action now) (\<lambda>s.
     result_bind (optionally_place_after (template\<lparr>wt_steps := wt_steps template @ [s]\<rparr>) sid (wsi_after_step_id input)) (\<lambda>template.
     commit_edit sha256 store template_id template sid ''add_step'' (wsi_actor_role input) now event_seed None))))))"

definition edited_step :: "workflow_step_input \<Rightarrow> workflow_step_override \<Rightarrow> u64 \<Rightarrow> string + workflow_step_override" where
  "edited_step input s now =
     result_bind (opt_try (\<lambda>v. clean_label v ''title'' max_label_len) (wsi_title input)) (\<lambda>title.
     result_bind (opt_try (\<lambda>v. clean_label v ''action'' max_action_len) (wsi_action input)) (\<lambda>action.
     result_bind (opt_try (\<lambda>v. allowed_value v ''owner'' allowed_owners) (wsi_owner input)) (\<lambda>owner.
     result_bind (opt_try (\<lambda>v. allowed_value v ''status'' allowed_statuses) (wsi_status input)) (\<lambda>status.
     result_bind (opt_try (\<lambda>v. allowed_value v ''tone'' allowed_tones) (wsi_tone input)) (\<lambda>tone.
     result_bind (opt_try (\<lambda>v. allowed_value v ''lane'' allowed_lanes) (wsi_lane input)) (\<lambda>lane.
     result_bind (opt_try (\<lambda>v. allowed_value v ''node_type'' allowed_node_types) (wsi_node_type input)) (\<lambda>node_type.
     result_bind (opt_try (\<lambda>v. validate_position v ''position_x'') (wsi_position_x input)) (\<lambda>position_x.
     result_bind (opt_try (\<lambda>v. validate_position v ''position_y'') (wsi_position_y input)) (\<lambda>position_y.
     result_bind (opt_try validate_slo_minutes (wsi_slo_minutes input)) (\<lambda>slo_minutes.
     result_bind (opt_try (\<lambda>v. allowed_value v ''escalation_role'' allowed_owners) (wsi_escalation_role input)) (\<lambda>escalation_role.
     result_bind (opt_try (\<lambda>m. clean_metadata_map m ''condition_expression'') (wsi_condition_expression input)) (\<lambda>condition_expression.
     result_bind (opt_try (\<lambda>m. clean_metadata_map m ''permission_scope'') (wsi_permission_scope input)) (\<lambda>permission_scope.
     Inr (s\<lparr>ws_title := opt_or title (ws_title s), ws_action := opt_or action (ws_action s),
            ws_owner := unwrap_or (ws_owner s) owner, ws_status := unwrap_or (ws_status s) status,
            ws_tone := unwrap_or (unwrap_or (ws_tone s) (map_option tone_for_status status)) tone,
            ws_lane := unwrap_or (ws_lane s) lane, ws_node_type := unwrap_or (ws_node_type s) node_type,
            ws_position_x := unwrap_or (ws_position_x s) position_x,
            ws_position_y := unwrap_or (ws_position_y s) position_y,
            ws_enabled := unwrap_or (ws_enabled s) (wsi_enabled input),
            ws_slo_minutes := opt_or slo_minutes (ws_slo_minutes s),
            ws_escalation_role := opt_or escalation_role (ws_escalation_role s),
            ws_condition_expression := unwrap_or (ws_condition_expression s) condition_expression,
            ws_permission_scope := unwrap_or (ws_permission_scope s) permission_scope,
            ws_updated_at_unix := now\<rparr>))))))))))))))"

definition set_next_ids :: "workflow_template \<Rightarrow> string \<Rightarrow> string list option \<Rightarrow> string + workflow_template" where
  "set_next_ids template step_id next_ids =
     (case next_ids of
        None \<Rightarrow> Inr template
      | Some ids \<Rightarrow> result_bind (step_index template step_id) (\<lambda>i.
          Inr (template\<lparr>wt_steps := (wt_steps template)
            [i := (wt_steps template ! i)\<lparr>ws_next_step_ids := ids\<rparr>]\<rparr>)))"

definition update_step ::
    "(string \<Rightarrow> string) \<Rightarrow> workflow_template_store \<Rightarrow> string \<Rightarrow> string \<Rightarrow> workflow_step_input \<Rightarrow> u64 \<Rightarrow> nat
      \<Rightarrow> string + workflow_template_store" where
  "update_step sha256 store template_id step_id input now event_seed =
     result_bind (clean_step_id step_id ''step id'') (\<lambda>clean_id.
     result_bind (opt_try (\<lambda>ids. result_bind (template_ref store template_id) (\<lambda>template.
       clean_next_step_ids ids clean_id (wt_steps template))) (wsi_next_step_ids input)) (\<lambda>next_ids.
     result_bind (template_ref store template_id) (\<lambda>template.
     result_bind (step_index template clean_id) (\<lambda>i.
     result_bind (edited_step input (wt_steps template ! i) now) (\<lambda>s.
     result_bind (optionally_place_after (template\<lparr>wt_steps := (wt_steps template)[i := s]\<rparr>) clean_id (wsi_after_step_id input)) (\<lambda>template.
     result_bind (set_next_ids template clean_id next_ids) (\<lambda>template.
     commit_edit sha256 store template_id template clean_id ''update_step'' (wsi_actor_role input) now event_seed None)))))))"

text \<open>The steps that led to the deleted step lead to its successors instead.\<close>

definition bridge_step :: "string \<Rightarrow> string list \<Rightarrow> workflow_step_override \<Rightarrow> workflow_step_override" where
  "bridge_step deleted_id deleted_next_ids s =
     (if deleted_id \<in> set (ws_next_step_ids s)
      then s\<lparr>ws_next_step_ids := foldl (\<lambda>ids next_id.
             if next_id \<noteq> ws_id s \<and> next_id \<notin> set ids then ids @ [next_id] else ids)
             (filter (\<lambda>n. n \<noteq> deleted_id) (ws_next_step_ids s)) deleted_next_ids\<rparr>
      else s)"

definition delete_step ::
    "(string \<Rightarrow> string) \<Rightarrow> workflow_template_store \<Rightarrow> string \<Rightarrow> string \<Rightarrow> workflow_step_input \<Rightarrow> u64 \<Rightarrow> nat
      \<Rightarrow> string + workflow_template_store" where
  "delete_step sha256 store template_id step_id input now event_seed =
     result_bind (clean_step_id step_id ''step id'') (\<lambda>clean_id.
     result_bind (template_ref store template_id) (\<lambda>template.
     result_bind (step_index template clean_id) (\<lambda>i.
     if length (wt_steps template) \<le> 1 then Inl ''workflow template must keep at least one step''
     else
     let deleted_next_ids = ws_next_step_ids (wt_steps template ! i);
         remaining = take i (wt_steps template) @ drop (Suc i) (wt_steps template) in
     commit_edit sha256 store template_id
       (template\<lparr>wt_steps := map (bridge_step clean_id deleted_next_ids) remaining\<rparr>)
       clean_id ''delete_step'' (wsi_actor_role input) now event_seed None)))"

definition rollback_template ::
    "(string \<Rightarrow> string) \<Rightarrow> workflow_template_store \<Rightarrow> string \<Rightarrow> nat \<Rightarrow> workflow_step_input \<Rightarrow> u64 \<Rightarrow> nat
      \<Rightarrow> string + workflow_template_store" where
  "rollback_template sha256 store template_id version input now event_seed =
     (if version = 0 then Inl ''workflow rollback version must be greater than zero''
      else
      result_bind (clean_step_id template_id ''template id'') (\<lambda>clean_id.
      result_bind (ok_or (''workflow template version not found: '' @ show_nat version)
        (find_first (\<lambda>r. wtv_template_id r = clean_id \<and> wtv_version r = version) (wts_template_versions store))) (\<lambda>target.
      if wtv_steps target = [] then Inl ''workflow rollback version has no graph''
      else
      result_bind (template_ref store clean_id) (\<lambda>template.
      commit_edit sha256 store clean_id (template\<lparr>wt_steps := wtv_steps target\<rparr>) ''template''
        ''rollback_version'' (wsi_actor_role input) now event_seed (Some version)))))"

section \<open>Executing a step\<close>

definition data_record_id :: "string \<Rightarrow> string \<Rightarrow> workflow_data_operation \<Rightarrow> string + string" where
  "data_record_id template_id step_id operation =
     (let scope_key = join_with ''-''
        [unwrap_or ''tenant'' (bt_get ''scope_tenant'' (wdo_metadata operation)),
         unwrap_or ''workplace'' (bt_get ''scope_workplace'' (wdo_metadata operation)),
         unwrap_or ''period'' (bt_get ''scope_period'' (wdo_metadata operation))] in
      result_bind (clean_step_id template_id ''template id'') (\<lambda>template_key.
      result_bind (clean_step_id step_id ''step id'') (\<lambda>step_key.
      result_bind (clean_step_id (wdo_operation_type operation) ''operation_type'') (\<lambda>kind.
      result_bind (clean_step_id scope_key ''scope key'') (\<lambda>scope.
      Inr (''workflow-data-record-'' @ template_key @ ''-'' @ step_key @ ''-'' @ kind @ ''-'' @ scope))))))"

definition put_data_record ::
    "workflow_data_record \<Rightarrow> workflow_data_record list \<Rightarrow> workflow_data_record list" where
  "put_data_record record records =
     (case index_of (\<lambda>r. wdr_id r = wdr_id record) records of
        Some i \<Rightarrow> records[i := record]
      | None \<Rightarrow> records @ [record])"

definition apply_data_operations ::
    "workflow_template_store \<Rightarrow> string \<Rightarrow> string \<Rightarrow> workflow_data_operation list \<Rightarrow> u64
      \<Rightarrow> string + workflow_template_store" where
  "apply_data_operations store template_id step_id operations now =
     try_fold (\<lambda>store operation.
       result_bind (data_record_id template_id step_id operation) (\<lambda>record_id.
       Inr (store\<lparr>wts_data_records := put_data_record
         \<lparr>wdr_id = record_id, wdr_template_id = template_id, wdr_step_id = step_id,
          wdr_record_type = wdo_operation_type operation, wdr_target = wdo_target operation,
          wdr_status = wdo_status operation, wdr_record_count = wdo_record_count operation,
          wdr_metadata = wdo_metadata operation, wdr_updated_at_unix = now\<rparr> (wts_data_records store)\<rparr>)))
       store operations"

text \<open>A successor that was waiting needs attention once the step before it is completed.\<close>

definition wake_step :: "u64 \<Rightarrow> workflow_step_override list \<Rightarrow> string \<Rightarrow> workflow_step_override list" where
  "wake_step now steps next_id =
     (case index_of (\<lambda>s. ws_id s = next_id) steps of
        None \<Rightarrow> steps
      | Some i \<Rightarrow>
          if ws_status (steps ! i) \<in> set [''waiting'', ''needs_attention'']
          then steps[i := (steps ! i)\<lparr>ws_status := ''needs_attention'', ws_tone := ''attention'',
                                       ws_updated_at_unix := now\<rparr>]
          else steps)"

definition complete_step :: "u64 \<Rightarrow> nat \<Rightarrow> workflow_step_override list \<Rightarrow> workflow_step_override list" where
  "complete_step now i steps =
     foldl (wake_step now)
       (steps[i := (steps ! i)\<lparr>ws_status := ''completed'', ws_tone := ''ready'', ws_updated_at_unix := now\<rparr>])
       (ws_next_step_ids (steps ! i))"

definition execute_step ::
    "(string \<Rightarrow> string) \<Rightarrow> workflow_template_store \<Rightarrow> string \<Rightarrow> string \<Rightarrow> workflow_step_input \<Rightarrow> u64 \<Rightarrow> nat
      \<Rightarrow> string + workflow_template_store" where
  "execute_step sha256 store template_id step_id input now event_seed =
     result_bind (clean_step_id step_id ''step id'') (\<lambda>clean_id.
     result_bind (template_ref store template_id) (\<lambda>template.
     result_bind (step_index template clean_id) (\<lambda>i.
     let s = wt_steps template ! i in
     if \<not> ws_enabled s then Inl ''workflow step is disabled''
     else
     let status_before = ws_status s; affected = ws_next_step_ids s in
     result_bind (data_operations_for_step template i input affected now event_seed) (\<lambda>operations.
     let store = put_template store template_id
           (template\<lparr>wt_steps := complete_step now i (wt_steps template), wt_updated_at_unix := now\<rparr>) in
     result_bind (apply_data_operations store template_id clean_id operations now) (\<lambda>store.
     result_bind (publish_template_version sha256 store template_id ''execute_step'' (wsi_actor_role input) now None) (\<lambda>store.
     result_bind (push_audit_event store template_id clean_id ''execute_step'' (wsi_actor_role input) now event_seed) (\<lambda>store.
     result_bind (push_runtime_event store template_id clean_id ''execute_step'' (wsi_actor_role input)
       affected operations status_before ''completed'' now event_seed) (\<lambda>store.
     Inr (refresh_store_analytics (sort_store store))))))))))"

section \<open>Trying an edit\<close>

record workflow_edit_validation_report =
  wev_schema :: string
  wev_template_id :: string
  wev_step_id :: string
  wev_operation :: string
  wev_status :: string
  wev_would_persist :: bool
  wev_blocker_count :: int
  wev_warning_count :: int
  wev_issues :: "workflow_preflight_issue list"
  wev_proposed_analytics :: workflow_template_analytics
  wev_generated_at_unix :: u64

definition workflow_edit_validation_schema :: string where
  "workflow_edit_validation_schema = ''bitween.workflow.edit-validation.v1''"

definition workflow_graph_rejection_code :: "string \<Rightarrow> string option" where
  "workflow_graph_rejection_code error =
     (if contains_str ''cycle_detected'' error then Some ''cycle_detected'' else None)"

definition dedupe_preflight_issues :: "workflow_preflight_issue list \<Rightarrow> workflow_preflight_issue list" where
  "dedupe_preflight_issues issues =
     foldl (\<lambda>seen i. if i \<in> set seen then seen else seen @ [i]) [] issues"

definition edit_report ::
    "workflow_template \<Rightarrow> workflow_preflight_issue list \<Rightarrow> string \<Rightarrow> u64 \<Rightarrow> workflow_edit_validation_report" where
  "edit_report template rejected step_id now =
     (let analytics = analyze_template template;
          issues = dedupe_preflight_issues (analytics_to_preflight_issues template analytics @ rejected);
          blocker_count = severity_count ''error'' issues;
          warning_count = severity_count ''warning'' issues in
      \<lparr>wev_schema = workflow_edit_validation_schema, wev_template_id = wt_id template,
       wev_step_id = step_id, wev_operation = ''update_step'',
       wev_status = (if blocker_count > 0 then ''blocked''
                     else if warning_count > 0 then ''needs_review'' else ''accepted''),
       wev_would_persist = (blocker_count = 0), wev_blocker_count = blocker_count,
       wev_warning_count = warning_count, wev_issues = issues, wev_proposed_analytics = analytics,
       wev_generated_at_unix = now\<rparr>)"

definition validate_step_update ::
    "(string \<Rightarrow> string) \<Rightarrow> workflow_template_store \<Rightarrow> string \<Rightarrow> string \<Rightarrow> workflow_step_input \<Rightarrow> u64 \<Rightarrow> nat
      \<Rightarrow> string + workflow_edit_validation_report" where
  "validate_step_update sha256 store template_id step_id input now event_seed =
     result_bind (template_ref store template_id) (\<lambda>original.
     result_bind (clean_step_id step_id ''step id'') (\<lambda>clean_id.
     case update_step sha256 store template_id clean_id input now event_seed of
       Inr draft \<Rightarrow> result_bind (template_ref draft template_id) (\<lambda>template.
         Inr (edit_report template [] clean_id now))
     | Inl error \<Rightarrow>
         (case workflow_graph_rejection_code error of
            None \<Rightarrow> Inl error
          | Some code \<Rightarrow> Inr (edit_report original
              [\<lparr>wpi_code = code, wpi_severity = ''error'', wpi_step_id = Some clean_id,
                wpi_owner = map_option ws_owner (find_step original clean_id)\<rparr>] clean_id now))))"

section \<open>Loading a store\<close>

definition workflow_template_store_schema :: string where
  "workflow_template_store_schema = ''bitween.workflow.template-store.v1''"

definition default_template :: "u64 \<Rightarrow> workflow_template" where
  "default_template now =
     \<lparr>wt_id = default_template_id, wt_version = 1,
      wt_title_key = ''preview.workflow.templates.payrollClose.title'',
      wt_steps = default_steps now, wt_updated_at_unix = now\<rparr>"

text \<open>The version record of the built-in template is valid; an error would be a panic.\<close>

definition default_store :: "(string \<Rightarrow> string) \<Rightarrow> u64 \<Rightarrow> string + workflow_template_store" where
  "default_store sha256 now =
     map_sum (\<lambda>e. e) refresh_store_analytics
       (ensure_template_version_records sha256
          \<lparr>wts_schema = workflow_template_store_schema, wts_templates = [default_template now],
           wts_template_versions = [], wts_analytics = [], wts_audit_events = [],
           wts_runtime_events = [], wts_data_records = []\<rparr> now)"

definition validate_store ::
    "(string \<Rightarrow> string) \<Rightarrow> u64 \<Rightarrow> workflow_template_store \<Rightarrow> string + workflow_template_store" where
  "validate_store sha256 now store =
     (let templates = (if wts_templates store = [] then [default_template now] else wts_templates store) in
      result_bind (try_map validate_template templates) (\<lambda>templates.
      result_bind (try_map (validate_template_version_record sha256) (wts_template_versions store)) (\<lambda>versions.
      let timestamp = (if templates = [] then now else foldr max (map wt_updated_at_unix templates) 0);
          store = store\<lparr>wts_schema := workflow_template_store_schema, wts_templates := templates,
                        wts_template_versions := versions\<rparr> in
      result_bind (ensure_template_version_records sha256 store timestamp) (\<lambda>store.
      Inr (refresh_store_analytics (sort_store store))))))"

text \<open>A missing file is the built-in store; \<open>parsed\<close> is what \<open>serde_json\<close> reads from the file.\<close>

definition load_template_store ::
    "(string \<Rightarrow> string) \<Rightarrow> u64 \<Rightarrow> (string + workflow_template_store) option \<Rightarrow> string + workflow_template_store" where
  "load_template_store sha256 now parsed =
     (case parsed of
        None \<Rightarrow> default_store sha256 now
      | Some file \<Rightarrow> result_bind file (validate_store sha256 now))"

definition workflow_store_path :: "string option \<Rightarrow> string option \<Rightarrow> string + string" where
  "workflow_store_path allow_local_review_store configured_path =
     (if \<not> truthy_env allow_local_review_store
      then Inl ''PostgreSQL relational workflow template storage is required; set BITWEEN_POSTGRES_DSN for production wiring or BITWEEN_ALLOW_LOCAL_REVIEW_STORE=true only for hermetic local review.''
      else Inr (unwrap_or ''.bitween/local-review/workflow/templates.json'' configured_path))"

end
