(* ===== verification/Workflow_Template_Laws.thy ===== *)
theory Workflow_Template_Laws
  imports Workflow_Template_Store "HOL-Library.Multiset"
begin

text \<open>
  Properties of the workflow template store: the graph analysis is exact, the plan is complete,
  and every store reachable from the built-in one by edits, executions and rollbacks keeps its
  templates acyclic, free of dangling edges and in step with the version history.
\<close>

section \<open>Finding by index\<close>

lemma index_of_Some:
  "index_of p xs = Some i \<Longrightarrow> i < length xs \<and> p (xs ! i) \<and> (\<forall>j < i. \<not> p (xs ! j))"
  by (induction xs arbitrary: i) (auto simp: less_Suc_eq_0_disj nth_Cons' split: if_splits)

lemma index_of_map: "index_of p (map f xs) = index_of (\<lambda>x. p (f x)) xs"
  by (induction xs) auto

lemma index_of_None: "index_of p xs = None \<longleftrightarrow> (\<forall>x \<in> set xs. \<not> p x)"
  by (induction xs) (auto split: if_splits)

lemma find_first_index: "find_first p xs = map_option ((!) xs) (index_of p xs)"
  by (induction xs) (auto simp: option.map_comp o_def)

lemma index_of_update: "index_of p xs = Some i \<Longrightarrow> p y \<Longrightarrow> index_of p (xs[i := y]) = Some i"
  by (induction xs arbitrary: i) (auto split: if_splits nat.split)

lemma template_ref_index:
  "template_ref store tid = Inr t \<longleftrightarrow>
     (\<exists>i. index_of (\<lambda>t. wt_id t = tid) (wts_templates store) = Some i \<and> t = wts_templates store ! i)"
  by (auto simp: template_ref_def find_first_index)

lemma template_ref_id: "template_ref store tid = Inr t \<Longrightarrow> wt_id t = tid \<and> t \<in> set (wts_templates store)"
  by (auto simp: template_ref_index dest: index_of_Some)

lemma step_index_Some:
  "step_index t sid = Inr i \<Longrightarrow> i < length (wt_steps t) \<and> ws_id (wt_steps t ! i) = sid"
  by (auto simp: step_index_def dest: index_of_Some)

lemma map_update_same: "i < length xs \<Longrightarrow> f y = f (xs ! i) \<Longrightarrow> map f (xs[i := y]) = map f xs"
  by (simp add: map_update list_update_same_conv)

lemma in_set_update: "x \<in> set (xs[i := y]) \<Longrightarrow> x = y \<or> (\<exists>j < length xs. j \<noteq> i \<and> x = xs ! j)"
  by (metis in_set_conv_nth length_list_update nth_list_update_eq nth_list_update_neq)

section \<open>Well-formed steps\<close>

definition step_edges :: "workflow_step_override list \<Rightarrow> (string \<times> string) set" where
  "step_edges steps = {(ws_id s, n) | s n. s \<in> set steps \<and> n \<in> set (ws_next_step_ids s)}"

definition leads_into :: "string set \<Rightarrow> workflow_step_override list \<Rightarrow> bool" where
  "leads_into ids steps \<longleftrightarrow> (\<forall>s \<in> set steps. set (ws_next_step_ids s) \<subseteq> ids)"

definition steps_ok :: "workflow_step_override list \<Rightarrow> bool" where
  "steps_ok steps \<longleftrightarrow>
     distinct (map ws_id steps) \<and> leads_into (ws_id ` set steps) steps \<and> acyclic (step_edges steps)"

lemma graph_edges:
  assumes "distinct (map ws_id steps)" "leads_into (ws_id ` set steps) steps"
  shows "edges (adjacency_of (step_nodes steps)) = step_edges steps"
proof -
  have nodes: "map fst (step_nodes steps) = map ws_id steps" by (simp add: step_nodes_def)
  have ids: "fst ` set (step_nodes steps) = ws_id ` set steps" by (force simp: step_nodes_def)
  have "children (adjacency_of (step_nodes steps)) (ws_id s) = ws_next_step_ids s" if "s \<in> set steps" for s
  proof -
    have "(ws_id s, ws_next_step_ids s) \<in> set (step_nodes steps)" using that by (simp add: step_nodes_def)
    then have "children (adjacency_of (step_nodes steps)) (ws_id s)
        = filter (\<lambda>n. n \<in> ws_id ` set steps) (ws_next_step_ids s)"
      using adjacency_of_children_distinct[of "step_nodes steps"] assms(1) by (simp add: nodes ids)
    also have "\<dots> = ws_next_step_ids s"
      using assms(2) that by (auto simp: leads_into_def intro!: filter_True)
    finally show ?thesis .
  qed
  moreover have "x \<in> ws_id ` set steps" if "(x, y) \<in> edges (adjacency_of (step_nodes steps))" for x y
    using edge_from_key[OF that] by (simp add: adjacency_of_keys ids)
  ultimately show ?thesis
    by (auto simp: step_edges_def) (metis edge_iff imageE)+
qed

lemma steps_ok_perm: "mset xs = mset ys \<Longrightarrow> steps_ok xs \<longleftrightarrow> steps_ok ys"
proof -
  assume a: "mset xs = mset ys"
  then have "set xs = set ys" by (rule mset_eq_setD)
  moreover have "distinct (map ws_id xs) \<longleftrightarrow> distinct (map ws_id ys)"
    using a by (metis mset_eq_imp_distinct_iff mset_map)
  ultimately show ?thesis by (simp add: steps_ok_def leads_into_def step_edges_def)
qed

lemma sort_steps_mset [simp]: "mset (sort_steps steps) = mset steps"
  by (simp add: sort_steps_def)

lemma accepted_acyclic:
  assumes "reject_blocking_graph_issues t = Inr u"
  shows "acyclic (edges (adjacency_of (step_nodes (wt_steps t))))"
proof -
  have "wta_cycle_detected (analyze_template t) = graph_has_cycle (adjacency_of (step_nodes (wt_steps t)))"
    by (simp add: analyze_template_def Let_def)
  moreover have "\<not> wta_cycle_detected (analyze_template t)"
    using assms
    by (auto simp: reject_blocking_graph_issues_def analyze_template_def Let_def template_issues_def issue_def
        split: option.splits if_splits)
  ultimately show ?thesis by (simp add: graph_has_cycle_iff)
qed

lemma accepted_steps_ok:
  "reject_blocking_graph_issues t = Inr u \<Longrightarrow> distinct (map ws_id (wt_steps t)) \<Longrightarrow>
     leads_into (ws_id ` set (wt_steps t)) (wt_steps t) \<Longrightarrow> steps_ok (wt_steps t)"
  using accepted_acyclic[of t u] graph_edges[of "wt_steps t"] by (simp add: steps_ok_def)

section \<open>Editing keeps ids and edges in the template\<close>

lemma leads_into_update:
  "leads_into ids steps \<Longrightarrow> set (ws_next_step_ids s) \<subseteq> ids \<Longrightarrow> leads_into ids (steps[i := s])"
  unfolding leads_into_def using set_update_subset_insert[of steps i s] by blast

lemma leads_into_nth: "leads_into ids steps \<Longrightarrow> i < length steps \<Longrightarrow> set (ws_next_step_ids (steps ! i)) \<subseteq> ids"
  by (simp add: leads_into_def)

definition keeps_ids :: "string set \<Rightarrow> workflow_step_override list \<Rightarrow> workflow_step_override list \<Rightarrow> bool" where
  "keeps_ids ids xs ys \<longleftrightarrow> length ys = length xs \<and> map ws_id ys = map ws_id xs \<and> leads_into ids ys"

lemma keeps_ids_update:
  "keeps_ids ids xs ys \<Longrightarrow> i < length xs \<Longrightarrow> ws_id s = ws_id (ys ! i) \<Longrightarrow> set (ws_next_step_ids s) \<subseteq> ids \<Longrightarrow>
     keeps_ids ids xs (ys[i := s])"
  by (simp add: keeps_ids_def map_update_same leads_into_update)

lemma keeps_ids_nth: "keeps_ids ids xs ys \<Longrightarrow> i < length xs \<Longrightarrow> set (ws_next_step_ids (ys ! i)) \<subseteq> ids"
  by (simp add: keeps_ids_def leads_into_nth)

lemma keeps_ids_refl: "leads_into ids xs \<Longrightarrow> keeps_ids ids xs xs"
  by (simp add: keeps_ids_def)

lemma keeps_ids_trans: "keeps_ids ids xs ys \<Longrightarrow> keeps_ids ids ys zs \<Longrightarrow> keeps_ids ids xs zs"
  by (simp add: keeps_ids_def)

lemma place_step_after_keeps:
  assumes run: "place_step_after t sid after_id = Inr t'" and edges: "leads_into ids (wt_steps t)" and sid: "sid \<in> ids"
  shows "keeps_ids ids (wt_steps t) (wt_steps t') \<and> wt_id t' = wt_id t \<and> wt_version t' = wt_version t"
proof -
  obtain aid i j where
    i: "step_index t sid = Inr i" and j: "step_index t aid = Inr j"
    and aid: "clean_step_id after_id ''after_step_id'' = Inr aid" "aid \<noteq> sid"
    and t': "t' = t\<lparr>wt_steps := placed_steps (wt_steps t) sid aid i j\<rparr>"
    using run by (auto simp: place_step_after_def result_bind_Inr_iff split: if_split_asm)
  have ij: "i < length (wt_steps t)" "j < length (wt_steps t)"
    using step_index_Some[OF i] step_index_Some[OF j] by auto
  define xs where "xs = map (\<lambda>s. s\<lparr>ws_next_step_ids := filter (\<lambda>n. n \<noteq> sid) (ws_next_step_ids s)\<rparr>) (wt_steps t)"
  define ys where "ys = xs[i := (xs ! i)\<lparr>ws_next_step_ids := filter (\<lambda>n. n \<noteq> sid \<and> n \<noteq> aid) (ws_next_step_ids (xs ! j))\<rparr>]"
  define zs where "zs = ys[j := (ys ! j)\<lparr>ws_next_step_ids := [sid]\<rparr>]"
  define ws where "ws = zs[i := (zs ! i)\<lparr>ws_position_x := lane_position_x (ws_lane (zs ! i)),
    ws_position_y := min (min (ws_position_y (zs ! j) + 1) 65535) max_position\<rparr>]"
  have xs: "keeps_ids ids (wt_steps t) xs"
    using edges by (auto simp: xs_def keeps_ids_def leads_into_def)
  have ys: "keeps_ids ids (wt_steps t) ys"
    unfolding ys_def using keeps_ids_nth[OF xs ij(2)] by (intro keeps_ids_update[OF xs ij(1)]) auto
  have zs: "keeps_ids ids (wt_steps t) zs"
    unfolding zs_def using sid by (intro keeps_ids_update[OF ys ij(2)]) auto
  have ws: "keeps_ids ids (wt_steps t) ws"
    unfolding ws_def using keeps_ids_nth[OF zs ij(1)] by (intro keeps_ids_update[OF zs ij(1)]) auto
  have "placed_steps (wt_steps t) sid aid i j = ws"
    unfolding placed_steps_def Let_def ws_def zs_def ys_def xs_def ..
  then show ?thesis using ws t' by simp
qed

lemma optionally_place_after_keeps:
  "optionally_place_after t sid after_id = Inr t' \<Longrightarrow> leads_into ids (wt_steps t) \<Longrightarrow> sid \<in> ids \<Longrightarrow>
     keeps_ids ids (wt_steps t) (wt_steps t') \<and> wt_id t' = wt_id t \<and> wt_version t' = wt_version t"
  by (auto simp: optionally_place_after_def keeps_ids_refl place_step_after_keeps split: option.splits)

lemma clean_existing_next_ids_subset:
  assumes "clean_existing_next_ids values' sid ids = Inr cleaned"
  shows "set cleaned \<subseteq> ids"
  using assms unfolding clean_existing_next_ids_def
  by (rule try_fold_invariant[where P = "\<lambda>c. set c \<subseteq> ids"])
     (auto simp: clean_next_id_def result_bind_Inr_iff split: if_splits)

lemma set_next_ids_keeps:
  assumes "set_next_ids t sid next_ids = Inr t'" "leads_into ids (wt_steps t)" "pred_option (\<lambda>ns. set ns \<subseteq> ids) next_ids"
  shows "keeps_ids ids (wt_steps t) (wt_steps t') \<and> wt_id t' = wt_id t \<and> wt_version t' = wt_version t"
proof (cases next_ids)
  case (Some ns)
  then obtain i where i: "step_index t sid = Inr i"
    and t': "t' = t\<lparr>wt_steps := (wt_steps t)[i := (wt_steps t ! i)\<lparr>ws_next_step_ids := ns\<rparr>]\<rparr>"
    using assms(1) by (auto simp: set_next_ids_def result_bind_Inr_iff)
  have "keeps_ids ids (wt_steps t) ((wt_steps t)[i := (wt_steps t ! i)\<lparr>ws_next_step_ids := ns\<rparr>])"
    using Some assms(2,3) step_index_Some[OF i] by (intro keeps_ids_update keeps_ids_refl) auto
  then show ?thesis by (simp add: t')
qed (use assms in \<open>auto simp: set_next_ids_def keeps_ids_refl\<close>)

lemma edited_step_keeps:
  "edited_step input s now = Inr s' \<Longrightarrow> ws_id s' = ws_id s \<and> ws_next_step_ids s' = ws_next_step_ids s"
  unfolding edited_step_def result_bind_Inr_iff
  by (elim exE conjE, drule sum.inject(2)[THEN iffD1], erule subst) simp

section \<open>The catalogue of templates and versions\<close>

text \<open>
  The templates have different, clean ids; each holds a well-formed graph and is the newest of its
  versions, up to the order of the steps; every recorded version is well-formed, so a rollback to
  it is.
\<close>

definition published :: "workflow_template_version_record list \<Rightarrow> workflow_template \<Rightarrow> bool" where
  "published versions t \<longleftrightarrow>
     (\<exists>r \<in> set versions. wtv_template_id r = wt_id t \<and> wtv_version r = wt_version t
        \<and> mset (wtv_steps r) = mset (wt_steps t))
     \<and> (\<forall>r \<in> set versions. wtv_template_id r = wt_id t \<longrightarrow> wtv_version r \<le> wt_version t)"

definition template_ok :: "workflow_template \<Rightarrow> bool" where
  "template_ok t \<longleftrightarrow>
     steps_ok (wt_steps t) \<and> clean_step_id (wt_id t) ''template id'' = Inr (wt_id t) \<and> wt_version t \<le> u32_max"

definition catalog_ok :: "workflow_template list \<Rightarrow> workflow_template_version_record list \<Rightarrow> bool" where
  "catalog_ok templates versions \<longleftrightarrow>
     distinct (map wt_id templates)
     \<and> (\<forall>t \<in> set templates. template_ok t \<and> published versions t)
     \<and> (\<forall>r \<in> set versions. steps_ok (wtv_steps r))"

definition wt_store_ok :: "workflow_template_store \<Rightarrow> bool" where
  "wt_store_ok store \<longleftrightarrow> catalog_ok (wts_templates store) (wts_template_versions store)"

lemma wt_store_okD:
  assumes "wt_store_ok store" "template_ref store tid = Inr t"
  shows "template_ok t" "published (wts_template_versions store) t" "wt_id t = tid"
    "clean_template_key tid ''template id'' = Inr tid"
  using assms template_ref_id[OF assms(2)] by (auto simp: wt_store_ok_def catalog_ok_def template_ok_def clean_template_key_def)

lemma wt_store_ok_refresh [simp]: "wt_store_ok (refresh_store_analytics store) = wt_store_ok store"
  by (simp add: refresh_store_analytics_def wt_store_ok_def)

lemma template_ok_sorted [simp]: "template_ok (t\<lparr>wt_steps := sort_steps (wt_steps t)\<rparr>) = template_ok t"
  using steps_ok_perm[OF sort_steps_mset[of "wt_steps t"]] by (simp add: template_ok_def)

lemma sorted_template_id [simp]: "wt_id \<circ> (\<lambda>t. t\<lparr>wt_steps := sort_steps (wt_steps t)\<rparr>) = wt_id"
  by (simp add: fun_eq_iff)

lemma distinct_sort_key [simp]: "distinct (map f (sort_key g xs)) = distinct (map f xs)"
proof -
  have "mset (map f (sort_key g xs)) = mset (map f xs)" by simp
  then show ?thesis by (metis mset_eq_imp_distinct_iff)
qed

lemma published_sorted [simp]:
  "published (sort_key k vs) t = published vs t"
  "published vs (t\<lparr>wt_steps := sort_steps (wt_steps t)\<rparr>) = published vs t"
  by (simp_all add: published_def)

lemma wt_store_ok_sort [simp]: "wt_store_ok (sort_store store) = wt_store_ok store"
  by (simp add: wt_store_ok_def catalog_ok_def sort_store_def)

text \<open>Publishing the edited template under its next version.\<close>

lemma version_recordD:
  assumes "template_version_record sha256 t summary role now rb = Inr r"
  shows "wtv_template_id r = wt_id t" "wtv_version r = wt_version t" "wtv_steps r = wt_steps t"
  using assms by (auto simp: template_version_record_def Let_def result_bind_Inr_iff)

lemma next_versionD:
  assumes "next_template_version store tid = Inr v" "template_ref store tid = Inr t" "wt_version t \<le> u32_max"
    "\<forall>r \<in> set (wts_template_versions store). wtv_template_id r = tid \<longrightarrow> wtv_version r \<le> wt_version t"
  shows "v = min (wt_version t + 1) u32_max"
proof -
  have "foldr max ns 0 \<le> c" if "\<forall>n \<in> set ns. n \<le> c" for ns and c :: nat
    using that by (induction ns) auto
  then have "foldr max (recorded_versions store tid) 0 \<le> wt_version t"
    using assms(4) by (auto simp: recorded_versions_def)
  then show ?thesis
    using assms(1,2) by (auto simp: next_template_version_def Let_def max_def split: if_splits)
qed

lemma put_template_index:
  assumes "index_of (\<lambda>t. wt_id t = tid) (wts_templates store) = Some i"
  shows "put_template store tid t = store\<lparr>wts_templates := (wts_templates store)[i := t]\<rparr>"
  using assms by (simp add: put_template_def)

lemma publish_run:
  assumes ok: "wt_store_ok store" and ref: "template_ref store tid = Inr t0"
    and t: "wt_id t = tid" "wt_version t = wt_version t0"
    and same: "wts_templates store1 = wts_templates (put_template store tid t)"
      "wts_template_versions store1 = wts_template_versions store"
    and run: "publish_template_version sha256 store1 tid summary role now rb = Inr store2"
  obtains i r where "index_of (\<lambda>t. wt_id t = tid) (wts_templates store) = Some i"
    "wts_templates store2 = (wts_templates store)
       [i := t\<lparr>wt_version := min (wt_version t0 + 1) u32_max, wt_updated_at_unix := now\<rparr>]"
    "wts_template_versions store2 = wts_template_versions store @ [r]"
    "wtv_template_id r = tid" "wtv_version r = min (wt_version t0 + 1) u32_max" "wtv_steps r = wt_steps t"
proof -
  obtain i where i: "index_of (\<lambda>t. wt_id t = tid) (wts_templates store) = Some i"
    using ref by (auto simp: template_ref_index)
  have len: "i < length (wts_templates store)" using index_of_Some[OF i] by simp
  have templates1: "wts_templates store1 = (wts_templates store)[i := t]"
    using same(1) put_template_index[OF i] by simp
  then have i1: "index_of (\<lambda>t. wt_id t = tid) (wts_templates store1) = Some i"
    using index_of_update[OF i] t(1) by simp
  then have ref1: "template_ref store1 tid = Inr t" using templates1 len by (simp add: template_ref_index)
  obtain v r x where v: "next_template_version store1 tid = Inr v"
    and r: "template_version_record sha256 (t\<lparr>wt_version := v, wt_updated_at_unix := now\<rparr>) summary x now rb = Inr r"
    and s2: "store2 = (put_template store1 tid (t\<lparr>wt_version := v, wt_updated_at_unix := now\<rparr>))
               \<lparr>wts_template_versions := wts_template_versions store1 @ [r]\<rparr>"
    using run wt_store_okD(4)[OF ok ref] ref1
    by (auto simp: publish_template_version_def result_bind_Inr_iff Let_def put_template_def i1)
  have "v = min (wt_version t + 1) u32_max"
    using wt_store_okD[OF ok ref] same(2) t
    by (intro next_versionD[OF v ref1]) (auto simp: template_ok_def published_def)
  then show thesis
    using that[OF i] r s2 templates1 same(2) t version_recordD[OF r] by (simp add: put_template_index[OF i1])
qed

text \<open>
  A store extends another when its history has exactly one record more, whose version is greater
  than every earlier one of the template (or is the greatest \<open>u32\<close>, where the counter stays).
\<close>

definition extends_history :: "workflow_template_store \<Rightarrow> workflow_template_store \<Rightarrow> bool" where
  "extends_history store store' \<longleftrightarrow>
     (\<exists>r. mset (wts_template_versions store') = add_mset r (mset (wts_template_versions store))
        \<and> (\<forall>q \<in> set (wts_template_versions store). wtv_template_id q = wtv_template_id r \<longrightarrow>
              wtv_version q < wtv_version r \<or> wtv_version r = u32_max))"

definition good_step :: "workflow_template_store \<Rightarrow> workflow_template_store \<Rightarrow> bool" where
  "good_step store store' \<longleftrightarrow>
     wt_store_ok store' \<and> extends_history store store'
     \<and> wt_id ` set (wts_templates store') = wt_id ` set (wts_templates store)"

lemma good_step_refresh [simp]: "good_step store (refresh_store_analytics (sort_store store')) = good_step store store'"
proof -
  have "mset (wts_template_versions (refresh_store_analytics (sort_store store'))) = mset (wts_template_versions store')"
    by (simp add: refresh_store_analytics_def sort_store_def)
  moreover have "wt_id ` set (wts_templates (refresh_store_analytics (sort_store store'))) = wt_id ` set (wts_templates store')"
    by (simp add: refresh_store_analytics_def sort_store_def image_image)
  ultimately show ?thesis by (simp add: good_step_def extends_history_def)
qed

lemma publish_good:
  assumes ok: "wt_store_ok store" and ref: "template_ref store tid = Inr t0"
    and t: "wt_id t = tid" "wt_version t = wt_version t0" "steps_ok (wt_steps t)"
    and same: "wts_templates store1 = wts_templates (put_template store tid t)"
      "wts_template_versions store1 = wts_template_versions store"
    and run: "publish_template_version sha256 store1 tid summary role now rb = Inr store2"
  shows "good_step store store2"
proof -
  let ?v = "min (wt_version t0 + 1) u32_max"
  let ?t = "t\<lparr>wt_version := ?v, wt_updated_at_unix := now\<rparr>"
  obtain i r where i: "index_of (\<lambda>t. wt_id t = tid) (wts_templates store) = Some i"
    and ts: "wts_templates store2 = (wts_templates store)[i := ?t]"
    and vs: "wts_template_versions store2 = wts_template_versions store @ [r]"
    and r: "wtv_template_id r = tid" "wtv_version r = ?v" "wtv_steps r = wt_steps t"
    by (rule publish_run[OF ok ref t(1,2) same run])
  have i': "i < length (wts_templates store)" "wt_id (wts_templates store ! i) = tid"
    using index_of_Some[OF i] by simp_all
  have t0: "template_ok t0" "published (wts_template_versions store) t0" "wt_id t0 = tid"
    using wt_store_okD[OF ok ref] by simp_all
  have ids: "map wt_id ((wts_templates store)[i := ?t]) = map wt_id (wts_templates store)"
    using i' t(1) by (intro map_update_same) simp_all
  have bound: "wt_version t0 \<le> ?v" using t0(1) by (simp add: template_ok_def)
  have this_ok: "template_ok ?t \<and> published (wts_template_versions store @ [r]) ?t"
    using t0 t r bound by (auto simp: template_ok_def published_def)
  have others: "template_ok x \<and> published (wts_template_versions store @ [r]) x"
    if "j < length (wts_templates store)" "j \<noteq> i" "x = wts_templates store ! j" for j x
  proof -
    have "x \<in> set (wts_templates store)" using that by simp
    moreover have "wt_id x \<noteq> tid"
      using that i' ok by (metis catalog_ok_def length_map nth_eq_iff_index_eq nth_map wt_store_ok_def)
    ultimately show ?thesis using ok r(1) by (auto simp: wt_store_ok_def catalog_ok_def published_def)
  qed
  have "template_ok x \<and> published (wts_template_versions store @ [r]) x"
    if "x \<in> set ((wts_templates store)[i := ?t])" for x
  proof -
    from in_set_update[OF that] show ?thesis using this_ok others by (elim disjE exE conjE) simp_all
  qed
  then have "wt_store_ok store2"
    using ok r(3) t(3) unfolding wt_store_ok_def catalog_ok_def ts vs ids by auto
  moreover have "extends_history store store2"
  proof -
    have "wtv_version q < ?v \<or> ?v = u32_max" if "q \<in> set (wts_template_versions store)" "wtv_template_id q = tid" for q
      using that t0(2,3) by (auto simp: published_def)
    then show ?thesis by (auto simp: extends_history_def vs r intro!: exI[of _ r])
  qed
  moreover have "wt_id ` set (wts_templates store2) = wt_id ` set (wts_templates store)"
    using arg_cong[OF ids, of set] unfolding ts set_map .
  ultimately show ?thesis by (simp add: good_step_def)
qed

lemma events_keep:
  "push_audit_event store tid sid act role now seed = Inr store' \<Longrightarrow> good_step store0 store' = good_step store0 store"
  "push_runtime_event store tid sid act role aff ops b a now seed = Inr store' \<Longrightarrow> good_step store0 store' = good_step store0 store"
  by (auto simp: push_audit_event_def push_runtime_event_def result_bind_Inr_iff good_step_def wt_store_ok_def extends_history_def)

lemma commit_good:
  assumes "wt_store_ok store" "template_ref store tid = Inr t0" "wt_id t = tid" "wt_version t = wt_version t0"
    and wf: "distinct (map ws_id (wt_steps t))" "leads_into (ws_id ` set (wt_steps t)) (wt_steps t)"
    and run: "commit_edit sha256 store tid t sid act role now seed rb = Inr store'"
  shows "good_step store store'"
proof -
  obtain u store2 store3 where u: "reject_blocking_graph_issues t = Inr u"
    and p: "publish_template_version sha256 (put_template store tid (t\<lparr>wt_updated_at_unix := now\<rparr>)) tid act role now rb = Inr store2"
    and a: "push_audit_event store2 tid sid act role now seed = Inr store3"
    and s': "store' = refresh_store_analytics (sort_store store3)"
    using run by (auto simp: commit_edit_def result_bind_Inr_iff Let_def)
  have "good_step store store2"
    using publish_good[OF assms(1,2) _ _ _ _ _ p, of "t\<lparr>wt_updated_at_unix := now\<rparr>"]
      assms(3,4) accepted_steps_ok[OF u wf] by (simp add: put_template_def split: option.splits)
  then show ?thesis using events_keep(1)[OF a] by (simp add: s')
qed

text \<open>Editing one template: what the edited steps must satisfy for the store to stay well-formed.\<close>

lemma keeps_ids_wf:
  assumes "keeps_ids (ws_id ` set xs) xs ys" "distinct (map ws_id xs)"
  shows "distinct (map ws_id ys) \<and> leads_into (ws_id ` set ys) ys"
  using assms by (metis keeps_ids_def image_set)

lemma normalize_position_keeps [simp]:
  "ws_id (normalize_step_position s) = ws_id s"
  "ws_next_step_ids (normalize_step_position s) = ws_next_step_ids s"
  by (simp_all add: normalize_step_position_def Let_def)

lemma opt_try_Some: "opt_try f x = Inr (Some y) \<Longrightarrow> \<exists>v. x = Some v \<and> f v = Inr y"
  by (auto simp: opt_try_def result_bind_Inr_iff split: option.splits)

lemma clean_next_subset:
  assumes "opt_try (\<lambda>ids. clean_next_step_ids ids sid steps) x = Inr next_ids"
  shows "set (unwrap_or [] next_ids) \<subseteq> ws_id ` set steps"
proof (cases next_ids)
  case (Some ns)
  then show ?thesis
    using opt_try_Some[OF assms[unfolded Some]]
    by (auto simp: clean_next_step_ids_def dest: clean_existing_next_ids_subset)
qed simp

lemma new_step_keeps:
  "new_step t input sid title act now = Inr s \<Longrightarrow>
     ws_id s = sid \<and> set (ws_next_step_ids s) \<subseteq> ws_id ` set (wt_steps t)"
  unfolding new_step_def Let_def result_bind_Inr_iff
  by (elim exE conjE, drule sum.inject(2)[THEN iffD1], drule clean_next_subset, erule subst) simp

lemma add_step_good:
  assumes ok: "wt_store_ok store" and run: "add_step sha256 store tid input now seed = Inr store'"
  shows "good_step store store'"
proof -
  obtain t where ref: "template_ref store tid = Inr t" using run by (auto simp: add_step_def result_bind_Inr_iff)
  obtain sid s t' title act where new: "sid \<notin> ws_id ` set (wt_steps t)"
    and s: "new_step t input sid title act now = Inr s"
    and place: "optionally_place_after (t\<lparr>wt_steps := wt_steps t @ [s]\<rparr>) sid (wsi_after_step_id input) = Inr t'"
    and commit: "commit_edit sha256 store tid t' sid ''add_step'' (wsi_actor_role input) now seed None = Inr store'"
    using run ref by (auto simp: add_step_def result_bind_Inr_iff Let_def split: if_splits)
  let ?xs = "wt_steps t @ [s]"
  have wf: "distinct (map ws_id (wt_steps t))" "leads_into (ws_id ` set (wt_steps t)) (wt_steps t)"
    using wt_store_okD(1)[OF ok ref] by (simp_all add: template_ok_def steps_ok_def)
  then have xs: "distinct (map ws_id ?xs)" "leads_into (ws_id ` set ?xs) ?xs"
    using new new_step_keeps[OF s] by (auto simp: leads_into_def)
  have k: "keeps_ids (ws_id ` set ?xs) ?xs (wt_steps t') \<and> wt_id t' = wt_id t \<and> wt_version t' = wt_version t"
    using optionally_place_after_keeps[OF place, of "ws_id ` set ?xs"] xs new_step_keeps[OF s] by simp
  show ?thesis
    using commit_good[OF ok ref _ _ _ _ commit] k keeps_ids_wf[OF conjunct1[OF k] xs(1)] wt_store_okD(3)[OF ok ref]
    by simp
qed

lemma update_step_good:
  assumes ok: "wt_store_ok store" and run: "update_step sha256 store tid step_id input now seed = Inr store'"
  shows "good_step store store'"
proof -
  obtain t where ref: "template_ref store tid = Inr t" using run by (auto simp: update_step_def result_bind_Inr_iff)
  let ?ids = "ws_id ` set (wt_steps t)"
  obtain sid next_ids i s t1 t2 where
    n: "opt_try (\<lambda>ids. clean_next_step_ids ids sid (wt_steps t)) (wsi_next_step_ids input) = Inr next_ids"
    and i: "step_index t sid = Inr i" and s: "edited_step input (wt_steps t ! i) now = Inr s"
    and place: "optionally_place_after (t\<lparr>wt_steps := (wt_steps t)[i := s]\<rparr>) sid (wsi_after_step_id input) = Inr t1"
    and nx: "set_next_ids t1 sid next_ids = Inr t2"
    and commit: "commit_edit sha256 store tid t2 sid ''update_step'' (wsi_actor_role input) now seed None = Inr store'"
    using run ref by (auto simp: update_step_def result_bind_Inr_iff)
  have wf: "distinct (map ws_id (wt_steps t))" "leads_into ?ids (wt_steps t)"
    using wt_store_okD(1)[OF ok ref] by (simp_all add: template_ok_def steps_ok_def)
  have i': "i < length (wt_steps t)" "ws_id (wt_steps t ! i) = sid" using step_index_Some[OF i] by simp_all
  then have sid: "sid \<in> ?ids" by force
  have k0: "keeps_ids ?ids (wt_steps t) ((wt_steps t)[i := s])"
    using edited_step_keeps[OF s] i' wf(2) leads_into_nth[OF wf(2) i'(1)]
    by (intro keeps_ids_update keeps_ids_refl) auto
  have k1: "keeps_ids ?ids ((wt_steps t)[i := s]) (wt_steps t1) \<and> wt_id t1 = wt_id t \<and> wt_version t1 = wt_version t"
    using optionally_place_after_keeps[OF place, of ?ids] k0 sid by (simp add: keeps_ids_def)
  have "pred_option (\<lambda>ns. set ns \<subseteq> ?ids) next_ids" using clean_next_subset[OF n] by (cases next_ids) auto
  then have k2: "keeps_ids ?ids (wt_steps t1) (wt_steps t2) \<and> wt_id t2 = wt_id t1 \<and> wt_version t2 = wt_version t1"
    using set_next_ids_keeps[OF nx, of ?ids] k1 by (simp add: keeps_ids_def)
  have k: "keeps_ids ?ids (wt_steps t) (wt_steps t2)"
    using keeps_ids_trans[OF keeps_ids_trans[OF k0] , of "wt_steps t1" "wt_steps t2"] k1 k2 by blast
  show ?thesis
    using commit_good[OF ok ref _ _ _ _ commit] k1 k2 keeps_ids_wf[OF k wf(1)] wt_store_okD(3)[OF ok ref] by simp
qed

lemma bridge_next:
  "set (ws_next_step_ids (bridge_step d ns s)) \<subseteq> (set (ws_next_step_ids s) - {d}) \<union> set ns"
proof -
  have "set (foldl (\<lambda>ids n. if n \<noteq> x \<and> n \<notin> set ids then ids @ [n] else ids) ids ns) \<subseteq> set ids \<union> set ns" for x ids
  proof (induction ns arbitrary: ids)
    case (Cons n ns)
    show ?case
    proof (cases "n \<noteq> x \<and> n \<notin> set ids")
      case True
      have "set (foldl (\<lambda>ids n. if n \<noteq> x \<and> n \<notin> set ids then ids @ [n] else ids) (ids @ [n]) ns)
          \<subseteq> set (ids @ [n]) \<union> set ns" by (rule Cons)
      also have "\<dots> = set ids \<union> set (n # ns)" by auto
      finally show ?thesis using True by simp
    next
      case False
      have "set (foldl (\<lambda>ids n. if n \<noteq> x \<and> n \<notin> set ids then ids @ [n] else ids) ids ns)
          \<subseteq> set ids \<union> set ns" by (rule Cons)
      also have "\<dots> \<subseteq> set ids \<union> set (n # ns)" by auto
      finally show ?thesis using False by auto
    qed
  qed simp
  from this[of "ws_id s" "filter (\<lambda>n. n \<noteq> d) (ws_next_step_ids s)"] show ?thesis
    by (auto simp: bridge_step_def)
qed

lemma bridge_id [simp]: "ws_id (bridge_step d ns s) = ws_id s"
  by (simp add: bridge_step_def)

lemma delete_step_good:
  assumes ok: "wt_store_ok store" and run: "delete_step sha256 store tid step_id input now seed = Inr store'"
  shows "good_step store store'"
proof -
  obtain t sid i where ref: "template_ref store tid = Inr t" and i: "step_index t sid = Inr i"
    and commit: "commit_edit sha256 store tid (t\<lparr>wt_steps := map (bridge_step sid (ws_next_step_ids (wt_steps t ! i)))
      (take i (wt_steps t) @ drop (Suc i) (wt_steps t))\<rparr>) sid ''delete_step'' (wsi_actor_role input) now seed None = Inr store'"
    using run by (auto simp: delete_step_def result_bind_Inr_iff Let_def split: if_splits)
  let ?xs = "take i (wt_steps t)" and ?x = "wt_steps t ! i" and ?ys = "drop (Suc i) (wt_steps t)"
  have i': "i < length (wt_steps t)" "ws_id ?x = sid" using step_index_Some[OF i] by simp_all
  have split: "wt_steps t = ?xs @ ?x # ?ys" by (rule id_take_nth_drop[OF i'(1)])
  have wf: "steps_ok (wt_steps t)" using wt_store_okD(1)[OF ok ref] by (simp add: template_ok_def)
  then have d: "distinct (map ws_id (?xs @ ?x # ?ys))" and l: "leads_into (ws_id ` set (?xs @ ?x # ?ys)) (?xs @ ?x # ?ys)"
    and ac: "acyclic (step_edges (wt_steps t))"
    using split by (simp_all add: steps_ok_def)
  have "(sid, sid) \<notin> step_edges (wt_steps t)" using ac by (auto simp: acyclic_def)
  then have no_self: "sid \<notin> set (ws_next_step_ids ?x)" using i' by (auto simp: step_edges_def)
  have "set (ws_next_step_ids (bridge_step sid (ws_next_step_ids ?x) s)) \<subseteq> ws_id ` set (?xs @ ?ys)"
    if "s \<in> set (?xs @ ?ys)" for s
    using bridge_next[of sid "ws_next_step_ids ?x" s] l that no_self i'(2) by (auto simp: leads_into_def) blast+
  then have "leads_into (ws_id ` set (?xs @ ?ys)) (map (bridge_step sid (ws_next_step_ids ?x)) (?xs @ ?ys))"
    by (auto simp: leads_into_def)
  moreover have "ws_id ` set (map (bridge_step sid (ws_next_step_ids ?x)) (?xs @ ?ys)) = ws_id ` set (?xs @ ?ys)"
    by (simp add: image_Un image_image)
  moreover have "distinct (map ws_id (map (bridge_step sid (ws_next_step_ids ?x)) (?xs @ ?ys)))"
    using d by (simp add: o_def)
  ultimately show ?thesis
    using commit_good[OF ok ref _ _ _ _ commit] wt_store_okD(3)[OF ok ref] by simp
qed

lemma rollback_good:
  assumes ok: "wt_store_ok store" and run: "rollback_template sha256 store tid version input now seed = Inr store'"
  shows "good_step store store'"
proof -
  obtain cid target t where ref: "template_ref store cid = Inr t"
    and target: "find_first (\<lambda>r. wtv_template_id r = cid \<and> wtv_version r = version) (wts_template_versions store) = Some target"
    and commit: "commit_edit sha256 store cid (t\<lparr>wt_steps := wtv_steps target\<rparr>) ''template'' ''rollback_version''
      (wsi_actor_role input) now seed (Some version) = Inr store'"
    using run by (auto simp: rollback_template_def result_bind_Inr_iff Let_def split: if_splits)
  have "target \<in> set (wts_template_versions store)" using find_first_Some[OF target] by simp
  then have "steps_ok (wtv_steps target)" using ok by (simp add: wt_store_ok_def catalog_ok_def)
  then show ?thesis
    using commit_good[OF ok ref _ _ _ _ commit] wt_store_okD(3)[OF ok ref] by (simp add: steps_ok_def)
qed

text \<open>Executing a step changes no id and no edge.\<close>

definition nodes_ok :: "(string \<times> string list) list \<Rightarrow> bool" where
  "nodes_ok nodes \<longleftrightarrow>
     distinct (map fst nodes) \<and> (\<forall>x \<in> set nodes. set (snd x) \<subseteq> fst ` set nodes)
     \<and> acyclic (\<Union>x \<in> set nodes. Pair (fst x) ` set (snd x))"

lemma steps_ok_iff_nodes: "steps_ok steps = nodes_ok (step_nodes steps)"
proof -
  have "step_edges steps = (\<Union>x \<in> set (step_nodes steps). Pair (fst x) ` set (snd x))"
    by (auto simp: step_edges_def step_nodes_def)
  then show ?thesis by (simp add: steps_ok_def nodes_ok_def leads_into_def step_nodes_def image_image o_def)
qed

lemma steps_ok_nodes: "step_nodes xs = step_nodes ys \<Longrightarrow> steps_ok xs = steps_ok ys"
  by (simp add: steps_ok_iff_nodes)

lemma step_nodes_update:
  "i < length steps \<Longrightarrow> ws_id s = ws_id (steps ! i) \<Longrightarrow> ws_next_step_ids s = ws_next_step_ids (steps ! i) \<Longrightarrow>
     step_nodes (steps[i := s]) = step_nodes steps"
  unfolding step_nodes_def by (intro map_update_same) simp_all

lemma wake_step_nodes: "step_nodes (wake_step now steps n) = step_nodes steps"
  by (auto simp: wake_step_def intro!: step_nodes_update split: option.split dest: index_of_Some)

lemma complete_step_nodes: "i < length steps \<Longrightarrow> step_nodes (complete_step now i steps) = step_nodes steps"
proof -
  have "step_nodes (foldl (wake_step now) xs ns) = step_nodes xs" for xs ns
    by (induction ns arbitrary: xs) (simp_all add: wake_step_nodes)
  then show "i < length steps \<Longrightarrow> ?thesis" by (simp add: complete_step_def step_nodes_update)
qed

lemma apply_data_operations_keeps:
  assumes "apply_data_operations store tid sid ops now = Inr store'"
  shows "wts_templates store' = wts_templates store \<and> wts_template_versions store' = wts_template_versions store"
  using assms unfolding apply_data_operations_def
  by (rule try_fold_invariant[where P = "\<lambda>s. wts_templates s = wts_templates store \<and> wts_template_versions s = wts_template_versions store"])
     (auto simp: result_bind_Inr_iff)

lemma execute_step_good:
  assumes ok: "wt_store_ok store" and run: "execute_step sha256 store tid step_id input now seed = Inr store'"
  shows "good_step store store'"
proof -
  obtain t sid i where ref: "template_ref store tid = Inr t" and i: "step_index t sid = Inr i"
    using run by (auto simp: execute_step_def result_bind_Inr_iff)
  let ?t = "t\<lparr>wt_steps := complete_step now i (wt_steps t), wt_updated_at_unix := now\<rparr>"
  obtain sid' i' where i': "step_index t sid' = Inr i'" and cid: "clean_step_id step_id ''step id'' = Inr sid'"
    using run ref by (auto simp: execute_step_def result_bind_Inr_iff)
  let ?t = "t\<lparr>wt_steps := complete_step now i' (wt_steps t), wt_updated_at_unix := now\<rparr>"
  obtain ops store1 store2 store3 store4 aff sb where
    a: "apply_data_operations (put_template store tid ?t) tid sid' ops now = Inr store1"
    and p: "publish_template_version sha256 store1 tid ''execute_step'' (wsi_actor_role input) now None = Inr store2"
    and e: "push_audit_event store2 tid sid' ''execute_step'' (wsi_actor_role input) now seed = Inr store3"
      "push_runtime_event store3 tid sid' ''execute_step'' (wsi_actor_role input) aff ops sb ''completed'' now seed = Inr store4"
    and s': "store' = refresh_store_analytics (sort_store store4)"
    using run ref i' cid by (auto simp: execute_step_def result_bind_Inr_iff Let_def split: if_splits)
  have "i' < length (wt_steps t)" using step_index_Some[OF i'] by simp
  then have "steps_ok (wt_steps ?t)"
    using wt_store_okD(1)[OF ok ref] steps_ok_nodes[OF complete_step_nodes, of i' "wt_steps t" now] by (simp add: template_ok_def)
  then have "good_step store store2"
    using publish_good[OF ok ref _ _ _ _ _ p, of ?t] wt_store_okD(3)[OF ok ref] apply_data_operations_keeps[OF a]
    by (simp add: put_template_def split: option.splits)
  then show ?thesis using events_keep(1)[OF e(1)] events_keep(2)[OF e(2)] by (simp add: s')
qed

section \<open>Reachable stores\<close>

inductive store_step :: "(string \<Rightarrow> string) \<Rightarrow> workflow_template_store \<Rightarrow> workflow_template_store \<Rightarrow> bool"
  for sha256 where
  add: "add_step sha256 store tid input now seed = Inr store' \<Longrightarrow> store_step sha256 store store'"
| update: "update_step sha256 store tid sid input now seed = Inr store' \<Longrightarrow> store_step sha256 store store'"
| delete: "delete_step sha256 store tid sid input now seed = Inr store' \<Longrightarrow> store_step sha256 store store'"
| rollback: "rollback_template sha256 store tid version input now seed = Inr store' \<Longrightarrow> store_step sha256 store store'"
| execute: "execute_step sha256 store tid sid input now seed = Inr store' \<Longrightarrow> store_step sha256 store store'"

inductive reachable_templates :: "(string \<Rightarrow> string) \<Rightarrow> workflow_template_store \<Rightarrow> bool" for sha256 where
  start: "default_store sha256 now = Inr store \<Longrightarrow> reachable_templates sha256 store"
| step: "reachable_templates sha256 store \<Longrightarrow> store_step sha256 store store' \<Longrightarrow> reachable_templates sha256 store'"

lemma store_step_good: "store_step sha256 store store' \<Longrightarrow> wt_store_ok store \<Longrightarrow> good_step store store'"
  by (induction rule: store_step.induct)
     (blast intro: add_step_good update_step_good delete_step_good rollback_good execute_step_good)+

lemma acyclic_rank:
  assumes "\<And>x y. (x, y) \<in> r \<Longrightarrow> f x < (f y :: int)"
  shows "acyclic r"
proof -
  have "f x < f y" if "(x, y) \<in> r\<^sup>+" for x y
    using that by (induction rule: trancl_induct) (use assms in force)+
  then show ?thesis by (fastforce simp: acyclic_def)
qed

lemma builtin_step_id [simp]: "ws_id (builtin_step i owner lane kind x y now) = i"
  by (simp add: builtin_step_def)

lemma default_nodes:
  "step_nodes (default_steps now) =
     [(''set-payroll-scope'', [''configure-access'']), (''configure-access'', [''close-attendance'']),
      (''close-attendance'', [''close-payroll-inputs'']), (''close-payroll-inputs'', [''review-deductions'']),
      (''review-deductions'', [''run-calculation'']), (''run-calculation'', [''request-approval'']),
      (''request-approval'', [''prepare-payout'']), (''prepare-payout'', [''archive-payroll-evidence'']),
      (''archive-payroll-evidence'', [])]"
  by (simp add: default_steps_def step_nodes_def)

lemma default_steps_ok: "steps_ok (default_steps now)"
  unfolding steps_ok_iff_nodes default_nodes nodes_ok_def
proof (intro conjI)
  show "acyclic (\<Union>x \<in> set [(''set-payroll-scope'', [''configure-access'']), (''configure-access'', [''close-attendance'']),
      (''close-attendance'', [''close-payroll-inputs'']), (''close-payroll-inputs'', [''review-deductions'']),
      (''review-deductions'', [''run-calculation'']), (''run-calculation'', [''request-approval'']),
      (''request-approval'', [''prepare-payout'']), (''prepare-payout'', [''archive-payroll-evidence'']),
      (''archive-payroll-evidence'', [])]. Pair (fst x) ` set (snd x))"
    by (rule acyclic_rank[where f = default_step_rank])
       (simp, elim disjE, simp_all add: default_step_rank_def)
qed simp_all

lemma default_template_id_clean: "clean_step_id default_template_id ''template id'' = Inr default_template_id"
  by code_simp

lemma default_store_ok:
  assumes "default_store sha256 now = Inr store"
  shows "wt_store_ok store"
proof -
  let ?t = "default_template now"
  obtain r where "template_version_record sha256 ?t ''import_current_version'' ''platform_owner'' now None = Inr r"
    and s: "wts_templates store = [?t]" "wts_template_versions store = [r]"
    using assms by (auto simp: default_store_def ensure_template_version_records_def refresh_store_analytics_def
        result_bind_def split: sum.splits)
  note r = version_recordD[OF this(1)]
  have "template_ok ?t"
    using default_steps_ok default_template_id_clean by (simp add: template_ok_def default_template_def u32_max_def)
  then show ?thesis
    using r default_steps_ok s by (simp add: wt_store_ok_def catalog_ok_def published_def template_ok_def)
qed

lemma reachable_store_ok: "reachable_templates sha256 store \<Longrightarrow> wt_store_ok store"
  by (induction rule: reachable_templates.induct) (auto intro: default_store_ok simp: good_step_def dest!: store_step_good)

section \<open>The analysis and the plan\<close>


text \<open>
  The plan lists every step of the template exactly once, and a step that is neither a root nor
  disconnected comes after one of the steps that lead to it.
\<close>

theorem plan_complete:
  "distinct (planned_step_ids_for_template t)
   \<and> set (planned_step_ids_for_template t) = ws_id ` set (wt_steps t)
   \<and> led_to (adjacency_of (step_nodes (wt_steps t)))
       (set (root_ids (step_nodes (wt_steps t))) \<union> set (wta_disconnected_step_ids (analyze_template t)))
       (planned_step_ids_for_template t)"
proof -
  let ?n = "step_nodes (wt_steps t)"
  let ?starts = "set (root_ids ?n) \<union> set (wta_disconnected_step_ids (analyze_template t))"
  let ?s = "collect_planned_steps (adjacency_of ?n) (root_ids ?n) ({}, [])"
  have ids: "set (map fst ?n) = ws_id ` set (wt_steps t)" by (force simp: step_nodes_def)
  have ok: "plan_ok ?s" by (rule collect_planned_ok) (simp add: plan_ok_def)
  have seen: "fst ?s = reachable_steps (root_ids ?n) (adjacency_of ?n)"
    by (simp add: collect_planned_reachable reachable_steps_def)
  have roots: "set (root_ids ?n) \<subseteq> ws_id ` set (wt_steps t)"
    using ids by (auto simp: root_ids_def Let_def)
  have "(edges (adjacency_of ?n))\<^sup>* `` set (root_ids ?n) \<subseteq> ws_id ` set (wt_steps t)"
  proof clarify
    fix x y
    assume "(x, y) \<in> (edges (adjacency_of ?n))\<^sup>*" "x \<in> set (root_ids ?n)"
    then show "y \<in> ws_id ` set (wt_steps t)"
      by (induction rule: rtrancl_induct) (use roots adjacency_of_children[of ?n] ids in auto)
  qed
  then have visited: "fst ?s \<union> set (map fst ?n) = ws_id ` set (wt_steps t)"
    using ids by (auto simp: seen reachable_steps_rtrancl)
  have led: "led_to (adjacency_of ?n) ?starts (snd ?s)"
    using collect_planned_led_to[of "adjacency_of ?n" ?starts "({}, [])" "root_ids ?n"] by (simp add: led_to_def)
  have "set (map fst ?n) - fst ?s \<subseteq> ?starts"
    by (auto simp: seen analyze_template_def Let_def disconnected_ids_def)
  then show ?thesis
    using plan_rest_ok[OF ok, of "map fst ?n"] visited plan_rest_led_to[OF led, of "map fst ?n"]
    by (simp add: planned_step_ids_for_template_def planned_ids_def plan_from_def plan_ok_def)
qed

section \<open>Clean keys\<close>

text \<open>The characters of a clean key: letters and digits that lowering leaves alone.\<close>

definition plain_char :: "char \<Rightarrow> bool" where
  "plain_char c \<longleftrightarrow> ascii_alphanumeric c \<and> ascii_lower c = c"

lemma plain_char_graphic: "plain_char c \<Longrightarrow> graphic c"
  by (auto simp: plain_char_def ascii_alphanumeric_def graphic_def is_digit_def)

lemma split_on_parts: "p \<in> set (split_on sep s) \<Longrightarrow> set p \<subseteq> set s - {sep}"
  by (induction sep s arbitrary: p rule: split_on.induct) (fastforce split: if_splits list.splits)+

lemma split_join:
  "ps \<noteq> [] \<Longrightarrow> \<forall>p \<in> set ps. sep \<notin> set p \<Longrightarrow> split_on sep (join_with [sep] ps) = ps"
  by (induction "[sep]" ps rule: join_with.induct) (simp_all add: split_on_none split_on_append)

lemma join_with_set: "set (join_with sep ps) \<subseteq> set sep \<union> \<Union>(set ` set ps)"
  by (induction sep ps rule: join_with.induct) auto

lemma key_words_idem:
  assumes sep: "graphic sep" "\<not> ascii_alphanumeric sep" "ascii_lower sep = sep"
  shows "key_words sep (key_words sep v) = key_words sep v"
proof -
  let ?f = "\<lambda>c. if ascii_alphanumeric c then c else sep"
  define ps where "ps = filter (\<lambda>p. p \<noteq> []) (split_on sep (map ?f (to_ascii_lowercase (trim v))))"
  have kv: "key_words sep v = join_with [sep] ps" by (simp add: key_words_def ps_def)
  have parts: "p \<noteq> [] \<and> sep \<notin> set p \<and> list_all plain_char p" if "p \<in> set ps" for p
  proof -
    have p: "p \<in> set (split_on sep (map ?f (to_ascii_lowercase (trim v))))" and "p \<noteq> []"
      using that by (simp_all add: ps_def)
    note split_on_parts[OF p] this(2)
    then show ?thesis by (fastforce simp: list_all_iff plain_char_def to_ascii_lowercase_def split: if_splits)
  qed
  let ?j = "join_with [sep] ps"
  have chars: "plain_char c \<or> c = sep" if "c \<in> set ?j" for c
    using that join_with_set[of "[sep]" ps] parts by (fastforce simp: list_all_iff)
  then have "list_all graphic ?j" using plain_char_graphic sep(1) by (auto simp: list_all_iff)
  then have "trim ?j = ?j" by (rule trim_graphic)
  moreover have "to_ascii_lowercase ?j = ?j"
    using chars sep(3) by (auto simp: to_ascii_lowercase_def plain_char_def intro!: map_idI)
  moreover have "?f c = c" if "c \<in> set ?j" for c using chars[OF that] by (auto simp: plain_char_def)
  then have "map ?f ?j = ?j" by (rule map_idI)
  ultimately have kj: "key_words sep ?j = join_with [sep] (filter (\<lambda>p. p \<noteq> []) (split_on sep ?j))"
    by (simp add: key_words_def)
  show ?thesis
  proof (cases "ps = []")
    case False
    then have "split_on sep ?j = ps" using parts by (intro split_join) auto
    moreover have "filter (\<lambda>p. p \<noteq> []) ps = ps" by (simp add: ps_def)
    ultimately show ?thesis by (simp add: kv kj)
  qed (simp add: kv, simp add: key_words_def to_ascii_lowercase_def)
qed

interpretation step_key: normaliser "key_words (CHR ''-'')"
  by unfold_locales (intro key_words_idem; code_simp)

interpretation metadata_key: normaliser "key_words (CHR ''_'')"
  by unfold_locales (intro key_words_idem; code_simp)

lemma clean_step_id_idem: "clean_step_id v name = Inr c \<Longrightarrow> clean_step_id c name' = Inr c"
  using step_key.idem[of v] by (auto simp: clean_step_id_def Let_def split: if_splits)

section \<open>Trying an edit\<close>

lemma update_step_clean:
  "clean_step_id step_id ''step id'' = Inr clean_id \<Longrightarrow>
     update_step sha256 store tid clean_id input now seed = update_step sha256 store tid step_id input now seed"
  using clean_step_id_idem[of step_id "''step id''" clean_id "''step id''"] by (simp add: update_step_def)

lemma analysis_errors:
  assumes "steps_ok (wt_steps t)"
  shows "filter (\<lambda>i. wpi_severity i = ''error'') (analytics_to_preflight_issues t (analyze_template t)) = []"
proof -
  have "\<not> graph_has_cycle (adjacency_of (step_nodes (wt_steps t)))"
    using assms graph_edges[of "wt_steps t"] by (simp add: graph_has_cycle_iff steps_ok_def)
  then have "wvi_severity i \<noteq> ''error''" if "i \<in> set (wta_validation_issues (analyze_template t))" for i
    using that
    by (auto simp: analyze_template_def Let_def template_issues_def step_issues_def issue_def split: if_splits)
  then show ?thesis by (auto simp: analytics_to_preflight_issues_def filter_empty_conv)
qed

lemma dedupe_snoc: "dedupe_preflight_issues (xs @ [i])
   = (if i \<in> set (dedupe_preflight_issues xs) then dedupe_preflight_issues xs else dedupe_preflight_issues xs @ [i])"
  by (simp add: dedupe_preflight_issues_def)

lemma dedupe_set: "set (dedupe_preflight_issues xs) = set xs"
  by (induction xs rule: rev_induct) (simp add: dedupe_preflight_issues_def, auto simp: dedupe_snoc)

lemma severity_none: "\<forall>i \<in> set issues. wpi_severity i \<noteq> severity \<Longrightarrow> severity_count severity issues = 0"
  by (simp add: severity_count_def as_u16_def filter_empty_conv[THEN iffD2])

section \<open>A run from the built-in store\<close>

lemma steps_ok_accepted: "steps_ok (wt_steps t) \<Longrightarrow> reject_blocking_graph_issues t = Inr ()"
proof -
  assume "steps_ok (wt_steps t)"
  then have "\<not> graph_has_cycle (adjacency_of (step_nodes (wt_steps t)))"
    using graph_edges[of "wt_steps t"] by (simp add: graph_has_cycle_iff steps_ok_def)
  then have "find_first (\<lambda>i. wvi_severity i = ''error'') (wta_validation_issues (analyze_template t)) = None"
    by (auto simp: find_first_None analyze_template_def Let_def template_issues_def step_issues_def issue_def split: if_splits)
  then show ?thesis by (simp add: reject_blocking_graph_issues_def)
qed

lemma platform_owner_allowed: "allowed_value ''platform_owner'' ''actor_role'' allowed_owners = Inr ''platform_owner''"
  by code_simp

lemma actor_none: "actor_or_owner None = Inr ''platform_owner''"
  by (simp add: actor_or_owner_def opt_try_def)

lemma commit_runs:
  assumes ok: "wt_store_ok store" and ref: "template_ref store tid = Inr t0"
    and t: "wt_id t = tid" "steps_ok (wt_steps t)"
    and label: "clean_label act ''change_summary'' max_label_len = Inr act'"
  shows "\<exists>store'. commit_edit sha256 store tid t sid act None now seed rb = Inr store'"
proof -
  obtain i where i: "index_of (\<lambda>t. wt_id t = tid) (wts_templates store) = Some i"
    using ref by (auto simp: template_ref_index)
  have len: "i < length (wts_templates store)" using index_of_Some[OF i] by simp
  let ?t = "t\<lparr>wt_updated_at_unix := now\<rparr>"
  have i': "index_of (\<lambda>t. wt_id t = tid) ((wts_templates store)[i := ?t]) = Some i"
    using index_of_update[OF i] t(1) by simp
  have r: "template_ref (store\<lparr>wts_templates := (wts_templates store)[i := ?t]\<rparr>) tid = Inr ?t"
    using i' len by (simp add: template_ref_index)
  have key: "clean_template_key tid ''template id'' = Inr tid" using wt_store_okD(4)[OF ok ref] .
  show ?thesis
    using steps_ok_accepted[OF t(2)] key t(1)
    by (simp add: commit_edit_def put_template_index[OF i] publish_template_version_def actor_none
        next_template_version_def r Let_def template_version_record_def label platform_owner_allowed push_audit_event_def)
qed

definition empty_step_input :: workflow_step_input where
  "empty_step_input =
     \<lparr>wsi_id = None, wsi_title = None, wsi_action = None, wsi_owner = None, wsi_status = None, wsi_tone = None,
      wsi_lane = None, wsi_node_type = None, wsi_position_x = None, wsi_position_y = None,
      wsi_next_step_ids = None, wsi_after_step_id = None, wsi_enabled = None, wsi_slo_minutes = None,
      wsi_escalation_role = None, wsi_condition_expression = None, wsi_permission_scope = None,
      wsi_actor_role = None, wsi_scope_tenant = None, wsi_scope_workplace = None, wsi_scope_period = None\<rparr>"

lemma labels_clean:
  "clean_label ''import_current_version'' ''change_summary'' max_label_len = Inr ''import_current_version''"
  "clean_label ''update_step'' ''change_summary'' max_label_len = Inr ''update_step''"
  by code_simp+

lemma default_store_runs:
  "\<exists>store. default_store sha256 now = Inr store \<and> wts_templates store = [default_template now]"
  using default_template_id_clean
  by (simp add: default_store_def ensure_template_version_records_def template_version_record_def Let_def labels_clean
      platform_owner_allowed clean_template_key_def refresh_store_analytics_def default_template_def)

text \<open>Changing nothing but the time of a built-in step is an edit that is kept.\<close>

lemma default_update_runs:
  assumes "default_store sha256 now = Inr store" "wts_templates store = [default_template now]"
  shows "\<exists>store'. update_step sha256 store default_template_id ''configure-access'' empty_step_input 7 8 = Inr store'"
proof -
  let ?t = "default_template now"
  have ok: "wt_store_ok store" using assms(1) by (rule default_store_ok)
  have ref: "template_ref store default_template_id = Inr ?t"
    using assms(2) by (simp add: template_ref_def default_template_def)
  have "map fst (step_nodes (default_steps now)) = map ws_id (default_steps now)" by (simp add: step_nodes_def)
  then have ids: "map ws_id (default_steps now) = map fst (step_nodes (default_steps now))" ..
  have len: "1 < length (default_steps now)"
    using arg_cong[OF ids, of length] by (simp add: default_nodes)
  have at: "ws_id (default_steps now ! 1) = ''configure-access''"
    using arg_cong[OF ids, of "\<lambda>xs. xs ! 1"] len by (simp add: default_nodes)
  have "index_of (\<lambda>x. x = ''configure-access'') (map ws_id (default_steps now)) = Some 1"
    unfolding ids default_nodes by simp
  then have "index_of (\<lambda>s. ws_id s = ''configure-access'') (default_steps now) = Some 1"
    unfolding index_of_map .
  then have idx: "step_index ?t ''configure-access'' = Inr 1"
    by (simp add: step_index_def default_template_def)
  let ?s = "(default_steps now ! 1)\<lparr>ws_updated_at_unix := 7\<rparr>"
  have "step_nodes ((default_steps now)[1 := ?s]) = step_nodes (default_steps now)"
    using len by (intro step_nodes_update) simp_all
  then have "steps_ok ((default_steps now)[1 := ?s])" using steps_ok_nodes default_steps_ok by blast
  then have "\<exists>store'. commit_edit sha256 store default_template_id (?t\<lparr>wt_steps := (default_steps now)[1 := ?s]\<rparr>)
      ''configure-access'' ''update_step'' None 7 8 None = Inr store'"
    using default_template_id_clean
    by (intro commit_runs[OF ok ref _ _ labels_clean(2)]) (simp_all add: default_template_def)
  moreover have "edited_step empty_step_input (wt_steps ?t ! 1) 7 = Inr ?s"
    by (simp add: edited_step_def empty_step_input_def opt_try_def default_template_def)
  moreover have "clean_step_id ''configure-access'' ''step id'' = Inr ''configure-access''" by code_simp
  moreover have "wt_steps ?t = default_steps now" by (simp add: default_template_def)
  moreover have "wsi_next_step_ids empty_step_input = None" "wsi_after_step_id empty_step_input = None"
    "wsi_actor_role empty_step_input = None" by (simp_all add: empty_step_input_def)
  ultimately show ?thesis
    by (simp add: update_step_def ref idx[unfolded One_nat_def] opt_try_def optionally_place_after_def set_next_ids_def)
qed

section \<open>The store\<close>



text \<open>
  C4: The history is append-only: every operation adds exactly one record, whose version is greater
  than all earlier ones of its template while the \<open>u32\<close> counter lasts.
\<close>

theorem history_append_only:
  assumes "reachable_templates sha256 store" "store_step sha256 store store'"
  shows "extends_history store store'"
  using store_step_good[OF assms(2) reachable_store_ok[OF assms(1)]] by (simp add: good_step_def)

theorem history_append_only_witness:
  "\<exists>store store'. reachable_templates (\<lambda>_. []) store \<and> store_step (\<lambda>_. []) store store' \<and> extends_history store store'"
proof -
  obtain store where s: "default_store (\<lambda>_. []) 0 = Inr store" "wts_templates store = [default_template 0]"
    using default_store_runs by blast
  obtain store' where "update_step (\<lambda>_. []) store default_template_id ''configure-access'' empty_step_input 7 8 = Inr store'"
    using default_update_runs[OF s] by blast
  then have step: "store_step (\<lambda>_. []) store store'" by (rule store_step.update)
  have "reachable_templates (\<lambda>_. []) store" using s(1) by (rule reachable_templates.start)
  then show ?thesis using step history_append_only[OF _ step] by blast
qed

text \<open>
  C2: Trying an edit tells the truth: on a reachable store, the report says that the edit would be kept
  exactly when the edit itself succeeds.
\<close>

theorem edit_trial_agrees:
  assumes reach: "reachable_templates sha256 store"
    and run: "validate_step_update sha256 store tid step_id input now seed = Inr report"
  shows "wev_would_persist report \<longleftrightarrow> (\<exists>store'. update_step sha256 store tid step_id input now seed = Inr store')"
proof -
  have ok: "wt_store_ok store" using reach by (rule reachable_store_ok)
  obtain t clean_id where ref: "template_ref store tid = Inr t"
    and cid: "clean_step_id step_id ''step id'' = Inr clean_id"
    using run by (auto simp: validate_step_update_def result_bind_Inr_iff)
  note same = update_step_clean[OF cid]
  show ?thesis
  proof (cases "update_step sha256 store tid step_id input now seed")
    case (Inr draft)
    then obtain t' where ref': "template_ref draft tid = Inr t'" and report: "report = edit_report t' [] clean_id now"
      using run ref cid same by (auto simp: validate_step_update_def result_bind_Inr_iff)
    have "wt_store_ok draft" using update_step_good[OF ok Inr] by (simp add: good_step_def)
    then have "steps_ok (wt_steps t')" using wt_store_okD(1)[OF _ ref'] by (simp add: template_ok_def)
    then have "severity_count ''error'' (dedupe_preflight_issues (analytics_to_preflight_issues t' (analyze_template t'))) = 0"
      using analysis_errors[of t'] by (intro severity_none) (auto simp: dedupe_set filter_empty_conv)
    with Inr report show ?thesis by (simp add: edit_report_def Let_def)
  next
    case (Inl err)
    let ?r = "\<lparr>wpi_code = ''cycle_detected'', wpi_severity = ''error'', wpi_step_id = Some clean_id,
      wpi_owner = map_option ws_owner (find_step t clean_id)\<rparr>"
    have report: "report = edit_report t [?r] clean_id now"
      using run ref cid same Inl
      by (auto simp: validate_step_update_def result_bind_Inr_iff workflow_graph_rejection_code_def split: option.splits if_splits)
    let ?is = "dedupe_preflight_issues (analytics_to_preflight_issues t (analyze_template t))"
    have "steps_ok (wt_steps t)" using wt_store_okD(1)[OF ok ref] by (simp add: template_ok_def)
    then have none: "\<forall>i \<in> set ?is. wpi_severity i \<noteq> ''error''"
      using analysis_errors[of t] by (auto simp: dedupe_set filter_empty_conv)
    then have "dedupe_preflight_issues (analytics_to_preflight_issues t (analyze_template t) @ [?r]) = ?is @ [?r]"
      by (auto simp: dedupe_snoc)
    moreover have "severity_count ''error'' (?is @ [?r]) = 1"
      using none by (simp add: severity_count_def as_u16_def filter_empty_conv[THEN iffD2])
    ultimately show ?thesis using Inl report by (simp add: edit_report_def Let_def)
  qed
qed

theorem edit_trial_agrees_witness:
  "\<exists>store report. reachable_templates (\<lambda>_. []) store
     \<and> validate_step_update (\<lambda>_. []) store default_template_id ''configure-access'' empty_step_input 7 8 = Inr report
     \<and> wev_would_persist report"
proof -
  obtain store where s: "default_store (\<lambda>_. []) 0 = Inr store" "wts_templates store = [default_template 0]"
    using default_store_runs by blast
  have reach: "reachable_templates (\<lambda>_. []) store" using s(1) by (rule reachable_templates.start)
  obtain store' where u: "update_step (\<lambda>_. []) store default_template_id ''configure-access'' empty_step_input 7 8 = Inr store'"
    using default_update_runs[OF s] by blast
  have c: "clean_step_id ''configure-access'' ''step id'' = Inr ''configure-access''" by code_simp
  have "default_template_id \<in> wt_id ` set (wts_templates store')"
    using store_step_good[OF store_step.update[OF u] reachable_store_ok[OF reach]] s(2)
    by (simp add: good_step_def default_template_def)
  then obtain t' where t': "template_ref store' default_template_id = Inr t'"
    using index_of_None[of "\<lambda>t. wt_id t = default_template_id" "wts_templates store'"]
    by (auto simp: template_ref_index)
  have ref: "template_ref store default_template_id = Inr (default_template 0)"
    using s(2) by (simp add: template_ref_def default_template_def)
  have run: "validate_step_update (\<lambda>_. []) store default_template_id ''configure-access'' empty_step_input 7 8
      = Inr (edit_report t' [] ''configure-access'' 7)"
    by (simp add: validate_step_update_def ref c u t')
  then show ?thesis using edit_trial_agrees[OF reach run] u reach by blast
qed

section \<open>What the code does at its edges\<close>

text \<open>
  The plan is the order of a depth-first walk, not an order of dependencies: a step with two
  predecessors can be planned before one of them.
\<close>

lemma plan_before_predecessor:
  "planned_ids [(''a'', [''b'', ''c'']), (''b'', [''d'']), (''c'', [''d'']), (''d'', [])] = [''a'', ''b'', ''d'', ''c'']"
  by code_simp

text \<open>
  A custom step placed at position 0 is stored at position 1000, which is outside the range a
  stored step must have: the file it is saved to cannot be loaded again.
\<close>

lemma zero_position_unloadable:
  "cleaned_step (normalize_step_position (builtin_step ''custom-step'' ''hr_operator'' ''rule'' ''condition'' 30 0 0))
     = Inl ''workflow position_y must be between 0 and 100''"
  by code_simp

text \<open>An unsupported value can spell the code of a rejected graph, and is then reported as a cycle.\<close>

lemma spelled_cycle_code:
  "allowed_value ''cycle_detected'' ''owner'' allowed_owners = Inl ''unsupported workflow owner: cycle_detected''
   \<and> workflow_graph_rejection_code ''unsupported workflow owner: cycle_detected'' = Some ''cycle_detected''"
  by code_simp

end
