(* ===== verification/Sql_Client.thy ===== *)
theory Sql_Client
  imports Postgres_Repository Archive_Text
begin

text \<open>
  What the store programs of \<open>crates/payroll-api/src/bin\<close> share when they work on PostgreSQL: the
  client's queries and statements with their values, the session they open, and the environment
  they read.  As in \<open>Postgres_Repository\<close> the database is a parameter: a state of some type \<open>'db\<close>
  and the functions of the client.  An action on the database gives its next state and an error
  text or a result.
\<close>

section \<open>Actions\<close>

type_synonym ('db, 'a) action = "'db \<Rightarrow> (string + 'a) \<times> 'db"

definition act_return :: "'a \<Rightarrow> ('db, 'a) action" where
  "act_return a db = (Inr a, db)"

definition act_fail :: "string \<Rightarrow> ('db, 'a) action" where
  "act_fail e db = (Inl e, db)"

definition act_bind :: "('db, 'a) action \<Rightarrow> ('a \<Rightarrow> ('db, 'b) action) \<Rightarrow> ('db, 'b) action" where
  "act_bind m k db = (case m db of (Inl e, db') \<Rightarrow> (Inl e, db') | (Inr a, db') \<Rightarrow> k a db')"

definition act_lift :: "string + 'a \<Rightarrow> ('db, 'a) action" where
  "act_lift r db = (r, db)"

fun act_each :: "('a \<Rightarrow> ('db, unit) action) \<Rightarrow> 'a list \<Rightarrow> ('db, unit) action" where
  "act_each f [] = act_return ()"
| "act_each f (x # xs) = act_bind (f x) (\<lambda>_. act_each f xs)"

fun act_fold :: "('s \<Rightarrow> 'a \<Rightarrow> ('db, 's) action) \<Rightarrow> 's \<Rightarrow> 'a list \<Rightarrow> ('db, 's) action" where
  "act_fold f s [] = act_return s"
| "act_fold f s (x # xs) = act_bind (f s x) (\<lambda>s. act_fold f s xs)"

lemma act_bind_Inr:
  "act_bind m k db = (Inr b, db'') \<longleftrightarrow> (\<exists>a db'. m db = (Inr a, db') \<and> k a db' = (Inr b, db''))"
  by (auto simp: act_bind_def split: prod.splits sum.splits)

lemma act_simps [simp]:
  "act_return a db = (Inr a, db)" "act_fail e db = (Inl e, db)" "act_lift r db = (r, db)"
  by (simp_all add: act_return_def act_fail_def act_lift_def)

section \<open>Values and the client\<close>

datatype sql_value = SqlNull | SqlText string | SqlInt int | SqlBool bool

definition sql_opt_text :: "string option \<Rightarrow> sql_value" where
  "sql_opt_text v = (case v of None \<Rightarrow> SqlNull | Some t \<Rightarrow> SqlText t)"

definition sql_opt_int :: "int option \<Rightarrow> sql_value" where
  "sql_opt_int v = (case v of None \<Rightarrow> SqlNull | Some n \<Rightarrow> SqlInt n)"

text \<open>
  \<open>row.get(i)\<close> panics when the column is missing or of another type; the reading of a row is
  therefore partial, and a row the query cannot produce reads as None.
\<close>

type_synonym sql_row = "sql_value list"

fun as_text :: "sql_value \<Rightarrow> string option" where
  "as_text (SqlText t) = Some t"
| "as_text _ = None"

fun as_int :: "sql_value \<Rightarrow> int option" where
  "as_int (SqlInt n) = Some n"
| "as_int _ = None"

fun as_opt_text :: "sql_value \<Rightarrow> string option option" where
  "as_opt_text (SqlText t) = Some (Some t)"
| "as_opt_text SqlNull = Some None"
| "as_opt_text _ = None"

text \<open>A literal of the SQL text, in its single quotes.\<close>

definition sql_literal :: "string \<Rightarrow> string" where
  "sql_literal t = [CHR 0x27] @ t @ [CHR 0x27]"

text \<open>A query gives its rows and a statement the number of rows it changed; None is a failure.\<close>

record 'db sql_client = "'db pg_client" +
  sqc_query :: "string \<Rightarrow> sql_value list \<Rightarrow> 'db \<Rightarrow> sql_row list option \<times> 'db"
  sqc_execute :: "string \<Rightarrow> sql_value list \<Rightarrow> 'db \<Rightarrow> nat option \<times> 'db"

definition run_query :: "'db sql_client \<Rightarrow> string \<Rightarrow> sql_value list \<Rightarrow> string \<Rightarrow> ('db, sql_row list) action" where
  "run_query client sql params code db =
     (case sqc_query client sql params db of
        (None, db') \<Rightarrow> (Inl code, db')
      | (Some rows, db') \<Rightarrow> (Inr rows, db'))"

text \<open>\<open>query_opt\<close> fails when there are several rows, \<open>query_one\<close> also when there is none.\<close>

definition run_query_opt :: "'db sql_client \<Rightarrow> string \<Rightarrow> sql_value list \<Rightarrow> string \<Rightarrow> ('db, sql_row option) action" where
  "run_query_opt client sql params code =
     act_bind (run_query client sql params code) (\<lambda>rows.
       case rows of [] \<Rightarrow> act_return None | [row] \<Rightarrow> act_return (Some row) | _ \<Rightarrow> act_fail code)"

definition run_query_one :: "'db sql_client \<Rightarrow> string \<Rightarrow> sql_value list \<Rightarrow> string \<Rightarrow> ('db, sql_row) action" where
  "run_query_one client sql params code =
     act_bind (run_query client sql params code) (\<lambda>rows.
       case rows of [row] \<Rightarrow> act_return row | _ \<Rightarrow> act_fail code)"

definition run_execute :: "'db sql_client \<Rightarrow> string \<Rightarrow> sql_value list \<Rightarrow> string \<Rightarrow> ('db, nat) action" where
  "run_execute client sql params code db =
     (case sqc_execute client sql params db of
        (None, db') \<Rightarrow> (Inl code, db')
      | (Some n, db') \<Rightarrow> (Inr n, db'))"

lemma run_query_Inr: "run_query client sql params code db = (Inr rows, db') \<longleftrightarrow> sqc_query client sql params db = (Some rows, db')"
  by (auto simp: run_query_def split: prod.splits option.splits)

lemma run_execute_Inr: "run_execute client sql params code db = (Inr n, db') \<longleftrightarrow> sqc_execute client sql params db = (Some n, db')"
  by (auto simp: run_execute_def split: prod.splits option.splits)

text \<open>The number of rows, as \<open>query_opt\<close> and \<open>query_one\<close> tell it apart.\<close>

lemma rows_cases:
  obtains "rows = []" | row where "rows = [row]" | r1 r2 rest where "rows = r1 # r2 # rest"
  by (metis list.exhaust)

lemma run_query_opt_Inr:
  "run_query_opt client sql params code db = (Inr found, db') \<longleftrightarrow>
     (found = None \<and> sqc_query client sql params db = (Some [], db'))
     \<or> (\<exists>row. found = Some row \<and> sqc_query client sql params db = (Some [row], db'))"
proof -
  have "(case rows of [] \<Rightarrow> act_return None | [row] \<Rightarrow> act_return (Some row) | _ \<Rightarrow> act_fail code) db1 = (Inr found, db')
      \<longleftrightarrow> db1 = db' \<and> ((rows = [] \<and> found = None) \<or> (\<exists>row. rows = [row] \<and> found = Some row))" for rows db1
    by (cases rows rule: rows_cases) auto
  then show ?thesis unfolding run_query_opt_def act_bind_Inr run_query_Inr by auto
qed

lemma run_query_one_Inr:
  "run_query_one client sql params code db = (Inr row, db') \<longleftrightarrow> sqc_query client sql params db = (Some [row], db')"
proof -
  have "(case rows of [row] \<Rightarrow> act_return row | _ \<Rightarrow> act_fail code) db1 = (Inr row, db') \<longleftrightarrow> db1 = db' \<and> rows = [row]" for rows db1
    by (cases rows rule: rows_cases) auto
  then show ?thesis unfolding run_query_one_def act_bind_Inr run_query_Inr by auto
qed

lemmas run_Inr = act_bind_Inr run_query_Inr run_execute_Inr run_query_opt_Inr run_query_one_Inr

section \<open>Environment and session\<close>

type_synonym env_vars = "string \<Rightarrow> string option"

definition trimmed_env :: "env_vars \<Rightarrow> string \<Rightarrow> string option" where
  "trimmed_env env name = opt_filter (\<lambda>v. v \<noteq> []) (map_option trim (env name))"

definition required_env :: "env_vars \<Rightarrow> string \<Rightarrow> string + string" where
  "required_env env name =
     ok_or (if name = ''BITWEEN_POSTGRES_TENANT_ID'' then ''postgres_tenant_scope_required''
            else if name = ''BITWEEN_POSTGRES_LEGAL_ENTITY_ID'' then ''postgres_legal_entity_scope_required''
            else if name = ''BITWEEN_POSTGRES_WORKPLACE_ID'' then ''postgres_workplace_scope_required''
            else ''missing required environment: '' @ name)
       (trimmed_env env name)"

definition postgres_failure :: "postgres_connection_failure \<Rightarrow> string" where
  "postgres_failure f = pcf_code f @ '' ('' @ pcf_redacted_dsn f @ '')''"

definition fail_text :: "(postgres_connection_failure + 'a) \<times> 'db \<Rightarrow> (string + 'a) \<times> 'db" where
  "fail_text outcome = map_prod (map_sum postgres_failure (\<lambda>a. a)) (\<lambda>db. db) outcome"

definition connect_session ::
    "(string \<Rightarrow> string) \<Rightarrow> (string \<Rightarrow> string) \<Rightarrow> nat \<Rightarrow> 'db sql_client \<Rightarrow> env_vars
      \<Rightarrow> ('db, postgres_client_session) action" where
  "connect_session sha256 sql_text root_count client env =
     act_bind (act_lift (from_env_parts (env ''BITWEEN_POSTGRES_DSN'') (env ''BITWEEN_POSTGRES_TLS_POLICY''))) (\<lambda>config.
     act_bind (act_lift (required_env env ''BITWEEN_POSTGRES_TENANT_ID'')) (\<lambda>tenant.
     act_bind (act_lift (required_env env ''BITWEEN_POSTGRES_LEGAL_ENTITY_ID'')) (\<lambda>entity.
     act_bind (act_lift (required_env env ''BITWEEN_POSTGRES_WORKPLACE_ID'')) (\<lambda>workplace.
     act_bind (act_lift (postgres_tenant_scope_new tenant entity workplace)) (\<lambda>scope.
     act_bind (\<lambda>db. fail_text (connect_client_session (pg_client.truncate client) root_count config scope db)) (\<lambda>session.
     act_bind (\<lambda>db. fail_text (apply_required_migrations sha256 (pg_client.truncate client)
       (required_postgres_migrations sql_text) db)) (\<lambda>_.
     act_return session)))))))"

definition scope_values :: "postgres_client_session \<Rightarrow> sql_value list" where
  "scope_values session =
     [SqlText (pts_tenant_id (pcs_scope session)), SqlText (pts_legal_entity_id (pcs_scope session)),
      SqlText (pts_workplace_id (pcs_scope session))]"

text \<open>The user of the session, or the name of the program that has none.\<close>

definition postgres_actor_or :: "string \<Rightarrow> env_vars \<Rightarrow> string" where
  "postgres_actor_or program env = unwrap_or program (trimmed_env env ''BITWEEN_SESSION_JWT_SUBJECT'')"

end
