(* ===== verification/User_Preferences.thy ===== *)
theory User_Preferences
  imports Sql_Client
begin

text \<open>
  The user preference store, \<open>crates/payroll-api/src/bin/user_preference_store.rs\<close>: one record of
  settings in a local review file, or one row per tenant and user in PostgreSQL.
\<close>

section \<open>Data\<close>

record user_preferences =
  upf_locale :: string
  upf_sidebar_theme :: string
  upf_workspace_density :: string
  upf_notification_digest :: string
  upf_payroll_standard_view :: string

record user_preference_store =
  ups_schema :: string
  ups_current :: user_preferences
  ups_updated_at_unix :: u64

record user_preference_input =
  upi_locale :: "string option"
  upi_sidebar_theme :: "string option"
  upi_workspace_density :: "string option"
  upi_notification_digest :: "string option"
  upi_payroll_standard_view :: "string option"

definition user_preference_store_schema :: string where
  "user_preference_store_schema = ''bitween.user-preferences.v1''"

definition preference_locales :: "string list" where
  "preference_locales = [''ko-KR'', ''en-US'', ''zh-Hans-CN'', ''ja-JP'']"

definition preference_themes :: "string list" where
  "preference_themes = [''steel'', ''graphite'', ''teal'', ''navy'']"

definition preference_densities :: "string list" where
  "preference_densities = [''work_dense'', ''comfortable'']"

definition preference_digests :: "string list" where
  "preference_digests = [''role_work'', ''urgent_only'']"

definition preference_views :: "string list" where
  "preference_views = [''before_run'', ''always_visible'']"

section \<open>Updating and validating\<close>

definition preference_value :: "string \<Rightarrow> string \<Rightarrow> string list \<Rightarrow> string + string" where
  "preference_value v name allowed =
     (if trim v \<in> set allowed then Inr (trim v)
      else Inl (''unsupported user preference value for '' @ name))"

definition changed_value :: "string option \<Rightarrow> string \<Rightarrow> string \<Rightarrow> string list \<Rightarrow> string + string" where
  "changed_value v current name allowed =
     (case v of None \<Rightarrow> Inr current | Some v \<Rightarrow> preference_value v name allowed)"

definition update_preferences ::
    "user_preference_store \<Rightarrow> user_preference_input \<Rightarrow> u64 \<Rightarrow> string + user_preference_store" where
  "update_preferences store input now =
     (let p = ups_current store in
      result_bind (changed_value (upi_locale input) (upf_locale p) ''locale'' preference_locales) (\<lambda>locale.
      result_bind (changed_value (upi_sidebar_theme input) (upf_sidebar_theme p) ''sidebar_theme'' preference_themes) (\<lambda>theme.
      result_bind (changed_value (upi_workspace_density input) (upf_workspace_density p) ''workspace_density'' preference_densities) (\<lambda>density.
      result_bind (changed_value (upi_notification_digest input) (upf_notification_digest p) ''notification_digest'' preference_digests) (\<lambda>digest.
      result_bind (changed_value (upi_payroll_standard_view input) (upf_payroll_standard_view p) ''payroll_standard_view'' preference_views) (\<lambda>view.
      Inr (store\<lparr>ups_current := \<lparr>upf_locale = locale, upf_sidebar_theme = theme, upf_workspace_density = density,
                                  upf_notification_digest = digest, upf_payroll_standard_view = view\<rparr>,
                 ups_updated_at_unix := now\<rparr>)))))))"

definition validate_preferences :: "user_preference_store \<Rightarrow> string + user_preference_store" where
  "validate_preferences store =
     (let p = ups_current store in
      result_bind (preference_value (upf_locale p) ''locale'' preference_locales) (\<lambda>locale.
      result_bind (preference_value (upf_sidebar_theme p) ''sidebar_theme'' preference_themes) (\<lambda>theme.
      result_bind (preference_value (upf_workspace_density p) ''workspace_density'' preference_densities) (\<lambda>density.
      result_bind (preference_value (upf_notification_digest p) ''notification_digest'' preference_digests) (\<lambda>digest.
      result_bind (preference_value (upf_payroll_standard_view p) ''payroll_standard_view'' preference_views) (\<lambda>view.
      Inr (store\<lparr>ups_schema := user_preference_store_schema,
                 ups_current := \<lparr>upf_locale = locale, upf_sidebar_theme = theme, upf_workspace_density = density,
                                  upf_notification_digest = digest, upf_payroll_standard_view = view\<rparr>\<rparr>)))))))"

definition default_preferences :: user_preferences where
  "default_preferences =
     \<lparr>upf_locale = ''ko-KR'', upf_sidebar_theme = ''steel'', upf_workspace_density = ''work_dense'',
      upf_notification_digest = ''role_work'', upf_payroll_standard_view = ''before_run''\<rparr>"

definition empty_preference_store :: "u64 \<Rightarrow> user_preference_store" where
  "empty_preference_store now =
     \<lparr>ups_schema = user_preference_store_schema, ups_current = default_preferences, ups_updated_at_unix = now\<rparr>"

section \<open>The local file\<close>

definition load_preference_store :: "(string + user_preference_store) option \<Rightarrow> u64 \<Rightarrow> string + user_preference_store" where
  "load_preference_store parsed now =
     (case parsed of
        None \<Rightarrow> Inr (empty_preference_store now)
      | Some file \<Rightarrow> result_bind file validate_preferences)"

definition preference_store_path :: "string option \<Rightarrow> string option \<Rightarrow> string + string" where
  "preference_store_path allow_local_review_store configured_path =
     (if \<not> truthy_env allow_local_review_store
      then Inl ''PostgreSQL relational user preference storage is required; set BITWEEN_POSTGRES_DSN for production wiring or BITWEEN_ALLOW_LOCAL_REVIEW_STORE=true only for hermetic local review.''
      else Inr (unwrap_or ''.bitween/local-review/settings/preferences.json'' configured_path))"

datatype preference_command = GetPreferences | UpdatePreferences user_preference_input

definition run_local_preferences ::
    "(string + user_preference_store) option \<Rightarrow> preference_command \<Rightarrow> u64 \<Rightarrow> string + user_preference_store \<times> bool" where
  "run_local_preferences parsed command now =
     result_bind (load_preference_store parsed now) (\<lambda>store.
     case command of
       GetPreferences \<Rightarrow> Inr (store, False)
     | UpdatePreferences input \<Rightarrow> map_sum (\<lambda>e. e) (\<lambda>s. (s, True)) (update_preferences store input now))"

section \<open>The table\<close>

definition postgres_user_preference_select_sql :: string where
  "postgres_user_preference_select_sql =
     ''SELECT locale, sidebar_theme, workspace_density, notification_digest, payroll_standard_view, '' @
     ''EXTRACT(EPOCH FROM updated_at)::bigint FROM bitween_settings.user_preference WHERE tenant_id = $1 AND user_id = $2''"

definition postgres_user_preference_upsert_sql :: string where
  "postgres_user_preference_upsert_sql =
     ''INSERT INTO bitween_settings.user_preference ( tenant_id, user_id, locale, sidebar_theme, workspace_density, notification_digest, payroll_standard_view ) '' @
     ''VALUES ($1, $2, $3, $4, $5, $6, $7) ON CONFLICT (tenant_id, user_id) DO UPDATE SET '' @
     ''locale = EXCLUDED.locale, sidebar_theme = EXCLUDED.sidebar_theme, workspace_density = EXCLUDED.workspace_density, '' @
     ''notification_digest = EXCLUDED.notification_digest, payroll_standard_view = EXCLUDED.payroll_standard_view''"

definition preference_user :: "env_vars \<Rightarrow> string + string" where
  "preference_user env = ok_or ''postgres_user_subject_required'' (trimmed_env env ''BITWEEN_SESSION_JWT_SUBJECT'')"

definition user_row_key :: "postgres_client_session \<Rightarrow> string \<Rightarrow> sql_value list" where
  "user_row_key session user_id = [SqlText (pts_tenant_id (pcs_scope session)), SqlText user_id]"

fun preferences_of_row :: "sql_row \<Rightarrow> string + user_preference_store" where
  "preferences_of_row [SqlText locale, SqlText theme, SqlText density, SqlText digest, SqlText view, SqlInt updated] =
     validate_preferences
       \<lparr>ups_schema = user_preference_store_schema,
        ups_current = \<lparr>upf_locale = locale, upf_sidebar_theme = theme, upf_workspace_density = density,
                       upf_notification_digest = digest, upf_payroll_standard_view = view\<rparr>,
        ups_updated_at_unix = (if updated < 0 then 0 else updated)\<rparr>"
| "preferences_of_row _ = Inl ''error retrieving column''"

definition load_postgres_preferences ::
    "'db sql_client \<Rightarrow> postgres_client_session \<Rightarrow> string \<Rightarrow> u64 \<Rightarrow> ('db, user_preference_store) action" where
  "load_postgres_preferences client session user_id now =
     act_bind (run_query_opt client postgres_user_preference_select_sql (user_row_key session user_id)
       ''settings_postgres_preference_query_failed'') (\<lambda>found.
     case found of
       None \<Rightarrow> act_return (empty_preference_store now)
     | Some row \<Rightarrow> act_lift (preferences_of_row row))"

definition save_postgres_preferences ::
    "'db sql_client \<Rightarrow> postgres_client_session \<Rightarrow> string \<Rightarrow> user_preference_store \<Rightarrow> ('db, unit) action" where
  "save_postgres_preferences client session user_id store =
     (let p = ups_current store in
      act_bind (run_execute client postgres_user_preference_upsert_sql (user_row_key session user_id @
        [SqlText (upf_locale p), SqlText (upf_sidebar_theme p), SqlText (upf_workspace_density p),
         SqlText (upf_notification_digest p), SqlText (upf_payroll_standard_view p)])
        ''settings_postgres_preference_upsert_failed'') (\<lambda>_.
      act_return ()))"

definition run_postgres_preferences ::
    "'db sql_client \<Rightarrow> env_vars \<Rightarrow> postgres_client_session \<Rightarrow> preference_command \<Rightarrow> u64
      \<Rightarrow> ('db, user_preference_store) action" where
  "run_postgres_preferences client env session command now =
     act_bind (act_lift (preference_user env)) (\<lambda>user_id.
     case command of
       GetPreferences \<Rightarrow> load_postgres_preferences client session user_id now
     | UpdatePreferences input \<Rightarrow>
         act_bind (load_postgres_preferences client session user_id now) (\<lambda>store.
         act_bind (act_lift (update_preferences store input now)) (\<lambda>store.
         act_bind (save_postgres_preferences client session user_id store) (\<lambda>_.
         load_postgres_preferences client session user_id now))))"

section \<open>The command line\<close>

definition preference_command_of_args :: "string list \<Rightarrow> (string + user_preference_input) \<Rightarrow> string + preference_command" where
  "preference_command_of_args args input =
     (case args of
        [] \<Rightarrow> Inl ''missing user preference action''
      | action # _ \<Rightarrow>
          if action = ''get'' then Inr GetPreferences
          else if action = ''update'' then result_bind input (\<lambda>i. Inr (UpdatePreferences i))
          else Inl (''unsupported user preference action: '' @ action))"

text \<open>What the program prints, and the store it saves at the path, if it does.\<close>

definition run_preference_store ::
    "(string \<Rightarrow> string) \<Rightarrow> (string \<Rightarrow> string) \<Rightarrow> nat \<Rightarrow> 'db sql_client \<Rightarrow> env_vars \<Rightarrow> string list
      \<Rightarrow> (string + user_preference_input) \<Rightarrow> (string \<Rightarrow> (string + user_preference_store) option) \<Rightarrow> u64
      \<Rightarrow> ('db, user_preference_store \<times> (string \<times> user_preference_store) option) action" where
  "run_preference_store sha256 sql_text root_count client env args input file_at now =
     (if args = [] then act_fail ''missing user preference action''
      else if postgres_dsn_configured env then
        act_bind (connect_session sha256 sql_text root_count client env) (\<lambda>session.
        act_bind (act_lift (preference_user env)) (\<lambda>_.
        act_bind (act_lift (preference_command_of_args args input)) (\<lambda>command.
        act_bind (run_postgres_preferences client env session command now) (\<lambda>store.
        act_return (store, None)))))
      else
        act_bind (act_lift (preference_store_path (env ''BITWEEN_ALLOW_LOCAL_REVIEW_STORE'') (env ''BITWEEN_USER_PREFERENCE_STORE''))) (\<lambda>path.
        act_bind (act_lift (preference_command_of_args args input)) (\<lambda>command.
        act_bind (act_lift (run_local_preferences (file_at path) command now)) (\<lambda>(store, saved).
        act_return (store, if saved then Some (path, store) else None)))))"

section \<open>Properties\<close>

definition preferences_ok :: "user_preferences \<Rightarrow> bool" where
  "preferences_ok p \<longleftrightarrow>
     upf_locale p \<in> set preference_locales \<and> upf_sidebar_theme p \<in> set preference_themes
     \<and> upf_workspace_density p \<in> set preference_densities \<and> upf_notification_digest p \<in> set preference_digests
     \<and> upf_payroll_standard_view p \<in> set preference_views"

lemma allowed_trimmed:
  assumes "v \<in> set (preference_locales @ preference_themes @ preference_densities @ preference_digests @ preference_views)"
  shows "trim v = v"
proof -
  have "list_all (\<lambda>v. trim v = v)
      (preference_locales @ preference_themes @ preference_densities @ preference_digests @ preference_views)"
    by code_simp
  then show ?thesis using assms by (simp add: list_all_iff)
qed

lemma preference_valueD: "preference_value v name allowed = Inr w \<Longrightarrow> w \<in> set allowed"
  by (auto simp: preference_value_def split: if_splits)

lemma changed_valueD: "changed_value v c name allowed = Inr w \<Longrightarrow> c \<in> set allowed \<Longrightarrow> w \<in> set allowed"
  by (auto simp: changed_value_def dest: preference_valueD split: option.splits)

lemma preferences_of_file_ok: "validate_preferences store = Inr store' \<Longrightarrow> preferences_ok (ups_current store')"
  unfolding validate_preferences_def Let_def result_bind_Inr_iff
  by (elim exE conjE, drule sum.inject(2)[THEN iffD1], erule subst)
     (auto simp: preferences_ok_def dest: preference_valueD)

lemma update_preferences_ok:
  "update_preferences store input now = Inr store' \<Longrightarrow> preferences_ok (ups_current store) \<Longrightarrow> preferences_ok (ups_current store')"
  unfolding update_preferences_def Let_def result_bind_Inr_iff
  by (elim exE conjE, drule sum.inject(2)[THEN iffD1], erule subst)
     (auto simp: preferences_ok_def dest: changed_valueD)

lemma default_preferences_ok: "preferences_ok default_preferences"
  by code_simp

text \<open>Settings that are in order pass validation unchanged.\<close>

lemma validate_preferences_fixed:
  "preferences_ok (ups_current store) \<Longrightarrow>
     validate_preferences store = Inr (store\<lparr>ups_schema := user_preference_store_schema\<rparr>)"
  by (cases "ups_current store")
     (simp add: validate_preferences_def preference_value_def preferences_ok_def allowed_trimmed)

text \<open>
  What a session relies on in the database, as PostgreSQL documents it: the upsert gives the row
  of the user the five settings (and a time stamp), a select of that row gives them back, and the
  rows of others do not change.  \<open>row_of\<close> reads the table.
\<close>

definition preference_table_laws ::
    "'db sql_client \<Rightarrow> ('db \<Rightarrow> sql_value list \<Rightarrow> (sql_value list \<times> int) option) \<Rightarrow> bool" where
  "preference_table_laws client row_of \<longleftrightarrow>
     (\<forall>k db rows db'. sqc_query client postgres_user_preference_select_sql k db = (Some rows, db') \<longrightarrow>
        db' = db \<and> rows = (case row_of db k of None \<Rightarrow> [] | Some (vs, t) \<Rightarrow> [vs @ [SqlInt t]]))
   \<and> (\<forall>k vs db n db'. length k = 2 \<and> length vs = 5 \<and>
        sqc_execute client postgres_user_preference_upsert_sql (k @ vs) db = (Some n, db') \<longrightarrow>
        (\<exists>t. row_of db' = (row_of db)(k \<mapsto> (vs, t))))"

lemma load_preferences_read:
  assumes laws: "preference_table_laws client row_of"
    and run: "load_postgres_preferences client session user now db = (Inr store, db')"
  shows "db' = db \<and> preferences_ok (ups_current store)
    \<and> (case row_of db (user_row_key session user) of
          None \<Rightarrow> store = empty_preference_store now
        | Some (vs, t) \<Rightarrow> preferences_of_row (vs @ [SqlInt t]) = Inr store)"
proof -
  have select: "db2 = db \<and> rows = (case row_of db k of None \<Rightarrow> [] | Some (vs, t) \<Rightarrow> [vs @ [SqlInt t]])"
    if "sqc_query client postgres_user_preference_select_sql k db = (Some rows, db2)" for k db rows db2
    using laws that unfolding preference_table_laws_def by blast
  obtain rows where q: "sqc_query client postgres_user_preference_select_sql (user_row_key session user) db = (Some rows, db')"
    and cases: "(rows = [] \<and> store = empty_preference_store now) \<or> (\<exists>row. rows = [row] \<and> preferences_of_row row = Inr store)"
    using run
    by (auto simp: load_postgres_preferences_def run_query_opt_def run_query_def act_bind_Inr
        split: option.splits prod.splits list.splits)
  have ok: "preferences_ok (ups_current store)"
    if "preferences_of_row row = Inr store" for row
    using that by (cases row rule: preferences_of_row.cases) (auto dest: preferences_of_file_ok)
  have "preferences_ok (ups_current store)"
    using cases ok default_preferences_ok by (auto simp: empty_preference_store_def)
  then show ?thesis using select[OF q] cases by (auto split: option.splits)
qed

text \<open>
  C8: Updating the settings in PostgreSQL prints what the same update makes of the settings that were
  there, all of them allowed values, and changes no other row.
\<close>

theorem preference_update_read_back:
  assumes laws: "preference_table_laws client row_of"
    and run: "run_postgres_preferences client env session (UpdatePreferences input) now db = (Inr printed, db')"
  shows "\<exists>user before after. preference_user env = Inr user
    \<and> load_postgres_preferences client session user now db = (Inr before, db)
    \<and> update_preferences before input now = Inr after
    \<and> ups_current printed = ups_current after \<and> preferences_ok (ups_current printed)
    \<and> (\<forall>k. k \<noteq> user_row_key session user \<longrightarrow> row_of db' k = row_of db k)"
proof -
  obtain user before db1 after n db2 where user: "preference_user env = Inr user"
    and before: "load_postgres_preferences client session user now db = (Inr before, db1)"
    and after: "update_preferences before input now = Inr after"
    and save: "save_postgres_preferences client session user after db1 = (Inr (), db2)"
    and printed: "load_postgres_preferences client session user now db2 = (Inr printed, db')"
    using run by (auto simp: run_postgres_preferences_def act_bind_Inr)
  have db1: "db1 = db" and bok: "preferences_ok (ups_current before)"
    using load_preferences_read[OF laws before] by auto
  then have aok: "preferences_ok (ups_current after)" using update_preferences_ok[OF after] by simp
  let ?p = "ups_current after" and ?k = "user_row_key session user"
  let ?vs = "[SqlText (upf_locale ?p), SqlText (upf_sidebar_theme ?p), SqlText (upf_workspace_density ?p),
     SqlText (upf_notification_digest ?p), SqlText (upf_payroll_standard_view ?p)]"
  obtain n where "sqc_execute client postgres_user_preference_upsert_sql (?k @ ?vs) db1 = (Some n, db2)"
    using save by (auto simp: save_postgres_preferences_def Let_def act_bind_Inr run_execute_def split: prod.splits option.splits)
  moreover have "length ?k = 2" by (simp add: user_row_key_def)
  moreover have "\<exists>t. row_of db'' = (row_of db1)(k \<mapsto> (vs, t))"
    if "length k = 2" "length vs = 5" "sqc_execute client postgres_user_preference_upsert_sql (k @ vs) db1 = (Some n, db'')"
    for k vs n db''
    using laws that unfolding preference_table_laws_def by blast
  ultimately obtain t where row: "row_of db2 = (row_of db1)(?k \<mapsto> (?vs, t))" by fastforce
  have "db' = db2" and "preferences_of_row (?vs @ [SqlInt t]) = Inr printed"
    using load_preferences_read[OF laws printed] row by auto
  then have "ups_current printed = ?p"
    using aok by (cases ?p) (auto simp: validate_preferences_fixed)
  then show ?thesis using user before db1 after aok row \<open>db' = db2\<close> by auto
qed

text \<open>A table of settings: a map, whose time stamps are all zero.\<close>

definition sample_preference_client :: "(sql_value list \<Rightarrow> (sql_value list \<times> int) option) sql_client" where
  "sample_preference_client =
     \<lparr>pgc_connect = (\<lambda>_ db. (True, db)), pgc_batch_execute = (\<lambda>_ db. (True, db)),
      pgc_execute = (\<lambda>_ _ db. (True, db)), pgc_query_opt = (\<lambda>_ _ db. (Some None, db)),
      sqc_query = (\<lambda>_ k db. (Some (case db k of None \<Rightarrow> [] | Some (vs, t) \<Rightarrow> [vs @ [SqlInt t]]), db)),
      sqc_execute = (\<lambda>_ params db. (Some 1, db(take 2 params \<mapsto> (drop 2 params, 0))))\<rparr>"

definition sample_preference_session :: postgres_client_session where
  "sample_preference_session =
     \<lparr>pcs_scope = \<lparr>pts_tenant_id = ''t'', pts_legal_entity_id = ''e'', pts_workplace_id = ''w''\<rparr>,
      pcs_redacted_dsn = redacted_dsn\<rparr>"

definition sample_preference_input :: user_preference_input where
  "sample_preference_input =
     \<lparr>upi_locale = Some ''en-US'', upi_sidebar_theme = None, upi_workspace_density = None,
      upi_notification_digest = None, upi_payroll_standard_view = None\<rparr>"

lemma sample_preference_laws: "preference_table_laws sample_preference_client (\<lambda>db. db)"
  by (auto simp: preference_table_laws_def sample_preference_client_def)

theorem preference_update_read_back_witness:
  "\<exists>printed db'. run_postgres_preferences sample_preference_client (\<lambda>_. Some ''u'') sample_preference_session
       (UpdatePreferences sample_preference_input) 5 Map.empty = (Inr printed, db')
     \<and> upf_locale (ups_current printed) = ''en-US''"
proof -
  let ?p = "default_preferences\<lparr>upf_locale := ''en-US''\<rparr>"
  have update: "update_preferences (empty_preference_store 5) sample_preference_input 5
      = Inr ((empty_preference_store 5)\<lparr>ups_current := ?p\<rparr>)"
    by code_simp
  have row: "preferences_of_row [SqlText ''en-US'', SqlText ''steel'', SqlText ''work_dense'', SqlText ''role_work'',
      SqlText ''before_run'', SqlInt 0] = Inr ((empty_preference_store 0)\<lparr>ups_current := ?p\<rparr>)"
    by code_simp
  have user: "preference_user (\<lambda>_. Some ''u'') = Inr ''u''" by code_simp
  have "\<exists>printed db'. run_postgres_preferences sample_preference_client (\<lambda>_. Some ''u'') sample_preference_session
       (UpdatePreferences sample_preference_input) 5 Map.empty = (Inr printed, db')"
    using update row
    by (simp add: run_postgres_preferences_def act_bind_def user load_postgres_preferences_def run_query_opt_def run_query_def
        sample_preference_client_def save_postgres_preferences_def run_execute_def user_row_key_def default_preferences_def)
  then obtain printed db' where run: "run_postgres_preferences sample_preference_client (\<lambda>_. Some ''u'') sample_preference_session
       (UpdatePreferences sample_preference_input) 5 Map.empty = (Inr printed, db')" by blast
  have "load_postgres_preferences sample_preference_client sample_preference_session ''u'' 5 Map.empty
      = (Inr (empty_preference_store 5), Map.empty)"
    by (simp add: load_postgres_preferences_def run_query_opt_def run_query_def sample_preference_client_def act_bind_def)
  then have "ups_current printed = ?p"
    using preference_update_read_back[OF sample_preference_laws run] update user by auto
  then show ?thesis using run by auto
qed

end
