(* ===== verification/Hr_Employee_Store.thy ===== *)
theory Hr_Employee_Store
  imports Sql_Client Archive_Types "HOL-Library.AList"
begin

text \<open>
  The employee store, \<open>crates/payroll-api/src/bin/hr_employee_store.rs\<close>: the local review file and
  the PostgreSQL table behind the same commands.  The input and the file are already parsed; the
  clock and the id seed are arguments.
\<close>

section \<open>Data\<close>

datatype employee_status = EmployeeActive | EmployeeOnLeave | EmployeeOffboarding

fun employee_status_value :: "employee_status \<Rightarrow> string" where
  "employee_status_value EmployeeActive = ''active''"
| "employee_status_value EmployeeOnLeave = ''on_leave''"
| "employee_status_value EmployeeOffboarding = ''offboarding''"

definition employee_status_from :: "string \<Rightarrow> string + employee_status" where
  "employee_status_from v =
     (if v = ''active'' then Inr EmployeeActive
      else if v = ''on_leave'' then Inr EmployeeOnLeave
      else if v = ''offboarding'' then Inr EmployeeOffboarding
      else Inl ''unsupported employee status from PostgreSQL'')"

record employee_record =
  emp_id :: string
  emp_name :: string
  emp_team :: string
  emp_role :: string
  emp_status :: employee_status
  emp_updated_at_unix :: u64

record employee_store =
  ems_schema :: string
  ems_employees :: "employee_record list"

record employee_input =
  emi_name :: "string option"
  emi_team :: "string option"
  emi_role :: "string option"
  emi_status :: "employee_status option"

definition hr_employee_store_schema :: string where
  "hr_employee_store_schema = ''bitween.hr.employee-store.v1''"

section \<open>The local store\<close>

definition hr_required_field :: "string option \<Rightarrow> string \<Rightarrow> string + string" where
  "hr_required_field v name =
     ok_or (''missing required employee field: '' @ name)
       (opt_filter (\<lambda>v. v \<noteq> []) (map_option trim v))"

definition sort_employees :: "employee_store \<Rightarrow> employee_store" where
  "sort_employees store = store\<lparr>ems_employees := sort_key emp_name (ems_employees store)\<rparr>"

definition empty_employee_store :: employee_store where
  "empty_employee_store = \<lparr>ems_schema = hr_employee_store_schema, ems_employees = []\<rparr>"

definition add_employee :: "employee_store \<Rightarrow> employee_input \<Rightarrow> u64 \<Rightarrow> nat \<Rightarrow> string + employee_store" where
  "add_employee store input now id_seed =
     result_bind (hr_required_field (emi_name input) ''name'') (\<lambda>name.
     result_bind (hr_required_field (emi_team input) ''team'') (\<lambda>team.
     result_bind (hr_required_field (emi_role input) ''role'') (\<lambda>role.
     Inr (sort_employees (store\<lparr>ems_employees := ems_employees store @
       [\<lparr>emp_id = ''employee-'' @ show_nat id_seed, emp_name = name, emp_team = team, emp_role = role,
         emp_status = unwrap_or EmployeeActive (emi_status input), emp_updated_at_unix = now\<rparr>]\<rparr>)))))"

text \<open>A blank text of the input leaves the field as it is.\<close>

definition given_text :: "string \<Rightarrow> string option \<Rightarrow> string" where
  "given_text current v = unwrap_or current (opt_filter (\<lambda>v. v \<noteq> []) (map_option trim v))"

definition changed_employee :: "employee_input \<Rightarrow> u64 \<Rightarrow> employee_record \<Rightarrow> employee_record" where
  "changed_employee input now r =
     r\<lparr>emp_name := given_text (emp_name r) (emi_name input), emp_team := given_text (emp_team r) (emi_team input),
       emp_role := given_text (emp_role r) (emi_role input),
       emp_status := unwrap_or (emp_status r) (emi_status input), emp_updated_at_unix := now\<rparr>"

fun change_first :: "('a \<Rightarrow> bool) \<Rightarrow> ('a \<Rightarrow> 'a) \<Rightarrow> 'a list \<Rightarrow> 'a list option" where
  "change_first p f [] = None"
| "change_first p f (x # xs) = (if p x then Some (f x # xs) else map_option ((#) x) (change_first p f xs))"

definition update_employee :: "employee_store \<Rightarrow> string \<Rightarrow> employee_input \<Rightarrow> u64 \<Rightarrow> string + employee_store" where
  "update_employee store key input now =
     result_bind (ok_or ''employee not found''
       (change_first (\<lambda>r. emp_id r = key) (changed_employee input now) (ems_employees store))) (\<lambda>employees.
     Inr (sort_employees (store\<lparr>ems_employees := employees\<rparr>)))"

definition remove_employee :: "employee_store \<Rightarrow> string \<Rightarrow> string + employee_store" where
  "remove_employee store key =
     (let kept = filter (\<lambda>r. emp_id r \<noteq> key) (ems_employees store) in
      if length kept = length (ems_employees store) then Inl ''employee not found''
      else Inr (store\<lparr>ems_employees := kept\<rparr>))"

definition load_employee_store :: "(string + employee_store) option \<Rightarrow> string + employee_store" where
  "load_employee_store parsed =
     (case parsed of
        None \<Rightarrow> Inr empty_employee_store
      | Some file \<Rightarrow> result_bind file (\<lambda>store. Inr (sort_employees store)))"

definition hr_store_path :: "string option \<Rightarrow> string option \<Rightarrow> string + string" where
  "hr_store_path allow_local_review_store configured_path =
     (if \<not> truthy_env allow_local_review_store
      then Inl ''PostgreSQL relational employee storage is required; set BITWEEN_POSTGRES_DSN for production wiring or BITWEEN_ALLOW_LOCAL_REVIEW_STORE=true only for hermetic local review.''
      else Inr (unwrap_or ''.bitween/local-review/hr/employees.json'' configured_path))"

datatype employee_command =
    ListEmployees
  | AddEmployee employee_input
  | UpdateEmployee string employee_input
  | RemoveEmployee string

text \<open>A command on the loaded file: the store it prints, and whether it is saved.\<close>

definition run_local_employees ::
    "(string + employee_store) option \<Rightarrow> employee_command \<Rightarrow> u64 \<Rightarrow> nat \<Rightarrow> string + employee_store \<times> bool" where
  "run_local_employees parsed command now id_seed =
     result_bind (load_employee_store parsed) (\<lambda>store.
     case command of
       ListEmployees \<Rightarrow> Inr (store, False)
     | AddEmployee input \<Rightarrow> map_sum (\<lambda>e. e) (\<lambda>s. (s, True)) (add_employee store input now id_seed)
     | UpdateEmployee key input \<Rightarrow> map_sum (\<lambda>e. e) (\<lambda>s. (s, True)) (update_employee store key input now)
     | RemoveEmployee key \<Rightarrow> map_sum (\<lambda>e. e) (\<lambda>s. (s, True)) (remove_employee store key))"

section \<open>The table\<close>

definition employee_select_sql :: string where
  "employee_select_sql =
     ''SELECT employee_key, display_name, team, role_title, employment_status, EXTRACT(EPOCH FROM updated_at)::bigint '' @
     ''FROM bitween_hr.employee WHERE tenant_id = $1 AND legal_entity_id = $2 AND workplace_id = $3 '' @
     ''AND admission_status <> '' @ sql_literal ''reversed'' @ '' ORDER BY display_name, employee_key''"

definition employee_insert_sql :: string where
  "employee_insert_sql =
     ''INSERT INTO bitween_hr.employee (tenant_id, legal_entity_id, workplace_id, employee_key, display_name, team, role_title, employment_status, created_by, updated_by) '' @
     ''VALUES ($1, $2, $3, $4, $5, $6, $7, $8, $9, $9)''"

definition employee_lookup_sql :: string where
  "employee_lookup_sql =
     ''SELECT display_name, team, role_title, employment_status FROM bitween_hr.employee '' @
     ''WHERE tenant_id = $1 AND legal_entity_id = $2 AND workplace_id = $3 AND employee_key = $4 '' @
     ''AND admission_status <> '' @ sql_literal ''reversed''"

definition employee_update_sql :: string where
  "employee_update_sql =
     ''UPDATE bitween_hr.employee SET display_name = $5, team = $6, role_title = $7, employment_status = $8, updated_by = $9 '' @
     ''WHERE tenant_id = $1 AND legal_entity_id = $2 AND workplace_id = $3 AND employee_key = $4 '' @
     ''AND admission_status <> '' @ sql_literal ''reversed''"

definition employee_delete_sql :: string where
  "employee_delete_sql =
     ''DELETE FROM bitween_hr.employee '' @
     ''WHERE tenant_id = $1 AND legal_entity_id = $2 AND workplace_id = $3 AND employee_key = $4 '' @
     ''AND admission_status <> '' @ sql_literal ''reversed''"

definition hr_actor :: "env_vars \<Rightarrow> string" where
  "hr_actor env = postgres_actor_or ''hr-employee-store'' env"

text \<open>\<open>try_into::<u64>().unwrap_or(0)\<close> on an \<open>i64\<close>; a row of another shape is a panic.\<close>

definition unsigned_or_zero :: "int \<Rightarrow> int" where
  "unsigned_or_zero n = (if n < 0 then 0 else n)"

definition row_panic :: string where
  "row_panic = ''error retrieving column''"

fun employee_of_row :: "sql_row \<Rightarrow> string + employee_record" where
  "employee_of_row [SqlText key, SqlText name, SqlText team, SqlText role, SqlText status, SqlInt updated] =
     result_bind (employee_status_from status) (\<lambda>status.
     Inr \<lparr>emp_id = key, emp_name = name, emp_team = team, emp_role = role, emp_status = status,
          emp_updated_at_unix = unsigned_or_zero updated\<rparr>)"
| "employee_of_row _ = Inl row_panic"

definition load_postgres_employees :: "'db sql_client \<Rightarrow> postgres_client_session \<Rightarrow> ('db, employee_store) action" where
  "load_postgres_employees client session =
     act_bind (run_query client employee_select_sql (scope_values session) ''hr_postgres_employee_query_failed'') (\<lambda>rows.
     act_bind (act_lift (try_map employee_of_row rows)) (\<lambda>employees.
     act_return \<lparr>ems_schema = hr_employee_store_schema, ems_employees = employees\<rparr>))"

definition add_postgres_employee ::
    "'db sql_client \<Rightarrow> env_vars \<Rightarrow> postgres_client_session \<Rightarrow> employee_input \<Rightarrow> nat \<Rightarrow> ('db, unit) action" where
  "add_postgres_employee client env session input id_seed =
     act_bind (act_lift (hr_required_field (emi_name input) ''name'')) (\<lambda>name.
     act_bind (act_lift (hr_required_field (emi_team input) ''team'')) (\<lambda>team.
     act_bind (act_lift (hr_required_field (emi_role input) ''role'')) (\<lambda>role.
     act_bind (run_execute client employee_insert_sql (scope_values session @
       [SqlText (''employee-'' @ show_nat id_seed), SqlText name, SqlText team, SqlText role,
        SqlText (employee_status_value (unwrap_or EmployeeActive (emi_status input))), SqlText (hr_actor env)])
       ''hr_postgres_employee_insert_failed'') (\<lambda>_.
     act_return ()))))"

fun existing_of_row :: "sql_row \<Rightarrow> string + string \<times> string \<times> string \<times> string" where
  "existing_of_row [SqlText name, SqlText team, SqlText role, SqlText status] = Inr (name, team, role, status)"
| "existing_of_row _ = Inl row_panic"

definition update_postgres_employee ::
    "'db sql_client \<Rightarrow> env_vars \<Rightarrow> postgres_client_session \<Rightarrow> string \<Rightarrow> employee_input \<Rightarrow> ('db, unit) action" where
  "update_postgres_employee client env session key input =
     act_bind (run_query_opt client employee_lookup_sql (scope_values session @ [SqlText key])
       ''hr_postgres_employee_lookup_failed'') (\<lambda>found.
     act_bind (act_lift (ok_or ''employee not found'' found)) (\<lambda>row.
     act_bind (act_lift (existing_of_row row)) (\<lambda>(name, team, role, status).
     act_bind (act_lift (employee_status_from status)) (\<lambda>current.
     act_bind (run_execute client employee_update_sql (scope_values session @
       [SqlText key, SqlText (given_text name (emi_name input)), SqlText (given_text team (emi_team input)),
        SqlText (given_text role (emi_role input)),
        SqlText (employee_status_value (unwrap_or current (emi_status input))), SqlText (hr_actor env)])
       ''hr_postgres_employee_update_failed'') (\<lambda>changed.
     if changed = 0 then act_fail ''employee not found'' else act_return ())))))"

definition remove_postgres_employee ::
    "'db sql_client \<Rightarrow> postgres_client_session \<Rightarrow> string \<Rightarrow> ('db, unit) action" where
  "remove_postgres_employee client session key =
     act_bind (run_execute client employee_delete_sql (scope_values session @ [SqlText key])
       ''hr_postgres_employee_delete_failed'') (\<lambda>changed.
     if changed = 0 then act_fail ''employee not found'' else act_return ())"

text \<open>A command in the open session: the change, then the table as it is.\<close>

definition run_postgres_employees ::
    "'db sql_client \<Rightarrow> env_vars \<Rightarrow> postgres_client_session \<Rightarrow> employee_command \<Rightarrow> nat \<Rightarrow> ('db, employee_store) action" where
  "run_postgres_employees client env session command id_seed =
     (case command of
        ListEmployees \<Rightarrow> load_postgres_employees client session
      | AddEmployee input \<Rightarrow>
          act_bind (add_postgres_employee client env session input id_seed) (\<lambda>_. load_postgres_employees client session)
      | UpdateEmployee key input \<Rightarrow>
          act_bind (update_postgres_employee client env session key input) (\<lambda>_. load_postgres_employees client session)
      | RemoveEmployee key \<Rightarrow>
          act_bind (remove_postgres_employee client session key) (\<lambda>_. load_postgres_employees client session))"

section \<open>The command line\<close>

text \<open>
  The command of the arguments; \<open>input\<close> is what the standard input reads as, and is read only for
  the commands that need it.
\<close>

definition employee_command_of_args :: "string list \<Rightarrow> (string + employee_input) \<Rightarrow> string + employee_command" where
  "employee_command_of_args args input =
     (case args of
        [] \<Rightarrow> Inl ''missing employee store action''
      | action # rest \<Rightarrow>
          if action = ''list'' then Inr ListEmployees
          else if action = ''add'' then result_bind input (\<lambda>i. Inr (AddEmployee i))
          else if action = ''update'' then
            (case rest of [] \<Rightarrow> Inl ''missing employee id for update''
             | key # _ \<Rightarrow> result_bind input (\<lambda>i. Inr (UpdateEmployee key i)))
          else if action = ''remove'' then
            (case rest of [] \<Rightarrow> Inl ''missing employee id for remove'' | key # _ \<Rightarrow> Inr (RemoveEmployee key))
          else Inl (''unsupported employee store action: '' @ action))"

text \<open>What the program prints, and the store it saves at the path, if it does.\<close>

definition run_employee_store ::
    "(string \<Rightarrow> string) \<Rightarrow> (string \<Rightarrow> string) \<Rightarrow> nat \<Rightarrow> 'db sql_client \<Rightarrow> env_vars \<Rightarrow> string list
      \<Rightarrow> (string + employee_input) \<Rightarrow> (string \<Rightarrow> (string + employee_store) option) \<Rightarrow> u64 \<Rightarrow> nat
      \<Rightarrow> ('db, employee_store \<times> (string \<times> employee_store) option) action" where
  "run_employee_store sha256 sql_text root_count client env args input file_at now id_seed =
     (if args = [] then act_fail ''missing employee store action''
      else if postgres_dsn_configured env then
        act_bind (connect_session sha256 sql_text root_count client env) (\<lambda>session.
        act_bind (act_lift (employee_command_of_args args input)) (\<lambda>command.
        act_bind (run_postgres_employees client env session command id_seed) (\<lambda>store.
        act_return (store, None))))
      else
        act_bind (act_lift (hr_store_path (env ''BITWEEN_ALLOW_LOCAL_REVIEW_STORE'') (env ''BITWEEN_HR_EMPLOYEE_STORE''))) (\<lambda>path.
        act_bind (act_lift (employee_command_of_args args input)) (\<lambda>command.
        act_bind (act_lift (run_local_employees (file_at path) command now id_seed)) (\<lambda>(store, saved).
        act_return (store, if saved then Some (path, store) else None)))))"

section \<open>The two back ends agree\<close>

text \<open>
  The row of an employee besides its key and time stamp.  A store represents the rows of a table
  when its ids are distinct and its employees are those rows, in any order.
\<close>

type_synonym employee_fields = "string \<times> string \<times> string \<times> string"

definition fields_of :: "employee_record \<Rightarrow> employee_fields" where
  "fields_of r = (emp_name r, emp_team r, emp_role r, employee_status_value (emp_status r))"

definition rows_of :: "employee_record list \<Rightarrow> string \<Rightarrow> employee_fields option" where
  "rows_of employees = map_of (map (\<lambda>r. (emp_id r, fields_of r)) employees)"

definition represents :: "employee_store \<Rightarrow> (string \<Rightarrow> employee_fields option) \<Rightarrow> bool" where
  "represents store rows \<longleftrightarrow> distinct (map emp_id (ems_employees store)) \<and> rows = rows_of (ems_employees store)"

definition employee_row :: "string \<times> employee_fields \<times> int \<Rightarrow> sql_row" where
  "employee_row entry = (case entry of (key, (name, team, role, status), updated) \<Rightarrow>
     [SqlText key, SqlText name, SqlText team, SqlText role, SqlText status, SqlInt updated])"

text \<open>
  What the commands rely on in the database, as PostgreSQL documents it; \<open>table\<close> reads the rows of a
  scope that are not reversed.  An insert that succeeds met no row of its key, the key being unique
  in the scope; an update and a delete give the number of the rows they changed.
\<close>

definition employee_table_laws ::
    "'db sql_client \<Rightarrow> ('db \<Rightarrow> sql_value list \<Rightarrow> string \<Rightarrow> employee_fields option) \<Rightarrow> bool" where
  "employee_table_laws client table \<longleftrightarrow>
     (\<forall>group db rows db'. sqc_query client employee_select_sql group db = (Some rows, db') \<longrightarrow>
        db' = db \<and> (\<exists>entries. distinct (map fst entries) \<and> (\<lambda>key. map_option fst (map_of entries key)) = table db group
                             \<and> rows = map employee_row entries))
   \<and> (\<forall>group key db rows db'. length group = 3 \<and>
        sqc_query client employee_lookup_sql (group @ [SqlText key]) db = (Some rows, db') \<longrightarrow>
        db' = db \<and> rows = (case table db group key of None \<Rightarrow> []
          | Some (name, team, role, status) \<Rightarrow> [[SqlText name, SqlText team, SqlText role, SqlText status]]))
   \<and> (\<forall>group key name team role status actor db n db'. length group = 3 \<and>
        sqc_execute client employee_insert_sql
          (group @ [SqlText key, SqlText name, SqlText team, SqlText role, SqlText status, SqlText actor]) db = (Some n, db') \<longrightarrow>
        table db group key = None \<and> table db' = (table db)(group := (table db group)(key \<mapsto> (name, team, role, status))))
   \<and> (\<forall>group key name team role status actor db n db'. length group = 3 \<and>
        sqc_execute client employee_update_sql
          (group @ [SqlText key, SqlText name, SqlText team, SqlText role, SqlText status, SqlText actor]) db = (Some n, db') \<longrightarrow>
        (n = 0 \<longleftrightarrow> table db group key = None) \<and>
        (n \<noteq> 0 \<longrightarrow> table db' = (table db)(group := (table db group)(key \<mapsto> (name, team, role, status)))))
   \<and> (\<forall>group key db n db'. length group = 3 \<and>
        sqc_execute client employee_delete_sql (group @ [SqlText key]) db = (Some n, db') \<longrightarrow>
        (n = 0 \<longleftrightarrow> table db group key = None) \<and> table db' = (table db)(group := (table db group)(key := None)))"

lemmas employee_select_law = employee_table_laws_def[THEN iffD1, THEN conjunct1, rule_format]
lemmas employee_lookup_law =
  employee_table_laws_def[THEN iffD1, THEN conjunct2, THEN conjunct1, rule_format, OF _ conjI]
lemmas employee_insert_law =
  employee_table_laws_def[THEN iffD1, THEN conjunct2, THEN conjunct2, THEN conjunct1, rule_format, OF _ conjI]
lemmas employee_update_law =
  employee_table_laws_def[THEN iffD1, THEN conjunct2, THEN conjunct2, THEN conjunct2, THEN conjunct1, rule_format, OF _ conjI]
lemmas employee_delete_law =
  employee_table_laws_def[THEN iffD1, THEN conjunct2, THEN conjunct2, THEN conjunct2, THEN conjunct2, rule_format, OF _ conjI]

lemma length_scope_values [simp]: "length (scope_values session) = 3"
  by (simp add: scope_values_def)

lemma employee_status_from_value [simp]: "employee_status_from (employee_status_value s) = Inr s"
  by (cases s) (simp_all add: employee_status_from_def)

lemma employee_status_fromD: "employee_status_from v = Inr s \<Longrightarrow> employee_status_value s = v"
  by (auto simp: employee_status_from_def split: if_splits)

lemma rows_of_None: "rows_of employees key = None \<longleftrightarrow> key \<notin> emp_id ` set employees"
  by (simp add: rows_of_def map_of_eq_None_iff image_image)

lemma represents_sort [simp]: "represents (sort_employees store) rows = represents store rows"
proof -
  have "distinct (map emp_id (sort_key emp_name es)) = distinct (map emp_id es)" for es :: "employee_record list"
    by (simp add: distinct_map)
  moreover have "rows_of (sort_key emp_name es) = rows_of es" if "distinct (map emp_id es)" for es
    using that unfolding rows_of_def by (subst map_of_inject_set) (simp_all add: comp_def distinct_map)
  ultimately show ?thesis by (auto simp: represents_def sort_employees_def)
qed

lemma rows_of_add: "emp_id r \<notin> emp_id ` set es \<Longrightarrow> rows_of (es @ [r]) = (rows_of es)(emp_id r \<mapsto> fields_of r)"
  by (induction es) (auto simp: rows_of_def fun_upd_twist)

lemma represents_add:
  assumes "represents store rows" "rows (emp_id r) = None"
  shows "represents (store\<lparr>ems_employees := ems_employees store @ [r]\<rparr>) (rows(emp_id r \<mapsto> fields_of r))"
proof -
  have "emp_id r \<notin> emp_id ` set (ems_employees store)"
    using assms rows_of_None[of "ems_employees store" "emp_id r"] by (simp add: represents_def)
  then show ?thesis using assms(1) by (simp add: represents_def rows_of_add)
qed

lemma change_first_Some:
  "change_first p f xs = Some ys \<Longrightarrow> \<exists>as x bs. xs = as @ x # bs \<and> p x \<and> (\<forall>a \<in> set as. \<not> p a) \<and> ys = as @ f x # bs"
proof (induction xs arbitrary: ys)
  case (Cons x xs)
  show ?case
  proof (cases "p x")
    case True
    then show ?thesis using Cons.prems by (intro exI[of _ "[]"]) auto
  next
    case False
    then obtain zs where "change_first p f xs = Some zs" "ys = x # zs" using Cons.prems by auto
    then obtain as y bs where "xs = as @ y # bs" "p y" "\<forall>a \<in> set as. \<not> p a" "zs = as @ f y # bs"
      using Cons.IH by blast
    then show ?thesis using False \<open>ys = x # zs\<close> by (intro exI[of _ "x # as"] exI[of _ y] exI[of _ bs]) auto
  qed
qed simp

lemma change_first_None: "change_first p f xs = None \<longleftrightarrow> (\<forall>x \<in> set xs. \<not> p x)"
  by (induction xs) auto

lemma rows_of_change:
  assumes "key \<notin> emp_id ` set as" "emp_id x = key" "emp_id y = key"
  shows "rows_of (as @ y # bs) = (rows_of (as @ x # bs))(key \<mapsto> fields_of y)"
  using assms by (induction as) (auto simp: rows_of_def fun_upd_twist)

lemma represents_change:
  assumes rep: "represents store rows" and key: "rows key = Some vals"
    and keep: "\<And>r. emp_id (f r) = emp_id r" and new: "\<And>r. fields_of r = vals \<Longrightarrow> fields_of (f r) = vals'"
  shows "\<exists>es. change_first (\<lambda>r. emp_id r = key) f (ems_employees store) = Some es
    \<and> represents (store\<lparr>ems_employees := es\<rparr>) (rows(key \<mapsto> vals'))"
proof -
  have "key \<in> emp_id ` set (ems_employees store)"
    using rep key rows_of_None[of "ems_employees store" key] by (auto simp: represents_def)
  then obtain es where es: "change_first (\<lambda>r. emp_id r = key) f (ems_employees store) = Some es"
    using change_first_None[of "\<lambda>r. emp_id r = key" f "ems_employees store"] by (auto simp: image_iff)
  then obtain as x bs where parts: "ems_employees store = as @ x # bs" "emp_id x = key" "es = as @ f x # bs"
      "\<forall>a \<in> set as. emp_id a \<noteq> key"
    using change_first_Some[OF es] by blast
  then have "key \<notin> emp_id ` set as" by auto
  note change = rows_of_change[OF this parts(2)]
  have "rows key = Some (fields_of x)"
    using rep parts change[OF parts(2), of bs] by (simp add: represents_def) (metis fun_upd_same)
  then have "fields_of (f x) = vals'" using new[of x] key by simp
  then have "represents (store\<lparr>ems_employees := es\<rparr>) (rows(key \<mapsto> vals'))"
    using rep parts keep[of x] change[of "f x" bs] by (auto simp: represents_def)
  then show ?thesis using es by blast
qed

lemma rows_of_filter: "rows_of (filter (\<lambda>r. emp_id r \<noteq> key) es) = (rows_of es)(key := None)"
  by (induction es) (auto simp: rows_of_def fun_upd_twist)

lemma represents_remove:
  assumes "represents store rows"
  shows "represents (store\<lparr>ems_employees := filter (\<lambda>r. emp_id r \<noteq> key) (ems_employees store)\<rparr>) (rows(key := None))"
  using assms by (simp add: represents_def distinct_map_filter rows_of_filter)

lemma load_employees_represents:
  assumes laws: "employee_table_laws client table"
    and run: "load_postgres_employees client session db = (Inr printed, db')"
  shows "db' = db \<and> represents printed (table db (scope_values session))"
proof -
  obtain rows employees where q: "sqc_query client employee_select_sql (scope_values session) db = (Some rows, db')"
    and m: "try_map employee_of_row rows = Inr employees" and p: "ems_employees printed = employees"
    using run by (auto simp: load_postgres_employees_def run_Inr)
  obtain entries where db: "db' = db" and dist: "distinct (map fst entries)" and rows: "rows = map employee_row entries"
    and table: "(\<lambda>key. map_option fst (map_of entries key)) = table db (scope_values session)"
    using employee_select_law[OF laws q] by blast
  have l2: "list_all2 (\<lambda>entry r. emp_id r = fst entry \<and> fields_of r = fst (snd entry)) entries employees"
    using m unfolding rows try_map_Inr_iff list_all2_map1
    by (rule list_all2_mono) (auto simp: employee_row_def fields_of_def result_bind_Inr_iff dest!: employee_status_fromD split: prod.splits)
  have same: "map (\<lambda>r. (emp_id r, fields_of r)) employees = map (\<lambda>e. (fst e, fst (snd e))) entries"
    and ids: "map emp_id employees = map fst entries"
    using l2 by (induction rule: list_all2_induct) auto
  have "map_of (map (\<lambda>e. (fst e, fst (snd e))) es) key = map_option fst (map_of es key)"
    for es :: "(string \<times> employee_fields \<times> int) list" and key
    by (induction es) auto
  then have "represents printed (table db (scope_values session))"
    unfolding represents_def p rows_of_def same ids table[symmetric] using dist by auto
  then show ?thesis using db by simp
qed

lemma update_effect:
  assumes laws: "employee_table_laws client table"
    and run: "update_postgres_employee client env session key input db = (Inr (), db')"
  shows "\<exists>name team role status current. table db (scope_values session) key = Some (name, team, role, status)
    \<and> employee_status_from status = Inr current
    \<and> table db' (scope_values session) = (table db (scope_values session))
        (key \<mapsto> (given_text name (emi_name input), given_text team (emi_team input), given_text role (emi_role input),
                employee_status_value (unwrap_or current (emi_status input))))"
proof -
  let ?g = "scope_values session"
  obtain row name team role status current n db1 where
    find: "sqc_query client employee_lookup_sql (?g @ [SqlText key]) db = (Some [row], db1)"
    and row: "existing_of_row row = Inr (name, team, role, status)" "employee_status_from status = Inr current"
    and exec: "sqc_execute client employee_update_sql (?g @
       [SqlText key, SqlText (given_text name (emi_name input)), SqlText (given_text team (emi_team input)),
        SqlText (given_text role (emi_role input)),
        SqlText (employee_status_value (unwrap_or current (emi_status input))), SqlText (hr_actor env)])
        db1 = (Some n, db')" "n \<noteq> 0"
    using run by (auto simp: update_postgres_employee_def run_Inr split: if_splits)
  have "table db ?g key = Some (name, team, role, status) \<and> db1 = db"
    using employee_lookup_law[OF laws length_scope_values find] row(1) by (auto split: option.splits)
  then show ?thesis
    using employee_update_law[OF laws length_scope_values exec(1)] exec(2) row(2) by (intro exI conjI) auto
qed

text \<open>
  C7: A command that succeeds on the table succeeds on a local file with the same employees, and the
  file it saves, the table it leaves and the store it prints hold the same employees again.
\<close>

theorem employee_backends_agree:
  assumes laws: "employee_table_laws client table"
    and rep: "represents store (table db (scope_values session))"
    and run: "run_postgres_employees client env session command id_seed db = (Inr printed, db')"
  shows "\<exists>store'. run_local_employees (Some (Inr store)) command now id_seed = Inr (store', command \<noteq> ListEmployees)
    \<and> represents store' (table db' (scope_values session)) \<and> represents printed (table db' (scope_values session))"
proof -
  let ?g = "scope_values session"
  note load = load_employees_represents[OF laws]
  have rep': "represents (sort_employees store) (table db ?g)" using rep by simp
  show ?thesis
  proof (cases command)
    case ListEmployees
    then show ?thesis
      using run load rep' by (auto simp: run_postgres_employees_def run_local_employees_def load_employee_store_def)
  next
    case (AddEmployee input)
    then obtain db1 where add: "add_postgres_employee client env session input id_seed db = (Inr (), db1)"
      and print: "load_postgres_employees client session db1 = (Inr printed, db')"
      using run by (auto simp: run_postgres_employees_def act_bind_Inr)
    obtain name team role n where f: "hr_required_field (emi_name input) ''name'' = Inr name"
        "hr_required_field (emi_team input) ''team'' = Inr team" "hr_required_field (emi_role input) ''role'' = Inr role"
      and ins: "sqc_execute client employee_insert_sql (?g @ [SqlText (''employee-'' @ show_nat id_seed), SqlText name,
        SqlText team, SqlText role, SqlText (employee_status_value (unwrap_or EmployeeActive (emi_status input))),
        SqlText (hr_actor env)]) db = (Some n, db1)"
      using add by (auto simp: add_postgres_employee_def run_Inr)
    let ?r = "\<lparr>emp_id = ''employee-'' @ show_nat id_seed, emp_name = name, emp_team = team, emp_role = role,
         emp_status = unwrap_or EmployeeActive (emi_status input), emp_updated_at_unix = now\<rparr>"
    have "represents ((sort_employees store)\<lparr>ems_employees := ems_employees (sort_employees store) @ [?r]\<rparr>) (table db1 ?g)"
      using represents_add[OF rep', of ?r] employee_insert_law[OF laws length_scope_values ins] by (simp add: fields_of_def)
    then show ?thesis
      using load[OF print] f AddEmployee
      by (simp add: run_local_employees_def load_employee_store_def add_employee_def)
  next
    case (UpdateEmployee key input)
    then obtain db1 where upd: "update_postgres_employee client env session key input db = (Inr (), db1)"
      and print: "load_postgres_employees client session db1 = (Inr printed, db')"
      using run by (auto simp: run_postgres_employees_def act_bind_Inr)
    obtain name team role status current where vals: "table db ?g key = Some (name, team, role, status)"
      and current: "employee_status_from status = Inr current"
      and after: "table db1 ?g = (table db ?g)(key \<mapsto> (given_text name (emi_name input), given_text team (emi_team input),
          given_text role (emi_role input), employee_status_value (unwrap_or current (emi_status input))))"
      using update_effect[OF laws upd] by blast
    have "\<exists>es. change_first (\<lambda>r. emp_id r = key) (changed_employee input now) (ems_employees (sort_employees store)) = Some es
      \<and> represents ((sort_employees store)\<lparr>ems_employees := es\<rparr>) (table db1 ?g)"
      unfolding after
      by (rule represents_change[OF rep' vals])
         (use current in \<open>auto simp: changed_employee_def fields_of_def\<close>)
    then show ?thesis
      using load[OF print] UpdateEmployee
      by (auto simp: run_local_employees_def load_employee_store_def update_employee_def)
  next
    case (RemoveEmployee key)
    then obtain db1 where rem: "remove_postgres_employee client session key db = (Inr (), db1)"
      and print: "load_postgres_employees client session db1 = (Inr printed, db')"
      using run by (auto simp: run_postgres_employees_def act_bind_Inr)
    obtain n where del: "sqc_execute client employee_delete_sql (?g @ [SqlText key]) db = (Some n, db1)" "n \<noteq> 0"
      using rem by (auto simp: remove_postgres_employee_def run_Inr split: if_splits)
    have present: "table db ?g key \<noteq> None" and after: "table db1 ?g = (table db ?g)(key := None)"
      using employee_delete_law[OF laws length_scope_values del(1)] del(2) by auto
    then obtain r where "r \<in> set (ems_employees (sort_employees store))" "emp_id r = key"
      using rep' rows_of_None[of "ems_employees (sort_employees store)" key] by (auto simp: represents_def)
    then have "length (filter (\<lambda>r. emp_id r \<noteq> key) (ems_employees (sort_employees store))) \<noteq> length (ems_employees (sort_employees store))"
      using length_filter_less[of r "ems_employees (sort_employees store)" "\<lambda>r. emp_id r \<noteq> key"] by simp
    then show ?thesis
      using load[OF print] RemoveEmployee represents_remove[OF rep', of key]
      by (simp add: run_local_employees_def load_employee_store_def remove_employee_def after)
  qed
qed

section \<open>A table\<close>

text \<open>A table of rows per scope, with zero as every time stamp.\<close>

definition table_step ::
    "string \<Rightarrow> string \<Rightarrow> employee_fields \<Rightarrow> (string \<times> employee_fields) list \<Rightarrow> nat option \<times> (string \<times> employee_fields) list" where
  "table_step sql key vals rows =
     (if sql = employee_insert_sql then
        (case map_of rows key of None \<Rightarrow> (Some 1, (key, vals) # rows) | Some _ \<Rightarrow> (None, rows))
      else if sql = employee_update_sql then
        (case map_of rows key of None \<Rightarrow> (Some 0, rows) | Some _ \<Rightarrow> (Some 1, (key, vals) # rows))
      else (case map_of rows key of None \<Rightarrow> (Some 0, rows) | Some _ \<Rightarrow> (Some 1, filter (\<lambda>(k, _). k \<noteq> key) rows)))"

definition sample_employee_client :: "(sql_value list \<Rightarrow> (string \<times> employee_fields) list) sql_client" where
  "sample_employee_client =
     \<lparr>pgc_connect = (\<lambda>_ db. (True, db)), pgc_batch_execute = (\<lambda>_ db. (True, db)),
      pgc_execute = (\<lambda>_ _ db. (True, db)), pgc_query_opt = (\<lambda>_ _ db. (Some None, db)),
      sqc_query = (\<lambda>sql params db. (Some
        (if sql = employee_select_sql
         then map (\<lambda>(key, vals). employee_row (key, vals, 0)) (AList.clearjunk (db params))
         else case drop 3 params of
           [SqlText key] \<Rightarrow> (case map_of (db (take 3 params)) key of None \<Rightarrow> []
             | Some (name, team, role, status) \<Rightarrow> [[SqlText name, SqlText team, SqlText role, SqlText status]])
         | _ \<Rightarrow> []), db)),
      sqc_execute = (\<lambda>sql params db.
        case (case drop 3 params of
           [SqlText key, SqlText name, SqlText team, SqlText role, SqlText status, _] \<Rightarrow>
             table_step sql key (name, team, role, status) (db (take 3 params))
         | [SqlText key] \<Rightarrow> table_step sql key ([], [], [], []) (db (take 3 params))
         | _ \<Rightarrow> (None, db (take 3 params))) of
          (n, rows) \<Rightarrow> (n, db(take 3 params := rows)))\<rparr>"

lemma distinct_statements:
  "employee_insert_sql \<noteq> employee_update_sql" "employee_insert_sql \<noteq> employee_delete_sql"
  "employee_update_sql \<noteq> employee_delete_sql" "employee_select_sql \<noteq> employee_lookup_sql"
  by code_simp+

lemma map_of_filter_other: "map_of (filter (\<lambda>(k, _). k \<noteq> key) rows) = (map_of rows)(key := None)"
  by (induction rows) auto

lemma sample_employee_laws: "employee_table_laws sample_employee_client (\<lambda>db group. map_of (db group))"
proof -
  have upd: "(\<lambda>g. map_of ((db(group := rows)) g)) = (\<lambda>g. map_of (db g))(group := map_of rows)"
    for db :: "sql_value list \<Rightarrow> (string \<times> employee_fields) list" and group rows
    by (rule ext) simp
  have entries: "\<exists>entries. distinct (map fst entries) \<and> (\<lambda>key. map_option fst (map_of entries key)) = map_of rows
      \<and> map (\<lambda>(key, vals). employee_row (key, vals, 0)) (AList.clearjunk rows) = map employee_row entries"
    for rows :: "(string \<times> employee_fields) list"
  proof (intro exI[of _ "map (\<lambda>(key, vals). (key, vals, 0)) (AList.clearjunk rows)"] conjI)
    have "map_option fst (map_of (map (\<lambda>(key, vals). (key, vals, 0::int)) xs) key) = map_of xs key"
      for xs :: "(string \<times> employee_fields) list" and key
      by (induction xs) auto
    note this[of "AList.clearjunk rows"]
    then show "(\<lambda>key. map_option fst (map_of (map (\<lambda>(key, vals). (key, vals, 0::int)) (AList.clearjunk rows)) key)) = map_of rows"
      unfolding map_of_clearjunk by (rule ext)
  qed (auto simp: comp_def case_prod_beta distinct_clearjunk[unfolded comp_def])
  show ?thesis
    unfolding employee_table_laws_def
    by (intro conjI allI impI;
        use entries in \<open>auto simp: sample_employee_client_def upd table_step_def distinct_statements
          distinct_statements[symmetric] split: option.splits if_splits\<close>;
        rule ext; auto simp: map_of_filter_other)
qed

definition sample_employee_session :: postgres_client_session where
  "sample_employee_session = \<lparr>pcs_scope =
     \<lparr>pts_tenant_id = ''t'', pts_legal_entity_id = ''e'', pts_workplace_id = ''w''\<rparr>, pcs_redacted_dsn = redacted_dsn\<rparr>"

definition sample_employee_input :: employee_input where
  "sample_employee_input =
     \<lparr>emi_name = Some '' Kim '', emi_team = Some ''Ops'', emi_role = Some ''Lead'', emi_status = Some EmployeeOnLeave\<rparr>"

theorem employee_backends_agree_witness:
  "\<exists>printed db' store'. run_postgres_employees sample_employee_client (\<lambda>_. None) sample_employee_session
       (AddEmployee sample_employee_input) 7 (\<lambda>_. []) = (Inr printed, db')
     \<and> run_local_employees (Some (Inr empty_employee_store)) (AddEmployee sample_employee_input) 5 7 = Inr (store', True)
     \<and> represents store' (map_of (db' (scope_values sample_employee_session)))"
proof -
  have required: "hr_required_field (emi_name sample_employee_input) ''name'' = Inr ''Kim''"
    "hr_required_field (emi_team sample_employee_input) ''team'' = Inr ''Ops''"
    "hr_required_field (emi_role sample_employee_input) ''role'' = Inr ''Lead''"
    by code_simp+
  have "\<exists>printed db'. run_postgres_employees sample_employee_client (\<lambda>_. None) sample_employee_session
       (AddEmployee sample_employee_input) 7 (\<lambda>_. []) = (Inr printed, db')"
    by (simp add: run_postgres_employees_def add_postgres_employee_def act_bind_def required run_execute_def
        scope_values_def sample_employee_client_def table_step_def load_postgres_employees_def run_query_def
        employee_row_def)
  then obtain printed db' where run: "run_postgres_employees sample_employee_client (\<lambda>_. None) sample_employee_session
       (AddEmployee sample_employee_input) 7 (\<lambda>_. []) = (Inr printed, db')" by blast
  have "represents empty_employee_store (map_of [])" by (simp add: represents_def empty_employee_store_def rows_of_def)
  from employee_backends_agree[OF sample_employee_laws _ run] this run show ?thesis by fastforce
qed

end
