(* ===== verification/Payroll_Ledger.thy ===== *)
theory Payroll_Ledger
  imports Sql_Client Archive_Mapping
begin

text \<open>
  The importer of the monthly payroll ledger, \<open>crates/payroll-api/src/bin/payroll_ledger_import.rs\<close>:
  the employee keys, the intake record the rows refer to, one upsert per worker and the totals.
  SHA-256 and the parser of the input are parameters.
\<close>

section \<open>Data\<close>

record ledger_worker_input =
  lwi_name :: string
  lwi_employee_key :: "string option"
  lwi_roster_id :: "string option"
  lwi_gross :: i64
  lwi_income_tax :: i64
  lwi_local_income_tax :: i64
  lwi_health_insurance :: i64
  lwi_national_pension :: i64
  lwi_employment_insurance :: i64
  lwi_total_deductions :: i64
  lwi_net :: i64

record ledger_import_input =
  lii_period :: string
  lii_source_file :: string
  lii_workers :: "ledger_worker_input list"

record ledger_import_result =
  lir_ok :: bool
  lir_period :: string
  lir_source_intake_id :: string
  lir_imported :: u64
  lir_workers :: u64
  lir_gross_total :: i64
  lir_deduction_total :: i64
  lir_net_total :: i64
  lir_warnings :: "string list"

section \<open>Input\<close>

definition period_well_formed :: "string \<Rightarrow> bool" where
  "period_well_formed period \<longleftrightarrow>
     length period = 7 \<and> list_all is_digit (take 4 period) \<and> period ! 4 = CHR ''-'' \<and> list_all is_digit (drop 5 period)"

definition validate_ledger_period :: "string \<Rightarrow> string + unit" where
  "validate_ledger_period period =
     (if period_well_formed period then Inr () else Inl ''payroll_ledger_import_invalid_period'')"

definition read_ledger_input :: "(string \<Rightarrow> ledger_import_input option) \<Rightarrow> string option \<Rightarrow> string + ledger_import_input" where
  "read_ledger_input parser stdin =
     result_bind (ok_or ''payroll_ledger_import_stdin_read_failed'' stdin) (\<lambda>body.
     result_bind (ok_or ''payroll_ledger_import_invalid_json'' (parser body)) (\<lambda>input.
     result_bind (validate_ledger_period (lii_period input)) (\<lambda>_.
     if lii_workers input = [] then Inl ''payroll_ledger_import_no_workers'' else Inr input)))"

section \<open>Keys and hashes\<close>

definition ledger_key_char :: "char \<Rightarrow> bool" where
  "ledger_key_char c \<longleftrightarrow> ascii_alphanumeric c \<or> c = CHR ''_'' \<or> c = CHR ''-''"

definition is_valid_employee_key :: "string \<Rightarrow> bool" where
  "is_valid_employee_key v \<longleftrightarrow>
     starts_with ''employee-'' v
     \<and> (let rest = drop 9 v in rest \<noteq> [] \<and> length rest \<le> 96 \<and> list_all ledger_key_char rest)"

definition sanitize_key_part :: "string \<Rightarrow> string" where
  "sanitize_key_part v =
     take_chars 80 (trim_dashes
       (map (\<lambda>ch. if length ch = 1 \<and> ledger_key_char (hd ch) then hd ch else CHR ''-'') (utf8_chars v)))"

text \<open>The digest has 64 ASCII characters, so its prefix is a slice of characters.\<close>

definition resolve_employee_key :: "(string \<Rightarrow> string) \<Rightarrow> ledger_worker_input \<Rightarrow> string \<Rightarrow> string" where
  "resolve_employee_key sha256 worker period =
     (let by_name = ''employee-ledger-'' @ remove_char (CHR ''-'') period @ ''-''
                      @ take 16 (sha256_hex sha256 (lwi_name worker)) in
      case opt_filter is_valid_employee_key (map_option trim (lwi_employee_key worker)) of
        Some key \<Rightarrow> key
      | None \<Rightarrow>
          (case opt_filter (\<lambda>v. v \<noteq> []) (map_option trim (lwi_roster_id worker)) of
             Some roster_id \<Rightarrow>
               (let sanitized = sanitize_key_part roster_id in
                if sanitized \<noteq> [] then ''employee-'' @ sanitized else by_name)
           | None \<Rightarrow> by_name))"

definition worker_row_hash :: "(string \<Rightarrow> string) \<Rightarrow> string \<Rightarrow> string \<Rightarrow> ledger_worker_input \<Rightarrow> string" where
  "worker_row_hash sha256 period employee_key w =
     sha256_hex sha256 (join_with ''|''
       [period, employee_key, show_int (lwi_gross w), show_int (lwi_income_tax w), show_int (lwi_local_income_tax w),
        show_int (lwi_health_insurance w), show_int (lwi_national_pension w), show_int (lwi_employment_insurance w),
        show_int (lwi_total_deductions w), show_int (lwi_net w)])"

definition ledger_object_bucket :: "env_vars \<Rightarrow> string" where
  "ledger_object_bucket env =
     unwrap_or ''bitween-archive-originals''
       (opt_filter (\<lambda>v. v \<noteq> []) (map_option trim
         (opt_or (env ''BITWEEN_RUSTFS_BUCKET'') (env ''BITWEEN_RUSTFS_BUCKET_ARCHIVE''))))"

definition ledger_content_sha256 :: "(string \<Rightarrow> string) \<Rightarrow> ledger_import_input \<Rightarrow> string" where
  "ledger_content_sha256 sha256 input =
     sha256_hex sha256 (''payroll-ledger|'' @ lii_period input @ ''|'' @ trim (lii_source_file input) @ ''|''
       @ show_nat (length (lii_workers input)))"

section \<open>The intake record\<close>

definition ledger_intake_lookup_sql :: string where
  "ledger_intake_lookup_sql =
     ''SELECT id::text FROM bitween_archive.archive_intake WHERE tenant_id = $1 AND content_sha256 = $2 '' @
     ''ORDER BY created_at ASC LIMIT 1''"

definition ledger_intake_insert_sql :: string where
  "ledger_intake_insert_sql =
     ''INSERT INTO bitween_archive.archive_intake ( tenant_id, legal_entity_id, workplace_id, '' @
     ''payroll_period, uploader_user_id, original_file_name, stored_file_name, object_uri, object_bucket, '' @
     ''object_key, content_sha256, content_sample_sha256, content_sample_row_count, extraction_status, '' @
     ''content_type, file_size_bytes, family, database_target, status, next_action, extracted_columns, '' @
     ''estimated_rows, postgres_ready, sensitivity_label ) VALUES ( $1, $2, $3, $4, $5, $6, $6, $7, $8, '' @
     ''$9, $10, $11, $12, '' @ sql_literal ''converted'' @ '', $13, 0, '' @ sql_literal ''payroll'' @ '', '' @ sql_literal ''payroll_input_staging'' @ '', '' @ sql_literal ''admitted'' @ '', '' @
     sql_literal ''save_to_business_data'' @ '', '' @ sql_literal ''[]'' @ ''::jsonb, $14, false, '' @ sql_literal ''restricted'' @ '' ) RETURNING id::text''"

definition first_text :: "sql_row \<Rightarrow> ('db, string) action" where
  "first_text row =
     (case row of SqlText t # _ \<Rightarrow> act_return t | _ \<Rightarrow> act_fail ''error retrieving column'')"

definition ledger_intake_values ::
    "(string \<Rightarrow> string) \<Rightarrow> env_vars \<Rightarrow> postgres_client_session \<Rightarrow> ledger_import_input \<Rightarrow> string \<Rightarrow> string \<Rightarrow> sql_value list" where
  "ledger_intake_values sha256 env session input content_sha256 actor =
     (let file_name = (if trim (lii_source_file input) = [] then ''payroll-ledger-'' @ lii_period input @ ''.import''
                       else trim (lii_source_file input));
          estimated_rows = SqlInt (int (length (lii_workers input)));
          bucket = ledger_object_bucket env;
          object_key = ''ledger-import/'' @ lii_period input @ ''/'' @ content_sha256 in
      scope_values session @
      [SqlText (lii_period input), SqlText actor, SqlText file_name,
       SqlText (''rustfs://'' @ bucket @ ''/'' @ object_key), SqlText bucket, SqlText object_key,
       SqlText content_sha256, SqlText (sha256_hex sha256 []), estimated_rows,
       SqlText ''application/vnd.openxmlformats-officedocument.spreadsheetml.sheet'', estimated_rows])"

definition ensure_ledger_intake ::
    "(string \<Rightarrow> string) \<Rightarrow> env_vars \<Rightarrow> 'db sql_client \<Rightarrow> postgres_client_session \<Rightarrow> ledger_import_input
      \<Rightarrow> string \<Rightarrow> string \<Rightarrow> ('db, string) action" where
  "ensure_ledger_intake sha256 env client session input content_sha256 actor =
     act_bind (run_query_opt client ledger_intake_lookup_sql
       [SqlText (pts_tenant_id (pcs_scope session)), SqlText content_sha256]
       ''payroll_ledger_import_intake_lookup_failed'') (\<lambda>found.
     case found of
       Some row \<Rightarrow> first_text row
     | None \<Rightarrow>
         act_bind (run_query_one client ledger_intake_insert_sql
           (ledger_intake_values sha256 env session input content_sha256 actor)
           ''payroll_ledger_import_intake_insert_failed'') first_text)"

section \<open>The rows\<close>

definition payroll_input_upsert_sql :: string where
  "payroll_input_upsert_sql =
     ''INSERT INTO bitween_payroll.payroll_input ( tenant_id, legal_entity_id, workplace_id, '' @
     ''payroll_period, employee_key, gross_pay, deduction_total, source_intake_id, source_row_hash, '' @
     ''source_payload, created_by, updated_by ) VALUES ( $1, $2, $3, $4, $5, $6::text::numeric, '' @
     ''$7::text::numeric, $8::text::uuid, $9, $10::text::jsonb, $11, $11 ) ON CONFLICT (tenant_id, '' @
     ''legal_entity_id, workplace_id, payroll_period, employee_key) DO UPDATE SET gross_pay = '' @
     ''EXCLUDED.gross_pay, deduction_total = EXCLUDED.deduction_total, source_intake_id = '' @
     ''EXCLUDED.source_intake_id, source_row_hash = EXCLUDED.source_row_hash, source_payload = '' @
     ''EXCLUDED.source_payload, admission_status = '' @ sql_literal ''admitted'' @ '', updated_by = EXCLUDED.updated_by''"

definition ledger_payload :: "ledger_worker_input \<Rightarrow> json" where
  "ledger_payload w =
     JObj (bt_collect
       [(''name'', JStr (lwi_name w)), (''income_tax'', JNum (JInt (lwi_income_tax w))),
        (''local_income_tax'', JNum (JInt (lwi_local_income_tax w))),
        (''health_insurance'', JNum (JInt (lwi_health_insurance w))),
        (''national_pension'', JNum (JInt (lwi_national_pension w))),
        (''employment_insurance'', JNum (JInt (lwi_employment_insurance w))),
        (''total_deductions'', JNum (JInt (lwi_total_deductions w))), (''net'', JNum (JInt (lwi_net w)))])"

definition upsert_payroll_input ::
    "'db sql_client \<Rightarrow> postgres_client_session \<Rightarrow> string \<Rightarrow> string \<Rightarrow> i64 \<Rightarrow> i64 \<Rightarrow> string \<Rightarrow> string \<Rightarrow> string
      \<Rightarrow> string \<Rightarrow> ('db, unit) action" where
  "upsert_payroll_input client session period employee_key gross_pay deduction_total source_intake_id
       source_row_hash source_payload actor =
     act_bind (run_execute client payroll_input_upsert_sql
       (scope_values session @ [SqlText period, SqlText employee_key, SqlText (show_int gross_pay),
        SqlText (show_int deduction_total), SqlText source_intake_id, SqlText source_row_hash,
        SqlText source_payload, SqlText actor])
       ''payroll_ledger_import_payroll_input_upsert_failed'') (\<lambda>_. act_return ())"

text \<open>The variables of the loop over the workers.\<close>

record ledger_loop =
  lil_imported :: u64
  lil_gross_total :: i64
  lil_deduction_total :: i64
  lil_net_total :: i64
  lil_seen_keys :: "string list"
  lil_warnings :: "string list"

definition ledger_loop_start :: ledger_loop where
  "ledger_loop_start = \<lparr>lil_imported = 0, lil_gross_total = 0, lil_deduction_total = 0, lil_net_total = 0,
     lil_seen_keys = [], lil_warnings = []\<rparr>"

definition note_worker :: "string \<Rightarrow> ledger_worker_input \<Rightarrow> ledger_loop \<Rightarrow> ledger_loop" where
  "note_worker employee_key w s =
     \<lparr>lil_imported = lil_imported s + 1,
      lil_gross_total = i64_add (lil_gross_total s) (lwi_gross w),
      lil_deduction_total = i64_add (lil_deduction_total s) (lwi_total_deductions w),
      lil_net_total = i64_add (lil_net_total s) (lwi_net w),
      lil_seen_keys = List.insert employee_key (lil_seen_keys s),
      lil_warnings = (if employee_key \<in> set (lil_seen_keys s)
                      then lil_warnings s @ [''duplicate employee_key collapsed: '' @ employee_key]
                      else lil_warnings s)\<rparr>"

definition import_worker ::
    "(string \<Rightarrow> string) \<Rightarrow> 'db sql_client \<Rightarrow> postgres_client_session \<Rightarrow> string \<Rightarrow> string \<Rightarrow> string
      \<Rightarrow> ledger_loop \<Rightarrow> ledger_worker_input \<Rightarrow> ('db, ledger_loop) action" where
  "import_worker sha256 client session period source_intake_id actor s w =
     (let employee_key = resolve_employee_key sha256 w period in
      act_bind (upsert_payroll_input client session period employee_key (lwi_gross w)
        (max (lwi_total_deductions w) 0) source_intake_id (worker_row_hash sha256 period employee_key w)
        (json_to_string (ledger_payload w)) actor) (\<lambda>_.
      act_return (note_worker employee_key w s)))"

definition ledger_result :: "ledger_import_input \<Rightarrow> string \<Rightarrow> ledger_loop \<Rightarrow> ledger_import_result" where
  "ledger_result input source_intake_id s =
     \<lparr>lir_ok = True, lir_period = lii_period input, lir_source_intake_id = source_intake_id,
      lir_imported = lil_imported s, lir_workers = int (length (lii_workers input)),
      lir_gross_total = lil_gross_total s, lir_deduction_total = lil_deduction_total s,
      lir_net_total = lil_net_total s, lir_warnings = lil_warnings s\<rparr>"

definition ledger_import ::
    "(string \<Rightarrow> string) \<Rightarrow> env_vars \<Rightarrow> 'db sql_client \<Rightarrow> postgres_client_session \<Rightarrow> ledger_import_input
      \<Rightarrow> ('db, ledger_import_result) action" where
  "ledger_import sha256 env client session input =
     (let actor = postgres_actor_or ''payroll-ledger-import'' env;
          content_sha256 = ledger_content_sha256 sha256 input in
      act_bind (ensure_ledger_intake sha256 env client session input content_sha256 actor) (\<lambda>source_intake_id.
      act_bind (act_fold (import_worker sha256 client session (lii_period input) source_intake_id actor)
        ledger_loop_start (lii_workers input)) (\<lambda>s.
      act_return (ledger_result input source_intake_id s))))"

definition run_ledger_import ::
    "(string \<Rightarrow> string) \<Rightarrow> (string \<Rightarrow> string) \<Rightarrow> nat \<Rightarrow> 'db sql_client \<Rightarrow> env_vars
      \<Rightarrow> (string \<Rightarrow> ledger_import_input option) \<Rightarrow> string option \<Rightarrow> ('db, ledger_import_result) action" where
  "run_ledger_import sha256 sql_text root_count client env parser stdin =
     (if \<not> postgres_dsn_configured env
      then act_fail ''payroll_ledger_import requires BITWEEN_POSTGRES_DSN and the canonical payroll_input table.''
      else act_bind (act_lift (read_ledger_input parser stdin)) (\<lambda>input.
           act_bind (connect_session sha256 sql_text root_count client env) (\<lambda>session.
           ledger_import sha256 env client session input)))"

section \<open>Keys\<close>

lemma sanitized_key_chars: "list_all ledger_key_char (sanitize_key_part v) \<and> length (sanitize_key_part v) \<le> 80"
proof -
  let ?cleaned = "map (\<lambda>ch. if length ch = 1 \<and> ledger_key_char (hd ch) then hd ch else CHR ''-'') (utf8_chars v)"
  have "list_all ledger_key_char ?cleaned"
    by (auto simp: list_all_iff ledger_key_char_def)
  moreover have "set (sanitize_key_part v) \<subseteq> set ?cleaned"
    unfolding sanitize_key_part_def by (rule subset_trans[OF take_chars_set trim_dashes_set])
  ultimately have chars: "list_all ledger_key_char (sanitize_key_part v)"
    unfolding list_all_iff by blast
  have "\<not> is_continuation c" if "ledger_key_char c" for c
    using that by (auto simp: ledger_key_char_def ascii_alphanumeric_def is_continuation_def is_digit_def char_code_def)
  then have "char_count (sanitize_key_part v) = length (sanitize_key_part v)"
    using chars by (simp add: char_count_def list_all_iff filter_id_conv)
  moreover have "char_count (sanitize_key_part v) \<le> 80"
    unfolding sanitize_key_part_def by (rule char_count_take_chars)
  ultimately show ?thesis using chars by simp
qed

text \<open>
  Whatever the row of a worker holds, its key satisfies the constraint of the table: the prefix
  \<open>employee-\<close> and one to ninety-six letters, digits, underscores and dashes.
\<close>

theorem resolved_key_valid:
  assumes "period_well_formed period"
  shows "is_valid_employee_key (resolve_employee_key sha256 w period)"
proof -
  have start: "is_valid_employee_key (''employee-'' @ rest) \<longleftrightarrow>
      rest \<noteq> [] \<and> length rest \<le> 96 \<and> list_all ledger_key_char rest" for rest
    by (simp add: is_valid_employee_key_def starts_with_def)
  let ?name = "remove_char (CHR ''-'') period @ ''-'' @ take 16 (sha256_hex sha256 (lwi_name w))"
  have hex: "list_all ledger_key_char (take 16 (sha256_hex sha256 (lwi_name w)))"
    using hex_bytes_hex[of "sha256 (lwi_name w)"]
    by (auto simp: sha256_hex_def list_all_iff ascii_hexdigit_def ledger_key_char_def ascii_alphanumeric_def
        dest!: in_set_takeD)
  have "list_all ledger_key_char (remove_char (CHR ''-'') period)"
  proof -
    have "c \<in> set (take 4 period) \<or> c = period ! 4 \<or> c \<in> set (drop 5 period)" if "c \<in> set period" for c
    proof -
      have "period = take 4 period @ period ! 4 # drop 5 period"
        using assms Cons_nth_drop_Suc[of 4 period] append_take_drop_id[of 4 period]
        by (simp add: period_well_formed_def)
      then have "set period = set (take 4 period @ period ! 4 # drop 5 period)" by simp
      then show ?thesis using that by auto
    qed
    then show ?thesis
      using assms by (auto simp: period_well_formed_def remove_char_def list_all_iff ledger_key_char_def ascii_alphanumeric_def)
  qed
  moreover have "length (remove_char (CHR ''-'') period) \<le> 7"
    using assms length_filter_le[of "\<lambda>c. c \<noteq> CHR ''-''" period] by (simp add: remove_char_def period_well_formed_def)
  ultimately have name: "is_valid_employee_key (''employee-'' @ ''ledger-'' @ ?name)"
    unfolding start using hex by (simp add: ledger_key_char_def ascii_alphanumeric_def char_code_def)
  have sanitized: "is_valid_employee_key (''employee-'' @ sanitize_key_part v)" if "sanitize_key_part v \<noteq> []" for v
    unfolding start using that sanitized_key_chars[of v] by simp
  show ?thesis
  proof (cases "opt_filter is_valid_employee_key (map_option trim (lwi_employee_key w))")
    case (Some key)
    then have "is_valid_employee_key key" by (auto simp: opt_filter_def split: option.splits if_splits)
    with Some show ?thesis by (simp add: resolve_employee_key_def Let_def)
  next
    case None
    then show ?thesis
      using name sanitized by (simp add: resolve_employee_key_def Let_def split: option.split)
  qed
qed

theorem resolved_key_valid_witness:
  "is_valid_employee_key (resolve_employee_key (\<lambda>s. s)
     \<lparr>lwi_name = ''Kim'', lwi_employee_key = Some ''E 1'', lwi_roster_id = Some ''#7'', lwi_gross = 1, lwi_income_tax = 0,
      lwi_local_income_tax = 0, lwi_health_insurance = 0, lwi_national_pension = 0, lwi_employment_insurance = 0,
      lwi_total_deductions = 0, lwi_net = 1\<rparr> ''2026-05'')"
proof (rule resolved_key_valid)
  show "period_well_formed ''2026-05''" by code_simp
qed

text \<open>
  The content hash of an input sees the number of its workers and none of their figures, so a
  corrected ledger of the same file finds the intake record of the first one; and two workers
  without an id and with the same name share a key, so that one row replaces the other.
\<close>

lemma content_hash_ignores_figures:
  "length ws = length (lii_workers input) \<Longrightarrow>
     ledger_content_sha256 sha256 (input\<lparr>lii_workers := ws\<rparr>) = ledger_content_sha256 sha256 input"
  by (simp add: ledger_content_sha256_def)

lemma same_name_same_key:
  "lwi_name v = lwi_name w \<Longrightarrow> lwi_employee_key v = None \<Longrightarrow> lwi_employee_key w = None \<Longrightarrow>
     lwi_roster_id v = None \<Longrightarrow> lwi_roster_id w = None \<Longrightarrow>
     resolve_employee_key sha256 v period = resolve_employee_key sha256 w period"
  by (simp add: resolve_employee_key_def)

end
