(* ===== verification/Payroll_Run.thy ===== *)
theory Payroll_Run
  imports Payroll_Ledger Reconciliation "HOL-Library.AList"
begin

text \<open>
  The payroll run, \<open>crates/payroll-api/src/bin/payroll_run.rs\<close>: it reads the ledger of a period
  from the rows of the table and reconciles it with \<open>Reconciliation\<close>.
\<close>

section \<open>The period\<close>

definition validate_run_period :: "string \<Rightarrow> string + unit" where
  "validate_run_period period =
     (if period_well_formed period then Inr () else Inl ''payroll_run_invalid_period'')"

text \<open>\<open>args\<close> are the arguments of the command, the name of the program first.\<close>

definition resolve_period :: "string list \<Rightarrow> env_vars \<Rightarrow> string + string" where
  "resolve_period args env =
     result_bind (ok_or ''payroll_run_period_required''
       (opt_filter (\<lambda>v. v \<noteq> []) (map_option trim (opt_or (nth_opt args 1) (env ''BITWEEN_PAYROLL_PERIOD'')))))
       (\<lambda>period. result_bind (validate_run_period period) (\<lambda>_. Inr period))"

section \<open>Figures\<close>

definition parse_numeric_to_won :: "string \<Rightarrow> string + i64" where
  "parse_numeric_to_won v =
     (let trimmed = trim v;
          integer = takeWhile (\<lambda>c. c \<noteq> CHR ''.'') trimmed;
          fraction = drop (Suc (length integer)) trimmed in
      if CHR ''.'' \<in> set trimmed \<and> list_ex (\<lambda>c. c \<noteq> CHR ''0'') fraction
      then Inl ''payroll_run_numeric_fraction_unexpected''
      else ok_or ''payroll_run_numeric_parse_failed'' (parse_i64 integer))"

definition json_i64 :: "json \<Rightarrow> i64 option" where
  "json_i64 v =
     (case as_i64 v of
        Some n \<Rightarrow> Some n
      | None \<Rightarrow>
          (case as_f64 v of
             Some x \<Rightarrow> Some (to_i64 (f64_round x))
           | None \<Rightarrow>
               (case as_str v of
                  Some t \<Rightarrow> map_option (\<lambda>x. to_i64 (f64_round x)) (parse_f64 (trim t))
                | None \<Rightarrow> None)))"

definition payload_i64 :: "json \<Rightarrow> string \<Rightarrow> i64" where
  "payload_i64 payload key = unwrap_or 0 (Option.bind (json_get key payload) json_i64)"

section \<open>The ledger\<close>

definition payroll_input_select_sql :: string where
  "payroll_input_select_sql =
     ''SELECT employee_key, gross_pay::text, deduction_total::text, source_payload::text FROM '' @
     ''bitween_payroll.payroll_input WHERE tenant_id = $1 AND legal_entity_id = $2 AND workplace_id = $3 '' @
     ''AND payroll_period = $4 AND admission_status = '' @ sql_literal ''admitted'' @ '' ORDER BY employee_key''"

definition ledger_row_worker :: "string \<Rightarrow> i64 \<Rightarrow> i64 \<Rightarrow> json \<Rightarrow> ledger_worker" where
  "ledger_row_worker employee_key gross column_deduction_total payload =
     (let total_deductions = unwrap_or column_deduction_total
            (Option.bind (json_get ''total_deductions'' payload) json_i64) in
      \<lparr>lw_employee_key = employee_key,
       lw_name = unwrap_or [] (Option.bind (json_get ''name'' payload) as_str),
       lw_gross = gross,
       lw_income_tax = payload_i64 payload ''income_tax'',
       lw_local_income_tax = payload_i64 payload ''local_income_tax'',
       lw_health_insurance = payload_i64 payload ''health_insurance'',
       lw_national_pension = payload_i64 payload ''national_pension'',
       lw_employment_insurance = payload_i64 payload ''employment_insurance'',
       lw_total_deductions = total_deductions,
       lw_net = unwrap_or (i64_sub gross total_deductions)
         (Option.bind (json_get ''net'' payload) json_i64)\<rparr>)"

fun ledger_row :: "(string \<Rightarrow> json option) \<Rightarrow> sql_row \<Rightarrow> string + ledger_worker" where
  "ledger_row parser [SqlText employee_key, SqlText gross_pay, SqlText deduction_total, SqlText source_payload] =
     result_bind (parse_numeric_to_won gross_pay) (\<lambda>gross.
     result_bind (parse_numeric_to_won deduction_total) (\<lambda>column_deduction_total.
     result_bind (ok_or ''payroll_run_source_payload_decode_failed'' (parser source_payload)) (\<lambda>payload.
     Inr (ledger_row_worker employee_key gross column_deduction_total payload))))"
| "ledger_row parser _ = Inl ''error retrieving column''"

definition load_ledger ::
    "(string \<Rightarrow> json option) \<Rightarrow> 'db sql_client \<Rightarrow> postgres_client_session \<Rightarrow> string
      \<Rightarrow> ('db, ledger_worker list) action" where
  "load_ledger parser client session period =
     act_bind (run_query client payroll_input_select_sql (scope_values session @ [SqlText period])
       ''payroll_run_payroll_input_query_failed'') (\<lambda>rows.
     act_lift (try_map (ledger_row parser) rows))"

definition reconcile_ledger ::
    "(string \<Rightarrow> json option) \<Rightarrow> 'db sql_client \<Rightarrow> postgres_client_session \<Rightarrow> string
      \<Rightarrow> ('db, reconciliation_report) action" where
  "reconcile_ledger parser client session period =
     act_bind (load_ledger parser client session period) (\<lambda>ledger.
     if ledger = [] then act_fail (''payroll_run_no_input_rows_for_period:'' @ period)
     else act_return (reconcile_period period ledger))"

definition run_payroll ::
    "(string \<Rightarrow> string) \<Rightarrow> (string \<Rightarrow> string) \<Rightarrow> nat \<Rightarrow> (string \<Rightarrow> json option) \<Rightarrow> 'db sql_client
      \<Rightarrow> string list \<Rightarrow> env_vars \<Rightarrow> ('db, reconciliation_report) action" where
  "run_payroll sha256 sql_text root_count parser client args env =
     (if \<not> postgres_dsn_configured env
      then act_fail ''payroll_run requires BITWEEN_POSTGRES_DSN and the canonical payroll_input table.''
      else act_bind (act_lift (resolve_period args env)) (\<lambda>period.
           act_bind (connect_session sha256 sql_text root_count client env) (\<lambda>session.
           reconcile_ledger parser client session period)))"

section \<open>The figures of an imported row\<close>

lemma parse_i64_show_int: "is_i64 n \<Longrightarrow> parse_i64 (show_int n) = Some n"
proof (cases "n < 0")
  case True
  assume "is_i64 n"
  with True show ?thesis by (simp add: parse_i64_def parse_signed_def show_int_def is_i64_def)
next
  case False
  assume "is_i64 n"
  moreover obtain c t where s: "show_nat (nat n) = c # t" by (meson neq_Nil_conv show_nat_nonempty)
  moreover have "c \<noteq> CHR ''-''" using show_nat_digits[of "nat n"] is_digit_not_sign s by simp
  ultimately show ?thesis
    using False parse_unsigned_show_nat[of "nat n" 9223372036854775807]
    by (simp add: parse_i64_def parse_signed_def show_int_def is_i64_def)
qed

lemma show_int_no_point: "CHR ''.'' \<notin> set (show_int n)"
proof -
  have "\<not> is_digit (CHR ''.'')" by (simp add: is_digit_def char_code_def)
  then have "CHR ''.'' \<notin> set (show_nat m)" for m using show_nat_digits[of m] by (auto simp: list_all_iff)
  then show ?thesis by (simp add: show_int_def)
qed

text \<open>The text of a \<open>numeric(18, 2)\<close> that holds whole won reads as that number.\<close>

lemma parse_numeric_whole: "is_i64 n \<Longrightarrow> parse_numeric_to_won (show_int n @ ''.00'') = Inr n"
proof -
  assume n: "is_i64 n"
  have "list_all graphic (show_int n @ ''.00'')"
    using show_int_graphic[of n] by (simp add: graphic_def char_code_def)
  then have "trim (show_int n @ ''.00'') = show_int n @ ''.00''" by (rule trim_graphic)
  moreover have "takeWhile (\<lambda>c. c \<noteq> CHR ''.'') (show_int n @ ''.00'') = show_int n"
    using show_int_no_point[of n] by (subst takeWhile_append2) auto
  ultimately show ?thesis
    using n by (simp add: parse_numeric_to_won_def Let_def parse_i64_show_int)
qed

definition ledger_worker_ok :: "ledger_worker_input \<Rightarrow> bool" where
  "ledger_worker_ok w \<longleftrightarrow> list_all is_i64
     [lwi_gross w, lwi_income_tax w, lwi_local_income_tax w, lwi_health_insurance w, lwi_national_pension w,
      lwi_employment_insurance w, lwi_total_deductions w, lwi_net w]"

text \<open>The worker of the ledger that a worker of the input stands for.\<close>

definition worker_of_input :: "(string \<Rightarrow> string) \<Rightarrow> string \<Rightarrow> ledger_worker_input \<Rightarrow> ledger_worker" where
  "worker_of_input sha256 period w =
     \<lparr>lw_employee_key = resolve_employee_key sha256 w period, lw_name = lwi_name w, lw_gross = lwi_gross w,
      lw_income_tax = lwi_income_tax w, lw_local_income_tax = lwi_local_income_tax w,
      lw_health_insurance = lwi_health_insurance w, lw_national_pension = lwi_national_pension w,
      lw_employment_insurance = lwi_employment_insurance w, lw_total_deductions = lwi_total_deductions w,
      lw_net = lwi_net w\<rparr>"

lemma payload_fields:
  "json_get ''name'' (ledger_payload w) = Some (JStr (lwi_name w))"
  "json_get ''income_tax'' (ledger_payload w) = Some (JNum (JInt (lwi_income_tax w)))"
  "json_get ''local_income_tax'' (ledger_payload w) = Some (JNum (JInt (lwi_local_income_tax w)))"
  "json_get ''health_insurance'' (ledger_payload w) = Some (JNum (JInt (lwi_health_insurance w)))"
  "json_get ''national_pension'' (ledger_payload w) = Some (JNum (JInt (lwi_national_pension w)))"
  "json_get ''employment_insurance'' (ledger_payload w) = Some (JNum (JInt (lwi_employment_insurance w)))"
  "json_get ''total_deductions'' (ledger_payload w) = Some (JNum (JInt (lwi_total_deductions w)))"
  "json_get ''net'' (ledger_payload w) = Some (JNum (JInt (lwi_net w)))"
  by (simp_all add: ledger_payload_def bt_collect_distinct)

text \<open>
  The texts of a row besides its key.  Of a row the importer wrote they are the two figures with
  the two decimals of \<open>numeric(18, 2)\<close>, and the text of the payload, which PostgreSQL gives back
  normalised: \<open>jsonb\<close>.
\<close>

type_synonym ledger_texts = "string \<times> string \<times> string"

definition stored_texts :: "(string \<Rightarrow> string) \<Rightarrow> ledger_worker_input \<Rightarrow> ledger_texts" where
  "stored_texts jsonb w =
     (show_int (lwi_gross w) @ ''.00'', show_int (max (lwi_total_deductions w) 0) @ ''.00'',
      jsonb (json_to_string (ledger_payload w)))"

definition table_row :: "string \<times> ledger_texts \<Rightarrow> sql_row" where
  "table_row entry = (case entry of (key, gross, deductions, payload) \<Rightarrow>
     [SqlText key, SqlText gross, SqlText deductions, SqlText payload])"

definition payload_readable :: "(string \<Rightarrow> json option) \<Rightarrow> (string \<Rightarrow> string) \<Rightarrow> ledger_worker_input \<Rightarrow> bool" where
  "payload_readable parser jsonb w \<longleftrightarrow> parser (jsonb (json_to_string (ledger_payload w))) = Some (ledger_payload w)"

lemma stored_row_read:
  assumes "payload_readable parser jsonb w" "ledger_worker_ok w"
  shows "ledger_row parser (table_row (resolve_employee_key sha256 w period, stored_texts jsonb w))
    = Inr (worker_of_input sha256 period w)"
proof -
  have "is_i64 (max (lwi_total_deductions w) 0)"
    using assms(2) by (auto simp: ledger_worker_ok_def is_i64_def max_def)
  then show ?thesis
    using assms unfolding stored_texts_def payload_readable_def
    by (simp add: table_row_def parse_numeric_whole ledger_worker_ok_def ledger_row_worker_def payload_i64_def
        payload_fields json_i64_def worker_of_input_def Let_def)
qed

section \<open>The table\<close>

text \<open>
  What the two programs rely on in the database, as PostgreSQL documents it.  \<open>admitted\<close> reads the
  admitted rows of a group, which is a scope and a period.  The select gives the rows of the group,
  one per key; the upsert replaces the row of its key and no other; finding and adding the intake
  record leaves the rows alone.
\<close>

definition ledger_table_laws ::
    "'db sql_client \<Rightarrow> (string \<Rightarrow> string) \<Rightarrow> ('db \<Rightarrow> sql_value list \<Rightarrow> string \<Rightarrow> ledger_texts option) \<Rightarrow> bool" where
  "ledger_table_laws client jsonb admitted \<longleftrightarrow>
     (\<forall>group db rows db'. sqc_query client payroll_input_select_sql group db = (Some rows, db') \<longrightarrow>
        db' = db \<and> (\<exists>entries. distinct (map fst entries) \<and> map_of entries = admitted db group
                             \<and> rows = map table_row entries))
   \<and> (\<forall>group key gross deductions intake hash payload actor db n db'.
        length group = 4 \<and>
        sqc_execute client payroll_input_upsert_sql (group @ [SqlText key, SqlText (show_int gross),
          SqlText (show_int deductions), SqlText intake, SqlText hash, SqlText payload, SqlText actor]) db
          = (Some n, db') \<longrightarrow>
        admitted db' = (admitted db)(group := (admitted db group)
          (key \<mapsto> (show_int gross @ ''.00'', show_int deductions @ ''.00'', jsonb payload))))
   \<and> (\<forall>sql params db found db'.
        sql \<in> {ledger_intake_lookup_sql, ledger_intake_insert_sql} \<and> sqc_query client sql params db = (found, db') \<longrightarrow>
        admitted db' = admitted db)"

definition ledger_group :: "postgres_client_session \<Rightarrow> string \<Rightarrow> sql_value list" where
  "ledger_group session period = scope_values session @ [SqlText period]"

lemma length_ledger_group [simp]: "length (ledger_group session period) = 4"
  by (simp add: ledger_group_def scope_values_def)

lemma import_worker_row:
  assumes laws: "ledger_table_laws client jsonb admitted"
    and run: "import_worker sha256 client session period intake actor s w db = (Inr s', db')"
  shows "s' = note_worker (resolve_employee_key sha256 w period) w s \<and>
    admitted db' = (admitted db)(ledger_group session period := (admitted db (ledger_group session period))
      (resolve_employee_key sha256 w period \<mapsto> stored_texts jsonb w))"
proof -
  let ?k = "resolve_employee_key sha256 w period"
  have upsert: "admitted db'' = (admitted db)(group := (admitted db group)
          (key \<mapsto> (show_int gross @ ''.00'', show_int deductions @ ''.00'', jsonb payload)))"
    if "length group = 4"
      "sqc_execute client payroll_input_upsert_sql (group @ [SqlText key, SqlText (show_int gross),
          SqlText (show_int deductions), SqlText intake', SqlText hash, SqlText payload, SqlText actor']) db
          = (Some n, db'')" for group key gross deductions intake' hash payload actor' n db''
    using laws that unfolding ledger_table_laws_def by blast
  obtain n where "s' = note_worker ?k w s"
    "sqc_execute client payroll_input_upsert_sql (ledger_group session period @ [SqlText ?k, SqlText (show_int (lwi_gross w)),
       SqlText (show_int (max (lwi_total_deductions w) 0)), SqlText intake,
       SqlText (worker_row_hash sha256 period ?k w), SqlText (json_to_string (ledger_payload w)), SqlText actor]) db
     = (Some n, db')"
    using run
    by (auto simp: import_worker_def Let_def upsert_payroll_input_def act_bind_Inr run_execute_def ledger_group_def
        split: prod.splits option.splits)
  then show ?thesis using upsert[OF length_ledger_group] by (simp add: stored_texts_def)
qed

lemma find_first_append:
  "find_first p (xs @ ys) = (case find_first p xs of Some x \<Rightarrow> Some x | None \<Rightarrow> find_first p ys)"
  by (induction xs) auto

text \<open>After the loop each key has the row of the last worker that resolves to it.\<close>

lemma import_loop_rows:
  assumes laws: "ledger_table_laws client jsonb admitted"
    and run: "act_fold (import_worker sha256 client session period intake actor) s ws db = (Inr s', db')"
  shows "s' = fold (\<lambda>w. note_worker (resolve_employee_key sha256 w period) w) ws s \<and>
    admitted db' = (admitted db)(ledger_group session period := (\<lambda>key.
      case find_first (\<lambda>w. resolve_employee_key sha256 w period = key) (rev ws) of
        Some w \<Rightarrow> Some (stored_texts jsonb w)
      | None \<Rightarrow> admitted db (ledger_group session period) key))"
  using run
proof (induction ws arbitrary: s db)
  case (Cons w ws)
  obtain s1 db1 where step: "import_worker sha256 client session period intake actor s w db = (Inr s1, db1)"
    and rest: "act_fold (import_worker sha256 client session period intake actor) s1 ws db1 = (Inr s', db')"
    using Cons.prems by (auto simp: act_bind_Inr)
  show ?case
    using Cons.IH[OF rest] import_worker_row[OF laws step]
    by (auto simp: find_first_append fun_eq_iff split: option.splits)
qed simp

lemma first_text_db: "first_text row db = (r, db') \<Longrightarrow> db' = db"
  by (auto simp: first_text_def split: list.splits sql_value.splits)

lemma intake_keeps_rows:
  assumes laws: "ledger_table_laws client jsonb admitted"
    and run: "ensure_ledger_intake sha256 env client session input hash actor db = (Inr intake, db')"
  shows "admitted db' = admitted db"
proof -
  have keep: "admitted db2 = admitted db1"
    if "sqc_query client sql params db1 = (found, db2)" "sql = ledger_intake_lookup_sql \<or> sql = ledger_intake_insert_sql"
    for sql params db1 found db2
    using laws that unfolding ledger_table_laws_def by blast
  have query: "admitted db2 = admitted db1"
    if "run_query client sql params code db1 = (found, db2)" "sql = ledger_intake_lookup_sql \<or> sql = ledger_intake_insert_sql"
    for sql params code db1 found db2
    using that keep by (auto simp: run_query_def split: option.splits prod.splits)
  have lookup: "admitted db2 = admitted db1"
    if q0: "run_query_opt client ledger_intake_lookup_sql params code db1 = (Inr found, db2)" for params code db1 found db2
  proof -
    obtain rows db3 where q: "run_query client ledger_intake_lookup_sql params code db1 = (Inr rows, db3)"
      and r: "(case rows of [] \<Rightarrow> act_return None | [row] \<Rightarrow> act_return (Some row) | _ \<Rightarrow> act_fail code) db3 = (Inr found, db2)"
      using q0 unfolding run_query_opt_def act_bind_Inr by blast
    have "db2 = db3" using r by (auto split: list.splits)
    then show ?thesis using query[OF q] by simp
  qed
  have insert: "admitted db2 = admitted db1"
    if q0: "run_query_one client ledger_intake_insert_sql params code db1 = (Inr found, db2)" for params code db1 found db2
  proof -
    obtain rows db3 where q: "run_query client ledger_intake_insert_sql params code db1 = (Inr rows, db3)"
      and r: "(case rows of [row] \<Rightarrow> act_return row | _ \<Rightarrow> act_fail code) db3 = (Inr found, db2)"
      using q0 unfolding run_query_one_def act_bind_Inr by blast
    have "db2 = db3" using r by (auto split: list.splits)
    then show ?thesis using query[OF q] by simp
  qed
  obtain found db1 where l: "admitted db1 = admitted db"
    and rest: "(case found of Some row \<Rightarrow> first_text row
     | None \<Rightarrow> act_bind (run_query_one client ledger_intake_insert_sql (ledger_intake_values sha256 env session input hash actor)
           ''payroll_ledger_import_intake_insert_failed'') first_text) db1 = (Inr intake, db')"
    using run lookup unfolding ensure_ledger_intake_def act_bind_Inr by blast
  show ?thesis
  proof (cases found)
    case None
    then show ?thesis using rest l insert by (auto simp: act_bind_Inr dest!: first_text_db)
  next
    case (Some row)
    then show ?thesis using rest l by (auto dest!: first_text_db)
  qed
qed

text \<open>What an import that succeeds did, to its own variables and to the rows.\<close>

lemma import_effect:
  assumes laws: "ledger_table_laws client jsonb admitted"
    and run: "ledger_import sha256 env client session input db = (Inr result, db')"
  shows "\<exists>intake. result = ledger_result input intake
        (fold (\<lambda>w. note_worker (resolve_employee_key sha256 w (lii_period input)) w) (lii_workers input) ledger_loop_start)"
    "admitted db' = (admitted db)(ledger_group session (lii_period input) := (\<lambda>key.
      case find_first (\<lambda>w. resolve_employee_key sha256 w (lii_period input) = key) (rev (lii_workers input)) of
        Some w \<Rightarrow> Some (stored_texts jsonb w)
      | None \<Rightarrow> admitted db (ledger_group session (lii_period input)) key))"
proof -
  obtain intake db1 s actor where
    ensured: "ensure_ledger_intake sha256 env client session input (ledger_content_sha256 sha256 input) actor db = (Inr intake, db1)"
    and loop: "act_fold (import_worker sha256 client session (lii_period input) intake actor) ledger_loop_start
      (lii_workers input) db1 = (Inr s, db')"
    and result: "result = ledger_result input intake s"
    using run by (auto simp: ledger_import_def Let_def act_bind_Inr)
  note rows = import_loop_rows[OF laws loop]
  from rows result show "\<exists>intake. result = ledger_result input intake
        (fold (\<lambda>w. note_worker (resolve_employee_key sha256 w (lii_period input)) w) (lii_workers input) ledger_loop_start)"
    by blast
  from rows show "admitted db' = (admitted db)(ledger_group session (lii_period input) := (\<lambda>key.
      case find_first (\<lambda>w. resolve_employee_key sha256 w (lii_period input) = key) (rev (lii_workers input)) of
        Some w \<Rightarrow> Some (stored_texts jsonb w)
      | None \<Rightarrow> admitted db (ledger_group session (lii_period input)) key))"
    by (simp only: intake_keeps_rows[OF laws ensured])
qed

section \<open>Reading the imported rows\<close>

lemma load_ledger_Inr:
  assumes laws: "ledger_table_laws client jsonb admitted"
    and run: "load_ledger parser client session period db = (Inr ledger, db')"
  obtains entries where "db' = db" "distinct (map fst entries)"
    "map_of entries = admitted db (ledger_group session period)"
    "list_all2 (\<lambda>entry w. ledger_row parser (table_row entry) = Inr w) entries ledger"
proof -
  have select: "db' = db \<and> (\<exists>entries. distinct (map fst entries) \<and> map_of entries = admitted db group
                             \<and> rows = map table_row entries)"
    if "sqc_query client payroll_input_select_sql group db = (Some rows, db')" for group rows
    using laws that unfolding ledger_table_laws_def by blast
  obtain rows where "sqc_query client payroll_input_select_sql (ledger_group session period) db = (Some rows, db')"
    "try_map (ledger_row parser) rows = Inr ledger"
    using run by (auto simp: load_ledger_def run_query_def act_bind_Inr ledger_group_def split: prod.splits option.splits)
  then obtain entries where "db' = db" "distinct (map fst entries)"
    "map_of entries = admitted db (ledger_group session period)" "try_map (ledger_row parser) (map table_row entries) = Inr ledger"
    using select by blast
  then show thesis using that by (auto simp: try_map_Inr_iff list_all2_map1)
qed

lemma ledger_row_key: "ledger_row parser (table_row entry) = Inr w \<Longrightarrow> lw_employee_key w = fst entry"
  by (cases entry) (auto simp: table_row_def result_bind_Inr_iff ledger_row_worker_def Let_def)

lemma list_all2_keys:
  "list_all2 (\<lambda>entry w. ledger_row parser (table_row entry) = Inr w) entries ledger \<Longrightarrow>
     map lw_employee_key ledger = map fst entries"
  by (induction rule: list_all2_induct) (auto simp: ledger_row_key)

lemma find_first_Some_prop: "find_first p xs = Some x \<Longrightarrow> x \<in> set xs \<and> p x"
  by (induction xs) (auto split: if_splits)


section \<open>Import and run\<close>

lemma note_worker_keys:
  "lil_warnings (fold (\<lambda>w. note_worker (key_of w) w) ws s) = [] \<Longrightarrow>
     lil_warnings s = [] \<and> distinct (map key_of ws) \<and> set (lil_seen_keys s) \<inter> set (map key_of ws) = {}"
proof (induction ws arbitrary: s)
  case (Cons w ws)
  then have "lil_warnings (note_worker (key_of w) w s) = []"
    and rest: "distinct (map key_of ws)" "set (lil_seen_keys (note_worker (key_of w) w s)) \<inter> set (map key_of ws) = {}"
    by auto
  moreover from this(1) have "lil_warnings s = [] \<and> key_of w \<notin> set (lil_seen_keys s)"
    by (simp add: note_worker_def split: if_splits)
  ultimately show ?case by (auto simp: note_worker_def)
qed simp

lemma note_worker_totals:
  fixes key_of :: "ledger_worker_input \<Rightarrow> string"
  defines "run \<equiv> \<lambda>ws. fold (\<lambda>w. note_worker (key_of w) w) ws ledger_loop_start"
  shows "lil_gross_total (run ws) = wrap64 (sum_list (map lwi_gross ws))"
    "lil_deduction_total (run ws) = wrap64 (sum_list (map lwi_total_deductions ws))"
    "lil_net_total (run ws) = wrap64 (sum_list (map lwi_net ws))"
proof -
  have zero: "wrap64 0 = 0" by (rule wrap64_id) (simp add: is_i64_def)
  let ?g = "\<lambda>w. note_worker (key_of w) w"
  show "lil_gross_total (run ws) = wrap64 (sum_list (map lwi_gross ws))"
    "lil_deduction_total (run ws) = wrap64 (sum_list (map lwi_total_deductions ws))"
    "lil_net_total (run ws) = wrap64 (sum_list (map lwi_net ws))"
    using fold_wrapped_sum[of lil_gross_total ?g lwi_gross ws ledger_loop_start]
      fold_wrapped_sum[of lil_deduction_total ?g lwi_total_deductions ws ledger_loop_start]
      fold_wrapped_sum[of lil_net_total ?g lwi_net ws ledger_loop_start] zero
    by (simp_all add: run_def note_worker_def ledger_loop_start_def)
qed

lemma find_first_unique:
  "distinct (map f xs) \<Longrightarrow> x \<in> set xs \<Longrightarrow> find_first (\<lambda>y. f y = f x) xs = Some x"
  by (induction xs) auto

lemma try_map_total:
  "(\<And>x. x \<in> set xs \<Longrightarrow> \<exists>y. f x = Inr y) \<Longrightarrow> \<exists>ys. try_map f xs = Inr ys"
proof (induction xs)
  case (Cons x xs)
  then obtain y ys where "f x = Inr y" "try_map f xs = Inr ys" by fastforce
  then show ?case by simp
qed simp

lemma imported_map:
  assumes "distinct (map f xs)"
  shows "map_of (map (\<lambda>x. (f x, g x)) xs) = (\<lambda>key.
     case find_first (\<lambda>x. f x = key) (rev xs) of Some x \<Rightarrow> Some (g x) | None \<Rightarrow> None)"
proof
  fix key
  show "map_of (map (\<lambda>x. (f x, g x)) xs) key =
     (case find_first (\<lambda>x. f x = key) (rev xs) of Some x \<Rightarrow> Some (g x) | None \<Rightarrow> None)"
  proof (cases "key \<in> f ` set xs")
    case True
    then obtain x where x: "x \<in> set xs" "key = f x" by auto
    then have "find_first (\<lambda>y. f y = key) (rev xs) = Some x"
      using find_first_unique[of f "rev xs" x] assms by (simp add: rev_map[symmetric])
    moreover have "map_of (map (\<lambda>x. (f x, g x)) xs) key = Some (g x)"
      using assms x by (auto intro: map_of_is_SomeI simp: comp_def)
    ultimately show ?thesis by simp
  next
    case False
    then have "find_first (\<lambda>x. f x = key) (rev xs) = None" by (auto simp: find_first_None)
    moreover have "map_of (map (\<lambda>x. (f x, g x)) xs) key = None"
      using False by (auto simp: map_of_eq_None_iff image_image)
    ultimately show ?thesis by simp
  qed
qed

lemma list_all2_image: "list_all2 (\<lambda>x y. f x = Inr y) xs ys \<Longrightarrow> Inr ` set ys = f ` set xs"
  by (induction rule: list_all2_induct) auto

text \<open>
  C5: A month that is imported for the first time, with no key of two workers, can be run: unless the
  query itself fails the run reports a total of the gross pay, the deductions and the net pay that
  is the total the importer printed, for as many workers.
\<close>

theorem imported_month_runs:
  assumes laws: "ledger_table_laws client jsonb admitted"
    and workers: "\<forall>w \<in> set (lii_workers input). ledger_worker_ok w \<and> payload_readable parser jsonb w"
    and import: "ledger_import sha256 env client session input db = (Inr result, db1)"
    and some: "lii_workers input \<noteq> []"
    and fresh: "admitted db (ledger_group session (lii_period input)) = Map.empty"
    and keys: "lir_warnings result = []"
    and query: "sqc_query client payroll_input_select_sql (ledger_group session (lii_period input)) db1 = (Some rows, db2)"
  shows "\<exists>report. reconcile_ledger parser client session (lii_period input) db1 = (Inr report, db1)
    \<and> rr_period report = lir_period result
    \<and> rt_workers (rr_totals report) = lir_workers result
    \<and> rt_gross (rr_totals report) = lir_gross_total result
    \<and> rt_total_deductions (rr_totals report) = lir_deduction_total result
    \<and> rt_net (rr_totals report) = lir_net_total result"
proof -
  let ?p = "lii_period input" and ?ws = "lii_workers input"
  let ?key = "\<lambda>w. resolve_employee_key sha256 w ?p" and ?of = "worker_of_input sha256 ?p"
  have select: "db' = db0 \<and> (\<exists>entries. distinct (map fst entries) \<and> map_of entries = admitted db0 group
                             \<and> rows = map table_row entries)"
    if "sqc_query client payroll_input_select_sql group db0 = (Some rows, db')" for group rows db0 db'
    using laws that unfolding ledger_table_laws_def by blast
  obtain entries where db2: "db2 = db1" and dist: "distinct (map fst entries)"
    and map: "map_of entries = admitted db1 (ledger_group session ?p)" and rows: "rows = map table_row entries"
    using select[OF query] by blast
  obtain intake where result: "result = ledger_result input intake (fold (\<lambda>w. note_worker (?key w) w) ?ws ledger_loop_start)"
    using import_effect(1)[OF laws import] by blast
  have distinct: "distinct (map ?key ?ws)"
    using keys note_worker_keys[of ?key ?ws ledger_loop_start] by (simp add: result ledger_result_def)
  have "map_of entries = (\<lambda>key. case find_first (\<lambda>w. ?key w = key) (rev ?ws) of Some w \<Rightarrow> Some (stored_texts jsonb w) | None \<Rightarrow> None)"
    unfolding map import_effect(2)[OF laws import] fun_upd_same fresh ..
  then have "map_of entries = map_of (map (\<lambda>w. (?key w, stored_texts jsonb w)) ?ws)"
    by (simp only: imported_map[OF distinct, where g = "stored_texts jsonb"])
  then have set: "set entries = (\<lambda>w. (?key w, stored_texts jsonb w)) ` set ?ws"
    using dist distinct map_of_inject_set[of entries "map (\<lambda>w. (?key w, stored_texts jsonb w)) ?ws"]
    by (simp add: comp_def)
  have read: "ledger_row parser (table_row (?key w, stored_texts jsonb w)) = Inr (?of w)" if "w \<in> set ?ws" for w
    using workers that by (simp add: stored_row_read)
  obtain ledger where ledger: "try_map (ledger_row parser) (map table_row entries) = Inr ledger"
    using try_map_total[of "map table_row entries" "ledger_row parser"] read set by fastforce
  have l2: "list_all2 (\<lambda>entry w. ledger_row parser (table_row entry) = Inr w) entries ledger"
    using ledger by (simp add: try_map_Inr_iff list_all2_map1)
  have "(Inr ` set ledger :: (string + ledger_worker) set) = Inr ` ?of ` set ?ws"
    unfolding list_all2_image[OF l2] set image_image using read by (intro image_cong) auto
  then have ledger_set: "set ledger = ?of ` set ?ws" by (simp add: inj_image_eq_iff)
  have ledger_distinct: "distinct ledger"
    using dist list_all2_keys[OF l2] by (metis distinct_map)
  have of_distinct: "distinct (map ?of ?ws)"
    using distinct distinct_map[of lw_employee_key "map ?of ?ws"] by (simp add: comp_def worker_of_input_def)
  have sums: "sum_list (map f ledger) = sum_list (map (\<lambda>w. f (?of w)) ?ws)" for f :: "ledger_worker \<Rightarrow> int"
    using sum_list_distinct_conv_sum_set[OF ledger_distinct, of f] sum_list_distinct_conv_sum_set[OF of_distinct, of f]
    by (simp add: ledger_set comp_def)
  have "length ledger = length ?ws"
    using distinct_card[OF ledger_distinct] distinct_card[OF of_distinct] by (simp add: ledger_set)
  moreover have "ledger \<noteq> []" using some ledger_set by auto
  moreover have "load_ledger parser client session ?p db1 = (Inr ledger, db1)"
    using query ledger by (simp add: load_ledger_def act_bind_def run_query_def ledger_group_def rows db2)
  ultimately show ?thesis
    by (simp add: reconcile_ledger_def act_bind_def reconcile_period_sums sums note_worker_totals[of ?key] result ledger_result_def
        worker_of_input_def) (simp add: reconcile_period_def Let_def)
qed

section \<open>A table\<close>

text \<open>A table of rows per group; the intake record is always the same one.\<close>

definition sample_ledger_client :: "(sql_value list \<Rightarrow> (string \<times> ledger_texts) list) sql_client" where
  "sample_ledger_client =
     \<lparr>pgc_connect = (\<lambda>_ db. (True, db)), pgc_batch_execute = (\<lambda>_ db. (True, db)),
      pgc_execute = (\<lambda>_ _ db. (True, db)), pgc_query_opt = (\<lambda>_ _ db. (Some None, db)),
      sqc_query = (\<lambda>sql params db. (Some (if sql = payroll_input_select_sql then map table_row (AList.clearjunk (db params))
                                         else [[SqlText ''intake'']]), db)),
      sqc_execute = (\<lambda>_ params db. (Some 1,
        case drop 4 params of
          [SqlText key, SqlText gross, SqlText deductions, _, _, SqlText payload, _] \<Rightarrow>
            db(take 4 params := (key, gross @ ''.00'', deductions @ ''.00'', payload) # db (take 4 params))
        | _ \<Rightarrow> db))\<rparr>"

definition sample_ledger_session :: postgres_client_session where
  "sample_ledger_session = \<lparr>pcs_scope =
     \<lparr>pts_tenant_id = ''t'', pts_legal_entity_id = ''e'', pts_workplace_id = ''w''\<rparr>, pcs_redacted_dsn = redacted_dsn\<rparr>"

lemma sample_ledger_laws: "ledger_table_laws sample_ledger_client (\<lambda>s. s) (\<lambda>db group. map_of (db group))"
proof -
  have "\<exists>entries. distinct (map fst entries) \<and> map_of entries = map_of (db group)
      \<and> map table_row (AList.clearjunk (db group)) = map table_row entries"
    for db :: "sql_value list \<Rightarrow> (string \<times> ledger_texts) list" and group
    by (intro exI[of _ "AList.clearjunk (db group)"]) (simp add: map_of_clearjunk)
  moreover have "(\<lambda>g. map_of ((db(group := (key, texts) # db group)) g))
      = (\<lambda>g. map_of (db g))(group := (map_of (db group))(key \<mapsto> texts))"
    for db :: "sql_value list \<Rightarrow> (string \<times> ledger_texts) list" and group key texts
    by (rule ext) simp
  ultimately show ?thesis
    by (auto simp: ledger_table_laws_def sample_ledger_client_def)
qed

lemma lookup_is_no_select: "ledger_intake_lookup_sql \<noteq> payroll_input_select_sql"
  by code_simp

text \<open>A refund: its deductions are negative.\<close>

definition sample_ledger_worker :: ledger_worker_input where
  "sample_ledger_worker =
     \<lparr>lwi_name = ''Kim'', lwi_employee_key = None, lwi_roster_id = Some ''17'', lwi_gross = 1000, lwi_income_tax = 10,
      lwi_local_income_tax = 1, lwi_health_insurance = -50, lwi_national_pension = 20, lwi_employment_insurance = 5,
      lwi_total_deductions = -14, lwi_net = 1014\<rparr>"

definition sample_ledger_input :: ledger_import_input where
  "sample_ledger_input = \<lparr>lii_period = ''2026-05'', lii_source_file = [], lii_workers = [sample_ledger_worker]\<rparr>"

definition sample_payload_parser :: "string \<Rightarrow> json option" where
  "sample_payload_parser body =
     (if body = json_to_string (ledger_payload sample_ledger_worker) then Some (ledger_payload sample_ledger_worker) else None)"

lemma sample_ledger_workers:
  "\<forall>w \<in> set (lii_workers sample_ledger_input). ledger_worker_ok w \<and> payload_readable sample_payload_parser (\<lambda>s. s) w"
  by (simp add: sample_ledger_input_def payload_readable_def sample_payload_parser_def)
     (simp add: sample_ledger_worker_def ledger_worker_ok_def is_i64_def)

lemma sample_ledger_imported:
  "\<exists>result db1. ledger_import (\<lambda>s. s) (\<lambda>_. None) sample_ledger_client sample_ledger_session sample_ledger_input (\<lambda>_. [])
     = (Inr result, db1) \<and> lir_warnings result = []"
  by (simp add: ledger_import_def ensure_ledger_intake_def run_query_opt_def run_query_def sample_ledger_client_def
      act_bind_def first_text_def sample_ledger_input_def import_worker_def Let_def upsert_payroll_input_def run_execute_def
      note_worker_def ledger_loop_start_def ledger_result_def lookup_is_no_select)

theorem imported_month_runs_witness:
  "\<exists>result db1 report. ledger_import (\<lambda>s. s) (\<lambda>_. None) sample_ledger_client sample_ledger_session sample_ledger_input (\<lambda>_. [])
       = (Inr result, db1)
     \<and> reconcile_ledger sample_payload_parser sample_ledger_client sample_ledger_session ''2026-05'' db1 = (Inr report, db1)
     \<and> rt_net (rr_totals report) = lir_net_total result"
proof -
  obtain result db1 where import: "ledger_import (\<lambda>s. s) (\<lambda>_. None) sample_ledger_client sample_ledger_session
      sample_ledger_input (\<lambda>_. []) = (Inr result, db1)" and keys: "lir_warnings result = []"
    using sample_ledger_imported by blast
  obtain rows where query: "sqc_query sample_ledger_client payroll_input_select_sql
      (ledger_group sample_ledger_session (lii_period sample_ledger_input)) db1 = (Some rows, db1)"
    by (simp add: sample_ledger_client_def)
  have some: "lii_workers sample_ledger_input \<noteq> []" by (simp add: sample_ledger_input_def)
  show ?thesis
    using imported_month_runs[OF sample_ledger_laws sample_ledger_workers import some _ keys query] import
    by (auto simp: sample_ledger_input_def)
qed


end
