(* ===== verification/Session_Validation.thy ===== *)
theory Session_Validation
  imports Auth_Session Sql_Client
begin

text \<open>
  The program that validates a session, \<open>crates/payroll-api/src/bin/auth_session_validate.rs\<close>, with
  the statements of \<open>crates/payroll-api/src/auth_session_schema.rs\<close>: the token, the discovery
  document and the assertion are checked, in this order and while the session stands, and then the
  revocations and the audit trail of the database.  The environment is a parameter, the time of the
  call an argument, and the cryptographic libraries are those of \<open>Auth_Session\<close>.
\<close>

section \<open>Statements\<close>

definition auth_session_revocation_lookup_sql :: string where
  "auth_session_revocation_lookup_sql =
     ''SELECT 1 FROM bitween_auth.jwt_revocation WHERE tenant_id = $1 AND jwt_id_sha256 = $2 AND expires_at > now() LIMIT 1''"

definition auth_session_event_insert_sql :: string where
  "auth_session_event_insert_sql =
     ''INSERT INTO bitween_auth.session_event_audit (tenant_id, legal_entity_id, workplace_id, jwt_id_sha256, subject_sha256, issuer, audience, key_id, algorithm, verification_result, reason, acr_level, role, expires_at_unix, metadata) VALUES ($1, $2, $3, $4, $5, $6, $7, $8, $9, $10, $11, $12, $13, $14, $15::jsonb)''"

definition auth_session_postgres_tables :: "string list" where
  "auth_session_postgres_tables = [''bitween_auth.jwt_revocation'', ''bitween_auth.session_event_audit'']"

record auth_session_contract =
  apc_schema_version :: string
  apc_migration_name :: string
  apc_tables :: "string list"
  apc_revocation_lookup_sql :: string
  apc_session_event_insert_sql :: string

definition auth_session_postgres_contract :: auth_session_contract where
  "auth_session_postgres_contract =
     \<lparr>apc_schema_version = ''bitween.auth-session-postgres.v1'',
      apc_migration_name = ''007_auth_session_security.sql'',
      apc_tables = auth_session_postgres_tables,
      apc_revocation_lookup_sql = auth_session_revocation_lookup_sql,
      apc_session_event_insert_sql = auth_session_event_insert_sql\<rparr>"

section \<open>The checks\<close>

definition env_text :: "env_vars \<Rightarrow> string \<Rightarrow> string" where
  "env_text env name = unwrap_or [] (env name)"

definition enforce_oidc_discovery_if_configured :: "auth_libs \<Rightarrow> env_vars \<Rightarrow> string + unit" where
  "enforce_oidc_discovery_if_configured libs env =
     (let discovery_json = env_text env ''BITWEEN_AUTH_OIDC_CONFIGURATION_JSON'' in
      if trim discovery_json = [] then Inr ()
      else let validation = validate_oidc_discovery libs discovery_json
             (oidc_discovery_verifier_config_new (env_text env ''BITWEEN_AUTH_EXPECTED_ISSUER'')
               (opt_filter (\<lambda>v. trim v \<noteq> []) (env ''BITWEEN_AUTH_EXPECTED_JWKS_URI''))) in
        if odv_verified validation then Inr () else Inl (odv_reason validation))"

definition webauthn_config :: "env_vars \<Rightarrow> u64 \<Rightarrow> web_authn_assertion_verifier_config" where
  "webauthn_config env now_unix =
     web_authn_assertion_verifier_config_new
       (env_text env ''BITWEEN_WEBAUTHN_RP_ID'')
       (env_text env ''BITWEEN_WEBAUTHN_EXPECTED_ORIGIN'')
       (env_text env ''BITWEEN_WEBAUTHN_CHALLENGE'')
       (unwrap_or 0 (Option.bind (env ''BITWEEN_WEBAUTHN_CHALLENGE_ISSUED_AT_UNIX'') (parse_unsigned 18446744073709551615)))
       now_unix
       (nat (unwrap_or 0 (Option.bind (env ''BITWEEN_WEBAUTHN_PREVIOUS_SIGN_COUNT'') (parse_unsigned 4294967295))))
       (env_text env ''BITWEEN_WEBAUTHN_CREDENTIAL_PUBLIC_KEY_X'')
       (env_text env ''BITWEEN_WEBAUTHN_CREDENTIAL_PUBLIC_KEY_Y'')"

definition enforce_webauthn_assertion_if_configured :: "auth_libs \<Rightarrow> env_vars \<Rightarrow> u64 \<Rightarrow> string + unit" where
  "enforce_webauthn_assertion_if_configured libs env now_unix =
     (let assertion_json = env_text env ''BITWEEN_WEBAUTHN_ASSERTION_JSON'' in
      if trim assertion_json = [] then Inr ()
      else case lib_parse_assertion libs assertion_json of
        None \<Rightarrow> Inl ''webauthn_assertion_invalid''
      | Some assertion \<Rightarrow>
          let verification = verify_webauthn_assertion libs assertion (webauthn_config env now_unix) in
          if wav_verified verification then Inr () else Inl (wav_reason verification))"

datatype session_security_mode = SecurityOff | SecurityPostgres

definition session_security_mode :: "env_vars \<Rightarrow> string + session_security_mode" where
  "session_security_mode env =
     (let mode = to_ascii_lowercase
            (replace_chars [CHR ''_''] (CHR ''-'') (trim (env_text env ''BITWEEN_AUTH_SESSION_SECURITY_MODE''))) in
      if mode \<in> {[], ''off'', ''disabled''} then Inr SecurityOff
      else if mode \<in> {''postgres'', ''postgresql''} then Inr SecurityPostgres
      else Inl ''auth_session_security_mode_invalid'')"

section \<open>Revocation and audit\<close>

text \<open>An error of a library is replaced with the code of the step.\<close>

definition with_code :: "string \<Rightarrow> 'e + 'a \<Rightarrow> string + 'a" where
  "with_code code r = map_sum (\<lambda>_. code) (\<lambda>a. a) r"

definition act_code :: "string \<Rightarrow> ('db \<Rightarrow> ('e + 'a) \<times> 'db) \<Rightarrow> ('db, 'a) action" where
  "act_code code m db = map_prod (with_code code) (\<lambda>db. db) (m db)"

definition audit_values :: "auth_libs \<Rightarrow> auth_session_verification \<Rightarrow> sql_value list" where
  "audit_values libs v =
     [SqlText (asv_authorized_tenant_id v), SqlText (asv_authorized_legal_entity v),
      SqlText (asv_authorized_workplace v), SqlText (asv_jwt_id_sha256 v),
      SqlText (hex_sha256 libs (asv_subject v)), SqlText (asv_issuer v), SqlText (asv_audience v),
      SqlText (asv_key_id v), SqlText (asv_algorithm v), SqlText ''verified'', SqlText (asv_reason v),
      SqlText (asv_acr_level v), SqlText (asv_role v), SqlInt (asv_expires_at_unix v), SqlText ''{}'']"

definition record_session ::
    "auth_libs \<Rightarrow> 'db sql_client \<Rightarrow> auth_session_verification \<Rightarrow> ('db, unit) action" where
  "record_session libs client v =
     act_bind (run_query_opt client auth_session_revocation_lookup_sql
       [SqlText (asv_authorized_tenant_id v), SqlText (asv_jwt_id_sha256 v)]
       ''auth_session_revocation_lookup_failed'') (\<lambda>found.
     if found \<noteq> None then act_fail ''jwt_revoked''
     else if 9223372036854775807 < asv_expires_at_unix v then act_fail ''auth_session_expiration_invalid''
     else act_bind (run_execute client auth_session_event_insert_sql (audit_values libs v)
            ''auth_session_event_audit_failed'') (\<lambda>_. act_return ()))"

definition enforce_postgres_session_security ::
    "auth_libs \<Rightarrow> (string \<Rightarrow> string) \<Rightarrow> nat \<Rightarrow> 'db sql_client \<Rightarrow> env_vars \<Rightarrow> auth_session_verification
      \<Rightarrow> ('db, unit) action" where
  "enforce_postgres_session_security libs sql_text root_count client env v =
     (if trim (env_text env ''BITWEEN_POSTGRES_DSN'') = []
      then act_fail ''auth_session_security_store_required''
      else
        act_bind (act_lift (with_code ''auth_session_security_store_config_invalid''
          (from_env_parts (env ''BITWEEN_POSTGRES_DSN'') (env ''BITWEEN_POSTGRES_TLS_POLICY'')))) (\<lambda>config.
        act_bind (act_lift (with_code ''auth_session_security_scope_invalid''
          (postgres_tenant_scope_new (asv_authorized_tenant_id v) (asv_authorized_legal_entity v)
            (asv_authorized_workplace v)))) (\<lambda>scope.
        act_bind (act_code ''auth_session_security_store_unavailable''
          (connect_client_session (pg_client.truncate client) root_count config scope)) (\<lambda>session.
        act_bind (act_code ''auth_session_security_migration_failed''
          (apply_required_migrations (lib_sha256 libs) (pg_client.truncate client)
            (required_postgres_migrations sql_text))) (\<lambda>_.
        record_session libs client v)))))"

section \<open>The program\<close>

definition while_verified :: "string + unit \<Rightarrow> auth_session_verification \<Rightarrow> auth_session_verification" where
  "while_verified check v =
     (if asv_verified v then case check of Inl reason \<Rightarrow> asv_denied reason | Inr _ \<Rightarrow> v else v)"

definition enforce_session_security ::
    "auth_libs \<Rightarrow> (string \<Rightarrow> string) \<Rightarrow> nat \<Rightarrow> 'db sql_client \<Rightarrow> env_vars \<Rightarrow> auth_session_verification
      \<Rightarrow> 'db \<Rightarrow> auth_session_verification \<times> 'db" where
  "enforce_session_security libs sql_text root_count client env v db =
     (if asv_verified v then
        case session_security_mode env of
          Inr SecurityOff \<Rightarrow> (v, db)
        | Inr SecurityPostgres \<Rightarrow>
            (case enforce_postgres_session_security libs sql_text root_count client env v db of
               (Inl reason, db') \<Rightarrow> (asv_denied reason, db')
             | (Inr _, db') \<Rightarrow> (v, db'))
        | Inl reason \<Rightarrow> (asv_denied reason, db)
      else (v, db))"

definition session_now :: "env_vars \<Rightarrow> u64 \<Rightarrow> u64" where
  "session_now env clock =
     unwrap_or clock (Option.bind (env ''BITWEEN_SESSION_NOW_UNIX'') (parse_unsigned 18446744073709551615))"

definition token_verification :: "auth_libs \<Rightarrow> env_vars \<Rightarrow> u64 \<Rightarrow> auth_session_verification" where
  "token_verification libs env now_unix =
     verify_jwt_session libs (env_text env ''BITWEEN_SESSION_JWT'') (env_text env ''BITWEEN_AUTH_JWKS_JSON'')
       (auth_session_verifier_config_new (env_text env ''BITWEEN_AUTH_EXPECTED_ISSUER'')
         (env_text env ''BITWEEN_AUTH_EXPECTED_AUDIENCE'') now_unix)"

text \<open>What is printed, the exit code, and the database afterwards.\<close>

definition run_session_validation ::
    "auth_libs \<Rightarrow> (string \<Rightarrow> string) \<Rightarrow> nat \<Rightarrow> 'db sql_client \<Rightarrow> env_vars \<Rightarrow> u64 \<Rightarrow> 'db
      \<Rightarrow> auth_session_verification \<times> nat \<times> 'db" where
  "run_session_validation libs sql_text root_count client env clock db =
     (let now_unix = session_now env clock;
          v1 = token_verification libs env now_unix;
          v2 = while_verified (enforce_oidc_discovery_if_configured libs env) v1;
          v3 = while_verified (enforce_webauthn_assertion_if_configured libs env now_unix) v2;
          (v4, db') = enforce_session_security libs sql_text root_count client env v3 db
      in (v4, if asv_verified v4 then 0 else 2, db'))"

section \<open>What a validated session rests on\<close>

lemma while_verified_verified:
  "asv_verified (while_verified check v) \<longleftrightarrow> asv_verified v \<and> check = Inr ()"
  by (cases check) (simp_all add: while_verified_def)

lemma while_verified_same: "asv_verified (while_verified check v) \<Longrightarrow> while_verified check v = v"
  by (cases check) (simp_all add: while_verified_def split: if_splits)

lemma oidc_enforced:
  "enforce_oidc_discovery_if_configured libs env = Inr () \<longleftrightarrow>
     trim (env_text env ''BITWEEN_AUTH_OIDC_CONFIGURATION_JSON'') = []
     \<or> odv_verified (validate_oidc_discovery libs (env_text env ''BITWEEN_AUTH_OIDC_CONFIGURATION_JSON'')
         (oidc_discovery_verifier_config_new (env_text env ''BITWEEN_AUTH_EXPECTED_ISSUER'')
           (opt_filter (\<lambda>v. trim v \<noteq> []) (env ''BITWEEN_AUTH_EXPECTED_JWKS_URI''))))"
  by (simp add: enforce_oidc_discovery_if_configured_def Let_def)

lemma webauthn_enforced:
  "enforce_webauthn_assertion_if_configured libs env now = Inr () \<longleftrightarrow>
     trim (env_text env ''BITWEEN_WEBAUTHN_ASSERTION_JSON'') = []
     \<or> (\<exists>assertion. lib_parse_assertion libs (env_text env ''BITWEEN_WEBAUTHN_ASSERTION_JSON'') = Some assertion
         \<and> wav_verified (verify_webauthn_assertion libs assertion (webauthn_config env now)))"
  by (simp add: enforce_webauthn_assertion_if_configured_def Let_def split: option.splits)

definition session_recorded ::
    "auth_libs \<Rightarrow> 'db sql_client \<Rightarrow> auth_session_verification \<Rightarrow> 'db \<Rightarrow> bool" where
  "session_recorded libs client v db' \<longleftrightarrow>
     (\<exists>before between n.
        sqc_query client auth_session_revocation_lookup_sql
          [SqlText (asv_authorized_tenant_id v), SqlText (asv_jwt_id_sha256 v)] before = (Some [], between)
        \<and> sqc_execute client auth_session_event_insert_sql (audit_values libs v) between = (Some n, db'))"

lemma record_session_Inr:
  assumes "record_session libs client v db = (Inr u, db')"
  shows "session_recorded libs client v db' \<and> asv_expires_at_unix v \<le> 9223372036854775807"
  using assms unfolding record_session_def session_recorded_def act_bind_Inr run_query_opt_Inr run_execute_Inr
  by (auto simp: act_bind_Inr run_execute_Inr split: if_splits)

lemma enforce_postgres_Inr:
  assumes "enforce_postgres_session_security libs sql_text root_count client env v db = (Inr u, db')"
  shows "session_recorded libs client v db' \<and> asv_expires_at_unix v \<le> 9223372036854775807"
  using assms unfolding enforce_postgres_session_security_def
  by (auto simp: act_bind_Inr split: if_splits dest: record_session_Inr)

lemma enforce_session_security_verified:
  assumes "enforce_session_security libs sql_text root_count client env v db = (v', db')" "asv_verified v'"
  shows "v' = v \<and> asv_verified v
    \<and> (session_security_mode env = Inr SecurityOff \<and> db' = db
       \<or> session_security_mode env = Inr SecurityPostgres \<and> session_recorded libs client v db')"
  using assms unfolding enforce_session_security_def
  by (auto split: if_splits sum.splits session_security_mode.splits prod.splits dest: enforce_postgres_Inr)

text \<open>
  C15: The session that the program prints as verified is the verification of the token, and the exit
  code is 0 exactly then.  The discovery document and the assertion, where they are configured, are
  verified too; and where the database guards sessions the program found no live revocation of the
  token in its tenant and the last it did was to record the session in the audit trail.
\<close>

theorem session_validation_sound:
  assumes run: "run_session_validation libs sql_text root_count client env clock db = (v, exit_code, db')"
    and verified: "asv_verified v"
  shows "exit_code = 0 \<and> v = token_verification libs env (session_now env clock)
    \<and> (trim (env_text env ''BITWEEN_AUTH_OIDC_CONFIGURATION_JSON'') = []
       \<or> odv_verified (validate_oidc_discovery libs (env_text env ''BITWEEN_AUTH_OIDC_CONFIGURATION_JSON'')
           (oidc_discovery_verifier_config_new (env_text env ''BITWEEN_AUTH_EXPECTED_ISSUER'')
             (opt_filter (\<lambda>v. trim v \<noteq> []) (env ''BITWEEN_AUTH_EXPECTED_JWKS_URI'')))))
    \<and> (trim (env_text env ''BITWEEN_WEBAUTHN_ASSERTION_JSON'') = []
       \<or> (\<exists>assertion. lib_parse_assertion libs (env_text env ''BITWEEN_WEBAUTHN_ASSERTION_JSON'') = Some assertion
           \<and> wav_verified (verify_webauthn_assertion libs assertion (webauthn_config env (session_now env clock)))))
    \<and> (session_security_mode env = Inr SecurityOff \<and> db' = db
       \<or> session_security_mode env = Inr SecurityPostgres \<and> session_recorded libs client v db')"
proof -
  define now where "now = session_now env clock"
  define v1 where "v1 = token_verification libs env now"
  define v2 where "v2 = while_verified (enforce_oidc_discovery_if_configured libs env) v1"
  define v3 where "v3 = while_verified (enforce_webauthn_assertion_if_configured libs env now) v2"
  from run have last: "enforce_session_security libs sql_text root_count client env v3 db = (v, db')"
    and code: "exit_code = (if asv_verified v then 0 else 2)"
    by (auto simp: run_session_validation_def Let_def now_def v1_def v2_def v3_def split: prod.splits)
  note security = enforce_session_security_verified[OF last verified]
  then have v3: "v = v3" "asv_verified v3" by auto
  have same3: "v3 = v2" using v3(2) unfolding v3_def by (rule while_verified_same)
  have v2: "asv_verified v2" "enforce_webauthn_assertion_if_configured libs env now = Inr ()"
    using v3(2) unfolding v3_def while_verified_verified by auto
  have same2: "v2 = v1" using v2(1) unfolding v2_def by (rule while_verified_same)
  have v1: "enforce_oidc_discovery_if_configured libs env = Inr ()"
    using v2(1) unfolding v2_def while_verified_verified by auto
  show ?thesis
    using security code verified v1 v2(2) unfolding oidc_enforced webauthn_enforced
    by (simp add: v3(1) same3 same2 v1_def now_def)
qed

text \<open>A database that answers every statement and keeps the values of the inserts, for the witness.\<close>

definition sample_session_client :: "sql_value list list sql_client" where
  "sample_session_client =
     \<lparr>pgc_connect = (\<lambda>_ db. (True, db)), pgc_batch_execute = (\<lambda>_ db. (True, db)),
      pgc_execute = (\<lambda>_ _ db. (True, db)), pgc_query_opt = (\<lambda>_ _ db. (Some None, db)),
      sqc_query = (\<lambda>_ _ db. (Some [], db)), sqc_execute = (\<lambda>_ row db. (Some 1, db @ [row]))\<rparr>"

definition sample_session_env :: env_vars where
  "sample_session_env =
     map_of [(''BITWEEN_SESSION_JWT'', ''AQ.AQ.AQ''), (''BITWEEN_AUTH_EXPECTED_ISSUER'', ''i''),
       (''BITWEEN_AUTH_EXPECTED_AUDIENCE'', ''a''), (''BITWEEN_SESSION_NOW_UNIX'', ''10''),
       (''BITWEEN_AUTH_SESSION_SECURITY_MODE'', ''Postgres''), (''BITWEEN_POSTGRES_DSN'', ''postgres://db'')]"

lemma sample_migrations_run:
  "\<exists>receipts. apply_migrations sha256 (pg_client.truncate sample_session_client) migrations db = (Inr receipts, db)"
  by (induction migrations)
    (auto simp: apply_migration_def apply_migration_in_transaction_def run_then_def finish_transaction_def Let_def
      sample_session_client_def pg_client.truncate_def)

lemma sample_migrated:
  "\<exists>receipts. apply_required_migrations sha256 (pg_client.truncate sample_session_client) migrations db = (Inr receipts, db)"
  using sample_migrations_run[of sha256 migrations db]
  by (simp add: apply_required_migrations_def bootstrap_migration_registry_def run_then_def finish_transaction_def
      sample_session_client_def pg_client.truncate_def)

lemma sample_connected:
  "prc_tls_policy config = VerifyFull \<Longrightarrow> connect_client_session (pg_client.truncate sample_session_client) (Suc 0) config scope db =
     (Inr \<lparr>pcs_scope = scope, pcs_redacted_dsn = redacted_dsn\<rparr>, db)"
  by (simp add: connect_client_session_def build_tls_connector_def run_then_def sample_session_client_def
      pg_client.truncate_def)

lemma sample_session_facts:
  "asv_verified (token_verification sample_libs sample_session_env 10)"
  "asv_authorized_tenant_id (token_verification sample_libs sample_session_env 10) = ''t''"
  "asv_authorized_legal_entity (token_verification sample_libs sample_session_env 10) = ''l''"
  "asv_authorized_workplace (token_verification sample_libs sample_session_env 10) = ''w''"
  "asv_expires_at_unix (token_verification sample_libs sample_session_env 10) = 20"
  by code_simp+

lemma sample_environment:
  "session_now sample_session_env 0 = 10" "session_security_mode sample_session_env = Inr SecurityPostgres"
  "enforce_oidc_discovery_if_configured sample_libs sample_session_env = Inr ()"
  "enforce_webauthn_assertion_if_configured sample_libs sample_session_env 10 = Inr ()"
  "trim (env_text sample_session_env ''BITWEEN_POSTGRES_DSN'') \<noteq> []"
  "\<exists>config. from_env_parts (sample_session_env ''BITWEEN_POSTGRES_DSN'') (sample_session_env ''BITWEEN_POSTGRES_TLS_POLICY'') = Inr config
    \<and> prc_tls_policy config = VerifyFull"
  "\<exists>scope. postgres_tenant_scope_new ''t'' ''l'' ''w'' = Inr scope"
proof -
  have "case from_env_parts (sample_session_env ''BITWEEN_POSTGRES_DSN'') (sample_session_env ''BITWEEN_POSTGRES_TLS_POLICY'')
      of Inl _ \<Rightarrow> False | Inr config \<Rightarrow> prc_tls_policy config = VerifyFull" by code_simp
  then show "\<exists>config. from_env_parts (sample_session_env ''BITWEEN_POSTGRES_DSN'') (sample_session_env ''BITWEEN_POSTGRES_TLS_POLICY'') = Inr config
    \<and> prc_tls_policy config = VerifyFull"
    by (auto split: sum.splits)
  have "case postgres_tenant_scope_new ''t'' ''l'' ''w'' of Inl _ \<Rightarrow> False | Inr _ \<Rightarrow> True" by code_simp
  then show "\<exists>scope. postgres_tenant_scope_new ''t'' ''l'' ''w'' = Inr scope" by (auto split: sum.splits)
qed code_simp+

lemma sample_session_enforced:
  assumes "v = token_verification sample_libs sample_session_env 10"
  shows "\<exists>db'. enforce_postgres_session_security sample_libs (\<lambda>_. []) 1 sample_session_client sample_session_env v [] = (Inr (), db')"
proof -
  obtain config scope where c: "from_env_parts (sample_session_env ''BITWEEN_POSTGRES_DSN'')
      (sample_session_env ''BITWEEN_POSTGRES_TLS_POLICY'') = Inr config" "prc_tls_policy config = VerifyFull"
    "postgres_tenant_scope_new ''t'' ''l'' ''w'' = Inr scope"
    using sample_environment by blast
  obtain receipts where m: "apply_required_migrations (lib_sha256 sample_libs) (pg_client.truncate sample_session_client)
      (required_postgres_migrations (\<lambda>_. [])) [] = (Inr receipts, [])"
    using sample_migrated by blast
  have "run_query_opt sample_session_client sql params code db = (Inr None, db)"
    "run_execute sample_session_client sql params code db = (Inr 1, db @ [params])" for sql params code db
    by (simp_all add: run_query_opt_Inr run_execute_Inr sample_session_client_def)
  then show ?thesis
    unfolding assms
    by (simp add: enforce_postgres_session_security_def sample_environment sample_session_facts c m with_code_def
        act_code_def act_bind_def sample_connected record_session_def)
qed

theorem session_validation_sound_witness:
  "\<exists>v db'. run_session_validation sample_libs (\<lambda>_. []) 1 sample_session_client sample_session_env 0 [] = (v, 0, db')
     \<and> asv_verified v \<and> session_recorded sample_libs sample_session_client v db'"
proof -
  define v where "v = token_verification sample_libs sample_session_env 10"
  obtain db' where "enforce_postgres_session_security sample_libs (\<lambda>_. []) 1 sample_session_client sample_session_env v [] = (Inr (), db')"
    using sample_session_enforced[OF v_def] by blast
  then have run: "run_session_validation sample_libs (\<lambda>_. []) 1 sample_session_client sample_session_env 0 [] = (v, 0, db')"
    "asv_verified v"
    using sample_session_facts(1) by (simp_all add: run_session_validation_def Let_def sample_environment while_verified_def
        enforce_session_security_def v_def[symmetric])
  have "session_security_mode sample_session_env \<noteq> Inr SecurityOff" by (simp add: sample_environment(2))
  with session_validation_sound[OF run] have "session_recorded sample_libs sample_session_client v db'"
    by blast
  with run show ?thesis by blast
qed

end
