(* ===== verification/Schema_Contracts.thy ===== *)
theory Schema_Contracts
  imports Session_Validation
begin

text \<open>
  The contracts of the PostgreSQL schemas, from the \<open>*_schema.rs\<close> files of
  \<open>crates/payroll-api/src\<close>; the contract of the sessions is in \<open>Session_Validation\<close>.  The text of a
  migration is read from its file at build time: it is the parameter \<open>sql_text\<close>, a function of
  the migration's name.
\<close>

section \<open>archive_intake_schema.rs\<close>

record archive_intake_contract =
  aip_schema_version :: string
  aip_migration_name :: string
  aip_migration_sql :: string
  aip_tables :: "string list"
  aip_staging_tables :: "string list"

definition archive_intake_postgres_tables :: "string list" where
  "archive_intake_postgres_tables =
     [''bitween_archive.archive_intake'',
      ''bitween_archive.archive_intake_version'',
      ''bitween_archive.archive_intake_issue'',
      ''bitween_archive.archive_mapping_template'',
      ''bitween_archive.hr_employee_staging'',
      ''bitween_archive.hr_attendance_staging'',
      ''bitween_archive.payroll_input_staging'',
      ''bitween_archive.archive_admission_audit'']"

definition archive_intake_postgres_staging_tables :: "string list" where
  "archive_intake_postgres_staging_tables =
     [''bitween_archive.hr_employee_staging'',
      ''bitween_archive.hr_attendance_staging'',
      ''bitween_archive.payroll_input_staging'']"

definition archive_intake_postgres_contract :: "(string \<Rightarrow> string) \<Rightarrow> archive_intake_contract" where
  "archive_intake_postgres_contract sql_text =
     \<lparr>aip_schema_version = ''bitween.archive.postgres.v1'',
      aip_migration_name = ''001_archive_intake.sql'',
      aip_migration_sql = sql_text ''001_archive_intake.sql'',
      aip_tables = archive_intake_postgres_tables,
      aip_staging_tables = archive_intake_postgres_staging_tables\<rparr>"

section \<open>workflow_template_schema.rs\<close>

record workflow_template_contract =
  wtp_schema_version :: string
  wtp_migration_name :: string
  wtp_migration_sql :: string
  wtp_tables :: "string list"
  wtp_graph_tables :: "string list"
  wtp_audit_tables :: "string list"

definition workflow_template_postgres_tables :: "string list" where
  "workflow_template_postgres_tables =
     [''bitween_workflow.workflow_template'',
      ''bitween_workflow.workflow_template_version'',
      ''bitween_workflow.workflow_node'',
      ''bitween_workflow.workflow_edge'',
      ''bitween_workflow.workflow_publish_check'',
      ''bitween_workflow.workflow_audit_event'',
      ''bitween_workflow.workflow_runtime_instance'',
      ''bitween_workflow.workflow_data_record'']"

definition workflow_template_postgres_graph_tables :: "string list" where
  "workflow_template_postgres_graph_tables =
     [''bitween_workflow.workflow_template'',
      ''bitween_workflow.workflow_template_version'',
      ''bitween_workflow.workflow_node'',
      ''bitween_workflow.workflow_edge'']"

definition workflow_template_postgres_audit_tables :: "string list" where
  "workflow_template_postgres_audit_tables =
     [''bitween_workflow.workflow_publish_check'',
      ''bitween_workflow.workflow_audit_event'',
      ''bitween_workflow.workflow_runtime_instance'',
      ''bitween_workflow.workflow_data_record'']"

definition workflow_template_postgres_contract :: "(string \<Rightarrow> string) \<Rightarrow> workflow_template_contract" where
  "workflow_template_postgres_contract sql_text =
     \<lparr>wtp_schema_version = ''bitween.workflow.postgres.v1'',
      wtp_migration_name = ''002_workflow_templates.sql'',
      wtp_migration_sql = sql_text ''002_workflow_templates.sql'',
      wtp_tables = workflow_template_postgres_tables,
      wtp_graph_tables = workflow_template_postgres_graph_tables,
      wtp_audit_tables = workflow_template_postgres_audit_tables\<rparr>"

section \<open>hr_employee_schema.rs\<close>

record hr_employee_contract =
  hep_schema_version :: string
  hep_migration_name :: string
  hep_migration_sql :: string
  hep_tables :: "string list"

definition hr_employee_postgres_tables :: "string list" where
  "hr_employee_postgres_tables =
     [''bitween_hr.employee'']"

definition hr_employee_postgres_contract :: "(string \<Rightarrow> string) \<Rightarrow> hr_employee_contract" where
  "hr_employee_postgres_contract sql_text =
     \<lparr>hep_schema_version = ''bitween.hr.postgres.v1'',
      hep_migration_name = ''003_hr_employee.sql'',
      hep_migration_sql = sql_text ''003_hr_employee.sql'',
      hep_tables = hr_employee_postgres_tables\<rparr>"

section \<open>user_preference_schema.rs\<close>

record user_preference_contract =
  upp_schema_version :: string
  upp_migration_name :: string
  upp_migration_sql :: string
  upp_tables :: "string list"

definition user_preference_postgres_tables :: "string list" where
  "user_preference_postgres_tables =
     [''bitween_settings.user_preference'']"

definition user_preference_postgres_contract :: "(string \<Rightarrow> string) \<Rightarrow> user_preference_contract" where
  "user_preference_postgres_contract sql_text =
     \<lparr>upp_schema_version = ''bitween.settings.postgres.v1'',
      upp_migration_name = ''004_user_preferences.sql'',
      upp_migration_sql = sql_text ''004_user_preferences.sql'',
      upp_tables = user_preference_postgres_tables\<rparr>"

section \<open>payroll_attendance_schema.rs\<close>

record payroll_attendance_contract =
  pap_schema_version :: string
  pap_migration_name :: string
  pap_migration_sql :: string
  pap_tables :: "string list"

definition payroll_attendance_postgres_tables :: "string list" where
  "payroll_attendance_postgres_tables =
     [''bitween_hr.attendance_record'',
      ''bitween_payroll.payroll_input'']"

definition payroll_attendance_postgres_contract :: "(string \<Rightarrow> string) \<Rightarrow> payroll_attendance_contract" where
  "payroll_attendance_postgres_contract sql_text =
     \<lparr>pap_schema_version = ''bitween.payroll-attendance.postgres.v1'',
      pap_migration_name = ''005_payroll_attendance_intake.sql'',
      pap_migration_sql = sql_text ''005_payroll_attendance_intake.sql'',
      pap_tables = payroll_attendance_postgres_tables\<rparr>"

section \<open>archive_rollback_schema.rs\<close>

record archive_rollback_contract =
  arp_schema_version :: string
  arp_migration_name :: string
  arp_migration_sql :: string
  arp_tables :: "string list"

definition archive_rollback_postgres_tables :: "string list" where
  "archive_rollback_postgres_tables =
     [''bitween_archive.archive_admission_recovery_point'',
      ''bitween_archive.archive_source_sync'',
      ''bitween_archive.archive_admission_rollback'']"

definition archive_rollback_postgres_contract :: "(string \<Rightarrow> string) \<Rightarrow> archive_rollback_contract" where
  "archive_rollback_postgres_contract sql_text =
     \<lparr>arp_schema_version = ''bitween.archive-rollback.postgres.v1'',
      arp_migration_name = ''006_archive_admission_rollback.sql'',
      arp_migration_sql = sql_text ''006_archive_admission_rollback.sql'',
      arp_tables = archive_rollback_postgres_tables\<rparr>"

section \<open>rls_enforcement_schema.rs\<close>

record rls_enforcement_contract =
  rlp_schema_version :: string
  rlp_migration_name :: string
  rlp_migration_sql :: string
  rlp_forced_tables :: "string list"

definition rls_enforcement_postgres_forced_tables :: "string list" where
  "rls_enforcement_postgres_forced_tables =
     [''bitween_archive.archive_intake'',
      ''bitween_archive.archive_intake_version'',
      ''bitween_archive.archive_intake_issue'',
      ''bitween_archive.archive_mapping_template'',
      ''bitween_archive.hr_employee_staging'',
      ''bitween_archive.hr_attendance_staging'',
      ''bitween_archive.payroll_input_staging'',
      ''bitween_archive.archive_admission_audit'',
      ''bitween_workflow.workflow_template'',
      ''bitween_workflow.workflow_template_version'',
      ''bitween_workflow.workflow_node'',
      ''bitween_workflow.workflow_edge'',
      ''bitween_workflow.workflow_publish_check'',
      ''bitween_workflow.workflow_audit_event'',
      ''bitween_workflow.workflow_runtime_instance'',
      ''bitween_workflow.workflow_data_record'',
      ''bitween_hr.employee'',
      ''bitween_settings.user_preference'',
      ''bitween_hr.attendance_record'',
      ''bitween_payroll.payroll_input'',
      ''bitween_archive.archive_admission_recovery_point'',
      ''bitween_archive.archive_source_sync'',
      ''bitween_archive.archive_admission_rollback'',
      ''bitween_auth.jwt_revocation'',
      ''bitween_auth.session_event_audit'']"

definition rls_enforcement_postgres_contract :: "(string \<Rightarrow> string) \<Rightarrow> rls_enforcement_contract" where
  "rls_enforcement_postgres_contract sql_text =
     \<lparr>rlp_schema_version = ''bitween.rls-enforcement.postgres.v1'',
      rlp_migration_name = ''008_rls_force_and_employee_scope.sql'',
      rlp_migration_sql = sql_text ''008_rls_force_and_employee_scope.sql'',
      rlp_forced_tables = rls_enforcement_postgres_forced_tables\<rparr>"

section \<open>The contracts together\<close>

text \<open>
  The migrations that are required are those of the contracts, each under its name and with its
  text, the row-level security last.
\<close>

theorem migrations_are_contracts:
  "required_postgres_migrations sql_text =
     [\<lparr>pmg_name = aip_migration_name (archive_intake_postgres_contract sql_text),
       pmg_sql = aip_migration_sql (archive_intake_postgres_contract sql_text)\<rparr>,
      \<lparr>pmg_name = wtp_migration_name (workflow_template_postgres_contract sql_text),
       pmg_sql = wtp_migration_sql (workflow_template_postgres_contract sql_text)\<rparr>,
      \<lparr>pmg_name = hep_migration_name (hr_employee_postgres_contract sql_text),
       pmg_sql = hep_migration_sql (hr_employee_postgres_contract sql_text)\<rparr>,
      \<lparr>pmg_name = upp_migration_name (user_preference_postgres_contract sql_text),
       pmg_sql = upp_migration_sql (user_preference_postgres_contract sql_text)\<rparr>,
      \<lparr>pmg_name = pap_migration_name (payroll_attendance_postgres_contract sql_text),
       pmg_sql = pap_migration_sql (payroll_attendance_postgres_contract sql_text)\<rparr>,
      \<lparr>pmg_name = arp_migration_name (archive_rollback_postgres_contract sql_text),
       pmg_sql = arp_migration_sql (archive_rollback_postgres_contract sql_text)\<rparr>,
      \<lparr>pmg_name = apc_migration_name auth_session_postgres_contract,
       pmg_sql = sql_text (apc_migration_name auth_session_postgres_contract)\<rparr>,
      \<lparr>pmg_name = rlp_migration_name (rls_enforcement_postgres_contract sql_text),
       pmg_sql = rlp_migration_sql (rls_enforcement_postgres_contract sql_text)\<rparr>]"
  by (simp add: required_postgres_migrations_def required_migration_names_def archive_intake_postgres_contract_def
      workflow_template_postgres_contract_def hr_employee_postgres_contract_def user_preference_postgres_contract_def
      payroll_attendance_postgres_contract_def archive_rollback_postgres_contract_def auth_session_postgres_contract_def
      rls_enforcement_postgres_contract_def)

text \<open>
  Row-level security is forced on the tables of all the schemas and on no other, each once.
\<close>

lemma row_security_covers_tables:
  "rlp_forced_tables (rls_enforcement_postgres_contract sql_text) =
     aip_tables (archive_intake_postgres_contract sql_text)
     @ wtp_graph_tables (workflow_template_postgres_contract sql_text)
     @ wtp_audit_tables (workflow_template_postgres_contract sql_text)
     @ hep_tables (hr_employee_postgres_contract sql_text)
     @ upp_tables (user_preference_postgres_contract sql_text)
     @ pap_tables (payroll_attendance_postgres_contract sql_text)
     @ arp_tables (archive_rollback_postgres_contract sql_text)
     @ apc_tables auth_session_postgres_contract"
  by code_simp

lemma row_security_distinct: "distinct (rlp_forced_tables (rls_enforcement_postgres_contract sql_text))"
  by code_simp

end
