(* ===== verification/Platform_Session.thy ===== *)
theory Platform_Session
  imports Authz_Document Service Archive_Text
begin

text \<open>
  The deployment's configuration and its session, from \<open>crates/payroll-api/src/platform_view.rs\<close>
  (\<open>PlatformLiveConfig\<close>), and the route decision made of them, from
  \<open>crates/payroll-api/src/bin/authz_decision.rs\<close>.  The environment is a parameter, the clock an
  argument that both reads of a call share, and the policy an argument: what \<open>AuthzPolicy::from_env\<close>
  gives, \<open>from_env_var\<close> of \<open>Authz_Document\<close>.
\<close>

section \<open>Configuration\<close>

record platform_live_config =
  plc_service_config :: service_config
  plc_tenant_id :: string
  plc_tenant_name :: string
  plc_affiliate :: string
  plc_workplace :: string
  plc_period :: string
  plc_auth_provider_configured :: bool
  plc_session_jwt_verified :: bool
  plc_session_jwt_issuer :: string
  plc_session_jwt_audience :: string
  plc_session_jwt_subject :: string
  plc_session_jwt_expires_at_unix :: u64
  plc_session_webauthn_user_verified :: bool
  plc_session_acr_level :: string
  plc_session_acr_event_at_unix :: u64
  plc_session_actor_role :: string
  plc_session_authz_policy_id :: string
  plc_session_authorized_tenant_id :: string
  plc_session_authorized_legal_entity :: string
  plc_session_authorized_workplace :: string
  plc_archive_configured :: bool
  plc_ontology_projection_configured :: bool
  plc_workflow_template_configured :: bool
  plc_compliance_pack_configured :: bool
  plc_observability_configured :: bool
  plc_finops_configured :: bool
  plc_import_plan_declared :: bool
  plc_support_runbook_configured :: bool
  plc_payroll_inputs_closed :: bool
  plc_attendance_closed :: bool
  plc_deductions_reviewed :: bool
  plc_payroll_calculated :: bool
  plc_approval_requested :: bool
  plc_payout_prepared :: bool
  plc_payroll_evidence_archived :: bool

definition env_value :: "(string \<Rightarrow> string option) \<Rightarrow> string \<Rightarrow> string option" where
  "env_value env key = opt_filter (\<lambda>v. v \<noteq> []) (map_option trim (env key))"

definition env_flag :: "(string \<Rightarrow> string option) \<Rightarrow> string \<Rightarrow> bool" where
  "env_flag env key = truthy_env (env key)"

definition env_u64 :: "(string \<Rightarrow> string option) \<Rightarrow> string \<Rightarrow> u64 option" where
  "env_u64 env key = Option.bind (env_value env key) (parse_unsigned 18446744073709551615)"

definition platform_live_config_default :: platform_live_config where
  "platform_live_config_default =
     \<lparr>plc_service_config = service_config_default,
      plc_tenant_id = [],
      plc_tenant_name = [],
      plc_affiliate = [],
      plc_workplace = [],
      plc_period = [],
      plc_auth_provider_configured = False,
      plc_session_jwt_verified = False,
      plc_session_jwt_issuer = [],
      plc_session_jwt_audience = [],
      plc_session_jwt_subject = [],
      plc_session_jwt_expires_at_unix = 0,
      plc_session_webauthn_user_verified = False,
      plc_session_acr_level = [],
      plc_session_acr_event_at_unix = 0,
      plc_session_actor_role = [],
      plc_session_authz_policy_id = [],
      plc_session_authorized_tenant_id = [],
      plc_session_authorized_legal_entity = [],
      plc_session_authorized_workplace = [],
      plc_archive_configured = False,
      plc_ontology_projection_configured = False,
      plc_workflow_template_configured = False,
      plc_compliance_pack_configured = False,
      plc_observability_configured = False,
      plc_finops_configured = False,
      plc_import_plan_declared = False,
      plc_support_runbook_configured = False,
      plc_payroll_inputs_closed = False,
      plc_attendance_closed = False,
      plc_deductions_reviewed = False,
      plc_payroll_calculated = False,
      plc_approval_requested = False,
      plc_payout_prepared = False,
      plc_payroll_evidence_archived = False\<rparr>"

definition platform_config_from_env :: "(string \<Rightarrow> string option) \<Rightarrow> platform_live_config" where
  "platform_config_from_env env =
     \<lparr>plc_service_config = service_config_default\<lparr>svc_environment := unwrap_or ''local'' (env_value env ''BITWEEN_ENVIRONMENT''),
        svc_build_sha := unwrap_or [] (env_value env ''BITWEEN_BUILD_SHA'')\<rparr>,
      plc_tenant_id = unwrap_or [] (env_value env ''BITWEEN_TENANT_ID''),
      plc_tenant_name = unwrap_or [] (env_value env ''BITWEEN_TENANT_NAME''),
      plc_affiliate = unwrap_or [] (env_value env ''BITWEEN_PAYROLL_AFFILIATE''),
      plc_workplace = unwrap_or [] (env_value env ''BITWEEN_PAYROLL_WORKPLACE''),
      plc_period = unwrap_or [] (env_value env ''BITWEEN_PAYROLL_PERIOD''),
      plc_auth_provider_configured = env_flag env ''BITWEEN_AUTH_CONFIGURED'',
      plc_session_jwt_verified = env_flag env ''BITWEEN_SESSION_JWT_VERIFIED'',
      plc_session_jwt_issuer = unwrap_or [] (env_value env ''BITWEEN_SESSION_JWT_ISSUER''),
      plc_session_jwt_audience = unwrap_or [] (env_value env ''BITWEEN_SESSION_JWT_AUDIENCE''),
      plc_session_jwt_subject = unwrap_or [] (env_value env ''BITWEEN_SESSION_JWT_SUBJECT''),
      plc_session_jwt_expires_at_unix = unwrap_or 0 (env_u64 env ''BITWEEN_SESSION_JWT_EXPIRES_AT_UNIX''),
      plc_session_webauthn_user_verified = env_flag env ''BITWEEN_WEBAUTHN_USER_VERIFIED'',
      plc_session_acr_level = unwrap_or [] (env_value env ''BITWEEN_SESSION_ACR_LEVEL''),
      plc_session_acr_event_at_unix = unwrap_or 0 (env_u64 env ''BITWEEN_SESSION_ACR_EVENT_AT_UNIX''),
      plc_session_actor_role = unwrap_or [] (env_value env ''BITWEEN_SESSION_ROLE''),
      plc_session_authz_policy_id = unwrap_or [] (env_value env ''BITWEEN_SESSION_AUTHZ_POLICY_ID''),
      plc_session_authorized_tenant_id = unwrap_or [] (env_value env ''BITWEEN_SESSION_AUTHZ_TENANT_ID''),
      plc_session_authorized_legal_entity = unwrap_or [] (opt_or (env_value env ''BITWEEN_SESSION_AUTHZ_LEGAL_ENTITY'') (env_value env ''BITWEEN_SESSION_AUTHZ_AFFILIATE'')),
      plc_session_authorized_workplace = unwrap_or [] (env_value env ''BITWEEN_SESSION_AUTHZ_WORKPLACE''),
      plc_archive_configured = env_flag env ''BITWEEN_ARCHIVE_CONFIGURED'',
      plc_ontology_projection_configured = env_flag env ''BITWEEN_ONTOLOGY_CONFIGURED'',
      plc_workflow_template_configured = env_flag env ''BITWEEN_WORKFLOW_CONFIGURED'',
      plc_compliance_pack_configured = env_flag env ''BITWEEN_COMPLIANCE_PACK_CONFIGURED'',
      plc_observability_configured = env_flag env ''BITWEEN_OBSERVABILITY_CONFIGURED'',
      plc_finops_configured = env_flag env ''BITWEEN_FINOPS_CONFIGURED'',
      plc_import_plan_declared = env_flag env ''BITWEEN_IMPORT_PLAN_DECLARED'',
      plc_support_runbook_configured = env_flag env ''BITWEEN_SUPPORT_RUNBOOK_CONFIGURED'',
      plc_payroll_inputs_closed = env_flag env ''BITWEEN_PAYROLL_INPUTS_CLOSED'',
      plc_attendance_closed = env_flag env ''BITWEEN_ATTENDANCE_CLOSED'',
      plc_deductions_reviewed = env_flag env ''BITWEEN_DEDUCTIONS_REVIEWED'',
      plc_payroll_calculated = env_flag env ''BITWEEN_PAYROLL_CALCULATED'',
      plc_approval_requested = env_flag env ''BITWEEN_PAYROLL_APPROVAL_REQUESTED'',
      plc_payout_prepared = env_flag env ''BITWEEN_PAYOUT_PREPARED'',
      plc_payroll_evidence_archived = env_flag env ''BITWEEN_PAYROLL_EVIDENCE_ARCHIVED''\<rparr>"

text \<open>The builders.\<close>

definition with_scope :: "string \<Rightarrow> string \<Rightarrow> string \<Rightarrow> string \<Rightarrow> string \<Rightarrow> platform_live_config \<Rightarrow> platform_live_config" where
  "with_scope tenant_id tenant_name affiliate workplace period config =
     config\<lparr>plc_tenant_id := trim tenant_id, plc_tenant_name := trim tenant_name, plc_affiliate := trim affiliate,
            plc_workplace := trim workplace, plc_period := trim period\<rparr>"

definition with_auth_provider_configured :: "bool \<Rightarrow> platform_live_config \<Rightarrow> platform_live_config" where
  "with_auth_provider_configured configured config = config\<lparr>plc_auth_provider_configured := configured\<rparr>"

definition with_verified_session :: "bool \<Rightarrow> string \<Rightarrow> platform_live_config \<Rightarrow> platform_live_config" where
  "with_verified_session verified role config =
     config\<lparr>plc_session_jwt_verified := verified,
       plc_session_jwt_issuer := ''https://auth.bitween.local'',
       plc_session_jwt_audience := ''bitween-platform'',
       plc_session_jwt_subject := ''user-live-ops'',
       plc_session_jwt_expires_at_unix := 4102444800,
       plc_session_webauthn_user_verified := verified,
       plc_session_acr_level := (if verified then ''elevated'' else []),
       plc_session_acr_event_at_unix := (if verified then 1 else 0),
       plc_session_actor_role := trim role,
       plc_session_authz_policy_id := (if verified then authz_policy_id else []),
       plc_session_authorized_tenant_id := (if verified then plc_tenant_id config else []),
       plc_session_authorized_legal_entity := (if verified then plc_affiliate config else []),
       plc_session_authorized_workplace := (if verified then plc_workplace config else [])\<rparr>"

definition with_jwt_claims :: "string \<Rightarrow> string \<Rightarrow> string \<Rightarrow> u64 \<Rightarrow> platform_live_config \<Rightarrow> platform_live_config" where
  "with_jwt_claims issuer audience subject expires_at_unix config =
     config\<lparr>plc_session_jwt_issuer := trim issuer, plc_session_jwt_audience := trim audience,
       plc_session_jwt_subject := trim subject, plc_session_jwt_expires_at_unix := expires_at_unix\<rparr>"

definition with_webauthn_user_verified :: "bool \<Rightarrow> platform_live_config \<Rightarrow> platform_live_config" where
  "with_webauthn_user_verified verified config = config\<lparr>plc_session_webauthn_user_verified := verified\<rparr>"

definition with_acr_level :: "string \<Rightarrow> u64 \<Rightarrow> platform_live_config \<Rightarrow> platform_live_config" where
  "with_acr_level acr_level event_at_unix config =
     config\<lparr>plc_session_acr_level := trim acr_level, plc_session_acr_event_at_unix := event_at_unix\<rparr>"

definition with_authorization_scope :: "string \<Rightarrow> string \<Rightarrow> string \<Rightarrow> string \<Rightarrow> platform_live_config \<Rightarrow> platform_live_config" where
  "with_authorization_scope policy_id tenant_id legal_entity workplace config =
     config\<lparr>plc_session_authz_policy_id := trim policy_id, plc_session_authorized_tenant_id := trim tenant_id,
       plc_session_authorized_legal_entity := trim legal_entity, plc_session_authorized_workplace := trim workplace\<rparr>"

definition with_archive_configured :: "bool \<Rightarrow> platform_live_config \<Rightarrow> platform_live_config" where
  "with_archive_configured configured config = config\<lparr>plc_archive_configured := configured\<rparr>"

definition with_enterprise_operations_configured :: "bool \<Rightarrow> platform_live_config \<Rightarrow> platform_live_config" where
  "with_enterprise_operations_configured configured config =
     config\<lparr>plc_ontology_projection_configured := configured, plc_workflow_template_configured := configured,
       plc_compliance_pack_configured := configured, plc_observability_configured := configured,
       plc_finops_configured := configured, plc_import_plan_declared := configured,
       plc_support_runbook_configured := configured\<rparr>"

definition with_payroll_workstream_completed :: "bool \<Rightarrow> platform_live_config \<Rightarrow> platform_live_config" where
  "with_payroll_workstream_completed completed config =
     config\<lparr>plc_payroll_inputs_closed := completed, plc_attendance_closed := completed,
       plc_deductions_reviewed := completed, plc_payroll_calculated := completed,
       plc_approval_requested := completed, plc_payout_prepared := completed,
       plc_payroll_evidence_archived := completed\<rparr>"

section \<open>The session\<close>

definition scope_configured :: "platform_live_config \<Rightarrow> bool" where
  "scope_configured config \<longleftrightarrow>
     plc_tenant_id config \<noteq> [] \<and> plc_tenant_name config \<noteq> [] \<and> plc_affiliate config \<noteq> []
     \<and> plc_workplace config \<noteq> [] \<and> plc_period config \<noteq> []"

definition session_acr :: "platform_live_config \<Rightarrow> auth_acr_level option" where
  "session_acr config = acr_parse (plc_session_acr_level config)"

definition session_acr_valid :: "u64 \<Rightarrow> platform_live_config \<Rightarrow> bool" where
  "session_acr_valid now config \<longleftrightarrow>
     session_acr config \<noteq> None \<and> 0 < plc_session_acr_event_at_unix config \<and> plc_session_acr_event_at_unix config \<le> now"

definition session_authenticated :: "u64 \<Rightarrow> platform_live_config \<Rightarrow> bool" where
  "session_authenticated now config \<longleftrightarrow>
     plc_auth_provider_configured config \<and> plc_session_jwt_verified config
     \<and> plc_session_jwt_issuer config \<noteq> [] \<and> plc_session_jwt_audience config \<noteq> []
     \<and> plc_session_jwt_subject config \<noteq> [] \<and> now < plc_session_jwt_expires_at_unix config
     \<and> plc_session_webauthn_user_verified config \<and> session_acr_valid now config"

definition payroll_auth_workflow_state :: "platform_live_config \<Rightarrow> auth_workflow_state" where
  "payroll_auth_workflow_state config =
     (let inputs_trio = plc_payroll_inputs_closed config \<and> plc_attendance_closed config \<and> plc_deductions_reviewed config;
          calculated_chain = inputs_trio \<and> plc_payroll_calculated config;
          approval_chain = calculated_chain \<and> plc_approval_requested config;
          approved_chain = approval_chain \<and> plc_payout_prepared config in
      if plc_payroll_calculated config \<and> \<not> inputs_trio then WfInconsistent
      else if plc_approval_requested config \<and> \<not> calculated_chain then WfInconsistent
      else if plc_payout_prepared config \<and> \<not> approval_chain then WfInconsistent
      else if plc_payroll_evidence_archived config \<and> \<not> approved_chain then WfInconsistent
      else if plc_payroll_evidence_archived config then WfArchived
      else if plc_payout_prepared config then WfApproved
      else if plc_approval_requested config then WfApprovalPending
      else if plc_payroll_calculated config then WfCalculated
      else if inputs_trio then WfInputsClosed
      else WfOpen)"

definition session_authorization_request :: "platform_live_config \<Rightarrow> auth_sensitive_operation \<Rightarrow> authz_request" where
  "session_authorization_request config operation =
     \<lparr>azr_policy_id = plc_session_authz_policy_id config, azr_operation = operation,
      azr_current_acr = session_acr config, azr_role = Some (plc_session_actor_role config),
      azr_actor_tenant_id = plc_session_authorized_tenant_id config,
      azr_resource_tenant_id = plc_tenant_id config,
      azr_actor_legal_entity = plc_session_authorized_legal_entity config,
      azr_resource_legal_entity = plc_affiliate config,
      azr_actor_workplace = plc_session_authorized_workplace config,
      azr_resource_workplace = plc_workplace config,
      azr_workflow_state = payroll_auth_workflow_state config\<rparr>"

text \<open>A policy that does not load denies everything.\<close>

type_synonym loaded_policy = "authz_policy_error + authz_policy"

definition session_authorization_decision ::
    "loaded_policy \<Rightarrow> platform_live_config \<Rightarrow> auth_sensitive_operation \<Rightarrow> authz_decision" where
  "session_authorization_decision loaded config operation =
     (case loaded of
        Inl _ \<Rightarrow> policy_invalid operation
      | Inr policy \<Rightarrow> evaluate_authorization policy (session_authorization_request config operation))"

definition session_allows_sensitive_operation ::
    "loaded_policy \<Rightarrow> u64 \<Rightarrow> platform_live_config \<Rightarrow> auth_sensitive_operation \<Rightarrow> bool" where
  "session_allows_sensitive_operation loaded now config operation =
     (case loaded of
        Inl _ \<Rightarrow> False
      | Inr policy \<Rightarrow> session_authenticated now config
                      \<and> asd_allowed (evaluate_step_up policy (session_acr config) operation))"

definition session_authorizes_operation ::
    "loaded_policy \<Rightarrow> u64 \<Rightarrow> platform_live_config \<Rightarrow> auth_sensitive_operation \<Rightarrow> bool" where
  "session_authorizes_operation loaded now config operation \<longleftrightarrow>
     session_authenticated now config \<and> azd_allowed (session_authorization_decision loaded config operation)"

section \<open>The route decision\<close>

record route_authorization_decision =
  rad_schema :: string
  rad_ok :: bool
  rad_allowed :: bool
  rad_operation :: string
  rad_reason :: string
  rad_policy_id :: "string option"
  rad_auth_policy_schema :: "string option"

definition authz_decision_schema :: string where
  "authz_decision_schema = ''bitween.authz-decision.v1''"

definition authorize_operation ::
    "loaded_policy \<Rightarrow> u64 \<Rightarrow> platform_live_config \<Rightarrow> string \<Rightarrow> string + route_authorization_decision" where
  "authorize_operation loaded now config name =
     (case operation_parse name of
        None \<Rightarrow> Inl (''unsupported authorization operation: '' @ name)
      | Some operation \<Rightarrow>
          if \<not> session_authenticated now config
          then Inr \<lparr>rad_schema = authz_decision_schema, rad_ok = True, rad_allowed = False,
                    rad_operation = operation_id operation, rad_reason = ''session_not_authenticated'',
                    rad_policy_id = None, rad_auth_policy_schema = None\<rparr>
          else let policy = session_authorization_decision loaded config operation in
               Inr \<lparr>rad_schema = authz_decision_schema, rad_ok = True, rad_allowed = azd_allowed policy,
                    rad_operation = azd_operation policy, rad_reason = azd_reason policy,
                    rad_policy_id = Some (azd_policy_id policy), rad_auth_policy_schema = Some (azd_schema policy)\<rparr>)"

definition run_authz_decision ::
    "loaded_policy \<Rightarrow> u64 \<Rightarrow> (string \<Rightarrow> string option) \<Rightarrow> string option \<Rightarrow> string + route_authorization_decision" where
  "run_authz_decision loaded now env argument =
     result_bind (ok_or ''missing authorization operation'' argument)
       (authorize_operation loaded now (platform_config_from_env env))"

section \<open>The stages of a month\<close>

text \<open>The flags of the stages after the first, in order, and whether they form a chain from the left.\<close>

definition stage_flags :: "platform_live_config \<Rightarrow> bool list" where
  "stage_flags config =
     [plc_payroll_inputs_closed config \<and> plc_attendance_closed config \<and> plc_deductions_reviewed config,
      plc_payroll_calculated config, plc_approval_requested config, plc_payout_prepared config,
      plc_payroll_evidence_archived config]"

definition stages_in_order :: "platform_live_config \<Rightarrow> bool" where
  "stages_in_order config \<longleftrightarrow> \<not> list_ex (\<lambda>flag. flag) (dropWhile (\<lambda>flag. flag) (stage_flags config))"

definition stage_states :: "auth_workflow_state list" where
  "stage_states = [WfOpen, WfInputsClosed, WfCalculated, WfApprovalPending, WfApproved, WfArchived]"

lemma flag_cases: "\<exists>a b d e f. stage_flags config = [a, b, d, e, f]"
  by (simp add: stage_flags_def)

lemma payroll_state_of_flags:
  assumes "stage_flags config = [inputs, calculated, requested, prepared, archived]"
  shows "payroll_auth_workflow_state config =
     (if calculated \<and> \<not> inputs \<or> requested \<and> \<not> (inputs \<and> calculated)
         \<or> prepared \<and> \<not> (inputs \<and> calculated \<and> requested)
         \<or> archived \<and> \<not> (inputs \<and> calculated \<and> requested \<and> prepared) then WfInconsistent
      else if archived then WfArchived else if prepared then WfApproved else if requested then WfApprovalPending
      else if calculated then WfCalculated else if inputs then WfInputsClosed else WfOpen)"
  using assms by (auto simp: payroll_auth_workflow_state_def Let_def stage_flags_def)

lemma workflow_state_stages:
  "payroll_auth_workflow_state config =
     (if stages_in_order config then stage_states ! length (takeWhile (\<lambda>flag. flag) (stage_flags config)) else WfInconsistent)"
proof -
  obtain a b d e f where flags: "stage_flags config = [a, b, d, e, f]" using flag_cases by blast
  show ?thesis
    unfolding payroll_state_of_flags[OF flags] stages_in_order_def flags stage_states_def
    by (cases a; cases b; cases d; cases e; cases f; simp)
qed

lemma stage_state_consistent:
  "stages_in_order config \<Longrightarrow> stage_states ! length (takeWhile (\<lambda>flag. flag) (stage_flags config)) \<noteq> WfInconsistent"
proof -
  obtain a b d e f where flags: "stage_flags config = [a, b, d, e, f]" using flag_cases by blast
  show ?thesis
    unfolding flags stage_states_def by (cases a; cases b; cases d; cases e; cases f; simp)
qed

text \<open>
  The state of a month is the number of its stages that are done, when they are done in order, and
  inconsistent exactly when one is done before another it needs.
\<close>

theorem month_state_exact:
  "(payroll_auth_workflow_state config = WfInconsistent) = (\<not> stages_in_order config)
   \<and> payroll_auth_workflow_state config =
        (if stages_in_order config then stage_states ! length (takeWhile (\<lambda>flag. flag) (stage_flags config))
         else WfInconsistent)"
  using stage_state_consistent[of config] by (simp add: workflow_state_stages)

lemma evaluated_operation: "azd_operation (evaluate_authorization policy r) = operation_id (azr_operation r)"
  by (simp add: evaluate_authorization_def Let_def case_prod_beta)

lemma route_allowed:
  assumes "authorize_operation loaded now config name = Inr d" "rad_allowed d"
  obtains operation policy where "operation_parse name = Some operation" "loaded = Inr policy"
    "session_authenticated now config"
    "azd_allowed (evaluate_authorization policy (session_authorization_request config operation))"
  using assms
  by (auto simp: authorize_operation_def Let_def session_authorization_decision_def policy_invalid_def
      split: option.splits if_splits sum.splits)

text \<open>
  C16: What an allowed route relies on: a session that is verified, not expired, bound to a user by
  WebAuthn and of a recent level of authentication that the policy's requirement does not exceed,
  in the tenant and legal entity of the deployment; a policy that loaded; and, for every operation
  that the policy ties to a state of the month, stages done in order.
\<close>

theorem route_decision_sound:
  assumes load: "from_env_var read_document at_position var = loaded"
    and run: "authorize_operation loaded now config name = Inr d" and allowed: "rad_allowed d"
  shows "\<exists>operation policy acr. operation_parse name = Some operation \<and> rad_operation d = operation_id operation
    \<and> loaded = Inr policy \<and> plc_session_jwt_verified config \<and> now < plc_session_jwt_expires_at_unix config
    \<and> plc_session_webauthn_user_verified config \<and> 0 < plc_session_acr_event_at_unix config
    \<and> session_acr config = Some acr \<and> azp_required_acr policy operation \<le> acr
    \<and> trim (plc_session_authorized_tenant_id config) = trim (plc_tenant_id config) \<and> trim (plc_tenant_id config) \<noteq> []
    \<and> trim (plc_session_authorized_legal_entity config) = trim (plc_affiliate config)
    \<and> (policy_window policy operation \<noteq> None \<longrightarrow> stages_in_order config)"
proof -
  obtain operation policy where r: "operation_parse name = Some operation" "loaded = Inr policy"
    "session_authenticated now config"
    "azd_allowed (evaluate_authorization policy (session_authorization_request config operation))"
    by (rule route_allowed[OF run allowed])
  let ?r = "session_authorization_request config operation"
  have fields: "azr_operation ?r = operation" "azr_workflow_state ?r = payroll_auth_workflow_state config"
    "azr_current_acr ?r = session_acr config" "azr_actor_tenant_id ?r = plc_session_authorized_tenant_id config"
    "azr_resource_tenant_id ?r = plc_tenant_id config"
    "azr_actor_legal_entity ?r = plc_session_authorized_legal_entity config" "azr_resource_legal_entity ?r = plc_affiliate config"
    by (simp_all add: session_authorization_request_def)
  have gates: "acr_gate policy ?r" "scope_allows policy ?r" "workflow_allows policy operation (payroll_auth_workflow_state config)"
    using r(4) unfolding authorized_iff_gates fields by blast+
  have "rad_operation d = operation_id operation"
    using run r by (auto simp: authorize_operation_def session_authorization_decision_def Let_def
        evaluated_operation fields)
  moreover obtain acr where "session_acr config = Some acr" "azp_required_acr policy operation \<le> acr"
    using gates(1) by (auto simp: acr_gate_def fields is_some_and_def split: option.splits)
  moreover have "stages_in_order config" if windowed: "policy_window policy operation \<noteq> None"
  proof -
    obtain states where w: "policy_window policy operation = Some states" using windowed by auto
    have "policy_ok policy" using load r(2) by (intro from_env_var_ok) simp
    then have "states \<subseteq> workflow_state_as_str ` (- {WfInconsistent})" by (rule policy_ok_window[OF _ w])
    then have "payroll_auth_workflow_state config \<noteq> WfInconsistent"
      using gates(3) w inconsistent_closed by (auto simp: workflow_allows_window)
    then show ?thesis by (simp add: workflow_state_stages split: if_splits)
  qed
  moreover have "plc_session_jwt_verified config" "now < plc_session_jwt_expires_at_unix config"
    "plc_session_webauthn_user_verified config" "0 < plc_session_acr_event_at_unix config"
    using r(3) by (simp_all add: session_authenticated_def session_acr_valid_def)
  ultimately show ?thesis using r scope_allows_tenant[OF gates(2)] by (auto simp: fields)
qed

definition sample_platform_config :: platform_live_config where
  "sample_platform_config =
     (with_acr_level ''sensitive'' 1 (with_verified_session True ''Payroll-Ops''
       (with_auth_provider_configured True (with_scope ''t'' ''T'' ''le'' ''plant'' ''2026-05'' platform_live_config_default))))
     \<lparr>plc_payroll_inputs_closed := True, plc_attendance_closed := True, plc_deductions_reviewed := True\<rparr>"

theorem route_decision_sound_witness:
  "\<exists>d. authorize_operation (Inr builtin_policy) 100 sample_platform_config ''payroll-run'' = Inr d \<and> rad_allowed d
     \<and> plc_session_webauthn_user_verified sample_platform_config"
proof -
  let ?run = "authorize_operation (Inr builtin_policy) 100 sample_platform_config ''payroll-run''"
  have "case ?run of Inl _ \<Rightarrow> False | Inr d \<Rightarrow> rad_allowed d" by code_simp
  then obtain d where d: "?run = Inr d" "rad_allowed d" by (cases ?run) auto
  have "from_env_var (\<lambda>_. Inl []) (\<lambda>s. s) EnvNotPresent = Inr builtin_policy" by (simp add: from_env_var_def)
  from route_decision_sound[OF this d] d show ?thesis by blast
qed

end
