(* ===== verification/Platform_View.thy ===== *)
theory Platform_View
  imports Platform_Session Execution_Plan
begin
text \<open>
  The platform's live view, from \<open>crates/payroll-api/src/platform_view.rs\<close>: readiness of the
  deployment, the steps of the month's payroll work, the next actions, and the enterprise gates
  and capability tiers.  The crate's version and the uptime are parameters, and the clock is an
  argument.  Strings are the bytes of the source's UTF-8 texts.
\<close>
section \<open>Data\<close>
record platform_source =
  pso_service :: string
  pso_endpoint :: string
  pso_backend :: string
  pso_executor :: string
  pso_generated_at_unix :: u64
record platform_session_view =
  pse_mode :: string
  pse_authenticated :: bool
  pse_tenant_id :: string
  pse_tenant_name :: string
  pse_role :: string
  pse_scope_label :: string
record platform_navigation_item =
  pni_id :: string
  pni_label :: string
  pni_purpose :: string
record enterprise_maturity_gate =
  emg_id :: string
  emg_title :: string
  emg_status :: string
  emg_tone :: string
  emg_owner :: string
  emg_evidence :: string
  emg_next_step :: string
  emg_source :: string
record enterprise_capability_tier =
  ect_id :: string
  ect_title :: string
  ect_status :: string
  ect_tone :: string
  ect_artifact :: string
  ect_owner :: string
  ect_evidence :: string
  ect_next_step :: string
  ect_source :: string
record enterprise_maturity_view =
  emv_model :: string
  emv_summary :: string
  emv_gates :: "enterprise_maturity_gate list"
  emv_capability_tiers :: "enterprise_capability_tier list"
record payroll_scope_view =
  psv_tenant_id :: string
  psv_tenant_name :: string
  psv_affiliate :: string
  psv_workplace :: string
  psv_period :: string
  psv_configured :: bool
record readiness_card_view =
  rcv_id :: string
  rcv_title :: string
  rcv_value :: string
  rcv_detail :: string
  rcv_tone :: string
  rcv_source :: string
record payroll_work_step_view =
  wsv_id :: string
  wsv_status :: string
  wsv_tone :: string
  wsv_owner :: string
  wsv_action :: string
  wsv_target :: string
record payroll_workstream_view =
  pwv_period_label :: string
  pwv_status :: string
  pwv_tone :: string
  pwv_current_step_id :: string
  pwv_steps :: "payroll_work_step_view list"
record platform_work_item =
  pwi_id :: string
  pwi_title :: string
  pwi_owner :: string
  pwi_status :: string
  pwi_next_step :: string
  pwi_target :: string
  pwi_tone :: string
record payroll_operations_view =
  pov_scope :: payroll_scope_view
  pov_health :: health_response
  pov_readiness :: readiness_response
  pov_readiness_cards :: "readiness_card_view list"
  pov_workstream :: payroll_workstream_view
  pov_next_actions :: "platform_work_item list"
record platform_live_view =
  plv_schema :: string
  plv_source :: platform_source
  plv_session :: platform_session_view
  plv_navigation :: "platform_navigation_item list"
  plv_enterprise :: enterprise_maturity_view
  plv_payroll :: payroll_operations_view
  plv_work_queue :: "platform_work_item list"
definition platform_view_schema :: string where
  "platform_view_schema = ''bitween.platform.live.v1''"
definition platform_view_endpoint :: string where
  "platform_view_endpoint = ''/api/platform/v1/view-model''"
section \<open>Labels\<close>
fun tone_for_state :: "readiness_state \<Rightarrow> string" where
  "tone_for_state Ready = ''ready''"
| "tone_for_state Degraded = ''attention''"
| "tone_for_state NotReady = ''blocked''"
definition status_for :: "bool \<Rightarrow> string \<Rightarrow> string \<Rightarrow> string \<times> string" where
  "status_for is_ready ready_label not_ready_label =
     (if is_ready then (ready_label, ''ready'')
      else if not_ready_label = ''Blocked'' then (not_ready_label, ''blocked'')
      else (not_ready_label, ''attention''))"
text \<open>The separator is a middle dot between spaces, two bytes in UTF-8.\<close>
definition middle_dot :: string where
  "middle_dot = '' '' @ [CHR 0xC2, CHR 0xB7] @ '' ''"
definition scope_label :: "payroll_scope_view \<Rightarrow> string" where
  "scope_label scope =
     (if psv_configured scope
      then psv_affiliate scope @ middle_dot @ psv_workplace scope @ middle_dot @ psv_period scope
      else ''Payroll scope not configured'')"
definition blank_label :: "string \<Rightarrow> string \<Rightarrow> string" where
  "blank_label label default_value = (if trim label = [] then default_value else label)"
definition session_mode :: "u64 \<Rightarrow> platform_live_config \<Rightarrow> string" where
  "session_mode now config =
     (if session_authenticated now config then ''authenticated''
      else if plc_auth_provider_configured config then ''auth_required''
      else ''local_readonly'')"
definition session_role :: "u64 \<Rightarrow> platform_live_config \<Rightarrow> string" where
  "session_role now config =
     (if session_authenticated now config
      then blank_label (plc_session_actor_role config) ''operations_operator''
      else ''unauthenticated'')"
definition readiness_value :: "readiness_check \<Rightarrow> string" where
  "readiness_value check =
     (case rdc_state check of
        Ready \<Rightarrow> ''Ready''
      | Degraded \<Rightarrow> if rdc_required check then ''Needs attention'' else ''Degraded''
      | NotReady \<Rightarrow> ''Blocked'')"
definition readiness_detail :: "readiness_check \<Rightarrow> payroll_scope_view \<Rightarrow> string" where
  "readiness_detail check scope =
     (if rdc_name check = ''tenant_scope'' \<and> psv_configured scope
      then psv_affiliate scope @ '' / '' @ psv_workplace scope @ '' / '' @ psv_period scope
      else rdc_message check)"
definition readiness_card_id :: "string \<Rightarrow> string" where
  "readiness_card_id name =
     (if name = ''rust_payroll_api'' then ''rust-api''
      else if name = ''rust_execution_backend'' then ''rust-execution''
      else if name = ''tenant_scope'' then ''tenant-scope''
      else if name = ''auth_provider'' then ''auth-provider''
      else if name = ''archive_storage'' then ''archive-storage''
      else ''readiness-check'')"
definition readiness_card_title :: "string \<Rightarrow> string" where
  "readiness_card_title name =
     (if name = ''rust_payroll_api'' then ''Rust payroll API''
      else if name = ''rust_execution_backend'' then ''Rust execution backend''
      else if name = ''tenant_scope'' then ''Tenant scope''
      else if name = ''auth_provider'' then ''Authentication''
      else if name = ''archive_storage'' then ''Evidence archive''
      else ''Readiness check'')"
definition navigation :: "platform_navigation_item list" where
  "navigation =
     [\<lparr>pni_id = ''home'',
       pni_label = ''Operations'',
       pni_purpose = ''Start from the current payroll period and the next role-owned workflow step.''\<rparr>,
      \<lparr>pni_id = ''hr'',
       pni_label = ''HR'',
       pni_purpose = ''Close people, attendance, and HR source inputs before payroll calculation.''\<rparr>,
      \<lparr>pni_id = ''payroll'',
       pni_label = ''Payroll'',
       pni_purpose = ''Run the payroll close workflow for the selected tenant, workplace, and period.''\<rparr>,
      \<lparr>pni_id = ''workflow'',
       pni_label = ''Workflow'',
       pni_purpose = ''Visualize and govern corporate workflow logic, routing, timeouts, and automation.''\<rparr>,
      \<lparr>pni_id = ''approval'',
       pni_label = ''Approvals'',
       pni_purpose = ''Review, sign, approve, reject, and circulate documents that require formal approval.''\<rparr>,
      \<lparr>pni_id = ''archive'',
       pni_label = ''Archive'',
       pni_purpose = ''Prepare payout evidence and archive payroll records.''\<rparr>,
      \<lparr>pni_id = ''admin'',
       pni_label = ''Admin'',
       pni_purpose = ''Configure tenant, auth, scope, and operating prerequisites.''\<rparr>]"
section \<open>Scope, readiness and next actions\<close>
definition scope_view :: "platform_live_config \<Rightarrow> payroll_scope_view" where
  "scope_view config =
     \<lparr>psv_tenant_id = plc_tenant_id config, psv_tenant_name = plc_tenant_name config,
      psv_affiliate = plc_affiliate config, psv_workplace = plc_workplace config,
      psv_period = plc_period config, psv_configured = scope_configured config\<rparr>"
definition readiness_checks :: "platform_live_config \<Rightarrow> readiness_check list" where
  "readiness_checks config =
     [check_ready ''rust_payroll_api'' ''Rust payroll service initialized and available.'',
      check_ready ''rust_execution_backend'' ''Execution planning is owned by bitween-payroll-api Rust contracts.'',
      (if scope_configured config
       then check_ready ''tenant_scope'' ''Tenant, affiliate, workplace, and payroll period are configured.''
       else check_not_ready ''tenant_scope''
         ''Set BITWEEN_TENANT_ID, BITWEEN_TENANT_NAME, BITWEEN_PAYROLL_AFFILIATE, BITWEEN_PAYROLL_WORKPLACE, and BITWEEN_PAYROLL_PERIOD.''),
      (if plc_auth_provider_configured config
       then check_ready ''auth_provider'' ''Production auth provider is configured.''
       else check_not_ready ''auth_provider''
         ''Configure production SSO/session provider before enabling authenticated payroll actions.''),
      (if plc_archive_configured config
       then check_ready ''archive_storage'' ''Payroll evidence archive storage is configured.''
       else check_degraded ''archive_storage''
         ''Evidence archive storage is not configured; read-only readiness remains available.'')]"
definition readiness_cards :: "readiness_response \<Rightarrow> payroll_scope_view \<Rightarrow> readiness_card_view list" where
  "readiness_cards readiness scope =
     map (\<lambda>check. \<lparr>rcv_id = readiness_card_id (rdc_name check),
                   rcv_title = readiness_card_title (rdc_name check),
                   rcv_value = readiness_value check, rcv_detail = readiness_detail check scope,
                   rcv_tone = tone_for_state (rdc_state check), rcv_source = ''crates/payroll-api''\<rparr>)
       (rdr_checks readiness)"
definition work_item_for_check :: "readiness_check \<Rightarrow> payroll_scope_view \<Rightarrow> platform_work_item" where
  "work_item_for_check check scope =
     (if rdc_name check = ''tenant_scope'' then
      \<lparr>pwi_id = ''set-payroll-scope'',
       pwi_title = ''Set payroll scope'',
       pwi_owner = ''IT/security admin'',
       pwi_status = readiness_value check,
       pwi_next_step = ''Confirm legal entity, workplace, and payroll period for this run.'',
       pwi_target = ''admin'',
       pwi_tone = tone_for_state (rdc_state check)\<rparr>
      else if rdc_name check = ''auth_provider'' then
      \<lparr>pwi_id = ''complete-access-setup'',
       pwi_title = ''Complete access setup'',
       pwi_owner = ''IT/security admin'',
       pwi_status = readiness_value check,
       pwi_next_step = ''Confirm role access and sign-in policy before payroll actions are enabled.'',
       pwi_target = ''admin'',
       pwi_tone = tone_for_state (rdc_state check)\<rparr>
      else if rdc_name check = ''archive_storage'' then
      \<lparr>pwi_id = ''confirm-payroll-archive'',
       pwi_title = ''Confirm payroll archive'',
       pwi_owner = ''Payroll operations'',
       pwi_status = readiness_value check,
       pwi_next_step = ''Confirm payroll output storage and access before outputs are created.'',
       pwi_target = ''archive'',
       pwi_tone = tone_for_state (rdc_state check)\<rparr>
      else
      \<lparr>pwi_id = ''review-payroll-blocker'',
       pwi_title = ''Review payroll blocker'',
       pwi_owner = ''Finance operator'',
       pwi_status = readiness_value check,
       pwi_next_step = (if psv_configured scope
           then ''Review the blocked payroll input and assign the owner.''
           else ''Configure the payroll scope before resolving downstream blockers.''),
       pwi_target = ''payroll'',
       pwi_tone = tone_for_state (rdc_state check)\<rparr>)"
definition platform_next_actions :: "readiness_response \<Rightarrow> payroll_scope_view \<Rightarrow> platform_work_item list" where
  "platform_next_actions readiness scope =
     (let items = map (\<lambda>check. work_item_for_check check scope)
                    (filter (\<lambda>check. rdc_state check \<noteq> Ready) (rdr_checks readiness)) in
      if items = [] then
        [\<lparr>pwi_id = ''confirm-payroll-close'', pwi_title = ''Confirm payroll close'', pwi_owner = ''Finance operator'',
          pwi_status = ''Ready'',
          pwi_next_step = ''Check current-period payroll inputs and exceptions before calculation.'',
          pwi_target = ''payroll'', pwi_tone = ''ready''\<rparr>]
      else items)"
section \<open>The month's work\<close>
definition sequential_status :: "bool \<Rightarrow> bool \<Rightarrow> string \<times> string" where
  "sequential_status finished available =
     (if finished then (''completed'', ''ready'')
      else if available then (''ready'', ''attention'')
      else (''waiting'', ''neutral''))"
definition payroll_work_step ::
    "string \<Rightarrow> string \<times> string \<Rightarrow> string \<Rightarrow> string \<Rightarrow> string \<Rightarrow> payroll_work_step_view" where
  "payroll_work_step step_id status_tone owner action target =
     \<lparr>wsv_id = step_id, wsv_status = fst status_tone, wsv_tone = snd status_tone, wsv_owner = owner,
      wsv_action = action, wsv_target = target\<rparr>"
definition workstream_steps :: "platform_live_config \<Rightarrow> payroll_scope_view \<Rightarrow> payroll_work_step_view list" where
  "workstream_steps config scope =
     (let scope_ready = psv_configured scope;
          auth_ready = plc_auth_provider_configured config;
          platform_ready_for_work = scope_ready \<and> auth_ready;
          attendance = sequential_status (plc_attendance_closed config) platform_ready_for_work;
          inputs = sequential_status (plc_payroll_inputs_closed config)
            (platform_ready_for_work \<and> plc_attendance_closed config);
          deductions = sequential_status (plc_deductions_reviewed config)
            (platform_ready_for_work \<and> plc_attendance_closed config \<and> plc_payroll_inputs_closed config);
          calculation = sequential_status (plc_payroll_calculated config)
            (platform_ready_for_work \<and> plc_attendance_closed config \<and> plc_payroll_inputs_closed config
             \<and> plc_deductions_reviewed config);
          approval_available = (platform_ready_for_work \<and> plc_attendance_closed config
            \<and> plc_payroll_inputs_closed config \<and> plc_deductions_reviewed config \<and> plc_payroll_calculated config);
          approval =
            (if plc_approval_requested config then (''completed'', ''ready'')
             else if approval_available \<and> \<not> plc_workflow_template_configured config then (''blocked'', ''blocked'')
             else sequential_status (plc_approval_requested config) approval_available);
          payout = sequential_status (plc_payout_prepared config)
            (approval_available \<and> plc_workflow_template_configured config \<and> plc_approval_requested config);
          archive_available = (approval_available \<and> plc_workflow_template_configured config
            \<and> plc_approval_requested config \<and> plc_payout_prepared config);
          archive =
            (if plc_payroll_evidence_archived config then (''completed'', ''ready'')
             else if archive_available \<and> \<not> plc_archive_configured config then (''blocked'', ''blocked'')
             else sequential_status (plc_payroll_evidence_archived config) archive_available)
      in (if scope_ready then []
          else [payroll_work_step ''set-payroll-scope'' (''blocked'', ''blocked'') ''payroll-admin'' ''set-scope'' ''admin''])
         @ (if auth_ready then []
            else [payroll_work_step ''configure-access'' (''blocked'', ''blocked'') ''it-admin'' ''configure-access'' ''admin''])
         @ [payroll_work_step ''close-attendance'' attendance ''hr-operator'' ''close-attendance'' ''hr'',
            payroll_work_step ''close-payroll-inputs'' inputs ''payroll-operator'' ''close-inputs'' ''payroll'',
            payroll_work_step ''review-deductions'' deductions ''payroll-operator'' ''review-deductions'' ''payroll'',
            payroll_work_step ''run-calculation'' calculation ''payroll-operator'' ''run-calculation'' ''payroll'',
            payroll_work_step ''request-approval'' approval ''payroll-operator'' ''request-approval'' ''approval'',
            payroll_work_step ''prepare-payout'' payout ''payroll-operator'' ''prepare-payout'' ''archive'',
            payroll_work_step ''archive-payroll-evidence'' archive ''payroll-operator'' ''archive-evidence'' ''archive''])"
definition payroll_workstream ::
    "platform_live_config \<Rightarrow> readiness_response \<Rightarrow> payroll_scope_view \<Rightarrow> payroll_workstream_view" where
  "payroll_workstream config readiness scope =
     (let platform_blocked =
            list_ex (\<lambda>check. rdc_required check \<and> rdc_state check = NotReady) (rdr_checks readiness);
          steps = workstream_steps config scope;
          current_step_id = unwrap_or ''archive-payroll-evidence''
            (map_option wsv_id (find_first (\<lambda>s. wsv_status s \<noteq> ''completed'') steps));
          current_tone = unwrap_or ''ready''
            (map_option wsv_tone (find_first (\<lambda>s. wsv_id s = current_step_id) steps));
          all_completed = list_all (\<lambda>s. wsv_status s = ''completed'') steps;
          status_tone =
            (if all_completed then (''completed'', ''ready'')
             else if platform_blocked \<or> current_tone = ''blocked'' then (''blocked'', ''blocked'')
             else if current_tone = ''attention'' then (''ready'', ''attention'')
             else (''waiting'', ''neutral''))
      in \<lparr>pwv_period_label = scope_label scope, pwv_status = fst status_tone, pwv_tone = snd status_tone,
          pwv_current_step_id = current_step_id, pwv_steps = steps\<rparr>)"
section \<open>Enterprise gates and capability tiers\<close>
definition operating_bar_ready :: "platform_live_config \<Rightarrow> readiness_response \<Rightarrow> bool" where
  "operating_bar_ready config readiness \<longleftrightarrow>
     rdr_ready readiness \<and> plc_ontology_projection_configured config \<and> plc_workflow_template_configured config
     \<and> plc_compliance_pack_configured config \<and> plc_observability_configured config
     \<and> plc_finops_configured config \<and> plc_support_runbook_configured config"
definition enterprise_gates ::
    "platform_live_config \<Rightarrow> readiness_response \<Rightarrow> payroll_scope_view \<Rightarrow> platform_work_item list
     \<Rightarrow> enterprise_maturity_gate list" where
  "enterprise_gates config readiness scope work_items =
     (let scope_st = status_for (psv_configured scope) ''Ready'' ''Blocked'';
          auth_st = status_for (plc_auth_provider_configured config) ''Ready'' ''Blocked'';
          archive_st = status_for (plc_archive_configured config) ''Ready'' ''Needs evidence storage'';
          operating_st = status_for (operating_bar_ready config readiness) ''Ready'' ''Needs operating bar'' in
     [\<lparr>emg_id = ''tenant-boundary'',
       emg_title = ''Tenant and legal-entity boundary'',
       emg_status = fst scope_st,
       emg_tone = snd scope_st,
       emg_owner = ''IT/security admin'',
       emg_evidence = (if psv_configured scope
           then scope_label scope
           else ''Tenant, legal entity, workplace, and period are not fully configured.''),
       emg_next_step = ''Keep tenant scope visible before any payroll action.'',
       emg_source = ''crates/payroll-api''\<rparr>,
      \<lparr>emg_id = ''policy-permission-boundary'',
       emg_title = ''Policy and permission boundary'',
       emg_status = fst auth_st,
       emg_tone = snd auth_st,
       emg_owner = ''IT/security admin'',
       emg_evidence = (if plc_auth_provider_configured config
           then ''Production auth provider flag is enabled for the live shell.''
           else ''SSO/session provider is required before authenticated payroll actions can run.''),
       emg_next_step = ''Wire tenant SSO/session claims into Rust authorization before enabling write actions.'',
       emg_source = ''crates/payroll-api''\<rparr>,
      \<lparr>emg_id = ''rust-contract-source'',
       emg_title = ''Rust source contract'',
       emg_status = ''Ready'',
       emg_tone = ''ready'',
       emg_owner = ''Payroll platform engineering'',
       emg_evidence = payroll_rust_native_executor,
       emg_next_step = ''Keep runtime payloads owned by Rust contracts and fail closed on contract drift.'',
       emg_source = ''crates/payroll-api''\<rparr>,
      \<lparr>emg_id = ''evidence-audit-archive'',
       emg_title = ''Evidence and audit archive'',
       emg_status = fst archive_st,
       emg_tone = snd archive_st,
       emg_owner = ''Payroll operations'',
       emg_evidence = (if plc_archive_configured config
           then ''Evidence archive storage is configured for payroll outputs.''
           else ''Read-only readiness is available, but output evidence storage is not configured.''),
       emg_next_step = ''Connect archive storage before payroll execution produces regulated evidence.'',
       emg_source = ''crates/payroll-api''\<rparr>,
      \<lparr>emg_id = ''owner-action-loop'',
       emg_title = ''Owner and next-action loop'',
       emg_status = (if work_items = [] then ''Blocked'' else ''Ready''),
       emg_tone = (if work_items = [] then ''blocked'' else ''ready''),
       emg_owner = ''Finance operator'',
       emg_evidence = show_nat (length work_items) @ '' live work item(s) emitted from readiness checks.'',
       emg_next_step = ''Every non-ready prerequisite must name an owner, target surface, and next action.'',
       emg_source = ''crates/payroll-api''\<rparr>,
      \<lparr>emg_id = ''enterprise-operating-bar'',
       emg_title = ''Enterprise operating bar'',
       emg_status = fst operating_st,
       emg_tone = snd operating_st,
       emg_owner = ''Product and platform leadership'',
       emg_evidence = ''Capability-tier checklist covers permits, ontology, workflow, UX, compliance, observability, cost, import, and runbook evidence.'',
       emg_next_step = ''Close non-ready capability tiers before claiming production-grade enterprise maturity.'',
       emg_source = ''DESIGN.md''\<rparr>])"
text \<open>The tiers, in the two halves of the source's list.\<close>
definition foundation_tiers ::
    "platform_live_config \<Rightarrow> payroll_scope_view \<Rightarrow> platform_work_item list \<Rightarrow> enterprise_capability_tier list" where
  "foundation_tiers config scope work_items =
     (let permit_st = status_for (plc_auth_provider_configured config) ''Ready'' ''Blocked'';
          ontology_st = status_for (plc_ontology_projection_configured config) ''Ready'' ''Needs contract'';
          workflow_st = status_for (plc_workflow_template_configured config) ''Ready'' ''Needs workflow'';
          compliance_st = status_for (plc_compliance_pack_configured config) ''Ready'' ''Needs pack'' in
     [\<lparr>ect_id = ''permit-set'',
       ect_title = ''Permit set'',
       ect_status = fst permit_st,
       ect_tone = snd permit_st,
       ect_artifact = ''tenant role and payroll action policy'',
       ect_owner = ''IT/security admin'',
       ect_evidence = (if plc_auth_provider_configured config
           then ''Auth provider is configured for tenant-scoped policy checks.''
           else ''Role-specific payroll actions remain blocked until SSO/session claims are wired.''),
       ect_next_step = ''Bind tenant, actor, role, workplace, and action claims to Rust authorization.'',
       ect_source = ''crates/payroll-api''\<rparr>,
      \<lparr>ect_id = ''ontology-projection'',
       ect_title = ''Ontology projection'',
       ect_status = fst ontology_st,
       ect_tone = snd ontology_st,
       ect_artifact = ''tenant, affiliate, workplace, period, worker, payroll run'',
       ect_owner = ''Payroll platform engineering'',
       ect_evidence = (if psv_configured scope
           then scope_label scope
           else ''Scope objects are not fully configured.''),
       ect_next_step = ''Publish versioned payroll object and relationship contracts for cross-surface use.'',
       ect_source = ''DESIGN.md''\<rparr>,
      \<lparr>ect_id = ''workflow-template'',
       ect_title = ''Workflow template'',
       ect_status = fst workflow_st,
       ect_tone = snd workflow_st,
       ect_artifact = ''corporate workflow template and approval handoff contract'',
       ect_owner = ''Finance operator'',
       ect_evidence = show_nat (length work_items) @ '' readiness work item(s) are available in the live shell.'',
       ect_next_step = ''Keep approval signing separate from workflow logic, timeout, escalation, and replayable automation contracts.'',
       ect_source = ''crates/payroll-api''\<rparr>,
      \<lparr>ect_id = ''ux-shell-manifest'',
       ect_title = ''UX shell manifest'',
       ect_status = ''Ready'',
       ect_tone = ''ready'',
       ect_artifact = ''platform navigation and surface purpose manifest'',
       ect_owner = ''Product design'',
       ect_evidence = ''Navigation and purposes are emitted by the Rust platform live view.'',
       ect_next_step = ''Keep surfaces generated from live capabilities rather than hardcoded product sprawl.'',
       ect_source = ''crates/payroll-api''\<rparr>,
      \<lparr>ect_id = ''compliance-pack-overlay'',
       ect_title = ''Compliance pack overlay'',
       ect_status = fst compliance_st,
       ect_tone = snd compliance_st,
       ect_artifact = ''Korean payroll, labor, social-insurance evidence pack'',
       ect_owner = ''Compliance owner'',
       ect_evidence = (if plc_compliance_pack_configured config
           then ''Compliance pack flag is configured for the live shell.''
           else ''Regional compliance pack and effective-date policy are not yet declared.''),
       ect_next_step = ''Map payroll readiness to effective-date rules, retention, legal hold, and audit export evidence.'',
       ect_source = ''DESIGN.md''\<rparr>])"
definition operation_tiers :: "platform_live_config \<Rightarrow> enterprise_capability_tier list" where
  "operation_tiers config =
     (let observability_ready = (plc_observability_configured config \<and> plc_archive_configured config);
          observability_st = status_for observability_ready ''Ready'' ''Needs telemetry'';
          finops_st = status_for (plc_finops_configured config) ''Ready'' ''Needs cost model'';
          import_st = (if plc_import_plan_declared config then (''Ready'', ''ready'') else (''Future work'', ''neutral''));
          runbook_st = status_for (plc_support_runbook_configured config) ''Ready'' ''Needs runbook'' in
     [\<lparr>ect_id = ''observability-audit-stream'',
       ect_title = ''Observability and audit stream'',
       ect_status = fst observability_st,
       ect_tone = snd observability_st,
       ect_artifact = ''health, readiness, audit, and evidence telemetry'',
       ect_owner = ''SRE/reliability'',
       ect_evidence = (if observability_ready
           then ''Readiness, service health, and archive evidence flags are configured.''
           else ''Readiness and health are visible; telemetry/archive proof still needs production wiring.''),
       ect_next_step = ''Add SLO rows, burn-rate gates, trace correlation, and audit-chain emission for payroll actions.'',
       ect_source = ''crates/payroll-api''\<rparr>,
      \<lparr>ect_id = ''finops-cost-dimension'',
       ect_title = ''FinOps cost dimension'',
       ect_status = fst finops_st,
       ect_tone = snd finops_st,
       ect_artifact = ''tenant, workplace, period, and execution cost allocation'',
       ect_owner = ''Finance operator'',
       ect_evidence = (if plc_finops_configured config
           then ''FinOps cost dimension is configured for the live shell.''
           else ''Cost allocation is not yet declared for payroll execution and evidence storage.''),
       ect_next_step = ''Expose tenant/workplace/period cost labels before paid production execution.'',
       ect_source = ''DESIGN.md''\<rparr>,
      \<lparr>ect_id = ''migration-import-declaration'',
       ect_title = ''Migration/import declaration'',
       ect_status = fst import_st,
       ect_tone = snd import_st,
       ect_artifact = ''legacy payroll data import and decommission backlog'',
       ect_owner = ''Product leadership'',
       ect_evidence = (if plc_import_plan_declared config
           then ''Import/decommission plan is declared as a governed backlog item.''
           else ''Import and legacy-system decommission are tracked as future work while product maturity gates come first.''),
       ect_next_step = ''Keep import/decommission work sequenced after the production shell, readiness, and operating gates.'',
       ect_source = ''docs/PYTHON_DECOMMISSION_INVENTORY.md''\<rparr>,
      \<lparr>ect_id = ''support-runbook-reference'',
       ect_title = ''Support runbook reference'',
       ect_status = fst runbook_st,
       ect_tone = snd runbook_st,
       ect_artifact = ''operations runbook, owner, escalation, and recovery path'',
       ect_owner = ''Customer success and SRE'',
       ect_evidence = (if plc_support_runbook_configured config
           then ''Support runbook flag is configured for the live shell.''
           else ''Runbook, escalation, and recovery links are not yet configured.''),
       ect_next_step = ''Attach customer-support and incident runbooks to each readiness blocker and production action.'',
       ect_source = ''DESIGN.md''\<rparr>])"
definition enterprise_capability_tiers ::
    "platform_live_config \<Rightarrow> payroll_scope_view \<Rightarrow> platform_work_item list \<Rightarrow> enterprise_capability_tier list" where
  "enterprise_capability_tiers config scope work_items =
     foundation_tiers config scope work_items @ operation_tiers config"
definition enterprise_maturity ::
    "platform_live_config \<Rightarrow> readiness_response \<Rightarrow> payroll_scope_view \<Rightarrow> platform_work_item list
     \<Rightarrow> enterprise_maturity_view" where
  "enterprise_maturity config readiness scope work_items =
     (let gates = enterprise_gates config readiness scope work_items;
          ready_gates = length (filter (\<lambda>g. emg_tone g = ''ready'') gates);
          blocked_gates = length (filter (\<lambda>g. emg_tone g = ''blocked'') gates)
      in \<lparr>emv_model = ''unified_enterprise_capability_tier_v1'',
          emv_summary = show_nat ready_gates @ ''/'' @ show_nat (length gates) @ '' enterprise gates ready; ''
            @ show_nat blocked_gates @ '' blockers require owner action.'',
          emv_gates = gates,
          emv_capability_tiers = enterprise_capability_tiers config scope work_items\<rparr>)"
section \<open>The live view\<close>
definition build_platform_live_view ::
    "string \<Rightarrow> u64 \<Rightarrow> u64 \<Rightarrow> platform_live_config \<Rightarrow> platform_live_view" where
  "build_platform_live_view version uptime now config =
     (let health = service_health (plc_service_config config) version uptime;
          scope = scope_view config;
          readiness = service_readiness (plc_service_config config) version (readiness_checks config);
          actions = platform_next_actions readiness scope
      in \<lparr>plv_schema = platform_view_schema,
          plv_source = \<lparr>pso_service = hlr_service health, pso_endpoint = platform_view_endpoint,
            pso_backend = ''rust_native'', pso_executor = payroll_rust_native_executor,
            pso_generated_at_unix = now\<rparr>,
          plv_session = \<lparr>pse_mode = session_mode now config, pse_authenticated = session_authenticated now config,
            pse_tenant_id = blank_label (psv_tenant_id scope) ''unconfigured'',
            pse_tenant_name = blank_label (psv_tenant_name scope) ''Tenant scope not configured'',
            pse_role = session_role now config, pse_scope_label = scope_label scope\<rparr>,
          plv_navigation = navigation,
          plv_enterprise = enterprise_maturity config readiness scope actions,
          plv_payroll = \<lparr>pov_scope = scope, pov_health = health, pov_readiness = readiness,
            pov_readiness_cards = readiness_cards readiness scope,
            pov_workstream = payroll_workstream config readiness scope, pov_next_actions = actions\<rparr>,
          plv_work_queue = actions\<rparr>)"
section \<open>The view and the month\<close>
text \<open>The step that the state of the month calls for, and how far it may go.\<close>
definition open_step :: "platform_live_config \<Rightarrow> string" where
  "open_step config =
     (if \<not> plc_attendance_closed config then ''close-attendance''
      else if \<not> plc_payroll_inputs_closed config then ''close-payroll-inputs''
      else ''review-deductions'')"
definition step_of_month :: "platform_live_config \<Rightarrow> string" where
  "step_of_month config =
     (if \<not> scope_configured config then ''set-payroll-scope''
      else if \<not> plc_auth_provider_configured config then ''configure-access''
      else case payroll_auth_workflow_state config of
        WfOpen \<Rightarrow> open_step config
      | WfInputsClosed \<Rightarrow> ''run-calculation''
      | WfCalculated \<Rightarrow> ''request-approval''
      | WfApprovalPending \<Rightarrow> ''prepare-payout''
      | _ \<Rightarrow> ''archive-payroll-evidence'')"
definition status_of_month :: "platform_live_config \<Rightarrow> string" where
  "status_of_month config =
     (if \<not> scope_configured config \<or> \<not> plc_auth_provider_configured config then ''blocked''
      else case payroll_auth_workflow_state config of
        WfCalculated \<Rightarrow> if plc_workflow_template_configured config then ''ready'' else ''blocked''
      | WfApprovalPending \<Rightarrow> if plc_workflow_template_configured config then ''ready'' else ''waiting''
      | WfApproved \<Rightarrow>
          if \<not> plc_workflow_template_configured config then ''waiting''
          else if plc_archive_configured config then ''ready'' else ''blocked''
      | WfArchived \<Rightarrow> ''completed''
      | _ \<Rightarrow> ''ready'')"
definition view_workstream :: "platform_live_view \<Rightarrow> payroll_workstream_view" where
  "view_workstream view = pov_workstream (plv_payroll view)"
lemma platform_blocked:
  "list_ex (\<lambda>check. rdc_required check \<and> rdc_state check = NotReady) (readiness_checks config)
     = (\<not> scope_configured config \<or> \<not> plc_auth_provider_configured config)"
  by (auto simp: readiness_checks_def check_ready_def check_not_ready_def check_degraded_def)
lemma view_workstream_build:
  "view_workstream (build_platform_live_view version uptime now config) =
     payroll_workstream config
       (service_readiness (plc_service_config config) version (readiness_checks config)) (scope_view config)"
  by (simp add: view_workstream_def build_platform_live_view_def Let_def)
lemma scope_view_configured: "psv_configured (scope_view config) = scope_configured config"
  by (simp add: scope_view_def)
lemma readiness_checks_of: "rdr_checks (service_readiness sc version checks) = checks"
  by (simp add: service_readiness_def Let_def)
lemmas workstream_eval =
  view_workstream_build payroll_workstream_def workstream_steps_def Let_def sequential_status_def payroll_work_step_def
  readiness_checks_of platform_blocked scope_view_configured
lemma stages_cases:
  assumes "stages_in_order config"
  obtains
    (open_month) "\<not> (plc_payroll_inputs_closed config \<and> plc_attendance_closed config \<and> plc_deductions_reviewed config)"
      "\<not> plc_payroll_calculated config" "\<not> plc_approval_requested config" "\<not> plc_payout_prepared config"
      "\<not> plc_payroll_evidence_archived config"
  | (inputs_closed) "plc_payroll_inputs_closed config" "plc_attendance_closed config" "plc_deductions_reviewed config"
      "\<not> plc_payroll_calculated config" "\<not> plc_approval_requested config" "\<not> plc_payout_prepared config"
      "\<not> plc_payroll_evidence_archived config"
  | (calculated) "plc_payroll_inputs_closed config" "plc_attendance_closed config" "plc_deductions_reviewed config"
      "plc_payroll_calculated config" "\<not> plc_approval_requested config" "\<not> plc_payout_prepared config"
      "\<not> plc_payroll_evidence_archived config"
  | (requested) "plc_payroll_inputs_closed config" "plc_attendance_closed config" "plc_deductions_reviewed config"
      "plc_payroll_calculated config" "plc_approval_requested config" "\<not> plc_payout_prepared config"
      "\<not> plc_payroll_evidence_archived config"
  | (prepared) "plc_payroll_inputs_closed config" "plc_attendance_closed config" "plc_deductions_reviewed config"
      "plc_payroll_calculated config" "plc_approval_requested config" "plc_payout_prepared config"
      "\<not> plc_payroll_evidence_archived config"
  | (archived) "plc_payroll_inputs_closed config" "plc_attendance_closed config" "plc_deductions_reviewed config"
      "plc_payroll_calculated config" "plc_approval_requested config" "plc_payout_prepared config"
      "plc_payroll_evidence_archived config"
  using assms by (auto simp: stages_in_order_def stage_flags_def split: if_splits)
lemma workstream_unready:
  assumes "\<not> (scope_configured config \<and> plc_auth_provider_configured config)"
  shows "pwv_current_step_id (view_workstream (build_platform_live_view version uptime now config)) = step_of_month config
    \<and> pwv_status (view_workstream (build_platform_live_view version uptime now config)) = status_of_month config"
  using assms unfolding view_workstream_build
  by (cases "scope_configured config") (simp_all add: workstream_eval step_of_month_def status_of_month_def)
text \<open>
  C17: The workstream of the view follows the state that the authorisation policy gives the month: when
  the stages are done in order, the current step is the one the state calls for, and its status is
  ready, blocked or waiting as the configuration of the workflow and of the archive has it.
\<close>
theorem workstream_follows_month:
  assumes "stages_in_order config"
  shows "pwv_current_step_id (view_workstream (build_platform_live_view version uptime now config)) = step_of_month config
    \<and> pwv_status (view_workstream (build_platform_live_view version uptime now config)) = status_of_month config"
proof (cases "scope_configured config \<and> plc_auth_provider_configured config")
  case True
  then have ready: "scope_configured config" "plc_auth_provider_configured config" by simp_all
  show ?thesis
    using assms
  proof (cases rule: stages_cases)
    case open_month
    then show ?thesis using ready
      by (auto simp: workstream_eval step_of_month_def status_of_month_def open_step_def
          payroll_auth_workflow_state_def)
  qed (use ready in \<open>simp add: workstream_eval step_of_month_def status_of_month_def
      payroll_auth_workflow_state_def\<close>)+
qed (rule workstream_unready)
definition archived_platform_config :: platform_live_config where
  "archived_platform_config =
     with_payroll_workstream_completed True (with_archive_configured True sample_platform_config)"
theorem workstream_follows_month_witness:
  "pwv_status (view_workstream (build_platform_live_view ''1.0.0'' 0 100 archived_platform_config)) = ''completed''
   \<and> pwv_current_step_id (view_workstream (build_platform_live_view ''1.0.0'' 0 100 sample_platform_config)) = ''run-calculation''"
proof -
  have "stages_in_order archived_platform_config" "stages_in_order sample_platform_config"
    "status_of_month archived_platform_config = ''completed''"
    "step_of_month sample_platform_config = ''run-calculation''" by code_simp+
  then show ?thesis
    using workstream_follows_month[of archived_platform_config "''1.0.0''" 0 100]
      workstream_follows_month[of sample_platform_config "''1.0.0''" 0 100] by simp
qed
lemma non_ready_checks:
  "map rdc_name (filter (\<lambda>check. rdc_state check \<noteq> Ready) (readiness_checks config)) =
     (if scope_configured config then [] else [''tenant_scope''])
     @ (if plc_auth_provider_configured config then [] else [''auth_provider''])
     @ (if plc_archive_configured config then [] else [''archive_storage''])"
  by (simp add: readiness_checks_def check_ready_def check_not_ready_def check_degraded_def)
lemma work_item_ids:
  "map pwi_id (platform_next_actions (service_readiness sc version (readiness_checks config)) scope) =
     (let items = (if scope_configured config then [] else [''set-payroll-scope''])
        @ (if plc_auth_provider_configured config then [] else [''complete-access-setup''])
        @ (if plc_archive_configured config then [] else [''confirm-payroll-archive'']) in
      if items = [] then [''confirm-payroll-close''] else items)"
  by (simp add: platform_next_actions_def Let_def readiness_checks_of readiness_checks_def work_item_for_check_def
      check_ready_def check_not_ready_def check_degraded_def)
text \<open>
  The work queue has one item for each prerequisite that is missing, in their order, and the
  confirmation of the close when none is; so the queue is never empty and the gate of the
  owner-action loop is ready in every view.  The readiness of the view is the worst of the
  prerequisites, the archive alone being optional.
\<close>
theorem work_queue_exact:
  "(let view = build_platform_live_view version uptime now config;
        missing = (if scope_configured config then [] else [''set-payroll-scope''])
          @ (if plc_auth_provider_configured config then [] else [''complete-access-setup''])
          @ (if plc_archive_configured config then [] else [''confirm-payroll-archive'']) in
    map pwi_id (plv_work_queue view) = (if missing = [] then [''confirm-payroll-close''] else missing)
    \<and> map emg_tone (filter (\<lambda>g. emg_id g = ''owner-action-loop'') (emv_gates (plv_enterprise view))) = [''ready'']
    \<and> rdr_state (pov_readiness (plv_payroll view)) =
        (if scope_configured config \<and> plc_auth_provider_configured config
         then if plc_archive_configured config then Ready else Degraded
         else NotReady))"
proof -
  let ?readiness = "service_readiness (plc_service_config config) version (readiness_checks config)"
  let ?actions = "platform_next_actions ?readiness (scope_view config)"
  have ids: "map pwi_id ?actions \<noteq> []" unfolding work_item_ids by (simp add: Let_def)
  then have gate: "map emg_tone (filter (\<lambda>g. emg_id g = ''owner-action-loop'')
      (enterprise_gates config ?readiness (scope_view config) ?actions)) = [''ready'']"
    by (simp add: enterprise_gates_def Let_def)
  have state: "rdr_state ?readiness =
      (if scope_configured config \<and> plc_auth_provider_configured config
       then if plc_archive_configured config then Ready else Degraded else NotReady)"
    by (simp add: service_readiness_def Let_def compute_readiness_state_def platform_blocked)
      (simp add: readiness_checks_def check_ready_def check_not_ready_def check_degraded_def)
  show ?thesis
    using work_item_ids[of "plc_service_config config" version config "scope_view config"] gate state
    by (simp add: build_platform_live_view_def enterprise_maturity_def Let_def)
qed
end
