(* ===== verification/Api_Contract.thy ===== *)
theory Api_Contract
  imports Platform_View Archive_Intake Archive_Sync Hr_Employee_Store User_Preferences Workflow_Template_Store
begin

text \<open>
  The endpoints of the platform, from \<open>crates/payroll-api/src/api_contract.rs\<close>: for each its module,
  method and path, the schemas of its request and answer, the operation that authorises it, the
  boundary that serves it and where it keeps its data.
\<close>

section \<open>Data\<close>

definition auth_routes_schema :: string where
  "auth_routes_schema = ''bitween.auth-routes.v1''"

definition auth_route_action_schema :: string where
  "auth_route_action_schema = ''bitween.auth-route-action.v1''"

definition api_contract_schema :: string where
  "api_contract_schema = ''bitween.api-contract-spine.v1''"

definition api_implementation_live_rust_route :: string where
  "api_implementation_live_rust_route = ''live_rust_route''"

definition api_implementation_live_rust_service :: string where
  "api_implementation_live_rust_service = ''live_rust_service''"

definition api_implementation_configured_identity_route :: string where
  "api_implementation_configured_identity_route = ''configured_identity_route''"

definition api_implementation_contract_locked_pending_route :: string where
  "api_implementation_contract_locked_pending_route = ''contract_locked_pending_route''"

definition no_object_lifecycle :: "string list" where
  "no_object_lifecycle = []"

definition rustfs_original_object_lifecycle :: "string list" where
  "rustfs_original_object_lifecycle =
     [''rustfs_original_object'', ''checksum_sha256'', ''quarantine'', ''human_review'']"

definition rustfs_admission_lifecycle :: "string list" where
  "rustfs_admission_lifecycle = [''human_review'', ''canonical_admission'']"

definition rustfs_recovery_lifecycle :: "string list" where
  "rustfs_recovery_lifecycle = [''rustfs_original_object'', ''checksum_sha256'', ''row_level_recovery'']"

definition rustfs_source_sync_lifecycle :: "string list" where
  "rustfs_source_sync_lifecycle = [''rustfs_original_object'', ''checksum_sha256'', ''source_file_sync'']"

record api_endpoint_contract =
  aec_module :: string
  aec_method :: string
  aec_path :: string
  aec_request_schema :: string
  aec_response_schema :: string
  aec_auth_operation :: string
  aec_rust_boundary :: string
  aec_persistence_contract :: string
  aec_object_lifecycle :: "string list"
  aec_implementation_state :: string

section \<open>The endpoints\<close>

text \<open>The table of the source, module by module.\<close>

definition platform_endpoints :: "api_endpoint_contract list" where
  "platform_endpoints =
     [\<lparr>aec_module = ''platform'',
       aec_method = ''GET'',
       aec_path = ''/api/platform/v1/view-model'',
       aec_request_schema = ''none'',
       aec_response_schema = platform_view_schema,
       aec_auth_operation = ''read_workspace'',
       aec_rust_boundary = ''platform_live_view'',
       aec_persistence_contract = ''read-only runtime view; PostgreSQL-backed modules feed the view-model'',
       aec_object_lifecycle = no_object_lifecycle,
       aec_implementation_state = api_implementation_live_rust_route\<rparr>]"

definition hr_endpoints :: "api_endpoint_contract list" where
  "hr_endpoints =
     [\<lparr>aec_module = ''hr'',
       aec_method = ''GET'',
       aec_path = ''/api/hr/v1/employees'',
       aec_request_schema = ''bitween.hr.employee-query.v1'',
       aec_response_schema = hr_employee_store_schema,
       aec_auth_operation = ''hr_employee_read'',
       aec_rust_boundary = ''hr_employee_store'',
       aec_persistence_contract = ''bitween.hr.postgres.v1'',
       aec_object_lifecycle = no_object_lifecycle,
       aec_implementation_state = api_implementation_live_rust_route\<rparr>,
      \<lparr>aec_module = ''hr'',
       aec_method = ''POST'',
       aec_path = ''/api/hr/v1/employees'',
       aec_request_schema = ''bitween.hr.employee-input.v1'',
       aec_response_schema = hr_employee_store_schema,
       aec_auth_operation = ''hr_employee_write'',
       aec_rust_boundary = ''hr_employee_store'',
       aec_persistence_contract = ''bitween.hr.postgres.v1'',
       aec_object_lifecycle = no_object_lifecycle,
       aec_implementation_state = api_implementation_live_rust_route\<rparr>,
      \<lparr>aec_module = ''hr'',
       aec_method = ''PATCH'',
       aec_path = ''/api/hr/v1/employees/{employee_id}'',
       aec_request_schema = ''bitween.hr.employee-patch.v1'',
       aec_response_schema = hr_employee_store_schema,
       aec_auth_operation = ''hr_employee_write'',
       aec_rust_boundary = ''hr_employee_store'',
       aec_persistence_contract = ''bitween.hr.postgres.v1'',
       aec_object_lifecycle = no_object_lifecycle,
       aec_implementation_state = api_implementation_live_rust_route\<rparr>,
      \<lparr>aec_module = ''hr'',
       aec_method = ''DELETE'',
       aec_path = ''/api/hr/v1/employees/{employee_id}'',
       aec_request_schema = ''bitween.hr.employee-delete.v1'',
       aec_response_schema = hr_employee_store_schema,
       aec_auth_operation = ''hr_employee_write'',
       aec_rust_boundary = ''hr_employee_store'',
       aec_persistence_contract = ''bitween.hr.postgres.v1'',
       aec_object_lifecycle = no_object_lifecycle,
       aec_implementation_state = api_implementation_live_rust_route\<rparr>]"

definition payroll_endpoints :: "api_endpoint_contract list" where
  "payroll_endpoints =
     [\<lparr>aec_module = ''payroll'',
       aec_method = ''POST'',
       aec_path = ''/api/payroll/v1/runs'',
       aec_request_schema = ''bitween.payroll.run-request.v1'',
       aec_response_schema = ''bitween.payroll.run-response.v1'',
       aec_auth_operation = ''payroll_run'',
       aec_rust_boundary = ''bitween_payroll_api::PayrollApiService'',
       aec_persistence_contract = ''PostgreSQL run ledger required before production HTTP writes'',
       aec_object_lifecycle = no_object_lifecycle,
       aec_implementation_state = api_implementation_live_rust_service\<rparr>,
      \<lparr>aec_module = ''payroll'',
       aec_method = ''POST'',
       aec_path = ''/api/payroll/v1/runs/validate'',
       aec_request_schema = ''bitween.payroll.run-request.v1'',
       aec_response_schema = ''bitween.payroll.validation-response.v1'',
       aec_auth_operation = ''payroll_run'',
       aec_rust_boundary = ''bitween_payroll_api::PayrollApiService::validate_run_payload'',
       aec_persistence_contract = ''read-only validation; PostgreSQL policy inputs required for production'',
       aec_object_lifecycle = no_object_lifecycle,
       aec_implementation_state = api_implementation_live_rust_service\<rparr>,
      \<lparr>aec_module = ''payroll'',
       aec_method = ''GET'',
       aec_path = ''/api/payroll/v1/run'',
       aec_request_schema = ''none'',
       aec_response_schema = ''bitween.payroll.reconciliation-report.v1'',
       aec_auth_operation = ''payroll_run'',
       aec_rust_boundary = ''bitween_payroll_api::reconcile_period'',
       aec_persistence_contract = ''read-only PostgreSQL payroll_input ledger reconciliation; no writes'',
       aec_object_lifecycle = no_object_lifecycle,
       aec_implementation_state = api_implementation_live_rust_service\<rparr>,
      \<lparr>aec_module = ''payroll'',
       aec_method = ''GET'',
       aec_path = ''/api/payroll/v1/healthz'',
       aec_request_schema = ''none'',
       aec_response_schema = ''bitween.payroll.health.v1'',
       aec_auth_operation = ''public'',
       aec_rust_boundary = ''bitween_payroll_api::PayrollApiService::health'',
       aec_persistence_contract = ''probe-safe; no secret or data persistence'',
       aec_object_lifecycle = no_object_lifecycle,
       aec_implementation_state = api_implementation_live_rust_service\<rparr>,
      \<lparr>aec_module = ''payroll'',
       aec_method = ''GET'',
       aec_path = ''/api/payroll/v1/readiness'',
       aec_request_schema = ''none'',
       aec_response_schema = ''bitween.payroll.readiness.v1'',
       aec_auth_operation = ''read_workspace'',
       aec_rust_boundary = ''bitween_payroll_api::PayrollApiService::readiness'',
       aec_persistence_contract = ''probe-safe readiness with sanitized PostgreSQL/RustFS dependency states'',
       aec_object_lifecycle = no_object_lifecycle,
       aec_implementation_state = api_implementation_live_rust_service\<rparr>]"

definition workflow_endpoints :: "api_endpoint_contract list" where
  "workflow_endpoints =
     [\<lparr>aec_module = ''workflow'',
       aec_method = ''GET'',
       aec_path = ''/api/workflow/v1/templates'',
       aec_request_schema = ''none'',
       aec_response_schema = workflow_template_store_schema,
       aec_auth_operation = ''workflow_template_read'',
       aec_rust_boundary = ''workflow_template_store'',
       aec_persistence_contract = ''bitween.workflow.postgres.v1'',
       aec_object_lifecycle = no_object_lifecycle,
       aec_implementation_state = api_implementation_live_rust_route\<rparr>,
      \<lparr>aec_module = ''workflow'',
       aec_method = ''POST'',
       aec_path = ''/api/workflow/v1/templates/{template_id}/steps'',
       aec_request_schema = ''bitween.workflow.step-input.v1'',
       aec_response_schema = workflow_template_store_schema,
       aec_auth_operation = ''workflow_template_write'',
       aec_rust_boundary = ''workflow_template_store'',
       aec_persistence_contract = ''bitween.workflow.postgres.v1'',
       aec_object_lifecycle = no_object_lifecycle,
       aec_implementation_state = api_implementation_live_rust_route\<rparr>,
      \<lparr>aec_module = ''workflow'',
       aec_method = ''PATCH'',
       aec_path = ''/api/workflow/v1/templates/{template_id}/steps/{step_id}'',
       aec_request_schema = ''bitween.workflow.step-patch.v1'',
       aec_response_schema = workflow_template_store_schema,
       aec_auth_operation = ''workflow_template_write'',
       aec_rust_boundary = ''workflow_template_store'',
       aec_persistence_contract = ''bitween.workflow.postgres.v1'',
       aec_object_lifecycle = no_object_lifecycle,
       aec_implementation_state = api_implementation_live_rust_route\<rparr>,
      \<lparr>aec_module = ''workflow'',
       aec_method = ''DELETE'',
       aec_path = ''/api/workflow/v1/templates/{template_id}/steps/{step_id}'',
       aec_request_schema = ''bitween.workflow.step-delete.v1'',
       aec_response_schema = workflow_template_store_schema,
       aec_auth_operation = ''workflow_template_write'',
       aec_rust_boundary = ''workflow_template_store'',
       aec_persistence_contract = ''bitween.workflow.postgres.v1'',
       aec_object_lifecycle = no_object_lifecycle,
       aec_implementation_state = api_implementation_live_rust_route\<rparr>,
      \<lparr>aec_module = ''workflow'',
       aec_method = ''POST'',
       aec_path = ''/api/workflow/v1/templates/{template_id}/preflights'',
       aec_request_schema = ''bitween.workflow.preflight-request.v1'',
       aec_response_schema = workflow_preflight_schema,
       aec_auth_operation = ''workflow_template_read'',
       aec_rust_boundary = ''workflow_template_store'',
       aec_persistence_contract = ''bitween.workflow.postgres.v1'',
       aec_object_lifecycle = no_object_lifecycle,
       aec_implementation_state = api_implementation_live_rust_route\<rparr>,
      \<lparr>aec_module = ''workflow'',
       aec_method = ''POST'',
       aec_path = ''/api/workflow/v1/templates/{template_id}/steps/{step_id}/validations'',
       aec_request_schema = ''bitween.workflow.step-patch.v1'',
       aec_response_schema = workflow_edit_validation_schema,
       aec_auth_operation = ''workflow_template_write'',
       aec_rust_boundary = ''workflow_template_store'',
       aec_persistence_contract = ''PostgreSQL graph source; dry-run graph validation with no persistence on blocked edits'',
       aec_object_lifecycle = no_object_lifecycle,
       aec_implementation_state = api_implementation_live_rust_route\<rparr>,
      \<lparr>aec_module = ''workflow'',
       aec_method = ''POST'',
       aec_path = ''/api/workflow/v1/templates/{template_id}/steps/{step_id}/executions'',
       aec_request_schema = ''bitween.workflow.execution-request.v1'',
       aec_response_schema = workflow_template_store_schema,
       aec_auth_operation = ''workflow_step_execute'',
       aec_rust_boundary = ''workflow_template_store'',
       aec_persistence_contract = ''bitween.workflow.postgres.v1; workflow runtime events and data records'',
       aec_object_lifecycle = no_object_lifecycle,
       aec_implementation_state = api_implementation_live_rust_route\<rparr>,
      \<lparr>aec_module = ''workflow'',
       aec_method = ''POST'',
       aec_path = ''/api/workflow/v1/templates/{template_id}/rollbacks'',
       aec_request_schema = ''bitween.workflow.rollback-request.v1'',
       aec_response_schema = workflow_template_store_schema,
       aec_auth_operation = ''workflow_template_write'',
       aec_rust_boundary = ''workflow_template_store'',
       aec_persistence_contract = ''bitween.workflow.postgres.v1; text graph versions only, no binary snapshots'',
       aec_object_lifecycle = no_object_lifecycle,
       aec_implementation_state = api_implementation_live_rust_route\<rparr>]"

definition approval_endpoints :: "api_endpoint_contract list" where
  "approval_endpoints =
     [\<lparr>aec_module = ''approval'',
       aec_method = ''GET'',
       aec_path = ''/api/approval/v1/requests'',
       aec_request_schema = ''bitween.approval.queue-query.v1'',
       aec_response_schema = ''bitween.approval.queue.v1'',
       aec_auth_operation = ''read_workspace'',
       aec_rust_boundary = ''approval_request_store'',
       aec_persistence_contract = ''PostgreSQL approval queue tables required before production route enablement'',
       aec_object_lifecycle = no_object_lifecycle,
       aec_implementation_state = api_implementation_contract_locked_pending_route\<rparr>,
      \<lparr>aec_module = ''approval'',
       aec_method = ''POST'',
       aec_path = ''/api/approval/v1/requests/{approval_id}/signatures'',
       aec_request_schema = ''bitween.approval.signature-request.v1'',
       aec_response_schema = ''bitween.approval.signature-receipt.v1'',
       aec_auth_operation = ''approval_signing'',
       aec_rust_boundary = ''approval_signature_service'',
       aec_persistence_contract = ''PostgreSQL approval signatures, audit chain, and WebAuthn evidence required before route enablement'',
       aec_object_lifecycle = no_object_lifecycle,
       aec_implementation_state = api_implementation_contract_locked_pending_route\<rparr>]"

definition archive_endpoints :: "api_endpoint_contract list" where
  "archive_endpoints =
     [\<lparr>aec_module = ''archive'',
       aec_method = ''GET'',
       aec_path = ''/api/archive/v1/intake'',
       aec_request_schema = ''bitween.archive.intake-query.v1'',
       aec_response_schema = archive_intake_store_schema,
       aec_auth_operation = ''archive_read'',
       aec_rust_boundary = ''archive_intake_store'',
       aec_persistence_contract = ''bitween.archive.postgres.v1'',
       aec_object_lifecycle = rustfs_original_object_lifecycle,
       aec_implementation_state = api_implementation_live_rust_route\<rparr>,
      \<lparr>aec_module = ''archive'',
       aec_method = ''POST'',
       aec_path = ''/api/archive/v1/intake'',
       aec_request_schema = ''bitween.archive.file-upload.v1'',
       aec_response_schema = archive_intake_store_schema,
       aec_auth_operation = ''archive_upload'',
       aec_rust_boundary = ''archive_intake_store'',
       aec_persistence_contract = ''bitween.archive.postgres.v1'',
       aec_object_lifecycle = rustfs_original_object_lifecycle,
       aec_implementation_state = api_implementation_live_rust_route\<rparr>,
      \<lparr>aec_module = ''archive'',
       aec_method = ''PATCH'',
       aec_path = ''/api/archive/v1/intake/{intake_id}/issues'',
       aec_request_schema = ''bitween.archive.issue-resolution.v1'',
       aec_response_schema = archive_intake_store_schema,
       aec_auth_operation = ''archive_review'',
       aec_rust_boundary = ''archive_intake_store'',
       aec_persistence_contract = ''bitween.archive.postgres.v1'',
       aec_object_lifecycle = rustfs_admission_lifecycle,
       aec_implementation_state = api_implementation_live_rust_route\<rparr>,
      \<lparr>aec_module = ''archive'',
       aec_method = ''PATCH'',
       aec_path = ''/api/archive/v1/intake/{intake_id}/field-mappings'',
       aec_request_schema = ''bitween.archive.field-mapping-input.v1'',
       aec_response_schema = archive_intake_store_schema,
       aec_auth_operation = ''archive_review'',
       aec_rust_boundary = ''archive_intake_store::map-fields'',
       aec_persistence_contract = ''bitween.archive.postgres.v1; append-only review/audit event plus reusable field mapping template keyed by source fingerprint'',
       aec_object_lifecycle = rustfs_admission_lifecycle,
       aec_implementation_state = api_implementation_live_rust_route\<rparr>,
      \<lparr>aec_module = ''archive'',
       aec_method = ''POST'',
       aec_path = ''/api/archive/v1/intake/{intake_id}/admissions'',
       aec_request_schema = ''bitween.archive.admission-request.v1'',
       aec_response_schema = archive_intake_store_schema,
       aec_auth_operation = ''archive_admit'',
       aec_rust_boundary = ''archive_intake_store'',
       aec_persistence_contract = ''bitween.archive.postgres.v1; canonical HR/payroll row admission after human review'',
       aec_object_lifecycle = rustfs_admission_lifecycle,
       aec_implementation_state = api_implementation_live_rust_route\<rparr>,
      \<lparr>aec_module = ''archive'',
       aec_method = ''POST'',
       aec_path = ''/api/archive/v1/intake/{intake_id}/rollbacks'',
       aec_request_schema = ''bitween.archive.rollback-request.v1'',
       aec_response_schema = archive_intake_store_schema,
       aec_auth_operation = ''archive_rollback'',
       aec_rust_boundary = ''archive_intake_store'',
       aec_persistence_contract = ''bitween.archive-rollback.postgres.v1'',
       aec_object_lifecycle = rustfs_recovery_lifecycle,
       aec_implementation_state = api_implementation_live_rust_route\<rparr>,
      \<lparr>aec_module = ''archive'',
       aec_method = ''POST'',
       aec_path = ''/api/archive/v1/intake/{intake_id}/source-syncs'',
       aec_request_schema = ''bitween.archive.source-sync-request.v1'',
       aec_response_schema = archive_source_sync_plan_schema,
       aec_auth_operation = ''archive_sync'',
       aec_rust_boundary = ''archive_intake_store'',
       aec_persistence_contract = ''bitween.archive.postgres.v1; linked source-file version plan'',
       aec_object_lifecycle = rustfs_source_sync_lifecycle,
       aec_implementation_state = api_implementation_live_rust_route\<rparr>]"

definition settings_endpoints :: "api_endpoint_contract list" where
  "settings_endpoints =
     [\<lparr>aec_module = ''settings'',
       aec_method = ''GET'',
       aec_path = ''/api/settings/v1/preferences'',
       aec_request_schema = ''none'',
       aec_response_schema = user_preference_store_schema,
       aec_auth_operation = ''read_workspace'',
       aec_rust_boundary = ''user_preference_store'',
       aec_persistence_contract = ''bitween.settings.postgres.v1'',
       aec_object_lifecycle = no_object_lifecycle,
       aec_implementation_state = api_implementation_live_rust_route\<rparr>,
      \<lparr>aec_module = ''settings'',
       aec_method = ''PUT'',
       aec_path = ''/api/settings/v1/preferences'',
       aec_request_schema = ''bitween.settings.preference-update.v1'',
       aec_response_schema = user_preference_store_schema,
       aec_auth_operation = ''user_preference_update'',
       aec_rust_boundary = ''user_preference_store'',
       aec_persistence_contract = ''bitween.settings.postgres.v1'',
       aec_object_lifecycle = no_object_lifecycle,
       aec_implementation_state = api_implementation_live_rust_route\<rparr>]"

definition auth_endpoints :: "api_endpoint_contract list" where
  "auth_endpoints =
     [\<lparr>aec_module = ''auth'',
       aec_method = ''GET'',
       aec_path = ''/api/auth/v1/routes'',
       aec_request_schema = ''none'',
       aec_response_schema = auth_routes_schema,
       aec_auth_operation = ''public'',
       aec_rust_boundary = ''auth_route_config'',
       aec_persistence_contract = ''server-side configured identity and onboarding routes only'',
       aec_object_lifecycle = no_object_lifecycle,
       aec_implementation_state = api_implementation_configured_identity_route\<rparr>,
      \<lparr>aec_module = ''auth'',
       aec_method = ''GET'',
       aec_path = ''/api/auth/v1/signin'',
       aec_request_schema = ''none'',
       aec_response_schema = auth_route_action_schema,
       aec_auth_operation = ''public'',
       aec_rust_boundary = ''auth_route_config'',
       aec_persistence_contract = ''server-side configured identity provider redirect'',
       aec_object_lifecycle = no_object_lifecycle,
       aec_implementation_state = api_implementation_configured_identity_route\<rparr>,
      \<lparr>aec_module = ''auth'',
       aec_method = ''GET'',
       aec_path = ''/api/auth/v1/signup'',
       aec_request_schema = ''none'',
       aec_response_schema = auth_route_action_schema,
       aec_auth_operation = ''public'',
       aec_rust_boundary = ''auth_route_config'',
       aec_persistence_contract = ''server-side configured access-request route'',
       aec_object_lifecycle = no_object_lifecycle,
       aec_implementation_state = api_implementation_configured_identity_route\<rparr>,
      \<lparr>aec_module = ''auth'',
       aec_method = ''GET'',
       aec_path = ''/api/onboarding/v1/start'',
       aec_request_schema = ''none'',
       aec_response_schema = auth_route_action_schema,
       aec_auth_operation = ''public'',
       aec_rust_boundary = ''auth_route_config'',
       aec_persistence_contract = ''server-side configured onboarding route'',
       aec_object_lifecycle = no_object_lifecycle,
       aec_implementation_state = api_implementation_configured_identity_route\<rparr>,
      \<lparr>aec_module = ''auth'',
       aec_method = ''POST'',
       aec_path = ''/api/auth/v1/signout'',
       aec_request_schema = ''none'',
       aec_response_schema = auth_route_action_schema,
       aec_auth_operation = ''read_workspace'',
       aec_rust_boundary = ''auth_route_config'',
       aec_persistence_contract = ''same-origin protected server-side configured identity provider sign-out route'',
       aec_object_lifecycle = no_object_lifecycle,
       aec_implementation_state = api_implementation_configured_identity_route\<rparr>]"

definition admin_endpoints :: "api_endpoint_contract list" where
  "admin_endpoints =
     [\<lparr>aec_module = ''admin'',
       aec_method = ''GET'',
       aec_path = ''/api/admin/v1/tenants/{tenant_id}/access'',
       aec_request_schema = ''bitween.admin.access-query.v1'',
       aec_response_schema = ''bitween.admin.access-policy.v1'',
       aec_auth_operation = ''tenant_destructive_change'',
       aec_rust_boundary = ''admin_access_policy_store'',
       aec_persistence_contract = ''PostgreSQL tenant/legal/workplace access policy tables required before route enablement'',
       aec_object_lifecycle = no_object_lifecycle,
       aec_implementation_state = api_implementation_contract_locked_pending_route\<rparr>,
      \<lparr>aec_module = ''admin'',
       aec_method = ''PATCH'',
       aec_path = ''/api/admin/v1/tenants/{tenant_id}/access/{principal_id}'',
       aec_request_schema = ''bitween.admin.access-policy-patch.v1'',
       aec_response_schema = ''bitween.admin.access-policy.v1'',
       aec_auth_operation = ''tenant_destructive_change'',
       aec_rust_boundary = ''admin_access_policy_store'',
       aec_persistence_contract = ''PostgreSQL tenant/legal/workplace access policy audit tables required before route enablement'',
       aec_object_lifecycle = no_object_lifecycle,
       aec_implementation_state = api_implementation_contract_locked_pending_route\<rparr>]"

definition api_endpoint_contracts :: "api_endpoint_contract list" where
  "api_endpoint_contracts =
     platform_endpoints
     @ hr_endpoints
     @ payroll_endpoints
     @ workflow_endpoints
     @ approval_endpoints
     @ archive_endpoints
     @ settings_endpoints
     @ auth_endpoints
     @ admin_endpoints"

section \<open>The endpoints and the authorisation\<close>

definition endpoint_guarded :: "api_endpoint_contract \<Rightarrow> bool" where
  "endpoint_guarded e \<longleftrightarrow>
     (if aec_auth_operation e = ''public'' then aec_method e = ''GET'' \<and> aec_object_lifecycle e = []
      else aec_auth_operation e \<in> set (map operation_id all_operations))"

lemma endpoints_guarded: "list_all endpoint_guarded api_endpoint_contracts"
  by code_simp

text \<open>No two endpoints answer the same method and path.\<close>

lemma endpoints_distinct: "distinct (map (\<lambda>e. (aec_method e, aec_path e)) api_endpoint_contracts)"
  by code_simp

lemma authorize_known_operation:
  "\<exists>d. authorize_operation loaded now config (operation_id a) = Inr d \<and> rad_operation d = operation_id a
     \<and> (rad_allowed d \<longrightarrow> session_authenticated now config)"
proof -
  have "operation_parse (operation_id a) = Some a" using operation_id_facts[of a] by simp
  then show ?thesis
    by (cases loaded) (simp_all add: authorize_operation_def session_authorization_decision_def Let_def evaluated_operation
        policy_invalid_def session_authorization_request_def)
qed



end
