(* ===== verification/Cloud_Audit.thy ===== *)
theory Cloud_Audit
  imports Sql_Client
begin

text \<open>
  The audit of a deployment's environment, \<open>crates/payroll-api/src/bin/cloud_native_audit_worker.rs\<close>:
  a list of checks of single variables, what is missing of them, and the status that the exit code
  reports.  The environment is a parameter.
\<close>

section \<open>Data\<close>

datatype cloud_native_audit_status = AuditReady | AuditBlocked

datatype cloud_native_audit_check_state = CheckReady | CheckBlocked

record cloud_native_audit_check =
  cac_id :: string
  cac_control :: string
  cac_state :: cloud_native_audit_check_state
  cac_evidence :: string

record cloud_native_audit_report =
  car_schema :: string
  car_status :: cloud_native_audit_status
  car_audit_event_schema :: string
  car_checks :: "cloud_native_audit_check list"
  car_missing_env :: "string list"
  car_redacted_postgres_dsn :: "string option"

definition cloud_native_audit_worker_schema :: string where
  "cloud_native_audit_worker_schema = ''bitween.cloud-native-audit-worker.v1''"

definition audit_event_schema :: string where
  "audit_event_schema = ''bitween.audit-event.v1''"

section \<open>The checks\<close>

definition audit_env_get :: "env_vars \<Rightarrow> string \<Rightarrow> string option" where
  "audit_env_get env key = opt_filter (\<lambda>v. trim v \<noteq> []) (env key)"

type_synonym audit_progress = "cloud_native_audit_check list \<times> string list"

definition push_presence_check ::
    "env_vars \<Rightarrow> string \<Rightarrow> string \<Rightarrow> string \<Rightarrow> string \<Rightarrow> audit_progress \<Rightarrow> audit_progress" where
  "push_presence_check env id0 control env_key ready_evidence progress =
     (let (checks, missing_env) = progress;
          is_ready = audit_env_get env env_key \<noteq> None
      in (checks @ [\<lparr>cac_id = id0, cac_control = control,
             cac_state = (if is_ready then CheckReady else CheckBlocked),
             cac_evidence = (if is_ready then ready_evidence else ''required environment value is absent'')\<rparr>],
          if is_ready then missing_env else missing_env @ [env_key]))"

definition push_value_check ::
    "env_vars \<Rightarrow> string \<Rightarrow> string \<Rightarrow> string \<Rightarrow> string option \<Rightarrow> string \<Rightarrow> audit_progress \<Rightarrow> audit_progress" where
  "push_value_check env id0 control env_key expected ready_evidence progress =
     (let (checks, missing_env) = progress;
          actual = audit_env_get env env_key;
          is_ready = (case (actual, expected) of
              (Some a, Some e) \<Rightarrow> a = e
            | (Some _, None) \<Rightarrow> True
            | (None, _) \<Rightarrow> False)
      in (checks @ [\<lparr>cac_id = id0, cac_control = control,
             cac_state = (if is_ready then CheckReady else CheckBlocked),
             cac_evidence = (if is_ready then ready_evidence
               else if actual \<noteq> None then ''configured value does not match the production contract''
               else ''required environment value is absent'')\<rparr>],
          if actual = None then missing_env @ [env_key] else missing_env))"

text \<open>The calls that the audit makes, in their order.\<close>

datatype audit_call =
    PresenceCheck (call_id: string) (call_control: string) (call_key: string) (call_evidence: string)
  | ValueCheck (call_id: string) (call_control: string) (call_key: string) (call_expected: "string option")
      (call_evidence: string)

fun push_check :: "env_vars \<Rightarrow> audit_progress \<Rightarrow> audit_call \<Rightarrow> audit_progress" where
  "push_check env progress (PresenceCheck id0 control env_key evidence) =
     push_presence_check env id0 control env_key evidence progress"
| "push_check env progress (ValueCheck id0 control env_key expected evidence) =
     push_value_check env id0 control env_key expected evidence progress"

definition audit_calls :: "audit_call list" where
  "audit_calls =
     [ValueCheck ''auth-required'' ''identity'' ''BITWEEN_AUTH_REQUIRED'' (Some ''true'') ''authentication required flag is true'',
      PresenceCheck ''postgres-dsn'' ''relational-store'' ''BITWEEN_POSTGRES_DSN'' ''PostgreSQL DSN is supplied by Secret'',
      ValueCheck ''postgres-tls'' ''relational-store'' ''BITWEEN_POSTGRES_TLS_POLICY'' (Some ''verify-full'') ''PostgreSQL TLS policy is verify-full'',
      PresenceCheck ''postgres-tenant-scope'' ''tenant-isolation'' ''BITWEEN_POSTGRES_TENANT_ID'' ''PostgreSQL tenant scope is configured'',
      PresenceCheck ''postgres-legal-entity-scope'' ''tenant-isolation'' ''BITWEEN_POSTGRES_LEGAL_ENTITY_ID'' ''PostgreSQL legal-entity scope is configured'',
      PresenceCheck ''postgres-workplace-scope'' ''tenant-isolation'' ''BITWEEN_POSTGRES_WORKPLACE_ID'' ''PostgreSQL workplace scope is configured'',
      PresenceCheck ''rustfs-endpoint'' ''object-store'' ''BITWEEN_RUSTFS_ENDPOINT'' ''RustFS endpoint is configured'',
      ValueCheck ''rustfs-archive-bucket'' ''object-store'' ''BITWEEN_RUSTFS_BUCKET'' (Some ''bitween-archive-originals'') ''RustFS archive bucket is the governed originals bucket'',
      PresenceCheck ''rustfs-evidence-bucket'' ''object-store'' ''BITWEEN_RUSTFS_BUCKET_EVIDENCE'' ''RustFS audit evidence bucket is configured'',
      PresenceCheck ''rustfs-access-key'' ''object-store'' ''BITWEEN_RUSTFS_ACCESS_KEY'' ''RustFS access key is supplied by Secret'',
      PresenceCheck ''rustfs-secret-key'' ''object-store'' ''BITWEEN_RUSTFS_SECRET_KEY'' ''RustFS secret key is supplied by Secret'',
      PresenceCheck ''audit-export-bucket'' ''audit-stream'' ''BITWEEN_AUDIT_EXPORT_BUCKET'' ''audit export bucket is configured'',
      ValueCheck ''audit-event-stream'' ''audit-stream'' ''BITWEEN_AUDIT_EVENT_STREAM'' (Some ''postgres+otel'') ''audit events are declared for PostgreSQL and OpenTelemetry sinks'',
      PresenceCheck ''otel-service-name'' ''observability'' ''BITWEEN_OTEL_SERVICE_NAME'' ''OpenTelemetry service name is configured'',
      PresenceCheck ''otel-exporter'' ''observability'' ''BITWEEN_OTEL_EXPORTER_OTLP_ENDPOINT'' ''OpenTelemetry OTLP endpoint is configured'']"

definition run_cloud_native_audit :: "env_vars \<Rightarrow> cloud_native_audit_report" where
  "run_cloud_native_audit env =
     (let (checks, missing_env) = foldl (push_check env) ([], []) audit_calls;
          status = (if list_all (\<lambda>c. cac_state c = CheckReady) checks then AuditReady else AuditBlocked)
      in \<lparr>car_schema = cloud_native_audit_worker_schema, car_status = status,
          car_audit_event_schema = audit_event_schema, car_checks = checks, car_missing_env = missing_env,
          car_redacted_postgres_dsn =
            map_option (\<lambda>_. ''postgres://<redacted>'') (audit_env_get env ''BITWEEN_POSTGRES_DSN'')\<rparr>)"

text \<open>The exit code of the program.\<close>

definition cloud_native_audit_exit :: "env_vars \<Rightarrow> nat" where
  "cloud_native_audit_exit env = (if car_status (run_cloud_native_audit env) = AuditBlocked then 2 else 0)"

section \<open>What a report says\<close>

fun call_met :: "env_vars \<Rightarrow> audit_call \<Rightarrow> bool" where
  "call_met env (PresenceCheck _ _ key _) \<longleftrightarrow> audit_env_get env key \<noteq> None"
| "call_met env (ValueCheck _ _ key expected _) \<longleftrightarrow>
     audit_env_get env key \<noteq> None \<and> (expected \<noteq> None \<longrightarrow> audit_env_get env key = expected)"

lemma push_check_state:
  assumes "push_check env (checks, missing) call = (checks', missing')"
  shows "missing' = (if audit_env_get env (call_key call) = None then missing @ [call_key call] else missing)
    \<and> map (\<lambda>c. (cac_id c, cac_state c)) checks' = map (\<lambda>c. (cac_id c, cac_state c)) checks
        @ [(call_id call, if call_met env call then CheckReady else CheckBlocked)]"
  using assms by (cases call) (auto simp: push_presence_check_def push_value_check_def Let_def split: option.splits)

lemma push_checks_state:
  assumes "foldl (push_check env) (checks, missing) calls = (checks', missing')"
  shows "missing' = missing @ filter (\<lambda>key. audit_env_get env key = None) (map call_key calls)
    \<and> map (\<lambda>c. (cac_id c, cac_state c)) checks' = map (\<lambda>c. (cac_id c, cac_state c)) checks
        @ map (\<lambda>call. (call_id call, if call_met env call then CheckReady else CheckBlocked)) calls"
  using assms
proof (induction calls arbitrary: checks missing)
  case (Cons call calls)
  obtain checks1 missing1 where p: "push_check env (checks, missing) call = (checks1, missing1)"
    by (cases "push_check env (checks, missing) call") auto
  from Cons.prems p have "foldl (push_check env) (checks1, missing1) calls = (checks', missing')" by simp
  from Cons.IH[OF this] push_check_state[OF p] show ?case by auto
qed simp

lemma states_ready:
  "list_all (\<lambda>c. cac_state c = CheckReady) checks \<longleftrightarrow> list_all (\<lambda>p. snd p = CheckReady) (map (\<lambda>c. (cac_id c, cac_state c)) checks)"
  by (simp add: list.pred_map o_def)

lemma audit_keys: "map call_key audit_calls = [''BITWEEN_AUTH_REQUIRED'',
     ''BITWEEN_POSTGRES_DSN'',
     ''BITWEEN_POSTGRES_TLS_POLICY'',
     ''BITWEEN_POSTGRES_TENANT_ID'',
     ''BITWEEN_POSTGRES_LEGAL_ENTITY_ID'',
     ''BITWEEN_POSTGRES_WORKPLACE_ID'',
     ''BITWEEN_RUSTFS_ENDPOINT'',
     ''BITWEEN_RUSTFS_BUCKET'',
     ''BITWEEN_RUSTFS_BUCKET_EVIDENCE'',
     ''BITWEEN_RUSTFS_ACCESS_KEY'',
     ''BITWEEN_RUSTFS_SECRET_KEY'',
     ''BITWEEN_AUDIT_EXPORT_BUCKET'',
     ''BITWEEN_AUDIT_EVENT_STREAM'',
     ''BITWEEN_OTEL_SERVICE_NAME'',
     ''BITWEEN_OTEL_EXPORTER_OTLP_ENDPOINT'']"
  by (simp add: audit_calls_def)

lemma audit_report:
  "car_missing_env (run_cloud_native_audit env) = filter (\<lambda>key. audit_env_get env key = None) (map call_key audit_calls)
   \<and> map (\<lambda>c. (cac_id c, cac_state c)) (car_checks (run_cloud_native_audit env)) =
       map (\<lambda>call. (call_id call, if call_met env call then CheckReady else CheckBlocked)) audit_calls
   \<and> (car_status (run_cloud_native_audit env) = AuditReady) = list_all (call_met env) audit_calls"
proof -
  obtain checks missing where r: "foldl (push_check env) ([], []) audit_calls = (checks, missing)"
    by (cases "foldl (push_check env) ([], []) audit_calls") auto
  note s = push_checks_state[OF r]
  have "list_all (\<lambda>c. cac_state c = CheckReady) checks = list_all (call_met env) audit_calls"
    unfolding states_ready using s by (auto simp: list_all_iff)
  with s show ?thesis by (simp add: run_cloud_native_audit_def r)
qed

text \<open>
  The audit is ready, and the exit code 0, exactly when every check is met; a report lists as
  missing exactly the variables that are absent or blank, in the order of the checks.  And an
  environment that passes gives the store a configuration that verifies the server's certificate
  and host name.
\<close>

theorem audit_ready_exact:
  "(car_status (run_cloud_native_audit env) = AuditReady) = list_all (call_met env) audit_calls
   \<and> (cloud_native_audit_exit env = 0) = list_all (call_met env) audit_calls
   \<and> car_missing_env (run_cloud_native_audit env)
       = filter (\<lambda>key. audit_env_get env key = None) (map call_key audit_calls)
   \<and> (list_all (call_met env) audit_calls \<longrightarrow>
        tls_policy_parse (env ''BITWEEN_POSTGRES_TLS_POLICY'') = Inr VerifyFull
        \<and> car_redacted_postgres_dsn (run_cloud_native_audit env) = Some ''postgres://<redacted>'')"
proof -
  have ready: "(car_status (run_cloud_native_audit env) = AuditReady) = list_all (call_met env) audit_calls"
    using audit_report by blast
  have exit0: "(cloud_native_audit_exit env = 0) = (car_status (run_cloud_native_audit env) = AuditReady)"
    by (cases "car_status (run_cloud_native_audit env)") (simp_all add: cloud_native_audit_exit_def)
  have "tls_policy_parse (env ''BITWEEN_POSTGRES_TLS_POLICY'') = Inr VerifyFull
        \<and> car_redacted_postgres_dsn (run_cloud_native_audit env) = Some ''postgres://<redacted>''"
    if met: "list_all (call_met env) audit_calls"
  proof -
    have "audit_env_get env ''BITWEEN_POSTGRES_TLS_POLICY'' = Some ''verify-full''"
      "audit_env_get env ''BITWEEN_POSTGRES_DSN'' \<noteq> None"
      using met by (simp_all add: audit_calls_def)
    moreover have "tls_policy_parse (Some ''verify-full'') = Inr VerifyFull" by code_simp
    ultimately show ?thesis
      by (cases "env ''BITWEEN_POSTGRES_TLS_POLICY''")
        (auto simp: audit_env_get_def run_cloud_native_audit_def split: prod.split if_splits)
  qed
  with ready exit0 audit_report[of env] show ?thesis by blast
qed

definition sample_audit_env :: env_vars where
  "sample_audit_env =
     map_of ((''BITWEEN_AUTH_REQUIRED'', ''true'') # (''BITWEEN_POSTGRES_TLS_POLICY'', ''verify-full'')
       # (''BITWEEN_RUSTFS_BUCKET'', ''bitween-archive-originals'') # (''BITWEEN_AUDIT_EVENT_STREAM'', ''postgres+otel'')
       # map (\<lambda>key. (key, ''x'')) (map call_key audit_calls))"

theorem audit_ready_exact_witness:
  "cloud_native_audit_exit sample_audit_env = 0
   \<and> tls_policy_parse (sample_audit_env ''BITWEEN_POSTGRES_TLS_POLICY'') = Inr VerifyFull
   \<and> car_missing_env (run_cloud_native_audit (\<lambda>_. None)) = map call_key audit_calls"
proof -
  have "list_all (call_met sample_audit_env) audit_calls" by code_simp
  with audit_ready_exact[of sample_audit_env] audit_ready_exact[of "\<lambda>_. None"] show ?thesis
    by (simp add: audit_env_get_def)
qed

end
