(* ===== verification/Spec2Isabelle.thy ===== *)
theory Spec2Isabelle
  imports Reconciliation Salary Site_Benefits Edi_Insurance Employment_Insurance_65
    Execution_Plan Response Service Access Authz_Document
    Trip_Permissions Business_Trip Workflow_Inbox Workflow_Follow_Up Workflow_Forms
    Attendance Invoice_Audit Auth_Session Postgres_Repository Archive_Intake Archive_Sync Workflow_Template_Laws
    User_Preferences Hr_Employee_Store Payroll_Run
    Schema_Contracts Api_Contract Cloud_Audit
begin

text \<open>Root theory.\<close>

end
